(* ===== verification/Prelude.thy ===== *)
theory Prelude
  imports Complex_Main "HOL-Library.Word" "HOL-Library.State_Monad"
begin

text \<open>
  Shared vocabulary of the development: the machine integer types, the C string comparison the
  sources use, and two small program logics over the library's state monad, in which the
  effectful C functions are written.

  \<^item> \<open>wp m Q s\<close> says that running \<open>m\<close> from \<open>s\<close> ends in a result and a state that satisfy \<open>Q\<close>;
    the rules of the collection \<open>wp_simps\<close> compute it along the structure of a \<open>do\<close> block.
  \<^item> \<open>emits tr P m\<close> says that \<open>m\<close> only adds events satisfying \<open>P\<close> to the ghost trace \<open>tr\<close>, whatever
    its environment answers; the rules of \<open>emits_intros\<close> decompose it the same way.
\<close>

section \<open>Machine types and C strings\<close>

type_synonym u8 = "8 word"
type_synonym u16 = "16 word"
type_synonym u32 = "32 word"
type_synonym u64 = "64 word"

text \<open>A \<open>char\<close> array is the list of its bytes; the C string it holds ends before the first NUL.\<close>

definition c_string :: "string \<Rightarrow> string" where
  "c_string s = takeWhile (\<lambda>c. c \<noteq> CHR 0x00) s"

definition strcmp_eq :: "string \<Rightarrow> string \<Rightarrow> bool" where
  "strcmp_eq a b \<longleftrightarrow> c_string a = c_string b"

definition strncmp_eq :: "nat \<Rightarrow> string \<Rightarrow> string \<Rightarrow> bool" where
  "strncmp_eq n a b \<longleftrightarrow> take n (c_string a) = take n (c_string b)"

lemma strcmp_eq_refl [simp]: "strcmp_eq a a"
  by (simp add: strcmp_eq_def)

lemma strncmp_eq_refl [simp]: "strncmp_eq n a a"
  by (simp add: strncmp_eq_def)

section \<open>Index ranges of the fixed arrays\<close>

lemma all_less_2: "(\<forall>i < (2::nat). P i) \<longleftrightarrow> P 0 \<and> P 1"
  by (auto simp: numeral_2_eq_2 less_Suc_eq)

lemma all_less_3: "(\<forall>i < (3::nat). P i) \<longleftrightarrow> P 0 \<and> P 1 \<and> P 2"
  by (auto simp: numeral_3_eq_3 numeral_2_eq_2 less_Suc_eq)

lemma upt_0_2: "[0..<2] = [0, Suc 0]"
  by (simp add: upt_rec)

lemma upt_0_3: "[0..<3] = [0, Suc 0, 2]"
  by (simp add: upt_rec)

lemma upt_1_3: "[Suc 0..<3] = [Suc 0, 2]"
  by (simp add: upt_rec)

lemma upt_0_5: "[0..<5] = [0, Suc 0, 2, 3, 4]"
  by (simp add: upt_rec)

lemmas upt_small = upt_0_2 upt_0_3 upt_1_3 upt_0_5

section \<open>Short-circuit connectives and weakest preconditions\<close>

abbreviation ret :: "'a \<Rightarrow> ('s, 'a) state" where
  "ret \<equiv> State_Monad.return"

definition and_then :: "('s, bool) state \<Rightarrow> ('s, bool) state \<Rightarrow> ('s, bool) state" where
  "and_then m n = do { b \<leftarrow> m; if b then n else ret False }"

definition or_else :: "('s, bool) state \<Rightarrow> ('s, bool) state \<Rightarrow> ('s, bool) state" where
  "or_else m n = do { b \<leftarrow> m; if b then ret True else n }"

definition negated :: "('s, bool) state \<Rightarrow> ('s, bool) state" where
  "negated m = do { b \<leftarrow> m; ret (\<not> b) }"

definition wp :: "('s, 'a) state \<Rightarrow> ('a \<Rightarrow> 's \<Rightarrow> bool) \<Rightarrow> 's \<Rightarrow> bool" where
  "wp m Q s = (case run_state m s of (a, s') \<Rightarrow> Q a s')"

named_theorems wp_simps "computation rules of the weakest precondition"

lemma wp_return [wp_simps]: "wp (ret x) Q s = Q x s"
  by (simp add: wp_def)

lemma wp_bind [wp_simps]: "wp (m \<bind> f) Q s = wp m (\<lambda>a. wp (f a) Q) s"
  by (simp add: wp_def split: prod.splits)

lemma wp_if [wp_simps]: "wp (if b then m else n) Q s = (if b then wp m Q s else wp n Q s)"
  by simp

lemma wp_let [wp_simps]: "wp (let x = a in f x) Q s = (let x = a in wp (f x) Q s)"
  by simp

lemma wp_case_option [wp_simps]:
  "wp (case v of None \<Rightarrow> m | Some x \<Rightarrow> f x) Q s =
   (case v of None \<Rightarrow> wp m Q s | Some x \<Rightarrow> wp (f x) Q s)"
  by (cases v) auto

lemma wp_case_prod [wp_simps]:
  "wp (case p of (x, y) \<Rightarrow> f x y) Q s = (case p of (x, y) \<Rightarrow> wp (f x y) Q s)"
  by (cases p) auto

lemma wp_State [wp_simps]: "wp (State f) Q s = (case f s of (a, s') \<Rightarrow> Q a s')"
  by (simp add: wp_def)

lemma wp_and_then [wp_simps]:
  "wp (and_then m n) Q s = wp m (\<lambda>b s'. if b then wp n Q s' else Q False s') s"
  by (simp add: and_then_def wp_bind wp_def split: prod.splits if_splits)

lemma wp_or_else [wp_simps]:
  "wp (or_else m n) Q s = wp m (\<lambda>b s'. if b then Q True s' else wp n Q s') s"
  by (simp add: or_else_def wp_bind wp_def split: prod.splits if_splits)

lemma wp_negated [wp_simps]: "wp (negated m) Q s = wp m (\<lambda>b. Q (\<not> b)) s"
  by (simp add: negated_def wp_def split: prod.splits)

lemma wp_mono: "wp m Q s \<Longrightarrow> (\<And>a s'. Q a s' \<Longrightarrow> R a s') \<Longrightarrow> wp m R s"
  by (simp add: wp_def split: prod.splits)

lemma wp_conjI: "wp m Q s \<Longrightarrow> wp m R s \<Longrightarrow> wp m (\<lambda>a s'. Q a s' \<and> R a s') s"
  by (simp add: wp_def split: prod.splits)

lemma wp_True [simp]: "wp m (\<lambda>a s'. True) s"
  by (simp add: wp_def split: prod.splits)

lemma wpD: "wp m Q s \<Longrightarrow> run_state m s = (a, s') \<Longrightarrow> Q a s'"
  by (simp add: wp_def)

lemma wp_any: "(\<And>r s'. Q r s') \<Longrightarrow> wp m Q s"
  by (simp add: wp_def split: prod.splits)

lemma wp_fst: "wp m (\<lambda>r s'. P r) s \<Longrightarrow> P (fst (run_state m s))"
  by (simp add: wp_def split: prod.splits)

lemma wp_snd: "wp m (\<lambda>r. P) s \<Longrightarrow> P (snd (run_state m s))"
  by (simp add: wp_def split: prod.splits)

lemma wpI: "(\<And>a s'. run_state m s = (a, s') \<Longrightarrow> Q a s') \<Longrightarrow> wp m Q s"
  by (simp add: wp_def split: prod.splits)

named_theorems wp_intros "introduction rules that split a program into its paths"

lemma wp_returnI [wp_intros]: "Q x s \<Longrightarrow> wp (ret x) Q s"
  by (simp add: wp_return)

lemma wp_bindI [wp_intros]: "wp m (\<lambda>a. wp (f a) Q) s \<Longrightarrow> wp (m \<bind> f) Q s"
  by (simp add: wp_bind)

lemma wp_ifI [wp_intros]:
  "(b \<Longrightarrow> wp m Q s) \<Longrightarrow> (\<not> b \<Longrightarrow> wp n Q s) \<Longrightarrow> wp (if b then m else n) Q s"
  by simp

lemma if_boolI [wp_intros]: "(b \<Longrightarrow> P) \<Longrightarrow> (\<not> b \<Longrightarrow> Q) \<Longrightarrow> if b then P else Q"
  by simp

lemma wp_letI [wp_intros]: "wp (f a) Q s \<Longrightarrow> wp (let x = a in f x) Q s"
  by simp

lemma wp_case_prodI [wp_intros]:
  "(\<And>x y. p = (x, y) \<Longrightarrow> wp (f x y) Q s) \<Longrightarrow> wp (case p of (x, y) \<Rightarrow> f x y) Q s"
  by (cases p) auto

lemma wp_case_optionI [wp_intros]:
  "(v = None \<Longrightarrow> wp m Q s) \<Longrightarrow> (\<And>x. v = Some x \<Longrightarrow> wp (f x) Q s) \<Longrightarrow>
   wp (case v of None \<Rightarrow> m | Some x \<Rightarrow> f x) Q s"
  by (cases v) auto

lemma wp_case_boolI [wp_intros]:
  "(v \<Longrightarrow> wp m Q s) \<Longrightarrow> (\<not> v \<Longrightarrow> wp n Q s) \<Longrightarrow> wp (case v of True \<Rightarrow> m | False \<Rightarrow> n) Q s"
  by (cases v) auto

lemma wp_case_sumI [wp_intros]:
  "(\<And>x. v = Inl x \<Longrightarrow> wp (f x) Q s) \<Longrightarrow> (\<And>y. v = Inr y \<Longrightarrow> wp (g y) Q s) \<Longrightarrow>
   wp (case v of Inl x \<Rightarrow> f x | Inr y \<Rightarrow> g y) Q s"
  by (cases v) auto

lemma wp_and_thenI [wp_intros]:
  "wp m (\<lambda>b s'. if b then wp n Q s' else Q False s') s \<Longrightarrow> wp (and_then m n) Q s"
  by (simp add: wp_and_then)

lemma wp_or_elseI [wp_intros]:
  "wp m (\<lambda>b s'. if b then Q True s' else wp n Q s') s \<Longrightarrow> wp (or_else m n) Q s"
  by (simp add: wp_or_else)

lemma wp_negatedI [wp_intros]: "wp m (\<lambda>b. Q (\<not> b)) s \<Longrightarrow> wp (negated m) Q s"
  by (simp add: wp_negated)

section \<open>Ghost traces\<close>

definition emits :: "('s \<Rightarrow> 'e list) \<Rightarrow> ('e \<Rightarrow> bool) \<Rightarrow> ('s, 'a) state \<Rightarrow> bool" where
  "emits tr P m \<longleftrightarrow>
     (\<forall>s. \<exists>es. tr (snd (run_state m s)) = es @ tr s \<and> (\<forall>e \<in> set es. P e))"

named_theorems emits_intros "introduction rules of emits"

lemma emits_return [emits_intros]: "emits tr P (ret x)"
  by (auto simp: emits_def)

lemma emits_bind [emits_intros]:
  assumes "emits tr P m" and "\<And>x. emits tr P (f x)"
  shows "emits tr P (m \<bind> f)"
  unfolding emits_def
proof
  fix s
  obtain a s' where m: "run_state m s = (a, s')" by fastforce
  obtain es where es: "tr s' = es @ tr s" "\<forall>e \<in> set es. P e"
    using assms(1) m unfolding emits_def by (metis snd_conv)
  obtain fs where fs: "tr (snd (run_state (f a) s')) = fs @ tr s'" "\<forall>e \<in> set fs. P e"
    using assms(2) unfolding emits_def by blast
  have "tr (snd (run_state (m \<bind> f) s)) = (fs @ es) @ tr s" "\<forall>e \<in> set (fs @ es). P e"
    using es fs by (auto simp: m)
  then show "\<exists>es. tr (snd (run_state (m \<bind> f) s)) = es @ tr s \<and> (\<forall>e \<in> set es. P e)"
    by blast
qed

lemma emits_if [emits_intros]:
  "(b \<Longrightarrow> emits tr P m) \<Longrightarrow> (\<not> b \<Longrightarrow> emits tr P n) \<Longrightarrow> emits tr P (if b then m else n)"
  by simp

lemma emits_let [emits_intros]: "(\<And>x. emits tr P (f x)) \<Longrightarrow> emits tr P (let x = a in f x)"
  by simp

lemma emits_case_option [emits_intros]:
  "(v = None \<Longrightarrow> emits tr P m) \<Longrightarrow> (\<And>x. v = Some x \<Longrightarrow> emits tr P (f x)) \<Longrightarrow>
   emits tr P (case v of None \<Rightarrow> m | Some x \<Rightarrow> f x)"
  by (cases v) auto

lemma emits_case_sum [emits_intros]:
  "(\<And>x. v = Inl x \<Longrightarrow> emits tr P (f x)) \<Longrightarrow> (\<And>y. v = Inr y \<Longrightarrow> emits tr P (g y)) \<Longrightarrow>
   emits tr P (case v of Inl x \<Rightarrow> f x | Inr y \<Rightarrow> g y)"
  by (cases v) auto

lemma emits_case_bool [emits_intros]:
  "(v \<Longrightarrow> emits tr P m) \<Longrightarrow> (\<not> v \<Longrightarrow> emits tr P n) \<Longrightarrow>
   emits tr P (case v of True \<Rightarrow> m | False \<Rightarrow> n)"
  by (cases v) auto

lemma emits_case_prod [emits_intros]:
  "(\<And>x y. p = (x, y) \<Longrightarrow> emits tr P (f x y)) \<Longrightarrow> emits tr P (case p of (x, y) \<Rightarrow> f x y)"
  by (cases p) auto

lemma emits_and_then [emits_intros]:
  "emits tr P m \<Longrightarrow> emits tr P n \<Longrightarrow> emits tr P (and_then m n)"
  unfolding and_then_def by (intro emits_intros) auto

lemma emits_or_else [emits_intros]:
  "emits tr P m \<Longrightarrow> emits tr P n \<Longrightarrow> emits tr P (or_else m n)"
  unfolding or_else_def by (intro emits_intros) auto

lemma emits_negated [emits_intros]: "emits tr P m \<Longrightarrow> emits tr P (negated m)"
  unfolding negated_def by (intro emits_intros) auto

lemma emits_silent: "(\<And>s. tr (snd (f s)) = tr s) \<Longrightarrow> emits tr P (State f)"
  by (simp add: emits_def)

lemma emitsD:
  assumes "emits tr P m" and "run_state m s = (a, s')"
  obtains es where "tr s' = es @ tr s" and "\<forall>e \<in> set es. P e"
  using assms unfolding emits_def by (metis snd_conv)

text \<open>What a program always returns, and how it restricts what follows.\<close>

definition yields :: "('a \<Rightarrow> bool) \<Rightarrow> ('s, 'a) state \<Rightarrow> bool" where
  "yields R m \<longleftrightarrow> (\<forall>s. R (fst (run_state m s)))"

lemma wp_yields: "(\<And>s. wp m (\<lambda>r s'. R r) s) \<Longrightarrow> yields R m"
  by (simp add: yields_def wp_def split_def)

lemma yieldsD: "yields R m \<Longrightarrow> run_state m s = (r, s') \<Longrightarrow> R r"
  by (metis fst_conv yields_def)

lemma emits_bind_yields:
  assumes "yields R m" "emits tr P m" "\<And>x. R x \<Longrightarrow> emits tr P (f x)"
  shows "emits tr P (m \<bind> f)"
proof -
  have "emits tr P (m \<bind> f)" if "\<And>s. R (fst (run_state m s))"
    unfolding emits_def
  proof
    fix s
    obtain a s' where m: "run_state m s = (a, s')" by fastforce
    with that[of s] have "R a" by simp
    obtain es where es: "tr s' = es @ tr s" "\<forall>e \<in> set es. P e"
      using emitsD[OF assms(2) m] by blast
    obtain fs where fs: "tr (snd (run_state (f a) s')) = fs @ tr s'" "\<forall>e \<in> set fs. P e"
      using assms(3)[OF \<open>R a\<close>] unfolding emits_def by blast
    have "tr (snd (run_state (m \<bind> f) s)) = (fs @ es) @ tr s" "\<forall>e \<in> set (fs @ es). P e"
      using es fs by (auto simp: m)
    then show "\<exists>es. tr (snd (run_state (m \<bind> f) s)) = es @ tr s \<and> (\<forall>e \<in> set es. P e)"
      by blast
  qed
  with assms(1) show ?thesis by (simp add: yields_def)
qed

lemma emits_mono: "emits tr P m \<Longrightarrow> (\<And>e. P e \<Longrightarrow> Q e) \<Longrightarrow> emits tr Q m"
  unfolding emits_def by meson

section \<open>Programs that leave a part of the state alone\<close>

definition keeps :: "('s \<Rightarrow> 'k) \<Rightarrow> ('s, 'a) state \<Rightarrow> bool" where
  "keeps f m \<longleftrightarrow> (\<forall>s. f (snd (run_state m s)) = f s)"

named_theorems keeps_intros "introduction rules of keeps"

lemma keeps_return [keeps_intros]: "keeps f (ret x)"
  by (simp add: keeps_def)

lemma keeps_bind [keeps_intros]: "keeps f m \<Longrightarrow> (\<And>x. keeps f (g x)) \<Longrightarrow> keeps f (m \<bind> g)"
  by (simp add: keeps_def split_def)

lemma keeps_if [keeps_intros]:
  "(b \<Longrightarrow> keeps f m) \<Longrightarrow> (\<not> b \<Longrightarrow> keeps f n) \<Longrightarrow> keeps f (if b then m else n)"
  by simp

lemma keeps_let [keeps_intros]: "keeps f (g a) \<Longrightarrow> keeps f (let x = a in g x)"
  by simp

lemma keeps_case_option [keeps_intros]:
  "(v = None \<Longrightarrow> keeps f m) \<Longrightarrow> (\<And>x. v = Some x \<Longrightarrow> keeps f (g x)) \<Longrightarrow>
   keeps f (case v of None \<Rightarrow> m | Some x \<Rightarrow> g x)"
  by (cases v) auto

lemma keeps_case_sum [keeps_intros]:
  "(\<And>x. v = Inl x \<Longrightarrow> keeps f (g x)) \<Longrightarrow> (\<And>y. v = Inr y \<Longrightarrow> keeps f (h y)) \<Longrightarrow>
   keeps f (case v of Inl x \<Rightarrow> g x | Inr y \<Rightarrow> h y)"
  by (cases v) auto

lemma keeps_case_prod [keeps_intros]:
  "(\<And>x y. p = (x, y) \<Longrightarrow> keeps f (g x y)) \<Longrightarrow> keeps f (case p of (x, y) \<Rightarrow> g x y)"
  by (cases p) auto

lemma keeps_and_then [keeps_intros]: "keeps f m \<Longrightarrow> keeps f n \<Longrightarrow> keeps f (and_then m n)"
  unfolding and_then_def by (intro keeps_intros) auto

lemma keeps_or_else [keeps_intros]: "keeps f m \<Longrightarrow> keeps f n \<Longrightarrow> keeps f (or_else m n)"
  unfolding or_else_def by (intro keeps_intros) auto

lemma keeps_negated [keeps_intros]: "keeps f m \<Longrightarrow> keeps f (negated m)"
  unfolding negated_def by (intro keeps_intros) auto

text \<open>A kept part carries over to whatever follows.\<close>

lemma wp_keeps: "keeps f m \<Longrightarrow> (\<And>r s'. f s' = f s \<Longrightarrow> Q r s') \<Longrightarrow> wp m Q s"
  by (cases "run_state m s") (simp add: keeps_def wp_def, metis snd_conv)

end
