(* ===== verification/Ieee754.thy ===== *)
theory Ieee754
  imports Prelude "HOL-Library.Log_Nat"
begin

text \<open>
  The C type \<open>double\<close> of the sources: IEEE-754 binary64 with round-to-nearest, ties to even, as on
  the arm64 machines the program targets. A value is a NaN, an infinity, the negative zero, or a
  finite number given by its exact rational value (\<open>Fin 0\<close> is the positive zero). Arithmetic
  computes the exact rational result and rounds it (\<open>round64\<close>), so every rounding and overflow of
  the C expressions is a rounding and overflow of the model; comparisons with a NaN are false.
  A decimal constant of the C text, such as 0.15, is \<open>round64 (15 / 100)\<close>.

  The lemmas show that rounding is monotone (\<open>round_to_mono\<close>), is the identity on representable
  numbers (\<open>round_to_exact'\<close>, \<open>exact64_of_int\<close>) and errs by at most half a unit in the last place
  (\<open>round_to_error\<close>). The second part is the binary32 bit layout the SMC's \<open>flt \<close> keys use, with
  its round trip.
\<close>

section \<open>Rounding\<close>

datatype double = NaN | Infinite bool | NegZero | Fin rat

definition ilog2 :: "rat \<Rightarrow> int" where
  "ilog2 r = (let (n, d) = quotient_of r; k = bitlen n - bitlen d
              in if 2 powi k \<le> r then k else k - 1)"

definition rne :: "rat \<Rightarrow> int" where
  "rne r = (let f = \<lfloor>r\<rfloor>; d = r - of_int f
            in if d < 1 / 2 then f else if 1 / 2 < d then f + 1
               else if even f then f else f + 1)"

definition ulp_exp :: "int \<Rightarrow> int \<Rightarrow> rat \<Rightarrow> int" where
  "ulp_exp p emin r = max (ilog2 \<bar>r\<bar> - (p - 1)) emin"

definition round_to :: "int \<Rightarrow> int \<Rightarrow> rat \<Rightarrow> rat" where
  "round_to p emin r =
     (if r = 0 then 0
      else let u = 2 powi (ulp_exp p emin r) in of_int (rne (r / u)) * u)"

lemma bitlen_pos_bounds:
  assumes "0 < n"
  shows "(2::rat) powi (bitlen n - 1) \<le> of_int n" and "of_int n < (2::rat) powi (bitlen n)"
proof -
  have b: "2 ^ nat (bitlen n - 1) \<le> n" "n < 2 ^ nat (bitlen n)"
    using bitlen_bounds[OF assms] by auto
  have pos: "1 \<le> bitlen n"
    using assms bitlen_eq_zero_iff[of n] bitlen_nonneg[of n] by linarith
  have "(of_int (2 ^ nat (bitlen n - 1)) :: rat) \<le> of_int n"
    using b(1) by (simp only: of_int_le_iff)
  then show "(2::rat) powi (bitlen n - 1) \<le> of_int n"
    using pos by (simp add: power_int_def)
  have "(of_int n :: rat) < of_int (2 ^ nat (bitlen n))"
    using b(2) by (simp only: of_int_less_iff)
  then show "of_int n < (2::rat) powi (bitlen n)"
    using pos by (simp add: power_int_def)
qed

lemma powi2_pos [simp]: "(0::rat) < 2 powi e"
  by simp

lemma powi2_mono: "a \<le> b \<Longrightarrow> (2::rat) powi a \<le> 2 powi b"
  by (rule power_int_increasing) auto

lemma powi2_less: "a < b \<Longrightarrow> (2::rat) powi a < 2 powi b"
  by (rule power_int_strict_increasing) auto

lemma powi2_less_iff: "(2::rat) powi a < 2 powi b \<longleftrightarrow> a < b"
  using powi2_less powi2_mono by (metis linorder_not_less)

lemma powi2_add: "(2::rat) powi (a + b) = 2 powi a * 2 powi b"
  by (simp add: power_int_add)

lemma powi2_diff: "(2::rat) powi (a - b) = 2 powi a / 2 powi b"
  by (simp add: power_int_diff)

lemma ilog2_bounds:
  assumes "0 < r"
  shows "2 powi (ilog2 r) \<le> r" and "r < 2 powi (ilog2 r + 1)"
proof -
  obtain n d where q: "quotient_of r = (n, d)" by fastforce
  have d: "0 < d" and r: "r = of_int n / of_int d"
    using quotient_of_denom_pos[OF q] quotient_of_div[OF q] by auto
  have n: "0 < n" using assms r d by (simp add: zero_less_divide_iff)
  note bn = bitlen_pos_bounds[OF n] and bd = bitlen_pos_bounds[OF d]
  let ?k = "bitlen n - bitlen d"
  have "r < 2 powi (bitlen n) / 2 powi (bitlen d - 1)"
    unfolding r using bn(2) bd(1) d n by (intro frac_less) auto
  also have "\<dots> = 2 powi (?k + 1)"
    by (simp add: powi2_diff powi2_add field_simps)
  finally have up: "r < 2 powi (?k + 1)" .
  have "2 powi (bitlen n - 1) / 2 powi (bitlen d) \<le> r"
    unfolding r using bn(1) bd(2) n d by (intro frac_le) auto
  moreover have "2 powi (bitlen n - 1) / 2 powi (bitlen d) = (2::rat) powi (?k - 1)"
    by (simp add: powi2_diff powi2_add field_simps)
  ultimately have lo: "2 powi (?k - 1) \<le> r" by simp
  show "2 powi (ilog2 r) \<le> r" "r < 2 powi (ilog2 r + 1)"
    using up lo by (auto simp: ilog2_def q Let_def)
qed

lemma ilog2_mono: "0 < r \<Longrightarrow> r \<le> s \<Longrightarrow> ilog2 r \<le> ilog2 s"
proof -
  assume "0 < r" "r \<le> s"
  then have "2 powi (ilog2 r) < (2::rat) powi (ilog2 s + 1)"
    using ilog2_bounds(1)[of r] ilog2_bounds(2)[of s] by linarith
  then show ?thesis by (simp only: powi2_less_iff)
qed

lemma rne_error: "\<bar>of_int (rne r) - r\<bar> \<le> 1 / 2"
proof -
  have "of_int \<lfloor>r\<rfloor> \<le> r" "r < of_int \<lfloor>r\<rfloor> + 1" by linarith+
  moreover have "of_int \<lfloor>r\<rfloor> - r \<le> 1 / 2" using \<open>of_int \<lfloor>r\<rfloor> \<le> r\<close> by linarith
  ultimately show ?thesis by (simp add: rne_def Let_def abs_le_iff)
qed

lemma rne_of_int [simp]: "rne (of_int i) = i"
  by (simp add: rne_def)

lemma rne_0 [simp]: "rne 0 = 0"
  using rne_of_int[of 0] by simp

lemma rne_mono: "r \<le> s \<Longrightarrow> rne r \<le> rne s"
proof -
  assume rs: "r \<le> s"
  have fl: "\<lfloor>r\<rfloor> \<le> \<lfloor>s\<rfloor>" using rs by (rule floor_mono)
  have b: "\<lfloor>q\<rfloor> \<le> rne q \<and> rne q \<le> \<lfloor>q\<rfloor> + 1" for q by (simp add: rne_def Let_def)
  show ?thesis
  proof (cases "\<lfloor>r\<rfloor> = \<lfloor>s\<rfloor>")
    case True
    with rs show ?thesis by (simp add: rne_def Let_def)
  next
    case False
    with fl have "\<lfloor>r\<rfloor> + 1 \<le> \<lfloor>s\<rfloor>" by simp
    with b[of r] b[of s] show ?thesis by linarith
  qed
qed

lemma rne_minus: "rne (- r) = - rne r"
proof (cases "of_int \<lfloor>r\<rfloor> = r")
  case True
  then have "- r = of_int (- \<lfloor>r\<rfloor>)" by (metis of_int_minus)
  then have "rne (- r) = - \<lfloor>r\<rfloor>" by (simp only: rne_of_int)
  moreover have "rne r = \<lfloor>r\<rfloor>" using True by (metis rne_of_int)
  ultimately show ?thesis by simp
next
  case False
  then have fm: "\<lfloor>- r\<rfloor> = - \<lfloor>r\<rfloor> - 1"
    using ceiling_def[of r] ceiling_altdef[of r] by (smt (verit) floor_unique)
  show ?thesis by (auto simp: rne_def Let_def fm)
qed

lemma powi2_mult_cancel [simp]: "x / 2 powi e * 2 powi e = (x::rat)"
  by simp

lemma round_to_0 [simp]: "round_to p emin 0 = 0"
  by (simp add: round_to_def)

lemma round_to_minus: "round_to p emin (- r) = - round_to p emin r"
  by (simp add: round_to_def ulp_exp_def Let_def rne_minus)

lemma round_to_error: "r \<noteq> 0 \<Longrightarrow> \<bar>round_to p emin r - r\<bar> \<le> 2 powi (ulp_exp p emin r) / 2"
proof -
  assume r: "r \<noteq> 0"
  define u :: rat where "u = 2 powi (ulp_exp p emin r)"
  have u: "0 < u" by (simp add: u_def)
  have "round_to p emin r - r = (of_int (rne (r / u)) - r / u) * u"
    using r u by (simp add: round_to_def u_def[symmetric] Let_def field_simps)
  then have "\<bar>round_to p emin r - r\<bar> = \<bar>of_int (rne (r / u)) - r / u\<bar> * u"
    using u by (simp add: abs_mult)
  also have "\<dots> \<le> 1 / 2 * u"
    using rne_error[of "r / u"] u by (intro mult_right_mono) auto
  finally show ?thesis by (simp add: u_def)
qed

text \<open>A multiple of a unit that is not finer than the unit of its binade is representable.\<close>

lemma round_to_exact:
  assumes "r = of_int m * 2 powi e" and "ulp_exp p emin r \<le> e"
  shows "round_to p emin r = r"
proof (cases "r = 0")
  case False
  define u where "u = ulp_exp p emin r"
  have "2 powi e = (2::rat) powi (int (nat (e - u))) * 2 powi u"
    using assms(2) by (simp add: u_def flip: power_int_add)
  then have "2 powi e / (2 powi u) = (of_int (2 ^ nat (e - u)) :: rat)"
    by (simp add: power_int_def)
  then have "r / 2 powi u = of_int (m * 2 ^ nat (e - u))"
    by (simp only: assms(1) of_int_mult times_divide_eq_right[symmetric])
  then show ?thesis
    using False by (simp add: round_to_def Let_def u_def[symmetric] del: of_int_mult of_int_power)
      (simp add: field_simps)
qed simp

lemma ilog2_le: "0 < r \<Longrightarrow> r < 2 powi (k + 1) \<Longrightarrow> ilog2 r \<le> k"
proof -
  assume "0 < r" "r < 2 powi (k + 1)"
  then have "2 powi (ilog2 r) < (2::rat) powi (k + 1)"
    using ilog2_bounds(1)[of r] by linarith
  then show ?thesis by (simp only: powi2_less_iff)
qed

lemma ilog2_powi [simp]: "ilog2 (2 powi k) = k"
proof -
  have "2 powi (ilog2 (2 powi k)) < (2::rat) powi (k + 1)" "(2::rat) powi k < 2 powi (ilog2 (2 powi k) + 1)"
    using ilog2_bounds[of "2 powi k"] powi2_less[of k "k + 1"] by (auto intro: le_less_trans)
  then have "ilog2 (2 powi k) < k + 1" "k < ilog2 (2 powi k) + 1"
    by (simp_all only: powi2_less_iff)
  then show ?thesis by simp
qed

lemma round_to_exact':
  assumes "r = of_int m * 2 powi e" and "\<bar>m\<bar> < 2 ^ nat p" and "emin \<le> e" and "0 \<le> p"
  shows "round_to p emin r = r"
proof (cases "m = 0")
  case True
  then show ?thesis by (simp add: assms(1))
next
  case False
  then have ar: "0 < \<bar>r\<bar>" by (simp add: assms(1))
  have "\<bar>r\<bar> = of_int \<bar>m\<bar> * 2 powi e" by (simp add: assms(1) abs_mult)
  also have "\<dots> < of_int (2 ^ nat p) * 2 powi e"
    using assms(2) by (intro mult_strict_right_mono) (auto simp only: of_int_less_iff powi2_pos)
  also have "\<dots> = 2 powi (p - 1 + e + 1)"
    using assms(4) by (simp add: power_int_add powi2_diff) (simp add: power_int_def)
  finally have "ilog2 \<bar>r\<bar> \<le> p - 1 + e" using ar by (intro ilog2_le)
  then have "ulp_exp p emin r \<le> e" using assms(3) by (simp add: ulp_exp_def)
  with assms(1) show ?thesis by (rule round_to_exact)
qed

lemma rne_le_of_int: "r \<le> of_int k \<Longrightarrow> rne r \<le> k"
  using rne_mono[of r "of_int k"] by simp

lemma of_int_le_rne: "of_int k \<le> r \<Longrightarrow> k \<le> rne r"
  using rne_mono[of "of_int k" r] by simp

lemma rne_nonneg: "0 \<le> r \<Longrightarrow> 0 \<le> rne r"
  using of_int_le_rne[of 0 r] by simp

lemma round_to_nonneg: "0 \<le> r \<Longrightarrow> 0 \<le> round_to p emin r"
  by (simp add: round_to_def Let_def rne_nonneg)

lemma round_to_abs: "round_to p emin \<bar>r\<bar> = \<bar>round_to p emin r\<bar>"
proof (cases "0 \<le> r")
  case True
  then show ?thesis using round_to_nonneg[of r p emin] by simp
next
  case False
  then show ?thesis using round_to_nonneg[of "- r" p emin] by (simp add: round_to_minus)
qed

lemma round_to_bounds_pow:
  assumes "ulp_exp p emin r \<le> k" "0 < r"
  shows "r \<le> 2 powi k \<Longrightarrow> round_to p emin r \<le> 2 powi k"
    and "2 powi k \<le> r \<Longrightarrow> 2 powi k \<le> round_to p emin r"
proof -
  define u where "u = ulp_exp p emin r"
  have "(2::rat) powi k = 2 powi (int (nat (k - u))) * 2 powi u"
    using assms(1) by (simp add: u_def flip: power_int_add)
  then have k: "(2::rat) powi k = of_int (2 ^ nat (k - u)) * 2 powi u"
    by (simp add: power_int_def)
  have rt: "round_to p emin r = of_int (rne (r / 2 powi u)) * 2 powi u"
    using assms(2) by (simp add: round_to_def u_def Let_def)
  show "round_to p emin r \<le> 2 powi k" if "r \<le> 2 powi k"
  proof -
    have "r / 2 powi u \<le> of_int (2 ^ nat (k - u))"
      using that unfolding k by (simp add: divide_le_eq)
    then have "rne (r / 2 powi u) \<le> 2 ^ nat (k - u)" by (rule rne_le_of_int)
    then show ?thesis unfolding rt k
      by (intro mult_right_mono) (auto simp only: of_int_le_iff less_imp_le powi2_pos)
  qed
  show "2 powi k \<le> round_to p emin r" if "2 powi k \<le> r"
  proof -
    have "of_int (2 ^ nat (k - u)) \<le> r / 2 powi u"
      using that unfolding k by (simp add: le_divide_eq)
    then have "2 ^ nat (k - u) \<le> rne (r / 2 powi u)" by (rule of_int_le_rne)
    then show ?thesis unfolding rt k
      by (intro mult_right_mono) (auto simp only: of_int_le_iff less_imp_le powi2_pos)
  qed
qed

lemma round_to_mono_pos:
  assumes "0 < r" "r \<le> s" "1 \<le> p"
  shows "round_to p emin r \<le> round_to p emin s"
proof -
  have s: "0 < s" using assms by simp
  have le: "ulp_exp p emin r \<le> ulp_exp p emin s"
    using ilog2_mono[of r s] assms s by (simp add: ulp_exp_def)
  show ?thesis
  proof (cases "ulp_exp p emin r = ulp_exp p emin s")
    case True
    have "rne (r / 2 powi (ulp_exp p emin s)) \<le> rne (s / 2 powi (ulp_exp p emin s))"
      using assms by (intro rne_mono divide_right_mono) auto
    then show ?thesis using assms s True
      by (simp add: round_to_def Let_def)
  next
    case False
    let ?k = "ilog2 s"
    from False le have *: "ulp_exp p emin s = ?k - (p - 1)" "ulp_exp p emin r \<le> ?k"
      "ilog2 r < ?k"
      using assms s by (auto simp: ulp_exp_def split: if_splits)
    have "r < 2 powi (ilog2 r + 1)" using assms(1) by (rule ilog2_bounds)
    also have "\<dots> \<le> 2 powi ?k" using *(3) by (intro powi2_mono) simp
    finally have "round_to p emin r \<le> 2 powi ?k"
      using *(2) assms by (intro round_to_bounds_pow) auto
    also have "\<dots> \<le> round_to p emin s"
      using * assms s ilog2_bounds(1)[OF s] by (intro round_to_bounds_pow) auto
    finally show ?thesis .
  qed
qed

lemma round_to_mono:
  assumes "r \<le> s" "1 \<le> p"
  shows "round_to p emin r \<le> round_to p emin s"
proof -
  consider "0 < r" | "r \<le> 0" "0 \<le> s" | "s < 0" using assms by linarith
  then show ?thesis
  proof cases
    case 1
    then show ?thesis using assms by (intro round_to_mono_pos)
  next
    case 2
    then show ?thesis
      using round_to_nonneg[of s p emin] round_to_nonneg[of "- r" p emin]
      by (simp add: round_to_minus)
  next
    case 3
    then have "round_to p emin (- s) \<le> round_to p emin (- r)"
      using assms by (intro round_to_mono_pos) auto
    then show ?thesis by (simp add: round_to_minus)
  qed
qed

text \<open>Rounding twice is rounding once, and a power-of-two multiple of a representable number that
  does not underflow is representable.\<close>

lemma round_to_form:
  assumes "r \<noteq> 0" "1 \<le> p"
  obtains m where "round_to p emin r = of_int m * 2 powi (ulp_exp p emin r)" "\<bar>m\<bar> \<le> 2 ^ nat p"
proof
  let ?u = "ulp_exp p emin r"
  show "round_to p emin r = of_int (rne (r / 2 powi ?u)) * 2 powi ?u"
    using assms(1) by (simp add: round_to_def Let_def)
  have "\<bar>r\<bar> < 2 powi (ilog2 \<bar>r\<bar> + 1)" using assms(1) by (intro ilog2_bounds) simp
  also have "\<dots> \<le> 2 powi (p + ?u)" by (intro powi2_mono) (simp add: ulp_exp_def)
  also have "\<dots> = of_int (2 ^ nat p) * 2 powi ?u"
    using assms(2) by (simp add: power_int_add) (simp add: power_int_def)
  finally have "\<bar>r / 2 powi ?u\<bar> \<le> of_int (2 ^ nat p)"
    by (simp add: divide_le_eq)
  then have "r / 2 powi ?u \<le> of_int (2 ^ nat p)" "- (r / 2 powi ?u) \<le> of_int (2 ^ nat p)"
    by (simp_all only: abs_le_iff)
  then have "rne (r / 2 powi ?u) \<le> 2 ^ nat p" "rne (- (r / 2 powi ?u)) \<le> 2 ^ nat p"
    by (blast intro: rne_le_of_int)+
  then show "\<bar>rne (r / 2 powi ?u)\<bar> \<le> 2 ^ nat p" by (simp add: rne_minus abs_le_iff)
qed

lemma round_to_idem:
  assumes "1 \<le> p"
  shows "round_to p emin (round_to p emin r) = round_to p emin r"
proof (cases "r = 0")
  case False
  then obtain m where m: "round_to p emin r = of_int m * 2 powi (ulp_exp p emin r)"
    "\<bar>m\<bar> \<le> 2 ^ nat p" using assms by (rule round_to_form)
  have e: "emin \<le> ulp_exp p emin r" by (simp add: ulp_exp_def)
  show ?thesis
  proof (cases "\<bar>m\<bar> = 2 ^ nat p")
    case True
    then have "m = sgn m * 2 ^ nat p"
      by (simp add: abs_if sgn_if split: if_splits)
    then have "(of_int m :: rat) = of_int (sgn m * 2 ^ nat p)" by (rule arg_cong)
    then have "of_int m = (of_int (sgn m) :: rat) * 2 powi p"
      using assms by (simp add: power_int_def)
    then have "round_to p emin r = of_int (sgn m) * 2 powi (p + ulp_exp p emin r)"
      using m(1) by (simp add: power_int_add)
    then show ?thesis using e assms
      by (intro round_to_exact'[of _ "sgn m" "p + ulp_exp p emin r"]) (auto simp: sgn_if)
  next
    case False
    with m e assms show ?thesis by (intro round_to_exact') auto
  qed
qed simp

lemma round_to_scale:
  assumes "round_to p emin r = r" "1 \<le> p" "0 \<le> k"
  shows "round_to p emin (r * 2 powi k) = r * 2 powi k"
proof (cases "r = 0")
  case False
  obtain m where m: "r = of_int m * 2 powi (ulp_exp p emin r)"
    using round_to_form[OF False assms(2), of emin] assms(1) by metis
  have "\<bar>r * 2 powi k\<bar> < 2 powi (ilog2 \<bar>r\<bar> + k + 1)"
    using False ilog2_bounds(2)[of "\<bar>r\<bar>"]
    by (simp add: abs_mult power_int_add algebra_simps)
  then have "ilog2 \<bar>r * 2 powi k\<bar> \<le> ilog2 \<bar>r\<bar> + k"
    using False by (intro ilog2_le) auto
  then have "ulp_exp p emin (r * 2 powi k) \<le> ulp_exp p emin r + k"
    using assms(3) by (simp add: ulp_exp_def max_def)
  moreover have "r * 2 powi k = of_int m * 2 powi (ulp_exp p emin r + k)"
    by (subst m) (simp add: power_int_add)
  ultimately show ?thesis by (intro round_to_exact)
qed simp

section \<open>The type double and its operations\<close>

text \<open>
  A format has precision \<open>p\<close>, least exponent \<open>emin\<close> of a unit in the last place and overflow
  bound \<open>2 powi emax\<close>; a rounded value that reaches the bound is an infinity.
\<close>

definition round_fmt :: "int \<Rightarrow> int \<Rightarrow> int \<Rightarrow> rat \<Rightarrow> double" where
  "round_fmt p emin emax r =
     (let v = round_to p emin r
      in if 2 powi emax \<le> \<bar>v\<bar> then Infinite (v < 0)
         else if v = 0 \<and> r < 0 then NegZero else Fin v)"

definition round64 :: "rat \<Rightarrow> double" where
  "round64 r = round_fmt 53 (- 1074) 1024 r"

definition round32 :: "rat \<Rightarrow> double" where
  "round32 r = round_fmt 24 (- 149) 128 r"

fun isfinite :: "double \<Rightarrow> bool" where
  "isfinite NaN = False"
| "isfinite (Infinite s) = False"
| "isfinite NegZero = True"
| "isfinite (Fin r) = True"

fun fval :: "double \<Rightarrow> rat" where
  "fval (Fin r) = r"
| "fval d = 0"

fun signbit :: "double \<Rightarrow> bool" where
  "signbit NaN = False"
| "signbit (Infinite s) = s"
| "signbit NegZero = True"
| "signbit (Fin r) = (r < 0)"

definition signed_zero :: "bool \<Rightarrow> double" where
  "signed_zero neg = (if neg then NegZero else Fin 0)"

instantiation double :: "{ord, plus, minus, uminus, times, inverse, abs, zero}"
begin

fun less_double :: "double \<Rightarrow> double \<Rightarrow> bool" where
  "less_double NaN y = False"
| "less_double x NaN = False"
| "less_double (Infinite s) (Infinite t) = (s \<and> \<not> t)"
| "less_double (Infinite s) y = s"
| "less_double x (Infinite t) = (\<not> t)"
| "less_double x y = (fval x < fval y)"

fun less_eq_double :: "double \<Rightarrow> double \<Rightarrow> bool" where
  "less_eq_double NaN y = False"
| "less_eq_double x NaN = False"
| "less_eq_double (Infinite s) (Infinite t) = (s \<or> \<not> t)"
| "less_eq_double (Infinite s) y = s"
| "less_eq_double x (Infinite t) = (\<not> t)"
| "less_eq_double x y = (fval x \<le> fval y)"

definition zero_double :: double where "zero_double = Fin 0"

fun uminus_double :: "double \<Rightarrow> double" where
  "uminus_double NaN = NaN"
| "uminus_double (Infinite s) = Infinite (\<not> s)"
| "uminus_double NegZero = Fin 0"
| "uminus_double (Fin r) = (if r = 0 then NegZero else Fin (- r))"

definition abs_double :: "double \<Rightarrow> double" where
  "abs_double x = (if signbit x then - x else x)"

fun plus_double :: "double \<Rightarrow> double \<Rightarrow> double" where
  "plus_double NaN y = NaN"
| "plus_double x NaN = NaN"
| "plus_double (Infinite s) (Infinite t) = (if s = t then Infinite s else NaN)"
| "plus_double (Infinite s) y = Infinite s"
| "plus_double x (Infinite t) = Infinite t"
| "plus_double x y =
     (if fval x + fval y = 0 then signed_zero (signbit x \<and> signbit y \<and> fval x = 0)
      else round64 (fval x + fval y))"

definition minus_double :: "double \<Rightarrow> double \<Rightarrow> double" where
  "minus_double x y = x + (- y)"

definition times_double :: "double \<Rightarrow> double \<Rightarrow> double" where
  "times_double x y =
     (let s = (signbit x \<noteq> signbit y) in
      if x = NaN \<or> y = NaN then NaN
      else if \<not> isfinite x then (if isfinite y \<and> fval y = 0 then NaN else Infinite s)
      else if \<not> isfinite y then (if fval x = 0 then NaN else Infinite s)
      else if fval x * fval y = 0 then signed_zero s
      else round64 (fval x * fval y))"

definition divide_double :: "double \<Rightarrow> double \<Rightarrow> double" where
  "divide_double x y =
     (let s = (signbit x \<noteq> signbit y) in
      if x = NaN \<or> y = NaN then NaN
      else if \<not> isfinite x then (if isfinite y then Infinite s else NaN)
      else if \<not> isfinite y then signed_zero s
      else if fval y = 0 then (if fval x = 0 then NaN else Infinite s)
      else if fval x = 0 then signed_zero s
      else round64 (fval x / fval y))"

definition inverse_double :: "double \<Rightarrow> double" where
  "inverse_double x = divide (Fin 1) x"

instance ..

end

text \<open>C's \<open>==\<close>, and \<open>fmax\<close> of \<open>math.h\<close>, which ignores a NaN operand.\<close>

definition deq :: "double \<Rightarrow> double \<Rightarrow> bool" where
  "deq x y \<longleftrightarrow> x \<le> y \<and> y \<le> x"

definition fmax :: "double \<Rightarrow> double \<Rightarrow> double" where
  "fmax x y = (if x = NaN then y else if y = NaN then x else if x < y then y else x)"

lemma finite_cases: "isfinite x \<Longrightarrow> (x = NegZero \<or> (\<exists>r. x = Fin r))"
  by (cases x) auto

lemma less_eq_finite: "isfinite x \<Longrightarrow> isfinite y \<Longrightarrow> x \<le> y \<longleftrightarrow> fval x \<le> fval y"
  by (cases x; cases y) auto

lemma less_finite: "isfinite x \<Longrightarrow> isfinite y \<Longrightarrow> x < y \<longleftrightarrow> fval x < fval y"
  by (cases x; cases y) auto

lemma abs_finite [simp]: "isfinite \<bar>x\<bar> = isfinite x"
  by (cases x) (auto simp: abs_double_def)

lemma fval_uminus [simp]: "fval (- x) = - fval x"
  by (cases x) auto

lemma isfinite_uminus [simp]: "isfinite (- x) = isfinite x"
  by (cases x) auto

lemma fval_abs [simp]: "fval \<bar>x\<bar> = \<bar>fval x\<bar>"
  by (cases x) (auto simp: abs_double_def)

lemma plus_finite: "isfinite x \<Longrightarrow> isfinite y \<Longrightarrow> 
   x + y = (if fval x + fval y = 0 then signed_zero (signbit x \<and> signbit y \<and> fval x = 0)
      else round64 (fval x + fval y))"
  by (cases x; cases y) auto

lemma fval_round64: "isfinite (round64 r) \<Longrightarrow> fval (round64 r) = round_to 53 (- 1074) r"
  by (auto simp: round64_def round_fmt_def Let_def split: if_splits)

lemma isfinite_round64: "isfinite (round64 r) \<longleftrightarrow> \<bar>round_to 53 (- 1074) r\<bar> < 2 powi 1024"
  by (auto simp: round64_def round_fmt_def Let_def split: if_splits)

lemma fval_signed_zero [simp]: "fval (signed_zero b) = 0" "isfinite (signed_zero b)"
  by (auto simp: signed_zero_def)

lemma fval_plus: "isfinite (x + y) \<Longrightarrow> fval (x + y) = round_to 53 (- 1074) (fval x + fval y)"
  by (cases x; cases y) (auto simp: fval_round64 split: if_splits)

lemma isfinite_plusD: "isfinite (x + y) \<Longrightarrow> isfinite x \<and> isfinite y"
  by (cases x; cases y) (auto split: if_splits)

lemma fval_minus: "isfinite (x - y) \<Longrightarrow> fval (x - y) = round_to 53 (- 1074) (fval x - fval y)"
  by (simp add: minus_double_def fval_plus)

lemma times_finite: "isfinite x \<Longrightarrow> isfinite y \<Longrightarrow>
   x * y = (if fval x * fval y = 0 then signed_zero (signbit x \<noteq> signbit y)
            else round64 (fval x * fval y))"
  by (cases x; cases y) (auto simp: times_double_def)

lemma fval_times: "isfinite (x * y) \<Longrightarrow> fval (x * y) = round_to 53 (- 1074) (fval x * fval y)"
  by (cases x; cases y) (auto simp: times_double_def Let_def fval_round64 split: if_splits)

lemma round64_error_small:
  assumes "\<bar>r\<bar> < 2 powi (k + 1)" "- 1000 \<le> k"
  shows "\<bar>round_to 53 (- 1074) r - r\<bar> \<le> 2 powi (k - 53)"
proof (cases "r = 0")
  case False
  then have "ilog2 \<bar>r\<bar> \<le> k" using assms(1) by (intro ilog2_le) auto
  then have "ulp_exp 53 (- 1074) r \<le> k - 52" using assms(2) by (simp add: ulp_exp_def)
  then have "(2::rat) powi (ulp_exp 53 (- 1074) r) \<le> 2 powi (k - 52)" by (rule powi2_mono)
  then have "(2::rat) powi (ulp_exp 53 (- 1074) r) / 2 \<le> 2 powi (k - 53)"
    by (simp add: powi2_diff)
  with round_to_error[OF False, of 53 "- 1074"] show ?thesis by linarith
qed simp

definition exact64 :: "rat \<Rightarrow> bool" where
  "exact64 r \<longleftrightarrow> round_to 53 (- 1074) r = r \<and> \<bar>r\<bar> < 2 powi 1024"

definition is_double :: "double \<Rightarrow> bool" where
  "is_double d = exact64 (fval d)"

lemma round64_mono: "r \<le> s \<Longrightarrow> round64 r \<le> round64 s"
proof -
  assume "r \<le> s"
  then have "round_to 53 (- 1074) r \<le> round_to 53 (- 1074) s" by (intro round_to_mono) auto
  then show ?thesis
    by (auto simp: round64_def round_fmt_def Let_def abs_if split: if_splits)
qed

lemma round64_exact: "exact64 r \<Longrightarrow> round64 r = Fin r"
  by (auto simp: exact64_def round64_def round_fmt_def Let_def)

lemma exact64_of_int: "\<bar>i\<bar> < 2 ^ 53 \<Longrightarrow> exact64 (of_int i)"
proof -
  assume i: "\<bar>i\<bar> < 2 ^ 53"
  have "round_to 53 (- 1074) (of_int i) = of_int i"
    using i by (intro round_to_exact'[of _ i 0]) auto
  moreover have "\<bar>of_int i :: rat\<bar> < 2 powi 1024"
  proof -
    have "\<bar>of_int i :: rat\<bar> < of_int (2 ^ 53)" using i by (simp only: of_int_abs[symmetric] of_int_less_iff)
    also have "\<dots> \<le> 2 powi 1024" by simp
    finally show ?thesis .
  qed
  ultimately show ?thesis by (simp add: exact64_def)
qed

lemma round64_numeral [simp]:
  "(numeral n :: int) < 2 ^ 53 \<Longrightarrow> round64 (numeral n) = Fin (numeral n)"
  using round64_exact[OF exact64_of_int[of "numeral n"]] by simp

lemma round64_0 [simp]: "round64 0 = Fin 0"
  by (simp add: round64_def round_fmt_def)

lemma round64_1 [simp]: "round64 1 = Fin 1"
  using round64_exact[OF exact64_of_int[of "1"]] by simp

lemma ilog2_eqI: "2 powi k \<le> r \<Longrightarrow> r < 2 powi (k + 1) \<Longrightarrow> ilog2 r = k"
proof -
  assume a: "2 powi k \<le> r" "r < 2 powi (k + 1)"
  then have r: "0 < r" using powi2_pos[of k] by linarith
  have "2 powi k < (2::rat) powi (ilog2 r + 1)"
    using a(1) ilog2_bounds(2)[OF r] by linarith
  then have "k < ilog2 r + 1" by (simp only: powi2_less_iff)
  then show ?thesis using ilog2_le[OF r a(2)] by simp
qed

lemma rne_eqI: "\<bar>r - of_int m\<bar> < 1 / 2 \<Longrightarrow> rne r = m"
proof -
  assume "\<bar>r - of_int m\<bar> < 1 / 2"
  then have "\<bar>of_int (rne r - m) :: rat\<bar> < 1"
    using rne_error[of r] unfolding of_int_diff by linarith
  then show ?thesis by (simp flip: of_int_abs)
qed

lemma round64_literal:
  assumes "2 powi k \<le> r" "r < 2 powi (k + 1)" "- 1000 \<le> k" "k < 1000"
    and "\<bar>r / 2 powi (k - 52) - of_int m\<bar> < 1 / 2"
  shows "round64 r = Fin (of_int m * 2 powi (k - 52))"
proof -
  have r: "0 < r" using assms(1) powi2_pos[of k] by linarith
  have il: "ilog2 r = k" using assms(1,2) by (rule ilog2_eqI)
  have rt: "round_to 53 (- 1074) r = of_int m * 2 powi (k - 52)"
    using r il assms(3) rne_eqI[OF assms(5)] by (simp add: round_to_def ulp_exp_def Let_def max_def)
  have "round_to 53 (- 1074) r \<le> 2 powi (k + 1)"
    using r il assms(2,3) by (intro round_to_bounds_pow) (auto simp: ulp_exp_def)
  also have "\<dots> < 2 powi 1024" using assms(4) by (intro powi2_less) simp
  finally have "\<bar>round_to 53 (- 1074) r\<bar> < 2 powi 1024"
    using round_to_nonneg[of r 53 "- 1074"] r by simp
  then show ?thesis using r rt by (simp add: round64_def round_fmt_def Let_def)
qed

lemma round64_015: "round64 (15 / 100) = Fin (5404319552844595 / 2 ^ 55)"
  using round64_literal[of "- 3" "15 / 100" 5404319552844595]
  by (simp add: power_int_def power_divide abs_less_iff)

lemma round64_001: "round64 (1 / 100) = Fin (5764607523034235 / 2 ^ 59)"
  using round64_literal[of "- 7" "1 / 100" 5764607523034235]
  by (simp add: power_int_def power_divide abs_less_iff)

lemma round64_09: "round64 (9 / 10) = Fin (8106479329266893 / 2 ^ 53)"
  using round64_literal[of "- 1" "9 / 10" 8106479329266893]
  by (simp add: power_int_def power_divide abs_less_iff)

lemma round64_025: "round64 (1 / 4) = Fin (1 / 4)"
  using round64_literal[of "- 2" "1 / 4" 4503599627370496]
  by (simp add: power_int_def power_divide abs_less_iff)

section \<open>The binary32 bit layout\<close>

definition bits_of_float32 :: "double \<Rightarrow> 32 word" where
  "bits_of_float32 d =
     (let s = (if signbit d then 2 ^ 31 else 0 :: int) in
      case d of
        NaN \<Rightarrow> 0x7fc00000
      | Infinite b \<Rightarrow> word_of_int (s + 0x7f800000)
      | NegZero \<Rightarrow> word_of_int s
      | Fin r \<Rightarrow>
          (if r = 0 then 0
           else let a = \<bar>r\<bar>; e = ilog2 a in
             word_of_int (s + (if e < - 126 then \<lfloor>a / 2 powi (- 149)\<rfloor>
                               else (e + 127) * 2 ^ 23 + (\<lfloor>a / 2 powi (e - 23)\<rfloor> - 2 ^ 23)))))"

definition float32_of_bits :: "32 word \<Rightarrow> double" where
  "float32_of_bits w =
     (let n = uint w; s = 2 ^ 31 \<le> n; E = n div 2 ^ 23 mod 2 ^ 8; M = n mod 2 ^ 23
      in if E = 255 then (if M = 0 then Infinite s else NaN)
         else let v = (if E = 0 then of_int M * 2 powi (- 149)
                       else of_int (2 ^ 23 + M) * 2 powi (E - 150))
              in if v = 0 then signed_zero s else Fin (if s then - v else v))"

definition is_float32 :: "double \<Rightarrow> bool" where
  "is_float32 d \<longleftrightarrow> round_to 24 (- 149) (fval d) = fval d \<and> \<bar>fval d\<bar> < 2 powi 128"

lemma float32_fields:
  assumes "0 \<le> E" "E < 256" "0 \<le> M" "M < 2 ^ 23"
  shows "float32_of_bits (word_of_int ((if s then 2 ^ 31 else 0) + (E * 2 ^ 23 + M))) =
     (if E = 255 then (if M = 0 then Infinite s else NaN)
         else let v = (if E = 0 then of_int M * 2 powi (- 149)
                       else of_int (2 ^ 23 + M) * 2 powi (E - 150))
              in if v = 0 then signed_zero s else Fin (if s then - v else v))"
proof -
  let ?n = "(if s then 2 ^ 31 else 0) + (E * 2 ^ 23 + M) :: int"
  have b: "0 \<le> E * 2 ^ 23 + M" "E * 2 ^ 23 + M < 2 ^ 31" using assms by auto
  then have n: "uint (word_of_int ?n :: 32 word) = ?n"
    by (subst uint_word_of_int_eq) (auto simp: take_bit_eq_mod)
  have "?n = ((if s then 256 else 0) + E) * 2 ^ 23 + M" by simp
  then have "?n div 2 ^ 23 = (if s then 256 else 0) + E" "?n mod 2 ^ 23 = M"
    using assms(3,4) by (simp_all only: div_mult_self3 mod_mult_self3 div_pos_pos_trivial mod_pos_pos_trivial)
  moreover have "((if s then 256 else 0) + E) mod 2 ^ 8 = E"
    using assms(1,2) by (cases s) simp_all
  moreover have "(2 ^ 31 \<le> ?n) = s" using b by (cases s) simp_all
  ultimately have f: "?n div 2 ^ 23 mod 2 ^ 8 = E" "?n mod 2 ^ 23 = M" "(2 ^ 31 \<le> ?n) = s"
    by (simp_all only:)
  show ?thesis
    by (simp only: float32_of_bits_def Let_def n f)
qed

lemma float32_roundtrip_pos:
  assumes "0 < a" "round_to 24 (- 149) a = a" "a < 2 powi 128"
  shows "float32_of_bits (word_of_int ((if s then 2 ^ 31 else 0) +
           (if ilog2 a < - 126 then \<lfloor>a / 2 powi (- 149)\<rfloor>
            else (ilog2 a + 127) * 2 ^ 23 + (\<lfloor>a / 2 powi (ilog2 a - 23)\<rfloor> - 2 ^ 23))))
         = Fin (if s then - a else a)"
proof -
  define e where "e = ilog2 a"
  note b = ilog2_bounds[OF assms(1), folded e_def]
  define u where "u = max (e - 23) (- 149)"
  obtain m where m: "a = of_int m * 2 powi u"
  proof
    show "a = of_int (rne (a / 2 powi u)) * 2 powi u"
      using assms(1,2) by (simp add: round_to_def ulp_exp_def Let_def e_def u_def)
  qed
  then have fl: "\<lfloor>a / 2 powi u\<rfloor> = m" by simp
  have less: "m < k" if "a < of_int k * 2 powi u" for k
    using that unfolding m by (simp only: mult_less_cancel_right_pos powi2_pos of_int_less_iff)
  have le: "k \<le> m" if "of_int k * 2 powi u \<le> a" for k
    using that unfolding m by (simp only: mult_le_cancel_right_pos powi2_pos of_int_le_iff)
  have pos: "0 < m" using m assms(1) powi2_pos[of u]
    by (simp add: zero_less_mult_iff del: zero_less_power_int)
  have "(2::rat) powi e < 2 powi 128" using b assms(3) by linarith
  then have e: "e < 128" by (simp only: powi2_less_iff)
  show ?thesis
  proof (cases "e < - 126")
    case True
    then have u: "u = - 149" by (simp add: u_def)
    have "a < 2 powi (- 126)" using b(2) True powi2_mono[of "e + 1" "- 126"] by linarith
    also have "(2::rat) powi (- 126) = of_int (2 ^ 23) * 2 powi u"
      unfolding u using powi2_add[of 23 "- 149"] by (simp add: power_int_def)
    finally have "m < 2 ^ 23" by (rule less)
    with pos True show ?thesis
      using float32_fields[of 0 m s] unfolding e_def[symmetric] u[symmetric] fl
      by (simp add: m Let_def u[symmetric])
  next
    case False
    then have u: "u = e - 23" by (simp add: u_def)
    have "(2::rat) powi (e + 1) = of_int (2 ^ 24) * 2 powi u"
      "(2::rat) powi e = of_int (2 ^ 23) * 2 powi u"
      unfolding u by (simp_all add: power_int_add power_int_diff)
    with b have "m < 2 ^ 24" "2 ^ 23 \<le> m" using less[of "2 ^ 24"] le[of "2 ^ 23"] by simp_all
    with False e pos show ?thesis
      using float32_fields[of "e + 127" "m - 2 ^ 23" s] unfolding e_def[symmetric] u[symmetric] fl
      by (simp add: m Let_def u[symmetric])
  qed
qed

lemma float32_roundtrip:
  "is_float32 d \<Longrightarrow> float32_of_bits (bits_of_float32 d) = d"
proof (cases d)
  case NaN
  then show ?thesis by (simp add: bits_of_float32_def float32_of_bits_def)
next
  case (Infinite s)
  then show ?thesis using float32_fields[of 255 0 s] by (cases s) (auto simp: bits_of_float32_def)
next
  case NegZero
  then show ?thesis by (simp add: bits_of_float32_def float32_of_bits_def signed_zero_def)
next
  case (Fin r)
  assume "is_float32 d"
  then have *: "round_to 24 (- 149) r = r" "\<bar>r\<bar> < 2 powi 128" using Fin by (auto simp: is_float32_def)
  show ?thesis
  proof (cases "r = 0")
    case True
    then show ?thesis using Fin by (simp add: bits_of_float32_def float32_of_bits_def signed_zero_def)
  next
    case False
    then have "round_to 24 (- 149) \<bar>r\<bar> = \<bar>r\<bar>" using * by (cases "0 \<le> r") (auto simp: round_to_minus)
    then show ?thesis
      using float32_roundtrip_pos[of "\<bar>r\<bar>" "r < 0"] * False Fin
      by (simp add: bits_of_float32_def Let_def)
  qed
qed

end
