(* ===== verification/TrialLogic.thy ===== *)
theory TrialLogic
  imports Ieee754
begin

unbundle bit_operations_syntax

text \<open>
  \<open>prototype/smc-write-trial/trial_logic.c\<close>: the pure decisions of the fan trial. The preflight
  gate \<open>trial_make_plan\<close> computes the two target speeds or rejects, \<open>trial_encode_rpm\<close> turns a
  speed into the bytes of a target key, \<open>trial_actual_reached_target\<close> judges the observed speed
  and \<open>trial_target_write_allowed\<close> is the last gate before a target write.

  A pointer that may be NULL is an \<open>option\<close>; an output parameter is passed in and returned. The
  fixed arrays of the structs are functions of the index.
\<close>

section \<open>Constants and structs\<close>

definition TRIAL_FAN_COUNT :: nat where "TRIAL_FAN_COUNT = 2"
definition TRIAL_TEMPERATURE_COUNT :: nat where "TRIAL_TEMPERATURE_COUNT = 3"
definition TRIAL_CPU_HOTSPOT_INDEX :: nat where "TRIAL_CPU_HOTSPOT_INDEX = 0"
definition TRIAL_PREFLIGHT_SAMPLES :: nat where "TRIAL_PREFLIGHT_SAMPLES = 5"

definition TRIAL_EXPECTED_MODEL :: string where "TRIAL_EXPECTED_MODEL = ''Mac15,7''"
definition TRIAL_EXPECTED_OS_VERSION :: string where "TRIAL_EXPECTED_OS_VERSION = ''27.0''"

definition TRIAL_TARGET_DELTA_RPM :: double where "TRIAL_TARGET_DELTA_RPM = round64 300"
definition TRIAL_TEMPERATURE_LIMIT_C :: double where "TRIAL_TEMPERATURE_LIMIT_C = round64 75"
definition TRIAL_TEMPERATURE_MAX_RISE_C :: double where "TRIAL_TEMPERATURE_MAX_RISE_C = round64 5"

lemmas trial_constants [simp] =
  TRIAL_FAN_COUNT_def TRIAL_TEMPERATURE_COUNT_def TRIAL_CPU_HOTSPOT_INDEX_def
  TRIAL_PREFLIGHT_SAMPLES_def TRIAL_TARGET_DELTA_RPM_def TRIAL_TEMPERATURE_LIMIT_C_def
  TRIAL_TEMPERATURE_MAX_RISE_C_def

record trial_fan_state =
  actual_rpm :: double
  target_rpm :: double
  min_rpm :: double
  max_rpm :: double
  fan_mode :: u8
  mode_type :: string
  mode_size :: u32
  target_type :: string
  target_size :: u32

record trial_preflight =
  model :: "string option"
  os_version :: "string option"
  fan_count :: u32
  ftst :: u8
  ftst_type :: string
  ftst_size :: u32
  fans :: "nat \<Rightarrow> trial_fan_state"
  temperatures_c :: "nat \<Rightarrow> nat \<Rightarrow> double"

record trial_plan =
  plan_target :: "nat \<Rightarrow> double"

section \<open>The preflight gate\<close>

text \<open>
  \<open>fail\<close> copies the message into the caller's buffer (truncated to its size) and returns false;
  the buffer is what is returned here.
\<close>

definition fail :: "string option \<Rightarrow> nat \<Rightarrow> string \<Rightarrow> string option" where
  "fail error error_size message =
     (if error \<noteq> None \<and> error_size > 0 then Some (take (error_size - 1) message) else error)"

definition exact_type :: "string option \<Rightarrow> string \<Rightarrow> bool" where
  "exact_type actual expected =
     (case actual of None \<Rightarrow> False | Some a \<Rightarrow> strncmp_eq 4 a expected)"

definition supported_target_type :: "trial_fan_state \<Rightarrow> bool" where
  "supported_target_type fan \<longleftrightarrow>
     (exact_type (Some (target_type fan)) ''flt '' \<and> target_size fan = 4) \<or>
     (exact_type (Some (target_type fan)) ''fpe2'' \<and> target_size fan = 2)"

definition temperature_rejected :: "double \<Rightarrow> bool" where
  "temperature_rejected value \<longleftrightarrow>
     \<not> isfinite value \<or> value < round64 10 \<or> TRIAL_TEMPERATURE_LIMIT_C \<le> value"

definition temperature_rise :: "trial_preflight \<Rightarrow> nat \<Rightarrow> double" where
  "temperature_rise input sensor =
     temperatures_c input (TRIAL_PREFLIGHT_SAMPLES - 1) sensor - temperatures_c input 0 sensor"

text \<open>One iteration of the loop over the fans: the message it fails with, or the fan's target.\<close>

definition fan_target :: "trial_fan_state \<Rightarrow> string + double" where
  "fan_target fan =
     (if fan_mode fan \<noteq> 3 \<or> \<not> exact_type (Some (mode_type fan)) ''ui8 '' \<or> mode_size fan \<noteq> 1
      then Inl ''a fan mode is not the expected ui8 system value 3''
      else if \<not> isfinite (actual_rpm fan) \<or> \<not> isfinite (target_rpm fan) \<or>
              \<not> isfinite (min_rpm fan) \<or> \<not> isfinite (max_rpm fan) \<or>
              actual_rpm fan < round64 0 \<or> round64 1 < \<bar>target_rpm fan\<bar> \<or>
              min_rpm fan < round64 0 \<or> max_rpm fan \<le> min_rpm fan
      then Inl ''a fan RPM value or range is invalid''
      else if \<not> supported_target_type fan
      then Inl ''a target key has an unsupported type or size''
      else let base = fmax (actual_rpm fan) (min_rpm fan);
               target = base + TRIAL_TARGET_DELTA_RPM
           in if \<not> isfinite target \<or> max_rpm fan < target
              then Inl ''a fan has less than 300 RPM of safe headroom''
              else Inr target)"

fun plan_fans :: "trial_preflight \<Rightarrow> nat list \<Rightarrow> trial_plan \<Rightarrow> string option \<times> trial_plan" where
  "plan_fans input [] plan = (None, plan)"
| "plan_fans input (index # rest) plan =
     (case fan_target (fans input index) of
        Inl message \<Rightarrow> (Some message, plan)
      | Inr target \<Rightarrow>
          plan_fans input rest (plan\<lparr>plan_target := (plan_target plan)(index := target)\<rparr>))"

definition trial_make_plan ::
  "trial_preflight option \<Rightarrow> trial_plan option \<Rightarrow> string option \<Rightarrow> nat
   \<Rightarrow> bool \<times> trial_plan option \<times> string option" where
  "trial_make_plan input_ptr plan_ptr error error_size =
     (case (input_ptr, plan_ptr) of
        (Some input, Some plan) \<Rightarrow>
          if (case model input of None \<Rightarrow> True | Some m \<Rightarrow> \<not> strcmp_eq m TRIAL_EXPECTED_MODEL)
          then (False, plan_ptr, fail error error_size ''model is not exactly Mac15,7'')
          else if (case os_version input of None \<Rightarrow> True
                   | Some v \<Rightarrow> \<not> strcmp_eq v TRIAL_EXPECTED_OS_VERSION)
          then (False, plan_ptr, fail error error_size ''macOS version is not exactly 27.0'')
          else if fan_count input \<noteq> of_nat TRIAL_FAN_COUNT
          then (False, plan_ptr, fail error error_size ''fan count is not exactly two'')
          else if \<not> exact_type (Some (ftst_type input)) ''ui8 '' \<or> ftst_size input \<noteq> 1 \<or> ftst input \<noteq> 0
          then (False, plan_ptr,
                fail error error_size ''Ftst is not an unlocked ui8 value of zero'')
          else if list_ex (\<lambda>sample. list_ex
                    (\<lambda>sensor. temperature_rejected (temperatures_c input sample sensor))
                    [0..<TRIAL_TEMPERATURE_COUNT]) [0..<TRIAL_PREFLIGHT_SAMPLES]
          then (False, plan_ptr,
                fail error error_size ''a required temperature is unavailable or too high'')
          else if list_ex (\<lambda>sensor. TRIAL_TEMPERATURE_MAX_RISE_C < temperature_rise input sensor)
                    [TRIAL_CPU_HOTSPOT_INDEX + 1..<TRIAL_TEMPERATURE_COUNT]
          then (False, plan_ptr,
                fail error error_size ''a required temperature trend rose by more than 5 C'')
          else (case plan_fans input [0..<TRIAL_FAN_COUNT] plan of
                  (Some message, plan') \<Rightarrow> (False, Some plan', fail error error_size message)
                | (None, plan') \<Rightarrow>
                    (True, Some plan',
                     if error \<noteq> None \<and> error_size > 0 then Some [] else error))
      | _ \<Rightarrow> (False, plan_ptr, fail error error_size ''missing preflight data''))"

section \<open>Encoding and the other decisions\<close>

text \<open>The C conversions \<open>(float)rpm\<close> and \<open>(uint16_t)x\<close> (truncation) of a finite double.\<close>

definition to_float32 :: "double \<Rightarrow> double" where
  "to_float32 d = (if isfinite d \<and> fval d \<noteq> 0 then round32 (fval d) else d)"

definition to_u16 :: "double \<Rightarrow> u16" where
  "to_u16 d = word_of_int (if 0 \<le> fval d then \<lfloor>fval d\<rfloor> else \<lceil>fval d\<rceil>)"

definition trial_encode_rpm ::
  "string option \<Rightarrow> u32 \<Rightarrow> double \<Rightarrow> (nat \<Rightarrow> u8) option \<Rightarrow> nat option
   \<Rightarrow> bool \<times> (nat \<Rightarrow> u8) option \<times> nat option" where
  "trial_encode_rpm ty sz rpm output output_size =
     (case (ty, output, output_size) of
        (Some _, Some out, Some _) \<Rightarrow>
          if \<not> isfinite rpm \<or> rpm < round64 0 then (False, output, output_size)
          else if exact_type ty ''flt '' \<and> sz = 4
          then let bits = bits_of_float32 (to_float32 rpm)
               in (True,
                   Some (out(0 := ucast (bits AND 0xff),
                             1 := ucast (drop_bit 8 bits AND 0xff),
                             2 := ucast (drop_bit 16 bits AND 0xff),
                             3 := ucast (drop_bit 24 bits AND 0xff))),
                   Some 4)
          else if exact_type ty ''fpe2'' \<and> sz = 2 \<and> rpm \<le> round64 16383
          then let encoded = to_u16 (rpm * round64 4)
               in (True,
                   Some (out(0 := ucast (drop_bit 8 encoded), 1 := ucast (encoded AND 0xff),
                             2 := 0, 3 := 0)),
                   Some 2)
          else (False, output, output_size)
      | _ \<Rightarrow> (False, output, output_size))"

definition trial_actual_reached_target :: "double \<Rightarrow> double \<Rightarrow> double \<Rightarrow> bool" where
  "trial_actual_reached_target baseline_rpm actual target =
     (if \<not> isfinite baseline_rpm \<or> \<not> isfinite actual \<or> \<not> isfinite target then False
      else if actual \<le> baseline_rpm then False
      else let tolerance = fmax (round64 250) (target * round64 (15 / 100))
           in \<bar>actual - target\<bar> \<le> tolerance)"

definition trial_target_write_allowed :: "trial_plan option \<Rightarrow> nat \<Rightarrow> double \<Rightarrow> bool" where
  "trial_target_write_allowed plan_ptr fan rpm =
     (if \<not> isfinite rpm \<or> rpm < round64 0 \<or> TRIAL_FAN_COUNT \<le> fan then False
      else if deq rpm (round64 0) then True
      else (case plan_ptr of
              None \<Rightarrow> False
            | Some plan \<Rightarrow>
                isfinite (plan_target plan fan) \<and>
                \<bar>rpm - plan_target plan fan\<bar> \<le> round64 (1 / 100)))"


section \<open>What an accepted preflight guarantees\<close>

text \<open>
  The declarative reading of the gate: the exact environment, an unlocked \<open>Ftst\<close>, fifteen plausible
  temperatures below the limit, a bounded rise of the two slow sensors, and two system-owned fans
  with a valid range, a supported target key and 300 RPM of headroom.
\<close>

definition temperature_safe :: "double \<Rightarrow> bool" where
  "temperature_safe d \<longleftrightarrow> isfinite d \<and> 10 \<le> fval d \<and> fval d < 75"

definition fan_ready :: "trial_fan_state \<Rightarrow> bool" where
  "fan_ready fan \<longleftrightarrow>
     fan_mode fan = 3 \<and> strncmp_eq 4 (mode_type fan) ''ui8 '' \<and> mode_size fan = 1 \<and>
     isfinite (actual_rpm fan) \<and> isfinite (target_rpm fan) \<and>
     isfinite (min_rpm fan) \<and> isfinite (max_rpm fan) \<and>
     0 \<le> fval (actual_rpm fan) \<and> \<bar>fval (target_rpm fan)\<bar> \<le> 1 \<and>
     0 \<le> fval (min_rpm fan) \<and> fval (min_rpm fan) < fval (max_rpm fan) \<and>
     supported_target_type fan"

definition planned_target :: "trial_fan_state \<Rightarrow> double" where
  "planned_target fan = fmax (actual_rpm fan) (min_rpm fan) + TRIAL_TARGET_DELTA_RPM"

definition has_headroom :: "trial_fan_state \<Rightarrow> bool" where
  "has_headroom fan \<longleftrightarrow> isfinite (planned_target fan) \<and> planned_target fan \<le> max_rpm fan"

definition preflight_safe :: "trial_preflight \<Rightarrow> bool" where
  "preflight_safe input \<longleftrightarrow>
     (\<exists>m. model input = Some m \<and> strcmp_eq m ''Mac15,7'') \<and>
     (\<exists>v. os_version input = Some v \<and> strcmp_eq v ''27.0'') \<and>
     fan_count input = 2 \<and>
     strncmp_eq 4 (ftst_type input) ''ui8 '' \<and> ftst_size input = 1 \<and> ftst input = 0 \<and>
     (\<forall>sample < 5. \<forall>sensor < 3. temperature_safe (temperatures_c input sample sensor)) \<and>
     (\<forall>sensor \<in> {1, 2}. \<not> round64 5 < temperatures_c input 4 sensor - temperatures_c input 0 sensor) \<and>
     (\<forall>fan < 2. fan_ready (fans input fan) \<and> has_headroom (fans input fan))"

lemma finite_le_Fin: "isfinite d \<Longrightarrow> d \<le> Fin r \<longleftrightarrow> fval d \<le> r"
  by (simp add: less_eq_finite)

lemma finite_Fin_le: "isfinite d \<Longrightarrow> Fin r \<le> d \<longleftrightarrow> r \<le> fval d"
  by (simp add: less_eq_finite)

lemma finite_less_Fin: "isfinite d \<Longrightarrow> d < Fin r \<longleftrightarrow> fval d < r"
  by (simp add: less_finite)

lemma finite_Fin_less: "isfinite d \<Longrightarrow> Fin r < d \<longleftrightarrow> r < fval d"
  by (simp add: less_finite)

lemmas finite_compare = finite_le_Fin finite_Fin_le finite_less_Fin finite_Fin_less

lemma temperature_rejected_iff: "temperature_rejected d \<longleftrightarrow> \<not> temperature_safe d"
  by (cases "isfinite d") (auto simp: temperature_rejected_def temperature_safe_def finite_compare)

lemma not_less_double: "isfinite x \<Longrightarrow> isfinite y \<Longrightarrow> \<not> x < y \<longleftrightarrow> y \<le> x"
  by (auto simp: less_finite less_eq_finite)

lemma not_le_double: "isfinite x \<Longrightarrow> isfinite y \<Longrightarrow> \<not> x \<le> y \<longleftrightarrow> y < x"
  by (auto simp: less_finite less_eq_finite)

lemma headroom_iff:
  "isfinite (max_rpm fan) \<Longrightarrow>
   has_headroom fan \<longleftrightarrow> isfinite (planned_target fan) \<and> \<not> max_rpm fan < planned_target fan"
  by (auto simp: has_headroom_def less_eq_finite less_finite)

lemma fan_target_iff:
  "fan_target fan = Inr target \<longleftrightarrow>
   fan_ready fan \<and> has_headroom fan \<and> target = planned_target fan"
proof (cases "isfinite (actual_rpm fan) \<and> isfinite (target_rpm fan) \<and>
              isfinite (min_rpm fan) \<and> isfinite (max_rpm fan)")
  case True
  then show ?thesis
    by (auto simp: fan_target_def fan_ready_def headroom_iff exact_type_def finite_compare
        planned_target_def Let_def less_eq_finite)
next
  case False
  then show ?thesis by (auto simp: fan_target_def fan_ready_def)
qed

lemma plan_fans_two:
  "plan_fans input [0..<TRIAL_FAN_COUNT] plan = (None, plan') \<longleftrightarrow>
   (\<forall>fan < 2. fan_ready (fans input fan) \<and> has_headroom (fans input fan)) \<and>
   plan' = plan\<lparr>plan_target := (plan_target plan)
     (0 := planned_target (fans input 0), 1 := planned_target (fans input 1))\<rparr>"
proof (cases "fan_target (fans input 0)")
  case (Inl e)
  then have "\<not> (fan_ready (fans input 0) \<and> has_headroom (fans input 0))"
    using fan_target_iff[of "fans input 0"] by auto
  with Inl show ?thesis by (auto simp: upt_small all_less_2)
next
  case (Inr t)
  note t0 = this
  then have 0: "fan_ready (fans input 0)" "has_headroom (fans input 0)"
    "t = planned_target (fans input 0)"
    by (auto simp: fan_target_iff)
  show ?thesis
  proof (cases "fan_target (fans input 1)")
    case (Inl e)
    then have "\<not> (fan_ready (fans input 1) \<and> has_headroom (fans input 1))"
      using fan_target_iff[of "fans input 1"] by auto
    with Inl t0 show ?thesis by (auto simp: upt_small all_less_2)
  next
    case (Inr u)
    then have "fan_ready (fans input 1)" "has_headroom (fans input 1)"
      "u = planned_target (fans input 1)"
      by (auto simp: fan_target_iff)
    with 0 t0 Inr show ?thesis by (auto simp: upt_small all_less_2)
  qed
qed

lemma plan_fans_accepts:
  "fst (plan_fans input [0..<TRIAL_FAN_COUNT] plan) = None \<longleftrightarrow>
   (\<forall>fan < 2. fan_ready (fans input fan) \<and> has_headroom (fans input fan))"
proof -
  have "fst (plan_fans input [0..<TRIAL_FAN_COUNT] plan) = None \<longleftrightarrow>
    (\<exists>plan'. plan_fans input [0..<TRIAL_FAN_COUNT] plan = (None, plan'))"
    by (metis fst_conv prod.collapse)
  then show ?thesis by (simp only: plan_fans_two) blast
qed

lemma temperatures_checked:
  "list_ex (\<lambda>sample. list_ex
      (\<lambda>sensor. temperature_rejected (temperatures_c input sample sensor))
      [0..<TRIAL_TEMPERATURE_COUNT]) [0..<TRIAL_PREFLIGHT_SAMPLES] \<longleftrightarrow>
   \<not> (\<forall>sample < 5. \<forall>sensor < 3. temperature_safe (temperatures_c input sample sensor))"
  unfolding list_ex_iff temperature_rejected_iff by force

lemma rises_checked:
  "list_ex (\<lambda>sensor. TRIAL_TEMPERATURE_MAX_RISE_C < temperature_rise input sensor)
      [TRIAL_CPU_HOTSPOT_INDEX + 1..<TRIAL_TEMPERATURE_COUNT] \<longleftrightarrow>
   \<not> (\<forall>sensor \<in> {1, 2}. \<not> round64 5 < temperatures_c input 4 sensor - temperatures_c input 0 sensor)"
  by (auto simp: upt_small temperature_rise_def)

lemma make_plan_cases:
  "fst (trial_make_plan (Some input) (Some plan) error error_size) \<longleftrightarrow> preflight_safe input"
  "preflight_safe input \<Longrightarrow>
   fst (snd (trial_make_plan (Some input) (Some plan) error error_size)) =
     Some (plan\<lparr>plan_target := (plan_target plan)
     (0 := planned_target (fans input 0), 1 := planned_target (fans input 1))\<rparr>)"
proof -
  let ?env = "(\<exists>m. model input = Some m \<and> strcmp_eq m ''Mac15,7'') \<and>
     (\<exists>v. os_version input = Some v \<and> strcmp_eq v ''27.0'') \<and>
     fan_count input = 2 \<and>
     strncmp_eq 4 (ftst_type input) ''ui8 '' \<and> ftst_size input = 1 \<and> ftst input = 0"
  let ?temps = "(\<forall>sample < 5. \<forall>sensor < 3. temperature_safe (temperatures_c input sample sensor)) \<and>
     (\<forall>sensor \<in> {1, 2}. \<not> round64 5 < temperatures_c input 4 sensor - temperatures_c input 0 sensor)"
  let ?fans = "\<forall>fan < 2. fan_ready (fans input fan) \<and> has_headroom (fans input fan)"
  have ps: "preflight_safe input \<longleftrightarrow> ?env \<and> ?temps \<and> ?fans"
    by (auto simp: preflight_safe_def)
  have rejected: "\<not> fst (trial_make_plan (Some input) (Some plan) error error_size)" if "\<not> (?env \<and> ?temps)"
    using that unfolding trial_make_plan_def temperatures_checked rises_checked
    by (auto simp: exact_type_def TRIAL_EXPECTED_MODEL_def TRIAL_EXPECTED_OS_VERSION_def
        simp del: plan_fans.simps split: option.splits if_splits)
  have passed: "trial_make_plan (Some input) (Some plan) error error_size =
     (case plan_fans input [0..<TRIAL_FAN_COUNT] plan of
        (Some message, plan') \<Rightarrow> (False, Some plan', fail error error_size message)
      | (None, plan') \<Rightarrow>
          (True, Some plan', if error \<noteq> None \<and> error_size > 0 then Some [] else error))"
    if "?env \<and> ?temps"
    using that unfolding trial_make_plan_def temperatures_checked rises_checked
    by (auto simp: exact_type_def TRIAL_EXPECTED_MODEL_def TRIAL_EXPECTED_OS_VERSION_def
        simp del: plan_fans.simps split: option.splits)
  obtain r plan' where pf: "plan_fans input [0..<TRIAL_FAN_COUNT] plan = (r, plan')" by fastforce
  show "fst (trial_make_plan (Some input) (Some plan) error error_size) \<longleftrightarrow> preflight_safe input"
  proof (cases "?env \<and> ?temps")
    case True
    then show ?thesis
      unfolding passed[OF True] ps using plan_fans_accepts[of input plan] pf
      by (cases r) (auto simp del: trial_constants)
  next
    case False
    with rejected ps show ?thesis by blast
  qed
  assume "preflight_safe input"
  then have env: "?env \<and> ?temps" and fans: ?fans using ps by auto
  show "fst (snd (trial_make_plan (Some input) (Some plan) error error_size)) =
     Some (plan\<lparr>plan_target := (plan_target plan)
     (0 := planned_target (fans input 0), 1 := planned_target (fans input 1))\<rparr>)"
    unfolding passed[OF env] by (simp add: plan_fans_two[THEN iffD2, OF conjI[OF fans refl]]
        del: trial_constants)
qed

lemma make_plan_result:
  assumes "trial_make_plan (Some input) (Some plan) error error_size = (True, plan_ptr, error')"
  shows "preflight_safe input"
    and "fan < 2 \<Longrightarrow> \<exists>plan'. plan_ptr = Some plan' \<and>
           plan_target plan' fan = planned_target (fans input fan)"
proof -
  from assms show safe: "preflight_safe input"
    using make_plan_cases(1)[of input plan error error_size] by simp
  show "\<exists>plan'. plan_ptr = Some plan' \<and> plan_target plan' fan = planned_target (fans input fan)"
    if "fan < 2"
    using that make_plan_cases(2)[OF safe, of plan error error_size] assms
    by (auto simp: numeral_2_eq_2 less_Suc_eq)
qed

lemma fval_fmax: "isfinite x \<Longrightarrow> isfinite y \<Longrightarrow> fval (fmax x y) = max (fval x) (fval y)"
  by (cases x; cases y) (auto simp: fmax_def)

lemma isfinite_fmax: "isfinite x \<Longrightarrow> isfinite y \<Longrightarrow> isfinite (fmax x y)"
  by (auto simp: fmax_def)

lemma fval_planned_target:
  assumes "fan_ready fan" "has_headroom fan"
  shows "fval (planned_target fan) =
         round_to 53 (- 1074) (max (fval (actual_rpm fan)) (fval (min_rpm fan)) + 300)"
  using assms by (simp add: fan_ready_def has_headroom_def planned_target_def fval_plus fval_fmax)

lemma planned_target_le_max:
  assumes "fan_ready fan" "has_headroom fan"
  shows "fval (planned_target fan) \<le> fval (max_rpm fan)"
  using assms by (auto simp: fan_ready_def has_headroom_def less_eq_finite)

lemma planned_target_ge_base:
  assumes "fan_ready fan" "has_headroom fan" "is_double (actual_rpm fan)" "is_double (min_rpm fan)"
  shows "max (fval (actual_rpm fan)) (fval (min_rpm fan)) \<le> fval (planned_target fan)"
proof -
  let ?base = "max (fval (actual_rpm fan)) (fval (min_rpm fan))"
  have "round_to 53 (- 1074) ?base = ?base"
    using assms(3,4) by (auto simp: is_double_def exact64_def max_def)
  moreover have "round_to 53 (- 1074) ?base \<le> round_to 53 (- 1074) (?base + 300)"
    by (rule round_to_mono) auto
  ultimately show ?thesis by (simp add: fval_planned_target assms)
qed

lemma planned_target_near:
  assumes "fan_ready fan" "has_headroom fan" "fval (max_rpm fan) \<le> 65536"
    "is_double (actual_rpm fan)" "is_double (min_rpm fan)"
  shows "\<bar>fval (planned_target fan) - (max (fval (actual_rpm fan)) (fval (min_rpm fan)) + 300)\<bar>
         \<le> 1 / 2 ^ 36"
proof -
  let ?base = "max (fval (actual_rpm fan)) (fval (min_rpm fan))"
  have base: "0 \<le> ?base" "?base \<le> 65536"
    using assms planned_target_ge_base[OF assms(1,2,4,5)] planned_target_le_max[OF assms(1,2)]
    by (auto simp: fan_ready_def)
  have "ilog2 (?base + 300) \<le> 16"
    using base by (intro ilog2_le) auto
  then have "ulp_exp 53 (- 1074) (?base + 300) \<le> - 36" using base by (simp add: ulp_exp_def)
  then have "(2::rat) powi (ulp_exp 53 (- 1074) (?base + 300)) \<le> 2 powi (- 36)" by (rule powi2_mono)
  moreover have "\<bar>round_to 53 (- 1074) (?base + 300) - (?base + 300)\<bar>
      \<le> 2 powi (ulp_exp 53 (- 1074) (?base + 300)) / 2"
    using base by (intro round_to_error) auto
  ultimately show ?thesis
    by (simp add: fval_planned_target assms power_int_def power_divide)
qed

section \<open>The last gate before a target write\<close>

lemma minus_self: "isfinite x \<Longrightarrow> x - x = Fin 0"
  by (cases x) (auto simp: minus_double_def plus_finite signed_zero_def)

lemma deq_zero: "isfinite x \<Longrightarrow> deq x (Fin 0) \<longleftrightarrow> fval x = 0"
  by (auto simp: deq_def less_eq_finite)

lemma fval_near_zero:
  assumes "isfinite (x - y)" "\<bar>x - y\<bar> \<le> round64 (1 / 100)"
  shows "\<bar>fval x - fval y\<bar> < 1 / 64"
proof (rule ccontr)
  assume "\<not> ?thesis"
  then have far: "(2::rat) powi (- 6) \<le> \<bar>fval x - fval y\<bar>" by (simp add: power_int_def power_divide)
  have exact: "round_to 53 (- 1074) (2 powi (- 6)) = 2 powi (- 6)"
    by (rule round_to_exact'[of _ 1 "- 6"]) auto
  have "(2::rat) powi (- 6) \<le> \<bar>fval (x - y)\<bar>"
    using round_to_mono[OF far, of 53 "- 1074"] exact by (simp add: fval_minus assms(1) round_to_abs)
  moreover have "\<bar>fval (x - y)\<bar> \<le> 5764607523034235 / 2 ^ 59"
    using assms by (simp add: round64_001 less_eq_finite)
  ultimately show False by (simp add: power_int_def power_divide)
qed


text \<open>The tolerance and the difference of speeds up to 65536 RPM are finite and nearly exact.\<close>

lemma small_finite: "\<bar>round_to 53 (- 1074) r\<bar> < 2 ^ 18 \<Longrightarrow> isfinite (round64 r)"
proof -
  assume "\<bar>round_to 53 (- 1074) r\<bar> < 2 ^ 18"
  moreover have "(2::rat) ^ 18 \<le> 2 powi 1024" by simp
  ultimately show ?thesis unfolding isfinite_round64 by (rule less_le_trans)
qed

lemma tolerance_rounding:
  assumes "isfinite target" "0 \<le> fval target" "fval target \<le> 65536"
  shows "isfinite (target * round64 (15 / 100))"
    and "fval (target * round64 (15 / 100)) \<le> 15 / 100 * fval target + 1 / 2 ^ 36"
proof -
  define l :: rat where "l = 5404319552844595 / 2 ^ 55"
  have l: "round64 (15 / 100) = Fin l" "0 < l" "l < 15 / 100 + 1 / 2 ^ 54"
    unfolding l_def by (rule round64_015) simp_all
  let ?p = "fval target * l"
  have "?p \<le> fval target * (15 / 100 + 1 / 2 ^ 54)"
    using assms(2) l by (intro mult_left_mono) auto
  with assms(2,3) l(2) have tl: "0 \<le> ?p" "?p \<le> 65536" "?p \<le> 15 / 100 * fval target + 1 / 2 ^ 38"
    by (auto simp: field_simps)
  have pe: "\<bar>round_to 53 (- 1074) ?p - ?p\<bar> \<le> 1 / 2 ^ 37"
    using round64_error_small[of ?p 16] tl by (simp add: power_int_def power_divide)
  have "\<bar>round_to 53 (- 1074) ?p\<bar> < 2 ^ 18"
    using order_trans[OF pe, of 1] tl(1,2) by simp
  then show pf: "isfinite (target * round64 (15 / 100))"
    using assms(1) unfolding l(1) by (auto simp: times_finite intro: small_finite)
  show "fval (target * round64 (15 / 100)) \<le> 15 / 100 * fval target + 1 / 2 ^ 36"
    using fval_times[OF pf] abs_le_D1[OF pe] tl(3) unfolding l(1) by simp
qed

lemma difference_rounding:
  assumes "isfinite x" "isfinite y" "\<bar>fval x\<bar> \<le> 65536" "0 \<le> fval y" "fval y \<le> 65536"
  shows "isfinite (x - y)" and "\<bar>fval (x - y) - (fval x - fval y)\<bar> \<le> 1 / 2 ^ 36"
proof -
  have de: "\<bar>round_to 53 (- 1074) (fval x - fval y) - (fval x - fval y)\<bar> \<le> 1 / 2 ^ 36"
    using round64_error_small[of "fval x - fval y" 17] assms(3-5)
    by (simp add: power_int_def power_divide abs_le_iff abs_less_iff)
  have "\<bar>round_to 53 (- 1074) (fval x - fval y)\<bar> < 2 ^ 18"
    using order_trans[OF de, of 1] assms(3-5) by simp
  then show df: "isfinite (x - y)"
    using assms(1,2) by (auto simp: minus_double_def plus_finite intro: small_finite)
  show "\<bar>fval (x - y) - (fval x - fval y)\<bar> \<le> 1 / 2 ^ 36"
    using de by (simp add: fval_minus[OF df])
qed

section \<open>Properties\<close>

text \<open>C6: The preflight gate accepts exactly the safe inputs: the exact model and OS, two fans, an
  unlocked ui8 Ftst, fifteen plausible temperatures below 75 C, bounded GPU and SSD rises, and two
  ready fans with headroom. A missing input or plan pointer is always rejected.\<close>

theorem make_plan_accepts_iff_safe:
  "fst (trial_make_plan input_ptr plan_ptr error error_size) \<longleftrightarrow>
   (\<exists>input plan. input_ptr = Some input \<and> plan_ptr = Some plan \<and> preflight_safe input)"
proof (cases input_ptr)
  case None
  then show ?thesis by (simp add: trial_make_plan_def)
next
  case (Some input)
  note i = this
  show ?thesis
  proof (cases plan_ptr)
    case None
    with i show ?thesis by (simp add: trial_make_plan_def)
  next
    case (Some plan)
    with i show ?thesis by (simp add: make_plan_cases(1))
  qed
qed

text \<open>C29: Every target of an accepted plan, whose fan speeds are doubles, is finite and lies between
  the larger of the fan's current and minimum speed and its maximum; when that maximum is at most
  65536 RPM, the target is within 2^-36 RPM (the rounding of the double addition) of that base plus
  300.\<close>

theorem plan_target_bounds:
  assumes "trial_make_plan (Some input) (Some plan) error error_size = (True, plan_ptr, error')"
    and "fan < 2"
    and "is_double (actual_rpm (fans input fan))" and "is_double (min_rpm (fans input fan))"
  shows "\<exists>plan'. plan_ptr = Some plan' \<and>
    (let base = max (fval (actual_rpm (fans input fan))) (fval (min_rpm (fans input fan)));
         target = plan_target plan' fan
     in isfinite target \<and> base \<le> fval target \<and> fval target \<le> fval (max_rpm (fans input fan)) \<and>
        (fval (max_rpm (fans input fan)) \<le> 65536 \<longrightarrow> \<bar>fval target - (base + 300)\<bar> \<le> 1 / 2 ^ 36))"
proof -
  obtain plan' where p: "plan_ptr = Some plan'" "plan_target plan' fan = planned_target (fans input fan)"
    using make_plan_result(2)[OF assms(1,2)] by blast
  have "fan_ready (fans input fan)" "has_headroom (fans input fan)"
    using make_plan_result(1)[OF assms(1)] assms(2) by (auto simp: preflight_safe_def)
  then show ?thesis
    using p planned_target_ge_base planned_target_le_max planned_target_near assms(3,4)
    by (auto simp: Let_def has_headroom_def)
qed

text \<open>The write gate admits the zero target of any fan in range and, with a plan, only speeds
  within 1/64 RPM of that fan's planned target; without a plan, zero alone.\<close>

theorem write_gate_sound:
  assumes "trial_target_write_allowed plan_ptr fan rpm"
  shows "fan < 2 \<and> isfinite rpm \<and> 0 \<le> fval rpm \<and>
    (fval rpm = 0 \<or> (\<exists>plan. plan_ptr = Some plan \<and> isfinite (plan_target plan fan) \<and>
                       \<bar>fval rpm - fval (plan_target plan fan)\<bar> < 1 / 64))"
proof -
  have fin: "isfinite (rpm - t)" if "\<bar>rpm - t\<bar> \<le> round64 (1 / 100)" for t
    using that by (cases "rpm - t") (auto simp: round64_001 abs_double_def split: if_splits)
  show ?thesis
    using assms fin fval_near_zero
    by (auto simp: trial_target_write_allowed_def finite_compare deq_zero
        split: if_splits option.splits)
qed

text \<open>C32: What an accepted plan, whose fan speeds are doubles, means for the transport: the write gate
  lets each of its targets through, and the encoder accepts the target for the fan's own key exactly
  when that is a flt key or the target is at most 16383 RPM; so a plan may hold a target that its
  fpe2 key cannot be given.\<close>

theorem plan_targets_writable:
  assumes "trial_make_plan (Some input) (Some plan) error error_size = (True, Some plan', error')"
    and "fan < 2"
    and "is_double (actual_rpm (fans input fan))" and "is_double (min_rpm (fans input fan))"
  shows "trial_target_write_allowed (Some plan') fan (plan_target plan' fan) \<and>
         (fst (trial_encode_rpm (Some (target_type (fans input fan))) (target_size (fans input fan))
                 (plan_target plan' fan) (Some out) (Some n)) \<longleftrightarrow>
          exact_type (Some (target_type (fans input fan))) ''flt '' \<or>
          fval (plan_target plan' fan) \<le> 16383)"
proof -
  let ?t = "plan_target plan' fan"
  have t: "?t = planned_target (fans input fan)"
    using make_plan_result(2)[OF assms(1,2)] by simp
  have r: "fan_ready (fans input fan)" "has_headroom (fans input fan)"
    using make_plan_result(1)[OF assms(1)] assms(2) by (auto simp: preflight_safe_def)
  have "0 \<le> max (fval (actual_rpm (fans input fan))) (fval (min_rpm (fans input fan)))"
    using r by (auto simp: fan_ready_def max_def)
  then have pos: "isfinite ?t" "0 \<le> fval ?t"
    using planned_target_ge_base[OF r assms(3,4)] r(2) t by (auto simp: has_headroom_def)
  have type: "supported_target_type (fans input fan)" using r(1) by (simp add: fan_ready_def)
  have "trial_target_write_allowed (Some plan') fan ?t"
    using pos assms(2)
    by (auto simp: trial_target_write_allowed_def finite_compare minus_self round64_001 abs_double_def)
  moreover have "\<not> (exact_type (Some ty) ''flt '' \<and> exact_type (Some ty) ''fpe2'')" for ty
    by (auto simp: exact_type_def strncmp_eq_def c_string_def)
  ultimately show ?thesis
    using pos type
    by (auto simp: trial_encode_rpm_def finite_compare supported_target_type_def Let_def)
qed

text \<open>A fan counts as having reached its target only when it runs faster than its baseline
  and its speed is within 250 RPM or 15 percent of the target; the slack of 2^-30 covers the
  rounding of the difference and of the product.\<close>

theorem reached_target_sound:
  assumes "trial_actual_reached_target baseline actual target"
    and "\<bar>fval actual\<bar> \<le> 65536" and "0 \<le> fval target" and "fval target \<le> 65536"
  shows "fval baseline < fval actual \<and>
         \<bar>fval actual - fval target\<bar> \<le> max 250 (15 / 100 * fval target) + 1 / 2 ^ 30"
proof -
  have fin: "isfinite baseline" "isfinite actual" "isfinite target"
    and less: "\<not> actual \<le> baseline"
    and tol: "\<bar>actual - target\<bar> \<le> fmax (round64 250) (target * round64 (15 / 100))"
    using assms(1) by (auto simp: trial_actual_reached_target_def Let_def split: if_splits)
  note t = tolerance_rounding[OF fin(3) assms(3,4)]
  note d = difference_rounding[OF fin(2,3) assms(2,3,4)]
  have "\<bar>fval (actual - target)\<bar> \<le> max 250 (fval (target * round64 (15 / 100)))"
    using tol t(1) d(1) by (simp add: less_eq_finite isfinite_fmax fval_fmax)
  then have "\<bar>fval actual - fval target\<bar> \<le> max 250 (15 / 100 * fval target) + 1 / 2 ^ 30"
    using abs_triangle_ineq4[of "fval (actual - target)"
        "fval (actual - target) - (fval actual - fval target)"] d(2) t(2)
    by (simp add: max_def split: if_splits)
  moreover have "fval baseline < fval actual" using less fin by (simp add: less_eq_finite)
  ultimately show ?thesis by simp
qed

end
