(* ===== verification/SmcCodec.thy ===== *)
theory SmcCodec
  imports TrialLogic
begin

text \<open>
  The value codec of the AppleSMC protocol, as \<open>prototype/smc-write-trial/smc-write-trial.c\<close> and
  \<open>prototype/smc-read/smc-read.c\<close> write it: four-character codes, big- and little-endian numbers,
  the typed decoders \<open>read_number\<close> and \<open>read_ui8_exact\<close>, and the fan key names. The lemmas are the
  round trips between these and the encoder \<open>trial_encode_rpm\<close> of the trial logic.
\<close>

section \<open>Four-character codes and byte orders\<close>

definition byte_at :: "string \<Rightarrow> nat \<Rightarrow> u8" where
  "byte_at text i = (if i < length text then word_of_nat (of_char (text ! i)) else 0)"

definition fourcc :: "string \<Rightarrow> u32" where
  "fourcc text =
     push_bit 24 (ucast (byte_at text 0)) OR push_bit 16 (ucast (byte_at text 1)) OR
     push_bit 8 (ucast (byte_at text 2)) OR ucast (byte_at text 3)"

definition fourcc_text :: "u32 \<Rightarrow> string" where
  "fourcc_text value =
     map (\<lambda>index. char_of (unat (ucast (drop_bit (24 - index * 8) value) :: u8))) [0..<4]"

definition big16 :: "(nat \<Rightarrow> u8) \<Rightarrow> u16" where
  "big16 bytes = push_bit 8 (ucast (bytes 0)) OR ucast (bytes 1)"

definition big32 :: "(nat \<Rightarrow> u8) \<Rightarrow> u32" where
  "big32 bytes =
     push_bit 24 (ucast (bytes 0)) OR push_bit 16 (ucast (bytes 1)) OR
     push_bit 8 (ucast (bytes 2)) OR ucast (bytes 3)"

definition little32 :: "(nat \<Rightarrow> u8) \<Rightarrow> u32" where
  "little32 bytes =
     push_bit 24 (ucast (bytes 3)) OR push_bit 16 (ucast (bytes 2)) OR
     push_bit 8 (ucast (bytes 1)) OR ucast (bytes 0)"

section \<open>Typed values\<close>

record smc_value =
  value_size :: u32
  value_type :: string
  value_bytes :: "nat \<Rightarrow> u8"

definition zero_value :: smc_value where
  "zero_value = \<lparr>value_size = 0, value_type = [], value_bytes = \<lambda>_. 0\<rparr>"

definition double_of_int :: "int \<Rightarrow> double" where
  "double_of_int i = round64 (of_int i)"

definition decoded :: "double \<Rightarrow> bool \<times> double" where
  "decoded d = (isfinite d, d)"

text \<open>
  \<open>read_number\<close> returns whether it decoded a finite number and what the output parameter holds
  afterwards: a decoded NaN or infinity is stored although the function returns false.
\<close>

definition read_number :: "smc_value \<Rightarrow> double \<Rightarrow> bool \<times> double" where
  "read_number value number =
     (let ty = value_type value
      in if strncmp_eq 4 ty ''flt '' \<and> value_size value = 4
         then decoded (float32_of_bits (little32 (value_bytes value)))
         else if strncmp_eq 4 ty ''sp78'' \<and> value_size value = 2
         then decoded (double_of_int (sint (big16 (value_bytes value))) / round64 256)
         else if strncmp_eq 4 ty ''fpe2'' \<and> value_size value = 2
         then decoded (double_of_int (uint (big16 (value_bytes value))) / round64 4)
         else if strncmp_eq 4 ty ''ui8 '' \<and> value_size value = 1
         then decoded (double_of_int (uint (value_bytes value 0)))
         else if strncmp_eq 4 ty ''ui16'' \<and> value_size value = 2
         then decoded (double_of_int (uint (big16 (value_bytes value))))
         else if strncmp_eq 4 ty ''ui32'' \<and> value_size value = 4
         then decoded (double_of_int (uint (big32 (value_bytes value))))
         else (False, number))"

definition read_ui8_exact :: "smc_value \<Rightarrow> u8 \<Rightarrow> bool \<times> u8" where
  "read_ui8_exact value number =
     (if value_size value \<noteq> 1 \<or> \<not> strncmp_eq 4 (value_type value) ''ui8 '' then (False, number)
      else (True, value_bytes value 0))"

text \<open>The read-only inventory tool compares the whole type string and accepts longer values.\<close>

definition inventory_read_number :: "smc_value \<Rightarrow> double \<Rightarrow> bool \<times> double" where
  "inventory_read_number value number =
     (let ty = value_type value
      in if strcmp_eq ty ''flt '' \<and> 4 \<le> value_size value
         then decoded (float32_of_bits (little32 (value_bytes value)))
         else if strcmp_eq ty ''sp78'' \<and> 2 \<le> value_size value
         then decoded (double_of_int (sint (big16 (value_bytes value))) / round64 256)
         else if strcmp_eq ty ''fpe2'' \<and> 2 \<le> value_size value
         then decoded (double_of_int (uint (big16 (value_bytes value))) / round64 4)
         else if strcmp_eq ty ''ui8 '' \<and> 1 \<le> value_size value
         then decoded (double_of_int (uint (value_bytes value 0)))
         else if strcmp_eq ty ''ui16'' \<and> 2 \<le> value_size value
         then decoded (double_of_int (uint (big16 (value_bytes value))))
         else if strcmp_eq ty ''ui32'' \<and> 4 \<le> value_size value
         then decoded (double_of_int (uint (big32 (value_bytes value))))
         else (False, number))"

definition fan_key :: "nat \<Rightarrow> string \<Rightarrow> string" where
  "fan_key index suffix =
     [CHR ''F'', char_of (48 + index), suffix ! 0, suffix ! 1]"

section \<open>Round trips\<close>

lemma ucast_low_byte: "(ucast (x AND 0xff) :: u8) = ucast (x :: 'a::len word)"
proof -
  have m: "(0xff :: 'a word) = mask 8" by (simp add: mask_eq_exp_minus_1)
  show ?thesis
    unfolding m by (rule bit_word_eqI) (auto simp: bit_simps dest: bit_imp_le_length)
qed

lemma bytes_of_word32:
  fixes w :: u32
  shows "push_bit 24 (ucast (ucast (drop_bit 24 w) :: u8)) OR
    push_bit 16 (ucast (ucast (drop_bit 16 w) :: u8)) OR
    push_bit 8 (ucast (ucast (drop_bit 8 w) :: u8)) OR ucast (ucast w :: u8) = w" (is "?l = w")
proof (rule bit_word_eqI)
  fix n assume "n < LENGTH(32)"
  then consider "n < 8" | "8 \<le> n" "n < 16" | "16 \<le> n" "n < 24" | "24 \<le> n" "n < 32"
    by fastforce
  then show "bit ?l n = bit w n"
    by cases (simp_all add: bit_simps less_diff_conv2)
qed

lemma bytes_of_word16:
  fixes w :: u16
  shows "push_bit 8 (ucast (ucast (drop_bit 8 w) :: u8)) OR ucast (ucast w :: u8) = w"
    (is "?l = w")
proof (rule bit_word_eqI)
  fix n assume "n < LENGTH(16)"
  then consider "n < 8" | "8 \<le> n" "n < 16" by fastforce
  then show "bit ?l n = bit w n"
    by cases (simp_all add: bit_simps less_diff_conv2)
qed

lemma little32_bytes:
  "little32 (f(0 := ucast (bits AND 0xff), 1 := ucast (drop_bit 8 bits AND 0xff),
               2 := ucast (drop_bit 16 bits AND 0xff), 3 := ucast (drop_bit 24 bits AND 0xff)))
   = bits"
  by (simp add: little32_def ucast_low_byte bytes_of_word32)

lemma big16_bytes:
  "big16 (f(0 := ucast (drop_bit 8 w), 1 := ucast (w AND 0xff), 2 := a, 3 := b)) = w"
  by (simp add: big16_def ucast_low_byte bytes_of_word16)

lemma byte_at_fourcc_text:
  "i < 4 \<Longrightarrow> byte_at (fourcc_text v) i = ucast (drop_bit (24 - i * 8) v)"
proof -
  assume "i < 4"
  moreover have "unat (ucast (drop_bit (24 - i * 8) v) :: u8) < 256"
    using unsigned_less[where ?'a = nat, of "ucast (drop_bit (24 - i * 8) v) :: u8"] by simp
  ultimately show ?thesis by (simp add: byte_at_def fourcc_text_def)
qed

theorem fourcc_roundtrip: "fourcc (fourcc_text v) = v"
  by (simp add: fourcc_def byte_at_fourcc_text bytes_of_word32)


lemma to_float32_is_float32:
  assumes "isfinite d" "\<bar>fval d\<bar> \<le> 2 powi 127"
  shows "is_float32 (to_float32 d)" and "isfinite (to_float32 d)"
    and "fval (to_float32 d) = round_to 24 (- 149) (fval d)"
proof -
  have "is_float32 (to_float32 d) \<and> isfinite (to_float32 d) \<and>
        fval (to_float32 d) = round_to 24 (- 149) (fval d)"
  proof (cases "fval d = 0")
    case True
    with assms(1) show ?thesis by (simp add: to_float32_def is_float32_def)
  next
    case False
    have "round_to 24 (- 149) \<bar>fval d\<bar> \<le> 2 powi 127"
      using False assms(2) ilog2_mono[of "\<bar>fval d\<bar>" "2 powi 127"]
      by (intro round_to_bounds_pow) (auto simp: ulp_exp_def simp del: power_int_numeral)
    then have "\<bar>round_to 24 (- 149) (fval d)\<bar> \<le> 2 powi 127" by (simp only: round_to_abs)
    also have "\<dots> < 2 powi 128" by (intro powi2_less) simp
    finally have b: "\<bar>round_to 24 (- 149) (fval d)\<bar> < 2 powi 128" .
    then show ?thesis
      using False assms(1) round_to_idem[of 24 "- 149" "fval d"]
      by (auto simp: to_float32_def round32_def round_fmt_def is_float32_def Let_def
          simp del: power_int_numeral)
  qed
  then show "is_float32 (to_float32 d)" "isfinite (to_float32 d)"
    "fval (to_float32 d) = round_to 24 (- 149) (fval d)" by auto
qed

lemma to_float32_cases:
  assumes "isfinite d"
  obtains "to_float32 d = d" "fval d = 0"
  | "fval d \<noteq> 0" "2 powi 128 \<le> \<bar>round_to 24 (- 149) (fval d)\<bar>"
    "to_float32 d = Infinite (round_to 24 (- 149) (fval d) < 0)"
  | "fval d \<noteq> 0" "\<bar>round_to 24 (- 149) (fval d)\<bar> < 2 powi 128" "isfinite (to_float32 d)"
    "fval (to_float32 d) = round_to 24 (- 149) (fval d)"
proof -
  let ?v = "round_to 24 (- 149) (fval d)"
  consider "fval d = 0" | "fval d \<noteq> 0" "2 powi 128 \<le> \<bar>?v\<bar>" | "fval d \<noteq> 0" "\<bar>?v\<bar> < 2 powi 128"
    by linarith
  then show thesis
  proof cases
    case 1
    then show ?thesis using that(1) by (simp add: to_float32_def)
  next
    case 2
    then show ?thesis
      using that(2) assms by (simp add: to_float32_def round32_def round_fmt_def Let_def del: power_int_numeral)
  next
    case 3
    then have "to_float32 d = (if ?v = 0 \<and> fval d < 0 then NegZero else Fin ?v)"
      using assms by (simp add: to_float32_def round32_def round_fmt_def Let_def not_le del: power_int_numeral)
    with 3 show ?thesis using that(3) by simp
  qed
qed

lemma to_float32_float32: "isfinite d \<Longrightarrow> is_float32 (to_float32 d)"
  by (rule to_float32_cases) (auto simp: is_float32_def round_to_idem simp del: power_int_numeral)

lemma to_float32_overflow:
  assumes "isfinite d" "0 \<le> fval d" "\<not> isfinite (to_float32 d)"
  shows "to_float32 d = Infinite False \<and> 2 powi 127 < fval d"
proof -
  have "\<not> \<bar>fval d\<bar> \<le> 2 powi 127" using to_float32_is_float32(2)[OF assms(1)] assms(3) by blast
  moreover have "to_float32 d = Infinite (round_to 24 (- 149) (fval d) < 0)"
    using assms(3) by (rule_tac to_float32_cases[OF assms(1)]) (use assms(1) in auto)
  ultimately show ?thesis using assms(2) round_to_nonneg[OF assms(2), of 24 "- 149"] by auto
qed

lemma to_float32_error:
  assumes "isfinite d" "0 \<le> fval d" "isfinite (to_float32 d)"
  shows "\<bar>fval (to_float32 d) - fval d\<bar> \<le> max (fval d) (2 powi (- 126)) / 2 ^ 24"
proof (rule to_float32_cases[OF assms(1)])
  assume v: "fval d \<noteq> 0" "fval (to_float32 d) = round_to 24 (- 149) (fval d)"
  let ?e = "ulp_exp 24 (- 149) (fval d)"
  have "(2::rat) powi ?e / 2 \<le> max (fval d) (2 powi (- 126)) / 2 ^ 24"
  proof (cases "- 149 \<le> ilog2 (fval d) - 23")
    case True
    then have "?e = ilog2 (fval d) - 23" using assms(2) v(1) by (simp add: ulp_exp_def)
    moreover have "(2::rat) powi (ilog2 (fval d)) \<le> fval d"
      using ilog2_bounds(1)[of "fval d"] assms(2) v(1) by simp
    ultimately show ?thesis by (simp add: power_int_diff)
  next
    case False
    then have "?e = - 149" using assms(2) v(1) by (simp add: ulp_exp_def)
    moreover have "(2::rat) powi (- 149) / 2 = 2 powi (- 126) / 2 ^ 24"
      by (simp add: power_int_def power_divide)
    ultimately show ?thesis by (simp del: power_int_numeral power_int_minus add: divide_right_mono)
  qed
  with round_to_error[OF v(1), of 24 "- 149"] show ?thesis by (simp add: v(2))
qed (use assms in \<open>auto simp: max_def\<close>)

lemma double_quarters:
  assumes "0 \<le> n" "n < 65536"
  shows "double_of_int n / round64 4 = Fin (of_int n / 4)"
proof -
  have d: "double_of_int n = Fin (of_int n)"
    using assms by (auto simp: double_of_int_def intro!: round64_exact exact64_of_int)
  have "round_to 53 (- 1074) (of_int n / 4) = of_int n / 4"
    using assms by (intro round_to_exact'[of _ n "- 2"]) (auto simp: power_int_def power_divide)
  moreover have "\<bar>of_int n / 4\<bar> < (2 powi 1024 :: rat)"
  proof -
    have "\<bar>of_int n / 4\<bar> < (2 ^ 16 :: rat)" using assms by simp
    also have "\<dots> \<le> 2 powi 1024" by simp
    finally show ?thesis .
  qed
  ultimately have "round64 (of_int n / 4) = Fin (of_int n / 4)"
    by (intro round64_exact) (simp add: exact64_def)
  then show ?thesis
    using assms by (auto simp: divide_double_def d signed_zero_def)
qed


section \<open>Properties\<close>

text \<open>C30: Every finite speed that is not negative has a four-byte flt encoding, and it reads back as
  the C conversion of the speed to float: off by at most 2^-24 of the speed (and of 2^-126, where
  the subnormal numbers begin), which is 1/256 RPM at 65536 RPM. Only a speed that this conversion
  overflows, none up to 2^127, reads back as an infinity, which the reader reports as a failure.\<close>

theorem encode_flt_roundtrip:
  assumes "isfinite rpm" and "0 \<le> fval rpm" and "strncmp_eq 4 ty ''flt ''"
  shows "\<exists>out'. trial_encode_rpm (Some ty) 4 rpm (Some out) (Some n) = (True, Some out', Some 4) \<and>
    (let decoded = to_float32 rpm
     in read_number \<lparr>value_size = 4, value_type = ty, value_bytes = out'\<rparr> d = (isfinite decoded, decoded) \<and>
        (if isfinite decoded
         then \<bar>fval decoded - fval rpm\<bar> \<le> max (fval rpm) (2 powi (- 126)) / 2 ^ 24
         else decoded = Infinite False \<and> 2 powi 127 < fval rpm))"
proof -
  have enc: "trial_encode_rpm (Some ty) 4 rpm (Some out) (Some n) =
      (True, Some (out(0 := ucast (bits_of_float32 (to_float32 rpm) AND 0xff),
        1 := ucast (drop_bit 8 (bits_of_float32 (to_float32 rpm)) AND 0xff),
        2 := ucast (drop_bit 16 (bits_of_float32 (to_float32 rpm)) AND 0xff),
        3 := ucast (drop_bit 24 (bits_of_float32 (to_float32 rpm)) AND 0xff))), Some 4)"
    using assms by (simp add: trial_encode_rpm_def exact_type_def finite_compare Let_def)
  have range: "if isfinite (to_float32 rpm)
     then \<bar>fval (to_float32 rpm) - fval rpm\<bar> \<le> max (fval rpm) (2 powi (- 126)) / 2 ^ 24
     else to_float32 rpm = Infinite False \<and> 2 powi 127 < fval rpm"
    using to_float32_error[OF assms(1,2)] to_float32_overflow[OF assms(1,2)] by simp
  show ?thesis
    unfolding enc using to_float32_float32[OF assms(1)] range assms(3)
    by (intro exI conjI) (auto simp only: read_number_def smc_value.simps little32_bytes
        float32_roundtrip Let_def decoded_def if_True simp_thms)
qed

lemma fpe2_not_flt: "strncmp_eq 4 ty ''fpe2'' \<Longrightarrow> \<not> strncmp_eq 4 ty ''flt '' \<and> \<not> strncmp_eq 4 ty ''sp78''"
  by (simp add: strncmp_eq_def c_string_def)

text \<open>A speed of at most 16383 RPM encoded for a two-byte fpe2 key reads back as the speed
  truncated to quarter RPM.\<close>

theorem encode_fpe2_roundtrip:
  assumes "isfinite rpm" and "is_double rpm" and "0 \<le> fval rpm" and "fval rpm \<le> 16383"
    and "strncmp_eq 4 ty ''fpe2''"
  shows "\<exists>out' q. trial_encode_rpm (Some ty) 2 rpm (Some out) (Some n) = (True, Some out', Some 2) \<and>
    read_number \<lparr>value_size = 2, value_type = ty, value_bytes = out'\<rparr> d = (True, Fin q) \<and>
    q \<le> fval rpm \<and> fval rpm < q + 1 / 4"
proof -
  let ?k = "\<lfloor>4 * fval rpm\<rfloor>"
  have four: "rpm * round64 4 = (if fval rpm = 0 then signed_zero (signbit rpm) else round64 (4 * fval rpm))"
    using assms(1) by (cases rpm) (auto simp: times_double_def mult.commute)
  have "round_to 53 (- 1074) (fval rpm * 2 powi 2) = fval rpm * 2 powi 2"
    using assms(2) by (intro round_to_scale) (auto simp: is_double_def exact64_def)
  moreover have "\<bar>fval rpm * 4\<bar> < (2 powi 1024 :: rat)"
  proof -
    have "\<bar>fval rpm * 4\<bar> < (2 ^ 16 :: rat)" using assms(3,4) by simp
    also have "\<dots> \<le> 2 powi 1024" by simp
    finally show ?thesis .
  qed
  ultimately have "round64 (4 * fval rpm) = Fin (4 * fval rpm)"
    by (intro round64_exact) (simp add: exact64_def mult.commute)
  then have val: "fval (rpm * round64 4) = 4 * fval rpm" using four by (auto split: if_splits)
  have k: "0 \<le> ?k" "?k < 65536" using assms(3,4) by linarith+
  have u16: "uint (to_u16 (rpm * round64 4)) = ?k"
    using k assms(3) val by (simp add: to_u16_def uint_word_of_int_eq take_bit_eq_mod)
  have enc: "trial_encode_rpm (Some ty) 2 rpm (Some out) (Some n) =
    (True, Some (out(0 := ucast (drop_bit 8 (to_u16 (rpm * round64 4))),
       1 := ucast (to_u16 (rpm * round64 4) AND 0xff), 2 := 0, 3 := 0)), Some 2)"
    using assms fpe2_not_flt[OF assms(5)]
    by (simp add: trial_encode_rpm_def exact_type_def finite_compare Let_def)
  have "q \<le> fval rpm \<and> fval rpm < q + 1 / 4" if "q = of_int ?k / 4" for q
    using that by linarith
  then show ?thesis
    unfolding enc using fpe2_not_flt[OF assms(5)] assms(5) double_quarters[OF k]
    by (intro exI conjI) (auto simp only: read_number_def smc_value.simps big16_bytes u16
        Let_def decoded_def if_True isfinite.simps simp_thms if_False)
qed

end
