(* ===== verification/TrialBackend.thy ===== *)
theory TrialBackend
  imports TrialLogic
begin

text \<open>
  The interface between the trial procedures of \<open>trial_actions.c\<close> and the hardware: the struct
  \<open>TrialBackend\<close> of \<open>trial_actions.h\<close>, a record of callbacks over an opaque context. A callback
  is a state transformer of the context type \<open>'c\<close>, which is arbitrary, so every theorem holds for
  every backend: one that fails, delays, or answers inconsistently.

  A pointer that may be NULL is an \<open>option\<close>. The procedures run in a \<open>world\<close>: the context, the flag
  \<open>observed_fan_state_change\<close> points to, and a ghost trace of the calls made so far (newest first)
  with their answers. Calling a NULL pointer is undefined in C; here it leaves a \<open>NullCall\<close> in the
  trace, so that its absence can be proved.
\<close>

section \<open>Observations\<close>

record trial_observation =
  obs_mode :: "nat \<Rightarrow> u8"
  obs_ftst :: u8
  obs_actual_rpm :: "nat \<Rightarrow> double"
  obs_target_rpm :: "nat \<Rightarrow> double"
  obs_temperatures_c :: "nat \<Rightarrow> double"
  metrics_available :: bool

definition zero_observation :: trial_observation where
  "zero_observation = \<lparr>obs_mode = \<lambda>_. 0, obs_ftst = 0, obs_actual_rpm = \<lambda>_. Fin 0,
     obs_target_rpm = \<lambda>_. Fin 0, obs_temperatures_c = \<lambda>_. Fin 0, metrics_available = False\<rparr>"

definition fan_indices :: "nat list" where "fan_indices = [0..<TRIAL_FAN_COUNT]"

definition trial_observation_is_baseline :: "trial_observation option \<Rightarrow> bool" where
  "trial_observation_is_baseline observation =
     (case observation of
        None \<Rightarrow> False
      | Some obs \<Rightarrow>
          obs_ftst obs = 0 \<and>
          list_all (\<lambda>fan. obs_mode obs fan = 3 \<and> isfinite (obs_target_rpm obs fan) \<and>
                          \<not> round64 1 < \<bar>obs_target_rpm obs fan\<bar>) fan_indices)"

definition modes_released :: "trial_observation \<Rightarrow> bool" where
  "modes_released obs =
     list_all (\<lambda>fan. \<not> (obs_mode obs fan \<noteq> 0 \<and> obs_mode obs fan \<noteq> 3) \<and>
                     isfinite (obs_target_rpm obs fan) \<and>
                     \<not> obs_target_rpm obs fan < round64 0) fan_indices"

definition system_modes_and_zero_targets :: "trial_observation \<Rightarrow> bool" where
  "system_modes_and_zero_targets obs =
     list_all (\<lambda>fan. obs_mode obs fan = 3 \<and> isfinite (obs_target_rpm obs fan) \<and>
                     \<not> round64 1 < \<bar>obs_target_rpm obs fan\<bar>) fan_indices"

definition temperatures_safe :: "trial_observation \<Rightarrow> bool" where
  "temperatures_safe obs =
     list_all (\<lambda>sensor. let temperature = obs_temperatures_c obs sensor
                        in isfinite temperature \<and> \<not> temperature < round64 10 \<and>
                           \<not> TRIAL_TEMPERATURE_LIMIT_C \<le> temperature)
       [0..<TRIAL_TEMPERATURE_COUNT]"

abbreviation baseline :: "trial_observation \<Rightarrow> bool" where
  "baseline obs \<equiv> trial_observation_is_baseline (Some obs)"

lemma fan_indices_two: "fan_indices = [0, Suc 0]"
  by (simp add: fan_indices_def upt_small)

lemma baseline_iff: "baseline obs \<longleftrightarrow> obs_ftst obs = 0 \<and> system_modes_and_zero_targets obs"
  by (simp add: trial_observation_is_baseline_def system_modes_and_zero_targets_def)

lemma system_modes_iff:
  "system_modes_and_zero_targets obs \<longleftrightarrow>
   (\<forall>fan < 2. obs_mode obs fan = 3 \<and> isfinite (obs_target_rpm obs fan) \<and>
              \<bar>fval (obs_target_rpm obs fan)\<bar> \<le> 1)"
  by (auto simp: system_modes_and_zero_targets_def fan_indices_two all_less_2 finite_compare)

lemma modes_released_iff:
  "modes_released obs \<longleftrightarrow>
   (\<forall>fan < 2. (obs_mode obs fan = 0 \<or> obs_mode obs fan = 3) \<and>
              isfinite (obs_target_rpm obs fan) \<and> 0 \<le> fval (obs_target_rpm obs fan))"
  by (auto simp: modes_released_def fan_indices_two all_less_2 finite_compare)

lemma temperatures_safe_iff:
  "temperatures_safe obs \<longleftrightarrow> (\<forall>sensor < 3. temperature_safe (obs_temperatures_c obs sensor))"
  by (auto simp: temperatures_safe_def upt_small all_less_3 finite_compare temperature_safe_def
      Let_def)

section \<open>The backend, its world and its calls\<close>

datatype event =
    WriteMode nat u8 bool
  | WriteTarget nat double bool
  | WriteFtst u8 bool
  | Read bool bool trial_observation
  | Wait nat bool
  | Now double
  | ShouldStop bool
  | Recorded nat trial_observation
  | NullCall

record 'c world =
  context_of :: 'c
  fan_state_change :: bool
  events :: "event list"

record 'c trial_backend =
  write_mode :: "(nat \<Rightarrow> u8 \<Rightarrow> ('c, bool) state) option"
  write_target :: "(nat \<Rightarrow> double \<Rightarrow> ('c, bool) state) option"
  write_ftst :: "(u8 \<Rightarrow> ('c, bool) state) option"
  read_observation ::
    "(bool \<Rightarrow> trial_observation \<Rightarrow> ('c, bool \<times> trial_observation) state) option"
  wait_milliseconds :: "(nat \<Rightarrow> ('c, bool) state) option"
  monotonic_seconds :: "('c, double) state option"
  should_stop :: "('c, bool) state option"
  record_observation :: "(nat \<Rightarrow> trial_observation \<Rightarrow> ('c, unit) state) option"
  observed_fan_state_change :: bool

definition in_context :: "('c, 'r) state \<Rightarrow> ('c world, 'r) state" where
  "in_context m =
     State (\<lambda>w. case run_state m (context_of w) of (r, c) \<Rightarrow> (r, w\<lparr>context_of := c\<rparr>))"

definition note_event :: "event \<Rightarrow> ('c world, unit) state" where
  "note_event e = State (\<lambda>w. ((), w\<lparr>events := e # events w\<rparr>))"

definition call :: "('c, 'r) state option \<Rightarrow> 'r \<Rightarrow> ('r \<Rightarrow> event) \<Rightarrow> ('c world, 'r) state" where
  "call pointer initial e =
     (case pointer of
        None \<Rightarrow> do { note_event NullCall; note_event (e initial); ret initial }
      | Some m \<Rightarrow> do { r \<leftarrow> in_context m; note_event (e r); ret r })"

definition call_write_mode where
  "call_write_mode b fan mode =
     call (map_option (\<lambda>f. f fan mode) (write_mode b)) False (WriteMode fan mode)"

definition call_write_target where
  "call_write_target b fan rpm =
     call (map_option (\<lambda>f. f fan rpm) (write_target b)) False (WriteTarget fan rpm)"

definition call_write_ftst where
  "call_write_ftst b v = call (map_option (\<lambda>f. f v) (write_ftst b)) False (WriteFtst v)"

definition call_read where
  "call_read b temperatures obs =
     call (map_option (\<lambda>f. f temperatures obs) (read_observation b)) (False, obs)
       (\<lambda>(ok, out). Read temperatures ok out)"

definition call_wait where
  "call_wait b ms = call (map_option (\<lambda>f. f ms) (wait_milliseconds b)) False (Wait ms)"

definition call_now where
  "call_now b = call (monotonic_seconds b) (Fin 0) Now"

definition call_should_stop where
  "call_should_stop b = call (should_stop b) False ShouldStop"

definition call_record :: "'c trial_backend \<Rightarrow> nat \<Rightarrow> trial_observation \<Rightarrow> ('c world, unit) state" where
  "call_record b second obs =
     (case record_observation b of
        None \<Rightarrow> ret ()
      | Some f \<Rightarrow> do { in_context (f second obs); note_event (Recorded second obs) })"

definition note_fan_state :: "'c trial_backend \<Rightarrow> trial_observation \<Rightarrow> ('c world, unit) state" where
  "note_fan_state b obs =
     (if observed_fan_state_change b \<and> \<not> system_modes_and_zero_targets obs
      then State (\<lambda>w. ((), w\<lparr>fan_state_change := True\<rparr>)) else ret ())"

lemmas call_defs = call_write_mode_def call_write_target_def call_write_ftst_def call_read_def
  call_wait_def call_now_def call_should_stop_def

section \<open>Views of the trace\<close>

fun is_write :: "event \<Rightarrow> bool" where
  "is_write (WriteMode fan mode ok) = True"
| "is_write (WriteTarget fan rpm ok) = True"
| "is_write (WriteFtst v ok) = True"
| "is_write e = False"

fun is_null_call :: "event \<Rightarrow> bool" where
  "is_null_call NullCall = True"
| "is_null_call e = False"

text \<open>The calls as the callbacks saw them.\<close>

definition calls :: "'c world \<Rightarrow> event list" where
  "calls w = filter (\<lambda>e. \<not> is_null_call e) (events w)"

lemma run_note_event [simp]:
  "run_state (note_event e) w = ((), w\<lparr>events := e # events w\<rparr>)"
  by (simp add: note_event_def)

lemma run_in_context:
  "run_state (in_context m) w =
   (case run_state m (context_of w) of (r, c) \<Rightarrow> (r, w\<lparr>context_of := c\<rparr>))"
  by (simp add: in_context_def)

text \<open>A call adds its own event to the trace, and a \<open>NullCall\<close> only if the pointer was NULL.\<close>

lemma calls_call:
  assumes "run_state (call p d e) w = (r, w')" and "\<And>x. \<not> is_null_call (e x)"
  shows "calls w' = e r # calls w" and "fan_state_change w' = fan_state_change w"
  using assms by (auto simp: call_def calls_def run_in_context split: option.splits prod.splits)

lemma events_call:
  assumes "run_state (call p d e) w = (r, w')" and "p \<noteq> None"
  shows "events w' = e r # events w"
  using assms by (auto simp: call_def run_in_context split: prod.splits)

lemma wp_call_calls:
  assumes "\<And>x. \<not> is_null_call (e x)"
    and "\<And>r w'. calls w' = e r # calls w \<Longrightarrow> fan_state_change w' = fan_state_change w \<Longrightarrow> Q r w'"
  shows "wp (call p d e) Q w"
  using assms calls_call[of p d e w] by (auto intro: wpI)

lemma emits_in_context [emits_intros]: "emits events P (in_context m)"
  by (auto simp: emits_def run_in_context split: prod.splits)

lemma emits_note_event [emits_intros]: "P e \<Longrightarrow> emits events P (note_event e)"
  by (auto simp: emits_def)

lemma emits_note_fan_state [emits_intros]: "emits events P (note_fan_state b obs)"
  by (auto simp: emits_def note_fan_state_def)

lemma emits_call [emits_intros]:
  assumes "p = None \<Longrightarrow> P NullCall" and "\<And>r. P (e r)"
  shows "emits events P (call p d e)"
  unfolding call_def using assms by (intro emits_intros) auto

lemma emits_call_record [emits_intros]:
  "(\<And>f. record_observation b = Some f \<Longrightarrow> P (Recorded k obs)) \<Longrightarrow>
   emits events P (call_record b k obs)"
  unfolding call_record_def by (intro emits_intros) auto

end
