(* ===== verification/SmcBaseline.thy ===== *)
theory SmcBaseline
  imports SmcCodec TrialBackend
begin

text \<open>
  The read-only baseline reader of the helper, \<open>prototype/helper-ipc/SmcBaselineRead.c\<close>: the
  request layout, the two-step read of a key, the fixed sequence of keys that makes a snapshot, and
  the predicate \<open>smc_baseline_is_system\<close> on it.

  IOKit and sysctl are not part of the repository. They are the fields of \<open>smc_driver\<close>, state
  transformers of an arbitrary driver state \<open>'d\<close>: every theorem holds for every driver. A ghost
  trace records the opened and closed connections, every request sent and every answer received.
  The snapshot is filled in place, as in the source: a failed read leaves it partly filled, and only
  the code at the label \<open>close\<close> clears it.
\<close>

section \<open>Snapshots\<close>

datatype smc_baseline_result =
    SMC_BASELINE_OK
  | SMC_BASELINE_UNSUPPORTED_ENVIRONMENT
  | SMC_BASELINE_OPEN_FAILED
  | SMC_BASELINE_READ_FAILED
  | SMC_BASELINE_UNEXPECTED_FORMAT

record smc_baseline_snapshot =
  snap_ftst :: u8
  snap_mode :: "nat \<Rightarrow> u8"
  snap_target_rpm :: "nat \<Rightarrow> double"
  snap_actual_rpm :: "nat \<Rightarrow> double"
  snap_temperatures_c :: "nat \<Rightarrow> double"

definition zero_snapshot :: smc_baseline_snapshot where
  "zero_snapshot = \<lparr>snap_ftst = 0, snap_mode = \<lambda>_. 0, snap_target_rpm = \<lambda>_. Fin 0,
     snap_actual_rpm = \<lambda>_. Fin 0, snap_temperatures_c = \<lambda>_. Fin 0\<rparr>"

definition smc_baseline_temperature_valid :: "double \<Rightarrow> bool" where
  "smc_baseline_temperature_valid celsius \<longleftrightarrow>
     isfinite celsius \<and> round64 10 \<le> celsius \<and> celsius \<le> round64 115"

definition smc_baseline_is_system :: "smc_baseline_snapshot option \<Rightarrow> bool" where
  "smc_baseline_is_system snapshot =
     (case snapshot of
        None \<Rightarrow> False
      | Some snap \<Rightarrow>
          snap_ftst snap = 0 \<and>
          list_all (\<lambda>fan. snap_mode snap fan = 3 \<and> isfinite (snap_target_rpm snap fan) \<and>
                          \<not> round64 1 < \<bar>snap_target_rpm snap fan\<bar>) [0..<2])"

fun smc_baseline_result_name :: "smc_baseline_result \<Rightarrow> string" where
  "smc_baseline_result_name SMC_BASELINE_OK = ''ok''"
| "smc_baseline_result_name SMC_BASELINE_UNSUPPORTED_ENVIRONMENT = ''unsupported_environment''"
| "smc_baseline_result_name SMC_BASELINE_OPEN_FAILED = ''open_failed''"
| "smc_baseline_result_name SMC_BASELINE_READ_FAILED = ''read_failed''"
| "smc_baseline_result_name SMC_BASELINE_UNEXPECTED_FORMAT = ''unexpected_format''"

section \<open>Requests and the driver\<close>

record smc_version =
  major :: u8
  minor :: u8
  build :: u8
  reserved :: u8
  version_release :: u16

record smc_power_limit =
  limit_version :: u16
  limit_length :: u16
  cpu :: u32
  gpu :: u32
  memory :: u32

record smc_key_info =
  info_size :: u32
  info_type :: u32
  info_attributes :: u8

record smc_key_data =
  request_key :: u32
  version :: smc_version
  power_limit :: smc_power_limit
  key_info :: smc_key_info
  reply_result :: u8
  reply_status :: u8
  command :: u8
  request_index :: u32
  data_bytes :: "nat \<Rightarrow> u8"

definition zero_key_data :: smc_key_data where
  "zero_key_data =
     \<lparr>request_key = 0,
      version = \<lparr>major = 0, minor = 0, build = 0, reserved = 0, version_release = 0\<rparr>,
      power_limit = \<lparr>limit_version = 0, limit_length = 0, cpu = 0, gpu = 0, memory = 0\<rparr>,
      key_info = \<lparr>info_size = 0, info_type = 0, info_attributes = 0\<rparr>,
      reply_result = 0, reply_status = 0, command = 0, request_index = 0, data_bytes = \<lambda>_. 0\<rparr>"

definition SMC_KEY_DATA_SIZE :: nat where "SMC_KEY_DATA_SIZE = 80"
definition SMC_READ_BYTES :: u8 where "SMC_READ_BYTES = 5"
definition SMC_READ_KEY_INFO :: u8 where "SMC_READ_KEY_INFO = 9"

datatype io_event =
    Opened bool
  | Closed
  | Requested smc_key_data
  | Answered bool smc_key_data

record 'd io_world =
  driver_state :: 'd
  io_events :: "io_event list"

record 'd smc_driver =
  sysctl :: "string \<Rightarrow> ('d, bool \<times> string \<times> nat) state"
  get_matching_service :: "('d, bool) state"
  service_open :: "('d, bool) state"
  call_struct_method :: "smc_key_data \<Rightarrow> smc_key_data \<Rightarrow> ('d, bool \<times> nat \<times> smc_key_data) state"

definition in_driver :: "('d, 'r) state \<Rightarrow> ('d io_world, 'r) state" where
  "in_driver m =
     State (\<lambda>w. case run_state m (driver_state w) of (r, d) \<Rightarrow> (r, w\<lparr>driver_state := d\<rparr>))"

definition io_note :: "io_event \<Rightarrow> ('d io_world, unit) state" where
  "io_note e = State (\<lambda>w. ((), w\<lparr>io_events := e # io_events w\<rparr>))"

section \<open>Reading\<close>

definition expected_environment :: "'d smc_driver \<Rightarrow> ('d io_world, bool) state" where
  "expected_environment d = do {
     (model_ok, model, model_size) \<leftarrow> in_driver (sysctl d ''hw.model'');
     if \<not> model_ok then ret False
     else do {
       (version_ok, version, version_size) \<leftarrow> in_driver (sysctl d ''kern.osproductversion'');
       ret (version_ok \<and> model_size \<noteq> 0 \<and> version_size \<noteq> 0 \<and>
            strcmp_eq (model[31 := CHR 0x00]) ''Mac15,7'' \<and>
            strcmp_eq (version[31 := CHR 0x00]) ''27.0'')
     }
   }"

definition smc_call ::
  "'d smc_driver \<Rightarrow> smc_key_data \<Rightarrow> ('d io_world, bool \<times> smc_key_data) state" where
  "smc_call d request = do {
     io_note (Requested request);
     (success, response_size, response) \<leftarrow> in_driver (call_struct_method d request zero_key_data);
     let ok = success \<and> response_size = SMC_KEY_DATA_SIZE \<and> reply_result response = 0;
     io_note (Answered ok response);
     ret (ok, response)
   }"

definition read_value ::
  "'d smc_driver \<Rightarrow> string \<Rightarrow> string \<Rightarrow> u32 \<Rightarrow> (nat \<Rightarrow> u8) \<Rightarrow>
   ('d io_world, smc_baseline_result \<times> (nat \<Rightarrow> u8)) state" where
  "read_value d key type_name len bytes = do {
     (ok, response) \<leftarrow> smc_call d
        (zero_key_data\<lparr>request_key := fourcc key, command := SMC_READ_KEY_INFO\<rparr>);
     if \<not> ok then ret (SMC_BASELINE_READ_FAILED, bytes)
     else if info_type (key_info response) \<noteq> fourcc type_name \<or>
             info_size (key_info response) \<noteq> len
     then ret (SMC_BASELINE_UNEXPECTED_FORMAT, bytes)
     else do {
       (ok, response) \<leftarrow> smc_call d
          (zero_key_data\<lparr>request_key := fourcc key,
             key_info := (key_info zero_key_data)\<lparr>info_size := len\<rparr>,
             command := SMC_READ_BYTES\<rparr>);
       if \<not> ok then ret (SMC_BASELINE_READ_FAILED, bytes)
       else ret (SMC_BASELINE_OK,
              \<lambda>i. if i < unat len then data_bytes response i else bytes i)
     }
   }"

text \<open>The output parameter of a failed read is left alone; its value is not used then.\<close>

definition read_u8 ::
  "'d smc_driver \<Rightarrow> string \<Rightarrow> ('d io_world, smc_baseline_result \<times> u8) state" where
  "read_u8 d key = do {
     (result, bytes) \<leftarrow> read_value d key ''ui8 '' 1 (\<lambda>_. 0);
     ret (result, if result = SMC_BASELINE_OK then bytes 0 else 0)
   }"

definition read_float ::
  "'d smc_driver \<Rightarrow> string \<Rightarrow> ('d io_world, smc_baseline_result \<times> double) state" where
  "read_float d key = do {
     (result, bytes) \<leftarrow> read_value d key ''flt '' 4 (\<lambda>_. 0);
     if result \<noteq> SMC_BASELINE_OK then ret (result, Fin 0)
     else let converted = float32_of_bits (little32 bytes)
          in if \<not> isfinite converted then ret (SMC_BASELINE_UNEXPECTED_FORMAT, Fin 0)
             else ret (SMC_BASELINE_OK, converted)
   }"

definition read_temperature ::
  "'d smc_driver \<Rightarrow> string \<Rightarrow> ('d io_world, smc_baseline_result \<times> double) state" where
  "read_temperature d key = do {
     (result, value) \<leftarrow> read_float d key;
     ret (result, if result = SMC_BASELINE_OK \<and> \<not> smc_baseline_temperature_valid value
                  then NaN else value)
   }"

text \<open>\<open>READ_OR_CLOSE\<close>: a failed read jumps to \<open>close\<close> with the snapshot as it is then; a
  successful one has written its value, into the snapshot when the value is a field of it.\<close>

definition read_or_close ::
  "('w, smc_baseline_result \<times> 'a) state \<Rightarrow> smc_baseline_snapshot \<Rightarrow>
   ('a \<Rightarrow> ('w, smc_baseline_result \<times> smc_baseline_snapshot) state) \<Rightarrow>
   ('w, smc_baseline_result \<times> smc_baseline_snapshot) state" where
  "read_or_close m snap k = do {
     (result, value) \<leftarrow> m;
     if result \<noteq> SMC_BASELINE_OK then ret (result, snap) else k value
   }"

definition read_field ::
  "('w, smc_baseline_result \<times> 'a) state \<Rightarrow> ('a \<Rightarrow> smc_baseline_snapshot \<Rightarrow> smc_baseline_snapshot) \<Rightarrow>
   smc_baseline_snapshot \<Rightarrow>
   (smc_baseline_snapshot \<Rightarrow> ('w, smc_baseline_result \<times> smc_baseline_snapshot) state) \<Rightarrow>
   ('w, smc_baseline_result \<times> smc_baseline_snapshot) state" where
  "read_field m put snap k = read_or_close m snap (\<lambda>value. k (put value snap))"

definition read_fields ::
  "'d smc_driver \<Rightarrow> smc_baseline_snapshot \<Rightarrow>
   ('d io_world, smc_baseline_result \<times> smc_baseline_snapshot) state" where
  "read_fields d snap =
     read_or_close (read_u8 d ''FNum'') snap (\<lambda>fan_count.
     if fan_count \<noteq> 2 then ret (SMC_BASELINE_UNEXPECTED_FORMAT, snap)
     else
     read_field (read_u8 d ''Ftst'') (\<lambda>v s. s\<lparr>snap_ftst := v\<rparr>) snap (\<lambda>snap.
     read_field (read_u8 d ''F0Md'') (\<lambda>v s. s\<lparr>snap_mode := (snap_mode s)(0 := v)\<rparr>) snap (\<lambda>snap.
     read_field (read_u8 d ''F1Md'') (\<lambda>v s. s\<lparr>snap_mode := (snap_mode s)(1 := v)\<rparr>) snap (\<lambda>snap.
     read_field (read_float d ''F0Tg'')
       (\<lambda>v s. s\<lparr>snap_target_rpm := (snap_target_rpm s)(0 := v)\<rparr>) snap (\<lambda>snap.
     read_field (read_float d ''F1Tg'')
       (\<lambda>v s. s\<lparr>snap_target_rpm := (snap_target_rpm s)(1 := v)\<rparr>) snap (\<lambda>snap.
     read_field (read_float d ''F0Ac'')
       (\<lambda>v s. s\<lparr>snap_actual_rpm := (snap_actual_rpm s)(0 := v)\<rparr>) snap (\<lambda>snap.
     read_field (read_float d ''F1Ac'')
       (\<lambda>v s. s\<lparr>snap_actual_rpm := (snap_actual_rpm s)(1 := v)\<rparr>) snap (\<lambda>snap.
     read_field (read_temperature d ''TCMz'')
       (\<lambda>v s. s\<lparr>snap_temperatures_c := (snap_temperatures_c s)(0 := v)\<rparr>) snap (\<lambda>snap.
     read_field (read_temperature d ''Tg0D'')
       (\<lambda>v s. s\<lparr>snap_temperatures_c := (snap_temperatures_c s)(1 := v)\<rparr>) snap (\<lambda>snap.
     read_field (read_temperature d ''TH0a'')
       (\<lambda>v s. s\<lparr>snap_temperatures_c := (snap_temperatures_c s)(2 := v)\<rparr>) snap (\<lambda>snap.
       ret (SMC_BASELINE_OK, snap))))))))))))"

text \<open>The \<open>memset\<close> at the start and the one at \<open>close\<close> are the two uses of \<open>zero_snapshot\<close>.\<close>

definition smc_baseline_read ::
  "'d smc_driver \<Rightarrow> smc_baseline_snapshot option \<Rightarrow>
   ('d io_world, smc_baseline_result \<times> smc_baseline_snapshot option) state" where
  "smc_baseline_read d snapshot =
     (case snapshot of
        None \<Rightarrow> ret (SMC_BASELINE_UNEXPECTED_FORMAT, None)
      | Some old \<Rightarrow> do {
          let snap = zero_snapshot;
          supported \<leftarrow> expected_environment d;
          if \<not> supported then ret (SMC_BASELINE_UNSUPPORTED_ENVIRONMENT, Some snap)
          else do {
            service \<leftarrow> in_driver (get_matching_service d);
            if \<not> service then ret (SMC_BASELINE_OPEN_FAILED, Some snap)
            else do {
              opened \<leftarrow> in_driver (service_open d);
              io_note (Opened opened);
              if \<not> opened then ret (SMC_BASELINE_OPEN_FAILED, Some snap)
              else do {
                (result, snap) \<leftarrow> read_fields d snap;
                io_note Closed;
                let snap = (if result \<noteq> SMC_BASELINE_OK then zero_snapshot else snap);
                ret (result, Some snap)
              }
            }
          }
        })"

section \<open>Properties\<close>

lemma snapshot_is_system_iff:
  "smc_baseline_is_system (Some snap) \<longleftrightarrow> snap_ftst snap = 0 \<and>
     (\<forall>fan < 2. snap_mode snap fan = 3 \<and> isfinite (snap_target_rpm snap fan) \<and>
                \<bar>fval (snap_target_rpm snap fan)\<bar> \<le> 1)"
  by (auto simp: smc_baseline_is_system_def upt_small all_less_2 finite_compare)

text \<open>The helper's observation in the vocabulary of the trial program.\<close>

definition as_observation :: "smc_baseline_snapshot \<Rightarrow> trial_observation" where
  "as_observation snap =
     \<lparr>obs_mode = snap_mode snap, obs_ftst = snap_ftst snap, obs_actual_rpm = snap_actual_rpm snap,
      obs_target_rpm = snap_target_rpm snap, obs_temperatures_c = snap_temperatures_c snap,
      metrics_available = True\<rparr>"

text \<open>C39: The helper and the trial program agree on what the system baseline is.\<close>

theorem baseline_predicates_agree:
  "smc_baseline_is_system snapshot = trial_observation_is_baseline (map_option as_observation snapshot)"
  by (cases snapshot)
     (simp_all add: smc_baseline_is_system_def trial_observation_is_baseline_def fan_indices_def
       as_observation_def)

subsection \<open>Requests\<close>

definition baseline_keys :: "string list" where
  "baseline_keys = [''FNum'', ''Ftst'', ''F0Md'', ''F1Md'', ''F0Tg'', ''F1Tg'', ''F0Ac'', ''F1Ac'',
     ''TCMz'', ''Tg0D'', ''TH0a'']"

fun only_reads :: "io_event \<Rightarrow> bool" where
  "only_reads (Requested request) =
     ((command request = SMC_READ_KEY_INFO \<or> command request = SMC_READ_BYTES) \<and>
      request_key request \<in> fourcc ` set baseline_keys)"
| "only_reads e = True"

fun is_request :: "io_event \<Rightarrow> bool" where
  "is_request (Requested request) = True"
| "is_request (Answered ok response) = True"
| "is_request e = False"

lemma emits_in_driver [emits_intros]: "emits io_events P (in_driver m)"
  by (auto simp: emits_def in_driver_def split: prod.splits)

lemma emits_io_note [emits_intros]: "P e \<Longrightarrow> emits io_events P (io_note e)"
  by (auto simp: emits_def io_note_def)

lemma emits_read_value:
  assumes "\<And>request. request_key request = fourcc key \<Longrightarrow>
     command request = SMC_READ_KEY_INFO \<or> command request = SMC_READ_BYTES \<Longrightarrow> P (Requested request)"
    and "\<And>ok response. P (Answered ok response)"
  shows "emits io_events P (read_value d key ty len bytes)"
  unfolding read_value_def smc_call_def by (intro emits_intros assms) simp_all

lemma emits_read_or_close [emits_intros]:
  "emits tr P m \<Longrightarrow> (\<And>v. emits tr P (k v)) \<Longrightarrow> emits tr P (read_or_close m snap k)"
  "emits tr P m \<Longrightarrow> (\<And>s. emits tr P (k' s)) \<Longrightarrow> emits tr P (read_field m put snap k')"
  unfolding read_or_close_def read_field_def by (intro emits_intros; assumption)+

lemma emits_typed_reads:
  assumes "\<And>request. request_key request = fourcc key \<Longrightarrow>
     command request = SMC_READ_KEY_INFO \<or> command request = SMC_READ_BYTES \<Longrightarrow> P (Requested request)"
    and "\<And>ok response. P (Answered ok response)"
  shows "emits io_events P (read_u8 d key)" "emits io_events P (read_float d key)"
    "emits io_events P (read_temperature d key)"
  unfolding read_u8_def read_float_def read_temperature_def
  by (intro emits_intros emits_read_value assms; assumption)+

lemma emits_read_fields:
  assumes "\<And>request. request_key request \<in> fourcc ` set baseline_keys \<Longrightarrow>
     command request = SMC_READ_KEY_INFO \<or> command request = SMC_READ_BYTES \<Longrightarrow> P (Requested request)"
    and "\<And>ok response. P (Answered ok response)"
  shows "emits io_events P (read_fields d snap)"
  unfolding read_fields_def
  by (intro emits_intros emits_typed_reads assms) (auto simp: baseline_keys_def)

lemma baseline_reads: "emits io_events only_reads (smc_baseline_read d snapshot)"
  unfolding smc_baseline_read_def expected_environment_def
  by (intro emits_intros emits_read_fields) simp_all

text \<open>The reader only ever asks for key information and key bytes, and only of its eleven fixed
  keys: no request that reaches the driver can write, whatever the driver answers.\<close>

theorem baseline_read_only:
  "emits io_events only_reads (smc_baseline_read d snapshot)"
  by (rule baseline_reads)

subsection \<open>Connections and snapshots\<close>

definition snapshot_valid :: "smc_baseline_snapshot \<Rightarrow> bool" where
  "snapshot_valid snap \<longleftrightarrow>
     (\<forall>fan < 2. isfinite (snap_target_rpm snap fan) \<and> isfinite (snap_actual_rpm snap fan)) \<and>
     (\<forall>sensor < 3. snap_temperatures_c snap sensor = NaN \<or>
        smc_baseline_temperature_valid (snap_temperatures_c snap sensor))"

text \<open>\<open>answers es\<close>: what the controller answered in \<open>es\<close> about each key, its type and size from an
  accepted request for key information and its bytes from the accepted request for bytes after it.\<close>

fun answers :: "io_event list \<Rightarrow> u32 \<Rightarrow> (u32 \<times> u32 \<times> (nat \<Rightarrow> u8)) option" where
  "answers (Answered True response # Requested request # Answered True info # Requested query # es) =
     (if command query = SMC_READ_KEY_INFO \<and> command request = SMC_READ_BYTES \<and>
         request_key query = request_key request
      then (answers es)(request_key request \<mapsto>
             (info_type (key_info info), info_size (key_info info), data_bytes response))
      else answers es)"
| "answers (e # es) = answers es"
| "answers [] = Map.empty"

definition answered_u8 :: "(u32 \<Rightarrow> (u32 \<times> u32 \<times> (nat \<Rightarrow> u8)) option) \<Rightarrow> string \<Rightarrow> u8 \<Rightarrow> bool" where
  "answered_u8 m key v \<longleftrightarrow>
     (\<exists>bytes. m (fourcc key) = Some (fourcc ''ui8 '', 1, bytes) \<and> v = bytes 0)"

definition answered_float :: "(u32 \<Rightarrow> (u32 \<times> u32 \<times> (nat \<Rightarrow> u8)) option) \<Rightarrow> string \<Rightarrow> double \<Rightarrow> bool" where
  "answered_float m key v \<longleftrightarrow>
     (\<exists>bytes. m (fourcc key) = Some (fourcc ''flt '', 4, bytes) \<and>
        v = float32_of_bits (little32 bytes) \<and> isfinite v)"

definition answered_temperature ::
  "(u32 \<Rightarrow> (u32 \<times> u32 \<times> (nat \<Rightarrow> u8)) option) \<Rightarrow> string \<Rightarrow> double \<Rightarrow> bool" where
  "answered_temperature m key v \<longleftrightarrow>
     (\<exists>x. answered_float m key x \<and> v = (if smc_baseline_temperature_valid x then x else NaN))"

definition snapshot_answered ::
  "(u32 \<Rightarrow> (u32 \<times> u32 \<times> (nat \<Rightarrow> u8)) option) \<Rightarrow> smc_baseline_snapshot \<Rightarrow> bool" where
  "snapshot_answered m snap \<longleftrightarrow> answered_u8 m ''FNum'' 2 \<and> answered_u8 m ''Ftst'' (snap_ftst snap) \<and>
     answered_u8 m ''F0Md'' (snap_mode snap 0) \<and> answered_u8 m ''F1Md'' (snap_mode snap 1) \<and>
     answered_float m ''F0Tg'' (snap_target_rpm snap 0) \<and> answered_float m ''F1Tg'' (snap_target_rpm snap 1) \<and>
     answered_float m ''F0Ac'' (snap_actual_rpm snap 0) \<and> answered_float m ''F1Ac'' (snap_actual_rpm snap 1) \<and>
     answered_temperature m ''TCMz'' (snap_temperatures_c snap 0) \<and>
     answered_temperature m ''Tg0D'' (snap_temperatures_c snap 1) \<and>
     answered_temperature m ''TH0a'' (snap_temperatures_c snap 2)"

text \<open>\<open>since tr m w\<close>: the answers received after \<open>tr\<close> are \<open>m\<close>.\<close>

definition since :: "io_event list \<Rightarrow> (u32 \<Rightarrow> (u32 \<times> u32 \<times> (nat \<Rightarrow> u8)) option) \<Rightarrow> 'd io_world \<Rightarrow> bool" where
  "since tr m w \<longleftrightarrow> (\<exists>es. io_events w = es @ tr \<and> answers es = m)"

lemma read_value_answer:
  assumes "since tr m w"
  shows "wp (read_value d key ty len bytes) (\<lambda>(r, out) w'. r = SMC_BASELINE_OK \<longrightarrow>
     (\<exists>b. since tr (m(fourcc key \<mapsto> (fourcc ty, len, b))) w' \<and>
          out = (\<lambda>i. if i < unat len then b i else bytes i))) w"
proof (rule wpI, clarify)
  fix out w' assume run: "run_state (read_value d key ty len bytes) w = ((SMC_BASELINE_OK, out), w')"
  from assms obtain es where es: "io_events w = es @ tr" "answers es = m" by (auto simp: since_def)
  from run obtain query request info response where
    tr: "io_events w' = Answered True response # Requested request # Answered True info # Requested query # io_events w"
    and cmd: "command query = SMC_READ_KEY_INFO" "command request = SMC_READ_BYTES"
      "request_key query = fourcc key" "request_key request = fourcc key"
    and info: "info_type (key_info info) = fourcc ty" "info_size (key_info info) = len"
    and out: "out = (\<lambda>i. if i < unat len then data_bytes response i else bytes i)"
    by (auto simp: read_value_def smc_call_def io_note_def in_driver_def Let_def zero_key_data_def
        split: prod.splits if_splits)
  have "since tr (m(fourcc key \<mapsto> (fourcc ty, len, data_bytes response))) w'"
    unfolding since_def using tr es cmd info
    by (intro exI[of _ "Answered True response # Requested request # Answered True info # Requested query # es"])
      simp
  with out show "\<exists>b. since tr (m(fourcc key \<mapsto> (fourcc ty, len, b))) w' \<and>
          out = (\<lambda>i. if i < unat len then b i else bytes i)" by blast
qed

lemma read_u8_answer:
  assumes "since tr m w"
  shows "wp (read_u8 d key) (\<lambda>(r, v) w'. r = SMC_BASELINE_OK \<longrightarrow>
     (\<exists>b. since tr (m(fourcc key \<mapsto> (fourcc ''ui8 '', 1, b))) w' \<and> v = b 0)) w"
  unfolding read_u8_def
  by (rule wp_bindI, rule wp_mono[OF read_value_answer[OF assms]]) (auto simp: wp_return)

lemma read_float_answer:
  assumes "since tr m w"
  shows "wp (read_float d key) (\<lambda>(r, v) w'. r = SMC_BASELINE_OK \<longrightarrow>
     (\<exists>b. since tr (m(fourcc key \<mapsto> (fourcc ''flt '', 4, b))) w' \<and>
          v = float32_of_bits (little32 b) \<and> isfinite v)) w"
  unfolding read_float_def
  by (rule wp_bindI, rule wp_mono[OF read_value_answer[OF assms]])
    (auto simp: wp_return Let_def little32_def)

lemma read_temperature_answer:
  assumes "since tr m w"
  shows "wp (read_temperature d key) (\<lambda>(r, v) w'. r = SMC_BASELINE_OK \<longrightarrow>
     (\<exists>b. let x = float32_of_bits (little32 b) in since tr (m(fourcc key \<mapsto> (fourcc ''flt '', 4, b))) w' \<and>
          isfinite x \<and> v = (if smc_baseline_temperature_valid x then x else NaN))) w"
  unfolding read_temperature_def
  by (rule wp_bindI, rule wp_mono[OF read_float_answer[OF assms]]) (auto simp: wp_return Let_def)

lemma wp_io_note:
  "(\<And>w'. io_events w' = e # io_events w \<Longrightarrow> Q () w') \<Longrightarrow> wp (io_note e) Q w"
  by (simp add: io_note_def wp_State)

lemma wp_in_driver:
  "(\<And>r w'. io_events w' = io_events w \<Longrightarrow> Q r w') \<Longrightarrow> wp (in_driver m) Q w"
  by (simp add: in_driver_def wp_State split: prod.splits)

lemma wp_environment:
  "(\<And>r w'. io_events w' = io_events w \<Longrightarrow> Q r w') \<Longrightarrow> wp (expected_environment d) Q w"
  unfolding expected_environment_def by (intro wp_intros wp_in_driver) simp_all

text \<open>One rule per kind of read: the read may stop the sequence, or the rest goes on with the answer.\<close>

lemma wp_read_or_close:
  assumes "wp m (\<lambda>(r, v) w'. r = SMC_BASELINE_OK \<longrightarrow> I v w') w"
    and "\<And>r w'. r \<noteq> SMC_BASELINE_OK \<Longrightarrow> Q (r, snap) w'"
    and "\<And>v w'. I v w' \<Longrightarrow> wp (k v) Q w'"
  shows "wp (read_or_close m snap k) Q w"
  unfolding read_or_close_def
  by (rule wp_bindI, rule wp_mono[OF assms(1)]) (auto intro!: wp_intros assms(2,3))

lemma wp_read_field:
  assumes "wp m (\<lambda>(r, v) w'. r = SMC_BASELINE_OK \<longrightarrow> I v w') w"
    and "\<And>r w'. r \<noteq> SMC_BASELINE_OK \<Longrightarrow> Q (r, snap) w'"
    and "\<And>v w'. I v w' \<Longrightarrow> wp (k (put v snap)) Q w'"
  shows "wp (read_field m put snap k) Q w"
  unfolding read_field_def by (rule wp_read_or_close[OF assms])

lemma answered_step:
  assumes "since tr m w"
    and "\<And>r w'. r \<noteq> SMC_BASELINE_OK \<Longrightarrow> Q (r, snap) w'"
  shows "(\<And>b w'. since tr (m(fourcc key \<mapsto> (fourcc ''ui8 '', 1, b))) w' \<Longrightarrow> wp (k (b 0)) Q w') \<Longrightarrow>
      wp (read_or_close (read_u8 d key) snap k) Q w"
    and "(\<And>b w'. since tr (m(fourcc key \<mapsto> (fourcc ''ui8 '', 1, b))) w' \<Longrightarrow> wp (k' (put (b 0) snap)) Q w') \<Longrightarrow>
      wp (read_field (read_u8 d key) put snap k') Q w"
    and "(\<And>b x w'. since tr (m(fourcc key \<mapsto> (fourcc ''flt '', 4, b))) w' \<Longrightarrow>
        x = float32_of_bits (little32 b) \<Longrightarrow> isfinite x \<Longrightarrow> wp (k' (put' x snap)) Q w') \<Longrightarrow>
      wp (read_field (read_float d key) put' snap k') Q w"
    and "(\<And>b x w'. since tr (m(fourcc key \<mapsto> (fourcc ''flt '', 4, b))) w' \<Longrightarrow>
        x = float32_of_bits (little32 b) \<Longrightarrow> isfinite x \<Longrightarrow>
        wp (k' (put' (if smc_baseline_temperature_valid x then x else NaN) snap)) Q w') \<Longrightarrow>
      wp (read_field (read_temperature d key) put' snap k') Q w"
     apply (rule wp_read_or_close[OF read_u8_answer[OF assms(1)]], erule assms(2), blast)
    apply (rule wp_read_field[OF read_u8_answer[OF assms(1)]], erule assms(2), blast)
   apply (rule wp_read_field[OF read_float_answer[OF assms(1)]], erule assms(2), blast)
  apply (rule wp_read_field[OF read_temperature_answer[OF assms(1)]], erule assms(2))
  by (auto simp: Let_def)

lemma baseline_fourccs:
  "fourcc ''FNum'' = 0x464E756D" "fourcc ''Ftst'' = 0x46747374" "fourcc ''F0Md'' = 0x46304D64"
  "fourcc ''F1Md'' = 0x46314D64" "fourcc ''F0Tg'' = 0x46305467" "fourcc ''F1Tg'' = 0x46315467"
  "fourcc ''F0Ac'' = 0x46304163" "fourcc ''F1Ac'' = 0x46314163" "fourcc ''TCMz'' = 0x54434D7A"
  "fourcc ''Tg0D'' = 0x54673044" "fourcc ''TH0a'' = 0x54483061"
  by code_simp+

lemma read_fields_answered:
  assumes "since tr Map.empty w"
  shows "wp (read_fields d snap) (\<lambda>(result, out) w'. result = SMC_BASELINE_OK \<longrightarrow>
     snapshot_valid out \<and> (\<exists>m. since tr m w' \<and> snapshot_answered m out)) w"
  unfolding read_fields_def
  apply (rule answered_step(1)[OF assms], simp)
  apply (rule wp_ifI, simp add: wp_return)
  apply (erule answered_step(2), simp)+
  apply (erule answered_step(3), simp)+
  apply (erule answered_step(4), simp)+
  apply (rule wp_returnI, unfold prod.case, rule impI, rule conjI)
   apply (simp add: snapshot_valid_def all_less_2 all_less_3)
  apply (rule exI, rule conjI, assumption)
  apply (simp add: snapshot_answered_def answered_u8_def answered_float_def answered_temperature_def
      baseline_fourccs)
  done

lemma since_closed:
  "since tr m w \<Longrightarrow> snapshot_answered m snap \<Longrightarrow>
   \<exists>es. Closed # io_events w = es @ tr \<and> snapshot_answered (answers es) snap"
  unfolding since_def by (elim exE conjE, rule_tac x = "Closed # es" in exI) simp

lemma baseline_reads_whole:
  "wp (smc_baseline_read d (Some old)) (\<lambda>r w'. case r of
     (result, Some snap) \<Rightarrow>
       if result = SMC_BASELINE_OK
       then snapshot_valid snap \<and>
         (\<exists>es. io_events w' = es @ io_events w \<and> snapshot_answered (answers es) snap)
       else snap = zero_snapshot
   | (result, None) \<Rightarrow> False) w"
proof -
  have fields: "wp (read_fields d zero_snapshot) (\<lambda>(result, out) w'. result = SMC_BASELINE_OK \<longrightarrow>
      snapshot_valid out \<and> (\<exists>m. since (io_events w) m w' \<and> snapshot_answered m out)) w1"
    if "io_events w1 = Opened True # io_events w" for w1 :: "'a io_world"
    by (rule read_fields_answered) (simp add: since_def that exI[of _ "[Opened True]"])
  show ?thesis
    unfolding smc_baseline_read_def option.simps Let_def
    apply (intro wp_intros wp_environment wp_in_driver wp_io_note; (simp; fail)?)
    apply (rule wp_mono, rule fields, simp)
    apply (auto simp: wp_simps io_note_def dest: since_closed)
    done
qed

lemma baseline_delivers:
  "case fst (run_state (smc_baseline_read d (Some old)) w) of
     (result, Some snap) \<Rightarrow>
       if result = SMC_BASELINE_OK then snapshot_valid snap else snap = zero_snapshot
   | (result, None) \<Rightarrow> False"
  using baseline_reads_whole[of d old w] unfolding wp_def
  by (auto split: prod.splits option.splits if_splits)

text \<open>C31: A snapshot is delivered whole or not at all. On success each of its fields is the value the
  controller gave for the field's own key during this read, with the expected type and size, its
  speeds are finite and each temperature is plausible or marked unavailable, and the controller has
  two fans; on every failure the snapshot is all zeros, whatever had been read and whatever it held
  before.\<close>

theorem baseline_read_all_or_nothing:
  "case run_state (smc_baseline_read d (Some old)) w of
     ((result, Some snap), w') \<Rightarrow>
       if result = SMC_BASELINE_OK
       then snapshot_valid snap \<and>
         (\<exists>es. io_events w' = es @ io_events w \<and> snapshot_answered (answers es) snap)
       else snap = zero_snapshot
   | ((result, None), w') \<Rightarrow> False"
  using baseline_reads_whole[of d old w] unfolding wp_def
  by (auto split: prod.splits option.splits)

definition opened_count :: "io_event list \<Rightarrow> nat" where
  "opened_count es = length (filter (\<lambda>e. e = Opened True) es)"

definition closed_count :: "io_event list \<Rightarrow> nat" where
  "closed_count es = length (filter (\<lambda>e. e = Closed) es)"

text \<open>\<open>closed_since tr0 tr\<close>: what was opened since \<open>tr0\<close>, at most one connection, is closed in \<open>tr\<close>.\<close>

definition closed_since :: "io_event list \<Rightarrow> io_event list \<Rightarrow> bool" where
  "closed_since tr0 tr \<longleftrightarrow> (\<exists>es. tr = es @ tr0 \<and>
     opened_count es = closed_count es \<and> opened_count es \<le> 1)"

lemma closed_since_refl: "closed_since tr tr"
  by (auto simp: closed_since_def opened_count_def closed_count_def)

lemma closed_since_failed: "closed_since tr (Opened False # tr)"
  unfolding closed_since_def
  by (rule exI[of _ "[Opened False]"]) (simp add: opened_count_def closed_count_def)

lemma closed_since_closed:
  "\<forall>e \<in> set es. is_request e \<Longrightarrow> closed_since tr (Closed # es @ Opened True # tr)"
proof -
  assume requests: "\<forall>e \<in> set es. is_request e"
  have "filter (\<lambda>e. e = Opened True) es = []" "filter (\<lambda>e. e = Closed) es = []"
    using requests by (auto simp: filter_empty_conv)
  then show ?thesis
    unfolding closed_since_def
    by (intro exI[of _ "Closed # es @ [Opened True]"]) (simp add: opened_count_def closed_count_def)
qed

lemma wp_read_fields:
  assumes "\<And>r es w'. io_events w' = es @ io_events w \<Longrightarrow> \<forall>e \<in> set es. is_request e \<Longrightarrow> Q r w'"
  shows "wp (read_fields d snap) Q w"
proof (rule wpI)
  fix r w' assume run: "run_state (read_fields d snap) w = (r, w')"
  have "emits io_events is_request (read_fields d snap)" by (rule emits_read_fields) simp_all
  then obtain es where "io_events w' = es @ io_events w" "\<forall>e \<in> set es. is_request e"
    using run by (rule emitsD)
  then show "Q r w'" by (rule assms)
qed

text \<open>A read leaves no connection behind: it closes exactly the connections it opened.\<close>

theorem baseline_read_closes:
  "closed_since (io_events w) (io_events (snd (run_state (smc_baseline_read d snapshot) w)))"
proof -
  have "wp (smc_baseline_read d snapshot) (\<lambda>r w'. closed_since (io_events w) (io_events w')) w"
    unfolding smc_baseline_read_def
    by (intro wp_intros wp_io_note wp_in_driver wp_environment wp_read_fields)
       (simp_all add: closed_since_refl closed_since_failed closed_since_closed)
  from wp_snd[OF this] show ?thesis .
qed

end
