(* ===== verification/SmcTransport.thy ===== *)
theory SmcTransport
  imports SmcBaseline
begin

text \<open>
  The live side of the trial program, \<open>prototype/smc-write-trial/smc-write-trial.c\<close>: the transport
  that reads and writes AppleSMC keys, the clock and sleeps, the snapshot of the keys, and the
  preflight collection.

  The operating system is not part of the repository. It is the record \<open>host\<close> of state transformers
  of an arbitrary type \<open>'d\<close>, so every theorem holds for every system. A \<open>process\<close> adds the program's
  own mutable state: the status of the last SMC call, the flag \<open>interrupted\<close>, the event buffers of
  the struct \<open>LiveBackend\<close>, and two ghost logs (newest first): \<open>live_log\<close>, what leaves the process
  (connections, every request sent, messages and printed lines), and \<open>trial_events\<close>, the calls the
  trial procedures and the baseline window made. A line is logged with its data, not its layout, and the texts
  of the messages on standard error are shortened.

  A signal is delivered by the system at any time; the handler \<open>on_signal\<close> runs, as seen by the
  program, when it next reads the flag. A signal without a handler ends the process and is not
  modelled. A sleep is resumed after every interruption, which need not
  end: \<open>sleep_fuel\<close> bounds the interruptions of one sleep, and running out of it sets \<open>hung\<close>.
\<close>

section \<open>System, process and log\<close>

record write_event =
  event_key :: string
  event_time :: double
  event_value :: double
  event_ok :: bool
  event_attempted :: bool
  event_kernel :: u32
  event_smc :: u8

record observation_event =
  sample_second :: nat
  sample_clock :: double
  sampled_observation :: trial_observation

datatype live_line =
    WriteLine double string double bool "(u32 \<times> u8) option"
  | ObserveLine double nat "u8 list" u8 "double list option" "double list" "double list option"
  | OverflowLine
  | PreflightLine nat "double list"
  | PlanLine string string string u32 u8
  | PlanFanLine nat string trial_fan_state "double option"
  | PlanTargetLine nat string u8 double string u32
  | BaselineLine double nat trial_observation bool
  | ReadbackLine string double "(u8 list \<times> u8 \<times> double list) option"
  | CompleteLine u32
  | AlertLine u32 string
  | PromptLine string string string

datatype live_event =
    LiveOpened bool
  | LiveClosed
  | Sent smc_key_data
  | SmcError string string
  | Message string
  | Printed live_line

datatype sleep_outcome = Slept | SleepInterrupted "int \<times> int" | SleepFailed

record 'd host =
  struct_method :: "smc_key_data \<Rightarrow> smc_key_data \<Rightarrow> ('d, u32 \<times> nat \<times> smc_key_data) state"
  matching_service :: "('d, bool) state"
  open_service :: "('d, u32) state"
  sysctl_by_name :: "string \<Rightarrow> ('d, bool \<times> string \<times> nat) state"
  clock_raw :: "('d, (int \<times> int) option) state"
  nanosleep :: "int \<times> int \<Rightarrow> ('d, sleep_outcome) state"
  signal_arrived :: "('d, string option) state"
  sigaction :: "string \<Rightarrow> ('d, bool) state"
  effective_uid :: "('d, u32) state"
  stdin_is_tty :: "('d, bool) state"
  read_line :: "nat \<Rightarrow> ('d, string option) state"
  real_path :: "string \<Rightarrow> ('d, string option) state"
  set_alarm :: "nat \<Rightarrow> ('d, unit) state"
  sleep_fuel :: nat

record 'd process =
  host_state :: 'd
  kernel_status :: u32
  smc_status :: u8
  handled_signals :: "string list"
  interrupted :: bool
  sample_time :: double
  write_buffer :: "write_event list"
  observation_buffer :: "observation_event list"
  observation_overflow :: bool
  hung :: bool
  trial_events :: "event list"
  live_log :: "live_event list"

definition in_host :: "('d, 'r) state \<Rightarrow> ('d process, 'r) state" where
  "in_host m = State (\<lambda>s. case run_state m (host_state s) of (r, d) \<Rightarrow> (r, s\<lparr>host_state := d\<rparr>))"

definition note_live :: "live_event \<Rightarrow> ('d process, unit) state" where
  "note_live e = State (\<lambda>s. ((), s\<lparr>live_log := e # live_log s\<rparr>))"

definition say :: "string \<Rightarrow> ('d process, unit) state" where
  "say text = note_live (Message text)"

definition print_line :: "live_line \<Rightarrow> ('d process, unit) state" where
  "print_line line = note_live (Printed line)"

section \<open>Signals, clock and sleeps\<close>

definition on_signal :: "'d process \<Rightarrow> 'd process" where
  "on_signal s = s\<lparr>interrupted := True\<rparr>"

definition read_interrupted :: "'d host \<Rightarrow> ('d process, bool) state" where
  "read_interrupted h = do {
     arrived \<leftarrow> in_host (signal_arrived h);
     State (\<lambda>s. let s' = (case arrived of
                         None \<Rightarrow> s
                       | Some signal \<Rightarrow> if signal \<in> set (handled_signals s) then on_signal s else s)
                in (interrupted s', s'))
   }"

definition live_seconds :: "'d host \<Rightarrow> ('d process, double) state" where
  "live_seconds h = do {
     value \<leftarrow> in_host (clock_raw h);
     ret (case value of
            None \<Rightarrow> round64 (- 1)
          | Some (tv_sec, tv_nsec) \<Rightarrow>
              double_of_int tv_sec + double_of_int tv_nsec / round64 1000000000)
   }"

definition sleep_request :: "nat \<Rightarrow> int \<times> int" where
  "sleep_request milliseconds =
     (int (milliseconds div 1000), int (milliseconds mod 1000) * 1000000)"

definition out_of_fuel :: "('d process, bool) state" where
  "out_of_fuel = State (\<lambda>s. (False, s\<lparr>hung := True\<rparr>))"

primrec sleep_from :: "'d host \<Rightarrow> nat \<Rightarrow> int \<times> int \<Rightarrow> ('d process, bool) state" where
  "sleep_from h 0 remaining = out_of_fuel"
| "sleep_from h (Suc fuel) remaining = do {
     stop \<leftarrow> read_interrupted h;
     if stop then negated (read_interrupted h)
     else do {
       outcome \<leftarrow> in_host (nanosleep h remaining);
       case outcome of
         Slept \<Rightarrow> negated (read_interrupted h)
       | SleepInterrupted rest \<Rightarrow> sleep_from h fuel rest
       | SleepFailed \<Rightarrow> ret False
     }
   }"

definition sleep_milliseconds :: "'d host \<Rightarrow> nat \<Rightarrow> ('d process, bool) state" where
  "sleep_milliseconds h milliseconds = sleep_from h (sleep_fuel h) (sleep_request milliseconds)"

primrec sleep_through :: "'d host \<Rightarrow> nat \<Rightarrow> int \<times> int \<Rightarrow> ('d process, bool) state" where
  "sleep_through h 0 remaining = out_of_fuel"
| "sleep_through h (Suc fuel) remaining = do {
     outcome \<leftarrow> in_host (nanosleep h remaining);
     case outcome of
       Slept \<Rightarrow> ret True
     | SleepInterrupted rest \<Rightarrow> sleep_through h fuel rest
     | SleepFailed \<Rightarrow> ret False
   }"

definition sleep_milliseconds_uninterruptible :: "'d host \<Rightarrow> nat \<Rightarrow> ('d process, bool) state" where
  "sleep_milliseconds_uninterruptible h milliseconds =
     sleep_through h (sleep_fuel h) (sleep_request milliseconds)"

section \<open>Keys\<close>

definition KERN_SUCCESS :: u32 where "KERN_SUCCESS = 0"
definition SMC_WRITE_BYTES :: u8 where "SMC_WRITE_BYTES = 6"

definition transport_call ::
  "'d host \<Rightarrow> smc_key_data \<Rightarrow> ('d process, bool \<times> smc_key_data) state" where
  "transport_call h request = do {
     note_live (Sent request);
     (kernel, output_size, response) \<leftarrow> in_host (struct_method h request zero_key_data);
     State (\<lambda>s. ((), s\<lparr>kernel_status := kernel, smc_status := reply_result response\<rparr>));
     ret (kernel = KERN_SUCCESS \<and> output_size = SMC_KEY_DATA_SIZE \<and> reply_result response = 0,
          response)
   }"

text \<open>A failed read is \<open>None\<close>: no caller uses what it left in the output parameters.\<close>

definition read_key_info :: "'d host \<Rightarrow> string \<Rightarrow> ('d process, (smc_key_info \<times> string) option) state"
where
  "read_key_info h name = do {
     (ok, response) \<leftarrow> transport_call h
        (zero_key_data\<lparr>request_key := fourcc name, command := SMC_READ_KEY_INFO\<rparr>);
     ret (if \<not> ok then None
          else if info_size (key_info response) = 0 \<or> 32 < info_size (key_info response) then None
          else Some (key_info response, fourcc_text (info_type (key_info response))))
   }"

definition read_key :: "'d host \<Rightarrow> string \<Rightarrow> ('d process, smc_value option) state" where
  "read_key h name = do {
     found \<leftarrow> read_key_info h name;
     case found of
       None \<Rightarrow> ret None
     | Some (info, type_text) \<Rightarrow> do {
         (ok, response) \<leftarrow> transport_call h
            (zero_key_data\<lparr>request_key := fourcc name,
               key_info := (key_info zero_key_data)\<lparr>info_size := info_size info\<rparr>,
               command := SMC_READ_BYTES\<rparr>);
         ret (if \<not> ok then None
              else Some \<lparr>value_size = info_size info, value_type = type_text,
                     value_bytes = \<lambda>i. if i < unat (info_size info) then data_bytes response i else 0\<rparr>)
       }
   }"

definition write_request :: "string \<Rightarrow> u32 \<Rightarrow> (nat \<Rightarrow> u8) \<Rightarrow> nat \<Rightarrow> smc_key_data" where
  "write_request name len bytes byte_count =
     zero_key_data\<lparr>request_key := fourcc name,
       key_info := (key_info zero_key_data)\<lparr>info_size := len\<rparr>, command := SMC_WRITE_BYTES,
       data_bytes := \<lambda>i. if i < byte_count then bytes i else 0\<rparr>"

text \<open>The two results are the return value and \<open>transport_attempted\<close>.\<close>

definition write_key_exact ::
  "'d host \<Rightarrow> string \<Rightarrow> string \<Rightarrow> u32 \<Rightarrow> (nat \<Rightarrow> u8) \<Rightarrow> nat \<Rightarrow> bool \<Rightarrow> ('d process, bool \<times> bool) state"
where
  "write_key_exact h name expected_type expected_size bytes byte_count report_errors = do {
     found \<leftarrow> read_key_info h name;
     case found of
       None \<Rightarrow> do {
         (if report_errors then note_live (SmcError ''key-info'' name) else ret ());
         ret (False, False)
       }
     | Some (info, actual_type) \<Rightarrow>
         if \<not> strncmp_eq 4 actual_type expected_type \<or> info_size info \<noteq> expected_size \<or>
            byte_count \<noteq> unat expected_size \<or> 32 < byte_count
         then do {
           (if report_errors then note_live (SmcError ''write blocked'' name) else ret ());
           ret (False, False)
         }
         else do {
           (ok, response) \<leftarrow> transport_call h (write_request name (info_size info) bytes byte_count);
           (if \<not> ok \<and> report_errors then note_live (SmcError ''write'' name) else ret ());
           ret (ok, True)
         }
   }"

section \<open>Environment and snapshot\<close>

definition smc_open :: "'d host \<Rightarrow> ('d process, bool) state" where
  "smc_open h = do {
     service \<leftarrow> in_host (matching_service h);
     if \<not> service then do { say ''AppleSMC service not found''; ret False }
     else do {
       status \<leftarrow> in_host (open_service h);
       note_live (LiveOpened (status = KERN_SUCCESS));
       if status \<noteq> KERN_SUCCESS
       then do { say ''AppleSMC open failed''; ret False } else ret True
     }
   }"

definition sysctl_string :: "'d host \<Rightarrow> string \<Rightarrow> nat \<Rightarrow> ('d process, string option) state" where
  "sysctl_string h name output_size = do {
     (ok, output, len) \<leftarrow> in_host (sysctl_by_name h name);
     ret (if \<not> ok \<or> len = 0 \<or> output_size < len then None
          else Some (output[output_size - 1 := CHR 0x00]))
   }"

definition exact_environment :: "'d host \<Rightarrow> ('d process, (string \<times> string) option) state" where
  "exact_environment h = do {
     hw_model \<leftarrow> sysctl_string h ''hw.model'' 32;
     hw_version \<leftarrow> (case hw_model of
                       None \<Rightarrow> ret None
                     | Some _ \<Rightarrow> sysctl_string h ''kern.osproductversion'' 32);
     case (hw_model, hw_version) of
       (Some m, Some v) \<Rightarrow>
         if \<not> strcmp_eq m TRIAL_EXPECTED_MODEL \<or> \<not> strcmp_eq v TRIAL_EXPECTED_OS_VERSION
         then do { say ''unsupported environment''; ret None }
         else ret (Some (m, v))
     | _ \<Rightarrow> do { say ''cannot read hw.model or kern.osproductversion''; ret None }
   }"

record fan_live =
  mode_key :: string
  target_key :: string
  live_mode :: smc_value
  live_actual :: smc_value
  live_target :: smc_value
  live_minimum :: smc_value
  live_maximum :: smc_value

record live_snapshot =
  snapshot_fan_count :: u32
  snapshot_ftst :: smc_value
  snapshot_fans :: "nat \<Rightarrow> fan_live"
  snapshot_temperatures_c :: "nat \<Rightarrow> double"

definition zero_fan :: fan_live where
  "zero_fan = \<lparr>mode_key = [], target_key = [], live_mode = zero_value, live_actual = zero_value,
     live_target = zero_value, live_minimum = zero_value, live_maximum = zero_value\<rparr>"

definition zero_live_snapshot :: live_snapshot where
  "zero_live_snapshot = \<lparr>snapshot_fan_count = 0, snapshot_ftst = zero_value,
     snapshot_fans = \<lambda>_. zero_fan, snapshot_temperatures_c = \<lambda>_. Fin 0\<rparr>"

definition TEMPERATURE_KEYS :: "string list" where
  "TEMPERATURE_KEYS = [''TCMz'', ''Tg0D'', ''TH0a'']"

text \<open>\<open>if (!read_key(...)) return false;\<close>\<close>

definition key_or_fail :: "'d host \<Rightarrow> string \<Rightarrow> (smc_value \<Rightarrow> ('d process, 'a option) state) \<Rightarrow>
  ('d process, 'a option) state" where
  "key_or_fail h name k = do {
     value \<leftarrow> read_key h name;
     case value of None \<Rightarrow> ret None | Some v \<Rightarrow> k v
   }"

definition read_mode :: "'d host \<Rightarrow> nat \<Rightarrow> bool \<Rightarrow> ('d process, (string \<times> smc_value) option) state" where
  "read_mode h index report_errors = do {
     lower \<leftarrow> read_key h (fan_key index ''md'');
     case lower of
       Some value \<Rightarrow> ret (Some (fan_key index ''md'', value))
     | None \<Rightarrow> do {
         upper \<leftarrow> read_key h (fan_key index ''Md'');
         case upper of
           Some value \<Rightarrow> ret (Some (fan_key index ''Md'', value))
         | None \<Rightarrow> do {
             (if report_errors then say ''fan has no readable md/Md mode key'' else ret ());
             ret None
           }
       }
   }"

definition read_fan :: "'d host \<Rightarrow> nat \<Rightarrow> bool \<Rightarrow> bool \<Rightarrow> ('d process, fan_live option) state" where
  "read_fan h index include_metrics report_errors = do {
     found \<leftarrow> read_mode h index report_errors;
     case found of
       None \<Rightarrow> ret None
     | Some (key, mode_value) \<Rightarrow>
         key_or_fail h (fan_key index ''Tg'') (\<lambda>target_value.
         let fan = zero_fan\<lparr>mode_key := key, live_mode := mode_value,
                     target_key := fan_key index ''Tg'', live_target := target_value\<rparr>
         in if \<not> include_metrics then ret (Some fan)
            else
            key_or_fail h (fan_key index ''Ac'') (\<lambda>actual_value.
            key_or_fail h (fan_key index ''Mn'') (\<lambda>minimum_value.
            key_or_fail h (fan_key index ''Mx'') (\<lambda>maximum_value.
              ret (Some (fan\<lparr>live_actual := actual_value, live_minimum := minimum_value,
                     live_maximum := maximum_value\<rparr>))))))
   }"

primrec read_fans :: "'d host \<Rightarrow> bool \<Rightarrow> bool \<Rightarrow> nat list \<Rightarrow> live_snapshot \<Rightarrow>
  ('d process, live_snapshot option) state" where
  "read_fans h include_metrics report_errors [] snapshot = ret (Some snapshot)"
| "read_fans h include_metrics report_errors (index # indices) snapshot = do {
     fan \<leftarrow> read_fan h index include_metrics report_errors;
     case fan of
       None \<Rightarrow> ret None
     | Some live \<Rightarrow> read_fans h include_metrics report_errors indices
         (snapshot\<lparr>snapshot_fans := (snapshot_fans snapshot)(index := live)\<rparr>)
   }"

primrec read_temperatures :: "'d host \<Rightarrow> bool \<Rightarrow> nat list \<Rightarrow> live_snapshot \<Rightarrow>
  ('d process, live_snapshot option) state" where
  "read_temperatures h report_errors [] snapshot = ret (Some snapshot)"
| "read_temperatures h report_errors (index # indices) snapshot = do {
     value \<leftarrow> read_key h (TEMPERATURE_KEYS ! index);
     case (case value of
             None \<Rightarrow> (False, Fin 0)
           | Some v \<Rightarrow> read_number v (snapshot_temperatures_c snapshot index)) of
       (False, _) \<Rightarrow> do {
         (if report_errors then say ''temperature is unavailable'' else ret ());
         ret None
       }
     | (True, celsius) \<Rightarrow> read_temperatures h report_errors indices
         (snapshot\<lparr>snapshot_temperatures_c :=
            (snapshot_temperatures_c snapshot)(index := celsius)\<rparr>)
   }"

definition read_snapshot :: "'d host \<Rightarrow> bool \<Rightarrow> bool \<Rightarrow> ('d process, live_snapshot option) state" where
  "read_snapshot h include_metrics report_errors = do {
     count \<leftarrow> read_key h ''FNum'';
     case (case count of None \<Rightarrow> (False, 0) | Some value \<Rightarrow> read_ui8_exact value 0) of
       (False, _) \<Rightarrow> do {
         (if report_errors then say ''FNum is unavailable or not ui8'' else ret ());
         ret None
       }
     | (True, found) \<Rightarrow>
         if ucast found \<noteq> (of_nat TRIAL_FAN_COUNT :: u32)
         then do {
           (if report_errors then say ''expected two fans'' else ret ());
           ret None
         }
         else do {
           ftst \<leftarrow> read_key h ''Ftst'';
           case ftst of
             None \<Rightarrow> do {
               (if report_errors then say ''Ftst is unavailable'' else ret ());
               ret None
             }
           | Some ftst_value \<Rightarrow> do {
               completed \<leftarrow> read_fans h include_metrics report_errors fan_indices
                 (zero_live_snapshot\<lparr>snapshot_fan_count := ucast found,
                    snapshot_ftst := ftst_value\<rparr>);
               case completed of
                 None \<Rightarrow> ret None
               | Some snapshot \<Rightarrow>
                   if include_metrics
                   then read_temperatures h report_errors [0..<TRIAL_TEMPERATURE_COUNT] snapshot
                   else ret (Some snapshot)
             }
         }
   }"

section \<open>What leaves the process\<close>

text \<open>Requests read, or are writes that \<open>A\<close> allows; nothing is opened or closed.\<close>

fun on_wire :: "(smc_key_data \<Rightarrow> bool) \<Rightarrow> live_event \<Rightarrow> bool" where
  "on_wire A (Sent r) \<longleftrightarrow> command r = SMC_READ_BYTES \<or> command r = SMC_READ_KEY_INFO \<or>
     command r = SMC_WRITE_BYTES \<and> A r"
| "on_wire A (LiveOpened ok) \<longleftrightarrow> False"
| "on_wire A LiveClosed \<longleftrightarrow> False"
| "on_wire A e \<longleftrightarrow> True"

lemma on_wire_mono: "on_wire A e \<Longrightarrow> (\<And>r. A r \<Longrightarrow> A' r) \<Longrightarrow> on_wire A' e"
  by (cases e) auto

lemma emits_case_outcome [emits_intros]:
  "(v = Slept \<Longrightarrow> emits tr P m) \<Longrightarrow> (\<And>rest. v = SleepInterrupted rest \<Longrightarrow> emits tr P (f rest)) \<Longrightarrow>
   (v = SleepFailed \<Longrightarrow> emits tr P n) \<Longrightarrow>
   emits tr P (case v of Slept \<Rightarrow> m | SleepInterrupted rest \<Rightarrow> f rest | SleepFailed \<Rightarrow> n)"
  by (cases v) auto

named_theorems wire_intros "what the procedures of the live program add to a trace"

text \<open>
  The contract between the procedures and a trace \<open>tr\<close> of the process: it follows the two ghost logs,
  and logging an event that \<open>on_wire A\<close> allows adds only entries of \<open>P\<close>. The lemmas walk the
  procedures once; they are used with the log of what leaves the process and with the trace of the
  trial procedures, to which nothing here adds.
\<close>

locale process_trace =
  fixes tr :: "'d process \<Rightarrow> 'e list" and P :: "'e \<Rightarrow> bool" and A :: "smc_key_data \<Rightarrow> bool"
  assumes framed: "live_log s' = live_log s \<Longrightarrow> trial_events s' = trial_events s \<Longrightarrow> tr s' = tr s"
    and logged: "on_wire A e \<Longrightarrow>
      \<exists>es. tr (s\<lparr>live_log := e # live_log s\<rparr>) = es @ tr s \<and> (\<forall>x \<in> set es. P x)"
begin

lemma wire_silent:
  "(\<And>s. live_log (snd (f s)) = live_log s \<and> trial_events (snd (f s)) = trial_events s) \<Longrightarrow>
   emits tr P (State f)"
  by (rule emits_silent, rule framed) blast+

lemma wire_in_host [wire_intros]: "emits tr P (in_host m)"
  unfolding in_host_def by (rule wire_silent) (simp split: prod.splits)

lemma wire_note [wire_intros]: "on_wire A e \<Longrightarrow> emits tr P (note_live e)"
  unfolding emits_def note_live_def using logged by simp

lemma wire_say [wire_intros]: "emits tr P (say text)"
  unfolding say_def by (intro wire_intros) simp

lemma wire_print [wire_intros]: "emits tr P (print_line line)"
  unfolding print_line_def by (intro wire_intros) simp

lemma wire_interrupted [wire_intros]: "emits tr P (read_interrupted h)"
  unfolding read_interrupted_def
  by (intro wire_intros emits_intros wire_silent)
     (simp add: on_signal_def Let_def split: option.splits)

lemma wire_seconds [wire_intros]: "emits tr P (live_seconds h)"
  unfolding live_seconds_def by (intro wire_intros emits_intros)

lemma wire_sleeps [wire_intros]:
  "emits tr P (sleep_milliseconds h ms)"
  "emits tr P (sleep_milliseconds_uninterruptible h ms)"
proof -
  have stuck: "emits tr P out_of_fuel" by (simp add: out_of_fuel_def wire_silent)
  have "emits tr P (sleep_from h fuel rest)" for fuel rest
    by (induction fuel arbitrary: rest)
       (auto intro!: stuck emits_intros wire_interrupted wire_in_host)
  moreover have "emits tr P (sleep_through h fuel rest)" for fuel rest
    by (induction fuel arbitrary: rest) (auto intro!: stuck emits_intros wire_in_host)
  ultimately show "emits tr P (sleep_milliseconds h ms)"
    "emits tr P (sleep_milliseconds_uninterruptible h ms)"
    by (simp_all add: sleep_milliseconds_def sleep_milliseconds_uninterruptible_def)
qed

lemma wire_call [wire_intros]:
  "on_wire A (Sent request) \<Longrightarrow> emits tr P (transport_call h request)"
  unfolding transport_call_def by (intro wire_intros emits_intros wire_silent) simp_all

lemma wire_key_info [wire_intros]: "emits tr P (read_key_info h name)"
  unfolding read_key_info_def by (intro wire_intros emits_intros) simp

lemma wire_read_key [wire_intros]: "emits tr P (read_key h name)"
  unfolding read_key_def by (intro wire_intros emits_intros) simp

lemma wire_write_key [wire_intros]:
  assumes "A (write_request name len bytes n)"
  shows "emits tr P (write_key_exact h name ty len bytes n report)"
  unfolding write_key_exact_def
  by (intro wire_intros emits_intros) (use assms in \<open>auto simp: write_request_def\<close>)

lemma wire_sysctl [wire_intros]: "emits tr P (sysctl_string h name n)"
  unfolding sysctl_string_def by (intro wire_intros emits_intros)

lemma wire_environment [wire_intros]: "emits tr P (exact_environment h)"
  unfolding exact_environment_def by (intro wire_intros emits_intros)

lemma wire_key_or_fail [wire_intros]:
  "(\<And>v. emits tr P (k v)) \<Longrightarrow> emits tr P (key_or_fail h name k)"
  unfolding key_or_fail_def by (intro wire_intros emits_intros)

lemma wire_read_mode [wire_intros]: "emits tr P (read_mode h i report)"
  unfolding read_mode_def by (intro wire_intros emits_intros)

lemma wire_read_fan [wire_intros]: "emits tr P (read_fan h i metrics report)"
  unfolding read_fan_def by (intro wire_intros emits_intros)

lemma wire_snapshot [wire_intros]: "emits tr P (read_snapshot h metrics report)"
proof -
  have fans: "emits tr P (read_fans h metrics report indices s)" for indices s
    by (induction indices arbitrary: s) (auto intro!: wire_intros emits_intros)
  have temperatures: "emits tr P (read_temperatures h report indices s)" for indices s
    by (induction indices arbitrary: s) (auto intro!: wire_intros emits_intros split: prod.split bool.split)
  show ?thesis
    unfolding read_snapshot_def
    by (intro wire_intros emits_intros fans temperatures)
qed

end

interpretation sent: process_trace live_log "on_wire A" A for A
  by unfold_locales auto

interpretation untried: process_trace trial_events "\<lambda>_. False" "\<lambda>_. True"
  by unfold_locales simp_all

section \<open>The keys of a snapshot\<close>

definition mode_keys :: "nat \<Rightarrow> string set" where
  "mode_keys fan = {fan_key fan ''md'', fan_key fan ''Md''}"

definition keyed :: "live_snapshot \<Rightarrow> bool" where
  "keyed snapshot \<longleftrightarrow> (\<forall>fan < 2. mode_key (snapshot_fans snapshot fan) \<in> mode_keys fan \<and>
     target_key (snapshot_fans snapshot fan) = fan_key fan ''Tg'')"

abbreviation fan_keyed :: "nat \<Rightarrow> fan_live \<Rightarrow> bool" where
  "fan_keyed fan live \<equiv> mode_key live \<in> mode_keys fan \<and> target_key live = fan_key fan ''Tg''"

lemma wp_read_mode:
  "wp (read_mode h fan report) (\<lambda>r s'. pred_option (\<lambda>p. fst p \<in> mode_keys fan) r) s"
  unfolding read_mode_def
  by (intro wp_intros wp_any[of _ "read_key _ _"] wp_any[of _ "say _"]) (auto simp: mode_keys_def)

lemma wp_read_fan:
  "wp (read_fan h fan metrics report) (\<lambda>r s'. pred_option (fan_keyed fan) r) s"
  unfolding read_fan_def key_or_fail_def
  by (intro wp_intros wp_mono[OF wp_read_mode] wp_any[of _ "read_key _ _"]) auto

lemma wp_read_fans:
  assumes "\<forall>fan < n. fan_keyed fan (snapshot_fans snapshot fan)"
  shows "wp (read_fans h metrics report [n..<n + k] snapshot)
    (\<lambda>r s'. pred_option (\<lambda>snap. \<forall>fan < n + k. fan_keyed fan (snapshot_fans snap fan)) r) s"
  using assms
proof (induction k arbitrary: n snapshot s)
  case (Suc k)
  have next_fan: "wp (read_fans h metrics report [Suc n..<n + Suc k] snapshot')
      (\<lambda>r s'. pred_option (\<lambda>snap. \<forall>fan < n + Suc k. fan_keyed fan (snapshot_fans snap fan)) r) s'"
    if "\<forall>fan < Suc n. fan_keyed fan (snapshot_fans snapshot' fan)" for snapshot' s'
    using Suc.IH[of "Suc n" snapshot' s'] that by simp
  have "[n..<n + Suc k] = n # [Suc n..<n + Suc k]" by (simp add: upt_rec)
  then show ?case
    by (simp only: read_fans.simps)
       (intro wp_intros wp_mono[OF wp_read_fan] next_fan, use Suc.prems in \<open>auto simp: less_Suc_eq\<close>)
qed (simp add: wp_simps)

lemma snapshot_keyed: "yields (pred_option keyed) (read_snapshot h metrics report)"
proof (rule wp_yields)
  fix s :: "'a process"
  have fans: "wp (read_fans h metrics report fan_indices snapshot)
      (\<lambda>r s'. pred_option (\<lambda>snap. keyed snap) r) s" for snapshot and s :: "'a process"
    using wp_read_fans[of 0 snapshot h metrics report 2 s]
    by (simp only: keyed_def fan_indices_def TRIAL_FAN_COUNT_def add_0 not_less0 simp_thms)
  have temperatures: "wp (read_temperatures h report indices snapshot)
      (\<lambda>r s'. pred_option keyed r) s" if "keyed snapshot" for indices snapshot and s :: "'a process"
    using that
    by (induction indices arbitrary: snapshot s)
       (auto simp: keyed_def wp_return intro!: wp_intros wp_any[of _ "read_key _ _"]
         wp_any[of _ "say _"])
  show "wp (read_snapshot h metrics report) (\<lambda>r s'. pred_option keyed r) s"
    unfolding read_snapshot_def
    by (intro wp_intros wp_mono[OF fans] temperatures wp_any[of _ "read_key _ _"] wp_any[of _ "say _"])
       simp_all
qed

end
