(* ===== verification/BaselineWindow.thy ===== *)
theory BaselineWindow
  imports TrialBackend
begin

text \<open>
  The baseline window of \<open>trial_actions.c\<close>: \<open>trial_observe_baseline_window\<close>, its timing checks and
  its result. The observer is a record of callbacks over an arbitrary state \<open>'w\<close>; a NULL pointer is
  \<open>None\<close>, and the loop runs only after the NULL checks, so \<open>the\<close> is applied to \<open>Some\<close> alone.

  The locale \<open>baseline_source\<close> is the contract between the window and whoever provides the
  observer: every callback adds exactly its own call to a trace. Under this contract the window's
  verdict is explained by the trace: \<open>STABLE\<close> means a run of baseline samples, properly spaced and
  long enough (\<open>quiet_window\<close>), with no write during the window.
\<close>

section \<open>The loop\<close>

datatype baseline_status =
    TRIAL_BASELINE_STABLE
  | TRIAL_BASELINE_CHANGED
  | TRIAL_BASELINE_READ_FAILED
  | TRIAL_BASELINE_WAIT_FAILED
  | TRIAL_BASELINE_INTERRUPTED
  | TRIAL_BASELINE_TIMING_FAILED
  | TRIAL_BASELINE_INVALID

record baseline_result =
  status :: baseline_status
  result_second :: u32
  result_samples :: u32

record 'w baseline_observer =
  ob_read :: "(trial_observation \<Rightarrow> ('w, bool \<times> trial_observation) state) option"
  ob_wait :: "(nat \<Rightarrow> ('w, bool) state) option"
  ob_stop :: "('w, bool) state option"
  ob_now :: "('w, double) state option"
  ob_record :: "(nat \<Rightarrow> trial_observation \<Rightarrow> ('w, unit) state) option"

definition read_timing_valid :: "double \<Rightarrow> double \<Rightarrow> bool" where
  "read_timing_valid started finished \<longleftrightarrow>
     isfinite started \<and> round64 0 \<le> started \<and> isfinite finished \<and>
     started \<le> finished \<and> finished - started \<le> round64 5"

definition sample_timing_valid :: "double \<Rightarrow> double \<Rightarrow> double \<Rightarrow> bool" where
  "sample_timing_valid previous started finished \<longleftrightarrow>
     read_timing_valid started finished \<and> previous \<le> started \<and>
     round64 (9 / 10) \<le> finished - previous \<and> finished - previous \<le> round64 5"

definition result_of :: "baseline_status \<Rightarrow> u32 \<Rightarrow> u32 \<Rightarrow> baseline_result" where
  "result_of st second samples =
     \<lparr>status = st, result_second = second, result_samples = samples\<rparr>"

function observe_from ::
  "'w baseline_observer \<Rightarrow> u32 \<Rightarrow> u32 \<Rightarrow> double \<Rightarrow> double \<Rightarrow> u32 \<Rightarrow> ('w, baseline_result) state"
where
  "observe_from ob last_second second window_started previous_sample samples = do {
     stop \<leftarrow> the (ob_stop ob);
     if stop then ret (result_of TRIAL_BASELINE_INTERRUPTED second samples)
     else do {
       read_started \<leftarrow> the (ob_now ob);
       if \<not> isfinite read_started \<or> read_started < round64 0
       then ret (result_of TRIAL_BASELINE_TIMING_FAILED second samples)
       else do {
         (ok, observation) \<leftarrow> the (ob_read ob) zero_observation;
         if \<not> ok then ret (result_of TRIAL_BASELINE_READ_FAILED second samples)
         else do {
           sampled \<leftarrow> the (ob_now ob);
           if \<not> (if second = 0 then read_timing_valid read_started sampled
                 else sample_timing_valid previous_sample read_started sampled)
           then ret (result_of TRIAL_BASELINE_TIMING_FAILED second samples)
           else let window_started = (if second = 0 then sampled else window_started);
                    previous_sample = sampled;
                    samples = samples + 1
                in do {
             stop \<leftarrow> the (ob_stop ob);
             if stop then ret (result_of TRIAL_BASELINE_INTERRUPTED second samples)
             else do {
               the (ob_record ob) (unat second) observation;
               if \<not> trial_observation_is_baseline (Some observation)
               then ret (result_of TRIAL_BASELINE_CHANGED second samples)
               else do {
                 stop \<leftarrow> the (ob_stop ob);
                 if stop then ret (result_of TRIAL_BASELINE_INTERRUPTED second samples)
                 else if second = last_second
                 then ret (result_of
                        (if round64 (of_nat (unat last_second)) \<le> sampled - window_started
                         then TRIAL_BASELINE_STABLE else TRIAL_BASELINE_TIMING_FAILED) second samples)
                 else do {
                   ok \<leftarrow> the (ob_wait ob) 1000;
                   if \<not> ok
                   then do {
                     stop \<leftarrow> the (ob_stop ob);
                     ret (result_of (if stop then TRIAL_BASELINE_INTERRUPTED
                                     else TRIAL_BASELINE_WAIT_FAILED) second samples)
                   }
                   else observe_from ob last_second (second + 1) window_started
                          previous_sample samples
                 }
               }
             }
           }
         }
       }
     }
   }"
  by pat_completeness auto

lemma unat_next:
  assumes "(second :: u32) \<noteq> final" and "unat second \<le> unat final"
  shows "unat (second + 1) = Suc (unat second)" and "unat (second + 1) \<le> unat final"
proof -
  have "unat second < unat final" using assms by (simp add: le_less word_unat_eq_iff)
  moreover have "unat final < 2 ^ 32" using unsigned_less[of final] by simp
  ultimately show "unat (second + 1) = Suc (unat second)" "unat (second + 1) \<le> unat final"
    by (simp_all add: unat_word_ariths)
qed

lemma unat_countdown: "(second :: u32) \<noteq> final \<Longrightarrow> unat (final - (second + 1)) < unat (final - second)"
proof -
  assume ne: "second \<noteq> final"
  have "final - (second + 1) = (final - second) - 1" by simp
  with ne show ?thesis by (metis measure_unat right_minus_eq)
qed

termination observe_from
  by (relation "measure (\<lambda>(ob, final, second, ws, prev, n). unat (final - second))")
     (auto simp: unat_countdown)

declare observe_from.simps [simp del]

definition trial_observe_baseline_window ::
  "'w baseline_observer option \<Rightarrow> u32 \<Rightarrow> ('w, baseline_result) state" where
  "trial_observe_baseline_window observer last_second =
     (let result = result_of TRIAL_BASELINE_INVALID 0 0
      in case observer of
           None \<Rightarrow> ret result
         | Some ob \<Rightarrow>
             if ob_read ob = None \<or> ob_wait ob = None \<or> ob_stop ob = None \<or>
                ob_now ob = None \<or> ob_record ob = None then ret result
             else observe_from ob last_second 0 (round64 0) (round64 0) 0)"

section \<open>What a trace shows\<close>

text \<open>Traces are newest first. A sample is a successful read followed at once by a clock reading.\<close>

fun samples :: "event list \<Rightarrow> (double \<times> trial_observation) list" where
  "samples (Now t # Read i True obs # es) = (t, obs) # samples es"
| "samples (e # es) = samples es"
| "samples [] = []"

fun paced :: "double list \<Rightarrow> bool" where
  "paced (t # t' # ts) \<longleftrightarrow>
     t' \<le> t \<and> round64 (9 / 10) \<le> t - t' \<and> t - t' \<le> round64 5 \<and> paced (t' # ts)"
| "paced ts \<longleftrightarrow> True"

text \<open>A run of samples, newest first, that shows a baseline held for \<open>seconds\<close>.\<close>

definition quiet_window :: "nat \<Rightarrow> (double \<times> trial_observation) list \<Rightarrow> bool" where
  "quiet_window seconds ss \<longleftrightarrow>
     seconds < length ss \<and> list_all (\<lambda>(t, obs). isfinite t \<and> baseline obs) ss \<and>
     paced (map fst ss) \<and> round64 (of_nat seconds) \<le> fst (hd ss) - fst (last ss)"

definition calm_trace :: "event list \<Rightarrow> bool" where
  "calm_trace es \<longleftrightarrow> list_all (\<lambda>e. \<not> is_write e) es \<and>
     (\<forall>rest. samples (es @ rest) = samples es @ samples rest)"

lemma calm_trace_Nil [simp]: "calm_trace []"
  by (simp add: calm_trace_def)

lemma sample_timing_paced:
  "sample_timing_valid previous started finished \<Longrightarrow> isfinite previous \<Longrightarrow>
   previous \<le> finished \<and> round64 (9 / 10) \<le> finished - previous \<and>
   finished - previous \<le> round64 5"
  by (auto simp: sample_timing_valid_def read_timing_valid_def less_eq_finite)

text \<open>The loop invariant: what the trace of the window holds when the second \<open>second\<close> begins.\<close>

definition window_inv :: "event list \<Rightarrow> u32 \<Rightarrow> double \<Rightarrow> double \<Rightarrow> u32 \<Rightarrow> bool" where
  "window_inv es second started previous n \<longleftrightarrow>
     calm_trace es \<and> n = second \<and> length (samples es) = unat second \<and>
     list_all (\<lambda>(t, obs). isfinite t \<and> baseline obs) (samples es) \<and>
     paced (map fst (samples es)) \<and>
     (second \<noteq> 0 \<longrightarrow> previous = fst (hd (samples es)) \<and> started = fst (last (samples es)))"

definition verdict_explained :: "nat \<Rightarrow> event list \<Rightarrow> baseline_result \<Rightarrow> bool" where
  "verdict_explained seconds es res \<longleftrightarrow>
     calm_trace es \<and> status res \<noteq> TRIAL_BASELINE_INVALID \<and>
     (status res = TRIAL_BASELINE_STABLE \<longrightarrow>
        unat (result_second res) = seconds \<and> result_samples res = result_second res + 1 \<and>
        length (samples es) = Suc seconds \<and> quiet_window seconds (samples es)) \<and>
     (status res = TRIAL_BASELINE_CHANGED \<longrightarrow>
        samples es \<noteq> [] \<and> \<not> baseline (snd (hd (samples es)))) \<and>
     (status res = TRIAL_BASELINE_READ_FAILED \<longrightarrow> (\<exists>i obs rest. es = Read i False obs # rest)) \<and>
     (status res = TRIAL_BASELINE_WAIT_FAILED \<longrightarrow>
        (\<exists>rest. es = ShouldStop False # Wait 1000 False # rest)) \<and>
     (status res = TRIAL_BASELINE_INTERRUPTED \<longrightarrow> (\<exists>rest. es = ShouldStop True # rest))"

lemma window_inv_Nil: "window_inv [] 0 started previous 0"
  by (simp add: window_inv_def)

lemma calm_trace_add:
  "calm_trace (ShouldStop a # es) = calm_trace es"
  "calm_trace (Wait ms b # es) = calm_trace es"
  "calm_trace (Recorded k obs # es) = calm_trace es"
  "calm_trace (Read i c obs # es) = calm_trace es"
  "calm_trace (Now t # ShouldStop a # es) = calm_trace es"
  "calm_trace (Now t # Wait ms b # es) = calm_trace es"
  "calm_trace (Now t # Read i c obs # es) = calm_trace es"
  by (cases c; auto simp: calm_trace_def)+

text \<open>The samples once one more sample has been taken.\<close>

lemma window_inv_sample:
  assumes inv: "window_inv es second started previous n"
    and timing: "if second = 0 then read_timing_valid read_started sampled
                 else sample_timing_valid previous read_started sampled"
    and base: "baseline obs"
  shows "list_all (\<lambda>(t, obs). isfinite t \<and> baseline obs) ((sampled, obs) # samples es)"
    and "paced (map fst ((sampled, obs) # samples es))"
    and "(if second = 0 then sampled else started) = fst (last ((sampled, obs) # samples es))"
proof -
  have fin: "isfinite sampled"
    using timing by (auto simp: sample_timing_valid_def read_timing_valid_def split: if_splits)
  then show "list_all (\<lambda>(t, obs). isfinite t \<and> baseline obs) ((sampled, obs) # samples es)"
    using inv base by (auto simp: window_inv_def)
  show "paced (map fst ((sampled, obs) # samples es))"
    "(if second = 0 then sampled else started) = fst (last ((sampled, obs) # samples es))"
  proof (atomize (full), cases "samples es")
    case Nil
    then show "paced (map fst ((sampled, obs) # samples es)) \<and>
      (if second = 0 then sampled else started) = fst (last ((sampled, obs) # samples es))"
      using inv by (auto simp: window_inv_def unat_eq_0)
  next
    case (Cons s ss)
    then have "second \<noteq> 0" using inv by (auto simp: window_inv_def)
    moreover from this have "previous = fst s" "isfinite (fst s)" "started = fst (last (samples es))"
      using inv Cons by (auto simp: window_inv_def)
    ultimately show "paced (map fst ((sampled, obs) # samples es)) \<and>
      (if second = 0 then sampled else started) = fst (last ((sampled, obs) # samples es))"
      using timing sample_timing_paced[of previous read_started sampled] inv Cons
      by (auto simp: window_inv_def)
  qed
qed

section \<open>The contract of an observer, and the window proved under it\<close>

locale baseline_source =
  fixes ob :: "'w baseline_observer" and trace :: "'w \<Rightarrow> event list"
  assumes pointers: "ob_read ob \<noteq> None" "ob_wait ob \<noteq> None" "ob_stop ob \<noteq> None"
      "ob_now ob \<noteq> None" "ob_record ob \<noteq> None"
    and read_law: "run_state (the (ob_read ob) obs0) w = ((ok, obs), w') \<Longrightarrow>
      \<exists>i. trace w' = Read i ok obs # trace w"
    and wait_law: "run_state (the (ob_wait ob) ms) w = (b, w') \<Longrightarrow> trace w' = Wait ms b # trace w"
    and stop_law: "run_state (the (ob_stop ob)) w = (b, w') \<Longrightarrow> trace w' = ShouldStop b # trace w"
    and now_law: "run_state (the (ob_now ob)) w = (t, w') \<Longrightarrow> trace w' = Now t # trace w"
    and record_law: "run_state (the (ob_record ob) k obs) w = (u, w') \<Longrightarrow>
      trace w' = trace w \<or> trace w' = Recorded k obs # trace w"
begin

lemma wp_read:
  "(\<And>i ok obs w'. trace w' = Read i ok obs # trace w \<Longrightarrow> Q (ok, obs) w') \<Longrightarrow>
   wp (the (ob_read ob) obs0) Q w"
  by (rule wpI) (use read_law in force)

lemma wp_wait:
  "(\<And>b w'. trace w' = Wait ms b # trace w \<Longrightarrow> Q b w') \<Longrightarrow> wp (the (ob_wait ob) ms) Q w"
  by (rule wpI) (use wait_law in force)

lemma wp_stop:
  "(\<And>b w'. trace w' = ShouldStop b # trace w \<Longrightarrow> Q b w') \<Longrightarrow> wp (the (ob_stop ob)) Q w"
  by (rule wpI) (use stop_law in force)

lemma wp_now:
  "(\<And>t w'. trace w' = Now t # trace w \<Longrightarrow> Q t w') \<Longrightarrow> wp (the (ob_now ob)) Q w"
  by (rule wpI) (use now_law in force)

lemma wp_record:
  "(\<And>u w'. trace w' = trace w \<or> trace w' = Recorded k obs # trace w \<Longrightarrow> Q u w') \<Longrightarrow>
   wp (the (ob_record ob) k obs) Q w"
  by (rule wpI) (use record_law in force)

lemmas wp_callbacks = wp_read wp_wait wp_stop wp_now wp_record

lemma observe_from_explained:
  assumes "window_inv es second started previous n" and "unat second \<le> unat final"
    and "trace w = es @ tr"
  shows "wp (observe_from ob final second started previous n)
           (\<lambda>res w'. \<exists>es'. trace w' = es' @ tr \<and> verdict_explained (unat final) es' res) w"
  using assms
proof (induction "unat (final - second)" arbitrary: es second started previous n w rule: less_induct)
  case less
  note inv = less.prems(1) and tr = less.prems(3)
  from inv have calm: "calm_trace es" and n: "n = second" and len: "length (samples es) = unat second"
    by (auto simp: window_inv_def)
  have next_second: "window_inv es' (second + 1) (if second = 0 then sampled else started) sampled (n + 1)"
    if "second \<noteq> final" "baseline obs"
      "if second = 0 then read_timing_valid read_started sampled
       else sample_timing_valid previous read_started sampled"
      "calm_trace es'" "samples es' = (sampled, obs) # samples es"
    for es' sampled obs read_started
    using window_inv_sample[OF inv that(3,2)] that(4,5) n len
      unat_next(1)[OF that(1) less.prems(2)]
    by (simp add: window_inv_def del: paced.simps list.map last.simps)
  have quiet: "quiet_window (unat final) ((sampled, obs) # samples es)"
    if "second = final" "baseline obs"
      "if final = 0 then read_timing_valid read_started sampled
       else sample_timing_valid previous read_started sampled"
      "round64 (of_nat (unat final)) \<le> sampled - (if final = 0 then sampled else started)"
    for sampled obs read_started
    unfolding quiet_window_def
    using window_inv_sample[OF inv, of read_started sampled obs] that len
    by (simp del: paced.simps list.map last.simps)
  have verdict: "verdict_explained (unat final) es'
      \<lparr>status = if round64 (of_nat (unat final)) \<le> sampled - (if final = 0 then sampled else started)
               then TRIAL_BASELINE_STABLE else TRIAL_BASELINE_TIMING_FAILED,
       result_second = final, result_samples = n + 1\<rparr>"
    if "second = final" "baseline obs"
      "if final = 0 then read_timing_valid read_started sampled
       else sample_timing_valid previous read_started sampled"
      "calm_trace es'" "samples es' = (sampled, obs) # samples es"
    for es' sampled obs read_started
    using quiet[OF that(1-3)] that(1,4,5) n len
    by (cases "round64 (of_nat (unat final)) \<le> sampled - (if final = 0 then sampled else started)")
       (simp_all add: verdict_explained_def del: if_split)
  note leaf = verdict_explained_def calm calm_trace_add
  show ?case
    apply (subst observe_from.simps)
    apply (intro wp_intros wp_callbacks)
    apply (simp_all only: tr append_Cons[symmetric] not_not prod.inject result_of_def)
    apply ((rule exI, rule conjI, rule refl, simp add: leaf)+)[5]
    subgoal by (elim disjE; simp only: append_Cons[symmetric]; rule exI; rule conjI, rule refl,
        simp add: leaf)
    subgoal by (elim disjE; simp only: append_Cons[symmetric]; rule exI; rule conjI, rule refl,
        simp add: leaf)
    subgoal by (elim disjE; simp only: append_Cons[symmetric]; rule exI; rule conjI, rule refl,
        rule verdict, assumption, assumption, assumption, simp add: leaf, simp)
    subgoal by (elim disjE; simp only: append_Cons[symmetric]; rule exI; rule conjI, rule refl,
        simp add: leaf)
    subgoal
      apply (elim disjE; rule less.hyps[OF unat_countdown _ unat_next(2)[OF _ less.prems(2)]],
          assumption, rule next_second, assumption, assumption, assumption)
             apply (simp_all add: leaf)
      done
    done
qed

lemma window_explained:
  assumes "run_state (trial_observe_baseline_window (Some ob) final) w = (res, w')"
  shows "\<exists>es. trace w' = es @ trace w \<and> verdict_explained (unat final) es res"
proof -
  have "wp (observe_from ob final 0 (round64 0) (round64 0) 0)
          (\<lambda>res w'. \<exists>es. trace w' = es @ trace w \<and> verdict_explained (unat final) es res) w"
    by (rule observe_from_explained[OF window_inv_Nil]) simp_all
  with assms pointers show ?thesis
    by (auto simp: trial_observe_baseline_window_def Let_def intro: wpD)
qed

end

section \<open>Calls a window makes\<close>

lemma emits_observe_from:
  assumes "\<And>obs. emits tr P (the (ob_read ob) obs)" "\<And>ms. emits tr P (the (ob_wait ob) ms)"
    "emits tr P (the (ob_stop ob))" "emits tr P (the (ob_now ob))"
    "\<And>k obs. emits tr P (the (ob_record ob) k obs)"
  shows "emits tr P (observe_from ob final second started previous n)"
proof (induction "unat (final - second)" arbitrary: second started previous n rule: less_induct)
  case less
  show ?case
    by (subst observe_from.simps) (intro emits_intros assms less.hyps unat_countdown)
qed

lemma emits_window [emits_intros]:
  assumes "\<And>obs. emits tr P (the (ob_read ob) obs)" "\<And>ms. emits tr P (the (ob_wait ob) ms)"
    "emits tr P (the (ob_stop ob))" "emits tr P (the (ob_now ob))"
    "\<And>k obs. emits tr P (the (ob_record ob) k obs)"
  shows "emits tr P (trial_observe_baseline_window (Some ob) final)"
  unfolding trial_observe_baseline_window_def Let_def
  by (simp only: option.simps) (intro emits_intros emits_observe_from assms)

end
