(* ===== verification/TrialActions.thy ===== *)
theory TrialActions
  imports BaselineWindow
begin

text \<open>
  The procedures of \<open>trial_actions.c\<close> that write to the fan controller: the recovery procedures
  \<open>trial_restore_system\<close> and \<open>trial_restore_unlock\<close>, the Ftst check and rehearsal, and the direct
  trial. A C loop with a bound is a recursion over the list of its counter values; a \<open>return\<close> from
  inside a nested loop is a sum or option value that the caller passes on.
\<close>

section \<open>Constants and helpers\<close>

definition RESTORE_RETRIES :: nat where "RESTORE_RETRIES = 10"
definition RESTORE_RETRY_DELAY_MS :: nat where "RESTORE_RETRY_DELAY_MS = 50"
definition RESTORE_VERIFY_SECONDS :: nat where "RESTORE_VERIFY_SECONDS = 5"
definition OBSERVE_SECONDS :: nat where "OBSERVE_SECONDS = 5"
definition FTST_RELEASE_RETRIES :: nat where "FTST_RELEASE_RETRIES = 3"
definition FTST_RELEASE_WAIT_SECONDS :: nat where "FTST_RELEASE_WAIT_SECONDS = 10"
definition FTST_POST_CLEAR_FALLBACK_SECONDS :: nat where "FTST_POST_CLEAR_FALLBACK_SECONDS = 10"
definition FTST_BASELINE_WAIT_SECONDS :: nat where "FTST_BASELINE_WAIT_SECONDS = 90"
definition FTST_BASELINE_STABLE_SECONDS :: nat where "FTST_BASELINE_STABLE_SECONDS = 60"
definition FTST_EFFECT_WAIT_HALF_SECONDS :: nat where "FTST_EFFECT_WAIT_HALF_SECONDS = 20"

lemmas action_constants = RESTORE_RETRIES_def RESTORE_RETRY_DELAY_MS_def RESTORE_VERIFY_SECONDS_def
  OBSERVE_SECONDS_def FTST_RELEASE_RETRIES_def FTST_RELEASE_WAIT_SECONDS_def
  FTST_POST_CLEAR_FALLBACK_SECONDS_def FTST_BASELINE_WAIT_SECONDS_def
  FTST_BASELINE_STABLE_SECONDS_def FTST_EFFECT_WAIT_HALF_SECONDS_def

datatype trial_run_status =
    TRIAL_RUN_SUCCEEDED
  | TRIAL_RUN_BASELINE_REJECTED
  | TRIAL_RUN_CONTROL_FAILED_SYSTEM_VERIFIED
  | TRIAL_RUN_WRITE_EFFECT_UNVERIFIED
  | TRIAL_RUN_RESTORE_FAILED

text \<open>A call whose result the code discards.\<close>

definition ignored :: "('s, 'a) state \<Rightarrow> ('s, unit) state" where
  "ignored m = do { m; ret () }"

primrec retry_mode_from :: "'c trial_backend \<Rightarrow> nat \<Rightarrow> u8 \<Rightarrow> nat list \<Rightarrow> ('c world, bool) state" where
  "retry_mode_from b fan mode [] = ret False"
| "retry_mode_from b fan mode (attempt # attempts) = do {
     ok \<leftarrow> call_write_mode b fan mode;
     if ok then ret True
     else do {
       (if attempt + 1 < RESTORE_RETRIES then ignored (call_wait b RESTORE_RETRY_DELAY_MS)
        else ret ());
       retry_mode_from b fan mode attempts
     }
   }"

definition retry_mode :: "'c trial_backend \<Rightarrow> nat \<Rightarrow> u8 \<Rightarrow> ('c world, bool) state" where
  "retry_mode b fan mode = retry_mode_from b fan mode [0..<RESTORE_RETRIES]"

primrec retry_target_from ::
  "'c trial_backend \<Rightarrow> nat \<Rightarrow> double \<Rightarrow> nat list \<Rightarrow> ('c world, bool) state" where
  "retry_target_from b fan rpm [] = ret False"
| "retry_target_from b fan rpm (attempt # attempts) = do {
     ok \<leftarrow> call_write_target b fan rpm;
     if ok then ret True
     else do {
       (if attempt + 1 < RESTORE_RETRIES then ignored (call_wait b RESTORE_RETRY_DELAY_MS)
        else ret ());
       retry_target_from b fan rpm attempts
     }
   }"

definition retry_target :: "'c trial_backend \<Rightarrow> nat \<Rightarrow> double \<Rightarrow> ('c world, bool) state" where
  "retry_target b fan rpm = retry_target_from b fan rpm [0..<RESTORE_RETRIES]"

section \<open>Restoring the system modes\<close>

primrec release_fans :: "'c trial_backend \<Rightarrow> nat list \<Rightarrow> ('c world, unit) state" where
  "release_fans b [] = ret ()"
| "release_fans b (fan # others) = do {
     ignored (retry_mode b fan 0);
     ignored (retry_target b fan (round64 0));
     release_fans b others
   }"

definition read_baseline :: "'c trial_backend \<Rightarrow> ('c world, bool) state" where
  "read_baseline b = do {
     (ok, observation) \<leftarrow> call_read b False zero_observation;
     ret (ok \<and> trial_observation_is_baseline (Some observation))
   }"

primrec verify_system :: "'c trial_backend \<Rightarrow> nat list \<Rightarrow> ('c world, bool) state" where
  "verify_system b [] = ret False"
| "verify_system b (second # seconds) = do {
     ok \<leftarrow> read_baseline b;
     if ok then ret True
     else do {
       (if second < RESTORE_VERIFY_SECONDS then ignored (call_wait b 1000) else ret ());
       verify_system b seconds
     }
   }"

definition trial_restore_system :: "'c trial_backend option \<Rightarrow> ('c world, bool) state" where
  "trial_restore_system backend =
     (case backend of
        None \<Rightarrow> ret False
      | Some b \<Rightarrow>
          if write_mode b = None \<or> write_target b = None \<or> read_observation b = None \<or>
             wait_milliseconds b = None then ret False
          else do {
            ok \<leftarrow> read_baseline b;
            if ok then ret True
            else do {
              release_fans b fan_indices;
              verify_system b [0..<RESTORE_VERIFY_SECONDS + 1]
            }
          })"

section \<open>The observation window on a backend\<close>

definition trial_backend_observer_read ::
  "'c trial_backend \<Rightarrow> trial_observation \<Rightarrow> ('c world, bool \<times> trial_observation) state" where
  "trial_backend_observer_read b output = do {
     (ok, output) \<leftarrow> call_read b False output;
     if \<not> ok then ret (False, output)
     else do { note_fan_state b output; ret (True, output) }
   }"

definition backend_observer :: "'c trial_backend \<Rightarrow> 'c world baseline_observer" where
  "backend_observer b =
     \<lparr>ob_read = Some (trial_backend_observer_read b), ob_wait = Some (call_wait b),
      ob_stop = Some (call_should_stop b), ob_now = Some (call_now b),
      ob_record = Some (call_record b)\<rparr>"

definition trial_observe_after_ftst :: "'c trial_backend \<Rightarrow> ('c world, baseline_result) state" where
  "trial_observe_after_ftst b =
     trial_observe_baseline_window (Some (backend_observer b))
       (of_nat FTST_BASELINE_STABLE_SECONDS)"

definition observed_stable :: "'c trial_backend \<Rightarrow> ('c world, bool) state" where
  "observed_stable b = do {
     result \<leftarrow> trial_observe_after_ftst b;
     ret (status result = TRIAL_BASELINE_STABLE)
   }"

interpretation backend_source: baseline_source "backend_observer b" calls for b
proof (unfold_locales)
  fix obs0 obs :: trial_observation and w w' :: "'a world" and ok :: bool
  assume "run_state (the (ob_read (backend_observer b)) obs0) w = ((ok, obs), w')"
  then show "\<exists>i. calls w' = Read i ok obs # calls w"
    by (auto simp: backend_observer_def trial_backend_observer_read_def note_fan_state_def call_read_def
        calls_def split: prod.splits if_splits dest!: calls_call(1))
next
  fix k obs u and w w' :: "'a world"
  assume "run_state (the (ob_record (backend_observer b)) k obs) w = (u, w')"
  then show "calls w' = calls w \<or> calls w' = Recorded k obs # calls w"
    by (auto simp: backend_observer_def call_record_def calls_def run_in_context
        split: prod.splits option.splits)
qed (auto simp: backend_observer_def call_defs dest: calls_call(1))

section \<open>Recovery from an unlocked state\<close>

primrec first_read ::
  "'c trial_backend \<Rightarrow> nat list \<Rightarrow> trial_observation \<Rightarrow> ('c world, bool \<times> trial_observation) state"
where
  "first_read b [] current = ret (False, current)"
| "first_read b (attempt # attempts) current = do {
     (ok, current) \<leftarrow> call_read b False current;
     if ok then do { note_fan_state b current; ret (True, current) }
     else do {
       (if attempt + 1 < FTST_RELEASE_RETRIES
        then ignored (call_wait b RESTORE_RETRY_DELAY_MS) else ret ());
       first_read b attempts current
     }
   }"

primrec release_manual_modes ::
  "'c trial_backend \<Rightarrow> trial_observation \<Rightarrow> nat list \<Rightarrow> ('c world, bool) state" where
  "release_manual_modes b current [] = ret True"
| "release_manual_modes b current (fan # others) = do {
     failed \<leftarrow> and_then (ret (obs_mode current fan = 1)) (negated (retry_mode b fan 0));
     if failed then ret False else release_manual_modes b current others
   }"

primrec zero_targets ::
  "'c trial_backend \<Rightarrow> nat list \<Rightarrow> trial_observation \<Rightarrow> ('c world, trial_observation) state" where
  "zero_targets b [] current = ret current"
| "zero_targets b (fan # others) current = do {
     (ok, current) \<leftarrow> call_read b False current;
     if \<not> ok \<or> obs_ftst current \<noteq> 1 \<or> obs_mode current 0 \<noteq> 0 \<or> obs_mode current 1 \<noteq> 0 \<or>
        \<not> modes_released current
     then ret current
     else do {
       note_fan_state b current;
       (if round64 1 < obs_target_rpm current fan
        then ignored (call_write_target b fan (round64 0)) else ret ());
       zero_targets b others current
     }
   }"

text \<open>\<open>None\<close> is \<open>return false\<close> from the procedure; \<open>Some\<close> carries \<open>ftst_cleared\<close>.\<close>

primrec await_clear :: "'c trial_backend \<Rightarrow> nat list \<Rightarrow> ('c world, bool option) state" where
  "await_clear b [] = ret (Some False)"
| "await_clear b (second # seconds) = do {
     (ok, after_write) \<leftarrow> call_read b False zero_observation;
     if \<not> ok \<or> \<not> modes_released after_write then ret None
     else do {
       note_fan_state b after_write;
       call_record b second after_write;
       if obs_ftst after_write = 0 then ret (Some True)
       else do {
         failed \<leftarrow> or_else (ret (obs_ftst after_write \<noteq> 1)) (negated (call_wait b 1000));
         if failed then ret None else await_clear b seconds
       }
     }
   }"

primrec clear_ftst :: "'c trial_backend \<Rightarrow> nat list \<Rightarrow> ('c world, bool option) state" where
  "clear_ftst b [] = ret (Some False)"
| "clear_ftst b (attempt # attempts) = do {
     ignored (call_write_ftst b 0);
     outcome \<leftarrow> await_clear b [0..<FTST_RELEASE_WAIT_SECONDS];
     case outcome of
       None \<Rightarrow> ret None
     | Some cleared \<Rightarrow> if cleared then ret (Some True) else clear_ftst b attempts
   }"

primrec await_baseline ::
  "'c trial_backend \<Rightarrow> bool \<Rightarrow> nat list \<Rightarrow> nat \<Rightarrow> double \<Rightarrow> double \<Rightarrow> bool \<Rightarrow> ('c world, bool) state"
where
  "await_baseline b delayed_change [] stable_samples stable_started previous_sample have_previous =
     ret False"
| "await_baseline b delayed_change (second # seconds) stable_samples stable_started previous_sample
     have_previous = do {
     read_started \<leftarrow> call_now b;
     (ok, observation) \<leftarrow> call_read b False zero_observation;
     if \<not> ok \<or> obs_ftst observation \<noteq> 0 \<or> \<not> modes_released observation then ret False
     else do {
       sampled \<leftarrow> call_now b;
       if \<not> (if have_previous then sample_timing_valid previous_sample read_started sampled
             else read_timing_valid read_started sampled)
       then ret False
       else do {
         note_fan_state b observation;
         call_record b second observation;
         let calm = trial_observation_is_baseline (Some observation);
             stable_started = (if calm \<and> stable_samples = 0 then sampled else stable_started);
             stable_samples = (if calm then stable_samples + 1 else 0)
         in if FTST_BASELINE_STABLE_SECONDS < stable_samples \<and>
               round64 (of_nat FTST_BASELINE_STABLE_SECONDS) \<le> sampled - stable_started
         then ret (\<not> delayed_change)
         else do {
           let fallback = (second = FTST_POST_CLEAR_FALLBACK_SECONDS \<and>
                           obs_mode observation 0 = 0 \<and> obs_mode observation 1 = 0);
           (if fallback then ignored (trial_restore_system (Some b)) else ret ());
           failed \<leftarrow> and_then (ret (second < FTST_BASELINE_WAIT_SECONDS))
                              (negated (call_wait b 1000));
           if failed then ret False
           else await_baseline b delayed_change seconds
                  (if fallback then 0 else stable_samples) stable_started sampled (\<not> fallback)
         }
       }
     }
   }"

definition release_ftst :: "'c trial_backend \<Rightarrow> bool \<Rightarrow> ('c world, bool) state" where
  "release_ftst b delayed_change = do {
     outcome \<leftarrow> clear_ftst b [0..<FTST_RELEASE_RETRIES];
     if outcome \<noteq> Some True then ret False
     else await_baseline b delayed_change [0..<FTST_BASELINE_WAIT_SECONDS + 1] 0 (round64 0)
            (round64 0) False
   }"

text \<open>The step that zeroes nonzero targets before Ftst is cleared; \<open>False\<close> is \<open>return false\<close>.\<close>

definition prepare_release :: "'c trial_backend \<Rightarrow> trial_observation \<Rightarrow> ('c world, bool) state" where
  "prepare_release b current =
     (if obs_mode current 0 = 0 \<and> obs_mode current 1 = 0 \<and>
         (round64 1 < obs_target_rpm current 0 \<or> round64 1 < obs_target_rpm current 1)
      then do {
        current \<leftarrow> zero_targets b fan_indices current;
        (ok, current) \<leftarrow> call_read b False current;
        if \<not> ok \<or> \<not> modes_released current then ret False
        else do {
          note_fan_state b current;
          call_record b 0 current;
          ret (obs_ftst current = 1)
        }
      }
      else ret True)"

definition release_unlocked ::
  "'c trial_backend \<Rightarrow> trial_observation \<Rightarrow> bool \<Rightarrow> ('c world, bool) state" where
  "release_unlocked b current delayed_change = do {
     ok \<leftarrow> release_manual_modes b current fan_indices;
     if \<not> ok then ret False
     else do {
       (ok, current) \<leftarrow> call_read b False current;
       if \<not> ok \<or> obs_ftst current \<noteq> 1 \<or> \<not> modes_released current then ret False
       else do {
         note_fan_state b current;
         call_record b 0 current;
         ok \<leftarrow> prepare_release b current;
         if \<not> ok then ret False else release_ftst b delayed_change
       }
     }
   }"

definition trial_restore_unlock :: "'c trial_backend option \<Rightarrow> ('c world, bool) state" where
  "trial_restore_unlock backend =
     (case backend of
        None \<Rightarrow> ret False
      | Some b \<Rightarrow>
          if write_ftst b = None \<or> write_mode b = None \<or> write_target b = None \<or>
             read_observation b = None \<or> wait_milliseconds b = None \<or>
             monotonic_seconds b = None \<or> should_stop b = None then ret False
          else do {
            (read_ok, current) \<leftarrow> first_read b [0..<FTST_RELEASE_RETRIES] zero_observation;
            if \<not> read_ok then ret False
            else do {
              call_record b 0 current;
              entry \<leftarrow>
                (if trial_observation_is_baseline (Some current)
                 then do {
                   result \<leftarrow> trial_observe_after_ftst b;
                   if status result = TRIAL_BASELINE_STABLE then ret (Inl True)
                   else if status result \<noteq> TRIAL_BASELINE_CHANGED then ret (Inl False)
                   else do {
                     (ok, current) \<leftarrow> call_read b False current;
                     if \<not> ok then ret (Inl False)
                     else do { note_fan_state b current; ret (Inr (current, True)) }
                   }
                 }
                 else ret (Inr (current, False)));
              case entry of
                Inl returned \<Rightarrow> ret returned
              | Inr (current, delayed_change) \<Rightarrow>
                  if obs_ftst current = 0
                  then and_then (trial_restore_system (Some b))
                         (and_then (observed_stable b) (ret (\<not> delayed_change)))
                  else if obs_ftst current \<noteq> 1 then ret False
                  else release_unlocked b current delayed_change
            }
          })"

section \<open>The Ftst check\<close>

primrec watch_effect ::
  "'c trial_backend \<Rightarrow> nat list \<Rightarrow> trial_observation \<Rightarrow> ('c world, bool \<times> trial_observation) state"
where
  "watch_effect b [] after_write = ret (False, after_write)"
| "watch_effect b (half_second # half_seconds) after_write = do {
     (ok, after_write) \<leftarrow> call_read b True after_write;
     if \<not> ok then ret (False, after_write)
     else do {
       call_record b half_second after_write;
       note_fan_state b after_write;
       if \<not> trial_observation_is_baseline (Some after_write) then ret (True, after_write)
       else if \<not> temperatures_safe after_write then ret (False, after_write)
       else do {
         finished \<leftarrow> or_else (call_should_stop b)
                      (or_else (ret (half_second = FTST_EFFECT_WAIT_HALF_SECONDS))
                               (negated (call_wait b 500)));
         if finished then ret (False, after_write) else watch_effect b half_seconds after_write
       }
     }
   }"

text \<open>
  Recovery after an effect, the same in the check and in the rehearsal: \<open>Inl\<close> is a returned status,
  \<open>Inr\<close> says whether the first observation after recovery was already stable.
\<close>

definition recover_unlock :: "'c trial_backend \<Rightarrow> ('c world, trial_run_status + bool) state" where
  "recover_unlock b = do {
     restored \<leftarrow> trial_restore_unlock (Some b);
     if \<not> restored
     then do {
       stable \<leftarrow> observed_stable b;
       ret (Inl (if stable then TRIAL_RUN_CONTROL_FAILED_SYSTEM_VERIFIED else TRIAL_RUN_RESTORE_FAILED))
     }
     else do {
       stable \<leftarrow> observed_stable b;
       if stable then ret (Inr True)
       else do {
         recovered \<leftarrow> and_then (trial_restore_unlock (Some b)) (observed_stable b);
         ret (if recovered then Inr False else Inl TRIAL_RUN_RESTORE_FAILED)
       }
     }
   }"

definition safe_start :: "'c trial_backend \<Rightarrow> ('c world, double option) state" where
  "safe_start b = do {
     (ok, before) \<leftarrow> call_read b True zero_observation;
     if \<not> ok \<or> \<not> trial_observation_is_baseline (Some before) \<or> \<not> temperatures_safe before
     then ret None
     else do {
       stop \<leftarrow> call_should_stop b;
       if stop then ret None
       else do {
         started \<leftarrow> call_now b;
         ret (if \<not> isfinite started \<or> started < round64 0 then None else Some started)
       }
     }
   }"

definition check_ftst_tracked :: "'c trial_backend \<Rightarrow> ('c world, trial_run_status) state" where
  "check_ftst_tracked b = do {
     start \<leftarrow> safe_start b;
     case start of
       None \<Rightarrow> ret TRIAL_RUN_BASELINE_REJECTED
     | Some started \<Rightarrow> do {
         write_ok \<leftarrow> call_write_ftst b 1;
         (observed_effect, after_write) \<leftarrow>
           watch_effect b [0..<FTST_EFFECT_WAIT_HALF_SECONDS + 1] zero_observation;
         if observed_effect
         then do {
           unlock_ok \<leftarrow>
             and_then (ret (write_ok \<and> obs_ftst after_write = 1 \<and>
                            system_modes_and_zero_targets after_write \<and>
                            temperatures_safe after_write))
               (and_then (do { now \<leftarrow> call_now b; ret (now - started < round64 5) })
                         (negated (call_should_stop b)));
           recovery \<leftarrow> recover_unlock b;
           case recovery of
             Inl returned \<Rightarrow> ret returned
           | Inr lasting \<Rightarrow> do {
               changed \<leftarrow> State (\<lambda>w. (fan_state_change w, w));
               ret (if unlock_ok \<and> lasting \<and> \<not> changed then TRIAL_RUN_SUCCEEDED
                    else TRIAL_RUN_CONTROL_FAILED_SYSTEM_VERIFIED)
             }
         }
         else do {
           release_ok \<leftarrow> call_write_ftst b 0;
           stable \<leftarrow> observed_stable b;
           recovered \<leftarrow> or_else (ret stable)
                          (and_then (trial_restore_unlock (Some b)) (observed_stable b));
           ret (if \<not> recovered then TRIAL_RUN_RESTORE_FAILED
                else if \<not> release_ok then TRIAL_RUN_RESTORE_FAILED
                else TRIAL_RUN_WRITE_EFFECT_UNVERIFIED)
         }
       }
   }"

text \<open>The check runs on a copy of the backend that tracks fan changes in a local flag, which goes
  out of scope on return.\<close>

definition trial_check_ftst :: "'c trial_backend option \<Rightarrow> ('c world, trial_run_status) state" where
  "trial_check_ftst backend =
     (case backend of
        None \<Rightarrow> ret TRIAL_RUN_RESTORE_FAILED
      | Some b \<Rightarrow>
          if write_ftst b = None \<or> write_mode b = None \<or> write_target b = None \<or>
             read_observation b = None \<or> wait_milliseconds b = None \<or>
             monotonic_seconds b = None \<or> should_stop b = None then ret TRIAL_RUN_RESTORE_FAILED
          else do {
            outer \<leftarrow> State (\<lambda>w. (fan_state_change w, w\<lparr>fan_state_change := False\<rparr>));
            returned \<leftarrow> check_ftst_tracked (b\<lparr>observed_fan_state_change := True\<rparr>);
            State (\<lambda>w. ((), w\<lparr>fan_state_change := outer\<rparr>));
            ret returned
          })"

section \<open>The rehearsal of the minimum-target recovery\<close>

definition minimum_targets_match :: "(nat \<Rightarrow> double) \<Rightarrow> trial_observation \<Rightarrow> bool" where
  "minimum_targets_match minimum_rpm current =
     list_all (\<lambda>fan. isfinite (obs_target_rpm current fan) \<and>
                     \<not> round64 1 < \<bar>obs_target_rpm current fan - minimum_rpm fan\<bar>) fan_indices"

primrec rehearse_watch ::
  "'c trial_backend \<Rightarrow> (nat \<Rightarrow> double) \<Rightarrow> double \<Rightarrow> nat list \<Rightarrow> bool \<Rightarrow> ('c world, bool \<times> bool) state"
where
  "rehearse_watch b minimum_rpm started [] saw_ftst_one = ret (saw_ftst_one, False)"
| "rehearse_watch b minimum_rpm started (half_second # half_seconds) saw_ftst_one = do {
     stop \<leftarrow> call_should_stop b;
     if stop then ret (saw_ftst_one, False)
     else do {
       (ok, current) \<leftarrow> call_read b True zero_observation;
       if \<not> ok then ret (saw_ftst_one, False)
       else do {
         call_record b half_second current;
         now \<leftarrow> call_now b;
         let elapsed = now - started;
             saw = saw_ftst_one \<or> obs_ftst current = 1
         in if \<not> isfinite elapsed \<or> elapsed < round64 0 \<or> round64 5 < elapsed
         then ret (saw_ftst_one, False)
         else if \<not> temperatures_safe current then ret (saw_ftst_one, False)
         else if obs_ftst current = 1 \<and> obs_mode current 0 = 0 \<and> obs_mode current 1 = 0
         then ret (True, minimum_targets_match minimum_rpm current)
         else if (obs_ftst current = 1 \<or> obs_ftst current = 0) \<and>
                 system_modes_and_zero_targets current
         then do {
           finished \<leftarrow> or_else (ret (round64 5 \<le> elapsed \<or> half_second = 10))
                                (negated (call_wait b 500));
           if finished then ret (saw, False)
           else rehearse_watch b minimum_rpm started half_seconds saw
         }
         else ret (saw, False)
       }
     }
   }"

definition trial_rehearse_ftst_minimum_recovery ::
  "'c trial_backend option \<Rightarrow> (nat \<Rightarrow> double) option \<Rightarrow> ('c world, trial_run_status) state" where
  "trial_rehearse_ftst_minimum_recovery backend minimum =
     (case (backend, minimum) of
        (Some b, Some minimum_rpm) \<Rightarrow>
          if write_ftst b = None \<or> write_mode b = None \<or> write_target b = None \<or>
             read_observation b = None \<or> wait_milliseconds b = None \<or>
             monotonic_seconds b = None \<or> should_stop b = None then ret TRIAL_RUN_RESTORE_FAILED
          else if list_ex (\<lambda>fan. \<not> isfinite (minimum_rpm fan) \<or> minimum_rpm fan \<le> round64 0)
                    fan_indices then ret TRIAL_RUN_BASELINE_REJECTED
          else do {
            start \<leftarrow> safe_start b;
            case start of
              None \<Rightarrow> ret TRIAL_RUN_BASELINE_REJECTED
            | Some started \<Rightarrow> do {
                write_ok \<leftarrow> call_write_ftst b 1;
                (saw_ftst_one, saw_minimum_targets) \<leftarrow>
                  rehearse_watch b minimum_rpm started [0..<11] False;
                recovery \<leftarrow> recover_unlock b;
                case recovery of
                  Inl returned \<Rightarrow> ret returned
                | Inr lasting \<Rightarrow>
                    ret (if \<not> write_ok \<or> \<not> saw_ftst_one then TRIAL_RUN_WRITE_EFFECT_UNVERIFIED
                         else if saw_minimum_targets \<and> lasting then TRIAL_RUN_SUCCEEDED
                         else TRIAL_RUN_CONTROL_FAILED_SYSTEM_VERIFIED)
              }
          }
      | _ \<Rightarrow> ret TRIAL_RUN_RESTORE_FAILED)"

section \<open>The direct trial\<close>

definition manual_state_matches :: "trial_observation \<Rightarrow> trial_plan \<Rightarrow> bool \<Rightarrow> bool" where
  "manual_state_matches observation plan require_temperatures \<longleftrightarrow>
     obs_ftst observation = 0 \<and>
     list_all (\<lambda>fan. obs_mode observation fan = 1 \<and> isfinite (obs_target_rpm observation fan) \<and>
        \<not> round64 1 < \<bar>obs_target_rpm observation fan - plan_target plan fan\<bar>) fan_indices \<and>
     (require_temperatures \<longrightarrow>
        list_all (\<lambda>sensor. let value = obs_temperatures_c observation sensor
                           in isfinite value \<and> \<not> value < round64 10 \<and>
                              \<not> TRIAL_TEMPERATURE_LIMIT_C \<le> value)
          [0..<TRIAL_TEMPERATURE_COUNT])"

primrec start_manual :: "'c trial_backend \<Rightarrow> trial_plan \<Rightarrow> nat list \<Rightarrow> ('c world, bool) state" where
  "start_manual b plan [] = ret True"
| "start_manual b plan (fan # others) = do {
     failed \<leftarrow> or_else (call_should_stop b) (negated (call_write_mode b fan 1));
     if failed then ret False
     else do {
       target_window_started \<leftarrow> call_now b;
       failed \<leftarrow> or_else (negated (call_write_target b fan (plan_target plan fan)))
         (do { now \<leftarrow> call_now b; ret (round64 (1 / 4) < now - target_window_started) });
       if failed then ret False else start_manual b plan others
     }
   }"

definition manual_expired :: "'c trial_backend \<Rightarrow> double \<Rightarrow> ('c world, bool) state" where
  "manual_expired b manual_started = do {
     now \<leftarrow> call_now b;
     ret (round64 15 \<le> now - manual_started)
   }"

primrec hold_manual ::
  "'c trial_backend \<Rightarrow> trial_plan \<Rightarrow> (nat \<Rightarrow> double) \<Rightarrow> double \<Rightarrow> nat list \<Rightarrow> trial_observation \<Rightarrow>
   ('c world, bool) state"
where
  "hold_manual b plan baseline_rpm manual_started [] observation = ret True"
| "hold_manual b plan baseline_rpm manual_started (second # seconds) observation = do {
     failed \<leftarrow> or_else (call_should_stop b) (or_else (manual_expired b manual_started)
                (or_else (negated (call_wait b 1000)) (call_should_stop b)));
     if failed then ret False
     else do {
       (ok, observation) \<leftarrow> call_read b True observation;
       if \<not> ok \<or> \<not> manual_state_matches observation plan True then ret False
       else do {
         late \<leftarrow> manual_expired b manual_started;
         if late then ret False
         else do {
           call_record b second observation;
           let control_ok = (second = OBSERVE_SECONDS \<longrightarrow>
                 list_all (\<lambda>fan. trial_actual_reached_target (baseline_rpm fan)
                                   (obs_actual_rpm observation fan) (plan_target plan fan))
                   fan_indices)
           in if control_ok
              then hold_manual b plan baseline_rpm manual_started seconds observation
              else ret False
         }
       }
     }
   }"

text \<open>The part up to the release: \<open>(manual_state_observed, control_ok)\<close>.\<close>

definition drive_manual ::
  "'c trial_backend \<Rightarrow> trial_plan \<Rightarrow> (nat \<Rightarrow> double) \<Rightarrow> ('c world, bool \<times> bool) state" where
  "drive_manual b plan baseline_rpm = do {
     manual_started \<leftarrow> call_now b;
     control_ok \<leftarrow> start_manual b plan fan_indices;
     if \<not> control_ok then ret (False, False)
     else do {
       (ok, observation) \<leftarrow> call_read b True zero_observation;
       if \<not> ok \<or> \<not> manual_state_matches observation plan True then ret (False, False)
       else do {
         late \<leftarrow> manual_expired b manual_started;
         if late then ret (True, False)
         else do {
           held \<leftarrow> hold_manual b plan baseline_rpm manual_started [1..<OBSERVE_SECONDS + 1]
                     observation;
           ret (True, held)
         }
       }
     }
   }"

definition restored_and_stable :: "'c trial_backend \<Rightarrow> ('c world, bool) state" where
  "restored_and_stable b =
     and_then (trial_restore_system (Some b))
       (or_else (observed_stable b)
          (and_then (trial_restore_system (Some b)) (observed_stable b)))"

definition trial_execute_direct ::
  "'c trial_backend option \<Rightarrow> trial_plan option \<Rightarrow> (nat \<Rightarrow> double) option \<Rightarrow>
   ('c world, trial_run_status) state" where
  "trial_execute_direct backend plan baseline_ptr =
     (case (backend, plan, baseline_ptr) of
        (Some b, Some plan, Some baseline_rpm) \<Rightarrow>
          if write_mode b = None \<or> write_target b = None \<or> read_observation b = None \<or>
             wait_milliseconds b = None \<or> monotonic_seconds b = None \<or> should_stop b = None
          then ret TRIAL_RUN_RESTORE_FAILED
          else do {
            (manual_state_observed, control_ok) \<leftarrow> drive_manual b plan baseline_rpm;
            restored \<leftarrow> restored_and_stable b;
            ret (if \<not> restored then TRIAL_RUN_RESTORE_FAILED
                 else if \<not> manual_state_observed then TRIAL_RUN_WRITE_EFFECT_UNVERIFIED
                 else if control_ok then TRIAL_RUN_SUCCEEDED
                 else TRIAL_RUN_CONTROL_FAILED_SYSTEM_VERIFIED)
          }
      | _ \<Rightarrow> ret TRIAL_RUN_RESTORE_FAILED)"

end
