(* ===== verification/TrialFootprint.thy ===== *)
theory TrialFootprint
  imports TrialActions
begin

text \<open>
  Which calls each trial procedure can make, for every backend: no procedure ever calls a NULL
  pointer, and the values it can write to the controller are confined.

  The locale \<open>call_trace\<close> states what the confinement rests on: a trace \<open>tr\<close> of the world, a set \<open>P\<close>
  of its events, the backends \<open>B\<close> it is about and the writes \<open>W\<close> they are asked for; every call
  through a pointer that is there adds only events of \<open>P\<close>, provided that a write is one of \<open>W\<close>.
  Each procedure then adds only events of \<open>P\<close> if \<open>W\<close> holds the writes named in its lemma. The
  interpretation \<open>ghost\<close> is the trace of the calls themselves; the live transport interprets the
  locale again with the requests that reach the controller.
\<close>

definition can_restore :: "'c trial_backend \<Rightarrow> bool" where
  "can_restore b \<longleftrightarrow> write_mode b \<noteq> None \<and> write_target b \<noteq> None \<and> read_observation b \<noteq> None \<and>
     wait_milliseconds b \<noteq> None"

definition can_observe :: "'c trial_backend \<Rightarrow> bool" where
  "can_observe b \<longleftrightarrow> read_observation b \<noteq> None \<and> wait_milliseconds b \<noteq> None \<and>
     monotonic_seconds b \<noteq> None \<and> should_stop b \<noteq> None"

definition can_unlock :: "'c trial_backend \<Rightarrow> bool" where
  "can_unlock b \<longleftrightarrow> can_restore b \<and> can_observe b \<and> write_ftst b \<noteq> None"

lemma can_unlock_iff:
  "can_unlock b \<longleftrightarrow> \<not> (write_ftst b = None \<or> write_mode b = None \<or> write_target b = None \<or>
     read_observation b = None \<or> wait_milliseconds b = None \<or> monotonic_seconds b = None \<or>
     should_stop b = None)"
  by (auto simp: can_unlock_def can_restore_def can_observe_def)

lemma can_unlock_tracked: "can_unlock (b\<lparr>observed_fan_state_change := x\<rparr>) = can_unlock b"
  by (simp add: can_unlock_iff)

lemma emits_ignored [emits_intros]: "emits tr P m \<Longrightarrow> emits tr P (ignored m)"
  unfolding ignored_def by (intro emits_intros)

text \<open>The writes that only give control back.\<close>

fun releases :: "event \<Rightarrow> bool" where
  "releases (WriteMode fan m ok) = (m = 0)"
| "releases (WriteTarget fan rpm ok) = (rpm = round64 0)"
| "releases (WriteFtst v ok) = (v = 0)"
| "releases e = True"

definition gives_back :: "(event \<Rightarrow> bool) \<Rightarrow> bool" where
  "gives_back W \<longleftrightarrow> (\<forall>fan r. W (WriteMode fan 0 r)) \<and> (\<forall>fan r. W (WriteTarget fan (round64 0) r))"

section \<open>The contract of the calls\<close>

locale call_trace =
  fixes tr :: "'c world \<Rightarrow> 'e list"
    and P :: "'e \<Rightarrow> bool"
    and B :: "'c trial_backend \<Rightarrow> bool"
    and W :: "event \<Rightarrow> bool"
  assumes traced_read: "B b \<Longrightarrow> read_observation b \<noteq> None \<Longrightarrow> emits tr P (call_read b i obs)"
    and traced_wait: "B b \<Longrightarrow> wait_milliseconds b \<noteq> None \<Longrightarrow> emits tr P (call_wait b ms)"
    and traced_now: "B b \<Longrightarrow> monotonic_seconds b \<noteq> None \<Longrightarrow> emits tr P (call_now b)"
    and traced_stop: "B b \<Longrightarrow> should_stop b \<noteq> None \<Longrightarrow> emits tr P (call_should_stop b)"
    and traced_record: "B b \<Longrightarrow> emits tr P (call_record b k obs)"
    and traced_mode: "B b \<Longrightarrow> write_mode b \<noteq> None \<Longrightarrow> (\<And>r. W (WriteMode fan m r)) \<Longrightarrow>
      emits tr P (call_write_mode b fan m)"
    and traced_target: "B b \<Longrightarrow> write_target b \<noteq> None \<Longrightarrow> (\<And>r. W (WriteTarget fan t r)) \<Longrightarrow>
      emits tr P (call_write_target b fan t)"
    and traced_ftst: "B b \<Longrightarrow> write_ftst b \<noteq> None \<Longrightarrow> (\<And>r. W (WriteFtst v r)) \<Longrightarrow>
      emits tr P (call_write_ftst b v)"
    and traced_flag: "tr (w\<lparr>fan_state_change := c\<rparr>) = tr w"
    and tracked_copy: "B b \<Longrightarrow> B (b\<lparr>observed_fan_state_change := c\<rparr>)"
begin

lemma traced_note: "emits tr P (note_fan_state b obs)"
  by (auto simp: emits_def note_fan_state_def traced_flag)

lemma traced_get: "emits tr P (State (\<lambda>w. (f w, w)))"
  by (simp add: emits_def)

lemma traced_set_flag: "emits tr P (State (\<lambda>w. (f w, w\<lparr>fan_state_change := g w\<rparr>)))"
  by (simp add: emits_def traced_flag)

lemmas traced_calls = traced_read traced_wait traced_now traced_stop traced_record traced_note
  traced_get traced_set_flag

lemmas trace_intros = emits_intros traced_calls traced_mode traced_target traced_ftst

subsection \<open>Recovery\<close>

lemma trace_retry_mode:
  assumes "B b" "can_restore b" "\<And>r. W (WriteMode fan m r)"
  shows "emits tr P (retry_mode b fan m)"
proof -
  have p: "write_mode b \<noteq> None" "wait_milliseconds b \<noteq> None"
    using assms(2) by (auto simp: can_restore_def)
  have "emits tr P (retry_mode_from b fan m attempts)" for attempts
    by (induction attempts) (auto intro!: trace_intros assms p)
  then show ?thesis by (simp add: retry_mode_def)
qed

lemma trace_retry_target:
  assumes "B b" "can_restore b" "\<And>r. W (WriteTarget fan t r)"
  shows "emits tr P (retry_target b fan t)"
proof -
  have p: "write_target b \<noteq> None" "wait_milliseconds b \<noteq> None"
    using assms(2) by (auto simp: can_restore_def)
  have "emits tr P (retry_target_from b fan t attempts)" for attempts
    by (induction attempts) (auto intro!: trace_intros assms p)
  then show ?thesis by (simp add: retry_target_def)
qed

lemma trace_restore_system:
  assumes "\<And>b. backend = Some b \<Longrightarrow> B b" "gives_back W"
  shows "emits tr P (trial_restore_system backend)"
proof (cases "\<exists>b. backend = Some b \<and> can_restore b")
  case True
  then obtain b where b: "backend = Some b" "can_restore b" by blast
  then have p: "B b" "read_observation b \<noteq> None" "wait_milliseconds b \<noteq> None"
    and w: "\<And>fan r. W (WriteMode fan 0 r)" "\<And>fan r. W (WriteTarget fan (round64 0) r)"
    using assms by (auto simp: can_restore_def gives_back_def)
  have read: "emits tr P (read_baseline b)"
    unfolding read_baseline_def by (intro trace_intros p)
  have release: "emits tr P (release_fans b fans)" for fans
    by (induction fans)
       (auto simp del: round64_0 intro!: emits_intros trace_retry_mode trace_retry_target p b w)
  have verify: "emits tr P (verify_system b seconds)" for seconds
    by (induction seconds) (auto intro!: trace_intros read p)
  show ?thesis
    unfolding trial_restore_system_def b option.simps
    by (intro emits_intros read release verify)
next
  case False
  then show ?thesis
    by (auto simp: trial_restore_system_def can_restore_def emits_return split: option.splits)
qed

lemma trace_observe:
  assumes "B b" "can_observe b"
  shows "emits tr P (trial_observe_after_ftst b)"
proof -
  have p: "read_observation b \<noteq> None" "wait_milliseconds b \<noteq> None" "monotonic_seconds b \<noteq> None"
    "should_stop b \<noteq> None"
    using assms(2) by (auto simp: can_observe_def)
  have "emits tr P (trial_backend_observer_read b obs)" for obs
    unfolding trial_backend_observer_read_def by (intro trace_intros assms p)
  then show ?thesis
    unfolding trial_observe_after_ftst_def backend_observer_def
    by (intro emits_window) (simp_all add: traced_calls assms p)
qed

lemma trace_stable: "B b \<Longrightarrow> can_observe b \<Longrightarrow> emits tr P (observed_stable b)"
  unfolding observed_stable_def by (intro emits_intros trace_observe)

subsection \<open>The unlocked recovery\<close>

lemma trace_await_baseline:
  assumes "B b" "can_observe b" "gives_back W"
  shows "emits tr P (await_baseline b delayed seconds n t p h)"
proof -
  have p: "read_observation b \<noteq> None" "wait_milliseconds b \<noteq> None" "monotonic_seconds b \<noteq> None"
    using assms(2) by (auto simp: can_observe_def)
  have "emits tr P (trial_restore_system (Some b))" using assms by (intro trace_restore_system) auto
  then show ?thesis
    by (induction seconds arbitrary: n t p h)
       (auto simp: Let_def simp del: round64_0 intro!: trace_intros assms p)
qed

lemma trace_first_read:
  "B b \<Longrightarrow> can_observe b \<Longrightarrow> emits tr P (first_read b attempts current)"
  by (induction attempts arbitrary: current) (auto simp: can_observe_def intro!: trace_intros)

lemma trace_release_manual_modes:
  "B b \<Longrightarrow> can_restore b \<Longrightarrow> (\<And>fan r. W (WriteMode fan 0 r)) \<Longrightarrow>
   emits tr P (release_manual_modes b current fan_list)"
  by (induction fan_list) (auto intro!: emits_intros trace_retry_mode)

lemma trace_zero_targets:
  assumes "B b" "can_observe b" "write_target b \<noteq> None"
    "\<And>fan r. W (WriteTarget fan (round64 0) r)"
  shows "emits tr P (zero_targets b fan_list current)"
proof -
  have "read_observation b \<noteq> None" using assms(2) by (simp add: can_observe_def)
  then show ?thesis
    by (induction fan_list arbitrary: current)
       (auto simp del: round64_0 intro!: trace_intros assms)
qed

lemma trace_release_ftst:
  assumes "B b" "can_unlock b" "gives_back W" "\<And>r. W (WriteFtst 0 r)"
  shows "emits tr P (release_ftst b delayed)"
proof -
  have p: "can_observe b" "write_ftst b \<noteq> None" "read_observation b \<noteq> None"
    "wait_milliseconds b \<noteq> None"
    using assms(2) by (auto simp: can_unlock_def can_restore_def)
  have "emits tr P (await_clear b seconds)" for seconds
    by (induction seconds) (auto intro!: trace_intros assms p)
  then have "emits tr P (clear_ftst b attempts)" for attempts
    by (induction attempts) (auto intro!: trace_intros assms p split: option.split)
  then show ?thesis
    unfolding release_ftst_def by (intro emits_intros trace_await_baseline assms p)
qed

lemma trace_restore_unlock:
  assumes "\<And>b. backend = Some b \<Longrightarrow> B b" "gives_back W" "\<And>r. W (WriteFtst 0 r)"
  shows "emits tr P (trial_restore_unlock backend)"
proof (cases "\<exists>b. backend = Some b \<and> can_unlock b")
  case True
  then obtain b where b: "backend = Some b" "can_unlock b" by blast
  then have p: "B b" "can_observe b" "can_restore b" "write_target b \<noteq> None"
    "read_observation b \<noteq> None"
    and w: "\<And>fan r. W (WriteMode fan 0 r)" "\<And>fan r. W (WriteTarget fan (round64 0) r)"
    using assms by (auto simp: can_unlock_def can_restore_def gives_back_def)
  have system: "emits tr P (trial_restore_system (Some b))"
    using p assms(2) by (intro trace_restore_system) auto
  have release: "emits tr P (release_unlocked b current delayed)" for current delayed
    unfolding release_unlocked_def prepare_release_def
    by (intro trace_intros p w trace_release_manual_modes trace_zero_targets
        trace_release_ftst assms(2,3) b(2))
  show ?thesis
    unfolding trial_restore_unlock_def b option.simps
    by (intro trace_intros trace_first_read trace_observe trace_stable release system p)
next
  case False
  then show ?thesis
    by (auto simp: trial_restore_unlock_def can_unlock_iff emits_return split: option.splits)
qed

lemma trace_recover_unlock:
  assumes "B b" "can_unlock b" "gives_back W" "\<And>r. W (WriteFtst 0 r)"
  shows "emits tr P (recover_unlock b)"
proof -
  have "can_observe b" using assms(2) by (simp add: can_unlock_def)
  moreover have "emits tr P (trial_restore_unlock (Some b))"
    using assms by (intro trace_restore_unlock) auto
  ultimately show ?thesis
    unfolding recover_unlock_def by (intro emits_intros trace_stable assms)
qed

subsection \<open>The trials\<close>

lemma trace_safe_start: "B b \<Longrightarrow> can_observe b \<Longrightarrow> emits tr P (safe_start b)"
  unfolding safe_start_def by (intro trace_intros) (auto simp: can_observe_def)

lemma trace_check_ftst:
  assumes "\<And>b. backend = Some b \<Longrightarrow> B b" "gives_back W" "\<And>r. W (WriteFtst 0 r)" "\<And>r. W (WriteFtst 1 r)"
  shows "emits tr P (trial_check_ftst backend)"
proof (cases "\<exists>b. backend = Some b \<and> can_unlock b")
  case True
  then obtain b0 where b0: "backend = Some b0" "can_unlock b0" by blast
  define b where "b = b0\<lparr>observed_fan_state_change := True\<rparr>"
  have b: "B b" "can_unlock b"
    using b0 assms(1) by (simp_all add: b_def can_unlock_tracked tracked_copy)
  then have p: "can_observe b" "write_ftst b \<noteq> None" "read_observation b \<noteq> None"
    "wait_milliseconds b \<noteq> None" "monotonic_seconds b \<noteq> None" "should_stop b \<noteq> None"
    by (auto simp: can_unlock_def can_observe_def)
  have "emits tr P (watch_effect b half_seconds obs)" for half_seconds obs
    by (induction half_seconds arbitrary: obs) (auto intro!: trace_intros b p)
  moreover have "emits tr P (trial_restore_unlock (Some b))"
    using b assms by (intro trace_restore_unlock) auto
  ultimately have "emits tr P (check_ftst_tracked b)"
    unfolding check_ftst_tracked_def
    by (intro trace_intros trace_safe_start trace_recover_unlock trace_stable assms b p)
  then show ?thesis
    using b0(2) unfolding trial_check_ftst_def b0(1) option.simps can_unlock_iff b_def
    by (simp only: if_False) (intro trace_intros)
next
  case False
  then show ?thesis
    by (auto simp: trial_check_ftst_def can_unlock_iff emits_return split: option.splits)
qed

lemma trace_rehearse:
  assumes "\<And>b. backend = Some b \<Longrightarrow> B b" "gives_back W" "\<And>r. W (WriteFtst 0 r)" "\<And>r. W (WriteFtst 1 r)"
  shows "emits tr P (trial_rehearse_ftst_minimum_recovery backend minimum)"
proof (cases "\<exists>b. backend = Some b \<and> can_unlock b")
  case True
  then obtain b where b: "backend = Some b" "can_unlock b" by blast
  then have p: "B b" "can_observe b" "write_ftst b \<noteq> None" "read_observation b \<noteq> None"
    "wait_milliseconds b \<noteq> None" "monotonic_seconds b \<noteq> None" "should_stop b \<noteq> None"
    using assms(1) by (auto simp: can_unlock_def can_observe_def)
  have "emits tr P (rehearse_watch b rpm started half_seconds saw)" for rpm started half_seconds saw
    by (induction half_seconds arbitrary: saw) (auto simp: Let_def intro!: trace_intros p)
  then show ?thesis
    unfolding trial_rehearse_ftst_minimum_recovery_def b prod.case option.simps
    by (intro trace_intros trace_safe_start trace_recover_unlock assms(2-4) b(2) p)
next
  case False
  then show ?thesis
    by (auto simp: trial_rehearse_ftst_minimum_recovery_def can_unlock_iff emits_return
        split: option.splits)
qed

lemma trace_execute_direct:
  assumes "\<And>b. backend = Some b \<Longrightarrow> B b" "gives_back W" "\<And>fan r. fan < 2 \<Longrightarrow> W (WriteMode fan 1 r)"
    "\<And>plan fan r. plan_ptr = Some plan \<Longrightarrow> fan < 2 \<Longrightarrow> W (WriteTarget fan (plan_target plan fan) r)"
  shows "emits tr P (trial_execute_direct backend plan_ptr baseline_ptr)"
proof (cases "\<exists>b plan rpm. backend = Some b \<and> plan_ptr = Some plan \<and> baseline_ptr = Some rpm \<and>
              can_observe b \<and> can_restore b")
  case True
  then obtain b plan rpm where args: "backend = Some b" "plan_ptr = Some plan" "baseline_ptr = Some rpm"
    and b: "can_observe b" "can_restore b" by blast
  then have p: "B b" "write_mode b \<noteq> None" "write_target b \<noteq> None" "read_observation b \<noteq> None"
    "wait_milliseconds b \<noteq> None" "monotonic_seconds b \<noteq> None" "should_stop b \<noteq> None"
    using assms(1) by (auto simp: can_restore_def can_observe_def)
  have start: "emits tr P (start_manual b plan fan_list)" if "set fan_list \<subseteq> {..<2}" for fan_list
    using that args(2) by (induction fan_list) (auto intro!: trace_intros assms p)
  have expired: "emits tr P (manual_expired b t)" for t
    unfolding manual_expired_def by (intro trace_intros p)
  have hold: "emits tr P (hold_manual b plan rpm t seconds obs)" for t seconds obs
    by (induction seconds arbitrary: obs) (auto simp: Let_def intro!: trace_intros expired p)
  have "emits tr P (drive_manual b plan rpm)"
    unfolding drive_manual_def
    by (intro trace_intros start expired hold p) (auto simp: fan_indices_two)
  moreover have "emits tr P (trial_restore_system (Some b))"
    using p assms(2) by (intro trace_restore_system) auto
  then have "emits tr P (restored_and_stable b)"
    unfolding restored_and_stable_def by (intro emits_intros trace_stable p b)
  ultimately show ?thesis
    unfolding trial_execute_direct_def args prod.case option.simps by (intro emits_intros)
next
  case False
  then show ?thesis
    by (auto simp: trial_execute_direct_def can_restore_def can_observe_def emits_return
        split: option.splits)
qed

end

section \<open>The trace of the calls\<close>

text \<open>Every backend, and the ghost trace of the calls: what is added is a call that writes nothing,
  or a write of \<open>W\<close>.\<close>

definition quiet_or :: "(event \<Rightarrow> bool) \<Rightarrow> event \<Rightarrow> bool" where
  "quiet_or W e \<longleftrightarrow> e \<noteq> NullCall \<and> (is_write e \<longrightarrow> W e)"

lemma quiet_or_simps:
  "quiet_or W (Read i ok obs)" "quiet_or W (Wait ms r)" "quiet_or W (Now t)"
  "quiet_or W (ShouldStop r)" "quiet_or W (Recorded k obs)" "\<not> quiet_or W NullCall"
  "quiet_or W (WriteMode fan m r) = W (WriteMode fan m r)"
  "quiet_or W (WriteTarget fan t r) = W (WriteTarget fan t r)"
  "quiet_or W (WriteFtst v r) = W (WriteFtst v r)"
  by (simp_all add: quiet_or_def)

interpretation ghost: call_trace events "quiet_or W" "\<lambda>_. True" W for W
  by unfold_locales
     (auto simp: call_defs quiet_or_simps split: prod.splits intro!: emits_call emits_call_record)

lemma emits_quiet: "emits tr (quiet_or W) m \<Longrightarrow> (\<And>e. quiet_or W e \<Longrightarrow> P e) \<Longrightarrow> emits tr P m"
  by (rule emits_mono)

section \<open>Properties\<close>

lemmas ghost_procedures = ghost.trace_restore_system ghost.trace_restore_unlock
  ghost.trace_check_ftst ghost.trace_rehearse ghost.trace_execute_direct

text \<open>No trial procedure ever calls a NULL callback, whatever pointers of the backend are
  missing and whatever the others answer.\<close>

theorem no_null_call:
  "emits events (\<lambda>e. e \<noteq> NullCall) (trial_restore_system backend) \<and>
   emits events (\<lambda>e. e \<noteq> NullCall) (trial_restore_unlock backend) \<and>
   emits events (\<lambda>e. e \<noteq> NullCall) (trial_check_ftst backend) \<and>
   emits events (\<lambda>e. e \<noteq> NullCall) (trial_rehearse_ftst_minimum_recovery backend minimum) \<and>
   emits events (\<lambda>e. e \<noteq> NullCall) (trial_execute_direct backend plan baseline_rpm)"
proof -
  let ?Q = "quiet_or (\<lambda>_. True)"
  have q: "?Q e \<Longrightarrow> e \<noteq> NullCall" for e by (simp add: quiet_or_def)
  have b: "gives_back (\<lambda>_. True)" by (simp add: gives_back_def)
  show ?thesis
    by (intro conjI emits_quiet[OF _ q] ghost_procedures) (simp_all add: b)
qed

lemma releases_quiet: "quiet_or releases e \<Longrightarrow> releases e"
  by (cases e) (simp_all add: quiet_or_simps)

lemma releases_back: "gives_back releases" "releases (WriteFtst 0 r)"
  by (simp_all add: gives_back_def)

text \<open>The recovery procedures only ever give control back: every mode they write is 0, every
  target is 0 RPM and every Ftst value is 0.\<close>

theorem recovery_only_releases:
  "emits events releases (trial_restore_system backend) \<and>
   emits events releases (trial_restore_unlock backend)"
  by (intro conjI emits_quiet[OF _ releases_quiet] ghost_procedures) (simp_all add: releases_back)

text \<open>C28: The Ftst check and the minimum-target rehearsal write nothing but Ftst 0 and 1, the
  released mode 0 and the zero target: never a manual mode and never a positive target.\<close>

theorem ftst_procedures_footprint:
  "emits events (\<lambda>e. releases e \<or> (\<exists>ok. e = WriteFtst 1 ok)) (trial_check_ftst backend) \<and>
   emits events (\<lambda>e. releases e \<or> (\<exists>ok. e = WriteFtst 1 ok))
     (trial_rehearse_ftst_minimum_recovery backend minimum)"
proof -
  let ?W = "\<lambda>e. releases e \<or> (\<exists>ok. e = WriteFtst 1 ok)"
  have q: "quiet_or ?W e \<Longrightarrow> ?W e" for e by (cases e) (simp_all add: quiet_or_simps)
  have b: "gives_back ?W" by (simp add: gives_back_def)
  show ?thesis
    by (intro conjI emits_quiet[OF _ q] ghost_procedures) (simp_all add: b)
qed

text \<open>The direct trial writes no Ftst at all; it takes manual mode 1 only on the two fans, and
  the only nonzero target it writes to a fan is that fan's planned target.\<close>

theorem direct_footprint:
  "emits events (\<lambda>e. case e of
       WriteMode fan m ok \<Rightarrow> m = 0 \<or> m = 1 \<and> fan < 2
     | WriteTarget fan rpm ok \<Rightarrow> rpm = Fin 0 \<or>
         (\<exists>plan. plan_ptr = Some plan \<and> fan < 2 \<and> rpm = plan_target plan fan)
     | WriteFtst v ok \<Rightarrow> False
     | _ \<Rightarrow> True) (trial_execute_direct backend plan_ptr baseline_rpm)"
  (is "emits events ?W _")
proof -
  have q: "quiet_or ?W e \<Longrightarrow> ?W e" for e by (cases e) (simp_all add: quiet_or_simps)
  have b: "gives_back ?W" by (simp add: gives_back_def)
  show ?thesis by (rule emits_quiet[OF _ q], rule ghost_procedures) (auto simp: b)
qed

end
