(* ===== verification/LiveBackend.thy ===== *)
theory LiveBackend
  imports SmcTransport TrialFootprint
begin

text \<open>
  The backend that the trial procedures run on when they control a real machine: preflight collection
  and the callbacks \<open>backend_*\<close> of \<open>prototype/smc-write-trial/smc-write-trial.c\<close>, over the transport
  of \<open>SmcTransport\<close>. \<open>live_backend\<close> is the record \<open>TrialBackend\<close> of \<open>trial_backend()\<close>; the fields of
  the struct \<open>LiveBackend\<close> that never change during a run are the record \<open>live_config\<close>, its event
  buffers are part of the process.
\<close>

section \<open>Reading a snapshot\<close>

definition copy_fan_state :: "fan_live \<Rightarrow> trial_fan_state option" where
  "copy_fan_state live =
     (let (mode_ok, mode_value) = read_ui8_exact (live_mode live) 0;
          (actual_ok, actual) = read_number (live_actual live) (Fin 0);
          (target_ok, target) = read_number (live_target live) (Fin 0);
          (minimum_ok, minimum) = read_number (live_minimum live) (Fin 0);
          (maximum_ok, maximum) = read_number (live_maximum live) (Fin 0)
      in if \<not> mode_ok \<or> \<not> actual_ok \<or> \<not> target_ok \<or> \<not> minimum_ok \<or> \<not> maximum_ok then None
         else Some \<lparr>actual_rpm = actual, target_rpm = target, min_rpm = minimum, max_rpm = maximum,
                fan_mode = mode_value, mode_type = value_type (live_mode live),
                mode_size = value_size (live_mode live),
                target_type = value_type (live_target live),
                target_size = value_size (live_target live)\<rparr>)"

definition snapshot_has_zero_targets :: "live_snapshot \<Rightarrow> bool" where
  "snapshot_has_zero_targets snapshot =
     list_all (\<lambda>index. let (ok, target) = read_number (live_target (snapshot_fans snapshot index)) (Fin 0)
                       in ok \<and> \<not> round64 1 < \<bar>target\<bar>) fan_indices"

primrec observe_baseline_fans ::
  "live_snapshot \<Rightarrow> nat list \<Rightarrow> trial_observation \<Rightarrow> bool \<times> trial_observation" where
  "observe_baseline_fans snapshot [] observation = (True, observation)"
| "observe_baseline_fans snapshot (index # indices) observation =
     (case read_ui8_exact (live_mode (snapshot_fans snapshot index)) (obs_mode observation index) of
        (False, _) \<Rightarrow> (False, observation)
      | (True, m) \<Rightarrow>
          case read_number (live_target (snapshot_fans snapshot index))
                 (obs_target_rpm observation index) of
            (False, _) \<Rightarrow> (False, observation)
          | (True, rpm) \<Rightarrow> observe_baseline_fans snapshot indices
              (observation\<lparr>obs_mode := (obs_mode observation)(index := m),
                 obs_target_rpm := (obs_target_rpm observation)(index := rpm)\<rparr>))"

definition snapshot_is_baseline :: "live_snapshot \<Rightarrow> bool" where
  "snapshot_is_baseline snapshot =
     (case read_ui8_exact (snapshot_ftst snapshot) 0 of
        (False, _) \<Rightarrow> False
      | (True, value) \<Rightarrow>
          case observe_baseline_fans snapshot fan_indices (zero_observation\<lparr>obs_ftst := value\<rparr>) of
            (ok, observation) \<Rightarrow> ok \<and> trial_observation_is_baseline (Some observation))"

definition restore_keys_supported :: "live_snapshot \<Rightarrow> bool" where
  "restore_keys_supported snapshot \<longleftrightarrow>
     fst (read_ui8_exact (snapshot_ftst snapshot) 0) \<and>
     list_all (\<lambda>fan. let live = snapshot_fans snapshot fan in
        fst (read_ui8_exact (live_mode live) 0) \<and>
        fst (trial_encode_rpm (Some (value_type (live_target live))) (value_size (live_target live))
               (round64 0) (Some (\<lambda>_. 0)) (Some 0))) fan_indices"

section \<open>Preflight collection\<close>

definition zero_preflight :: trial_preflight where
  "zero_preflight = \<lparr>model = None, os_version = None, fan_count = 0, ftst = 0, ftst_type = [],
     ftst_size = 0,
     fans = \<lambda>_. \<lparr>actual_rpm = Fin 0, target_rpm = Fin 0, min_rpm = Fin 0, max_rpm = Fin 0,
       fan_mode = 0, mode_type = [], mode_size = 0, target_type = [], target_size = 0\<rparr>,
     temperatures_c = \<lambda>_ _. Fin 0\<rparr>"

text \<open>The sampling loop: the preflight with the temperatures of every sample, and the last snapshot.\<close>

primrec sample_preflight ::
  "'d host \<Rightarrow> nat list \<Rightarrow> trial_preflight \<Rightarrow> live_snapshot \<Rightarrow>
   ('d process, (trial_preflight \<times> live_snapshot) option) state" where
  "sample_preflight h [] preflight last_snapshot = ret (Some (preflight, last_snapshot))"
| "sample_preflight h (index # indices) preflight last_snapshot = do {
     current \<leftarrow> read_snapshot h True True;
     case current of
       None \<Rightarrow> ret None
     | Some snapshot \<Rightarrow>
         if \<not> snapshot_is_baseline snapshot
         then do {
           say ''preflight blocked: modes 3, Ftst 0 and zero targets required in every sample'';
           ret None
         }
         else do {
           print_line (PreflightLine (index + 1)
             (map (snapshot_temperatures_c snapshot) [0..<TRIAL_TEMPERATURE_COUNT]));
           failed \<leftarrow> and_then (ret (index + 1 < TRIAL_PREFLIGHT_SAMPLES))
                              (negated (sleep_milliseconds h 2500));
           if failed then ret None
           else sample_preflight h indices
                  (preflight\<lparr>temperatures_c :=
                     (temperatures_c preflight)(index := snapshot_temperatures_c snapshot)\<rparr>)
                  snapshot
         }
   }"

primrec copy_fans :: "live_snapshot \<Rightarrow> nat list \<Rightarrow> trial_preflight \<Rightarrow> trial_preflight option" where
  "copy_fans snapshot [] preflight = Some preflight"
| "copy_fans snapshot (index # indices) preflight =
     (case copy_fan_state (snapshot_fans snapshot index) of
        None \<Rightarrow> None
      | Some fan \<Rightarrow> copy_fans snapshot indices
          (preflight\<lparr>fans := (fans preflight)(index := fan)\<rparr>))"

definition complete_preflight :: "trial_preflight \<Rightarrow> live_snapshot \<Rightarrow> trial_preflight option" where
  "complete_preflight preflight snapshot =
     (case read_ui8_exact (snapshot_ftst snapshot) 0 of
        (False, _) \<Rightarrow> None
      | (True, value) \<Rightarrow> copy_fans snapshot fan_indices
          (preflight\<lparr>fan_count := snapshot_fan_count snapshot, ftst := value,
             ftst_type := value_type (snapshot_ftst snapshot),
             ftst_size := value_size (snapshot_ftst snapshot)\<rparr>))"

definition collect_preflight ::
  "'d host \<Rightarrow> string \<Rightarrow> string \<Rightarrow> trial_plan \<Rightarrow>
   ('d process, (trial_preflight \<times> trial_plan \<times> live_snapshot) option) state" where
  "collect_preflight h model_text version_text plan = do {
     sampled \<leftarrow> sample_preflight h [0..<TRIAL_PREFLIGHT_SAMPLES]
       (zero_preflight\<lparr>model := Some model_text, os_version := Some version_text\<rparr>)
       zero_live_snapshot;
     case sampled of
       None \<Rightarrow> ret None
     | Some (preflight, last_snapshot) \<Rightarrow>
         case complete_preflight preflight last_snapshot of
           None \<Rightarrow> ret None
         | Some preflight \<Rightarrow>
             case trial_make_plan (Some preflight) (Some plan) (Some []) 200 of
               (True, Some plan, _) \<Rightarrow> ret (Some (preflight, plan, last_snapshot))
             | (_, _, error) \<Rightarrow> do { say (''preflight blocked: '' @ the error); ret None }
   }"

section \<open>The callbacks\<close>

record live_config =
  known_keys :: live_snapshot
  allowed_plan :: "trial_plan option"
  buffer_events :: bool

definition known_fan :: "live_config \<Rightarrow> nat \<Rightarrow> fan_live" where
  "known_fan cfg fan = snapshot_fans (known_keys cfg) fan"

definition BUFFERED_WRITES :: nat where "BUFFERED_WRITES = 64"
definition BUFFERED_OBSERVATIONS :: nat where "BUFFERED_OBSERVATIONS = 512"

definition buffer_write ::
  "'d host \<Rightarrow> live_config \<Rightarrow> string \<Rightarrow> double \<Rightarrow> bool \<Rightarrow> bool \<Rightarrow> ('d process, unit) state" where
  "buffer_write h cfg key value ok attempted = do {
     count \<leftarrow> State (\<lambda>s. (length (write_buffer s), s));
     if \<not> buffer_events cfg \<or> BUFFERED_WRITES \<le> count then ret ()
     else do {
       now \<leftarrow> live_seconds h;
       State (\<lambda>s. ((), s\<lparr>write_buffer := write_buffer s @
         [\<lparr>event_key = key, event_time = now, event_value = value, event_ok = ok,
           event_attempted = attempted, event_kernel = kernel_status s,
           event_smc = smc_status s\<rparr>]\<rparr>))
     }
   }"

definition backend_write_mode :: "'d host \<Rightarrow> live_config \<Rightarrow> nat \<Rightarrow> u8 \<Rightarrow> ('d process, bool) state" where
  "backend_write_mode h cfg fan m =
     (if TRIAL_FAN_COUNT \<le> fan \<or> (m \<noteq> 0 \<and> m \<noteq> 1) then ret False
      else do {
        (ok, attempted) \<leftarrow> write_key_exact h (mode_key (known_fan cfg fan)) ''ui8 '' 1 (\<lambda>_. m) 1
           (\<not> buffer_events cfg);
        buffer_write h cfg (mode_key (known_fan cfg fan)) (double_of_int (uint m)) ok attempted;
        ret ok
      })"

definition backend_write_target ::
  "'d host \<Rightarrow> live_config \<Rightarrow> nat \<Rightarrow> double \<Rightarrow> ('d process, bool) state" where
  "backend_write_target h cfg fan rpm =
     (if \<not> trial_target_write_allowed (allowed_plan cfg) fan rpm then ret False
      else let known = known_fan cfg fan
           in case trial_encode_rpm (Some (value_type (live_target known)))
                     (value_size (live_target known)) rpm (Some (\<lambda>_. 0)) (Some 0) of
                (True, Some encoded, Some encoded_size) \<Rightarrow> do {
                  (ok, attempted) \<leftarrow> write_key_exact h (target_key known)
                     (value_type (live_target known)) (value_size (live_target known)) encoded
                     encoded_size (\<not> buffer_events cfg);
                  buffer_write h cfg (target_key known) rpm ok attempted;
                  ret ok
                }
              | _ \<Rightarrow> ret False)"

definition backend_write_ftst :: "'d host \<Rightarrow> live_config \<Rightarrow> u8 \<Rightarrow> ('d process, bool) state" where
  "backend_write_ftst h cfg v =
     (if v \<noteq> 0 \<and> v \<noteq> 1 then ret False
      else if \<not> strncmp_eq 4 (value_type (snapshot_ftst (known_keys cfg))) ''ui8 '' \<or>
              value_size (snapshot_ftst (known_keys cfg)) \<noteq> 1 then ret False
      else do {
        (ok, attempted) \<leftarrow> write_key_exact h ''Ftst'' ''ui8 '' 1 (\<lambda>_. v) 1 (\<not> buffer_events cfg);
        buffer_write h cfg ''Ftst'' (double_of_int (uint v)) ok attempted;
        ret ok
      })"

text \<open>One fan of \<open>backend_read_observation\<close>: the output parameter is filled in as far as the checks
  pass.\<close>

definition keys_unchanged :: "fan_live \<Rightarrow> fan_live \<Rightarrow> bool" where
  "keys_unchanged known live \<longleftrightarrow>
     strcmp_eq (mode_key known) (mode_key live) \<and> strcmp_eq (target_key known) (target_key live) \<and>
     strncmp_eq 4 (value_type (live_mode known)) (value_type (live_mode live)) \<and>
     value_size (live_mode known) = value_size (live_mode live) \<and>
     strncmp_eq 4 (value_type (live_target known)) (value_type (live_target live)) \<and>
     value_size (live_target known) = value_size (live_target live)"

primrec observe_fans ::
  "live_config \<Rightarrow> live_snapshot \<Rightarrow> bool \<Rightarrow> nat list \<Rightarrow> trial_observation \<Rightarrow> bool \<times> trial_observation"
where
  "observe_fans cfg current include_temperatures [] output = (True, output)"
| "observe_fans cfg current include_temperatures (fan # others) output =
     (let live = snapshot_fans current fan
      in if \<not> keys_unchanged (known_fan cfg fan) live then (False, output)
         else case read_ui8_exact (live_mode live) (obs_mode output fan) of
           (mode_ok, m) \<Rightarrow>
             let output = output\<lparr>obs_mode := (obs_mode output)(fan := m)\<rparr>
             in if \<not> mode_ok then (False, output)
                else case read_number (live_target live) (obs_target_rpm output fan) of
                  (target_ok, rpm) \<Rightarrow>
                    let output = output\<lparr>obs_target_rpm := (obs_target_rpm output)(fan := rpm)\<rparr>
                    in if \<not> target_ok then (False, output)
                       else if \<not> include_temperatures
                       then observe_fans cfg current include_temperatures others output
                       else case read_number (live_actual live) (obs_actual_rpm output fan) of
                         (actual_ok, rpm) \<Rightarrow>
                           let output = output\<lparr>obs_actual_rpm := (obs_actual_rpm output)(fan := rpm)\<rparr>
                           in if \<not> actual_ok then (False, output)
                              else observe_fans cfg current include_temperatures others output)"

definition backend_read_observation ::
  "'d host \<Rightarrow> live_config \<Rightarrow> bool \<Rightarrow> trial_observation \<Rightarrow>
   ('d process, bool \<times> trial_observation) state" where
  "backend_read_observation h cfg include_temperatures output = do {
     snapshot \<leftarrow> read_snapshot h include_temperatures (\<not> buffer_events cfg);
     ret (case snapshot of
            None \<Rightarrow> (False, output)
          | Some current \<Rightarrow>
              case read_ui8_exact (snapshot_ftst current) (obs_ftst output) of
                (ftst_ok, v) \<Rightarrow>
                  let output = output\<lparr>obs_ftst := v\<rparr>
                  in if \<not> ftst_ok then (False, output)
                     else case observe_fans cfg current include_temperatures fan_indices output of
                       (fans_ok, output) \<Rightarrow>
                         if \<not> fans_ok then (False, output)
                         else (True, output\<lparr>
                           obs_temperatures_c := if include_temperatures
                             then snapshot_temperatures_c current else obs_temperatures_c output,
                           metrics_available := include_temperatures\<rparr>))
   }"

definition record_line :: "nat \<Rightarrow> double \<Rightarrow> trial_observation \<Rightarrow> live_line" where
  "record_line second now observation =
     ObserveLine now second (map (obs_mode observation) fan_indices) (obs_ftst observation)
       (if metrics_available observation then Some (map (obs_actual_rpm observation) fan_indices)
        else None)
       (map (obs_target_rpm observation) fan_indices)
       (if metrics_available observation
        then Some (map (obs_temperatures_c observation) [0..<TRIAL_TEMPERATURE_COUNT]) else None)"

definition backend_record ::
  "'d host \<Rightarrow> live_config \<Rightarrow> nat \<Rightarrow> trial_observation \<Rightarrow> ('d process, unit) state" where
  "backend_record h cfg second observation = do {
     now \<leftarrow> live_seconds h;
     if buffer_events cfg
     then State (\<lambda>s. ((), if length (observation_buffer s) < BUFFERED_OBSERVATIONS
            then s\<lparr>observation_buffer := observation_buffer s @
              [\<lparr>sample_second = second, sample_clock = now, sampled_observation = observation\<rparr>]\<rparr>
            else s\<lparr>observation_overflow := True\<rparr>))
     else print_line (record_line second now observation)
   }"

definition live_backend :: "'d host \<Rightarrow> live_config \<Rightarrow> 'd process trial_backend" where
  "live_backend h cfg =
     \<lparr>write_mode = Some (backend_write_mode h cfg),
      write_target = Some (backend_write_target h cfg),
      write_ftst = Some (backend_write_ftst h cfg),
      read_observation = Some (backend_read_observation h cfg),
      wait_milliseconds = Some (sleep_milliseconds_uninterruptible h),
      monotonic_seconds = Some (live_seconds h),
      should_stop = Some (read_interrupted h),
      record_observation = Some (backend_record h cfg),
      observed_fan_state_change = False\<rparr>"

section \<open>The buffered events\<close>

definition write_line :: "write_event \<Rightarrow> live_line" where
  "write_line e = WriteLine (event_time e) (event_key e) (event_value e) (event_ok e)
     (if event_attempted e then Some (event_kernel e, event_smc e) else None)"

definition observe_line :: "observation_event \<Rightarrow> live_line" where
  "observe_line e = record_line (sample_second e) (sample_clock e) (sampled_observation e)"

text \<open>\<open>print_buffered_events\<close> merges the two buffers by time.\<close>

function merge_events :: "write_event list \<Rightarrow> observation_event list \<Rightarrow> live_line list" where
  "merge_events writes observations =
     (if writes = [] \<and> observations = [] then []
      else if observations \<noteq> [] \<and>
              (writes = [] \<or> sample_clock (hd observations) < event_time (hd writes))
      then observe_line (hd observations) # merge_events writes (tl observations)
      else write_line (hd writes) # merge_events (tl writes) observations)"
  by pat_completeness auto

termination merge_events
  by (relation "measure (\<lambda>(writes, observations). length writes + length observations)")
     (auto simp: neq_Nil_conv)

declare merge_events.simps [simp del]

primrec print_lines :: "live_line list \<Rightarrow> ('d process, unit) state" where
  "print_lines [] = ret ()"
| "print_lines (line # lines) = do { print_line line; print_lines lines }"

definition print_buffered_events :: "('d process, unit) state" where
  "print_buffered_events = do {
     (writes, observations, overflow) \<leftarrow>
       State (\<lambda>s. ((write_buffer s, observation_buffer s, observation_overflow s), s));
     print_lines (merge_events writes observations);
     (if overflow then print_line OverflowLine else ret ())
   }"

text \<open>The initialiser of a local \<open>LiveBackend\<close>: empty event buffers.\<close>

definition fresh_buffers :: "('d process, unit) state" where
  "fresh_buffers = State (\<lambda>s. ((), s\<lparr>write_buffer := [], observation_buffer := [],
     observation_overflow := False\<rparr>))"

section \<open>The calls as requests\<close>

text \<open>The write requests that carry out a write of the trial procedures.\<close>

fun carries_out :: "live_config \<Rightarrow> event \<Rightarrow> smc_key_data \<Rightarrow> bool" where
  "carries_out cfg (WriteMode fan m ok) r \<longleftrightarrow>
     fan < 2 \<and> (m = 0 \<or> m = 1) \<and> r = write_request (mode_key (known_fan cfg fan)) 1 (\<lambda>_. m) 1"
| "carries_out cfg (WriteTarget fan rpm ok) r \<longleftrightarrow>
     trial_target_write_allowed (allowed_plan cfg) fan rpm \<and>
     (\<exists>encoded n. trial_encode_rpm (Some (value_type (live_target (known_fan cfg fan))))
          (value_size (live_target (known_fan cfg fan))) rpm (Some (\<lambda>_. 0)) (Some 0) =
            (True, Some encoded, Some n) \<and>
        r = write_request (target_key (known_fan cfg fan))
              (value_size (live_target (known_fan cfg fan))) encoded n)"
| "carries_out cfg (WriteFtst v ok) r \<longleftrightarrow>
     (v = 0 \<or> v = 1) \<and> r = write_request ''Ftst'' 1 (\<lambda>_. v) 1"
| "carries_out cfg e r \<longleftrightarrow> False"

definition asked :: "live_config \<Rightarrow> (event \<Rightarrow> bool) \<Rightarrow> smc_key_data \<Rightarrow> bool" where
  "asked cfg W r \<longleftrightarrow> (\<exists>e. W e \<and> carries_out cfg e r)"

context process_trace
begin

lemma wire_buffer [wire_intros]: "emits tr P (buffer_write h cfg key v ok attempted)"
  unfolding buffer_write_def
  by (intro wire_intros emits_intros wire_silent) simp_all

lemma wire_observation [wire_intros]:
  "emits tr P (backend_read_observation h cfg metrics output)"
  unfolding backend_read_observation_def by (intro wire_intros emits_intros)

lemma wire_record [wire_intros]: "emits tr P (backend_record h cfg second obs)"
  unfolding backend_record_def by (intro wire_intros emits_intros wire_silent) simp_all

lemma wire_fresh [wire_intros]: "emits tr P fresh_buffers"
  unfolding fresh_buffers_def by (rule wire_silent) simp

lemma wire_buffered [wire_intros]: "emits tr P print_buffered_events"
proof -
  have "emits tr P (print_lines lines)" for lines
    by (induction lines) (auto intro!: wire_intros emits_intros)
  then show ?thesis
    unfolding print_buffered_events_def
    by (intro wire_intros emits_intros wire_silent) simp
qed

lemma wire_preflight [wire_intros]:
  "emits tr P (collect_preflight h model_text version_text plan)"
proof -
  have "emits tr P (sample_preflight h indices preflight last_snapshot)"
    for indices preflight last_snapshot
    by (induction indices arbitrary: preflight last_snapshot) (auto intro!: wire_intros emits_intros)
  then show ?thesis unfolding collect_preflight_def by (intro wire_intros emits_intros)
qed

end

lemma wire_mode:
  assumes "\<And>r. W (WriteMode fan m r)"
  shows "emits live_log (on_wire (asked cfg W)) (backend_write_mode h cfg fan m)"
  unfolding backend_write_mode_def
proof (intro wire_intros emits_intros)
  assume "\<not> (TRIAL_FAN_COUNT \<le> fan \<or> m \<noteq> 0 \<and> m \<noteq> 1)"
  then have "carries_out cfg (WriteMode fan m True)
      (write_request (mode_key (known_fan cfg fan)) 1 (\<lambda>_. m) 1)" by auto
  then show "asked cfg W (write_request (mode_key (known_fan cfg fan)) 1 (\<lambda>_. m) 1)"
    using assms[of True] unfolding asked_def by blast
qed

lemma wire_target:
  assumes "\<And>r. W (WriteTarget fan rpm r)"
  shows "emits live_log (on_wire (asked cfg W)) (backend_write_target h cfg fan rpm)"
  unfolding backend_write_target_def Let_def
proof (intro wire_intros emits_intros)
  fix ok p out size encoded encoded_size
  assume "\<not> \<not> trial_target_write_allowed (allowed_plan cfg) fan rpm"
    "trial_encode_rpm (Some (value_type (live_target (known_fan cfg fan))))
       (value_size (live_target (known_fan cfg fan))) rpm (Some (\<lambda>_. 0)) (Some 0) = (ok, p)"
    "ok" "p = (out, size)" "out = Some encoded" "size = Some encoded_size"
  then have "carries_out cfg (WriteTarget fan rpm True) (write_request (target_key (known_fan cfg fan))
      (value_size (live_target (known_fan cfg fan))) encoded encoded_size)" by simp
  then show "asked cfg W (write_request (target_key (known_fan cfg fan))
      (value_size (live_target (known_fan cfg fan))) encoded encoded_size)"
    using assms[of True] unfolding asked_def by blast
qed

lemma wire_ftst:
  assumes "\<And>r. W (WriteFtst v r)"
  shows "emits live_log (on_wire (asked cfg W)) (backend_write_ftst h cfg v)"
  unfolding backend_write_ftst_def
proof (intro wire_intros emits_intros)
  assume "\<not> (v \<noteq> 0 \<and> v \<noteq> 1)"
  then have "carries_out cfg (WriteFtst v True) (write_request ''Ftst'' 1 (\<lambda>_. v) 1)" by auto
  then show "asked cfg W (write_request ''Ftst'' 1 (\<lambda>_. v) 1)"
    using assms[of True] unfolding asked_def by blast
qed

text \<open>The trace of a world is the log of its context.\<close>

abbreviation wire_log :: "'d process world \<Rightarrow> live_event list" where
  "wire_log w \<equiv> live_log (context_of w)"

lemma wire_log_context: "emits live_log P m \<Longrightarrow> emits wire_log P (in_context m)"
  unfolding emits_def by (simp add: run_in_context split_def)

lemma wire_log_note: "emits wire_log P (note_event x)"
  by (simp add: note_event_def emits_silent)

lemma wire_log_call:
  assumes "p = Some m" "emits live_log P m"
  shows "emits wire_log P (call p d e)"
  using assms by (auto simp: call_def intro!: emits_intros wire_log_context wire_log_note)

lemma wire_log_record:
  assumes "\<And>f. record_observation b = Some f \<Longrightarrow> emits live_log P (f second obs)"
  shows "emits wire_log P (call_record b second obs)"
  using assms by (auto simp: call_record_def intro!: emits_intros wire_log_context wire_log_note)

text \<open>The contract of the calls, for the live backend: what reaches the controller are reads, and
  the requests that carry out the writes \<open>W\<close>.\<close>

interpretation wire: call_trace wire_log "on_wire (asked cfg W)"
  "\<lambda>b. \<exists>tracked. b = (live_backend h cfg)\<lparr>observed_fan_state_change := tracked\<rparr>" W for h cfg W
proof unfold_locales
  fix b :: "'a process trial_backend" and fan m t v
  assume b: "\<exists>tracked. b = (live_backend h cfg)\<lparr>observed_fan_state_change := tracked\<rparr>"
  show "emits wire_log (on_wire (asked cfg W)) (call_write_mode b fan m)"
    if "\<And>r. W (WriteMode fan m r)"
    using b that by (auto simp: call_write_mode_def live_backend_def intro!: wire_log_call wire_mode)
  show "emits wire_log (on_wire (asked cfg W)) (call_write_target b fan t)"
    if "\<And>r. W (WriteTarget fan t r)"
    using b that by (auto simp: call_write_target_def live_backend_def intro!: wire_log_call wire_target)
  show "emits wire_log (on_wire (asked cfg W)) (call_write_ftst b v)"
    if "\<And>r. W (WriteFtst v r)"
    using b that by (auto simp: call_write_ftst_def live_backend_def intro!: wire_log_call wire_ftst)
qed (auto simp: call_read_def call_wait_def call_now_def call_should_stop_def live_backend_def
       intro!: wire_log_call wire_log_record wire_intros)

end
