(* ===== verification/TrialProgram.thy ===== *)
theory TrialProgram
  imports LiveBackend
begin

text \<open>
  The commands of \<open>prototype/smc-write-trial/smc-write-trial.c\<close> and its \<open>main\<close>: argument checks,
  prompts, the baseline observer, the six commands, and their exit codes. A trial procedure runs in
  the process through \<open>in_trial\<close>, which hands it the process as its context and keeps the trace of its
  calls in the ghost log \<open>trial_events\<close>; the baseline observer adds its own calls to that log.
\<close>

definition EXIT_SUCCESS :: nat where "EXIT_SUCCESS = 0"
definition EXIT_FAILURE :: nat where "EXIT_FAILURE = 1"
definition TRIAL_EXIT_NO_WRITE :: nat where "TRIAL_EXIT_NO_WRITE = 2"

definition note_trial :: "event \<Rightarrow> ('d process, unit) state" where
  "note_trial e = State (\<lambda>s. ((), s\<lparr>trial_events := e # trial_events s\<rparr>))"

definition in_trial :: "('d process world, 'r) state \<Rightarrow> ('d process, 'r) state" where
  "in_trial m = State (\<lambda>s.
     case run_state m \<lparr>context_of = s, fan_state_change = False, events = trial_events s\<rparr> of
       (r, w) \<Rightarrow> (r, (context_of w)\<lparr>trial_events := calls w\<rparr>))"

section \<open>The plan, the prompts and the signal handlers\<close>

primrec print_fans ::
  "live_snapshot \<Rightarrow> trial_plan option \<Rightarrow> nat list \<Rightarrow> ('d process, unit) state" where
  "print_fans snapshot plan [] = ret ()"
| "print_fans snapshot plan (index # indices) = do {
     (case copy_fan_state (snapshot_fans snapshot index) of
        Some st \<Rightarrow> print_line (PlanFanLine index (mode_key (snapshot_fans snapshot index)) st
          (map_option (\<lambda>p. plan_target p index) plan))
      | None \<Rightarrow>
          let (mode_ok, m) = read_ui8_exact (live_mode (snapshot_fans snapshot index)) 0;
              (target_ok, rpm) = read_number (live_target (snapshot_fans snapshot index)) (Fin 0)
          in if \<not> mode_ok \<or> \<not> target_ok then ret ()
             else print_line (PlanTargetLine index (mode_key (snapshot_fans snapshot index)) m rpm
               (value_type (live_target (snapshot_fans snapshot index)))
               (value_size (live_target (snapshot_fans snapshot index)))));
     print_fans snapshot plan indices
   }"

definition print_plan ::
  "string \<Rightarrow> string \<Rightarrow> string \<Rightarrow> live_snapshot \<Rightarrow> trial_plan option \<Rightarrow> ('d process, unit) state" where
  "print_plan operation model_text version_text snapshot plan = do {
     print_line (PlanLine operation model_text version_text (snapshot_fan_count snapshot)
       (snd (read_ui8_exact (snapshot_ftst snapshot) 0)));
     print_fans snapshot plan fan_indices
   }"

definition confirmed_on_tty ::
  "'d host \<Rightarrow> string \<Rightarrow> string \<Rightarrow> string \<Rightarrow> string \<Rightarrow> ('d process, bool) state" where
  "confirmed_on_tty h program recovery tty_message phrase = do {
     print_line (PromptLine program recovery phrase);
     tty \<leftarrow> in_host (stdin_is_tty h);
     if \<not> tty then do { say tty_message; ret False }
     else do {
       line \<leftarrow> in_host (read_line h 80);
       ret (case line of
              None \<Rightarrow> False
            | Some text \<Rightarrow>
                strcmp_eq (takeWhile (\<lambda>c. c \<noteq> CHR 0x0D \<and> c \<noteq> CHR 0x0A) text) phrase)
     }
   }"

definition prompt_for_direct_trial :: "'d host \<Rightarrow> string \<Rightarrow> ('d process, bool) state" where
  "prompt_for_direct_trial h program =
     confirmed_on_tty h program ''restore --apply --confirm RESTORE-Mac15,7-27.0''
       ''trial apply requires an interactive TTY'' ''APPLY DIRECT TRIAL''"

definition prompt_for_ftst_check :: "'d host \<Rightarrow> string \<Rightarrow> ('d process, bool) state" where
  "prompt_for_ftst_check h program =
     confirmed_on_tty h program ''restore-unlock --apply --confirm RESTORE-UNLOCK-Mac15,7-27.0''
       ''ftst-check apply requires an interactive TTY'' ''APPLY FTST CHECK''"

definition prompt_for_ftst_minimum :: "'d host \<Rightarrow> string \<Rightarrow> ('d process, bool) state" where
  "prompt_for_ftst_minimum h program =
     confirmed_on_tty h program ''restore-unlock --apply --confirm RESTORE-UNLOCK-Mac15,7-27.0''
       ''ftst-minimum apply requires an interactive TTY'' ''APPLY FTST MINIMUM RECOVERY''"

primrec install_handlers :: "'d host \<Rightarrow> string list \<Rightarrow> ('d process, bool) state" where
  "install_handlers h [] = ret True"
| "install_handlers h (signal # signals) = do {
     ok \<leftarrow> in_host (sigaction h signal);
     if \<not> ok then ret False
     else do {
       State (\<lambda>s. ((), s\<lparr>handled_signals := signal # handled_signals s\<rparr>));
       install_handlers h signals
     }
   }"

definition install_signal_handlers :: "'d host \<Rightarrow> ('d process, bool) state" where
  "install_signal_handlers h =
     install_handlers h [''SIGINT'', ''SIGTERM'', ''SIGQUIT'', ''SIGALRM'']"

section \<open>The baseline observer\<close>

primrec observer_fans ::
  "live_snapshot \<Rightarrow> nat list \<Rightarrow> trial_observation \<Rightarrow> bool \<times> trial_observation" where
  "observer_fans snapshot [] observation = (True, observation)"
| "observer_fans snapshot (fan # others) observation =
     (case read_ui8_exact (live_mode (snapshot_fans snapshot fan)) (obs_mode observation fan) of
        (mode_ok, m) \<Rightarrow>
          let observation = observation\<lparr>obs_mode := (obs_mode observation)(fan := m)\<rparr>
          in if \<not> mode_ok then (False, observation)
             else case read_number (live_actual (snapshot_fans snapshot fan))
                         (obs_actual_rpm observation fan) of
               (actual_ok, rpm) \<Rightarrow>
                 let observation = observation\<lparr>obs_actual_rpm := (obs_actual_rpm observation)(fan := rpm)\<rparr>
                 in if \<not> actual_ok then (False, observation)
                    else case read_number (live_target (snapshot_fans snapshot fan))
                                (obs_target_rpm observation fan) of
                      (target_ok, rpm) \<Rightarrow>
                        let observation =
                              observation\<lparr>obs_target_rpm := (obs_target_rpm observation)(fan := rpm)\<rparr>
                        in if \<not> target_ok then (False, observation)
                           else observer_fans snapshot others observation)"

definition observer_output :: "live_snapshot option \<Rightarrow> trial_observation \<Rightarrow> bool \<times> trial_observation"
where
  "observer_output current observation =
     (case current of
        None \<Rightarrow> (False, observation)
      | Some snapshot \<Rightarrow>
          case read_ui8_exact (snapshot_ftst snapshot) (obs_ftst observation) of
            (ftst_ok, v) \<Rightarrow>
              let observation = observation\<lparr>obs_ftst := v\<rparr>
              in if \<not> ftst_ok then (False, observation)
                 else case observer_fans snapshot fan_indices observation of
                   (fans_ok, observation) \<Rightarrow>
                     if \<not> fans_ok then (False, observation)
                     else (True, observation\<lparr>obs_temperatures_c := snapshot_temperatures_c snapshot,
                             metrics_available := True\<rparr>))"

definition baseline_observer_read ::
  "'d host \<Rightarrow> trial_observation \<Rightarrow> ('d process, bool \<times> trial_observation) state" where
  "baseline_observer_read h observation = do {
     current \<leftarrow> read_snapshot h True True;
     let (ok, observation) = observer_output current observation
     in do {
       (if ok
        then do { now \<leftarrow> live_seconds h; State (\<lambda>s. ((), s\<lparr>sample_time := now\<rparr>)) }
        else ret ());
       note_trial (Read True ok observation);
       ret (ok, observation)
     }
   }"

definition baseline_observer_wait :: "'d host \<Rightarrow> nat \<Rightarrow> ('d process, bool) state" where
  "baseline_observer_wait h milliseconds = do {
     ok \<leftarrow> sleep_milliseconds h milliseconds;
     note_trial (Wait milliseconds ok);
     ret ok
   }"

definition baseline_observer_stopped :: "'d host \<Rightarrow> ('d process, bool) state" where
  "baseline_observer_stopped h = do {
     stop \<leftarrow> read_interrupted h;
     note_trial (ShouldStop stop);
     ret stop
   }"

definition backend_now :: "'d host \<Rightarrow> ('d process, double) state" where
  "backend_now h = do { now \<leftarrow> live_seconds h; note_trial (Now now); ret now }"

definition baseline_observer_record ::
  "nat \<Rightarrow> trial_observation \<Rightarrow> ('d process, unit) state" where
  "baseline_observer_record second observation = do {
     time \<leftarrow> State (\<lambda>s. (sample_time s, s));
     print_line (BaselineLine time second observation
       (trial_observation_is_baseline (Some observation)));
     note_trial (Recorded second observation)
   }"

definition live_observer :: "'d host \<Rightarrow> 'd process baseline_observer" where
  "live_observer h =
     \<lparr>ob_read = Some (baseline_observer_read h), ob_wait = Some (baseline_observer_wait h),
      ob_stop = Some (baseline_observer_stopped h), ob_now = Some (backend_now h),
      ob_record = Some baseline_observer_record\<rparr>"

definition OBSERVE_BASELINE_SECONDS :: u32 where "OBSERVE_BASELINE_SECONDS = 60"

definition alert_reason :: "baseline_status \<Rightarrow> string" where
  "alert_reason st =
     (if st = TRIAL_BASELINE_CHANGED then ''baseline_changed''
      else if st = TRIAL_BASELINE_READ_FAILED then ''read_failed''
      else if st = TRIAL_BASELINE_WAIT_FAILED then ''wait_failed''
      else if st = TRIAL_BASELINE_INTERRUPTED then ''interrupted''
      else if st = TRIAL_BASELINE_TIMING_FAILED then ''timing_failed''
      else ''internal_error'')"

definition run_observe_baseline :: "'d host \<Rightarrow> ('d process, nat) state" where
  "run_observe_baseline h = do {
     environment \<leftarrow> exact_environment h;
     case environment of
       None \<Rightarrow> ret EXIT_FAILURE
     | Some _ \<Rightarrow> do {
         installed \<leftarrow> install_signal_handlers h;
         if \<not> installed
         then do { say ''cannot install signal handlers for read-only observer''; ret EXIT_FAILURE }
         else do {
           result \<leftarrow> trial_observe_baseline_window (Some (live_observer h)) OBSERVE_BASELINE_SECONDS;
           if status result = TRIAL_BASELINE_STABLE
           then do { print_line (CompleteLine (result_samples result)); ret EXIT_SUCCESS }
           else do {
             print_line (AlertLine (result_second result) (alert_reason (status result)));
             ret EXIT_FAILURE
           }
         }
       }
   }"

section \<open>The commands\<close>

definition zero_plan :: trial_plan where
  "zero_plan = \<lparr>plan_target = \<lambda>_. Fin 0\<rparr>"

definition run_trial :: "'d host \<Rightarrow> string \<Rightarrow> bool \<Rightarrow> ('d process, nat) state" where
  "run_trial h program apply_it = do {
     environment \<leftarrow> exact_environment h;
     case environment of
       None \<Rightarrow> ret EXIT_FAILURE
     | Some (model_text, version_text) \<Rightarrow> do {
         collected \<leftarrow> collect_preflight h model_text version_text zero_plan;
         case collected of
           None \<Rightarrow> ret EXIT_FAILURE
         | Some (preflight, plan, known) \<Rightarrow> do {
             print_plan (if apply_it then ''trial-apply'' else ''trial-dry-run'') model_text version_text
               known (Some plan);
             if \<not> apply_it
             then do { say ''dry-run complete: no SMC writes were attempted''; ret EXIT_SUCCESS }
             else do {
               uid \<leftarrow> in_host (effective_uid h);
               if uid \<noteq> 0 then do { say ''trial --apply requires root''; ret EXIT_FAILURE }
               else do {
                 agreed \<leftarrow> prompt_for_direct_trial h program;
                 if \<not> agreed
                 then do { say ''confirmation did not match''; ret EXIT_FAILURE }
                 else do {
                   installed \<leftarrow> install_signal_handlers h;
                   if \<not> installed
                   then do { say ''cannot install signal handlers''; ret EXIT_FAILURE }
                   else do {
                     say ''confirmation accepted; repeating preflight before any SMC write'';
                     repeated \<leftarrow> collect_preflight h model_text version_text plan;
                     case repeated of
                       None \<Rightarrow> do { say ''post-confirmation preflight failed''; ret EXIT_FAILURE }
                     | Some (preflight, plan, known) \<Rightarrow> do {
                         print_plan ''trial-final'' model_text version_text known (Some plan);
                         fresh_buffers;
                         run_status \<leftarrow> in_trial (trial_execute_direct
                           (Some (live_backend h \<lparr>known_keys = known, allowed_plan = Some plan,
                              buffer_events = False\<rparr>))
                           (Some plan) (Some (\<lambda>fan. actual_rpm (fans preflight fan))));
                         if run_status = TRIAL_RUN_RESTORE_FAILED
                         then do { say ''CRITICAL: automatic restore was not verified''; ret EXIT_FAILURE }
                         else if run_status = TRIAL_RUN_WRITE_EFFECT_UNVERIFIED
                         then do { say ''CRITICAL: direct write effect was not verified''; ret EXIT_FAILURE }
                         else if run_status = TRIAL_RUN_CONTROL_FAILED_SYSTEM_VERIFIED
                         then do { say ''direct trial failed or was interrupted''; ret EXIT_FAILURE }
                         else do { say ''direct trial succeeded''; ret EXIT_SUCCESS }
                       }
                   }
                 }
               }
             }
           }
       }
   }"

definition run_restore :: "'d host \<Rightarrow> bool \<Rightarrow> ('d process, nat) state" where
  "run_restore h apply_it = do {
     environment \<leftarrow> exact_environment h;
     case environment of
       None \<Rightarrow> ret EXIT_FAILURE
     | Some (model_text, version_text) \<Rightarrow> do {
         snapshot \<leftarrow> read_snapshot h False True;
         case snapshot of
           None \<Rightarrow> ret EXIT_FAILURE
         | Some current \<Rightarrow>
             case read_ui8_exact (snapshot_ftst current) 0 of
               (False, _) \<Rightarrow> do { say ''restore blocked: Ftst is not ui8''; ret EXIT_FAILURE }
             | (True, ftst_value) \<Rightarrow>
                 if \<not> restore_keys_supported current
                 then do {
                   say ''restore blocked: fixed mode/target key types are unsupported'';
                   ret EXIT_FAILURE
                 }
                 else do {
                   print_plan (if apply_it then ''restore-apply'' else ''restore-dry-run'')
                     model_text version_text current None;
                   if \<not> apply_it
                   then do {
                     say ''dry-run complete: restore would write mode 0 and target 0 for F0/F1 only'';
                     ret EXIT_SUCCESS
                   }
                   else do {
                     uid \<leftarrow> in_host (effective_uid h);
                     if uid \<noteq> 0
                     then do { say ''restore --apply requires root''; ret EXIT_FAILURE }
                     else do {
                       (if ftst_value \<noteq> 0 then say ''Ftst is not zero'' else ret ());
                       fresh_buffers;
                       restored \<leftarrow> in_trial (trial_restore_system
                         (Some (live_backend h \<lparr>known_keys = current, allowed_plan = None,
                            buffer_events = False\<rparr>)));
                       if \<not> restored
                       then do { say ''CRITICAL: restore was not verified''; ret EXIT_FAILURE }
                       else do {
                         observed \<leftarrow> run_observe_baseline h;
                         if observed \<noteq> EXIT_SUCCESS
                         then do {
                           say ''CRITICAL: restore did not remain at system baseline'';
                           ret EXIT_FAILURE
                         }
                         else do {
                           say ''system mode and zero targets observed for 60 seconds'';
                           ret EXIT_SUCCESS
                         }
                       }
                     }
                   }
                 }
       }
   }"

text \<open>The callback pointer is there in every backend this is called with.\<close>

definition print_ftst_readback ::
  "'d host \<Rightarrow> 'd process trial_backend \<Rightarrow> string \<Rightarrow> ('d process, unit) state" where
  "print_ftst_readback h b event_name = do {
     (read_ok, observation) \<leftarrow> in_trial (call_read b False zero_observation);
     time \<leftarrow> live_seconds h;
     print_line (ReadbackLine event_name time
       (if read_ok
        then Some (map (obs_mode observation) fan_indices, obs_ftst observation,
                   map (obs_target_rpm observation) fan_indices)
        else None))
   }"

text \<open>The end of the two Ftst trials: the buffered events and a readback, then the exit code.\<close>

definition failed_report ::
  "'d host \<Rightarrow> 'd process trial_backend \<Rightarrow> string \<Rightarrow> ('d process, nat) state" where
  "failed_report h b message = do {
     say message;
     print_buffered_events;
     print_ftst_readback h b ''post_failure'';
     ret EXIT_FAILURE
   }"

definition checked_preflight :: "'d host \<Rightarrow> string \<Rightarrow> string \<Rightarrow> trial_plan \<Rightarrow>
   ('d process, (trial_preflight \<times> trial_plan \<times> live_snapshot) option) state" where
  "checked_preflight h model_text version_text plan = do {
     collected \<leftarrow> collect_preflight h model_text version_text plan;
     ret (case collected of
            None \<Rightarrow> None
          | Some (preflight, plan, known) \<Rightarrow>
              if \<not> snapshot_has_zero_targets known then None else Some (preflight, plan, known))
   }"

definition refused :: "bool \<Rightarrow> nat" where
  "refused apply_it = (if apply_it then TRIAL_EXIT_NO_WRITE else EXIT_FAILURE)"

definition run_ftst_check :: "'d host \<Rightarrow> string \<Rightarrow> bool \<Rightarrow> ('d process, nat) state" where
  "run_ftst_check h program apply_it = do {
     environment \<leftarrow> exact_environment h;
     case environment of
       None \<Rightarrow> ret (refused apply_it)
     | Some (model_text, version_text) \<Rightarrow> do {
         collected \<leftarrow> checked_preflight h model_text version_text zero_plan;
         case collected of
           None \<Rightarrow> do {
             say ''ftst-check blocked: preflight or zero-target baseline failed'';
             ret (refused apply_it)
           }
         | Some (preflight, plan, known) \<Rightarrow> do {
             print_plan (if apply_it then ''ftst-check-apply'' else ''ftst-check-dry-run'')
               model_text version_text known None;
             if \<not> apply_it
             then do { say ''dry-run complete: no SMC writes were attempted''; ret EXIT_SUCCESS }
             else do {
               uid \<leftarrow> in_host (effective_uid h);
               if uid \<noteq> 0 then do { say ''ftst-check --apply requires root''; ret TRIAL_EXIT_NO_WRITE }
               else do {
                 agreed \<leftarrow> prompt_for_ftst_check h program;
                 if \<not> agreed
                 then do { say ''confirmation did not match''; ret TRIAL_EXIT_NO_WRITE }
                 else do {
                   installed \<leftarrow> install_signal_handlers h;
                   if \<not> installed
                   then do { say ''cannot install signal handlers''; ret TRIAL_EXIT_NO_WRITE }
                   else do {
                     say ''confirmation accepted; repeating preflight before any SMC write'';
                     repeated \<leftarrow> checked_preflight h model_text version_text plan;
                     case repeated of
                       None \<Rightarrow> do { say ''post-confirmation preflight failed''; ret TRIAL_EXIT_NO_WRITE }
                     | Some (preflight, plan, known) \<Rightarrow> do {
                         print_plan ''ftst-check-final'' model_text version_text known None;
                         fresh_buffers;
                         let b = live_backend h \<lparr>known_keys = known, allowed_plan = None,
                                   buffer_events = True\<rparr>
                         in do {
                           run_status \<leftarrow> in_trial (trial_check_ftst (Some b));
                           if run_status = TRIAL_RUN_RESTORE_FAILED
                           then failed_report h b ''CRITICAL: Ftst/system baseline was not verified''
                           else if run_status = TRIAL_RUN_WRITE_EFFECT_UNVERIFIED
                           then failed_report h b ''CRITICAL: Ftst write effect was not observed''
                           else do {
                             print_buffered_events;
                             print_ftst_readback h b ''final'';
                             if run_status = TRIAL_RUN_BASELINE_REJECTED
                             then do {
                               say ''ftst-check blocked: baseline not verified before write'';
                               ret TRIAL_EXIT_NO_WRITE
                             }
                             else if run_status = TRIAL_RUN_CONTROL_FAILED_SYSTEM_VERIFIED
                             then do {
                               say ''ftst-check did not meet the unchanged-fan-state criteria'';
                               ret EXIT_FAILURE
                             }
                             else do { say ''Ftst 0 to 1 to 0 confirmed''; ret EXIT_SUCCESS }
                           }
                         }
                       }
                   }
                 }
               }
             }
           }
       }
   }"

definition run_ftst_minimum :: "'d host \<Rightarrow> string \<Rightarrow> bool \<Rightarrow> ('d process, nat) state" where
  "run_ftst_minimum h program apply_it = do {
     environment \<leftarrow> exact_environment h;
     case environment of
       None \<Rightarrow> ret (refused apply_it)
     | Some (model_text, version_text) \<Rightarrow> do {
         collected \<leftarrow> checked_preflight h model_text version_text zero_plan;
         case collected of
           None \<Rightarrow> do {
             say ''ftst-minimum blocked: preflight or zero-target baseline failed'';
             ret (refused apply_it)
           }
         | Some (preflight, plan, known) \<Rightarrow> do {
             print_plan (if apply_it then ''ftst-minimum-apply'' else ''ftst-minimum-dry-run'')
               model_text version_text known None;
             if \<not> apply_it
             then do { say ''dry-run complete: no SMC writes were attempted''; ret EXIT_SUCCESS }
             else do {
               blocked \<leftarrow> or_else (do { uid \<leftarrow> in_host (effective_uid h); ret (uid \<noteq> 0) })
                           (or_else (negated (prompt_for_ftst_minimum h program))
                                    (negated (install_signal_handlers h)));
               if blocked
               then do { say ''ftst-minimum blocked before any SMC write''; ret TRIAL_EXIT_NO_WRITE }
               else do {
                 say ''confirmation accepted; repeating preflight before any SMC write'';
                 repeated \<leftarrow> checked_preflight h model_text version_text plan;
                 case repeated of
                   None \<Rightarrow> do { say ''post-confirmation preflight failed''; ret TRIAL_EXIT_NO_WRITE }
                 | Some (preflight, plan, known) \<Rightarrow> do {
                     print_plan ''ftst-minimum-final'' model_text version_text known None;
                     fresh_buffers;
                     let b = live_backend h \<lparr>known_keys = known, allowed_plan = None,
                               buffer_events = True\<rparr>
                     in do {
                       in_host (set_alarm h 180);
                       run_status \<leftarrow> in_trial (trial_rehearse_ftst_minimum_recovery (Some b)
                         (Some (\<lambda>fan. min_rpm (fans preflight fan))));
                       in_host (set_alarm h 0);
                       if run_status = TRIAL_RUN_RESTORE_FAILED \<or>
                          run_status = TRIAL_RUN_WRITE_EFFECT_UNVERIFIED
                       then failed_report h b ''CRITICAL: minimum-target recovery was not verified''
                       else do {
                         print_buffered_events;
                         print_ftst_readback h b ''final'';
                         if run_status = TRIAL_RUN_BASELINE_REJECTED
                         then do {
                           say ''ftst-minimum blocked before any SMC write'';
                           ret TRIAL_EXIT_NO_WRITE
                         }
                         else if run_status = TRIAL_RUN_CONTROL_FAILED_SYSTEM_VERIFIED
                         then do { say ''minimum-target state was not confirmed''; ret EXIT_FAILURE }
                         else do { say ''minimum-target state observed''; ret EXIT_SUCCESS }
                       }
                     }
                   }
               }
             }
           }
       }
   }"

definition run_restore_unlock :: "'d host \<Rightarrow> bool \<Rightarrow> ('d process, nat) state" where
  "run_restore_unlock h apply_it = do {
     environment \<leftarrow> exact_environment h;
     case environment of
       None \<Rightarrow> ret EXIT_FAILURE
     | Some (model_text, version_text) \<Rightarrow> do {
         snapshot \<leftarrow> read_snapshot h False True;
         case (case snapshot of
                 None \<Rightarrow> None
               | Some current \<Rightarrow> if \<not> restore_keys_supported current then None else Some current) of
           None \<Rightarrow> do {
             say ''restore-unlock blocked: keys are unreadable or unsupported'';
             ret EXIT_FAILURE
           }
         | Some current \<Rightarrow>
             case read_ui8_exact (snapshot_ftst current) 0 of
               (ftst_ok, ftst_value) \<Rightarrow>
                 if \<not> ftst_ok \<or> 1 < ftst_value
                 then do {
                   say ''restore-unlock blocked: Ftst is not expected ui8 value 0 or 1'';
                   ret EXIT_FAILURE
                 }
                 else do {
                   print_plan (if apply_it then ''restore-unlock-apply'' else ''restore-unlock-dry-run'')
                     model_text version_text current None;
                   if \<not> apply_it
                   then do {
                     say ''dry-run complete: restore-unlock would release manual modes, clear Ftst'';
                     ret EXIT_SUCCESS
                   }
                   else do {
                     uid \<leftarrow> in_host (effective_uid h);
                     if uid \<noteq> 0
                     then do { say ''restore-unlock --apply requires root''; ret EXIT_FAILURE }
                     else do {
                       fresh_buffers;
                       let b = live_backend h \<lparr>known_keys = current, allowed_plan = None,
                                 buffer_events = True\<rparr>
                       in do {
                         verified \<leftarrow> in_trial (trial_restore_unlock (Some b));
                         if \<not> verified
                         then failed_report h b
                                ''CRITICAL: restore-unlock did not verify system baseline''
                         else do {
                           print_buffered_events;
                           print_ftst_readback h b ''final'';
                           say ''local 60-second baseline verified'';
                           ret EXIT_SUCCESS
                         }
                       }
                     }
                   }
                 }
       }
   }"

section \<open>The program\<close>

definition names :: "string list \<Rightarrow> string \<Rightarrow> bool" where
  "names argv command_name \<longleftrightarrow> 2 \<le> length argv \<and> strcmp_eq (argv ! 1) command_name"

definition only_option :: "string list \<Rightarrow> string \<Rightarrow> bool" where
  "only_option argv option_name \<longleftrightarrow> length argv = 3 \<and> strcmp_eq (argv ! 2) option_name"

definition confirms :: "string list \<Rightarrow> string \<Rightarrow> string \<Rightarrow> string \<Rightarrow> bool" where
  "confirms argv command_name option_name phrase \<longleftrightarrow>
     length argv = 5 \<and> names argv command_name \<and> strcmp_eq (argv ! 2) option_name \<and>
     strcmp_eq (argv ! 3) ''--confirm'' \<and> strcmp_eq (argv ! 4) phrase"

definition apply_confirmed :: "string list \<Rightarrow> bool" where
  "apply_confirmed argv \<longleftrightarrow>
     confirms argv ''trial'' ''--apply'' ''TRIAL-Mac15,7-27.0'' \<or>
     confirms argv ''restore'' ''--apply'' ''RESTORE-Mac15,7-27.0'' \<or>
     confirms argv ''ftst-check'' ''--apply'' ''FTST-CHECK-Mac15,7-27.0'' \<or>
     confirms argv ''restore-unlock'' ''--apply'' ''RESTORE-UNLOCK-Mac15,7-27.0''"

definition trial_main :: "'d host \<Rightarrow> string list \<Rightarrow> ('d process, nat) state" where
  "trial_main h argv =
     (let trial = names argv ''trial'';
          restore = names argv ''restore'';
          ftst_check = names argv ''ftst-check'';
          ftst_minimum = names argv ''ftst-minimum'';
          restore_unlock = names argv ''restore-unlock'';
          observe_baseline = names argv ''observe-baseline'';
          dry_run = only_option argv ''--dry-run'';
          read_only = only_option argv ''--read-only'';
          apply_it = apply_confirmed argv;
          apply_reviewed = confirms argv ''ftst-check'' ''--apply-reviewed'' ''FTST-REVIEWED-Mac15,7-27.0'';
          minimum_reviewed =
            confirms argv ''ftst-minimum'' ''--apply-reviewed'' ''FTST-MINIMUM-Mac15,7-27.0''
      in if \<not> ((observe_baseline \<and> read_only) \<or>
               (\<not> observe_baseline \<and>
                (trial \<or> restore \<or> ftst_check \<or> ftst_minimum \<or> restore_unlock) \<and>
                (dry_run \<or> apply_it \<or> apply_reviewed \<or> minimum_reviewed)))
         then do { say ''Usage''; ret EXIT_FAILURE }
         else if apply_it \<and> (trial \<or> ftst_check)
         then do { say ''hardware trials suspended''; ret EXIT_FAILURE }
         else if apply_reviewed
         then do { say ''reviewed Ftst trial completed; suspended''; ret TRIAL_EXIT_NO_WRITE }
         else if minimum_reviewed
         then do { say ''reviewed minimum-target trial completed; suspended''; ret TRIAL_EXIT_NO_WRITE }
         else do {
           State (\<lambda>s. ((), s\<lparr>kernel_status := 0, smc_status := 0\<rparr>));
           opened \<leftarrow> smc_open h;
           if \<not> opened
           then ret (if apply_reviewed \<or> minimum_reviewed then TRIAL_EXIT_NO_WRITE else EXIT_FAILURE)
           else do {
             resolved \<leftarrow> in_host (real_path h (argv ! 0));
             let program = (case resolved of Some path \<Rightarrow> path | None \<Rightarrow> argv ! 0)
             in do {
               result \<leftarrow> (if observe_baseline then run_observe_baseline h
                         else if trial then run_trial h program apply_it
                         else if restore then run_restore h apply_it
                         else if ftst_check then run_ftst_check h program apply_reviewed
                         else if ftst_minimum then run_ftst_minimum h program minimum_reviewed
                         else run_restore_unlock h apply_it);
               note_live LiveClosed;
               ret result
             }
           }
         })"

section \<open>The observer keeps the contract of the window\<close>

lemma untouched:
  assumes "emits trial_events (\<lambda>_. False) m" "run_state m s = (r, s')"
  shows "trial_events s' = trial_events s"
proof -
  from assms obtain es where "trial_events s' = es @ trial_events s" "\<forall>e \<in> set es. False"
    by (rule emitsD)
  then show ?thesis by simp
qed

lemma wp_untouched:
  "emits trial_events (\<lambda>_. False) m \<Longrightarrow> (\<And>r s'. trial_events s' = trial_events s \<Longrightarrow> Q r s') \<Longrightarrow>
   wp m Q s"
  by (rule wpI) (auto dest: untouched)

lemma wp_note_trial:
  "(\<And>s'. trial_events s' = e # trial_events s \<Longrightarrow> Q () s') \<Longrightarrow> wp (note_trial e) Q s"
  by (simp add: note_trial_def wp_State)

lemma observer_callbacks_traced:
  "wp (baseline_observer_read h obs) (\<lambda>r s'. trial_events s' = Read True (fst r) (snd r) # trial_events s) s"
  "wp (baseline_observer_wait h ms) (\<lambda>r s'. trial_events s' = Wait ms r # trial_events s) s"
  "wp (baseline_observer_stopped h) (\<lambda>r s'. trial_events s' = ShouldStop r # trial_events s) s"
  "wp (backend_now h) (\<lambda>r s'. trial_events s' = Now r # trial_events s) s"
  "wp (baseline_observer_record k obs) (\<lambda>r s'. trial_events s' = Recorded k obs # trial_events s) s"
  unfolding baseline_observer_read_def baseline_observer_wait_def baseline_observer_stopped_def
    backend_now_def baseline_observer_record_def Let_def
  by (intro wp_intros wp_note_trial wp_untouched[OF untried.wire_snapshot]
        wp_untouched[OF untried.wire_sleeps(1)] wp_untouched[OF untried.wire_interrupted]
        wp_untouched[OF untried.wire_seconds] wp_untouched[OF untried.wire_print]
        wp_State[THEN iffD2]; simp split: prod.splits)+

interpretation live_source: baseline_source "live_observer h" trial_events for h
proof unfold_locales
  fix obs0 obs :: trial_observation and w w' :: "'a process" and ok
  assume "run_state (the (ob_read (live_observer h)) obs0) w = ((ok, obs), w')"
  then show "\<exists>i. trial_events w' = Read i ok obs # trial_events w"
    using wpD[OF observer_callbacks_traced(1)] by (fastforce simp: live_observer_def)
qed (auto simp: live_observer_def dest: wpD[OF observer_callbacks_traced(2)]
       wpD[OF observer_callbacks_traced(3)] wpD[OF observer_callbacks_traced(4)]
       wpD[OF observer_callbacks_traced(5)])

end
