(* ===== verification/ProgramFootprint.thy ===== *)
theory ProgramFootprint
  imports TrialProgram
begin

text \<open>
  What the trial program can send to the controller, command by command, for every system, every
  argument vector and every controller: the contract of the calls, interpreted on the live backend
  in \<open>LiveBackend\<close>, carried through the commands and \<open>main\<close>. The events of \<open>live_log\<close> other than
  requests, connections apart, are free.
\<close>

section \<open>Preflight, prompts and reports\<close>

context process_trace
begin

lemma wire_print_plan [wire_intros]:
  "emits tr P (print_plan operation model_text version_text snapshot plan)"
proof -
  have "emits tr P (print_fans snapshot plan indices)" for indices
    by (induction indices) (auto simp: Let_def intro!: wire_intros emits_intros)
  then show ?thesis unfolding print_plan_def by (intro wire_intros emits_intros)
qed

lemma wire_prompts [wire_intros]:
  "emits tr P (prompt_for_direct_trial h program)"
  "emits tr P (prompt_for_ftst_check h program)"
  "emits tr P (prompt_for_ftst_minimum h program)"
  unfolding prompt_for_direct_trial_def prompt_for_ftst_check_def prompt_for_ftst_minimum_def
    confirmed_on_tty_def
  by (intro wire_intros emits_intros)+

lemma wire_install [wire_intros]: "emits tr P (install_signal_handlers h)"
proof -
  have "emits tr P (install_handlers h signals)" for signals
    by (induction signals) (auto intro!: wire_intros emits_intros wire_silent)
  then show ?thesis by (simp only: install_signal_handlers_def)
qed

lemma wire_checked [wire_intros]:
  "emits tr P (checked_preflight h model_text version_text plan)"
  unfolding checked_preflight_def by (intro wire_intros emits_intros)

end

lemma wire_trial [wire_intros]: "emits wire_log P m \<Longrightarrow> emits live_log P (in_trial m)"
  unfolding emits_def in_trial_def
  by (simp add: split_def) (metis process.select_convs(13) world.select_convs(1))

lemma wire_note_trial [wire_intros]: "emits live_log P (note_trial e)"
  by (simp add: note_trial_def emits_silent)

lemma wire_observer_callbacks [wire_intros]:
  "emits live_log (on_wire A) (the (ob_read (live_observer h)) obs)"
  "emits live_log (on_wire A) (the (ob_wait (live_observer h)) ms)"
  "emits live_log (on_wire A) (the (ob_stop (live_observer h)))"
  "emits live_log (on_wire A) (the (ob_now (live_observer h)))"
  "emits live_log (on_wire A) (the (ob_record (live_observer h)) second obs)"
  by (simp_all only: live_observer_def baseline_observer.simps option.sel baseline_observer_read_def
        baseline_observer_wait_def baseline_observer_stopped_def backend_now_def
        baseline_observer_record_def Let_def)
     (intro wire_intros emits_intros emits_silent; simp)+

lemma wire_observer [wire_intros]: "emits live_log (on_wire A) (run_observe_baseline h)"
  unfolding run_observe_baseline_def by (intro wire_intros emits_intros)

section \<open>Requests that give control back\<close>

definition recovery_keys :: "bool \<Rightarrow> string list" where
  "recovery_keys with_ftst =
     concat (map (\<lambda>fan. [fan_key fan ''md'', fan_key fan ''Md'', fan_key fan ''Tg'']) fan_indices) @
     (if with_ftst then [''Ftst''] else [])"

definition releasing_request :: "bool \<Rightarrow> smc_key_data \<Rightarrow> bool" where
  "releasing_request with_ftst r \<longleftrightarrow>
     request_key r \<in> set (map fourcc (recovery_keys with_ftst)) \<and>
     list_all (\<lambda>i. data_bytes r i = 0) [0..<32]"

lemma releasing_write:
  assumes "name \<in> set (recovery_keys with_ftst)" "\<And>i. i < n \<Longrightarrow> bytes i = 0"
  shows "releasing_request with_ftst (write_request name len bytes n)"
  using assms by (auto simp: releasing_request_def write_request_def list_all_iff)

lemma recovery_keys_fan:
  "fan < 2 \<Longrightarrow> name \<in> mode_keys fan \<Longrightarrow> name \<in> set (recovery_keys with_ftst)"
  "fan < 2 \<Longrightarrow> fan_key fan ''Tg'' \<in> set (recovery_keys with_ftst)"
  by (auto simp: recovery_keys_def mode_keys_def fan_indices_two numeral_2_eq_2 less_Suc_eq)

lemma zero_quarters: "Fin 0 * Fin 4 = Fin 0"
  by (simp add: times_double_def signed_zero_def)

lemma encode_zero:
  assumes "trial_encode_rpm (Some ty) len (round64 0) (Some (\<lambda>_. 0)) (Some 0) =
    (True, Some encoded, Some n)"
  shows "encoded i = 0"
  using assms zero_quarters
  by (auto simp: trial_encode_rpm_def Let_def to_float32_def bits_of_float32_def to_u16_def
      split: if_splits)

text \<open>The writes that give control back, as requests.\<close>

lemma asked_releasing:
  assumes "keyed (known_keys cfg)" "asked cfg W r" "\<And>e. W e \<Longrightarrow> releases e"
    and "with_ftst \<or> (\<forall>v ok. \<not> W (WriteFtst v ok))"
  shows "releasing_request with_ftst r"
proof -
  obtain e where e: "W e" "carries_out cfg e r" using assms(2) by (auto simp: asked_def)
  then have rel: "releases e" using assms(3) by blast
  have keys: "mode_key (known_fan cfg fan) \<in> set (recovery_keys with_ftst)"
    "target_key (known_fan cfg fan) \<in> set (recovery_keys with_ftst)" if "fan < 2" for fan
    using assms(1) that by (auto simp: keyed_def known_fan_def intro: recovery_keys_fan)
  show ?thesis
  proof (cases e)
    case (WriteTarget fan rpm ok)
    then have zero: "rpm = round64 0" and "fan < 2"
      using rel e(2) by (auto simp: trial_target_write_allowed_def split: if_splits)
    obtain encoded n where "trial_encode_rpm (Some (value_type (live_target (known_fan cfg fan))))
          (value_size (live_target (known_fan cfg fan))) (round64 0) (Some (\<lambda>_. 0)) (Some 0) =
            (True, Some encoded, Some n)"
      and r: "r = write_request (target_key (known_fan cfg fan))
              (value_size (live_target (known_fan cfg fan))) encoded n"
      using e(2) unfolding WriteTarget carries_out.simps zero by blast
    from encode_zero[OF this(1)] show ?thesis
      unfolding r by (intro releasing_write keys) (use \<open>fan < 2\<close> in auto)
  next
    case (WriteFtst v ok)
    then have "with_ftst" using assms(4) e(1) by blast
    then show ?thesis using e(2) rel WriteFtst
      by (auto intro!: releasing_write simp: recovery_keys_def)
  qed (use e(2) rel in \<open>auto intro!: releasing_write keys\<close>)
qed

lemma wire_releases:
  assumes "emits wire_log (on_wire (asked cfg W)) m" "keyed (known_keys cfg)"
    and "\<And>e. W e \<Longrightarrow> releases e" "with_ftst \<or> (\<forall>v ok. \<not> W (WriteFtst v ok))"
  shows "emits wire_log (on_wire (releasing_request with_ftst)) m"
  using assms(1)
  by (rule emits_mono) (erule on_wire_mono, rule asked_releasing[OF assms(2) _ assms(3,4)], assumption+)

lemma releases_none: "gives_back (\<lambda>e. releases e \<and> (\<forall>v ok. e \<noteq> WriteFtst v ok))"
  by (simp add: gives_back_def)

lemma live_backend_self:
  "b = live_backend h cfg \<Longrightarrow> \<exists>tracked. b = (live_backend h cfg)\<lparr>observed_fan_state_change := tracked\<rparr>"
  by (rule exI[of _ False]) (simp add: live_backend_def)

text \<open>The procedures on the live backend.\<close>

lemma wire_restore_system:
  assumes "keyed (known_keys cfg)"
  shows "emits wire_log (on_wire (releasing_request False))
    (trial_restore_system (Some (live_backend h cfg)))"
  by (rule wire_releases[OF wire.trace_restore_system[OF _ releases_none] assms])
     (auto intro: live_backend_self)

lemma wire_restore_unlock:
  assumes "keyed (known_keys cfg)"
  shows "emits wire_log (on_wire (releasing_request True))
    (trial_restore_unlock (Some (live_backend h cfg)))"
  by (rule wire_releases[OF wire.trace_restore_unlock assms, where W = releases])
     (auto intro: live_backend_self simp: releases_back)

lemma wire_read_back [wire_intros]:
  "emits wire_log (on_wire A) (call_read (live_backend h cfg) metrics obs)"
  unfolding call_read_def
  by (rule wire_log_call[where m = "backend_read_observation h cfg metrics obs"])
     (simp_all add: live_backend_def sent.wire_observation)

lemma wire_readback [wire_intros]:
  "emits live_log (on_wire A) (print_ftst_readback h (live_backend h cfg) event_name)"
  unfolding print_ftst_readback_def by (intro wire_intros emits_intros)

lemma wire_failed [wire_intros]:
  "emits live_log (on_wire A) (failed_report h (live_backend h cfg) message)"
  unfolding failed_report_def by (intro wire_intros emits_intros)

section \<open>The commands\<close>

lemma wire_run_restore:
  "emits live_log (on_wire (\<lambda>r. apply_it \<and> releasing_request False r)) (run_restore h apply_it)"
proof (cases apply_it)
  case True
  show ?thesis
    unfolding run_restore_def
    by (intro wire_intros emits_intros emits_bind_yields[OF snapshot_keyed] wire_restore_system)
       (simp_all add: True wire_restore_system)
next
  case False
  then show ?thesis
    unfolding run_restore_def by (intro wire_intros emits_intros) simp_all
qed

lemma wire_run_restore_unlock:
  "emits live_log (on_wire (\<lambda>r. apply_it \<and> releasing_request True r)) (run_restore_unlock h apply_it)"
proof (cases apply_it)
  case True
  show ?thesis
    unfolding run_restore_unlock_def Let_def
    by (intro wire_intros emits_intros emits_bind_yields[OF snapshot_keyed])
       (auto simp: True split: option.splits if_splits intro: wire_restore_unlock)
next
  case False
  then show ?thesis
    unfolding run_restore_unlock_def Let_def by (intro wire_intros emits_intros) simp_all
qed

lemma wire_dry_runs:
  "emits live_log (on_wire A) (run_trial h program False)"
  "emits live_log (on_wire A) (run_ftst_check h program False)"
  "emits live_log (on_wire A) (run_ftst_minimum h program False)"
  unfolding run_trial_def run_ftst_check_def run_ftst_minimum_def not_False_eq_True if_True
  by (intro wire_intros emits_intros)+

text \<open>The suspended trials, were they run: the direct trial writes only the modes 0 and 1 and the
  targets of the two fans, the Ftst trials only release and set Ftst.\<close>

definition direct_request :: "smc_key_data \<Rightarrow> bool" where
  "direct_request r \<longleftrightarrow>
     list_ex (\<lambda>fan. request_key r = fourcc (fan_key fan ''Tg'') \<or>
        list_ex (\<lambda>key. r = write_request key 1 (\<lambda>_. 0) 1 \<or> r = write_request key 1 (\<lambda>_. 1) 1)
          [fan_key fan ''md'', fan_key fan ''Md'']) fan_indices"

definition ftst_request :: "smc_key_data \<Rightarrow> bool" where
  "ftst_request r \<longleftrightarrow> releasing_request True r \<or> r = write_request ''Ftst'' 1 (\<lambda>_. 1) 1"

lemma asked_direct:
  assumes "keyed (known_keys cfg)" "asked cfg W r" "\<And>v ok. \<not> W (WriteFtst v ok)"
  shows "direct_request r"
proof -
  obtain e where e: "W e" "carries_out cfg e r" using assms(2) by (auto simp: asked_def)
  have keys: "mode_key (known_fan cfg fan) \<in> mode_keys fan"
    "target_key (known_fan cfg fan) = fan_key fan ''Tg''" if "fan < 2" for fan
    using assms(1) that by (auto simp: keyed_def known_fan_def)
  show ?thesis
  proof (cases e)
    case (WriteMode fan m ok)
    then have "fan < 2" "m = 0 \<or> m = 1" "r = write_request (mode_key (known_fan cfg fan)) 1 (\<lambda>_. m) 1"
      using e(2) by auto
    with keys(1)[of fan] show ?thesis
      by (auto simp: direct_request_def mode_keys_def fan_indices_def list_ex_iff)
  next
    case (WriteTarget fan rpm ok)
    then have fan: "fan < 2" "\<exists>encoded n. r = write_request (target_key (known_fan cfg fan))
              (value_size (live_target (known_fan cfg fan))) encoded n"
      using e(2) by (auto simp: trial_target_write_allowed_def split: if_splits)
    then have "request_key r = fourcc (fan_key fan ''Tg'')"
      by (auto simp: keys write_request_def)
    with fan(1) show ?thesis by (auto simp: direct_request_def fan_indices_def list_ex_iff)
  qed (use assms(3) e in auto)
qed

lemma asked_ftst:
  assumes "keyed (known_keys cfg)" "asked cfg W r"
    and "\<And>e. W e \<Longrightarrow> releases e \<or> (\<exists>ok. e = WriteFtst 1 ok)"
  shows "ftst_request r"
proof -
  obtain e where e: "W e" "carries_out cfg e r" using assms(2) by (auto simp: asked_def)
  then consider "releases e" | ok where "e = WriteFtst 1 ok" using assms(3) by blast
  then show ?thesis
  proof cases
    case 1
    with e(2) have "asked cfg releases r" by (auto simp: asked_def)
    then show ?thesis using asked_releasing[OF assms(1), where W = releases] by (simp add: ftst_request_def)
  qed (use e(2) in \<open>simp add: ftst_request_def\<close>)
qed

lemma wire_execute_direct:
  assumes "keyed (known_keys cfg)"
  shows "emits wire_log (on_wire direct_request)
    (trial_execute_direct (Some (live_backend h cfg)) plan baseline_rpm)"
proof -
  let ?W = "\<lambda>e. \<forall>v ok. e \<noteq> WriteFtst v ok"
  have "emits wire_log (on_wire (asked cfg ?W))
    (trial_execute_direct (Some (live_backend h cfg)) plan baseline_rpm)"
    by (rule wire.trace_execute_direct) (auto intro: live_backend_self simp: gives_back_def)
  then show ?thesis
    by (rule emits_mono) (erule on_wire_mono, rule asked_direct[OF assms], assumption, simp)
qed

lemma wire_ftst_trials:
  assumes "keyed (known_keys cfg)"
  shows "emits wire_log (on_wire ftst_request) (trial_check_ftst (Some (live_backend h cfg)))"
    and "emits wire_log (on_wire ftst_request)
      (trial_rehearse_ftst_minimum_recovery (Some (live_backend h cfg)) minimum)"
proof -
  let ?W = "\<lambda>e. releases e \<or> (\<exists>ok. e = WriteFtst 1 ok)"
  have "on_wire ftst_request e" if "on_wire (asked cfg ?W) e" for e
    using that by (rule on_wire_mono) (rule asked_ftst[OF assms], assumption, simp)
  note ftst = emits_mono[OF _ this]
  show "emits wire_log (on_wire ftst_request) (trial_check_ftst (Some (live_backend h cfg)))"
    by (rule ftst, rule wire.trace_check_ftst) (auto intro: live_backend_self simp: gives_back_def)
  show "emits wire_log (on_wire ftst_request)
      (trial_rehearse_ftst_minimum_recovery (Some (live_backend h cfg)) minimum)"
    by (rule ftst, rule wire.trace_rehearse) (auto intro: live_backend_self simp: gives_back_def)
qed

text \<open>The last snapshot of an accepted preflight has the keys of the fans.\<close>

lemma preflight_keyed:
  "yields (pred_option (\<lambda>p. keyed (snd (snd p)))) (collect_preflight h model_text version_text plan)"
proof (rule wp_yields)
  fix s :: "'a process"
  have snapshot: "wp (read_snapshot h metrics report) (\<lambda>r s'. pred_option keyed r) s"
    for metrics report and s :: "'a process"
    using snapshot_keyed[of h metrics report] by (simp add: yields_def wp_def split_def)
  have sample: "wp (sample_preflight h indices preflight last_snapshot)
      (\<lambda>r s'. pred_option (\<lambda>p. keyed (snd p)) r) s" if "keyed last_snapshot \<or> indices \<noteq> []"
    for indices preflight last_snapshot and s :: "'a process"
    using that
  proof (induction indices arbitrary: preflight last_snapshot s)
    case (Cons index indices)
    show ?case
      by (simp only: sample_preflight.simps)
         (intro wp_intros wp_mono[OF snapshot] wp_any[of _ "say _"] wp_any[of _ "print_line _"]
            wp_any[of _ "sleep_milliseconds _ _"] wp_mono[OF Cons.IH], auto intro!: wp_mono[OF Cons.IH])
  qed (simp add: wp_return)
  show "wp (collect_preflight h model_text version_text plan)
      (\<lambda>r s'. pred_option (\<lambda>p. keyed (snd (snd p))) r) s"
    unfolding collect_preflight_def
    by (intro wp_intros wp_mono[OF sample] wp_any[of _ "say _"]) (auto simp: upt_small)
qed

lemma checked_keyed:
  "yields (pred_option (\<lambda>p. keyed (snd (snd p)))) (checked_preflight h model_text version_text plan)"
  unfolding yields_def
proof
  fix s :: "'a process"
  have "pred_option (\<lambda>p. keyed (snd (snd p)))
      (fst (run_state (collect_preflight h model_text version_text plan) s))"
    using preflight_keyed[of h model_text version_text plan] unfolding yields_def by (rule spec)
  then show "pred_option (\<lambda>p. keyed (snd (snd p)))
      (fst (run_state (checked_preflight h model_text version_text plan) s))"
    by (auto simp: checked_preflight_def split_def split: option.splits)
qed

lemma wire_run_trial: "emits live_log (on_wire direct_request) (run_trial h program apply_it)"
  unfolding run_trial_def
  by (intro wire_intros emits_intros emits_bind_yields[OF preflight_keyed] wire_execute_direct) auto

lemma wire_run_ftst:
  "emits live_log (on_wire ftst_request) (run_ftst_check h program apply_it)"
  "emits live_log (on_wire ftst_request) (run_ftst_minimum h program apply_it)"
  unfolding run_ftst_check_def run_ftst_minimum_def Let_def
  by (intro wire_intros emits_intros emits_bind_yields[OF checked_keyed] wire_ftst_trials; auto)+

section \<open>Properties\<close>

text \<open>What \<open>main\<close> may log for an argument vector.\<close>

fun program_event :: "string list \<Rightarrow> live_event \<Rightarrow> bool" where
  "program_event argv (Sent r) \<longleftrightarrow>
     command r = SMC_READ_BYTES \<or> command r = SMC_READ_KEY_INFO \<or>
     command r = SMC_WRITE_BYTES \<and>
       (confirms argv ''restore'' ''--apply'' ''RESTORE-Mac15,7-27.0'' \<and> releasing_request False r \<or>
        confirms argv ''restore-unlock'' ''--apply'' ''RESTORE-UNLOCK-Mac15,7-27.0'' \<and>
        releasing_request True r)"
| "program_event argv e \<longleftrightarrow> True"

lemma names_one:
  "names argv a \<Longrightarrow> names argv b \<Longrightarrow> strcmp_eq a b"
  by (simp add: names_def strcmp_eq_def)

lemma distinct_commands:
  "names argv ''restore'' \<Longrightarrow> \<not> names argv ''trial''"
  "names argv ''restore'' \<Longrightarrow> \<not> names argv ''restore-unlock''"
  "names argv ''restore'' \<Longrightarrow> \<not> names argv ''ftst-check''"
  "names argv ''restore-unlock'' \<Longrightarrow> \<not> names argv ''trial''"
  "names argv ''restore-unlock'' \<Longrightarrow> \<not> names argv ''ftst-check''"
  "names argv ''restore-unlock'' \<Longrightarrow> \<not> names argv ''ftst-minimum''"
  by (auto simp: names_def strcmp_eq_def c_string_def)

lemma on_wire_program:
  assumes "on_wire A e" "\<And>r. command r = SMC_WRITE_BYTES \<Longrightarrow> A r \<Longrightarrow> program_event argv (Sent r)"
  shows "program_event argv e"
proof (cases e)
  case (Sent r)
  with assms(1) consider "command r = SMC_READ_BYTES" | "command r = SMC_READ_KEY_INFO"
    | "command r = SMC_WRITE_BYTES" "A r" by auto
  then show ?thesis using assms(2)[of r] unfolding Sent by cases simp_all
qed simp_all

lemma wire_program: "emits live_log (on_wire (\<lambda>_. False)) m \<Longrightarrow> emits live_log (program_event argv) m"
  by (erule emits_mono, erule on_wire_program) simp

lemma program_log:
  "emits live_log P (in_host m)"
  "P e \<Longrightarrow> emits live_log P (note_live e)"
  by (auto simp: emits_def in_host_def note_live_def split: prod.splits)

text \<open>C2: For every argument vector, controller and system, the only write requests the trial
  program sends are releases: mode 0 and target 0 of the two fans under a confirmed
  \<open>restore --apply\<close>, and those or Ftst 0 under a confirmed \<open>restore-unlock --apply\<close>.\<close>

theorem main_only_releases: "emits live_log (program_event argv) (trial_main h argv)"
proof -
  have connect: "emits live_log (program_event argv) (smc_open h)"
    unfolding smc_open_def say_def by (intro program_log emits_intros) simp_all
  have restore: "emits live_log (program_event argv) (run_restore h (apply_confirmed argv))"
    if "names argv ''restore''"
    using that distinct_commands
    by (intro emits_mono[OF wire_run_restore], elim on_wire_program)
       (auto simp: apply_confirmed_def confirms_def)
  have unlock: "emits live_log (program_event argv) (run_restore_unlock h (apply_confirmed argv))"
    if "names argv ''restore-unlock''"
    using that distinct_commands
    by (intro emits_mono[OF wire_run_restore_unlock], elim on_wire_program)
       (auto simp: apply_confirmed_def confirms_def)
  have dry: "emits live_log (program_event argv) (run_trial h program a)"
    "emits live_log (program_event argv) (run_ftst_check h program a)"
    "emits live_log (program_event argv) (run_ftst_minimum h program a)"
    "emits live_log (program_event argv) (run_observe_baseline h)" if "\<not> a" for a program
    using that by (auto intro: wire_program wire_dry_runs wire_observer)
  show ?thesis
    unfolding trial_main_def Let_def say_def
    by (intro emits_intros connect program_log emits_silent)
       (auto intro: dry restore unlock)
qed

text \<open>C27: The suspended trials, as far as the code is still there: the direct trial sends no Ftst
  request, writes no other mode than 0 or 1 and no key but those of the two fans; the Ftst check and
  the rehearsal send only releases and Ftst 1.\<close>

theorem suspended_trials_confined:
  "emits live_log (on_wire direct_request) (run_trial h program apply_it) \<and>
   emits live_log (on_wire ftst_request) (run_ftst_check h program apply_it) \<and>
   emits live_log (on_wire ftst_request) (run_ftst_minimum h program apply_it)"
  by (intro conjI wire_run_trial wire_run_ftst)

section \<open>The connection\<close>

definition connections :: "live_event list \<Rightarrow> live_event list" where
  "connections es = filter (\<lambda>e. case e of LiveOpened ok \<Rightarrow> True | LiveClosed \<Rightarrow> True | _ \<Rightarrow> False) es"

lemma connections_wire:
  "\<forall>e \<in> set es. on_wire A e \<Longrightarrow> connections (es @ rest) = connections rest"
  by (auto simp: connections_def filter_empty_conv split: live_event.splits)

lemma wp_wire:
  assumes "emits live_log (on_wire A) m" "\<And>r s'. connections (live_log s') = connections (live_log s) \<Longrightarrow> Q r s'"
  shows "wp m Q s"
proof (rule wpI)
  fix r s'
  assume "run_state m s = (r, s')"
  with assms(1) obtain es where "live_log s' = es @ live_log s" "\<forall>e \<in> set es. on_wire A e"
    by (rule emitsD)
  then show "Q r s'" using connections_wire[of es A] assms(2) by simp
qed

definition open_and_close :: "live_event list \<Rightarrow> live_event list \<Rightarrow> bool" where
  "open_and_close before after \<longleftrightarrow>
     list_ex (\<lambda>cs. connections after = cs @ connections before)
       [[], [LiveOpened False], [LiveClosed, LiveOpened True]]"

text \<open>Whatever command runs and however it ends, \<open>main\<close> opens at most one connection to the
  controller, and closes it exactly when it was opened.\<close>

theorem main_closes:
  "open_and_close (live_log s) (live_log (snd (run_state (trial_main h argv) s)))"
proof -
  let ?same = "\<lambda>s' s''. connections (live_log s'') = connections (live_log s')"
  have quiet: "wp m Q s'" if "emits live_log (on_wire A) m" "\<And>r s''. ?same s' s'' \<Longrightarrow> Q r s''"
    for m :: "('a process, 'r) state" and A Q and s' :: "'a process"
    using that by (rule wp_wire)
  note step = quiet[OF program_log(1)[where P = "on_wire (\<lambda>_. True)"]] quiet[OF sent.wire_say[of "\<lambda>_. True"]]
    quiet[OF wire_observer[of "\<lambda>_. True"]] quiet[OF wire_run_trial] quiet[OF wire_run_restore]
    quiet[OF wire_run_ftst(1)] quiet[OF wire_run_ftst(2)] quiet[OF wire_run_restore_unlock]
  have logged: "wp (note_live e) Q s'" if "\<And>s''. live_log s'' = e # live_log s' \<Longrightarrow> Q () s''"
    for e Q and s' :: "'a process"
    using that by (simp add: note_live_def wp_State)
  have reset: "wp (State (\<lambda>s. ((), s\<lparr>kernel_status := 0, smc_status := 0\<rparr>))) Q s'"
    if "\<And>s''. live_log s'' = live_log s' \<Longrightarrow> Q () s''" for Q and s' :: "'a process"
    using that by (simp add: wp_State)
  have "wp (trial_main h argv) (\<lambda>r s'. open_and_close (live_log s) (live_log s')) s"
    unfolding trial_main_def smc_open_def Let_def
    by (intro wp_intros step logged reset)
       (simp_all add: open_and_close_def connections_def)
  then show ?thesis by (rule wp_snd)
qed

end
