(* ===== verification/TrialRecovery.thy ===== *)
theory TrialRecovery
  imports TrialFootprint
begin

text \<open>
  What the verdicts of the trial procedures mean. The specification is a predicate on the trace of
  calls: \<open>settled\<close> says that since the last write the controller was sampled in the system baseline
  (Ftst 0, both modes 3, zero targets) for at least a minute by the backend's clock, the samples
  0.9 to 5 seconds apart. The lemmas walk the procedures with the weakest-precondition rules of the
  calls (collection \<open>wp_world\<close>); what a backend answers is never assumed.
\<close>

section \<open>Weakest preconditions of the calls\<close>

named_theorems wp_world "effect of the backend calls on the trace"

lemma wp_call_read [wp_world]:
  "(\<And>ok out w'. calls w' = Read i ok out # calls w \<Longrightarrow> Q (ok, out) w') \<Longrightarrow>
   wp (call_read b i obs) Q w"
  unfolding call_read_def by (rule wp_call_calls) auto

lemma wp_call_others [wp_world]:
  "(\<And>r w'. calls w' = WriteMode fan m r # calls w \<Longrightarrow> Q r w') \<Longrightarrow> wp (call_write_mode b fan m) Q w"
  "(\<And>r w'. calls w' = WriteTarget fan t r # calls w \<Longrightarrow> Q r w') \<Longrightarrow>
   wp (call_write_target b fan t) Q w"
  "(\<And>r w'. calls w' = WriteFtst v r # calls w \<Longrightarrow> Q r w') \<Longrightarrow> wp (call_write_ftst b v) Q w"
  "(\<And>r w'. calls w' = Wait ms r # calls w \<Longrightarrow> Q r w') \<Longrightarrow> wp (call_wait b ms) Q w"
  "(\<And>r w'. calls w' = Now r # calls w \<Longrightarrow> Qd r w') \<Longrightarrow> wp (call_now b) Qd w"
  "(\<And>r w'. calls w' = ShouldStop r # calls w \<Longrightarrow> Q r w') \<Longrightarrow> wp (call_should_stop b) Q w"
  unfolding call_defs by (rule wp_call_calls; auto)+

lemma wp_note_fan_state [wp_world]:
  "(\<And>w'. calls w' = calls w \<Longrightarrow> Q () w') \<Longrightarrow> wp (note_fan_state b obs) Q w"
  by (auto simp: note_fan_state_def wp_simps calls_def)

lemma wp_call_record [wp_world]:
  "(\<And>w' es. calls w' = es @ calls w \<Longrightarrow> es = [] \<or> es = [Recorded k obs] \<Longrightarrow> Q () w') \<Longrightarrow>
   wp (call_record b k obs) Q w"
  unfolding call_record_def
  by (rule wpI) (auto simp: calls_def run_in_context split: option.splits prod.splits)

lemma wp_ignored [wp_world]: "wp m (\<lambda>_. Q ()) w \<Longrightarrow> wp (ignored m) Q w"
  unfolding ignored_def by (rule wp_bindI, erule wp_mono, rule wp_returnI)

section \<open>Settled traces\<close>

definition since_write :: "event list \<Rightarrow> event list" where
  "since_write tr = takeWhile (\<lambda>e. \<not> is_write e) tr"

definition settled :: "event list \<Rightarrow> bool" where
  "settled tr =
     (let ss = samples (since_write tr)
      in list_ex (\<lambda>n. quiet_window 60 (take n ss)) [0..<Suc (length ss)])"

lemma settledI: "quiet_window 60 (take n (samples (since_write tr))) \<Longrightarrow> settled tr"
proof -
  assume q: "quiet_window 60 (take n (samples (since_write tr)))"
  let ?k = "min n (length (samples (since_write tr)))"
  have "take ?k (samples (since_write tr)) = take n (samples (since_write tr))"
    by (simp add: min_def)
  with q show ?thesis unfolding settled_def Let_def list_ex_iff by (intro bexI[of _ ?k]) auto
qed

lemma since_write_calm: "list_all (\<lambda>e. \<not> is_write e) es \<Longrightarrow> since_write (es @ tr) = es @ since_write tr"
  by (induction es) (auto simp: since_write_def)

lemma settled_stable:
  assumes "verdict_explained 60 es res" "status res = TRIAL_BASELINE_STABLE"
  shows "settled (es @ tr)"
proof (rule settledI)
  have "calm_trace es" "quiet_window 60 (samples es)" "length (samples es) = 61"
    using assms by (auto simp: verdict_explained_def)
  then show "quiet_window 60 (take 61 (samples (since_write (es @ tr))))"
    by (simp add: since_write_calm calm_trace_def)
qed

lemma wp_observe [wp_world]:
  assumes "\<And>res es w'. calls w' = es @ calls w \<Longrightarrow> verdict_explained 60 es res \<Longrightarrow> Q res w'"
  shows "wp (trial_observe_after_ftst b) Q w"
proof (rule wpI)
  fix res w'
  assume "run_state (trial_observe_after_ftst b) w = (res, w')"
  from backend_source.window_explained[OF this[unfolded trial_observe_after_ftst_def]]
  show "Q res w'" using assms by (auto simp: FTST_BASELINE_STABLE_SECONDS_def)
qed

lemma wp_stable [wp_world]:
  assumes "\<And>r es w'. calls w' = es @ calls w \<Longrightarrow> calm_trace es \<Longrightarrow> (r \<Longrightarrow> settled (calls w')) \<Longrightarrow> Q r w'"
  shows "wp (observed_stable b) Q w"
proof -
  have "wp (trial_observe_after_ftst b) (\<lambda>res. Q (status res = TRIAL_BASELINE_STABLE)) w"
  proof (rule wp_observe)
    fix res es and w' :: "'a world"
    assume *: "calls w' = es @ calls w" "verdict_explained 60 es res"
    then show "Q (status res = TRIAL_BASELINE_STABLE) w'"
      using settled_stable[OF *(2)] by (intro assms[OF *(1)]) (auto simp: verdict_explained_def)
  qed
  then show ?thesis
    unfolding observed_stable_def by (intro wp_intros) (erule wp_mono, rule wp_returnI)
qed

section \<open>Restoring the system modes\<close>

definition shows_baseline :: "event list \<Rightarrow> bool" where
  "shows_baseline tr = (case tr of Read i True obs # es \<Rightarrow> baseline obs | _ \<Rightarrow> False)"

lemma wp_read_baseline [wp_world]:
  "(\<And>ok obs w'. calls w' = Read False ok obs # calls w \<Longrightarrow> Q (ok \<and> baseline obs) w') \<Longrightarrow>
   wp (read_baseline b) Q w"
  unfolding read_baseline_def by (intro wp_intros wp_world) auto

lemma verify_system_verdict:
  "wp (verify_system b seconds) (\<lambda>r w'. r \<longrightarrow> shows_baseline (calls w')) w"
proof (induction seconds arbitrary: w)
  case (Cons second seconds)
  show ?case by (simp only: verify_system.simps, intro wp_intros wp_world Cons.IH) (auto simp: shows_baseline_def)
qed (simp add: wp_simps)

lemma restore_system_verdict:
  "wp (trial_restore_system backend) (\<lambda>r w'. r \<longrightarrow> shows_baseline (calls w')) w"
  unfolding trial_restore_system_def
  by (intro wp_intros wp_world wp_any verify_system_verdict) (auto simp: shows_baseline_def)

section \<open>Waiting for the baseline after Ftst is cleared\<close>

text \<open>The newest \<open>n\<close> samples since the last write, and what the loop knows of them.\<close>

definition newest :: "nat \<Rightarrow> event list \<Rightarrow> (double \<times> trial_observation) list" where
  "newest n tr = take n (samples (since_write tr))"

definition await_inv :: "event list \<Rightarrow> nat \<Rightarrow> double \<Rightarrow> double \<Rightarrow> bool \<Rightarrow> bool" where
  "await_inv tr n started previous have_previous \<longleftrightarrow>
     length (newest n tr) = n \<and>
     list_all (\<lambda>(t, obs). isfinite t \<and> baseline obs) (newest n tr) \<and>
     paced (map fst (newest n tr)) \<and>
     (0 < n \<longrightarrow> have_previous \<and> previous = fst (hd (newest n tr)) \<and>
        started = fst (last (newest n tr)) \<and> (\<forall>t. newest n (Now t # tr) = newest n tr))"

lemma await_inv_0: "await_inv tr 0 started previous have_previous"
  by (simp add: await_inv_def newest_def)

lemma newest_sample:
  assumes "es = [] \<or> es = [Recorded k obs']"
  shows "newest (Suc n) (es @ Now t # Read i True obs # tr) = (t, obs) # newest n tr"
    and "newest (Suc n) (Now t' # Wait ms r # es @ Now t # Read i True obs # tr) =
           (t, obs) # newest n tr"
    and "newest (Suc n) (Wait ms r # es @ Now t # Read i True obs # tr) = (t, obs) # newest n tr"
  using assms by (auto simp: newest_def since_write_def)

lemma await_sample:
  assumes inv: "await_inv tr n started previous have_previous"
    and es: "es = [] \<or> es = [Recorded k obs']"
    and timing: "if have_previous then sample_timing_valid previous read_started sampled
                 else read_timing_valid read_started sampled"
    and base: "baseline obs"
  defines "tr' \<equiv> es @ Now sampled # Read False True obs # Now read_started # tr"
    and "started' \<equiv> if n = 0 then sampled else started"
  shows "await_inv (Wait ms r # tr') (Suc n) started' sampled True"
    and "60 < Suc n \<Longrightarrow> round64 60 \<le> sampled - started' \<Longrightarrow> settled tr'"
proof -
  let ?run = "newest n (Now read_started # tr)"
  have run: "newest (Suc n) tr' = (sampled, obs) # ?run"
    unfolding tr'_def by (rule newest_sample(1)[OF es])
  have more: "newest (Suc n) (Now t # Wait ms r # tr') = (sampled, obs) # ?run"
    "newest (Suc n) (Wait ms r # tr') = (sampled, obs) # ?run" for t
    unfolding tr'_def by (rule newest_sample(2,3)[OF es])+
  have old: "?run = newest n tr"
    using inv by (cases "n = 0") (auto simp: await_inv_def newest_def[of 0])
  have fin: "isfinite sampled"
    using timing by (auto simp: sample_timing_valid_def read_timing_valid_def split: if_splits)
  have quiet: "list_all (\<lambda>(t, obs). isfinite t \<and> baseline obs) ((sampled, obs) # ?run) \<and>
    paced (map fst ((sampled, obs) # ?run)) \<and> length ((sampled, obs) # ?run) = Suc n \<and>
    started' = fst (last ((sampled, obs) # ?run))"
  proof (cases "newest n tr")
    case Nil
    then have "n = 0" using inv by (auto simp: await_inv_def)
    then show ?thesis using Nil old fin base by (simp add: started'_def)
  next
    case (Cons s ss)
    then have n: "0 < n" using inv by (auto simp: await_inv_def)
    then have "have_previous" "previous = fst s" "isfinite (fst s)" "started = fst (last (newest n tr))"
      using inv Cons by (auto simp: await_inv_def)
    then show ?thesis
      using timing sample_timing_paced[of previous read_started sampled] inv Cons old n fin base
      by (auto simp: await_inv_def started'_def)
  qed
  then show "await_inv (Wait ms r # tr') (Suc n) started' sampled True"
    unfolding await_inv_def more by simp
  show "settled tr'" if "60 < Suc n" "round64 60 \<le> sampled - started'"
    by (rule settledI[of "Suc n"])
       (use quiet that run in \<open>auto simp: newest_def quiet_window_def\<close>)
qed

lemma await_baseline_verdict:
  assumes "await_inv (calls w) n started previous have_previous"
    and "seconds = [k..<FTST_BASELINE_WAIT_SECONDS + 1]"
  shows "wp (await_baseline b delayed seconds n started previous have_previous)
           (\<lambda>r w'. r \<longrightarrow> settled (calls w') \<and> \<not> delayed) w"
  using assms
proof (induction seconds arbitrary: w n started previous have_previous k)
  case (Cons second seconds)
  have k: "second = k" "seconds = [Suc k..<FTST_BASELINE_WAIT_SECONDS + 1]"
    "seconds = [] \<or> second < FTST_BASELINE_WAIT_SECONDS"
    using Cons.prems(2)[symmetric] unfolding upt_eq_Cons_conv by (auto simp del: upt_Suc)
  have stop: "settled (es @ Now t # Read False True obs # Now r # calls w)"
    if "if have_previous then sample_timing_valid previous r t else read_timing_valid r t"
      "es = [] \<or> es = [Recorded second obs]"
      "60 < (if baseline obs then n + 1 else 0)"
      "round64 (of_nat 60) \<le> t - (if baseline obs \<and> n = 0 then t else started)" for es t obs r
    using await_sample(2)[OF Cons.prems(1) that(2,1)] that(3,4)
    by (cases "baseline obs") (simp_all only: if_True if_False simp_thms Suc_eq_plus1 of_nat_numeral not_less0)
  have go: "await_inv (Wait ms c # es @ Now t # Read False True obs # Now r # calls w)
      (if baseline obs then n + 1 else 0) (if baseline obs \<and> n = 0 then t else started) t True"
    if "if have_previous then sample_timing_valid previous r t else read_timing_valid r t"
      "es = [] \<or> es = [Recorded second obs]" for es t obs r c ms
    using await_sample(1)[OF Cons.prems(1) that(2,1)] await_inv_0
    by (cases "baseline obs") (simp_all only: if_True if_False simp_thms Suc_eq_plus1)
  show ?case
    apply (simp only: await_baseline.simps Let_def)
    apply (intro wp_intros wp_world wp_any[of _ "trial_restore_system _"])
    apply (simp_all only: FTST_BASELINE_STABLE_SECONDS_def simp_thms prod.inject if_True if_False
        de_Morgan_disj)
    subgoal by (elim conjE, intro impI conjI, rule stop)
    subgoal by (rule Cons.IH[OF await_inv_0 k(2)])
    subgoal using k(3) by (simp add: wp_return)
    subgoal by (rule Cons.IH[OF _ k(2)]) (simp only: go)
    subgoal using k(3) by (simp add: wp_return)
    done
qed (simp add: wp_simps)

lemma release_ftst_verdict:
  "wp (release_ftst b delayed) (\<lambda>r w'. r \<longrightarrow> settled (calls w') \<and> \<not> delayed) w"
  unfolding release_ftst_def
  by (intro wp_intros wp_any[of _ "clear_ftst _ _"] await_baseline_verdict[OF await_inv_0 refl]) simp

lemma release_unlocked_verdict:
  "wp (release_unlocked b current delayed) (\<lambda>r w'. r \<longrightarrow> settled (calls w') \<and> \<not> delayed) w"
  unfolding release_unlocked_def
  by (intro wp_intros wp_world wp_any[of _ "release_manual_modes _ _ _"]
      wp_any[of _ "prepare_release _ _"] release_ftst_verdict) simp_all

lemma restore_unlock_verdict:
  "wp (trial_restore_unlock backend) (\<lambda>r w'. r \<longrightarrow> settled (calls w')) w"
  unfolding trial_restore_unlock_def
  by (intro wp_intros wp_world wp_any[of _ "first_read _ _ _"] wp_any[of _ "trial_restore_system _"]
      wp_mono[OF release_unlocked_verdict])
     (auto dest: settled_stable)

section \<open>The verdicts of the procedures\<close>

definition system_verified :: "trial_run_status \<Rightarrow> bool" where
  "system_verified st \<longleftrightarrow> st \<noteq> TRIAL_RUN_RESTORE_FAILED \<and> st \<noteq> TRIAL_RUN_BASELINE_REJECTED"

lemma recover_unlock_verdict:
  "wp (recover_unlock b) (\<lambda>r w'. case r of
       Inl st \<Rightarrow> st \<noteq> TRIAL_RUN_BASELINE_REJECTED \<and> (system_verified st \<longrightarrow> settled (calls w'))
     | Inr lasting \<Rightarrow> settled (calls w')) w"
  unfolding recover_unlock_def
  by (intro wp_intros wp_world wp_any[of _ "trial_restore_unlock _"])
     (auto simp: system_verified_def)

text \<open>
  The reading of a returned status: a rejected baseline means that nothing was written, and every
  status that claims a verified system leaves a settled trace behind.
\<close>

definition unwritten :: "event list \<Rightarrow> event list \<Rightarrow> bool" where
  "unwritten before after \<longleftrightarrow>
     (\<exists>es. after = es @ before \<and> list_all (\<lambda>e. \<not> is_write e) es)"

definition honest :: "event list \<Rightarrow> trial_run_status \<Rightarrow> event list \<Rightarrow> bool" where
  "honest before st after \<longleftrightarrow>
     (st = TRIAL_RUN_BASELINE_REJECTED \<longrightarrow> unwritten before after) \<and>
     (system_verified st \<longrightarrow> settled after)"

lemmas honest_simps = honest_def system_verified_def

lemma unwritten_refl: "unwritten tr tr"
  by (simp add: unwritten_def)

lemma unwritten_add: "unwritten tr tr' \<Longrightarrow> \<not> is_write e \<Longrightarrow> unwritten tr (e # tr')"
  unfolding unwritten_def by (metis append_Cons list.pred_inject(2))

lemma wp_get [wp_world]: "Q (f w) w \<Longrightarrow> wp (State (\<lambda>w. (f w, w))) Q w"
  by (simp add: wp_State)

lemma wp_flag [wp_world]:
  "(\<And>w'. calls w' = calls w \<Longrightarrow> Q (f w) w') \<Longrightarrow>
   wp (State (\<lambda>w. (f w, w\<lparr>fan_state_change := g w\<rparr>))) Q w"
  by (simp add: wp_State calls_def)

lemma safe_start_verdict:
  "wp (safe_start b) (\<lambda>r w'. unwritten (calls w) (calls w')) w"
  unfolding safe_start_def
  by (intro wp_intros wp_world) (simp_all add: unwritten_add unwritten_refl)

lemma check_ftst_tracked_verdict:
  "wp (check_ftst_tracked b) (\<lambda>st w'. honest (calls w) st (calls w')) w"
  unfolding check_ftst_tracked_def
  by (intro wp_intros wp_world wp_mono[OF safe_start_verdict]
        wp_any[of _ "watch_effect _ _ _"] wp_any[of _ "trial_restore_unlock _"]
        wp_mono[OF recover_unlock_verdict])
     (auto simp: honest_simps)

lemma check_ftst_verdict:
  "wp (trial_check_ftst backend) (\<lambda>st w'. honest (calls w) st (calls w')) w"
proof -
  have tracked: "wp (check_ftst_tracked b) (\<lambda>st w''. honest (calls w) st (calls w'')) w'"
    if "calls w' = calls w" for b w'
    using check_ftst_tracked_verdict[of b w'] that by simp
  then show ?thesis
    unfolding trial_check_ftst_def
    by (intro wp_intros wp_world wp_mono[OF tracked]) (auto simp: honest_simps)
qed

lemma rehearse_verdict:
  "wp (trial_rehearse_ftst_minimum_recovery backend minimum)
     (\<lambda>st w'. honest (calls w) st (calls w')) w"
  unfolding trial_rehearse_ftst_minimum_recovery_def
  by (intro wp_intros wp_world wp_mono[OF safe_start_verdict]
        wp_any[of _ "rehearse_watch _ _ _ _ _"] wp_mono[OF recover_unlock_verdict])
     (auto simp: honest_simps unwritten_refl)

text \<open>The direct trial.\<close>

lemma restored_and_stable_verdict:
  "wp (restored_and_stable b) (\<lambda>r w'. r \<longrightarrow> settled (calls w')) w"
  unfolding restored_and_stable_def
  by (intro wp_intros wp_world wp_any[of _ "trial_restore_system _"]) auto

lemma execute_direct_verdict:
  "wp (trial_execute_direct backend plan baseline_rpm) (\<lambda>st w'. honest (calls w) st (calls w')) w"
  unfolding trial_execute_direct_def
  by (intro wp_intros wp_any[of _ "drive_manual _ _ _"] wp_mono[OF restored_and_stable_verdict])
     (auto simp: honest_simps)


section \<open>Properties\<close>

text \<open>An observation window that ends \<open>STABLE\<close> wrote nothing, took 61 samples, and leaves a
  trace that shows the system baseline for at least a minute.\<close>

theorem stable_window_settles:
  assumes "run_state (trial_observe_after_ftst b) w = (res, w')" and "status res = TRIAL_BASELINE_STABLE"
  shows "unwritten (calls w) (calls w') \<and> result_samples res = 61 \<and> settled (calls w')"
proof -
  have "wp (trial_observe_after_ftst b) (\<lambda>res w'. status res = TRIAL_BASELINE_STABLE \<longrightarrow>
      unwritten (calls w) (calls w') \<and> result_samples res = 61 \<and> settled (calls w')) w"
  proof (rule wp_observe)
    fix res es and w' :: "'a world"
    assume tr: "calls w' = es @ calls w" and v: "verdict_explained 60 es res"
    have "result_samples res = 61" if "unat (result_second res) = 60"
      "result_samples res = result_second res + 1"
      using that by (simp add: word_unat_eq_iff unat_word_ariths)
    then show "status res = TRIAL_BASELINE_STABLE \<longrightarrow>
      unwritten (calls w) (calls w') \<and> result_samples res = 61 \<and> settled (calls w')"
      using tr v settled_stable[OF v] by (auto simp: unwritten_def verdict_explained_def calm_trace_def)
  qed
  with assms show ?thesis by (auto dest: wpD)
qed

text \<open>When the plain recovery reports success, the last thing it did was read the baseline from
  the controller; if the controller was in the baseline to begin with, that read is all it did.\<close>

theorem restore_system_sound:
  assumes "run_state (trial_restore_system (Some b)) w = (True, w')"
  shows "shows_baseline (calls w') \<and>
    (\<forall>w1. run_state (read_baseline b) w = (True, w1) \<longrightarrow> w' = w1)"
proof -
  have "shows_baseline (calls w')" using wpD[OF restore_system_verdict assms] by simp
  moreover have "w' = w1" if "run_state (read_baseline b) w = (True, w1)" for w1
    using that assms by (auto simp: trial_restore_system_def split: if_splits)
  ultimately show ?thesis by blast
qed

text \<open>C1: When the unlocked recovery reports success, the controller has been seen in the system
  baseline, Ftst cleared, for at least a minute since the last write.\<close>

theorem restore_unlock_sound:
  assumes "run_state (trial_restore_unlock backend) w = (True, w')"
  shows "settled (calls w')"
  using wpD[OF restore_unlock_verdict assms] by simp

text \<open>The Ftst check reports its outcome honestly: a rejected baseline means nothing was
  written, and every status other than a failed restore means a settled baseline.\<close>

theorem check_ftst_honest:
  assumes "run_state (trial_check_ftst backend) w = (st, w')" and "st \<noteq> TRIAL_RUN_RESTORE_FAILED"
  shows "if st = TRIAL_RUN_BASELINE_REJECTED then unwritten (calls w) (calls w') else settled (calls w')"
  using wpD[OF check_ftst_verdict assms(1)] assms(2) by (simp add: honest_simps)

text \<open>The rehearsal reports its outcome honestly in the same sense.\<close>

theorem rehearse_honest:
  assumes "run_state (trial_rehearse_ftst_minimum_recovery backend minimum) w = (st, w')"
    and "st \<noteq> TRIAL_RUN_RESTORE_FAILED"
  shows "if st = TRIAL_RUN_BASELINE_REJECTED then unwritten (calls w) (calls w') else settled (calls w')"
  using wpD[OF rehearse_verdict assms(1)] assms(2) by (simp add: honest_simps)

text \<open>C4: However the direct trial went, unless it reports a failed restore the fans are back in the
  system baseline and have been seen there for at least a minute after the last write.\<close>

theorem execute_direct_restores:
  assumes "run_state (trial_execute_direct backend plan baseline_rpm) w = (st, w')"
    and "st \<noteq> TRIAL_RUN_RESTORE_FAILED"
  shows "st \<noteq> TRIAL_RUN_BASELINE_REJECTED \<and> settled (calls w')"
proof -
  have "wp (trial_execute_direct backend plan baseline_rpm) (\<lambda>st w'. st \<noteq> TRIAL_RUN_BASELINE_REJECTED) w"
    unfolding trial_execute_direct_def
    by (intro wp_intros wp_any[of _ "drive_manual _ _ _"] wp_any[of _ "restored_and_stable _"]) auto
  with assms wpD[OF execute_direct_verdict assms(1)] show ?thesis
    by (auto simp: honest_simps dest: wpD)
qed

end
