(* ===== verification/FtstGate.thy ===== *)
theory FtstGate
  imports TrialRecovery
begin

text \<open>
  The safety rule of the unlocked recovery: Ftst is cleared only while the newest successful read
  shows it set to 1 with both fans released (mode 0 or 3, finite nonnegative targets), so that a fan
  still under manual control is never left without its unlock. \<open>ftst_gated\<close> states the rule on a
  trace; the lemmas carry it through the recovery.
\<close>

fun last_read :: "event list \<Rightarrow> trial_observation option" where
  "last_read (Read i ok obs # es) = (if ok then Some obs else None)"
| "last_read (e # es) = last_read es"
| "last_read [] = None"

definition unlocked_released :: "trial_observation option \<Rightarrow> bool" where
  "unlocked_released r = (case r of None \<Rightarrow> False | Some obs \<Rightarrow> obs_ftst obs = 1 \<and> modes_released obs)"

fun ftst_gated :: "event list \<Rightarrow> bool" where
  "ftst_gated (WriteFtst v ok # es) \<longleftrightarrow> v = 0 \<and> unlocked_released (last_read es) \<and> ftst_gated es"
| "ftst_gated (e # es) \<longleftrightarrow> ftst_gated es"
| "ftst_gated [] \<longleftrightarrow> True"

fun is_ftst_write :: "event \<Rightarrow> bool" where
  "is_ftst_write (WriteFtst v ok) = True"
| "is_ftst_write e = False"

text \<open>What the procedure has added to the trace \<open>tr0\<close> it started from.\<close>

definition gated_since :: "event list \<Rightarrow> event list \<Rightarrow> bool" where
  "gated_since tr0 tr \<longleftrightarrow> (\<exists>es. tr = es @ tr0 \<and> ftst_gated es)"

definition ready_since :: "event list \<Rightarrow> event list \<Rightarrow> bool" where
  "ready_since tr0 tr \<longleftrightarrow>
     (\<exists>es. tr = es @ tr0 \<and> ftst_gated es \<and> unlocked_released (last_read es))"

lemma ready_gated: "ready_since tr0 tr \<Longrightarrow> gated_since tr0 tr"
  by (auto simp: ready_since_def gated_since_def)

lemma ftst_gated_add: "\<not> is_ftst_write e \<Longrightarrow> ftst_gated (e # es) = ftst_gated es"
  by (cases e) auto

lemma gated_since_add: "gated_since tr0 tr \<Longrightarrow> \<not> is_ftst_write e \<Longrightarrow> gated_since tr0 (e # tr)"
  unfolding gated_since_def by (metis append_Cons ftst_gated_add)

lemma gated_since_append:
  "gated_since tr0 tr \<Longrightarrow> list_all (\<lambda>e. \<not> is_ftst_write e) es \<Longrightarrow> gated_since tr0 (es @ tr)"
  by (induction es) (auto intro: gated_since_add)

lemma ready_since_read:
  "gated_since tr0 tr \<Longrightarrow> obs_ftst obs = 1 \<Longrightarrow> modes_released obs \<Longrightarrow>
   ready_since tr0 (Read i True obs # tr)"
proof -
  assume "gated_since tr0 tr" and obs: "obs_ftst obs = 1" "modes_released obs"
  then obtain es where "tr = es @ tr0" "ftst_gated es" by (auto simp: gated_since_def)
  with obs have "Read i True obs # tr = (Read i True obs # es) @ tr0 \<and>
    ftst_gated (Read i True obs # es) \<and> unlocked_released (last_read (Read i True obs # es))"
    by (simp add: unlocked_released_def)
  then show ?thesis unfolding ready_since_def by blast
qed

lemma ready_since_add:
  assumes "ready_since tr0 tr" "\<And>es. last_read (e # es) = last_read es" "\<not> is_ftst_write e"
  shows "ready_since tr0 (e # tr)"
proof -
  obtain es where "tr = es @ tr0" "ftst_gated es" "unlocked_released (last_read es)"
    using assms(1) by (auto simp: ready_since_def)
  then have "e # tr = (e # es) @ tr0 \<and> ftst_gated (e # es) \<and> unlocked_released (last_read (e # es))"
    using assms(2,3) by (simp add: ftst_gated_add)
  then show ?thesis unfolding ready_since_def by blast
qed

lemma ready_since_clear: "ready_since tr0 tr \<Longrightarrow> ready_since tr0 (WriteFtst 0 r # tr)"
proof -
  assume "ready_since tr0 tr"
  then obtain es where "tr = es @ tr0" "ftst_gated es" "unlocked_released (last_read es)"
    by (auto simp: ready_since_def)
  then have "WriteFtst 0 r # tr = (WriteFtst 0 r # es) @ tr0 \<and> ftst_gated (WriteFtst 0 r # es) \<and>
    unlocked_released (last_read (WriteFtst 0 r # es))"
    by simp
  then show ?thesis unfolding ready_since_def by blast
qed

lemma ready_since_keep:
  assumes "ready_since tr0 tr"
  shows "ready_since tr0 (Wait ms r # tr)" "ready_since tr0 (Recorded k obs # tr)"
  using assms by (auto intro: ready_since_add)

lemma gated_since_refl: "gated_since tr tr"
  by (simp add: gated_since_def)

text \<open>A step that never writes Ftst keeps the rule, whatever it reads or waits for.\<close>

lemma wp_no_ftst:
  assumes m: "emits events (\<lambda>e. \<not> is_ftst_write e) m" and tr: "gated_since tr0 (calls w)"
    and Q: "\<And>r w'. gated_since tr0 (calls w') \<Longrightarrow> Q r w'"
  shows "wp m Q w"
proof (rule wpI)
  fix r w' assume "run_state m w = (r, w')"
  with m obtain es where "events w' = es @ events w" "\<forall>e \<in> set es. \<not> is_ftst_write e"
    by (rule emitsD)
  then have "gated_since tr0 (calls w')"
    using gated_since_append[OF tr, of "filter (\<lambda>e. \<not> is_null_call e) es"]
    by (auto simp: calls_def list_all_iff)
  then show "Q r w'" by (rule Q)
qed

text \<open>What never writes Ftst: the parts of the recovery around the clearing loop.\<close>

lemma quiet_no_ftst: "quiet_or (\<lambda>e. \<not> is_ftst_write e) e \<Longrightarrow> \<not> is_ftst_write e"
  by (cases e) (simp_all add: quiet_or_simps)

lemma back_no_ftst: "gives_back (\<lambda>e. \<not> is_ftst_write e)"
  by (simp add: gives_back_def)

lemmas no_ftst_steps = emits_quiet[OF ghost.trace_await_baseline quiet_no_ftst]
  emits_quiet[OF ghost.trace_zero_targets quiet_no_ftst]
  emits_quiet[OF ghost.trace_release_manual_modes quiet_no_ftst]
  emits_quiet[OF ghost.trace_first_read quiet_no_ftst]
  emits_quiet[OF ghost.trace_observe quiet_no_ftst]
  emits_quiet[OF ghost.trace_stable quiet_no_ftst]
  emits_quiet[OF ghost.trace_restore_system quiet_no_ftst]

lemmas wp_no_ftst_steps = no_ftst_steps[THEN wp_no_ftst]

lemma await_clear_gated:
  assumes "ready_since tr0 (calls w)"
  shows "wp (await_clear b seconds) (\<lambda>r w'. gated_since tr0 (calls w') \<and>
           (r = Some False \<longrightarrow> ready_since tr0 (calls w'))) w"
  using assms
proof (induction seconds arbitrary: w)
  case Nil
  then show ?case by (simp add: wp_return ready_gated)
next
  case (Cons second seconds)
  have g: "gated_since tr0 (calls w)" by (rule ready_gated[OF Cons.prems])
  show ?case
    by (simp only: await_clear.simps, intro wp_intros wp_world Cons.IH)
       (auto simp: gated_since_add g ready_since_keep ready_since_read)
qed

lemma clear_ftst_gated:
  assumes "ready_since tr0 (calls w)"
  shows "wp (clear_ftst b attempts) (\<lambda>r w'. gated_since tr0 (calls w')) w"
  using assms
proof (induction attempts arbitrary: w)
  case (Cons attempt attempts)
  show ?case
    by (simp only: clear_ftst.simps,
        intro wp_intros wp_world Cons.IH wp_mono[OF await_clear_gated, of tr0])
       (auto simp: ready_since_clear Cons.prems)
qed (simp add: wp_return ready_gated)

lemma release_ftst_gated:
  assumes "ready_since tr0 (calls w)" "can_observe b"
  shows "wp (release_ftst b delayed) (\<lambda>r w'. gated_since tr0 (calls w')) w"
  unfolding release_ftst_def
  by (intro wp_intros wp_mono[OF clear_ftst_gated[OF assms(1)]]
      wp_no_ftst_steps(1)[where ?tr0.0 = tr0])
     (simp_all add: assms back_no_ftst)

lemma prepare_release_gated:
  assumes "ready_since tr0 (calls w)" "can_unlock b"
  shows "wp (prepare_release b current) (\<lambda>r w'. gated_since tr0 (calls w') \<and>
           (r \<longrightarrow> ready_since tr0 (calls w'))) w"
  unfolding prepare_release_def
  by (intro wp_intros wp_world wp_no_ftst_steps(2)[where ?tr0.0 = tr0])
     (use assms in \<open>auto simp: can_unlock_def can_restore_def gated_since_add ready_gated
        ready_since_read ready_since_keep\<close>)

lemma release_unlocked_gated:
  assumes "gated_since tr0 (calls w)" "can_unlock b"
  shows "wp (release_unlocked b current delayed) (\<lambda>r w'. gated_since tr0 (calls w')) w"
  unfolding release_unlocked_def
  by (intro wp_intros wp_world wp_no_ftst_steps(3)[where ?tr0.0 = tr0]
      wp_mono[OF prepare_release_gated, of tr0] wp_mono[OF release_ftst_gated, of tr0])
     (use assms in \<open>auto simp: can_unlock_def gated_since_add ready_gated ready_since_read
        ready_since_keep\<close>)

text \<open>C5: The unlocked recovery clears Ftst only when its newest read succeeded and showed Ftst 1
  with both fans released; this holds for every backend and every interleaving of failures.\<close>

theorem restore_unlock_gates_ftst:
  "gated_since (calls w) (calls (snd (run_state (trial_restore_unlock backend) w)))"
proof -
  have "wp (trial_restore_unlock backend) (\<lambda>r w'. gated_since (calls w) (calls w')) w"
  proof (cases "\<exists>b. backend = Some b \<and> can_unlock b")
    case True
    then obtain b where b: "backend = Some b" "can_unlock b" by blast
    then have o: "can_observe b" by (simp add: can_unlock_def)
    show ?thesis
      unfolding trial_restore_unlock_def b(1) option.simps
      by (intro wp_intros wp_call_read wp_note_fan_state wp_call_record
          wp_no_ftst_steps(4-7)[where ?tr0.0 = "calls w"]
          wp_mono[OF release_unlocked_gated, of "calls w"])
         (auto simp: b o back_no_ftst gated_since_add gated_since_refl)
  next
    case False
    then show ?thesis
      by (auto simp: trial_restore_unlock_def can_unlock_iff wp_return gated_since_refl
          split: option.splits)
  qed
  then show ?thesis by (simp add: wp_def split: prod.splits)
qed

end
