(* ===== verification/TrialLiveness.thy ===== *)
theory TrialLiveness
  imports FtstGate
begin

text \<open>
  That the procedures succeed when nothing is wrong. A backend is calm with respect to \<open>clock\<close>, a
  relation between the seconds passed and its context, when at every time below 2^53 seconds every
  read succeeds and shows the
  system baseline, the clock reads the seconds passed, a wait of one second advances it by one, and
  nobody asks to stop. On a calm backend the observation window ends \<open>STABLE\<close>, and the procedures
  that rest on it return success, or admit that an effect was never seen.

  \<open>calm_machine\<close> is a concrete calm backend; the closed examples of the other theories run on it.
\<close>

definition calm_backend :: "'c trial_backend \<Rightarrow> (nat \<Rightarrow> 'c \<Rightarrow> bool) \<Rightarrow> bool" where
  "calm_backend b clock \<longleftrightarrow> can_unlock b \<and> (\<forall>k c. k < 2 ^ 53 \<longrightarrow> clock k c \<longrightarrow>
     wp (the (should_stop b)) (\<lambda>r c'. \<not> r \<and> clock k c') c \<and>
     wp (the (monotonic_seconds b)) (\<lambda>t c'. t = Fin (of_nat k) \<and> clock k c') c \<and>
     (\<forall>obs. wp (the (read_observation b) False obs)
              (\<lambda>(ok, out) c'. ok \<and> baseline out \<and> clock k c') c) \<and>
     wp (the (wait_milliseconds b) 1000) (\<lambda>r c'. r \<and> clock (Suc k) c') c \<and>
     (\<forall>f second obs. record_observation b = Some f \<longrightarrow>
        wp (f second obs) (\<lambda>_ c'. clock k c') c))"

text \<open>\<open>calm_at clock ws k w\<close>: \<open>k\<close> seconds have passed and the writes of the trace are \<open>ws\<close>.\<close>

definition calm_at :: "(nat \<Rightarrow> 'c \<Rightarrow> bool) \<Rightarrow> event list \<Rightarrow> nat \<Rightarrow> 'c world \<Rightarrow> bool" where
  "calm_at clock ws k w \<longleftrightarrow> clock k (context_of w) \<and> filter is_write (events w) = ws"

lemma wp_call_some:
  assumes "p = Some m" "wp m (\<lambda>r c'. \<forall>w'. context_of w' = c' \<and> events w' = e r # events w \<longrightarrow> Q r w') (context_of w)"
  shows "wp (call p d e) Q w"
  using assms by (auto simp: call_def wp_def run_in_context split: prod.splits)

lemma calm_calls:
  assumes calm: "calm_backend b clock" and k: "calm_at clock ws k w" "k < 2 ^ 53"
  shows "(\<And>w'. calm_at clock ws k w' \<Longrightarrow> Q False w') \<Longrightarrow> wp (call_should_stop b) Q w"
    and "(\<And>w'. calm_at clock ws k w' \<Longrightarrow> Qd (Fin (of_nat k)) w') \<Longrightarrow> wp (call_now b) Qd w"
    and "(\<And>obs w'. calm_at clock ws k w' \<Longrightarrow> baseline obs \<Longrightarrow> Qr (True, obs) w') \<Longrightarrow>
         wp (call_read b False obs0) Qr w"
    and "(\<And>w'. calm_at clock ws (Suc k) w' \<Longrightarrow> Q True w') \<Longrightarrow> wp (call_wait b 1000) Q w"
    and "(\<And>w'. calm_at clock ws k w' \<Longrightarrow> Qu () w') \<Longrightarrow> wp (call_record b second obs1) Qu w"
    and "(\<And>w'. calm_at clock ws k w' \<Longrightarrow> Qu () w') \<Longrightarrow> wp (note_fan_state b obs1) Qu w"
proof -
  have b: "can_observe b" and stop: "wp (the (should_stop b)) (\<lambda>r c'. \<not> r \<and> clock k c') (context_of w)"
    and now: "wp (the (monotonic_seconds b)) (\<lambda>t c'. t = Fin (of_nat k) \<and> clock k c') (context_of w)"
    and rd: "wp (the (read_observation b) False obs0)
              (\<lambda>(ok, out) c'. ok \<and> baseline out \<and> clock k c') (context_of w)"
    and wt: "wp (the (wait_milliseconds b) 1000) (\<lambda>r c'. r \<and> clock (Suc k) c') (context_of w)"
    and rec: "\<And>f. record_observation b = Some f \<Longrightarrow>
        wp (f second obs1) (\<lambda>_ c'. clock k c') (context_of w)"
    using calm k by (auto simp: calm_backend_def can_unlock_def calm_at_def)
  then have some: "should_stop b = Some (the (should_stop b))"
    "monotonic_seconds b = Some (the (monotonic_seconds b))"
    "read_observation b = Some (the (read_observation b))"
    "wait_milliseconds b = Some (the (wait_milliseconds b))"
    by (auto simp: can_observe_def)
  show "wp (call_should_stop b) Q w" if "\<And>w'. calm_at clock ws k w' \<Longrightarrow> Q False w'"
    unfolding call_should_stop_def
    by (rule wp_call_some[OF some(1)], rule wp_mono[OF stop]) (use that k(1) in \<open>auto simp: calm_at_def\<close>)
  show "wp (call_now b) Qd w" if "\<And>w'. calm_at clock ws k w' \<Longrightarrow> Qd (Fin (of_nat k)) w'"
    unfolding call_now_def
    by (rule wp_call_some[OF some(2)], rule wp_mono[OF now]) (use that k(1) in \<open>auto simp: calm_at_def\<close>)
  show "wp (call_read b False obs0) Qr w"
    if "\<And>obs w'. calm_at clock ws k w' \<Longrightarrow> baseline obs \<Longrightarrow> Qr (True, obs) w'"
    unfolding call_read_def
    by (rule wp_call_some[where m = "the (read_observation b) False obs0"], subst some(3), simp,
        rule wp_mono[OF rd]) (use that k(1) in \<open>auto simp: calm_at_def\<close>)
  show "wp (call_wait b 1000) Q w" if "\<And>w'. calm_at clock ws (Suc k) w' \<Longrightarrow> Q True w'"
    unfolding call_wait_def
    by (rule wp_call_some[where m = "the (wait_milliseconds b) 1000"], subst some(4), simp,
        rule wp_mono[OF wt]) (use that k(1) in \<open>auto simp: calm_at_def\<close>)
  show "wp (call_record b second obs1) Qu w" if "\<And>w'. calm_at clock ws k w' \<Longrightarrow> Qu () w'"
    using that k(1) rec
    by (auto simp: calm_at_def call_record_def wp_def run_in_context split: option.splits prod.splits)
  show "wp (note_fan_state b obs1) Qu w" if "\<And>w'. calm_at clock ws k w' \<Longrightarrow> Qu () w'"
    using that k(1) by (auto simp: calm_at_def note_fan_state_def wp_def)
qed

lemma round64_of_nat: "n < 2 ^ 53 \<Longrightarrow> round64 (of_nat n) = Fin (of_nat n)"
  using round64_exact[OF exact64_of_int[of "int n"]] by simp

lemma Fin_of_nat_le: "a \<le> c \<Longrightarrow> Fin (of_nat a) \<le> Fin (of_nat c)"
  by simp

lemma nat_minus:
  assumes "a \<le> c" "c < 2 ^ 53"
  shows "Fin (of_nat c) - Fin (of_nat a) = Fin (of_nat (c - a))"
proof (cases "c = a")
  case False
  with assms round64_of_nat[of "c - a"] round64_of_nat[of c] show ?thesis
    by (auto simp: minus_double_def of_nat_diff)
qed (simp add: minus_double_def signed_zero_def)

lemma observer_callbacks:
  "the (ob_read (backend_observer b)) = trial_backend_observer_read b"
  "the (ob_wait (backend_observer b)) = call_wait b"
  "the (ob_stop (backend_observer b)) = call_should_stop b"
  "the (ob_now (backend_observer b)) = call_now b"
  "the (ob_record (backend_observer b)) = call_record b"
  by (simp_all add: backend_observer_def)

lemma calm_observe_from:
  assumes "calm_backend b clock" and "calm_at clock ws (k + unat second) w"
    and "unat second \<le> unat final" and "k + unat final < 2 ^ 53"
    and "second \<noteq> 0 \<Longrightarrow> previous = Fin (of_nat (k + unat second - 1)) \<and> started = Fin (of_nat k)"
  shows "wp (observe_from (backend_observer b) final second started previous n)
           (\<lambda>res w'. status res = TRIAL_BASELINE_STABLE \<and> calm_at clock ws (k + unat final) w') w"
  using assms(2-)
proof (induction "unat (final - second)" arbitrary: second started previous n w rule: less_induct)
  case less
  let ?k = "k + unat second"
  have "?k < 2 ^ 53" using less.prems(2,3) by simp
  note calls = calm_calls[OF assms(1) _ this, where ws = ws]
  have zero: "Fin 0 - Fin 0 = Fin 0" by (simp add: minus_double_def signed_zero_def)
  have self: "Fin (of_nat m) - Fin (of_nat m) = Fin 0" for m :: nat
    by (simp add: minus_double_def signed_zero_def)
  have pos: "0 < unat second" if "second \<noteq> 0"
    using that by (simp add: unat_gt_0)
  have one: "Fin (of_nat ?k) - previous = Fin 1" if "second \<noteq> 0"
    using less.prems(4)[OF that] nat_minus[of "?k - 1" ?k] less.prems(2,3) pos[OF that] by simp
  have le: "previous \<le> Fin (of_nat ?k)" if "second \<noteq> 0"
    using less.prems(4)[OF that] by (simp only: Fin_of_nat_le diff_le_self)
  have timing: "if second = 0 then read_timing_valid (Fin (of_nat ?k)) (Fin (of_nat ?k))
       else sample_timing_valid previous (Fin (of_nat ?k)) (Fin (of_nat ?k))"
    using one le by (auto simp: read_timing_valid_def sample_timing_valid_def self round64_09
        simp del: of_nat_add)
  have nonneg: "(\<not> isfinite (Fin (of_nat ?k)) \<or> Fin (of_nat ?k) < round64 0) = False"
    by (simp del: of_nat_add)
  have span: "round64 (of_nat (unat final)) \<le>
      Fin (of_nat (k + unat final)) -
      (if final = 0 then Fin (of_nat (k + unat final)) else started)" if "second = final"
    using that less.prems(4) self nat_minus[of k ?k] round64_of_nat[of "unat final"] less.prems(3)
    by (cases "second = 0") (auto simp del: of_nat_add)
  have onward: "wp (observe_from (backend_observer b) final (second + 1)
      (if second = 0 then Fin (of_nat ?k) else started) (Fin (of_nat ?k)) m)
      (\<lambda>res w'. status res = TRIAL_BASELINE_STABLE \<and> calm_at clock ws (k + unat final) w') w'"
    if "second \<noteq> final" "calm_at clock ws (Suc ?k) w'" for m w'
  proof (rule less.hyps[OF unat_countdown[OF that(1)]])
    show "calm_at clock ws (k + unat (second + 1)) w'"
      using that(2) unat_next(1)[OF that(1) less.prems(2)] by simp
    show "unat (second + 1) \<le> unat final" by (rule unat_next(2)[OF that(1) less.prems(2)])
    show "k + unat final < 2 ^ 53" by (rule less.prems(3))
    show "Fin (of_nat ?k) = Fin (of_nat (k + unat (second + 1) - 1)) \<and>
      (if second = 0 then Fin (of_nat ?k) else started) = Fin (of_nat k)"
      using unat_next(1)[OF that(1) less.prems(2)] less.prems(4) by auto
  qed
  show ?case
    apply (subst observe_from.simps)
    apply (simp only: observer_callbacks trial_backend_observer_read_def)
    apply (intro wp_intros calls)
    apply (simp_all only: nonneg timing not_True_eq_False not_False_eq_True simp_thms prod.inject
       result_of_def baseline_result.simps)
    subgoal by (rule less.prems(1))
    subgoal by (erule notE, rule timing)
    subgoal by (simp only: span if_True)
    subgoal by (rule onward)
    done
qed

lemma still_observe:
  assumes "calm_backend b clock" "calm_at clock ws k w" "k + 60 < 2 ^ 53"
  shows "wp (trial_observe_after_ftst b)
           (\<lambda>res w'. status res = TRIAL_BASELINE_STABLE \<and> calm_at clock ws (k + 60) w') w"
proof -
  have "wp (observe_from (backend_observer b) 60 0 (round64 0) (round64 0) 0)
          (\<lambda>res w'. status res = TRIAL_BASELINE_STABLE \<and> calm_at clock ws (k + unat (60 :: u32)) w') w"
    by (rule calm_observe_from[OF assms(1)]) (use assms(2,3) in simp_all)
  then show ?thesis
    by (simp add: trial_observe_after_ftst_def trial_observe_baseline_window_def Let_def
        backend_observer_def FTST_BASELINE_STABLE_SECONDS_def)
qed

lemma still_stable:
  assumes "calm_backend b clock" "calm_at clock ws k w" "k + 60 < 2 ^ 53"
  shows "wp (observed_stable b) (\<lambda>r w'. r \<and> calm_at clock ws (k + 60) w') w"
  unfolding observed_stable_def
  by (intro wp_intros wp_mono[OF still_observe[OF assms]]) simp

lemma still_restore_unlock:
  assumes "calm_backend b clock" "calm_at clock ws k w" "k + 60 < 2 ^ 53"
  shows "wp (trial_restore_unlock (Some b))
           (\<lambda>r w'. r \<and> calm_at clock ws (k + 60) w') w"
proof -
  have b: "can_unlock b" using assms(1) by (simp add: calm_backend_def)
  have first: "[0..<FTST_RELEASE_RETRIES] = 0 # [Suc 0..<FTST_RELEASE_RETRIES]"
    by (simp add: FTST_RELEASE_RETRIES_def upt_rec)
  have "k < 2 ^ 53" using assms(3) by simp
  note calls = calm_calls[OF assms(1) _ this, where ws = ws]
  show ?thesis
    unfolding trial_restore_unlock_def option.simps first first_read.simps
    by (intro wp_intros calls(3,5,6) wp_mono[OF still_observe[OF assms(1), where k = k and ws = ws]])
       (use assms b in \<open>simp_all add: can_unlock_iff\<close>)
qed

text \<open>The same without the writes.\<close>

lemma calm_observe:
  assumes "calm_backend b clock" "clock k (context_of w)" "k + 60 < 2 ^ 53"
  shows "wp (trial_observe_after_ftst b)
           (\<lambda>res w'. status res = TRIAL_BASELINE_STABLE \<and> clock (k + 60) (context_of w')) w"
  by (rule wp_mono[OF still_observe[OF assms(1) _ assms(3)]]) (use assms(2) in \<open>auto simp: calm_at_def\<close>)

lemma calm_stable:
  assumes "calm_backend b clock" "clock k (context_of w)" "k + 60 < 2 ^ 53"
  shows "wp (observed_stable b) (\<lambda>r w'. r \<and> clock (k + 60) (context_of w')) w"
  by (rule wp_mono[OF still_stable[OF assms(1) _ assms(3)]]) (use assms(2) in \<open>auto simp: calm_at_def\<close>)

lemma calm_restore_unlock:
  assumes "calm_backend b clock" "clock k (context_of w)" "k + 60 < 2 ^ 53"
  shows "wp (trial_restore_unlock (Some b)) (\<lambda>r w'. r \<and> clock (k + 60) (context_of w')) w"
  by (rule wp_mono[OF still_restore_unlock[OF assms(1) _ assms(3)]])
    (use assms(2) in \<open>auto simp: calm_at_def\<close>)

section \<open>A concrete calm machine\<close>

definition calm_observation :: trial_observation where
  "calm_observation = \<lparr>obs_mode = \<lambda>_. 3, obs_ftst = 0, obs_actual_rpm = \<lambda>_. Fin 0,
     obs_target_rpm = \<lambda>_. Fin 0, obs_temperatures_c = \<lambda>_. Fin 40, metrics_available = True\<rparr>"

definition calm_machine :: "bool \<Rightarrow> nat trial_backend" where
  "calm_machine tracked =
     \<lparr>write_mode = Some (\<lambda>fan m. ret False), write_target = Some (\<lambda>fan rpm. ret False),
      write_ftst = Some (\<lambda>v. ret True),
      read_observation = Some (\<lambda>temperatures obs. ret (True, calm_observation)),
      wait_milliseconds = Some (\<lambda>ms. State (\<lambda>c. (True, c + ms div 1000))),
      monotonic_seconds = Some (State (\<lambda>c. (Fin (of_nat c), c))),
      should_stop = Some (ret False), record_observation = None,
      observed_fan_state_change = tracked\<rparr>"

definition at_rest :: "nat world" where
  "at_rest = \<lparr>context_of = 0, fan_state_change = False, events = []\<rparr>"

lemma calm_observation_safe:
  "baseline calm_observation" "temperatures_safe calm_observation"
  "system_modes_and_zero_targets calm_observation" "obs_ftst calm_observation = 0"
  by (simp_all add: calm_observation_def baseline_iff system_modes_iff temperatures_safe_iff
      temperature_safe_def)

lemma calm_machine_calm:
  "calm_backend (calm_machine x) (\<lambda>k c. c = k)"
  by (auto simp: calm_backend_def can_unlock_iff calm_machine_def wp_simps calm_observation_safe)

lemma calm_machine_tracked: "(calm_machine x)\<lparr>observed_fan_state_change := y\<rparr> = calm_machine y"
  by (simp add: calm_machine_def)

lemma calm_machine_calls:
  shows "(\<And>w'. context_of w' = context_of w \<Longrightarrow> Qr (True, calm_observation) w') \<Longrightarrow>
           wp (call_read (calm_machine x) i obs0) Qr w"
    and "(\<And>w'. context_of w' = context_of w \<Longrightarrow> Q False w') \<Longrightarrow> wp (call_write_mode (calm_machine x) fan v) Q w"
    and "(\<And>w'. context_of w' = context_of w \<Longrightarrow> Q True w') \<Longrightarrow> wp (call_write_ftst (calm_machine x) v) Q w"
    and "(\<And>w'. context_of w' = context_of w \<Longrightarrow> Q True w') \<Longrightarrow> wp (call_wait (calm_machine x) 500) Q w"
    and "(\<And>w'. context_of w' = context_of w \<Longrightarrow> Q False w') \<Longrightarrow> wp (call_should_stop (calm_machine x)) Q w"
    and "(\<And>w'. context_of w' = context_of w \<Longrightarrow> Qd (Fin (of_nat (context_of w))) w') \<Longrightarrow>
           wp (call_now (calm_machine x)) Qd w"
    and "(\<And>w'. context_of w' = context_of w \<Longrightarrow> Qu () w') \<Longrightarrow> wp (call_record (calm_machine x) k obs) Qu w"
    and "(\<And>w'. context_of w' = context_of w \<Longrightarrow> Qu () w') \<Longrightarrow> wp (note_fan_state (calm_machine x) obs) Qu w"
  by (simp_all add: calm_machine_def call_defs call_def call_record_def wp_def run_in_context
      note_fan_state_def)


lemma calm_watch_effect:
  "wp (watch_effect (calm_machine x) half_seconds obs)
     (\<lambda>r w'. \<not> fst r \<and> context_of w' = context_of w) w"
proof (induction half_seconds arbitrary: obs w)
  case (Cons half_second half_seconds)
  show ?case
    by (simp only: watch_effect.simps,
        intro wp_intros calm_machine_calls wp_mono[OF Cons.IH])
       (auto simp: calm_observation_safe)
qed (simp add: wp_return)

lemma calm_safe_start:
  "wp (safe_start (calm_machine x))
     (\<lambda>r w'. r = Some (Fin (of_nat (context_of w))) \<and> context_of w' = context_of w) w"
  unfolding safe_start_def
  by (intro wp_intros calm_machine_calls) (auto simp: calm_observation_safe)

lemma calm_machine_stable:
  "context_of w < 1000 \<Longrightarrow>
   wp (observed_stable (calm_machine x)) (\<lambda>r w'. r \<and> context_of w' = context_of w + 60) w"
  using calm_stable[OF calm_machine_calm, where k = "context_of w" and w = w] by simp

lemma calm_machine_unlock:
  "context_of w < 1000 \<Longrightarrow>
   wp (trial_restore_unlock (Some (calm_machine x)))
     (\<lambda>r w'. r \<and> context_of w' = context_of w + 60) w"
  using calm_restore_unlock[OF calm_machine_calm, where k = "context_of w" and w = w] by simp

lemma calm_machine_pointers: "can_unlock (calm_machine x)"
  by (simp add: can_unlock_iff calm_machine_def)

lemma calm_check_ftst:
  "wp (trial_check_ftst (Some (calm_machine False))) (\<lambda>st w'. st = TRIAL_RUN_WRITE_EFFECT_UNVERIFIED) at_rest"
proof -
  have body: "wp (check_ftst_tracked (calm_machine True))
      (\<lambda>st w'. st = TRIAL_RUN_WRITE_EFFECT_UNVERIFIED) w" if "context_of w < 900" for w
    unfolding check_ftst_tracked_def
    by (intro wp_intros calm_machine_calls wp_mono[OF calm_safe_start] wp_mono[OF calm_watch_effect]
        wp_mono[OF calm_machine_stable])
       (use that in auto)
  show ?thesis
    unfolding trial_check_ftst_def option.simps calm_machine_tracked
    by (intro wp_intros wp_State[THEN iffD2] wp_mono[OF body])
       (simp_all add: calm_machine_def at_rest_def wp_simps,
        intro wp_intros wp_State[THEN iffD2] wp_mono[OF body[unfolded calm_machine_def]], simp_all add: wp_return)
qed


lemma calm_rehearse_watch:
  "wp (rehearse_watch (calm_machine x) rpm (Fin (of_nat (context_of w))) half_seconds saw)
     (\<lambda>r w'. fst r = saw \<and> context_of w' = context_of w) w"
proof (induction half_seconds arbitrary: saw w)
  case (Cons half_second half_seconds)
  have self: "Fin (of_nat m) - Fin (of_nat m) = Fin 0" for m :: nat
    by (simp add: minus_double_def signed_zero_def)
  have again: "wp (rehearse_watch (calm_machine x) rpm (Fin (of_nat (context_of w))) half_seconds saw')
     (\<lambda>r w'. fst r = saw \<and> context_of w' = context_of w) w'"
    if "context_of w' = context_of w" "saw' = saw" for saw' and w' :: "nat world"
    using Cons.IH[of w' saw] that by simp
  show ?case
    by (simp only: rehearse_watch.simps Let_def,
        intro wp_intros calm_machine_calls wp_mono[OF again])
       (auto simp: calm_observation_safe self)
qed (simp add: wp_return)

lemma calm_rehearse:
  "wp (trial_rehearse_ftst_minimum_recovery (Some (calm_machine False)) (Some (\<lambda>fan. Fin 1500)))
     (\<lambda>st w'. st = TRIAL_RUN_WRITE_EFFECT_UNVERIFIED) at_rest"
proof -
  have recover: "wp (recover_unlock (calm_machine False)) (\<lambda>r w'. r = Inr True) w"
    if "context_of w < 900" for w :: "nat world"
    unfolding recover_unlock_def
    by (intro wp_intros wp_mono[OF calm_machine_unlock] wp_mono[OF calm_machine_stable])
       (use that in auto)
  have watch: "wp (rehearse_watch (calm_machine False) rpm started half_seconds False)
     (\<lambda>r w'. \<not> fst r \<and> context_of w' = 0) w" if "context_of w = 0" "started = Fin 0"
    for rpm started half_seconds and w :: "nat world"
    using calm_rehearse_watch[of False rpm w half_seconds False] that by simp
  have rest: "context_of at_rest = 0" by (simp add: at_rest_def)
  have none: "\<not> list_ex (\<lambda>fan. \<not> isfinite (Fin 1500) \<or> Fin 1500 \<le> round64 0) fan_indices"
    by (simp add: fan_indices_two)
  show ?thesis
    unfolding trial_rehearse_ftst_minimum_recovery_def prod.case option.simps
    by (intro wp_intros calm_machine_calls wp_mono[OF calm_safe_start] wp_mono[OF watch]
        wp_mono[OF recover])
       (use calm_machine_pointers[of False] none rest in \<open>auto simp: can_unlock_iff\<close>)
qed

lemma calm_execute_direct:
  "wp (trial_execute_direct (Some (calm_machine False)) (Some plan) (Some rpm))
     (\<lambda>st w'. st = TRIAL_RUN_WRITE_EFFECT_UNVERIFIED) at_rest"
proof -
  have drive: "wp (drive_manual (calm_machine False) plan rpm)
      (\<lambda>r w'. r = (False, False) \<and> context_of w' = context_of w) w" for w
    unfolding drive_manual_def fan_indices_two start_manual.simps
    by (intro wp_intros calm_machine_calls) auto
  have system: "wp (trial_restore_system (Some (calm_machine False)))
      (\<lambda>r w'. r \<and> context_of w' = context_of w) w" for w
    unfolding trial_restore_system_def option.simps read_baseline_def
    by (intro wp_intros calm_machine_calls)
       (use calm_machine_pointers[of False] in \<open>auto simp: can_unlock_iff calm_observation_safe\<close>)
  have restored: "wp (restored_and_stable (calm_machine False)) (\<lambda>r w'. r) w"
    if "context_of w < 900" for w :: "nat world"
    unfolding restored_and_stable_def
    by (intro wp_intros wp_mono[OF system] wp_mono[OF calm_machine_stable]) (use that in auto)
  have rest: "context_of at_rest = 0" by (simp add: at_rest_def)
  show ?thesis
    unfolding trial_execute_direct_def prod.case option.simps
    by (intro wp_intros wp_mono[OF drive] wp_mono[OF restored])
       (use calm_machine_pointers[of False] rest in \<open>auto simp: can_unlock_iff\<close>)
qed


section \<open>Properties\<close>

text \<open>C7: On a calm backend the observation window ends \<open>STABLE\<close> and the unlocked recovery returns
  success, each after exactly sixty seconds of the backend's clock and without any write of a mode,
  a target or Ftst, for every start time below 2^53 - 60 seconds.\<close>

theorem calm_backend_succeeds:
  assumes "calm_backend b clock" and "clock k (context_of w)" and "k + 60 < 2 ^ 53"
  shows "(case run_state (trial_observe_after_ftst b) w of (result, w') \<Rightarrow>
            status result = TRIAL_BASELINE_STABLE \<and> clock (k + 60) (context_of w') \<and>
            filter is_write (events w') = filter is_write (events w)) \<and>
         (case run_state (trial_restore_unlock (Some b)) w of (restored, w') \<Rightarrow>
            restored \<and> clock (k + 60) (context_of w') \<and>
            filter is_write (events w') = filter is_write (events w))"
  using still_observe[OF assms(1) _ assms(3), where w = w and ws = "filter is_write (events w)"]
    still_restore_unlock[OF assms(1) _ assms(3), where w = w and ws = "filter is_write (events w)"] assms(2)
  by (simp add: wp_def calm_at_def split: prod.splits)

lemma calm_backend_succeeds_witness:
  "case run_state (trial_restore_unlock (Some (calm_machine False))) at_rest of (restored, w') \<Rightarrow>
     restored \<and> context_of w' = 60 \<and> filter is_write (events w') = []"
  using calm_backend_succeeds[OF calm_machine_calm[of False], where k = 0 and w = at_rest]
  by (simp add: at_rest_def split: prod.splits)

section \<open>Closed examples of the recovery properties\<close>

abbreviation after :: "(nat world, 'a) state \<Rightarrow> event list" where
  "after m \<equiv> calls (snd (run_state m at_rest))"

lemma calm_status:
  "status (fst (run_state (trial_observe_after_ftst (calm_machine False)) at_rest)) = TRIAL_BASELINE_STABLE"
  "fst (run_state (trial_restore_unlock (Some (calm_machine False))) at_rest)"
  "fst (run_state (trial_check_ftst (Some (calm_machine False))) at_rest) = TRIAL_RUN_WRITE_EFFECT_UNVERIFIED"
  "fst (run_state (trial_rehearse_ftst_minimum_recovery (Some (calm_machine False))
     (Some (\<lambda>fan. Fin 1500))) at_rest) = TRIAL_RUN_WRITE_EFFECT_UNVERIFIED"
  "fst (run_state (trial_execute_direct (Some (calm_machine False)) (Some plan) (Some rpm)) at_rest) =
     TRIAL_RUN_WRITE_EFFECT_UNVERIFIED"
proof -
  have fst_wp: "wp m (\<lambda>r w'. P r) w \<Longrightarrow> P (fst (run_state m w))"
    for m :: "(nat world, 'r) state" and P and w
    by (auto simp: wp_def split: prod.splits)
  have rest: "context_of at_rest = 0" by (simp add: at_rest_def)
  show "status (fst (run_state (trial_observe_after_ftst (calm_machine False)) at_rest)) =
      TRIAL_BASELINE_STABLE"
    by (rule fst_wp, rule wp_mono[OF calm_observe[OF calm_machine_calm, where k = 0]])
       (simp_all add: rest)
  show "fst (run_state (trial_restore_unlock (Some (calm_machine False))) at_rest)"
    by (rule fst_wp, rule wp_mono[OF calm_machine_unlock]) (simp_all add: rest)
qed (use calm_check_ftst calm_rehearse calm_execute_direct[of plan rpm] in
      \<open>auto simp: wp_def split: prod.splits\<close>)

lemma stable_window_settles_witness:
  "settled (after (trial_observe_after_ftst (calm_machine False)))"
  using stable_window_settles[OF prod.collapse[symmetric] calm_status(1)] by blast

lemma restore_system_sound_witness:
  "shows_baseline (after (trial_restore_system (Some (calm_machine False))))"
proof -
  have "run_state (trial_restore_system (Some (calm_machine False))) at_rest =
    (True, at_rest\<lparr>events := [Read False True calm_observation]\<rparr>)"
    using calm_observation_safe(1)
    by (simp add: trial_restore_system_def read_baseline_def calm_machine_def call_read_def call_def
        run_in_context at_rest_def)
  from restore_system_sound[OF this] this show ?thesis by simp
qed

lemma restore_unlock_sound_witness:
  "settled (after (trial_restore_unlock (Some (calm_machine False))))"
  by (rule restore_unlock_sound[where backend = "Some (calm_machine False)" and w = at_rest])
     (use calm_status(2) in \<open>auto simp: prod_eq_iff\<close>)

lemma check_ftst_honest_witness:
  "settled (after (trial_check_ftst (Some (calm_machine False))))"
  using check_ftst_honest[OF prod.collapse[symmetric], of "Some (calm_machine False)" at_rest]
    calm_status(3) by simp

lemma rehearse_honest_witness:
  "settled (after (trial_rehearse_ftst_minimum_recovery (Some (calm_machine False))
     (Some (\<lambda>fan. Fin 1500))))"
  using rehearse_honest[OF prod.collapse[symmetric], of "Some (calm_machine False)"
      "Some (\<lambda>fan. Fin 1500)" at_rest] calm_status(4) by simp

lemma execute_direct_restores_witness:
  "settled (after (trial_execute_direct (Some (calm_machine False))
     (Some \<lparr>plan_target = \<lambda>fan. Fin 1800\<rparr>) (Some (\<lambda>fan. Fin 1500))))"
  using execute_direct_restores[OF prod.collapse[symmetric], of "Some (calm_machine False)"
      "Some \<lparr>plan_target = \<lambda>fan. Fin 1800\<rparr>" "Some (\<lambda>fan. Fin 1500)" at_rest] calm_status(5)
  by simp

end
