(* ===== verification/ProgramVerdict.thy ===== *)
theory ProgramVerdict
  imports ProgramFootprint TrialLiveness
begin

text \<open>
  What the exit code of the trial program means: 0 after a recovery or an observation means a settled
  system baseline, and 2 means that no write request was sent.
\<close>

section \<open>Running a procedure in the process\<close>

definition world_in :: "'d process \<Rightarrow> 'd process world" where
  "world_in s = \<lparr>context_of = s, fan_state_change = False, events = trial_events s\<rparr>"

lemma wp_in_trial:
  assumes "wp m (\<lambda>r w. \<forall>s'. live_log s' = live_log (context_of w) \<longrightarrow> trial_events s' = calls w \<longrightarrow>
    Q r s') (world_in s)"
  shows "wp (in_trial m) Q s"
  using assms by (auto simp: in_trial_def world_in_def wp_def split: prod.splits)

lemma samples_read: "samples (Read i ok obs # es) = samples es"
  by (cases es rule: samples.cases) auto

lemma quiet_window_read: "settled es \<Longrightarrow> settled (Read i ok obs # es)"
  by (simp add: settled_def since_write_def samples_read)

lemma calls_filtered: "filter (\<lambda>e. \<not> is_null_call e) (calls w) = calls w"
  by (simp add: calls_def)

lemma wp_readback:
  assumes "\<And>ok obs r s'. trial_events s' =
      Read False ok obs # filter (\<lambda>e. \<not> is_null_call e) (trial_events s) \<Longrightarrow> Q r s'"
  shows "wp (print_ftst_readback h b event_name) Q s"
proof -
  have read: "wp (call_read b False zero_observation) (\<lambda>r w. \<forall>s'. live_log s' = live_log (context_of w) \<longrightarrow>
      trial_events s' = calls w \<longrightarrow> (\<exists>ok obs. trial_events s' =
        Read False ok obs # filter (\<lambda>e. \<not> is_null_call e) (trial_events s))) (world_in s)"
    by (rule wp_call_read) (auto simp: world_in_def calls_def)
  show ?thesis
    unfolding print_ftst_readback_def
    by (intro wp_intros wp_mono[OF wp_in_trial[OF read]], elim exE)
       (intro wp_intros wp_untouched[OF untried.wire_seconds] wp_untouched[OF untried.wire_print],
        rule assms, simp)
qed

text \<open>A settled trace stays settled through a report.\<close>

lemma wp_report:
  assumes "settled (trial_events s)" "filter (\<lambda>e. \<not> is_null_call e) (trial_events s) = trial_events s"
  shows "wp (print_ftst_readback h b event_name) (\<lambda>_ s'. settled (trial_events s')) s"
  by (rule wp_readback) (simp add: assms quiet_window_read)

lemma wp_failed: "(\<And>s'. Q EXIT_FAILURE s') \<Longrightarrow> wp (failed_report h b message) Q s"
  unfolding failed_report_def
  by (intro wp_intros wp_any[of _ "say _"] wp_any[of _ print_buffered_events]
      wp_any[of _ "print_ftst_readback _ _ _"])

section \<open>Success\<close>

lemma observe_baseline_verdict:
  "wp (run_observe_baseline h) (\<lambda>code s'. code = EXIT_SUCCESS \<longrightarrow> settled (trial_events s')) s"
proof -
  have window: "wp (trial_observe_baseline_window (Some (live_observer h)) OBSERVE_BASELINE_SECONDS)
      (\<lambda>res s'. status res = TRIAL_BASELINE_STABLE \<longrightarrow> settled (trial_events s')) s" for s :: "'a process"
    by (rule wpI) (use live_source.window_explained in
        \<open>fastforce simp: OBSERVE_BASELINE_SECONDS_def dest: settled_stable\<close>)
  show ?thesis
    unfolding run_observe_baseline_def
    by (intro wp_intros wp_any[of _ "exact_environment _"] wp_any[of _ "install_signal_handlers _"]
        wp_any[of _ "say _"] wp_mono[OF window] wp_untouched[OF untried.wire_print])
       (simp_all add: EXIT_SUCCESS_def EXIT_FAILURE_def)
qed

lemma restore_verdict:
  "wp (run_restore h True) (\<lambda>code s'. code = EXIT_SUCCESS \<longrightarrow> settled (trial_events s')) s"
  unfolding run_restore_def
  by (intro wp_intros wp_any[of _ "exact_environment _"] wp_any[of _ "read_snapshot _ _ _"]
      wp_untouched[OF untried.wire_say] wp_any[of _ "print_plan _ _ _ _ _"] wp_any[of _ "in_host _"]
      wp_any[of _ "in_trial _"] wp_any[of _ fresh_buffers] wp_mono[OF observe_baseline_verdict])
     (simp_all add: EXIT_SUCCESS_def EXIT_FAILURE_def)

lemma unlock_world_verdict:
  "wp (in_trial (trial_restore_unlock backend)) (\<lambda>r s'. r \<longrightarrow> settled (trial_events s') \<and>
     filter (\<lambda>e. \<not> is_null_call e) (trial_events s') = trial_events s') s"
  by (rule wp_in_trial, rule wp_mono[OF restore_unlock_verdict]) (simp add: calls_filtered)

lemma run_restore_unlock_verdict:
  "wp (run_restore_unlock h True) (\<lambda>code s'. code = EXIT_SUCCESS \<longrightarrow> settled (trial_events s')) s"
  unfolding run_restore_unlock_def Let_def
  by (intro wp_intros wp_any[of _ "exact_environment _"] wp_any[of _ "read_snapshot _ _ _"]
      wp_untouched[OF untried.wire_say] wp_any[of _ "print_plan _ _ _ _ _"] wp_any[of _ "in_host _"]
      wp_any[of _ fresh_buffers] wp_failed wp_mono[OF unlock_world_verdict]
      wp_untouched[OF untried.wire_buffered] wp_mono[OF wp_report])
     (simp_all add: EXIT_SUCCESS_def EXIT_FAILURE_def)

lemma minimum_never_applied: "apply_confirmed argv \<Longrightarrow> \<not> names argv ''ftst-minimum''"
  by (auto simp: apply_confirmed_def confirms_def names_def strcmp_eq_def c_string_def)

text \<open>C3: When the trial program exits with success after anything but a dry run (a confirmed
  recovery, or an observation), the controller was read in the system baseline for at least a
  minute, properly spaced, since the last write it was sent.\<close>

theorem main_success_settled:
  assumes "run_state (trial_main h argv) s = (EXIT_SUCCESS, s')" and "\<not> only_option argv ''--dry-run''"
  shows "settled (trial_events s')"
proof -
  let ?Q = "\<lambda>code s'. code = EXIT_SUCCESS \<longrightarrow> settled (trial_events s')"
  have kept: "wp (note_live e) Q s1" if "\<And>r s2. trial_events s2 = trial_events s1 \<Longrightarrow> Q r s2"
    for e Q and s1 :: "'a process"
    using that by (simp add: note_live_def wp_State)
  have applied: "a \<Longrightarrow> wp (run_restore h a) ?Q s1" "a \<Longrightarrow> wp (run_restore_unlock h a) ?Q s1"
    for a and s1 :: "'a process"
    using restore_verdict[of h s1] run_restore_unlock_verdict[of h s1] by simp_all
  have "wp (trial_main h argv) ?Q s"
    unfolding trial_main_def Let_def
    by (intro wp_intros wp_any[of _ "say _"] wp_any[of _ "smc_open _"] wp_any[of _ "in_host _"]
        wp_any[of _ "State _"] wp_any[of _ "run_trial _ _ _"] wp_any[of _ "run_ftst_check _ _ _"]
        wp_any[of _ "run_ftst_minimum _ _ _"] wp_mono[OF observe_baseline_verdict]
        wp_mono[OF applied(1)] wp_mono[OF applied(2)] kept)
       (use assms(2) minimum_never_applied in \<open>auto simp: EXIT_SUCCESS_def EXIT_FAILURE_def TRIAL_EXIT_NO_WRITE_def\<close>)
  with assms(1) show ?thesis by (auto dest: wpD)
qed

section \<open>No write\<close>

definition unsent :: "live_event list \<Rightarrow> live_event list \<Rightarrow> bool" where
  "unsent older newer \<longleftrightarrow>
     (\<exists>es. newer = es @ older \<and> list_all (on_wire (\<lambda>_. False)) es)"

lemma unsent_refl: "unsent es es"
  by (simp add: unsent_def)

lemma unsent_trans: "unsent a b \<Longrightarrow> unsent b c \<Longrightarrow> unsent a c"
  unfolding unsent_def by (metis append.assoc list_all_append)

lemma wp_unsent:
  assumes "emits tr (on_wire (\<lambda>_. False)) m" "\<And>r s'. unsent (tr s) (tr s') \<Longrightarrow> Q r s'"
  shows "wp m Q s"
proof (rule wpI)
  fix r s'
  assume "run_state m s = (r, s')"
  with assms(1) obtain es where "tr s' = es @ tr s" "\<forall>e \<in> set es. on_wire (\<lambda>_. False) e"
    by (rule emitsD)
  then show "Q r s'" by (intro assms(2)) (auto simp: unsent_def list_all_iff)
qed

lemma safe_start_unsent:
  "emits wire_log (on_wire (\<lambda>_. False)) (safe_start ((live_backend h cfg)\<lparr>observed_fan_state_change := t\<rparr>))"
proof -
  have none: "asked cfg (\<lambda>_. False) = (\<lambda>_. False)" by (auto simp: asked_def)
  have "emits wire_log (on_wire (asked cfg (\<lambda>_. False)))
      (safe_start ((live_backend h cfg)\<lparr>observed_fan_state_change := t\<rparr>))"
    by (rule wire.trace_safe_start) (auto simp: can_observe_def live_backend_def)
  then show ?thesis by (simp add: none)
qed

lemma check_rejected_unsent:
  "wp (trial_check_ftst (Some (live_backend h cfg)))
     (\<lambda>st w'. st = TRIAL_RUN_BASELINE_REJECTED \<longrightarrow> unsent (wire_log w) (wire_log w')) w"
proof -
  let ?b = "(live_backend h cfg)\<lparr>observed_fan_state_change := True\<rparr>"
  have tracked: "wp (check_ftst_tracked ?b)
      (\<lambda>st w'. st = TRIAL_RUN_BASELINE_REJECTED \<longrightarrow> unsent (wire_log w) (wire_log w')) w"
    for w
    unfolding check_ftst_tracked_def
    by (intro wp_intros wp_unsent[OF safe_start_unsent] wp_mono[OF recover_unlock_verdict]
        wp_any[of _ "call_write_ftst _ _"] wp_any[of _ "watch_effect _ _ _"]
        wp_any[of _ "call_now _"] wp_any[of _ "call_should_stop _"] wp_any[of _ "observed_stable _"]
        wp_any[of _ "trial_restore_unlock _"] wp_any[of _ "State _"])
       (auto split: sum.splits)
  show ?thesis
    unfolding trial_check_ftst_def option.simps
    by (intro wp_intros wp_State[THEN iffD2])
       (simp_all, intro wp_intros wp_State[THEN iffD2] wp_mono[OF tracked], auto simp: wp_return)
qed

lemma rehearse_rejected_unsent:
  "wp (trial_rehearse_ftst_minimum_recovery (Some (live_backend h cfg)) minimum)
     (\<lambda>st w'. st = TRIAL_RUN_BASELINE_REJECTED \<longrightarrow> unsent (wire_log w) (wire_log w')) w"
proof -
  have start: "emits wire_log (on_wire (\<lambda>_. False)) (safe_start (live_backend h cfg))"
    using safe_start_unsent[where h = h and cfg = cfg and t = False] by (simp add: live_backend_def)
  show ?thesis
    unfolding trial_rehearse_ftst_minimum_recovery_def prod.case option.case
    by (intro wp_intros wp_unsent[OF start] wp_mono[OF recover_unlock_verdict]
        wp_any[of _ "call_write_ftst _ _"] wp_any[of _ "rehearse_watch _ _ _ _ _"])
       (auto split: sum.splits simp: unsent_refl)
qed

lemma wp_trial_unsent:
  assumes "\<And>w. wp m (\<lambda>st w'. R st \<longrightarrow> unsent (wire_log w) (wire_log w')) w"
    and "\<And>st s'. R st \<longrightarrow> unsent (live_log s) (live_log s') \<Longrightarrow> Q st s'"
  shows "wp (in_trial m) Q s"
  by (rule wp_in_trial, rule wp_mono[OF assms(1)]) (simp add: world_in_def assms(2))

lemmas quiet_steps =
  wp_unsent[OF sent.wire_environment] wp_unsent[OF sent.wire_checked] wp_unsent[OF sent.wire_say]
  wp_unsent[OF sent.wire_print_plan] wp_unsent[OF sent.wire_in_host] wp_unsent[OF sent.wire_prompts(2)]
  wp_unsent[OF sent.wire_prompts(3)] wp_unsent[OF sent.wire_install] wp_unsent[OF sent.wire_fresh]
  wp_unsent[OF sent.wire_buffered] wp_unsent[OF wire_readback]

lemma exit_codes: "EXIT_FAILURE \<noteq> TRIAL_EXIT_NO_WRITE" "EXIT_SUCCESS \<noteq> TRIAL_EXIT_NO_WRITE"
  by (simp_all add: EXIT_FAILURE_def EXIT_SUCCESS_def TRIAL_EXIT_NO_WRITE_def)

text \<open>C26: Exit code 2 of the Ftst commands means what the program says: no write request was sent to
  the controller in the whole run.\<close>

theorem exit_two_unsent:
  assumes "run_state (run_ftst_check h program apply_it) s = (TRIAL_EXIT_NO_WRITE, s') \<or>
    run_state (run_ftst_minimum h program apply_it) s = (TRIAL_EXIT_NO_WRITE, s')"
  shows "unsent (live_log s) (live_log s')"
proof -
  let ?Q = "\<lambda>code s'. code = TRIAL_EXIT_NO_WRITE \<longrightarrow> unsent (live_log s) (live_log s')"
  have "wp (run_ftst_check h program apply_it) ?Q s"
    unfolding run_ftst_check_def Let_def
    by (intro wp_intros quiet_steps wp_failed
        wp_trial_unsent[OF check_rejected_unsent])
       (auto simp: exit_codes refused_def, ((erule unsent_trans)+, rule unsent_refl)+)
  moreover have "wp (run_ftst_minimum h program apply_it) ?Q s"
    unfolding run_ftst_minimum_def Let_def
    by (intro wp_intros quiet_steps wp_failed
        wp_trial_unsent[OF rehearse_rejected_unsent])
       (auto simp: exit_codes refused_def, ((erule unsent_trans)+, rule unsent_refl)+)
  ultimately show ?thesis using assms by (auto dest: wpD)
qed

end
