(* ===== verification/LiveProperties.thy ===== *)
theory LiveProperties
  imports ProgramFootprint
begin

text \<open>
  The pieces of the live program on their own: the exact-match write of one key, the preflight
  collection, the merge of the event buffers and the end of a sleep.
\<close>

section \<open>Writing one key\<close>

definition requests :: "live_event list \<Rightarrow> smc_key_data list" where
  "requests es = concat (map (\<lambda>e. case e of Sent r \<Rightarrow> [r] | _ \<Rightarrow> []) es)"

definition key_info_request :: "string \<Rightarrow> smc_key_data" where
  "key_info_request name = zero_key_data\<lparr>request_key := fourcc name, command := SMC_READ_KEY_INFO\<rparr>"

lemma requests_simps:
  "requests (Sent r # es) = r # requests es" "requests (SmcError a b # es) = requests es"
  by (simp_all add: requests_def)

lemma wp_transport:
  "(\<And>ok response s'. live_log s' = Sent request # live_log s \<Longrightarrow> Q (ok, response) s') \<Longrightarrow>
   wp (transport_call h request) Q s"
  by (simp add: transport_call_def note_live_def in_host_def wp_def split: prod.splits)

lemma wp_smc_error:
  "(\<And>s'. requests (live_log s') = requests (live_log s) \<Longrightarrow> Q () s') \<Longrightarrow>
   wp (note_live (SmcError a b)) Q s"
  by (simp add: note_live_def wp_State requests_simps)

text \<open>\<open>write_key_exact\<close> first asks for the key's type and size and then sends the write request at
  most once, only when size and byte count agree with the caller's; it reports truthfully whether it
  sent it, and success only if it did.\<close>

theorem write_key_once:
  "case run_state (write_key_exact h name expected_type expected_size bytes n report) s of
     ((ok, attempted), s') \<Rightarrow>
       requests (live_log s') =
         (if attempted then [write_request name expected_size bytes n] else []) @
         key_info_request name # requests (live_log s) \<and>
       ok \<le> attempted \<and> attempted \<le> (n = unat expected_size \<and> n \<le> 32)"
proof -
  let ?Q = "\<lambda>(ok, attempted) s'. requests (live_log s') =
      (if attempted then [write_request name expected_size bytes n] else []) @
      key_info_request name # requests (live_log s) \<and>
      ok \<le> attempted \<and> attempted \<le> (n = unat expected_size \<and> n \<le> 32)"
  have "wp (write_key_exact h name expected_type expected_size bytes n report) ?Q s"
    unfolding write_key_exact_def read_key_info_def
    by (intro wp_intros wp_transport wp_smc_error)
       (auto simp: requests_simps key_info_request_def split: if_splits)
  then show ?thesis by (simp only: wp_def split_def)
qed

section \<open>The preflight\<close>

text \<open>A preflight the program accepts is safe in the sense of the gate, with the plan of its last
  sample, read from keys that name the two fans.\<close>

theorem collected_preflight_safe:
  "yields (pred_option (\<lambda>(preflight, plan', known). preflight_safe preflight \<and> keyed known \<and>
       plan_target plan' 0 = planned_target (fans preflight 0) \<and>
       plan_target plan' 1 = planned_target (fans preflight 1)))
     (collect_preflight h model_text version_text plan)"
  unfolding yields_def
proof
  fix s :: "'a process"
  have "pred_option (\<lambda>p. keyed (snd (snd p)))
      (fst (run_state (collect_preflight h model_text version_text plan) s))"
    using preflight_keyed[of h model_text version_text plan] unfolding yields_def by (rule spec)
  moreover have "wp (collect_preflight h model_text version_text plan)
    (\<lambda>r s'. pred_option (\<lambda>(preflight, plan', known). preflight_safe preflight \<and>
       plan_target plan' 0 = planned_target (fans preflight 0) \<and>
       plan_target plan' 1 = planned_target (fans preflight 1)) r) s"
    unfolding collect_preflight_def
    by (intro wp_intros wp_any[of _ "sample_preflight _ _ _ _"] wp_any[of _ "say _"])
       (auto simp: make_plan_result(1) dest: make_plan_result(2)[where fan = 0]
          make_plan_result(2)[where fan = 1])
  ultimately show "pred_option (\<lambda>(preflight, plan', known). preflight_safe preflight \<and> keyed known \<and>
       plan_target plan' 0 = planned_target (fans preflight 0) \<and>
       plan_target plan' 1 = planned_target (fans preflight 1))
      (fst (run_state (collect_preflight h model_text version_text plan) s))"
    by (auto simp: wp_def split_def split: prod.splits elim!: option.pred_mono_strong)
qed

section \<open>The buffered events\<close>

fun is_write_line :: "live_line \<Rightarrow> bool" where
  "is_write_line (WriteLine t key v ok st) = True"
| "is_write_line line = False"

text \<open>The merged report prints every buffered write and every buffered observation exactly once,
  each in the order it was buffered, and nothing else.\<close>

theorem merge_keeps_order:
  "filter is_write_line (merge_events writes observations) = map write_line writes \<and>
   filter (\<lambda>line. \<not> is_write_line line) (merge_events writes observations) =
     map observe_line observations"
proof (induction writes observations rule: merge_events.induct)
  case (1 writes observations)
  have kinds: "is_write_line (write_line w)" "\<not> is_write_line (observe_line e)" for w e
    by (simp_all add: write_line_def observe_line_def record_line_def)
  show ?case
  proof (cases "writes = [] \<and> observations = []")
    case True
    then show ?thesis by (simp add: merge_events.simps)
  next
    case False
    show ?thesis
    proof (cases "observations \<noteq> [] \<and> (writes = [] \<or> sample_clock (hd observations) < event_time (hd writes))")
      case True
      with 1(1) False kinds show ?thesis
        by (subst (1 2) merge_events.simps) (cases observations, simp_all)
    next
      case other: False
      with False have "writes \<noteq> []" by blast
      with 1(2) False other kinds show ?thesis
        by (subst (1 2) merge_events.simps) (cases writes, auto)
    qed
  qed
qed

section \<open>The end of a sleep\<close>

definition nanoseconds :: "int \<times> int \<Rightarrow> int" where
  "nanoseconds t = fst t * 1000000000 + snd t"

text \<open>What the code relies on: an interrupted \<open>nanosleep\<close> reports less time than it was asked for, and
  not less than none.\<close>

definition sleep_shrinks :: "'d host \<Rightarrow> bool" where
  "sleep_shrinks h \<longleftrightarrow> (\<forall>t d. case fst (run_state (nanosleep h t) d) of
     SleepInterrupted rest \<Rightarrow> 0 \<le> nanoseconds rest \<and> nanoseconds rest < nanoseconds t
   | _ \<Rightarrow> True)"

lemma shrunk:
  assumes "sleep_shrinks h" "nanoseconds t < int (Suc fuel)"
  shows "wp (in_host (nanosleep h t)) (\<lambda>r s'. hung s' = hung s \<and>
    (\<forall>rest. r = SleepInterrupted rest \<longrightarrow> 0 \<le> nanoseconds rest \<and> nanoseconds rest < int fuel)) s"
proof -
  obtain r d where run: "run_state (nanosleep h t) (host_state s) = (r, d)" by fastforce
  have "0 \<le> nanoseconds rest \<and> nanoseconds rest < nanoseconds t" if "r = SleepInterrupted rest" for rest
    using assms(1) that run unfolding sleep_shrinks_def
    by (metis (mono_tags, lifting) fst_conv sleep_outcome.simps(9))
  with run assms(2) show ?thesis by (fastforce simp: in_host_def wp_def)
qed

lemma wp_interrupted_hung: "(\<And>r s'. hung s' = hung s \<Longrightarrow> Q r s') \<Longrightarrow> wp (read_interrupted h) Q s"
  by (simp add: read_interrupted_def in_host_def wp_def on_signal_def Let_def
      split: prod.splits option.splits)

lemma wp_case_outcomeI [wp_intros]:
  "(v = Slept \<Longrightarrow> wp m Q s) \<Longrightarrow> (\<And>rest. v = SleepInterrupted rest \<Longrightarrow> wp (f rest) Q s) \<Longrightarrow>
   (v = SleepFailed \<Longrightarrow> wp n Q s) \<Longrightarrow>
   wp (case v of Slept \<Rightarrow> m | SleepInterrupted rest \<Rightarrow> f rest | SleepFailed \<Rightarrow> n) Q s"
  by (cases v) auto

lemma sleep_through_ends:
  assumes "sleep_shrinks h"
  shows "nanoseconds t < int fuel \<Longrightarrow> 0 \<le> nanoseconds t \<Longrightarrow>
    wp (sleep_through h fuel t) (\<lambda>r s'. hung s' = hung s) s"
proof (induction fuel arbitrary: t s)
  case (Suc fuel)
  show ?case
    by (simp only: sleep_through.simps,
        intro wp_intros wp_mono[OF shrunk[OF assms Suc.prems(1)]] wp_mono[OF Suc.IH]) auto
qed simp

lemma sleep_from_ends:
  assumes "sleep_shrinks h"
  shows "nanoseconds t < int fuel \<Longrightarrow> 0 \<le> nanoseconds t \<Longrightarrow>
    wp (sleep_from h fuel t) (\<lambda>r s'. hung s' = hung s) s"
proof (induction fuel arbitrary: t s)
  case (Suc fuel)
  show ?case
    by (simp only: sleep_from.simps,
        intro wp_intros wp_mono[OF shrunk[OF assms Suc.prems(1)]] wp_mono[OF Suc.IH] wp_interrupted_hung)
       auto
qed simp

text \<open>C38: On a system whose interrupted sleeps report less time each time, both sleeps of the program
  end, however often they are interrupted: a fuel of one more than the nanoseconds asked for is
  never used up.\<close>

theorem sleeps_end:
  assumes "sleep_shrinks h" and "milliseconds * 1000000 < sleep_fuel h"
  shows "hung (snd (run_state (sleep_milliseconds_uninterruptible h milliseconds) s)) = hung s \<and>
         hung (snd (run_state (sleep_milliseconds h milliseconds) s)) = hung s"
proof -
  have "nanoseconds (sleep_request milliseconds) = int (milliseconds * 1000000)"
    using div_mult_mod_eq[of "int milliseconds" 1000]
    unfolding nanoseconds_def sleep_request_def fst_conv snd_conv zdiv_int zmod_int of_nat_mult of_nat_numeral
    by linarith
  with assms have fuel: "nanoseconds (sleep_request milliseconds) < int (sleep_fuel h)"
    "0 \<le> nanoseconds (sleep_request milliseconds)" by linarith+
  show ?thesis
    unfolding sleep_milliseconds_def sleep_milliseconds_uninterruptible_def
    by (intro conjI wp_snd[where P = "\<lambda>s'. hung s' = hung s"] sleep_through_ends[OF assms(1) fuel]
        sleep_from_ends[OF assms(1) fuel])
qed

end
