(* ===== verification/LiveMachine.thy ===== *)
theory LiveMachine
  imports ProgramVerdict LiveProperties
begin

text \<open>
  A concrete controller at rest: a system whose keys are readable and show the baseline, whose clock
  counts the seconds slept and which never signals. On it the confirmed \<open>restore-unlock\<close> succeeds
  and sends no write; the closed examples of the program's properties run on it.
\<close>

section \<open>The controller\<close>

definition rest_entry :: "u32 \<Rightarrow> string \<times> u32 \<times> u8" where
  "rest_entry key =
     (if key = fourcc ''FNum'' then (''ui8 '', 1, 2)
      else if key = fourcc ''Ftst'' then (''ui8 '', 1, 0)
      else if key \<in> {fourcc ''F0md'', fourcc ''F1md''} then (''ui8 '', 1, 3)
      else (''flt '', 4, 0))"

definition rest_reply :: "smc_key_data \<Rightarrow> smc_key_data" where
  "rest_reply r =
     (case rest_entry (request_key r) of (ty, len, byte) \<Rightarrow>
        zero_key_data\<lparr>key_info := \<lparr>info_size = len, info_type = fourcc ty, info_attributes = 0\<rparr>,
          data_bytes := \<lambda>_. byte\<rparr>)"

definition rest_host :: "nat host" where
  "rest_host =
     \<lparr>struct_method = \<lambda>r _. ret (0, 80, rest_reply r),
      matching_service = ret True, open_service = ret 0,
      sysctl_by_name = \<lambda>name. ret (True,
        (if name = ''hw.model'' then ''Mac15,7'' else ''27.0'') @ replicate 25 (CHR 0x00), 9),
      clock_raw = State (\<lambda>k. (Some (int k, 0), k)),
      nanosleep = \<lambda>(s, ns). State (\<lambda>k. (Slept, k + nat s)),
      signal_arrived = ret None, sigaction = \<lambda>_. ret True, effective_uid = ret 0,
      stdin_is_tty = ret False, read_line = \<lambda>_. ret None, real_path = \<lambda>_. ret None,
      set_alarm = \<lambda>_. ret (), sleep_fuel = 1\<rparr>"

definition rest_process :: "nat process" where
  "rest_process = \<lparr>host_state = 0, kernel_status = 0, smc_status = 0, handled_signals = [],
     interrupted = False, sample_time = Fin 0, write_buffer = [], observation_buffer = [],
     observation_overflow = False, hung = False, trial_events = [], live_log = []\<rparr>"

text \<open>What a step may change in the process besides the logs and buffers.\<close>

definition undisturbed :: "nat process \<Rightarrow> nat process \<Rightarrow> bool" where
  "undisturbed s s' \<longleftrightarrow> host_state s' = host_state s \<and> interrupted s' = interrupted s"

lemma undisturbed_trans: "undisturbed a b \<Longrightarrow> undisturbed b c \<Longrightarrow> undisturbed a c"
  by (simp add: undisturbed_def)

lemma fourcc_types: "fourcc_text (fourcc ''ui8 '') = ''ui8 ''" "fourcc_text (fourcc ''flt '') = ''flt ''"
  by code_simp+

definition rest_value :: "string \<Rightarrow> smc_value" where
  "rest_value name = (case rest_entry (fourcc name) of (ty, len, byte) \<Rightarrow>
     \<lparr>value_size = len, value_type = ty, value_bytes = \<lambda>i. if i < unat len then byte else 0\<rparr>)"

lemma rest_transport:
  "wp (transport_call rest_host r) (\<lambda>p s'. p = (True, rest_reply r) \<and> undisturbed s s') s"
  by (auto simp: transport_call_def rest_host_def wp_def in_host_def note_live_def undisturbed_def
      KERN_SUCCESS_def SMC_KEY_DATA_SIZE_def rest_reply_def zero_key_data_def split: prod.splits)

lemma rest_reply_simps:
  "key_info (rest_reply r) = \<lparr>info_size = fst (snd (rest_entry (request_key r))),
     info_type = fourcc (fst (rest_entry (request_key r))), info_attributes = 0\<rparr>"
  "data_bytes (rest_reply r) = (\<lambda>_. snd (snd (rest_entry (request_key r))))"
  by (simp_all add: rest_reply_def split: prod.splits)

lemma rest_entry_ok:
  "fourcc_text (fourcc (fst (rest_entry key))) = fst (rest_entry key)"
  "fst (snd (rest_entry key)) \<noteq> 0" "\<not> 32 < fst (snd (rest_entry key))"
  by (simp_all add: rest_entry_def fourcc_types)

lemma rest_read_key:
  assumes "\<And>s'. undisturbed s s' \<Longrightarrow> Q (Some (rest_value name)) s'"
  shows "wp (read_key rest_host name) Q s"
  unfolding read_key_def read_key_info_def
  by (intro wp_intros wp_mono[OF rest_transport])
     (auto cong: if_cong simp: rest_reply_simps rest_entry_ok rest_value_def split_def
       intro!: assms[unfolded rest_value_def split_def] elim: undisturbed_trans)

text \<open>The snapshot the program takes without metrics, and what the recovery reads from it.\<close>

definition rest_fan :: "nat \<Rightarrow> fan_live" where
  "rest_fan index = zero_fan\<lparr>mode_key := fan_key index ''md'',
     live_mode := rest_value (fan_key index ''md''), target_key := fan_key index ''Tg'',
     live_target := rest_value (fan_key index ''Tg'')\<rparr>"

definition rest_snapshot :: live_snapshot where
  "rest_snapshot = \<lparr>snapshot_fan_count = 2, snapshot_ftst = rest_value ''Ftst'',
     snapshot_fans = (\<lambda>_. zero_fan)(0 := rest_fan 0, Suc 0 := rest_fan (Suc 0)),
     snapshot_temperatures_c = \<lambda>_. Fin 0\<rparr>"

lemma rest_values:
  "rest_value ''FNum'' = \<lparr>value_size = 1, value_type = ''ui8 '', value_bytes = \<lambda>i. if i < 1 then 2 else 0\<rparr>"
  "rest_value ''Ftst'' = \<lparr>value_size = 1, value_type = ''ui8 '', value_bytes = \<lambda>i. if i < 1 then 0 else 0\<rparr>"
  "index < 2 \<Longrightarrow> rest_value (fan_key index ''md'') =
     \<lparr>value_size = 1, value_type = ''ui8 '', value_bytes = \<lambda>i. if i < 1 then 3 else 0\<rparr>"
  "index < 2 \<Longrightarrow> rest_value (fan_key index ''Tg'') =
     \<lparr>value_size = 4, value_type = ''flt '', value_bytes = \<lambda>i. if i < 4 then 0 else 0\<rparr>"
proof -
  have entries: "rest_entry (fourcc ''FNum'') = (''ui8 '', 1, 2)"
    "rest_entry (fourcc ''Ftst'') = (''ui8 '', 1, 0)"
    "rest_entry (fourcc (fan_key 0 ''md'')) = (''ui8 '', 1, 3)"
    "rest_entry (fourcc (fan_key 1 ''md'')) = (''ui8 '', 1, 3)"
    "rest_entry (fourcc (fan_key 0 ''Tg'')) = (''flt '', 4, 0)"
    "rest_entry (fourcc (fan_key 1 ''Tg'')) = (''flt '', 4, 0)"
    by code_simp+
  then show "rest_value ''FNum'' = \<lparr>value_size = 1, value_type = ''ui8 '', value_bytes = \<lambda>i. if i < 1 then 2 else 0\<rparr>"
    "rest_value ''Ftst'' = \<lparr>value_size = 1, value_type = ''ui8 '', value_bytes = \<lambda>i. if i < 1 then 0 else 0\<rparr>"
    by (simp_all add: rest_value_def)
  show "rest_value (fan_key index ''md'') =
     \<lparr>value_size = 1, value_type = ''ui8 '', value_bytes = \<lambda>i. if i < 1 then 3 else 0\<rparr>"
    "rest_value (fan_key index ''Tg'') =
     \<lparr>value_size = 4, value_type = ''flt '', value_bytes = \<lambda>i. if i < 4 then 0 else 0\<rparr>" if "index < 2"
    using entries that by (auto simp: rest_value_def numeral_2_eq_2 less_Suc_eq)
qed

lemma rest_read_snapshot:
  assumes "\<And>s'. undisturbed s s' \<Longrightarrow> Q (Some rest_snapshot) s'"
  shows "wp (read_snapshot rest_host False report) Q s"
proof -
  have fan: "wp (read_fan rest_host index False report) Q s"
    if "\<And>s'. undisturbed s s' \<Longrightarrow> Q (Some (rest_fan index)) s'" for index Q and s
    unfolding read_fan_def read_mode_def key_or_fail_def
    by (intro wp_intros rest_read_key) (auto simp: rest_fan_def Let_def intro!: that[unfolded rest_fan_def]
        elim: undisturbed_trans)
  have two: "read_ui8_exact (rest_value ''FNum'') 0 = (True, 2)"
    by (simp add: rest_values read_ui8_exact_def)
  show ?thesis
    unfolding read_snapshot_def fan_indices_two read_fans.simps
    by (intro wp_intros rest_read_key fan)
       (auto simp: two zero_live_snapshot_def intro!: assms[unfolded rest_snapshot_def]
         elim!: undisturbed_trans)
qed

section \<open>The live backend on it is calm\<close>

definition rest_config :: live_config where
  "rest_config = \<lparr>known_keys = rest_snapshot, allowed_plan = None, buffer_events = True\<rparr>"

definition rest_clock :: "nat \<Rightarrow> nat process \<Rightarrow> bool" where
  "rest_clock k s \<longleftrightarrow> host_state s = k \<and> \<not> interrupted s"

lemma rest_seconds:
  "host_state s < 2 ^ 53 \<Longrightarrow>
   wp (live_seconds rest_host) (\<lambda>t s'. t = Fin (of_nat (host_state s)) \<and> undisturbed s s') s"
proof -
  assume k: "host_state s < 2 ^ 53"
  have "round64 1000000000 = Fin 1000000000" using round64_of_nat[of 1000000000] by simp
  then have zero: "double_of_int 0 / round64 1000000000 = Fin 0"
    by (simp add: double_of_int_def divide_double_def signed_zero_def)
  have "double_of_int (int (host_state s)) = Fin (of_nat (host_state s))"
    using round64_of_nat[OF k] by (simp add: double_of_int_def)
  moreover have "Fin (of_nat (host_state s)) + Fin 0 = Fin (of_nat (host_state s))"
    using round64_of_nat[OF k] by (simp add: signed_zero_def)
  ultimately have sum: "double_of_int (int (host_state s)) + double_of_int 0 / round64 1000000000 =
      Fin (of_nat (host_state s))" by (simp only: zero)
  have "run_state (live_seconds rest_host) s =
      (double_of_int (int (host_state s)) + double_of_int 0 / round64 1000000000, s)"
    by (simp add: live_seconds_def rest_host_def in_host_def)
  then show ?thesis
    by (simp only: wp_def sum prod.case undisturbed_def simp_thms)
qed

lemma rest_observation:
  "read_ui8_exact (snapshot_ftst rest_snapshot) v = (True, 0)"
  "\<exists>out. observe_fans rest_config rest_snapshot False fan_indices (output\<lparr>obs_ftst := 0\<rparr>) = (True, out) \<and>
     (\<forall>m. baseline (out\<lparr>metrics_available := m\<rparr>))"
proof -
  have fans: "snapshot_fans rest_snapshot 0 = rest_fan 0"
    "snapshot_fans rest_snapshot (Suc 0) = rest_fan (Suc 0)"
    by (simp_all add: rest_snapshot_def)
  have known: "known_fan rest_config = snapshot_fans rest_snapshot"
    by (simp add: known_fan_def rest_config_def fun_eq_iff)
  have live: "live_mode (rest_fan i) = rest_value (fan_key i ''md'')"
    "live_target (rest_fan i) = rest_value (fan_key i ''Tg'')" for i
    by (simp_all add: rest_fan_def)
  have zero: "float32_of_bits (little32 (\<lambda>i. 0)) = Fin 0"
    by (simp add: little32_def float32_of_bits_def signed_zero_def)
  have mode: "read_ui8_exact (rest_value (fan_key i ''md'')) m = (True, 3)" if "i < 2" for i m
    using that by (simp add: rest_values read_ui8_exact_def)
  have target: "read_number (rest_value (fan_key i ''Tg'')) d = (True, Fin 0)" if "i < 2" for i d
    using that zero by (simp add: rest_values read_number_def decoded_def Let_def)
  show "read_ui8_exact (snapshot_ftst rest_snapshot) v = (True, 0)"
    by (simp add: rest_snapshot_def rest_values read_ui8_exact_def)
  have same: "keys_unchanged live live" for live
    by (simp add: keys_unchanged_def)
  show "\<exists>out. observe_fans rest_config rest_snapshot False fan_indices (output\<lparr>obs_ftst := 0\<rparr>) = (True, out) \<and>
     (\<forall>m. baseline (out\<lparr>metrics_available := m\<rparr>))"
    by (simp add: fan_indices_two known fans live mode target same Let_def baseline_iff
        system_modes_iff all_less_2)
qed

lemma rest_backend_calm: "calm_backend (live_backend rest_host rest_config) rest_clock"
  unfolding calm_backend_def
proof (intro conjI allI impI)
  show "can_unlock (live_backend rest_host rest_config)"
    by (simp add: can_unlock_iff live_backend_def)
  fix k :: nat and s :: "nat process"
  assume k: "k < 2 ^ 53" and s: "rest_clock k s"
  show "wp (the (should_stop (live_backend rest_host rest_config))) (\<lambda>r s'. \<not> r \<and> rest_clock k s') s"
    using s by (simp add: live_backend_def read_interrupted_def rest_host_def in_host_def wp_def
        rest_clock_def)
  show "wp (the (monotonic_seconds (live_backend rest_host rest_config)))
      (\<lambda>t s'. t = Fin (of_nat k) \<and> rest_clock k s') s"
    using wp_mono[OF rest_seconds[of s]] s k
    by (auto simp: live_backend_def rest_clock_def undisturbed_def elim!: wp_mono)
  show "wp (the (wait_milliseconds (live_backend rest_host rest_config)) 1000)
      (\<lambda>r s'. r \<and> rest_clock (Suc k) s') s"
    using s by (simp add: live_backend_def sleep_milliseconds_uninterruptible_def rest_host_def
        in_host_def wp_def rest_clock_def sleep_request_def)
  fix obs
  show "wp (the (read_observation (live_backend rest_host rest_config)) False obs)
      (\<lambda>(ok, out) s'. ok \<and> baseline out \<and> rest_clock k s') s"
    unfolding live_backend_def backend_read_observation_def rest_config_def[symmetric]
    using s rest_observation(2)[of obs]
    by (auto simp: rest_clock_def undisturbed_def Let_def rest_observation(1)
        intro!: wp_intros rest_read_snapshot)
next
  fix k s f second obs
  assume "rest_clock k s" "record_observation (live_backend rest_host rest_config) = Some f"
  then show "wp (f second obs) (\<lambda>_ s'. rest_clock k s') s"
    by (auto simp: live_backend_def backend_record_def rest_config_def live_seconds_def rest_host_def
        in_host_def wp_def rest_clock_def split: if_splits)
qed

section \<open>A closed run of the program\<close>

abbreviation unlock_command :: "string list" where
  "unlock_command \<equiv> [''smc-write-trial'', ''restore-unlock'', ''--apply'', ''--confirm'',
     ''RESTORE-UNLOCK-Mac15,7-27.0'']"

lemma wp_log: "(\<And>r s'. undisturbed s s' \<Longrightarrow> Q r s') \<Longrightarrow> wp (note_live e) Q s"
  "(\<And>r s'. undisturbed s s' \<Longrightarrow> Q r s') \<Longrightarrow> wp (say text) Q s"
  "(\<And>r s'. undisturbed s s' \<Longrightarrow> Q r s') \<Longrightarrow> wp (print_line line) Q s"
  "(\<And>r s'. undisturbed s s' \<Longrightarrow> Q r s') \<Longrightarrow> wp fresh_buffers Q s"
  by (simp_all add: say_def print_line_def note_live_def fresh_buffers_def wp_State undisturbed_def)

lemma wp_print_plan:
  assumes "\<And>r s'. undisturbed s s' \<Longrightarrow> Q r s'"
  shows "wp (print_plan operation m v snapshot plan) Q s"
proof -
  have fans: "wp (print_fans snapshot plan indices) (\<lambda>_ s'. undisturbed s s') s" for indices s
  proof (induction indices arbitrary: s)
    case (Cons index indices)
    show ?case
      by (simp only: print_fans.simps)
         (intro wp_intros wp_log wp_mono[OF Cons.IH]; auto simp: Let_def split_def wp_return
            intro!: wp_log intro: undisturbed_trans split: option.splits)
  qed (simp add: wp_return undisturbed_def)
  show ?thesis
    unfolding print_plan_def
    by (intro wp_intros wp_log wp_mono[OF fans]) (auto intro: assms undisturbed_trans)
qed

lemma rest_calls:
  "(\<And>s'. undisturbed s s' \<Longrightarrow> Q 0 s') \<Longrightarrow> wp (in_host (effective_uid rest_host)) Q s"
  "(\<And>r s'. undisturbed s s' \<Longrightarrow> Qp r s') \<Longrightarrow> wp (in_host (real_path rest_host p)) Qp s"
  "(\<And>s'. undisturbed s s' \<Longrightarrow> Qb True s') \<Longrightarrow> wp (smc_open rest_host) Qb s"
  by (simp_all add: rest_host_def in_host_def wp_def undisturbed_def smc_open_def note_live_def KERN_SUCCESS_def)

lemma rest_environment:
  assumes "\<And>m v s'. undisturbed s s' \<Longrightarrow> Q (Some (m, v)) s'"
  shows "wp (exact_environment rest_host) Q s"
proof -
  have "run_state (exact_environment rest_host) s =
    (Some ((''Mac15,7'' @ replicate 25 (CHR 0x00))[31 := CHR 0x00],
           (''27.0'' @ replicate 25 (CHR 0x00))[31 := CHR 0x00]), s)"
    by (simp add: exact_environment_def sysctl_string_def rest_host_def in_host_def
        strcmp_eq_def c_string_def TRIAL_EXPECTED_MODEL_def TRIAL_EXPECTED_OS_VERSION_def numeral_eq_Suc)
  then show ?thesis by (simp only: wp_def prod.case) (rule assms, simp add: undisturbed_def)
qed

lemma rest_supported: "restore_keys_supported rest_snapshot"
proof -
  have "strncmp_eq 4 ''flt '' ''flt ''" by simp
  then show ?thesis
    by (simp add: restore_keys_supported_def rest_observation(1) fan_indices_two rest_snapshot_def
        rest_fan_def rest_values read_ui8_exact_def trial_encode_rpm_def exact_type_def Let_def
        del: One_nat_def)
qed

lemma rest_unlock:
  assumes "host_state s = 0" "\<not> interrupted s"
  shows "wp (run_restore_unlock rest_host True) (\<lambda>code s'. code = EXIT_SUCCESS) s"
proof -
  have unlock: "wp (in_trial (trial_restore_unlock (Some (live_backend rest_host
      \<lparr>known_keys = current, allowed_plan = None, buffer_events = True\<rparr>)))) (\<lambda>r s'. r) s"
    if "current = rest_snapshot" "host_state s = 0" "\<not> interrupted s" for s current
    unfolding that(1) rest_config_def[symmetric]
    by (rule wp_in_trial, rule wp_mono[OF calm_restore_unlock[OF rest_backend_calm, where k = 0]])
       (use that in \<open>simp_all add: world_in_def rest_clock_def\<close>)
  show ?thesis
    unfolding run_restore_unlock_def Let_def
    by (intro wp_intros rest_environment rest_read_snapshot wp_log rest_calls wp_print_plan
        wp_mono[OF unlock] wp_any[of _ print_buffered_events]
        wp_any[of _ "print_ftst_readback _ _ _"])
       (use assms in \<open>auto simp: rest_supported rest_observation(1) undisturbed_def\<close>)
qed

lemma rest_main: "fst (run_state (trial_main rest_host unlock_command) rest_process) = EXIT_SUCCESS"
proof -
  have flags: "names unlock_command ''restore-unlock''" "apply_confirmed unlock_command"
    "\<not> names unlock_command ''trial''" "\<not> names unlock_command ''restore''"
    "\<not> names unlock_command ''ftst-check''" "\<not> names unlock_command ''ftst-minimum''"
    "\<not> names unlock_command ''observe-baseline''"
    "\<not> confirms unlock_command ''ftst-check'' ''--apply-reviewed'' ''FTST-REVIEWED-Mac15,7-27.0''"
    "\<not> confirms unlock_command ''ftst-minimum'' ''--apply-reviewed'' ''FTST-MINIMUM-Mac15,7-27.0''"
    by (simp_all add: names_def confirms_def apply_confirmed_def strcmp_eq_def c_string_def)
  have reset: "wp (State (\<lambda>s. ((), s\<lparr>kernel_status := 0, smc_status := 0\<rparr>))) Q s"
    if "\<And>r s'. undisturbed s s' \<Longrightarrow> Q r s'" for Q s
    using that by (simp add: wp_State undisturbed_def)
  have "wp (trial_main rest_host unlock_command) (\<lambda>code s'. code = EXIT_SUCCESS) rest_process"
    unfolding trial_main_def Let_def
    by (simp only: flags simp_thms if_True if_False not_True_eq_False not_False_eq_True)
       (intro wp_intros reset rest_calls wp_log wp_mono[OF rest_unlock],
        auto simp: undisturbed_def rest_process_def)
  then show ?thesis by (rule wp_fst)
qed

lemma main_success_settled_witness:
  "settled (trial_events (snd (run_state (trial_main rest_host unlock_command) rest_process)))"
proof (rule main_success_settled)
  show "run_state (trial_main rest_host unlock_command) rest_process =
    (EXIT_SUCCESS, snd (run_state (trial_main rest_host unlock_command) rest_process))"
    using rest_main by (simp add: prod_eq_iff)
  show "\<not> only_option unlock_command ''--dry-run''" by (simp add: only_option_def)
qed

text \<open>On another machine the Ftst check stops before anything is sent.\<close>

definition other_host :: "nat host" where
  "other_host = rest_host\<lparr>sysctl_by_name := \<lambda>name. ret (False, [], 0)\<rparr>"

lemma exit_two_unsent_witness:
  "unsent (live_log rest_process)
     (live_log (snd (run_state (run_ftst_check other_host ''smc-write-trial'' True) rest_process)))"
proof (rule exit_two_unsent[OF disjI1])
  have "run_state (run_ftst_check other_host ''smc-write-trial'' True) rest_process =
    (TRIAL_EXIT_NO_WRITE, snd (run_state (say ''cannot read hw.model or kern.osproductversion'') rest_process))"
    by (simp add: run_ftst_check_def exact_environment_def sysctl_string_def other_host_def
        in_host_def say_def note_live_def rest_process_def refused_def)
  then show "run_state (run_ftst_check other_host ''smc-write-trial'' True) rest_process =
    (TRIAL_EXIT_NO_WRITE,
     snd (run_state (run_ftst_check other_host ''smc-write-trial'' True) rest_process))"
    by simp
qed

text \<open>A system that interrupts every sleep half way.\<close>

definition restless_host :: "nat host" where
  "restless_host = rest_host\<lparr>nanosleep := \<lambda>t. State (\<lambda>k.
     (if 0 < nanoseconds t then SleepInterrupted (0, nanoseconds t div 2) else Slept, k)),
     sleep_fuel := 3000000\<rparr>"

lemma sleeps_end_witness:
  "\<not> hung (snd (run_state (sleep_milliseconds_uninterruptible restless_host 2) rest_process))"
proof -
  have "sleep_shrinks restless_host" "2 * 1000000 < sleep_fuel restless_host"
    by (auto simp: sleep_shrinks_def restless_host_def nanoseconds_def)
  from sleeps_end[OF this, of rest_process] show ?thesis by (simp add: rest_process_def)
qed

end
