(* ===== verification/TrialExamples.thy ===== *)
theory TrialExamples
  imports SmcCodec
begin

text \<open>Closed examples for the properties of the trial's pure decisions and of the codec.\<close>

definition example_fan :: trial_fan_state where
  "example_fan = \<lparr>actual_rpm = Fin 1500, target_rpm = Fin 0, min_rpm = Fin 1200, max_rpm = Fin 6000,
     fan_mode = 3, mode_type = ''ui8 '', mode_size = 1, target_type = ''flt '', target_size = 4\<rparr>"

definition example_input :: trial_preflight where
  "example_input = \<lparr>model = Some ''Mac15,7'', os_version = Some ''27.0'', fan_count = 2, ftst = 0,
     ftst_type = ''ui8 '', ftst_size = 1, fans = \<lambda>_. example_fan,
     temperatures_c = \<lambda>_ _. Fin 40\<rparr>"

definition example_plan :: trial_plan where
  "example_plan = \<lparr>plan_target = \<lambda>_. Fin 0\<rparr>"

lemma example_target: "planned_target example_fan = Fin 1800"
  by (simp add: planned_target_def example_fan_def fmax_def)

lemma example_safe: "preflight_safe example_input"
  by (simp add: preflight_safe_def example_input_def fan_ready_def has_headroom_def example_target)
     (simp add: example_fan_def supported_target_type_def exact_type_def temperature_safe_def
       minus_self)

lemma example_accepted:
  "trial_make_plan (Some example_input) (Some example_plan) None 0 =
   (True, Some (example_plan\<lparr>plan_target := (plan_target example_plan)(0 := Fin 1800, 1 := Fin 1800)\<rparr>),
    snd (snd (trial_make_plan (Some example_input) (Some example_plan) None 0)))"
  using make_plan_cases[of example_input example_plan None 0] example_safe
  by (auto simp: prod_eq_iff example_target example_input_def)

lemma is_double_int: "\<bar>i\<bar> < 2 ^ 53 \<Longrightarrow> is_double (Fin (of_int i))"
  unfolding is_double_def fval.simps by (rule exact64_of_int)

lemma example_doubles:
  "is_double (actual_rpm example_fan)" "is_double (min_rpm example_fan)" "is_double (Fin 1800)"
  using is_double_int[of 1500] is_double_int[of 1200] is_double_int[of 1800]
  by (simp_all add: example_fan_def)

lemma plan_target_bounds_witness:
  "fval (Fin 1800) \<le> fval (max_rpm example_fan)"
  using plan_target_bounds[OF example_accepted, of 0] example_doubles
  by (simp add: example_input_def example_fan_def Let_def)

lemma write_gate_sound_witness:
  "\<bar>fval (Fin 1800) - 1800\<bar> < (1 / 64 :: rat)"
proof -
  have "trial_target_write_allowed (Some \<lparr>plan_target = \<lambda>_. Fin 1800\<rparr>) 0 (Fin 1800)"
    by (simp add: trial_target_write_allowed_def minus_self round64_001 abs_double_def)
  from write_gate_sound[OF this] show ?thesis by simp
qed

lemma plan_targets_writable_witness:
  "trial_target_write_allowed
     (Some (example_plan\<lparr>plan_target := (plan_target example_plan)(0 := Fin 1800, 1 := Fin 1800)\<rparr>)) 0
     (Fin 1800)"
  using plan_targets_writable[OF example_accepted, of 0 "\<lambda>_. 0" 0] example_doubles
  by (simp add: example_input_def example_fan_def)

lemma reached_target_sound_witness: "fval (Fin 1500) < fval (Fin 1700)"
proof -
  have "trial_actual_reached_target (Fin 1500) (Fin 1700) (Fin 1800)"
  proof -
    have "Fin 1700 - Fin 1800 = round64 (- 100)" by (simp add: minus_double_def)
    moreover have "round64 (- 100) = Fin (- 100)" using round64_exact[OF exact64_of_int[of "- 100"]] by simp
    moreover have "Fin 250 \<le> fmax (Fin 250) (Fin 1800 * round64 (15 / 100))"
      by (cases "Fin 1800 * round64 (15 / 100)") (auto simp: fmax_def)
    ultimately show ?thesis
      by (cases "fmax (Fin 250) (Fin 1800 * round64 (15 / 100))")
         (auto simp: trial_actual_reached_target_def Let_def abs_double_def)
  qed
  from reached_target_sound[OF this] show ?thesis by simp
qed

lemma float_1800: "to_float32 (Fin 1800) = Fin 1800"
  by code_simp

lemma encode_flt_roundtrip_witness:
  "\<exists>out'. trial_encode_rpm (Some ''flt '') 4 (Fin 1800) (Some (\<lambda>_. 0)) (Some 0) = (True, Some out', Some 4) \<and>
    read_number \<lparr>value_size = 4, value_type = ''flt '', value_bytes = out'\<rparr> (Fin 0) =
      (True, Fin 1800)"
  using encode_flt_roundtrip[of "Fin 1800" "''flt ''" "\<lambda>_. 0" 0 "Fin 0"] float_1800
  by (auto simp: Let_def)

lemma encode_fpe2_roundtrip_witness:
  "\<exists>out' q. trial_encode_rpm (Some ''fpe2'') 2 (Fin 1800) (Some (\<lambda>_. 0)) (Some 0) = (True, Some out', Some 2) \<and>
    read_number \<lparr>value_size = 2, value_type = ''fpe2'', value_bytes = out'\<rparr> (Fin 0) = (True, Fin q) \<and>
    q \<le> 1800"
  using encode_fpe2_roundtrip[of "Fin 1800" "''fpe2''" "\<lambda>_. 0" 0 "Fin 0"] example_doubles(3)
  by simp blast

section \<open>A plan the transport cannot carry out\<close>

text \<open>A fan with an fpe2 target key that runs at 17000 of at most 20000 RPM.\<close>

definition fast_fan :: trial_fan_state where
  "fast_fan = example_fan\<lparr>actual_rpm := Fin 17000, max_rpm := Fin 20000, target_type := ''fpe2'',
     target_size := 2\<rparr>"

definition fast_input :: trial_preflight where
  "fast_input = example_input\<lparr>fans := \<lambda>_. fast_fan\<rparr>"

lemma fast_target: "planned_target fast_fan = Fin 17300"
  by (simp add: planned_target_def fast_fan_def example_fan_def fmax_def)

lemma fast_safe: "preflight_safe fast_input"
  using example_safe
  by (simp add: preflight_safe_def fast_input_def example_input_def fan_ready_def has_headroom_def
        fast_target)
     (simp add: fast_fan_def example_fan_def supported_target_type_def exact_type_def)

text \<open>The preflight gate and the encoder disagree on fast fpe2 fans: an input whose fans run at
  17000 RPM is accepted with a target of 17300 RPM, and the encoder refuses that target for the
  fan's key.\<close>

lemma fast_plan_unencodable:
  "fst (trial_make_plan (Some fast_input) (Some example_plan) None 0) \<and>
   plan_target (the (fst (snd (trial_make_plan (Some fast_input) (Some example_plan) None 0)))) 0 =
     Fin 17300 \<and>
   \<not> fst (trial_encode_rpm (Some (target_type fast_fan)) (target_size fast_fan) (Fin 17300)
            (Some out) (Some n))"
  using make_plan_cases[of fast_input example_plan None 0] fast_safe
  by (simp add: fast_input_def fast_target)
     (simp add: trial_encode_rpm_def fast_fan_def exact_type_def strncmp_eq_def c_string_def)

end
