(* ===== verification/SamplingWindow.thy ===== *)
theory SamplingWindow
  imports SmcBaseline
begin

text \<open>
  What the helper's two observers have in common. \<open>BaselineWatch.c\<close> and \<open>ControlLease.c\<close> are both
  fed one reading a second and both conclude that the fans are back under system control; the locale
  \<open>sampling_window\<close> is the contract they share. Under it a conclusion always rests on evidence: an
  unbroken run of at least sixty further readings, each of them the system baseline, each 0.9 to 5
  seconds after the one before, spanning at least a minute of continuous time.

  Times are 64-bit nanosecond counts; \<open>accepted\<close> demands that they increase, so the unsigned
  differences of the code are true differences.
\<close>

type_synonym reading = "smc_baseline_result \<times> smc_baseline_snapshot option \<times> u64"

definition SAMPLE_MIN_GAP_NS :: u64 where "SAMPLE_MIN_GAP_NS = 900000000"
definition SAMPLE_MAX_GAP_NS :: u64 where "SAMPLE_MAX_GAP_NS = 5000000000"
definition WINDOW_NS :: u64 where "WINDOW_NS = 60000000000"

fun reading_time :: "reading \<Rightarrow> u64" where
  "reading_time (result, snapshot, now_ns) = now_ns"

fun accepted :: "u64 \<Rightarrow> reading \<Rightarrow> bool" where
  "accepted previous (result, snapshot, now_ns) \<longleftrightarrow>
     result = SMC_BASELINE_OK \<and> smc_baseline_is_system snapshot \<and> previous < now_ns \<and>
     SAMPLE_MIN_GAP_NS \<le> now_ns - previous \<and> now_ns - previous \<le> SAMPLE_MAX_GAP_NS"

fun accepted_run :: "u64 \<Rightarrow> reading list \<Rightarrow> bool" where
  "accepted_run previous [] \<longleftrightarrow> True"
| "accepted_run previous (r # rs) \<longleftrightarrow> accepted previous r \<and> accepted_run (reading_time r) rs"

definition end_time :: "u64 \<Rightarrow> reading list \<Rightarrow> u64" where
  "end_time t0 rs = (if rs = [] then t0 else reading_time (last rs))"

text \<open>The evidence that the readings \<open>rs\<close>, taken after a first one at \<open>t0\<close>, give.\<close>

definition window_evidence :: "u64 \<Rightarrow> reading list \<Rightarrow> bool" where
  "window_evidence t0 rs \<longleftrightarrow>
     60 \<le> length rs \<and> accepted_run t0 rs \<and>
     unat t0 + unat WINDOW_NS \<le> unat (end_time t0 rs)"

lemma end_time_simps [simp]:
  "end_time t0 [] = t0" "end_time t0 (rs @ [r]) = reading_time r"
  "end_time t0 (r # rs) = end_time (reading_time r) rs"
  by (simp_all add: end_time_def)

lemma accepted_run_append:
  "accepted_run t0 (rs @ rs') \<longleftrightarrow> accepted_run t0 rs \<and> accepted_run (end_time t0 rs) rs'"
  by (induction rs arbitrary: t0) auto

lemma accepted_less: "accepted t0 r \<Longrightarrow> t0 < reading_time r"
  by (cases r) auto

lemma accepted_run_le: "accepted_run t0 rs \<Longrightarrow> t0 \<le> end_time t0 rs"
proof (induction rs arbitrary: t0)
  case (Cons r rs)
  then have "t0 < reading_time r" "reading_time r \<le> end_time (reading_time r) rs"
    by (auto dest: accepted_less)
  then show ?case by simp
qed simp

lemma unat_span:
  fixes a b :: u64
  assumes "a \<le> b" "c \<le> b - a"
  shows "unat a + unat c \<le> unat b"
proof -
  have "unat (b - a) = unat b - unat a" using assms(1) by (simp add: unat_sub)
  moreover have "unat a \<le> unat b" "unat c \<le> unat (b - a)"
    using assms by (simp_all add: word_le_nat_alt)
  ultimately show ?thesis by linarith
qed

locale sampling_window =
  fixes sample :: "'s \<Rightarrow> 'i \<Rightarrow> 's" and reading :: "'i \<Rightarrow> reading"
    and active stable :: "'s \<Rightarrow> bool"
    and count :: "'s \<Rightarrow> u32" and started latest_ns :: "'s \<Rightarrow> u64"
  assumes exclusive: "active s \<Longrightarrow> \<not> stable s"
    and idle: "\<not> active s \<Longrightarrow> sample s i = s"
    and accepts: "active s \<Longrightarrow> active (sample s i) \<or> stable (sample s i) \<Longrightarrow>
      accepted (latest_ns s) (reading i) \<and> latest_ns (sample s i) = reading_time (reading i) \<and>
      started (sample s i) = started s \<and> count (sample s i) = count s + 1"
    and completes: "active s \<Longrightarrow> stable (sample s i) \<Longrightarrow>
      61 \<le> count (sample s i) \<and> WINDOW_NS \<le> latest_ns (sample s i) - started s"
begin

fun feed :: "'s \<Rightarrow> 'i list \<Rightarrow> 's" where
  "feed s [] = s"
| "feed s (i # inputs) = feed (sample s i) inputs"

text \<open>What an observer knows after the readings \<open>rs\<close>, which followed a first one at \<open>t0\<close>.\<close>

definition tracks :: "u64 \<Rightarrow> reading list \<Rightarrow> 's \<Rightarrow> bool" where
  "tracks t0 rs s \<longleftrightarrow> started s = t0 \<and> accepted_run t0 rs \<and> latest_ns s = end_time t0 rs \<and>
     unat (count s) \<le> Suc (length rs)"

lemma unat_Suc_le: "unat (x :: u32) \<le> n \<Longrightarrow> unat (x + 1) \<le> Suc n"
  using mod_less_eq_dividend[of "unat x + 1" "2 ^ 32"] by (simp add: unat_word_ariths)

lemma tracks_sample:
  assumes "tracks t0 rs s" "active s" "active (sample s i) \<or> stable (sample s i)"
  shows "tracks t0 (rs @ [reading i]) (sample s i)"
  using accepts[OF assms(2,3)] assms(1)
  by (auto simp: tracks_def accepted_run_append intro: unat_Suc_le)

lemma tracks_evidence:
  assumes "tracks t0 rs s" "active s" "stable (sample s i)"
  shows "window_evidence t0 (rs @ [reading i])"
proof -
  have t: "tracks t0 (rs @ [reading i]) (sample s i)"
    using tracks_sample[OF assms(1,2)] assms(3) by blast
  moreover have c: "61 \<le> count (sample s i)" "WINDOW_NS \<le> latest_ns (sample s i) - t0"
    using completes[OF assms(2,3)] assms(1) by (simp_all add: tracks_def)
  then have "61 \<le> unat (count (sample s i))" by (simp add: word_le_nat_alt)
  moreover have "t0 \<le> end_time t0 (rs @ [reading i])"
    by (rule accepted_run_le) (use t in \<open>simp add: tracks_def\<close>)
  ultimately show ?thesis
    using unat_span[of t0 "end_time t0 (rs @ [reading i])" WINDOW_NS] c(2)
    by (auto simp: tracks_def window_evidence_def)
qed

lemma idle_feed: "\<not> active s \<Longrightarrow> feed s inputs = s"
  by (induction inputs) (simp_all add: idle)

lemma feed_evidence:
  assumes "tracks t0 rs s" "active s" "stable (feed s inputs)"
  shows "\<exists>k. window_evidence t0 (rs @ map reading (take k inputs))"
  using assms
proof (induction inputs arbitrary: rs s)
  case Nil
  then show ?case using exclusive by simp
next
  case (Cons i inputs)
  consider "active (sample s i)" | "\<not> active (sample s i)" "stable (sample s i)"
    using Cons.prems(3) idle_feed by fastforce
  then show ?case
  proof cases
    case 1
    then have "tracks t0 (rs @ [reading i]) (sample s i)"
      using tracks_sample Cons.prems by blast
    then obtain k where "window_evidence t0 ((rs @ [reading i]) @ map reading (take k inputs))"
      using Cons.IH[of "rs @ [reading i]" "sample s i"] 1 Cons.prems(3) by auto
    then show ?thesis by (intro exI[of _ "Suc k"]) simp
  next
    case 2
    then have "window_evidence t0 (rs @ [reading i])"
      using tracks_evidence Cons.prems by blast
    then show ?thesis by (intro exI[of _ 1]) simp
  qed
qed

end

end
