(* ===== verification/BaselineWatch.thy ===== *)
theory BaselineWatch
  imports SamplingWindow
begin

text \<open>
  The helper's passive baseline watch, \<open>prototype/helper-ipc/BaselineWatch.c\<close>: a reducer fed one
  snapshot a second that ends \<open>STABLE\<close> at second 60 or stops at the first deviation, failed read or
  bad timing. A pointer argument that may be NULL is an \<open>option\<close>; the watch pointer is one too.
\<close>

definition BASELINE_WATCH_LAST_SECOND :: u32 where "BASELINE_WATCH_LAST_SECOND = 60"
definition BASELINE_WATCH_MIN_GAP_NS :: u64 where "BASELINE_WATCH_MIN_GAP_NS = 900000000"
definition BASELINE_WATCH_MAX_GAP_NS :: u64 where "BASELINE_WATCH_MAX_GAP_NS = 5000000000"
definition BASELINE_WATCH_DURATION_NS :: u64 where "BASELINE_WATCH_DURATION_NS = 60000000000"

lemmas watch_constants = BASELINE_WATCH_LAST_SECOND_def BASELINE_WATCH_MIN_GAP_NS_def
  BASELINE_WATCH_MAX_GAP_NS_def BASELINE_WATCH_DURATION_NS_def SAMPLE_MIN_GAP_NS_def
  SAMPLE_MAX_GAP_NS_def WINDOW_NS_def

datatype baseline_watch_status =
    BASELINE_WATCH_IDLE
  | BASELINE_WATCH_RUNNING
  | BASELINE_WATCH_STABLE
  | BASELINE_WATCH_CHANGED
  | BASELINE_WATCH_READ_FAILED

record baseline_watch =
  watch_status :: baseline_watch_status
  watch_samples :: u32
  watch_last_second :: u32
  last_read_result :: smc_baseline_result
  latest :: smc_baseline_snapshot
  started_continuous_ns :: u64
  last_continuous_ns :: u64
  timing_failed :: bool

definition zero_watch :: baseline_watch where
  "zero_watch = \<lparr>watch_status = BASELINE_WATCH_IDLE, watch_samples = 0, watch_last_second = 0,
     last_read_result = SMC_BASELINE_OK, latest = zero_snapshot, started_continuous_ns = 0,
     last_continuous_ns = 0, timing_failed = False\<rparr>"

definition baseline_watch_begin ::
  "baseline_watch option \<Rightarrow> smc_baseline_result \<Rightarrow> smc_baseline_snapshot option \<Rightarrow> u64 \<Rightarrow>
   baseline_watch option" where
  "baseline_watch_begin watch result snapshot sampled_ns =
     (case watch of
        None \<Rightarrow> None
      | Some _ \<Rightarrow>
          let watch = zero_watch\<lparr>last_read_result := result\<rparr>
          in case snapshot of
               None \<Rightarrow> Some (watch\<lparr>watch_status := BASELINE_WATCH_READ_FAILED\<rparr>)
             | Some snap \<Rightarrow>
                 if result \<noteq> SMC_BASELINE_OK
                 then Some (watch\<lparr>watch_status := BASELINE_WATCH_READ_FAILED\<rparr>)
                 else if sampled_ns = 0
                 then Some (watch\<lparr>watch_status := BASELINE_WATCH_READ_FAILED, timing_failed := True\<rparr>)
                 else Some (watch\<lparr>watch_samples := 1, latest := snap,
                        started_continuous_ns := sampled_ns, last_continuous_ns := sampled_ns,
                        watch_status := if smc_baseline_is_system snapshot
                                        then BASELINE_WATCH_RUNNING else BASELINE_WATCH_CHANGED\<rparr>))"

definition baseline_watch_next ::
  "baseline_watch option \<Rightarrow> u32 \<Rightarrow> smc_baseline_result \<Rightarrow> smc_baseline_snapshot option \<Rightarrow> u64 \<Rightarrow>
   baseline_watch option" where
  "baseline_watch_next watch_ptr second result snapshot sampled_ns =
     (case watch_ptr of
        None \<Rightarrow> None
      | Some watch \<Rightarrow>
          if watch_status watch \<noteq> BASELINE_WATCH_RUNNING then Some watch
          else if second \<noteq> watch_last_second watch + 1 \<or> BASELINE_WATCH_LAST_SECOND < second \<or>
                  result \<noteq> SMC_BASELINE_OK \<or> snapshot = None
          then Some (watch\<lparr>watch_status := BASELINE_WATCH_READ_FAILED,
                 last_read_result := if result = SMC_BASELINE_OK
                                     then SMC_BASELINE_UNEXPECTED_FORMAT else result\<rparr>)
          else if sampled_ns \<le> last_continuous_ns watch \<or>
                  sampled_ns - last_continuous_ns watch < BASELINE_WATCH_MIN_GAP_NS \<or>
                  BASELINE_WATCH_MAX_GAP_NS < sampled_ns - last_continuous_ns watch \<or>
                  (second = BASELINE_WATCH_LAST_SECOND \<and>
                   sampled_ns - started_continuous_ns watch < BASELINE_WATCH_DURATION_NS)
          then Some (watch\<lparr>watch_status := BASELINE_WATCH_READ_FAILED, timing_failed := True\<rparr>)
          else let watch = watch\<lparr>latest := the snapshot, watch_samples := watch_samples watch + 1,
                             watch_last_second := second, last_continuous_ns := sampled_ns\<rparr>
               in if \<not> smc_baseline_is_system snapshot
                  then Some (watch\<lparr>watch_status := BASELINE_WATCH_CHANGED\<rparr>)
                  else if second = BASELINE_WATCH_LAST_SECOND
                  then Some (watch\<lparr>watch_status := BASELINE_WATCH_STABLE\<rparr>)
                  else Some watch)"

fun baseline_watch_status_name :: "baseline_watch_status \<Rightarrow> string" where
  "baseline_watch_status_name BASELINE_WATCH_IDLE = ''idle''"
| "baseline_watch_status_name BASELINE_WATCH_RUNNING = ''running''"
| "baseline_watch_status_name BASELINE_WATCH_STABLE = ''stable''"
| "baseline_watch_status_name BASELINE_WATCH_CHANGED = ''changed''"
| "baseline_watch_status_name BASELINE_WATCH_READ_FAILED = ''read_failed''"

section \<open>The watch as a sampling window\<close>

text \<open>The well-formed running watch: the second counter and the sample counter agree.\<close>

definition watch_wf :: "baseline_watch \<Rightarrow> bool" where
  "watch_wf watch \<longleftrightarrow> watch_samples watch = watch_last_second watch + 1"

definition watch_active :: "baseline_watch \<Rightarrow> bool" where
  "watch_active watch \<longleftrightarrow> watch_wf watch \<and> watch_status watch = BASELINE_WATCH_RUNNING"

definition watch_stable :: "baseline_watch \<Rightarrow> bool" where
  "watch_stable watch \<longleftrightarrow> watch_wf watch \<and> watch_status watch = BASELINE_WATCH_STABLE"

fun watch_sample :: "baseline_watch \<Rightarrow> u32 \<times> reading \<Rightarrow> baseline_watch" where
  "watch_sample watch (second, result, snapshot, now_ns) =
     (if watch_wf watch then the (baseline_watch_next (Some watch) second result snapshot now_ns)
      else watch)"

lemma next_some: "\<exists>watch'. baseline_watch_next (Some watch) second r snap t = Some watch'"
  by (simp add: baseline_watch_next_def Let_def)

lemma next_idle:
  "watch_status watch \<noteq> BASELINE_WATCH_RUNNING \<Longrightarrow>
   baseline_watch_next (Some watch) second r snap t = Some watch"
  by (simp add: baseline_watch_next_def)

text \<open>A running watch that goes on or completes has accepted the reading.\<close>

lemma next_accepts:
  assumes "baseline_watch_next (Some watch) second r snap t = Some watch'"
    and "watch_status watch = BASELINE_WATCH_RUNNING"
    and "watch_status watch' = BASELINE_WATCH_RUNNING \<or> watch_status watch' = BASELINE_WATCH_STABLE"
  shows "accepted (last_continuous_ns watch) (r, snap, t) \<and> second = watch_last_second watch + 1 \<and>
    watch_last_second watch' = second \<and> watch_samples watch' = watch_samples watch + 1 \<and>
    last_continuous_ns watch' = t \<and> started_continuous_ns watch' = started_continuous_ns watch \<and>
    (watch_status watch' = BASELINE_WATCH_STABLE \<longrightarrow>
       second = 60 \<and> WINDOW_NS \<le> t - started_continuous_ns watch)"
  using assms
  by (cases snap) (auto simp: baseline_watch_next_def watch_constants Let_def not_less not_le
      split: if_splits)

lemma next_wf:
  assumes "baseline_watch_next (Some watch) second r snap t = Some watch'" "watch_wf watch"
  shows "watch_wf watch'"
  using assms by (auto simp: baseline_watch_next_def watch_wf_def Let_def add.commute[of 1]
      split: if_splits)

lemma begin_some: "\<exists>watch'. baseline_watch_begin (Some watch) r snap t = Some watch'"
  by (cases snap) (simp_all add: baseline_watch_begin_def Let_def)

interpretation watch: sampling_window watch_sample snd watch_active watch_stable watch_samples
  started_continuous_ns last_continuous_ns
proof (unfold_locales)
  fix s :: baseline_watch and i :: "u32 \<times> reading"
  obtain second r snap t where i: "i = (second, r, snap, t)" by (metis prod_cases4)
  obtain s' where s': "baseline_watch_next (Some s) second r snap t = Some s'"
    using next_some by blast
  show "watch_active s \<Longrightarrow> \<not> watch_stable s" by (simp add: watch_active_def watch_stable_def)
  show "\<not> watch_active s \<Longrightarrow> watch_sample s i = s"
    by (auto simp: i watch_active_def next_idle)
  assume a: "watch_active s"
  then have s: "watch_sample s i = s'" "watch_status s = BASELINE_WATCH_RUNNING" "watch_wf s"
    using s' by (auto simp: i watch_active_def)
  show "accepted (last_continuous_ns s) (snd i) \<and>
        last_continuous_ns (watch_sample s i) = reading_time (snd i) \<and>
        started_continuous_ns (watch_sample s i) = started_continuous_ns s \<and>
        watch_samples (watch_sample s i) = watch_samples s + 1"
    if "watch_active (watch_sample s i) \<or> watch_stable (watch_sample s i)"
    using next_accepts[OF s' s(2)] that s
    by (auto simp: i watch_active_def watch_stable_def simp del: accepted.simps)
  show "61 \<le> watch_samples (watch_sample s i) \<and>
        WINDOW_NS \<le> last_continuous_ns (watch_sample s i) - started_continuous_ns s"
    if "watch_stable (watch_sample s i)"
    using next_accepts[OF s' s(2)] that s by (auto simp: watch_stable_def watch_wf_def)
qed

section \<open>Runs of the watch\<close>

text \<open>The calls of the controller: \<open>begin\<close> with a first reading, then \<open>next\<close> for every second.\<close>

fun watch_feed :: "baseline_watch option \<Rightarrow> (u32 \<times> reading) list \<Rightarrow> baseline_watch option" where
  "watch_feed watch [] = watch"
| "watch_feed watch ((second, result, snapshot, now_ns) # inputs) =
     watch_feed (baseline_watch_next watch second result snapshot now_ns) inputs"

definition watch_run :: "reading \<Rightarrow> (u32 \<times> reading) list \<Rightarrow> baseline_watch option" where
  "watch_run first inputs =
     (case first of (result, snapshot, now_ns) \<Rightarrow>
        watch_feed (baseline_watch_begin (Some zero_watch) result snapshot now_ns) inputs)"

lemma watch_feed_eq:
  "watch_wf watch \<Longrightarrow> watch_feed (Some watch) inputs = Some (watch.feed watch inputs)"
proof (induction inputs arbitrary: watch)
  case (Cons i inputs)
  obtain second r snap t where i: "i = (second, r, snap, t)" by (metis prod_cases4)
  obtain w' where "baseline_watch_next (Some watch) second r snap t = Some w'"
    using next_some by blast
  with Cons next_wf show ?case by (simp add: i)
qed simp

lemma begin_active:
  assumes "baseline_watch_begin (Some w0) r snap t = Some watch"
    and "watch_status watch = BASELINE_WATCH_RUNNING \<or> watch_status watch = BASELINE_WATCH_STABLE"
  shows "r = SMC_BASELINE_OK \<and> smc_baseline_is_system snap \<and> watch_active watch \<and>
         watch.tracks t [] watch"
  using assms
  by (auto simp: baseline_watch_begin_def zero_watch_def watch_active_def watch_wf_def
      watch.tracks_def Let_def split: option.splits if_splits)

lemma begin_idle:
  "baseline_watch_begin (Some w0) r snap t = Some watch \<Longrightarrow>
   watch_status watch \<noteq> BASELINE_WATCH_RUNNING \<Longrightarrow> watch_feed (Some watch) inputs = Some watch"
  by (induction inputs) (auto simp: next_idle)

text \<open>A watch that ends \<open>STABLE\<close> began with the system baseline and then accepted at least sixty
  further baseline readings, 0.9 to 5 seconds apart, spanning at least a minute.\<close>

theorem watch_stable_evidence:
  assumes "watch_run (r, snap, t) inputs = Some watch"
    and "watch_status watch = BASELINE_WATCH_STABLE"
  shows "r = SMC_BASELINE_OK \<and> smc_baseline_is_system snap \<and>
         (\<exists>k. window_evidence t (map snd (take k inputs)))"
proof -
  obtain w0 where w0: "baseline_watch_begin (Some zero_watch) r snap t = Some w0"
    using begin_some by blast
  have run: "watch_feed (Some w0) inputs = Some watch"
    using assms(1) w0 by (simp add: watch_run_def)
  have "watch_status w0 = BASELINE_WATCH_RUNNING \<or> watch_status w0 = BASELINE_WATCH_STABLE"
    using begin_idle[OF w0] run assms(2) by fastforce
  from begin_active[OF w0 this]
  have w: "r = SMC_BASELINE_OK" "smc_baseline_is_system snap" "watch_active w0" "watch.tracks t [] w0"
    by auto
  then have wf: "watch_wf w0" by (simp add: watch_active_def)
  have "watch.feed w0 inputs = watch" using run watch_feed_eq[OF wf] by simp
  moreover have "watch_wf (watch.feed w0 inputs)"
  proof -
    have "watch_wf s \<Longrightarrow> watch_wf (watch.feed s is)" for s "is"
    proof (induction "is" arbitrary: s)
      case (Cons i "is")
      obtain second r snap t where i: "i = (second, r, snap, t)" by (metis prod_cases4)
      obtain s' where "baseline_watch_next (Some s) second r snap t = Some s'" using next_some by blast
      with Cons next_wf show ?case by (simp add: i)
    qed simp
    then show ?thesis using wf .
  qed
  ultimately have "watch_stable (watch.feed w0 inputs)" using assms(2) by (simp add: watch_stable_def)
  from watch.feed_evidence[OF w(4,3) this] w show ?thesis by simp
qed

end
