(* ===== verification/ControlLease.thy ===== *)
theory ControlLease
  imports BaselineWatch
begin

text \<open>
  The helper's lease on write access, \<open>prototype/helper-ipc/ControlLease.c\<close>: a reducer over
  readings, clock values and the state of the persistent intent marker. Every entry point takes a
  lease pointer that may be NULL; \<open>lease_step\<close> is the transition relation of the operations and
  \<open>lease_reach\<close> the states that calls in any order can produce.
\<close>

section \<open>State\<close>

datatype control_intent_status = CONTROL_INTENT_CLEAR | CONTROL_INTENT_PENDING | CONTROL_INTENT_UNKNOWN

definition CONTROL_LEASE_REQUIRED_SAMPLES :: u32 where "CONTROL_LEASE_REQUIRED_SAMPLES = 61"
definition CONTROL_LEASE_BASELINE_NS :: u64 where "CONTROL_LEASE_BASELINE_NS = 60000000000"
definition CONTROL_LEASE_TTL_NS :: u64 where "CONTROL_LEASE_TTL_NS = 15000000000"
definition CONTROL_LEASE_SAMPLE_MIN_NS :: u64 where "CONTROL_LEASE_SAMPLE_MIN_NS = 900000000"
definition CONTROL_LEASE_SAMPLE_MAX_NS :: u64 where "CONTROL_LEASE_SAMPLE_MAX_NS = 5000000000"
definition CLAIM_MAX_AGE_NS :: u64 where "CLAIM_MAX_AGE_NS = 2000000000"
definition UINT64_MAX :: u64 where "UINT64_MAX = - 1"

lemmas lease_constants = CONTROL_LEASE_REQUIRED_SAMPLES_def CONTROL_LEASE_BASELINE_NS_def
  CONTROL_LEASE_SAMPLE_MIN_NS_def CONTROL_LEASE_SAMPLE_MAX_NS_def SAMPLE_MIN_GAP_NS_def
  SAMPLE_MAX_GAP_NS_def WINDOW_NS_def

datatype control_lease_state =
    CONTROL_LEASE_OBSERVING
  | CONTROL_LEASE_STABLE
  | CONTROL_LEASE_HELD
  | CONTROL_LEASE_RECOVERY_REQUIRED
  | CONTROL_LEASE_VERIFYING_RECOVERY
  | CONTROL_LEASE_READ_FAILED

record control_lease =
  lease_state :: control_lease_state
  lease_owner :: u64
  expires_at_ns :: u64
  observation_started_ns :: u64
  last_sample_ns :: u64
  lease_samples :: u32
  write_pending :: bool
  recovery_verified :: bool

definition zero_lease :: control_lease where
  "zero_lease = \<lparr>lease_state = CONTROL_LEASE_OBSERVING, lease_owner = 0, expires_at_ns = 0,
     observation_started_ns = 0, last_sample_ns = 0, lease_samples = 0, write_pending = False,
     recovery_verified = False\<rparr>"

section \<open>Operations\<close>

definition valid_read :: "smc_baseline_result \<Rightarrow> smc_baseline_snapshot option \<Rightarrow> bool" where
  "valid_read result snapshot \<longleftrightarrow> result = SMC_BASELINE_OK \<and> snapshot \<noteq> None"

definition cool_enough :: "smc_baseline_snapshot \<Rightarrow> bool" where
  "cool_enough snapshot =
     list_all (\<lambda>index. smc_baseline_temperature_valid (snap_temperatures_c snapshot index) \<and>
                       \<not> round64 75 \<le> snap_temperatures_c snapshot index) [0..<3]"

definition require_recovery :: "control_lease \<Rightarrow> control_lease" where
  "require_recovery lease = lease\<lparr>lease_state := CONTROL_LEASE_RECOVERY_REQUIRED, lease_owner := 0,
     expires_at_ns := 0, recovery_verified := False\<rparr>"

definition control_lease_start ::
  "control_lease option \<Rightarrow> control_intent_status \<Rightarrow> smc_baseline_result \<Rightarrow>
   smc_baseline_snapshot option \<Rightarrow> u64 \<Rightarrow> control_lease option" where
  "control_lease_start lease intent result snapshot now_ns =
     (case lease of
        None \<Rightarrow> None
      | Some _ \<Rightarrow> Some
          (if intent \<noteq> CONTROL_INTENT_CLEAR
           then require_recovery (zero_lease\<lparr>write_pending := True\<rparr>)
           else if now_ns = 0 \<or> \<not> valid_read result snapshot
           then zero_lease\<lparr>lease_state := CONTROL_LEASE_READ_FAILED\<rparr>
           else if \<not> smc_baseline_is_system snapshot then require_recovery zero_lease
           else zero_lease\<lparr>lease_state := CONTROL_LEASE_OBSERVING,
                  observation_started_ns := now_ns, last_sample_ns := now_ns, lease_samples := 1\<rparr>))"

definition control_lease_sample ::
  "control_lease option \<Rightarrow> smc_baseline_result \<Rightarrow> smc_baseline_snapshot option \<Rightarrow> u64 \<Rightarrow>
   control_lease option" where
  "control_lease_sample lease_ptr result snapshot now_ns =
     (case lease_ptr of
        None \<Rightarrow> None
      | Some lease \<Rightarrow> Some
          (if lease_state lease \<noteq> CONTROL_LEASE_OBSERVING \<and>
              lease_state lease \<noteq> CONTROL_LEASE_VERIFYING_RECOVERY then lease
           else if \<not> valid_read result snapshot \<or> now_ns \<le> last_sample_ns lease \<or>
                   now_ns - last_sample_ns lease < CONTROL_LEASE_SAMPLE_MIN_NS \<or>
                   CONTROL_LEASE_SAMPLE_MAX_NS < now_ns - last_sample_ns lease
           then lease\<lparr>lease_state := CONTROL_LEASE_READ_FAILED\<rparr>
           else let lease = lease\<lparr>last_sample_ns := now_ns, lease_samples := lease_samples lease + 1\<rparr>
                in if \<not> smc_baseline_is_system snapshot then require_recovery lease
                   else if CONTROL_LEASE_REQUIRED_SAMPLES \<le> lease_samples lease \<and>
                           CONTROL_LEASE_BASELINE_NS \<le> now_ns - observation_started_ns lease
                   then lease\<lparr>recovery_verified :=
                            (lease_state lease = CONTROL_LEASE_VERIFYING_RECOVERY),
                          lease_state := CONTROL_LEASE_STABLE, write_pending := False,
                          lease_owner := 0, expires_at_ns := 0\<rparr>
                   else lease))"

definition control_lease_claim ::
  "control_lease option \<Rightarrow> u64 \<Rightarrow> u64 \<Rightarrow> bool \<Rightarrow> control_intent_status \<Rightarrow> smc_baseline_result \<Rightarrow>
   smc_baseline_snapshot option \<Rightarrow> bool \<times> control_lease option" where
  "control_lease_claim lease_ptr owner now_ns restore_protocol_verified intent result snapshot =
     (case lease_ptr of
        None \<Rightarrow> (False, None)
      | Some lease \<Rightarrow>
          if lease_state lease \<noteq> CONTROL_LEASE_STABLE then (False, Some lease)
          else if intent \<noteq> CONTROL_INTENT_CLEAR then (False, Some (require_recovery lease))
          else if \<not> restore_protocol_verified \<or> owner = 0 \<or> now_ns = 0 \<or>
                  now_ns < last_sample_ns lease \<or>
                  CLAIM_MAX_AGE_NS < now_ns - last_sample_ns lease \<or>
                  UINT64_MAX - CONTROL_LEASE_TTL_NS < now_ns
          then (False, Some lease)
          else if \<not> valid_read result snapshot
          then (False, Some (lease\<lparr>lease_state := CONTROL_LEASE_READ_FAILED\<rparr>))
          else if \<not> smc_baseline_is_system snapshot \<or> \<not> cool_enough (the snapshot)
          then (False, Some (require_recovery lease))
          else (True, Some (lease\<lparr>lease_state := CONTROL_LEASE_HELD, lease_owner := owner,
                  last_sample_ns := now_ns, expires_at_ns := now_ns + CONTROL_LEASE_TTL_NS,
                  write_pending := False\<rparr>)))"

definition control_lease_mark_write_pending ::
  "control_lease option \<Rightarrow> u64 \<Rightarrow> u64 \<Rightarrow> control_intent_status \<Rightarrow> bool \<times> control_lease option" where
  "control_lease_mark_write_pending lease_ptr owner now_ns intent =
     (case lease_ptr of
        None \<Rightarrow> (False, None)
      | Some lease \<Rightarrow>
          if lease_state lease \<noteq> CONTROL_LEASE_HELD \<or> owner = 0 \<or> owner \<noteq> lease_owner lease
          then (False, Some lease)
          else if intent \<noteq> CONTROL_INTENT_PENDING \<or> now_ns < last_sample_ns lease \<or>
                  expires_at_ns lease \<le> now_ns
          then (False, Some (require_recovery lease))
          else (True, Some (lease\<lparr>write_pending := True\<rparr>)))"

definition control_lease_prepare_persistent_intent ::
  "control_lease option \<Rightarrow> bool \<times> control_lease option" where
  "control_lease_prepare_persistent_intent lease_ptr =
     (case lease_ptr of
        None \<Rightarrow> (False, None)
      | Some lease \<Rightarrow>
          if lease_state lease \<noteq> CONTROL_LEASE_HELD \<or> lease_owner lease = 0 \<or> write_pending lease
          then (False, Some lease)
          else (True, Some (lease\<lparr>recovery_verified := False\<rparr>)))"

definition control_lease_renew ::
  "control_lease option \<Rightarrow> u64 \<Rightarrow> u64 \<Rightarrow> control_intent_status \<Rightarrow> smc_baseline_result \<Rightarrow>
   smc_baseline_snapshot option \<Rightarrow> bool \<times> control_lease option" where
  "control_lease_renew lease_ptr owner now_ns intent result snapshot =
     (case lease_ptr of
        None \<Rightarrow> (False, None)
      | Some lease \<Rightarrow>
          if lease_state lease \<noteq> CONTROL_LEASE_HELD \<or> owner = 0 \<or> owner \<noteq> lease_owner lease
          then (False, Some lease)
          else if intent \<noteq> (if write_pending lease then CONTROL_INTENT_PENDING
                            else CONTROL_INTENT_CLEAR) \<or>
                  now_ns < last_sample_ns lease \<or> expires_at_ns lease \<le> now_ns \<or>
                  UINT64_MAX - CONTROL_LEASE_TTL_NS < now_ns \<or>
                  \<not> valid_read result snapshot \<or> \<not> cool_enough (the snapshot) \<or>
                  (write_pending lease \<and> smc_baseline_is_system snapshot) \<or>
                  (\<not> write_pending lease \<and> \<not> smc_baseline_is_system snapshot)
          then (False, Some (require_recovery lease))
          else (True, Some (lease\<lparr>last_sample_ns := now_ns,
                  expires_at_ns := now_ns + CONTROL_LEASE_TTL_NS\<rparr>)))"

definition control_lease_owner_lost :: "control_lease option \<Rightarrow> u64 \<Rightarrow> control_lease option" where
  "control_lease_owner_lost lease_ptr owner =
     map_option (\<lambda>lease.
       if lease_state lease = CONTROL_LEASE_HELD \<and> owner \<noteq> 0 \<and> owner = lease_owner lease
       then require_recovery lease else lease) lease_ptr"

definition control_lease_tick :: "control_lease option \<Rightarrow> u64 \<Rightarrow> control_lease option" where
  "control_lease_tick lease_ptr now_ns =
     map_option (\<lambda>lease.
       if lease_state lease = CONTROL_LEASE_HELD \<and> expires_at_ns lease \<le> now_ns
       then require_recovery lease else lease) lease_ptr"

definition control_lease_sleep :: "control_lease option \<Rightarrow> control_lease option" where
  "control_lease_sleep lease_ptr =
     map_option (\<lambda>lease.
       if lease_state lease = CONTROL_LEASE_HELD \<or> lease_state lease = CONTROL_LEASE_STABLE \<or>
          lease_state lease = CONTROL_LEASE_OBSERVING \<or>
          lease_state lease = CONTROL_LEASE_VERIFYING_RECOVERY
       then require_recovery lease else lease) lease_ptr"

definition control_lease_recovery_started ::
  "control_lease option \<Rightarrow> smc_baseline_result \<Rightarrow> smc_baseline_snapshot option \<Rightarrow> u64 \<Rightarrow>
   control_lease option" where
  "control_lease_recovery_started lease_ptr result snapshot now_ns =
     map_option (\<lambda>lease.
       if lease_state lease \<noteq> CONTROL_LEASE_RECOVERY_REQUIRED then lease
       else if now_ns = 0 \<or> \<not> valid_read result snapshot
       then lease\<lparr>lease_state := CONTROL_LEASE_READ_FAILED\<rparr>
       else if smc_baseline_is_system snapshot
       then lease\<lparr>recovery_verified := False, lease_state := CONTROL_LEASE_VERIFYING_RECOVERY,
              observation_started_ns := now_ns, last_sample_ns := now_ns, lease_samples := 1\<rparr>
       else lease) lease_ptr"

definition control_lease_take_recovery_proof ::
  "control_lease option \<Rightarrow> bool \<times> control_lease option" where
  "control_lease_take_recovery_proof lease_ptr =
     (case lease_ptr of
        None \<Rightarrow> (False, None)
      | Some lease \<Rightarrow>
          if lease_state lease \<noteq> CONTROL_LEASE_STABLE \<or> \<not> recovery_verified lease \<or>
             write_pending lease \<or> lease_owner lease \<noteq> 0 \<or> expires_at_ns lease \<noteq> 0 \<or>
             lease_samples lease < CONTROL_LEASE_REQUIRED_SAMPLES \<or>
             last_sample_ns lease < observation_started_ns lease \<or>
             last_sample_ns lease - observation_started_ns lease < CONTROL_LEASE_BASELINE_NS
          then (False, Some lease)
          else (True, Some (lease\<lparr>recovery_verified := False\<rparr>)))"

fun control_lease_state_name :: "control_lease_state \<Rightarrow> string" where
  "control_lease_state_name CONTROL_LEASE_OBSERVING = ''observing''"
| "control_lease_state_name CONTROL_LEASE_STABLE = ''stable''"
| "control_lease_state_name CONTROL_LEASE_HELD = ''held''"
| "control_lease_state_name CONTROL_LEASE_RECOVERY_REQUIRED = ''recovery_required''"
| "control_lease_state_name CONTROL_LEASE_VERIFYING_RECOVERY = ''verifying_recovery''"
| "control_lease_state_name CONTROL_LEASE_READ_FAILED = ''read_failed''"

lemmas lease_ops = control_lease_start_def control_lease_sample_def control_lease_claim_def
  control_lease_mark_write_pending_def control_lease_prepare_persistent_intent_def
  control_lease_renew_def control_lease_owner_lost_def control_lease_tick_def
  control_lease_sleep_def control_lease_recovery_started_def control_lease_take_recovery_proof_def

section \<open>The lease as a sampling window\<close>

definition lease_active :: "control_lease \<Rightarrow> bool" where
  "lease_active lease \<longleftrightarrow> lease_state lease = CONTROL_LEASE_OBSERVING \<or>
     lease_state lease = CONTROL_LEASE_VERIFYING_RECOVERY"

definition lease_stable :: "control_lease \<Rightarrow> bool" where
  "lease_stable lease \<longleftrightarrow> lease_state lease = CONTROL_LEASE_STABLE"

fun lease_sample :: "control_lease \<Rightarrow> reading \<Rightarrow> control_lease" where
  "lease_sample lease (result, snapshot, now_ns) =
     the (control_lease_sample (Some lease) result snapshot now_ns)"

lemma is_system_Some: "smc_baseline_is_system snapshot \<Longrightarrow> snapshot \<noteq> None"
  by (cases snapshot) (auto simp: smc_baseline_is_system_def)

interpretation lease: sampling_window lease_sample "\<lambda>r. r" lease_active lease_stable lease_samples
  observation_started_ns last_sample_ns
proof (unfold_locales)
  fix s :: control_lease and i :: reading
  obtain r snap t where i: "i = (r, snap, t)" by (metis prod_cases3)
  show "lease_active s \<Longrightarrow> \<not> lease_stable s" by (auto simp: lease_active_def lease_stable_def)
  show "\<not> lease_active s \<Longrightarrow> lease_sample s i = s"
    by (simp add: i lease_active_def control_lease_sample_def)
  show "accepted (last_sample_ns s) i \<and> last_sample_ns (lease_sample s i) = reading_time i \<and>
        observation_started_ns (lease_sample s i) = observation_started_ns s \<and>
        lease_samples (lease_sample s i) = lease_samples s + 1"
    if "lease_active s" "lease_active (lease_sample s i) \<or> lease_stable (lease_sample s i)"
    using that
    by (auto simp: i lease_active_def lease_stable_def control_lease_sample_def lease_constants
        valid_read_def require_recovery_def Let_def not_less not_le split: if_splits)
  show "61 \<le> lease_samples (lease_sample s i) \<and>
        WINDOW_NS \<le> last_sample_ns (lease_sample s i) - observation_started_ns s"
    if "lease_active s" "lease_stable (lease_sample s i)"
    using that
    by (auto simp: i lease_active_def lease_stable_def control_lease_sample_def lease_constants
        require_recovery_def Let_def split: if_splits)
qed

section \<open>Calls in any order\<close>

datatype lease_call =
    Start control_intent_status reading
  | Sample reading
  | Claim u64 u64 bool control_intent_status smc_baseline_result "smc_baseline_snapshot option"
  | MarkPending u64 u64 control_intent_status
  | PrepareIntent
  | Renew u64 u64 control_intent_status smc_baseline_result "smc_baseline_snapshot option"
  | OwnerLost u64
  | Tick u64
  | Sleep
  | RecoveryStarted reading
  | TakeProof

text \<open>A call, its boolean result (\<open>True\<close> for the \<open>void\<close> functions) and the lease it leaves.\<close>

inductive lease_step :: "control_lease \<Rightarrow> lease_call \<Rightarrow> bool \<Rightarrow> control_lease \<Rightarrow> bool" where
  start: "control_lease_start (Some l) intent r s t = Some l' \<Longrightarrow>
    lease_step l (Start intent (r, s, t)) True l'"
| sample: "control_lease_sample (Some l) r s t = Some l' \<Longrightarrow> lease_step l (Sample (r, s, t)) True l'"
| claim: "control_lease_claim (Some l) owner now verified intent r s = (b, Some l') \<Longrightarrow>
    lease_step l (Claim owner now verified intent r s) b l'"
| mark_pending: "control_lease_mark_write_pending (Some l) owner now intent = (b, Some l') \<Longrightarrow>
    lease_step l (MarkPending owner now intent) b l'"
| prepare: "control_lease_prepare_persistent_intent (Some l) = (b, Some l') \<Longrightarrow>
    lease_step l PrepareIntent b l'"
| renew: "control_lease_renew (Some l) owner now intent r s = (b, Some l') \<Longrightarrow>
    lease_step l (Renew owner now intent r s) b l'"
| owner_lost: "control_lease_owner_lost (Some l) owner = Some l' \<Longrightarrow>
    lease_step l (OwnerLost owner) True l'"
| tick: "control_lease_tick (Some l) now = Some l' \<Longrightarrow> lease_step l (Tick now) True l'"
| sleep: "control_lease_sleep (Some l) = Some l' \<Longrightarrow> lease_step l Sleep True l'"
| recovery_started: "control_lease_recovery_started (Some l) r s t = Some l' \<Longrightarrow>
    lease_step l (RecoveryStarted (r, s, t)) True l'"
| take_proof: "control_lease_take_recovery_proof (Some l) = (b, Some l') \<Longrightarrow>
    lease_step l TakeProof b l'"

inductive_cases lease_stepE: "lease_step l c b l'"
inductive_simps take_proof_simps: "lease_step l TakeProof b l'"
inductive_simps sample_simps: "lease_step l (Sample x) b l'"
inductive_simps mark_simps: "lease_step l (MarkPending owner now intent) b l'"
inductive_simps renew_simps: "lease_step l (Renew owner now intent r s) b l'"
inductive_simps claim_simps: "lease_step l (Claim owner now verified intent r s) b l'"

text \<open>A history of calls, newest first, that begins with \<open>control_lease_start\<close>.\<close>

inductive lease_run :: "(lease_call \<times> bool) list \<Rightarrow> control_lease \<Rightarrow> bool" where
  first: "control_lease_start (Some l0) intent r s t = Some l \<Longrightarrow>
    lease_run [(Start intent (r, s, t), True)] l"
| further: "lease_run cs l \<Longrightarrow> lease_step l c b l' \<Longrightarrow> lease_run ((c, b) # cs) l'"

section \<open>The invariant\<close>

definition held_inv :: "control_lease \<Rightarrow> bool" where
  "held_inv l \<longleftrightarrow>
     (lease_state l = CONTROL_LEASE_HELD \<longleftrightarrow> lease_owner l \<noteq> 0) \<and>
     (if lease_state l = CONTROL_LEASE_HELD
      then unat (expires_at_ns l) = unat (last_sample_ns l) + unat CONTROL_LEASE_TTL_NS
      else expires_at_ns l = 0)"

definition pending_inv :: "control_lease \<Rightarrow> bool" where
  "pending_inv l \<longleftrightarrow>
     (lease_state l = CONTROL_LEASE_STABLE \<or> lease_state l = CONTROL_LEASE_OBSERVING \<longrightarrow>
        \<not> write_pending l) \<and>
     (recovery_verified l \<longrightarrow> lease_state l = CONTROL_LEASE_STABLE \<or>
        lease_state l = CONTROL_LEASE_HELD \<or> lease_state l = CONTROL_LEASE_READ_FAILED)"

lemma ttl_no_wrap:
  "\<not> UINT64_MAX - CONTROL_LEASE_TTL_NS < now \<Longrightarrow>
   unat (now + CONTROL_LEASE_TTL_NS) = unat now + unat CONTROL_LEASE_TTL_NS"
proof -
  assume "\<not> UINT64_MAX - CONTROL_LEASE_TTL_NS < now"
  then have "unat now \<le> 2 ^ 64 - 1 - 15000000000"
    by (simp add: UINT64_MAX_def CONTROL_LEASE_TTL_NS_def not_less word_le_nat_alt)
  then show ?thesis by (simp add: CONTROL_LEASE_TTL_NS_def unat_word_ariths)
qed

text \<open>What each fallible operation can do to the lease.\<close>

lemma claim_outcome:
  assumes "control_lease_claim (Some l) owner now verified intent r s = (b, Some l')"
  shows "(\<not> b \<and> (l' = l \<or> l' = require_recovery l \<or>
            lease_state l = CONTROL_LEASE_STABLE \<and> l' = l\<lparr>lease_state := CONTROL_LEASE_READ_FAILED\<rparr>)) \<or>
    (b \<and> lease_state l = CONTROL_LEASE_STABLE \<and> intent = CONTROL_INTENT_CLEAR \<and> verified \<and>
     owner \<noteq> 0 \<and> last_sample_ns l \<le> now \<and> now - last_sample_ns l \<le> CLAIM_MAX_AGE_NS \<and>
     \<not> UINT64_MAX - CONTROL_LEASE_TTL_NS < now \<and> r = SMC_BASELINE_OK \<and>
     smc_baseline_is_system s \<and> cool_enough (the s) \<and>
     l' = l\<lparr>lease_state := CONTROL_LEASE_HELD, lease_owner := owner, last_sample_ns := now,
            expires_at_ns := now + CONTROL_LEASE_TTL_NS, write_pending := False\<rparr>)"
proof -
  note def = assms[unfolded control_lease_claim_def option.case]
  show ?thesis
    using def by (simp only: split: if_split_asm) (simp_all add: valid_read_def not_less)
qed

lemma mark_outcome:
  assumes "control_lease_mark_write_pending (Some l) owner now intent = (b, Some l')"
  shows "(\<not> b \<and> (l' = l \<or> l' = require_recovery l)) \<or>
    (b \<and> lease_state l = CONTROL_LEASE_HELD \<and> owner = lease_owner l \<and> owner \<noteq> 0 \<and>
     intent = CONTROL_INTENT_PENDING \<and> last_sample_ns l \<le> now \<and> now < expires_at_ns l \<and>
     l' = l\<lparr>write_pending := True\<rparr>)"
  using assms[unfolded control_lease_mark_write_pending_def option.case]
  by (simp only: split: if_split_asm) (auto simp: not_less not_le)

lemma renew_outcome:
  assumes "control_lease_renew (Some l) owner now intent r s = (b, Some l')"
  shows "(\<not> b \<and> (l' = l \<or> l' = require_recovery l)) \<or>
    (b \<and> lease_state l = CONTROL_LEASE_HELD \<and> owner = lease_owner l \<and> owner \<noteq> 0 \<and>
     intent = (if write_pending l then CONTROL_INTENT_PENDING else CONTROL_INTENT_CLEAR) \<and>
     last_sample_ns l \<le> now \<and> now < expires_at_ns l \<and>
     \<not> UINT64_MAX - CONTROL_LEASE_TTL_NS < now \<and> r = SMC_BASELINE_OK \<and> cool_enough (the s) \<and>
     (write_pending l \<longleftrightarrow> \<not> smc_baseline_is_system s) \<and>
     l' = l\<lparr>last_sample_ns := now, expires_at_ns := now + CONTROL_LEASE_TTL_NS\<rparr>)"
proof -
  note def = assms[unfolded control_lease_renew_def option.case]
  show ?thesis
    using def by (simp only: split: if_split_asm) (auto simp add: valid_read_def not_less not_le)
qed


lemma sample_outcome:
  assumes "control_lease_sample (Some l) r s t = Some l'"
  shows "l' = l \<or> lease_active l \<and> (
     l' = l\<lparr>lease_state := CONTROL_LEASE_READ_FAILED\<rparr> \<or>
     (\<exists>n. l' = require_recovery (l\<lparr>last_sample_ns := t, lease_samples := n\<rparr>)) \<or>
     (\<exists>n. l' = l\<lparr>last_sample_ns := t, lease_samples := n\<rparr>) \<or>
     lease_stable l' \<and> \<not> write_pending l' \<and> lease_owner l' = 0 \<and> expires_at_ns l' = 0 \<and>
     (recovery_verified l' \<longleftrightarrow> lease_state l = CONTROL_LEASE_VERIFYING_RECOVERY))"
  using assms[unfolded control_lease_sample_def option.case option.inject]
  by (simp only: Let_def split: if_split_asm) (auto simp: lease_active_def lease_stable_def)

lemma proof_outcome:
  assumes "control_lease_take_recovery_proof (Some l) = (b, Some l')"
  shows "(\<not> b \<and> l' = l) \<or> (b \<and> lease_state l = CONTROL_LEASE_STABLE \<and> recovery_verified l \<and>
     \<not> write_pending l \<and> l' = l\<lparr>recovery_verified := False\<rparr>)"
  using assms[unfolded control_lease_take_recovery_proof_def option.case]
  by (simp only: split: if_split_asm) auto

lemma recovery_outcome:
  assumes "control_lease_recovery_started (Some l) r s t = Some l'"
  shows "l' = l \<or> lease_state l = CONTROL_LEASE_RECOVERY_REQUIRED \<and>
    (l' = l\<lparr>lease_state := CONTROL_LEASE_READ_FAILED\<rparr> \<or>
     r = SMC_BASELINE_OK \<and> smc_baseline_is_system s \<and>
     l' = l\<lparr>recovery_verified := False, lease_state := CONTROL_LEASE_VERIFYING_RECOVERY,
            observation_started_ns := t, last_sample_ns := t, lease_samples := 1\<rparr>)"
  using assms[unfolded control_lease_recovery_started_def option.map option.inject]
  by (simp only: split: if_split_asm) (auto simp: valid_read_def)

lemma quiet_outcomes:
  "control_lease_owner_lost (Some l) owner = Some l' \<Longrightarrow> l' = l \<or> l' = require_recovery l"
  "control_lease_tick (Some l) now = Some l' \<Longrightarrow> l' = l \<or> l' = require_recovery l"
  "control_lease_sleep (Some l) = Some l' \<Longrightarrow> l' = l \<or> l' = require_recovery l"
  by (auto simp: control_lease_owner_lost_def control_lease_tick_def control_lease_sleep_def)

lemma prepare_outcome:
  "control_lease_prepare_persistent_intent (Some l) = (b, Some l') \<Longrightarrow>
   l' = l \<or> lease_state l = CONTROL_LEASE_HELD \<and> l' = l\<lparr>recovery_verified := False\<rparr>"
  by (auto simp: control_lease_prepare_persistent_intent_def split: if_splits)

lemmas lease_outcomes = sample_outcome claim_outcome mark_outcome prepare_outcome renew_outcome
  quiet_outcomes recovery_outcome proof_outcome

text \<open>The lease after \<open>control_lease_start\<close>.\<close>

lemma start_outcome:
  assumes "control_lease_start (Some l) intent r s t = Some l'"
  shows "lease_owner l' = 0 \<and> expires_at_ns l' = 0 \<and> \<not> recovery_verified l' \<and>
    (intent \<noteq> CONTROL_INTENT_CLEAR \<and> lease_state l' = CONTROL_LEASE_RECOVERY_REQUIRED \<and> write_pending l' \<or>
     intent = CONTROL_INTENT_CLEAR \<and> \<not> write_pending l' \<and>
     (lease_state l' = CONTROL_LEASE_READ_FAILED \<or>
      lease_state l' = CONTROL_LEASE_RECOVERY_REQUIRED \<or>
      lease_state l' = CONTROL_LEASE_OBSERVING \<and> r = SMC_BASELINE_OK \<and>
        smc_baseline_is_system s \<and> t \<noteq> 0))"
  using assms[unfolded control_lease_start_def option.case option.inject]
  by (simp only: split: if_split_asm) (auto simp: zero_lease_def require_recovery_def valid_read_def)

lemma held_inv_step: "lease_step l c b l' \<Longrightarrow> held_inv l \<Longrightarrow> held_inv l'"
  by (erule lease_stepE; drule lease_outcomes start_outcome; hypsubst_thin?)
     (auto simp: held_inv_def require_recovery_def ttl_no_wrap lease_active_def lease_stable_def)

lemma pending_inv_step:
  assumes "lease_step l c b l'" "pending_inv l"
  shows "pending_inv l'"
  using assms
proof (cases rule: lease_step.cases)
  case (sample r s t)
  from sample_outcome[OF sample(3)] assms(2) show ?thesis
    by (elim disjE conjE exE)
       (auto simp: pending_inv_def require_recovery_def lease_active_def lease_stable_def)
next
  case (start intent r s t)
  from start_outcome[OF start(3)] show ?thesis
    by (elim disjE conjE) (simp_all add: pending_inv_def)
next
  case (claim owner now verified intent r s)
  from claim_outcome[OF claim(2)] assms(2) show ?thesis
    by (elim disjE conjE) (simp_all add: pending_inv_def require_recovery_def)
next
  case (recovery_started r s t)
  from recovery_outcome[OF recovery_started(3)] assms(2) show ?thesis
    by (elim disjE conjE) (simp_all add: pending_inv_def)
next
  case (mark_pending owner now intent)
  from mark_outcome[OF mark_pending(2)] assms(2) show ?thesis
    by (elim disjE conjE) (simp_all add: pending_inv_def require_recovery_def)
next
  case (renew owner now intent r s)
  from renew_outcome[OF renew(2)] assms(2) show ?thesis
    by (elim disjE conjE) (simp_all add: pending_inv_def require_recovery_def)
next
  case prepare
  from prepare_outcome[OF prepare(2)] assms(2) show ?thesis
    by (elim disjE conjE) (simp_all add: pending_inv_def)
next
  case take_proof
  from proof_outcome[OF take_proof(2)] assms(2) show ?thesis
    by (elim disjE conjE) (simp_all add: pending_inv_def)
qed (drule quiet_outcomes, use assms(2) in \<open>elim disjE, simp_all add: pending_inv_def require_recovery_def\<close>)+

lemma lease_run_inv: "lease_run cs l \<Longrightarrow> held_inv l \<and> pending_inv l"
proof (induction rule: lease_run.induct)
  case (first l0 intent r s t l)
  from start_outcome[OF first] show ?case by (auto simp: held_inv_def pending_inv_def)
next
  case (further cs l c b l')
  then show ?case using held_inv_step pending_inv_step by blast
qed

section \<open>The evidence behind a stable lease and a recovery proof\<close>

text \<open>The readings a history contains, in the order they were taken.\<close>

fun readings_of :: "(lease_call \<times> bool) list \<Rightarrow> reading list" where
  "readings_of [] = []"
| "readings_of ((Sample reading, b) # cs) = readings_of cs @ [reading]"
| "readings_of (c # cs) = readings_of cs"

text \<open>
  Which call opened an observation, with its first snapshot and time. A recovery proof needs an
  observation opened by \<open>control_lease_recovery_started\<close> (\<open>rec\<close>); a claim is also served by the one
  that \<open>control_lease_start\<close> opens.
\<close>

inductive opens :: "bool \<Rightarrow> lease_call \<times> bool \<Rightarrow> smc_baseline_snapshot option \<Rightarrow> u64 \<Rightarrow> bool" where
  "opens rec (RecoveryStarted (SMC_BASELINE_OK, s, t), True) s t"
| "opens False (Start CONTROL_INTENT_CLEAR (SMC_BASELINE_OK, s, t), True) s t"

text \<open>Calls that end the validity of an observation; a proof can also be spent by taking it.\<close>

fun spends :: "bool \<Rightarrow> lease_call \<times> bool \<Rightarrow> bool" where
  "spends rec (MarkPending owner now intent, b) = b"
| "spends rec (TakeProof, b) = (rec \<and> b)"
| "spends rec (Start intent r, b) = True"
| "spends rec (Sleep, b) = True"
| "spends rec c = False"

definition observing_since :: "bool \<Rightarrow> (lease_call \<times> bool) list \<Rightarrow> control_lease \<Rightarrow> bool" where
  "observing_since rec cs l \<longleftrightarrow> (\<exists>mid c s t older.
     cs = mid @ c # older \<and> opens rec c s t \<and> smc_baseline_is_system s \<and>
     list_all (\<lambda>c. \<not> spends rec c) mid \<and> lease.tracks t (readings_of mid) l)"

definition observed_baseline :: "bool \<Rightarrow> (lease_call \<times> bool) list \<Rightarrow> bool" where
  "observed_baseline rec cs \<longleftrightarrow> (\<exists>post mid c s t older.
     cs = post @ mid @ c # older \<and> opens rec c s t \<and> smc_baseline_is_system s \<and>
     list_all (\<lambda>c. \<not> spends rec c) (post @ mid) \<and> window_evidence t (readings_of mid))"

definition evidence_inv :: "(lease_call \<times> bool) list \<Rightarrow> control_lease \<Rightarrow> bool" where
  "evidence_inv cs l \<longleftrightarrow>
     (lease_state l = CONTROL_LEASE_VERIFYING_RECOVERY \<longrightarrow>
        observing_since True cs l \<and> observing_since False cs l) \<and>
     (lease_state l = CONTROL_LEASE_OBSERVING \<longrightarrow> observing_since False cs l) \<and>
     (lease_state l = CONTROL_LEASE_STABLE \<longrightarrow>
        observed_baseline False cs \<and> (recovery_verified l \<longrightarrow> observed_baseline True cs))"

lemma observed_baseline_keep:
  "observed_baseline rec cs \<Longrightarrow> \<not> spends rec c \<Longrightarrow> observed_baseline rec (c # cs)"
  unfolding observed_baseline_def by (metis append_Cons list.pred_inject(2))

lemma observing_keep:
  assumes "observing_since rec cs l" "\<not> spends rec c" "\<And>mid. readings_of (c # mid) = readings_of mid"
  shows "observing_since rec (c # cs) l"
  using assms unfolding observing_since_def by (metis append_Cons list.pred_inject(2))

lemma readings_of_other: "\<forall>r. fst c \<noteq> Sample r \<Longrightarrow> readings_of (c # cs) = readings_of cs"
  by (cases c; cases "fst c") auto

lemma observing_sample:
  assumes "observing_since rec cs l" "lease_active l"
    "control_lease_sample (Some l) r s t = Some l'"
  shows "lease_active l' \<Longrightarrow> observing_since rec ((Sample (r, s, t), True) # cs) l'"
    and "lease_stable l' \<Longrightarrow> observed_baseline rec ((Sample (r, s, t), True) # cs)"
proof -
  obtain mid c t0 s0 older where cs: "cs = mid @ c # older" "opens rec c s0 t0"
    "smc_baseline_is_system s0" "list_all (\<lambda>c. \<not> spends rec c) mid"
    "lease.tracks t0 (readings_of mid) l"
    using assms(1) by (auto simp: observing_since_def)
  have l': "l' = lease_sample l (r, s, t)" using assms(3) by simp
  show "observing_since rec ((Sample (r, s, t), True) # cs) l'" if "lease_active l'"
  proof -
    have "lease.tracks t0 (readings_of ((Sample (r, s, t), True) # mid)) l'"
      using lease.tracks_sample[OF cs(5) assms(2), of "(r, s, t)"] that l' by simp
    then show ?thesis
      unfolding observing_since_def
      using cs by (intro exI[of _ "(Sample (r, s, t), True) # mid"]) auto
  qed
  show "observed_baseline rec ((Sample (r, s, t), True) # cs)" if "lease_stable l'"
  proof -
    have "window_evidence t0 (readings_of ((Sample (r, s, t), True) # mid))"
      using lease.tracks_evidence[OF cs(5) assms(2), of "(r, s, t)"] that l' by simp
    then show ?thesis
      unfolding observed_baseline_def using cs
      by (intro exI[of _ "[]"] exI[of _ "(Sample (r, s, t), True) # mid"]) auto
  qed
qed

lemma observing_begin:
  assumes "smc_baseline_is_system s" "opens rec c s t" "observation_started_ns l = t"
    "last_sample_ns l = t" "lease_samples l = 1"
  shows "observing_since rec (c # cs) l"
  unfolding observing_since_def
  using assms by (intro exI[of _ "[]"]) (auto simp: lease.tracks_def)

lemma evidence_inv_same:
  assumes "evidence_inv cs l" "\<not> spends True c" "\<forall>r. fst c \<noteq> Sample r"
  shows "evidence_inv (c # cs) l"
proof -
  have "\<not> spends False c" using assms(2) by (cases c; cases "fst c") auto
  with assms observing_keep[OF _ _ readings_of_other[OF assms(3)]] show ?thesis
    by (auto simp: evidence_inv_def observed_baseline_keep)
qed

lemma evidence_inv_other:
  "lease_state l \<noteq> CONTROL_LEASE_VERIFYING_RECOVERY \<Longrightarrow> lease_state l \<noteq> CONTROL_LEASE_OBSERVING \<Longrightarrow>
   lease_state l \<noteq> CONTROL_LEASE_STABLE \<Longrightarrow> evidence_inv cs l"
  by (auto simp: evidence_inv_def)

lemma evidence_inv_sample:
  assumes "control_lease_sample (Some l) r s t = Some l'" "evidence_inv cs l"
  shows "evidence_inv ((Sample (r, s, t), True) # cs) l'"
proof (cases "lease_active l")
  case True
  have since: "observing_since False cs l"
    "lease_state l = CONTROL_LEASE_VERIFYING_RECOVERY \<Longrightarrow> observing_since True cs l"
    using True assms(2) by (auto simp: lease_active_def evidence_inv_def)
  note steps = observing_sample[OF since(1) True assms(1)]
    observing_sample[OF since(2) True assms(1)]
  have kind: "lease_state l' = CONTROL_LEASE_VERIFYING_RECOVERY \<or> lease_stable l' \<and> recovery_verified l' \<Longrightarrow>
      lease_state l = CONTROL_LEASE_VERIFYING_RECOVERY"
    using sample_outcome[OF assms(1)] assms(2) True
    by (elim disjE conjE exE) (auto simp: lease_active_def lease_stable_def require_recovery_def)
  show ?thesis
    using steps kind by (auto simp: evidence_inv_def lease_active_def lease_stable_def)
next
  case False
  then have "l' = l" using sample_outcome[OF assms(1)] by blast
  with False assms(2) show ?thesis
    by (auto simp: evidence_inv_def observed_baseline_keep lease_active_def)
qed

lemma evidence_inv_start:
  assumes "control_lease_start (Some l) intent r s t = Some l'"
  shows "evidence_inv ((Start intent (r, s, t), True) # cs) l'"
proof -
  have "observing_since False ((Start intent (r, s, t), True) # cs) l'"
    if "lease_state l' = CONTROL_LEASE_OBSERVING"
  proof -
    have "intent = CONTROL_INTENT_CLEAR" "r = SMC_BASELINE_OK" "smc_baseline_is_system s"
      using start_outcome[OF assms] that by auto
    then show ?thesis
      using assms that
      by (intro observing_begin[of s _ _ t])
         (auto simp: control_lease_start_def require_recovery_def opens.intros split: if_splits)
  qed
  moreover have "lease_state l' \<noteq> CONTROL_LEASE_VERIFYING_RECOVERY" "lease_state l' \<noteq> CONTROL_LEASE_STABLE"
    using start_outcome[OF assms] by auto
  ultimately show ?thesis by (auto simp: evidence_inv_def)
qed

lemma evidence_inv_step:
  assumes "lease_step l c b l'" "evidence_inv cs l"
  shows "evidence_inv ((c, b) # cs) l'"
  using assms
proof (cases rule: lease_step.cases)
  case (sample r s t)
  then show ?thesis using evidence_inv_sample assms(2) by simp
next
  case (recovery_started r s t)
  note same = evidence_inv_same[OF assms(2), of "(c, b)"]
  from recovery_outcome[OF recovery_started(3)] show ?thesis
  proof (elim disjE conjE)
    assume "l' = l"
    then show ?thesis using same recovery_started by simp
  next
    assume "l' = l\<lparr>lease_state := CONTROL_LEASE_READ_FAILED\<rparr>"
    then show ?thesis by (intro evidence_inv_other) simp_all
  next
    assume r: "r = SMC_BASELINE_OK" "smc_baseline_is_system s" and
      l': "l' = l\<lparr>recovery_verified := False, lease_state := CONTROL_LEASE_VERIFYING_RECOVERY,
            observation_started_ns := t, last_sample_ns := t, lease_samples := 1\<rparr>"
    have "observing_since rec ((c, b) # cs) l'" for rec
      by (rule observing_begin[OF r(2)]) (simp_all add: recovery_started r l' opens.intros)
    then show ?thesis by (simp add: evidence_inv_def l')
  qed
next
  case sleep
  then show ?thesis
    by (intro evidence_inv_other)
       (auto simp: control_lease_sleep_def require_recovery_def split: if_splits)
next
  case (start intent r s t)
  then show ?thesis using evidence_inv_start by simp
next
  case take_proof
  from proof_outcome[OF take_proof(2)] show ?thesis
    using evidence_inv_same[OF assms(2), of "(c, b)"] assms(2) take_proof(1)
    by (elim disjE conjE) (auto simp: evidence_inv_def observed_baseline_keep)
qed (drule lease_outcomes,
     auto simp: require_recovery_def intro: evidence_inv_same[OF assms(2)] evidence_inv_other)+

lemma lease_run_evidence: "lease_run cs l \<Longrightarrow> evidence_inv cs l"
  by (induction rule: lease_run.induct) (simp_all add: evidence_inv_start evidence_inv_step)

section \<open>Properties\<close>

text \<open>C25: In every history of calls, a lease is owned exactly while it is held, and it then expires
  15 seconds after its last accepted reading, without wrap-around; a lease that is stable or
  observing from the start has no pending write.\<close>

theorem lease_invariant:
  assumes "lease_run cs l"
  shows "held_inv l \<and> pending_inv l"
  by (rule lease_run_inv[OF assms])

text \<open>C8: A recovery proof is only ever given after a recovery observation: since the call that
  opened it, at least sixty accepted baseline readings spanning a minute, no write marked pending,
  no sleep, no restart, and no proof already taken.\<close>

theorem proof_needs_recovery:
  assumes "lease_run cs l" and "lease_step l TakeProof True l'"
  shows "observed_baseline True cs"
  using lease_run_evidence[OF assms(1)] assms(2) proof_outcome
  by (fastforce simp: take_proof_simps evidence_inv_def)

text \<open>C9: A claim succeeds only on a stable lease whose call history shows a full minute of observed
  baseline, with the protocol verified, the intent marker clear, a nonzero owner, and a reading at
  the time of the claim that was obtained, shows the system baseline and is below 75 C; the time of
  the claim is neither before the last sample nor more than two seconds after it. The lease is then
  held by that owner, with nothing pending, until fifteen seconds after the claim.\<close>

theorem claim_needs_baseline:
  assumes "lease_run cs l" and "lease_step l (Claim owner now verified intent r s) True l'"
  shows "lease_state l = CONTROL_LEASE_STABLE \<and> observed_baseline False cs \<and>
    verified \<and> intent = CONTROL_INTENT_CLEAR \<and> owner \<noteq> 0 \<and>
    r = SMC_BASELINE_OK \<and> smc_baseline_is_system s \<and>
    (\<exists>snap. s = Some snap \<and> cool_enough snap) \<and>
    unat (last_sample_ns l) \<le> unat now \<and> unat now \<le> unat (last_sample_ns l) + 2000000000 \<and>
    l' = l\<lparr>lease_state := CONTROL_LEASE_HELD, lease_owner := owner, last_sample_ns := now,
            expires_at_ns := now + CONTROL_LEASE_TTL_NS, write_pending := False\<rparr> \<and>
    unat (expires_at_ns l') = unat now + 15000000000"
proof -
  have c: "lease_state l = CONTROL_LEASE_STABLE" "verified" "intent = CONTROL_INTENT_CLEAR" "owner \<noteq> 0"
    "r = SMC_BASELINE_OK" "smc_baseline_is_system s" "cool_enough (the s)" "last_sample_ns l \<le> now"
    "now - last_sample_ns l \<le> CLAIM_MAX_AGE_NS" "\<not> UINT64_MAX - CONTROL_LEASE_TTL_NS < now"
    "l' = l\<lparr>lease_state := CONTROL_LEASE_HELD, lease_owner := owner, last_sample_ns := now,
            expires_at_ns := now + CONTROL_LEASE_TTL_NS, write_pending := False\<rparr>"
    using assms(2) claim_outcome[of l owner now verified intent r s True l'] by (auto simp: claim_simps)
  have "unat (now - last_sample_ns l) \<le> 2000000000"
    using c(9) by (simp add: word_le_nat_alt CLAIM_MAX_AGE_NS_def)
  then have recent: "unat now \<le> unat (last_sample_ns l) + 2000000000"
    using c(8) by (simp add: unat_sub word_le_nat_alt)
  have "unat (expires_at_ns l') = unat now + 15000000000"
    using ttl_no_wrap[OF c(10)] by (simp add: c(11) CONTROL_LEASE_TTL_NS_def)
  moreover have "\<exists>snap. s = Some snap \<and> cool_enough snap"
    using c(6,7) by (cases s) (simp_all add: smc_baseline_is_system_def)
  moreover have "unat (last_sample_ns l) \<le> unat now" using c(8) by (simp add: word_le_nat_alt)
  moreover have "observed_baseline False cs"
    using lease_run_evidence[OF assms(1)] c(1) by (simp add: evidence_inv_def)
  ultimately show ?thesis using recent c(1-6,11) by blast
qed

text \<open>C24: Permission to write and renewals go only to the owner of a held lease, within 15 seconds of
  its last accepted reading; every other caller is refused.\<close>

theorem only_owner_in_time:
  assumes "lease_run cs l" and "lease_step l c True l'"
    and "c = MarkPending owner now intent \<or> c = Renew owner now intent r s"
  shows "lease_state l = CONTROL_LEASE_HELD \<and> owner = lease_owner l \<and> owner \<noteq> 0 \<and>
    unat (last_sample_ns l) \<le> unat now \<and> unat now < unat (last_sample_ns l) + 15000000000 \<and>
    lease_owner l' = owner"
proof -
  from assms(2,3) have g: "lease_state l = CONTROL_LEASE_HELD \<and> owner = lease_owner l \<and> owner \<noteq> 0 \<and>
    last_sample_ns l \<le> now \<and> now < expires_at_ns l \<and> lease_owner l' = owner"
    by (auto simp: mark_simps renew_simps dest!: mark_outcome renew_outcome)
  with lease_run_inv[OF assms(1)] show ?thesis
    by (auto simp: held_inv_def CONTROL_LEASE_TTL_NS_def word_le_nat_alt word_less_nat_alt)
qed

text \<open>While a lease is held its owner cannot change: every call leaves the owner or ends the
  lease.\<close>

theorem held_owner_unchanged:
  assumes "lease_run cs l" and "lease_step l c b l'"
    and "lease_state l = CONTROL_LEASE_HELD" and "lease_state l' = CONTROL_LEASE_HELD"
  shows "lease_owner l' = lease_owner l"
  using assms(2-4)
proof (cases rule: lease_step.cases)
  case (start intent r s t)
  then show ?thesis using start_outcome[OF start(3)] assms(4) by auto
qed (drule lease_outcomes, auto simp: require_recovery_def lease_active_def lease_stable_def)+

text \<open>A pending write is never forgotten: only a completed recovery observation, or a restart
  that finds the intent marker clear, leaves the lease without it.\<close>

theorem pending_retained:
  assumes "lease_run cs l" and "lease_step l c b l'" and "write_pending l" and "\<not> write_pending l'"
  shows "(\<exists>r. c = Start CONTROL_INTENT_CLEAR r) \<or>
    (\<exists>r. c = Sample r \<and> lease_state l = CONTROL_LEASE_VERIFYING_RECOVERY \<and>
         lease_state l' = CONTROL_LEASE_STABLE \<and> recovery_verified l')"
proof -
  have inv: "lease_state l \<noteq> CONTROL_LEASE_STABLE" "lease_state l \<noteq> CONTROL_LEASE_OBSERVING"
    using lease_run_inv[OF assms(1)] assms(3) by (auto simp: pending_inv_def)
  from assms(2-4) show ?thesis
  proof (cases rule: lease_step.cases)
    case (start intent r s t)
    then show ?thesis using start_outcome[OF start(3)] assms(4) by auto
  next
    case (sample r s t)
    then show ?thesis
      using sample_outcome[OF sample(3)] assms(3,4) inv
      by (auto simp: require_recovery_def lease_active_def lease_stable_def)
  qed (drule lease_outcomes, insert inv, auto simp: require_recovery_def)+
qed

text \<open>A tick ends a held lease exactly when 15 seconds have passed since its last accepted
  reading, and otherwise changes nothing.\<close>

theorem tick_expires:
  assumes "lease_run cs l" and "lease_state l = CONTROL_LEASE_HELD"
  shows "control_lease_tick (Some l) now = Some
    (if unat (last_sample_ns l) + 15000000000 \<le> unat now
     then require_recovery l else l)"
  using lease_run_inv[OF assms(1)] assms(2)
  by (auto simp: held_inv_def control_lease_tick_def CONTROL_LEASE_TTL_NS_def word_le_nat_alt)

end
