(* ===== verification/HelperSystem.thy ===== *)
theory HelperSystem
  imports ControlLease
begin

text \<open>
  The system calls the helper's supervisor makes (\<open>prototype/helper-ipc/ControlIntentJournal.c\<close>,
  \<open>SupervisorOwnership.c\<close>, \<open>WorkerSupervisor.c\<close>) and the state of the supervising process.

  The system is not part of the repository: it is the record \<open>posix\<close> of state transformers of an
  arbitrary type \<open>'d\<close>, so every theorem holds for every system. A call that fails returns its
  \<open>errno\<close>; \<open>sys_fork\<close> is what the parent sees, \<open>Some n\<close> for the child \<open>n + 1\<close>. A \<open>parent\<close> is
  the supervising process: the system, the lease its caller passed by pointer (\<open>None\<close> is NULL), the
  caller's snapshot, and a ghost log, newest first, of the system calls with an effect, the calls made
  on the lease, and the loops that ran out of fuel.
\<close>

section \<open>The system\<close>

datatype errno = ENOENT | EEXIST | EINTR | EAGAIN | ESRCH | OtherErrno

text \<open>\<open>O_CREAT\<close> carries the mode argument that \<open>openat\<close> takes with it.\<close>

datatype open_flag =
  O_RDONLY | O_WRONLY | O_RDWR | O_CREAT u16 | O_EXCL | O_NOFOLLOW | O_CLOEXEC | O_DIRECTORY

datatype file_kind = Directory | RegularFile | OtherKind

record file_status =
  st_kind :: file_kind
  st_permissions :: u16
  st_uid :: u32
  st_nlink :: u16
  st_size :: int
  st_dev :: int
  st_ino :: u64

datatype wait_result = StillRunning | Reaped int | WaitFailed errno

text \<open>What a forked process goes on to do.\<close>

datatype worker_role = Operating | Recovering | Observing

record 'd posix =
  sys_fstat :: "int \<Rightarrow> ('d, file_status option) state"
  sys_fstatat :: "int \<Rightarrow> string \<Rightarrow> ('d, file_status option) state"
  sys_geteuid :: "('d, u32) state"
  sys_openat :: "int \<Rightarrow> string \<Rightarrow> open_flag list \<Rightarrow> ('d, errno + int) state"
  sys_read :: "int \<Rightarrow> nat \<Rightarrow> ('d, errno + u8 list) state"
  sys_write :: "int \<Rightarrow> u8 list \<Rightarrow> ('d, errno + nat) state"
  sys_ftruncate :: "int \<Rightarrow> ('d, bool) state"
  sys_fsync :: "int \<Rightarrow> ('d, bool) state"
  sys_close :: "int \<Rightarrow> ('d, bool) state"
  sys_unlinkat :: "int \<Rightarrow> string \<Rightarrow> ('d, bool) state"
  sys_renameat :: "int \<Rightarrow> string \<Rightarrow> string \<Rightarrow> ('d, bool) state"
  sys_flock :: "int \<Rightarrow> ('d, bool) state"
  sys_pidinfo :: "int \<Rightarrow> ('d, errno + nat) state"
  sys_clock :: "('d, u64) state"
  sys_nanosleep :: "u64 \<Rightarrow> ('d, unit) state"
  sys_socketpair :: "('d, (int \<times> int) option) state"
  sys_pipe :: "('d, (int \<times> int) option) state"
  sys_set_cloexec :: "int \<Rightarrow> ('d, bool) state"
  sys_set_nonblock :: "int \<Rightarrow> ('d, bool) state"
  sys_send :: "int \<Rightarrow> u8 list \<Rightarrow> ('d, errno + nat) state"
  sys_fork :: "worker_role \<Rightarrow> ('d, nat option) state"
  sys_waitpid :: "int \<Rightarrow> ('d, wait_result) state"
  sys_kill :: "int \<Rightarrow> ('d, errno option) state"
  sys_start_watcher :: "int \<Rightarrow> ('d, bool) state"
  sys_sigchld_default :: "('d, bool) state"
  retry_fuel :: nat

datatype sys_event =
    Opened_at string "open_flag list" "errno + int"
  | Wrote int "u8 list" "errno + nat"
  | Truncated int bool
  | Synced int bool
  | Closed_fd int bool
  | Unlinked string bool
  | Renamed string string bool
  | Locked int bool
  | Granted int bool
  | Forked worker_role int
  | Waited int wait_result
  | Killed int
  | Called lease_call bool
  | Zeroed_lease
  | Ran_out

record 'd parent =
  system :: 'd
  the_lease :: "control_lease option"
  latest_snapshot :: smc_baseline_snapshot
  sys_log :: "sys_event list"

definition in_system :: "('d, 'r) state \<Rightarrow> ('d parent, 'r) state" where
  "in_system m = State (\<lambda>p. case run_state m (system p) of (r, d) \<Rightarrow> (r, p\<lparr>system := d\<rparr>))"

definition note_sys :: "sys_event \<Rightarrow> ('d parent, unit) state" where
  "note_sys e = State (\<lambda>p. ((), p\<lparr>sys_log := e # sys_log p\<rparr>))"

definition logged_call :: "('d, 'r) state \<Rightarrow> ('r \<Rightarrow> sys_event) \<Rightarrow> ('d parent, 'r) state" where
  "logged_call m e = do { r \<leftarrow> in_system m; note_sys (e r); ret r }"

text \<open>A call on the lease: its operation, and how the log names it.\<close>

definition on_lease ::
  "(control_lease option \<Rightarrow> bool \<times> control_lease option) \<Rightarrow> lease_call \<Rightarrow> ('d parent, bool) state"
where
  "on_lease f c = State (\<lambda>p. case f (the_lease p) of
     (b, lease) \<Rightarrow> (b, p\<lparr>the_lease := lease, sys_log := Called c b # sys_log p\<rparr>))"

definition on_lease_void ::
  "(control_lease option \<Rightarrow> control_lease option) \<Rightarrow> lease_call \<Rightarrow> ('d parent, unit) state" where
  "on_lease_void f c = do { on_lease (\<lambda>l. (True, f l)) c; ret () }"

text \<open>\<open>memset(lease, 0, sizeof(*lease))\<close>\<close>

definition clear_lease :: "('d parent, unit) state" where
  "clear_lease = State (\<lambda>p. ((), p\<lparr>the_lease := map_option (\<lambda>_. zero_lease) (the_lease p),
     sys_log := Zeroed_lease # sys_log p\<rparr>))"

text \<open>The calls on the lease since it was last zeroed, newest first.\<close>

fun lease_history :: "sys_event list \<Rightarrow> (lease_call \<times> bool) list" where
  "lease_history [] = []"
| "lease_history (Called c b # es) = (c, b) # lease_history es"
| "lease_history (Zeroed_lease # es) = []"
| "lease_history (e # es) = lease_history es"

definition map_state :: "('r \<Rightarrow> 'q) \<Rightarrow> ('d, 'r) state \<Rightarrow> ('d, 'q) state" where
  "map_state f m = do { r \<leftarrow> m; ret (f r) }"

definition get_lease :: "('d parent, control_lease option) state" where
  "get_lease = State (\<lambda>p. (the_lease p, p))"

text \<open>Bytes of a C string.\<close>

definition bytes_of :: "string \<Rightarrow> u8 list" where
  "bytes_of text = map (\<lambda>c. word_of_nat (of_char c)) text"

section \<open>Loops over short reads and writes\<close>

text \<open>
  \<open>while (done < n) { count = write(...); if (count > 0) done += count; else if (EINTR) continue;
  else break; }\<close>: how many bytes were written. The fuel bounds the calls of one loop.
\<close>

primrec write_from :: "'d posix \<Rightarrow> nat \<Rightarrow> int \<Rightarrow> u8 list \<Rightarrow> nat \<Rightarrow> ('d parent, nat) state" where
  "write_from os 0 fd contents written = do { note_sys Ran_out; ret written }"
| "write_from os (Suc fuel) fd contents written =
     (if \<not> written < length contents then ret written
      else do {
        count \<leftarrow> logged_call (sys_write os fd (drop written contents))
                   (Wrote fd (drop written contents));
        case count of
          Inr n \<Rightarrow> if 0 < n then write_from os fuel fd contents (written + n) else ret written
        | Inl e \<Rightarrow> if e = EINTR then write_from os fuel fd contents written else ret written
      })"

definition write_all :: "'d posix \<Rightarrow> int \<Rightarrow> u8 list \<Rightarrow> ('d parent, nat) state" where
  "write_all os fd contents = write_from os (retry_fuel os) fd contents 0"

primrec read_from :: "'d posix \<Rightarrow> nat \<Rightarrow> int \<Rightarrow> nat \<Rightarrow> u8 list \<Rightarrow> ('d parent, u8 list) state" where
  "read_from os 0 fd wanted got = do { note_sys Ran_out; ret got }"
| "read_from os (Suc fuel) fd wanted got =
     (if \<not> length got < wanted then ret got
      else do {
        chunk \<leftarrow> in_system (sys_read os fd (wanted - length got));
        case chunk of
          Inr bytes \<Rightarrow> if bytes \<noteq> [] then read_from os fuel fd wanted (got @ bytes) else ret got
        | Inl e \<Rightarrow> if e = EINTR then read_from os fuel fd wanted got else ret got
      })"

text \<open>\<open>do count = read(...); while (count < 0 && errno == EINTR)\<close>\<close>

primrec read_retry :: "'d posix \<Rightarrow> nat \<Rightarrow> int \<Rightarrow> nat \<Rightarrow> ('d parent, errno + u8 list) state" where
  "read_retry os 0 fd wanted = do { note_sys Ran_out; ret (Inl EINTR) }"
| "read_retry os (Suc fuel) fd wanted = do {
     chunk \<leftarrow> in_system (sys_read os fd wanted);
     if chunk = Inl EINTR then read_retry os fuel fd wanted else ret chunk
   }"

primrec write_retry ::
  "'d posix \<Rightarrow> nat \<Rightarrow> int \<Rightarrow> u8 list \<Rightarrow> ('d parent, errno + nat) state" where
  "write_retry os 0 fd contents = do { note_sys Ran_out; ret (Inl EINTR) }"
| "write_retry os (Suc fuel) fd contents = do {
     count \<leftarrow> logged_call (sys_write os fd contents) (Wrote fd contents);
     if count = Inl EINTR then write_retry os fuel fd contents else ret count
   }"

definition read_up_to :: "'d posix \<Rightarrow> int \<Rightarrow> nat \<Rightarrow> ('d parent, u8 list) state" where
  "read_up_to os fd wanted = read_from os (retry_fuel os) fd wanted []"

end
