(* ===== verification/IntentJournal.thy ===== *)
theory IntentJournal
  imports HelperSystem
begin

text \<open>
  The persistent intent marker, \<open>prototype/helper-ipc/ControlIntentJournal.c\<close>: a private file that is
  created before the first write and removed only with a recovery proof.
\<close>

definition marker_name :: string where "marker_name = ''control-intent-v1''"

definition marker_contents :: string where
  "marker_contents = ''Ventilator control pending: Mac15,7 macOS 27.0 v1'' @ [CHR 0x0A]"

definition private_directory :: "'d posix \<Rightarrow> int \<Rightarrow> ('d parent, bool) state" where
  "private_directory os directory_fd =
     (if directory_fd < 0 then ret False
      else do {
        info \<leftarrow> in_system (sys_fstat os directory_fd);
        uid \<leftarrow> in_system (sys_geteuid os);
        ret (case info of
               None \<Rightarrow> False
             | Some st \<Rightarrow> st_kind st = Directory \<and> st_uid st = uid \<and>
                 st_permissions st AND 0x3F = 0)
      })"

definition marker_file_valid :: "file_status \<Rightarrow> u32 \<Rightarrow> bool" where
  "marker_file_valid info uid \<longleftrightarrow>
     st_kind info = RegularFile \<and> st_uid info = uid \<and> st_permissions info AND 0x1FF = 0x180 \<and>
     st_nlink info = 1 \<and> st_size info = int (length marker_contents)"

definition control_intent_read :: "'d posix \<Rightarrow> int \<Rightarrow> ('d parent, control_intent_status) state" where
  "control_intent_read os directory_fd = do {
     is_private \<leftarrow> private_directory os directory_fd;
     if \<not> is_private then ret CONTROL_INTENT_UNKNOWN
     else do {
       opened \<leftarrow> logged_call (sys_openat os directory_fd marker_name [O_RDONLY, O_CLOEXEC, O_NOFOLLOW])
                   (Opened_at marker_name [O_RDONLY, O_CLOEXEC, O_NOFOLLOW]);
       case opened of
         Inl e \<Rightarrow> ret (if e = ENOENT then CONTROL_INTENT_CLEAR else CONTROL_INTENT_UNKNOWN)
       | Inr marker \<Rightarrow> do {
           info \<leftarrow> in_system (sys_fstat os marker);
           uid \<leftarrow> in_system (sys_geteuid os);
           result \<leftarrow> (if (case info of None \<Rightarrow> False | Some st \<Rightarrow> marker_file_valid st uid)
             then do {
               contents \<leftarrow> read_up_to os marker (length marker_contents);
               ret (if contents = bytes_of marker_contents
                    then CONTROL_INTENT_PENDING else CONTROL_INTENT_UNKNOWN)
             }
             else ret CONTROL_INTENT_UNKNOWN);
           closed \<leftarrow> logged_call (sys_close os marker) (Closed_fd marker);
           ret (if \<not> closed then CONTROL_INTENT_UNKNOWN else result)
         }
     }
   }"

definition control_intent_mark_pending :: "'d posix \<Rightarrow> int \<Rightarrow> ('d parent, bool) state" where
  "control_intent_mark_pending os directory_fd = do {
     prepared \<leftarrow> on_lease control_lease_prepare_persistent_intent PrepareIntent;
     if \<not> prepared then ret False
     else do {
       intent \<leftarrow> control_intent_read os directory_fd;
       if intent \<noteq> CONTROL_INTENT_CLEAR then ret False
       else do {
         opened \<leftarrow> logged_call
           (sys_openat os directory_fd marker_name [O_WRONLY, O_CREAT 0x180, O_EXCL, O_CLOEXEC, O_NOFOLLOW])
           (Opened_at marker_name [O_WRONLY, O_CREAT 0x180, O_EXCL, O_CLOEXEC, O_NOFOLLOW]);
         case opened of
           Inl e \<Rightarrow> ret False
         | Inr marker \<Rightarrow> do {
             written \<leftarrow> write_all os marker (bytes_of marker_contents);
             durable \<leftarrow> and_then (ret (written = length marker_contents))
                         (logged_call (sys_fsync os marker) (Synced marker));
             closed \<leftarrow> logged_call (sys_close os marker) (Closed_fd marker);
             synced \<leftarrow> logged_call (sys_fsync os directory_fd) (Synced directory_fd);
             ret (durable \<and> closed \<and> synced)
           }
       }
     }
   }"

definition control_intent_clear_verified :: "'d posix \<Rightarrow> int \<Rightarrow> ('d parent, bool) state" where
  "control_intent_clear_verified os directory_fd = do {
     intent \<leftarrow> control_intent_read os directory_fd;
     if intent \<noteq> CONTROL_INTENT_PENDING then ret False
     else do {
       proved \<leftarrow> on_lease control_lease_take_recovery_proof TakeProof;
       if \<not> proved then ret False
       else do {
         unlinked \<leftarrow> logged_call (sys_unlinkat os directory_fd marker_name) (Unlinked marker_name);
         if \<not> unlinked then ret False
         else logged_call (sys_fsync os directory_fd) (Synced directory_fd)
       }
     }
   }"

end
