(* ===== verification/TextFormat.thy ===== *)
theory TextFormat
  imports Ieee754
begin

text \<open>
  Numbers as text, the way \<open>printf\<close> writes them: \<open>%u\<close> (\<open>decimal\<close>), \<open>%ld\<close> (\<open>decimal_int\<close>), \<open>%02x\<close> and its kin
  (\<open>hex\<close>), \<open>%.nf\<close> (\<open>fixed\<close>, the exact value rounded to nearest, ties to even) and field widths.
\<close>

section \<open>Integers\<close>

fun digit :: "nat \<Rightarrow> char" where
  "digit d = char_of (48 + d)"

fun decimal :: "nat \<Rightarrow> string" where
  "decimal n = (if n < 10 then [digit n] else decimal (n div 10) @ [digit (n mod 10)])"

declare decimal.simps [simp del]

definition decimal_int :: "int \<Rightarrow> string" where
  "decimal_int i = (if i < 0 then CHR ''-'' # decimal (nat (- i)) else decimal (nat i))"

definition hex_digit :: "nat \<Rightarrow> char" where
  "hex_digit d = (if d < 10 then char_of (48 + d) else char_of (87 + d))"

primrec hex :: "nat \<Rightarrow> nat \<Rightarrow> string" where
  "hex 0 n = []"
| "hex (Suc width) n = hex width (n div 16) @ [hex_digit (n mod 16)]"

definition pad_right :: "nat \<Rightarrow> string \<Rightarrow> string" where
  "pad_right width text = text @ replicate (width - length text) CHR '' ''"

section \<open>Doubles\<close>

definition magnitude :: "nat \<Rightarrow> double \<Rightarrow> nat" where
  "magnitude places x = nat (rne (\<bar>fval x\<bar> * 10 ^ places))"

text \<open>A finite value; the program prints no other.\<close>

definition fixed :: "nat \<Rightarrow> double \<Rightarrow> string" where
  "fixed places x =
     (let n = magnitude places x; fraction = decimal (n mod 10 ^ places)
      in (if signbit x then ''-'' else []) @ decimal (n div 10 ^ places) @
         (if places = 0 then []
          else CHR ''.'' # replicate (places - length fraction) CHR ''0'' @ fraction))"

section \<open>Digits\<close>

definition digits_value :: "string \<Rightarrow> int" where
  "digits_value ds = foldl (\<lambda>v c. v * 10 + (of_char c - 48)) 0 ds"

definition is_digit :: "char \<Rightarrow> bool" where
  "is_digit c \<longleftrightarrow> 48 \<le> (of_char c :: nat) \<and> (of_char c :: nat) \<le> 57"

lemma of_char_digit: "d < 10 \<Longrightarrow> of_char (digit d) = (48 + d :: nat)"
  by (simp add: of_char_of)

lemma digit_is_digit: "d < 10 \<Longrightarrow> is_digit (digit d)"
  by (simp add: is_digit_def of_char_digit del: digit.simps)

lemma decimal_digits: "list_all is_digit (decimal n)"
proof (induction n rule: decimal.induct)
  case (1 n)
  then show ?case
    by (subst decimal.simps) (simp add: digit_is_digit del: digit.simps)
qed

lemma decimal_not_empty: "decimal n \<noteq> []"
  by (subst decimal.simps) simp

lemma decimal_length: "n < 10 ^ Suc k \<Longrightarrow> length (decimal n) \<le> Suc k"
proof (induction k arbitrary: n)
  case (Suc k)
  then have "n div 10 < 10 ^ Suc k" by (simp add: less_mult_imp_div_less)
  from Suc.IH[OF this] show ?case by (subst decimal.simps) simp
qed (subst decimal.simps, simp)

lemma digits_value_snoc: "digits_value (ds @ [c]) = digits_value ds * 10 + (of_char c - 48)"
  by (simp add: digits_value_def)

lemma of_char_digit_int: "d < 10 \<Longrightarrow> (of_char (digit d) :: int) = 48 + int d"
  by (metis of_char_digit of_nat_add of_nat_numeral of_nat_of_char)

lemma decimal_value: "digits_value (decimal n) = int n"
proof (induction n rule: decimal.induct)
  case (1 n)
  have "int (n div 10) * 10 + int (n mod 10) = int n" by presburger
  with 1 show ?case
    by (subst decimal.simps) (auto simp: digits_value_snoc of_char_digit_int digits_value_def[of "[_]"]
        simp del: digit.simps)
qed

text \<open>No leading zero, except in zero itself.\<close>

lemma decimal_head: "0 < n \<Longrightarrow> hd (decimal n) \<noteq> CHR ''0''"
proof (induction n rule: decimal.induct)
  case (1 n)
  show ?case
  proof (cases "n < 10")
    case True
    have "of_char (digit n) \<noteq> (48 :: nat)" using True 1(2) of_char_digit[of n] by simp
    then have "digit n \<noteq> CHR ''0''" by (auto simp del: digit.simps)
    with True show ?thesis by (subst decimal.simps) simp
  next
    case False
    with 1 decimal_not_empty[of "n div 10"] show ?thesis by (subst decimal.simps) (simp add: hd_append)
  qed
qed

lemma digit_eq_iff: "d < 10 \<Longrightarrow> of_char c = (48 + d :: nat) \<Longrightarrow> digit d = c"
  by (metis char_of_char digit.simps)

lemma decimal_0: "decimal 0 = ''0''"
  by (subst decimal.simps) (simp add: digit_eq_iff del: digit.simps)

end
