(* ===== verification/WorkerOwnership.thy ===== *)
theory WorkerOwnership
  imports IntentJournal TextFormat
begin

text \<open>
  Exclusive ownership of the workers, \<open>prototype/helper-ipc/SupervisorOwnership.c\<close>: the lock file, the
  durable record of the worker's process id, and the start of a worker, which waits for its grant.
  The record's reader is \<open>sscanf\<close>; its format is interpreted directive by directive.
\<close>

section \<open>The worker record\<close>

definition lock_name :: string where "lock_name = ''supervisor-owner-v1''"
definition worker_name :: string where "worker_name = ''supervisor-worker-v1''"
definition next_name :: string where "next_name = ''supervisor-worker.next''"

definition INT_MAX :: int where "INT_MAX = 2147483647"

text \<open>\<open>snprintf(contents, 64, "Ventilator worker v1 %ld\n", child)\<close>\<close>

definition record_prefix :: string where "record_prefix = ''Ventilator worker v1 ''"

definition worker_record :: "int \<Rightarrow> string" where
  "worker_record child =
     record_prefix @ (if child < 0 then CHR ''-'' # decimal (nat (- child)) else decimal (nat child)) @
     [CHR 0x0A]"

definition is_space :: "char \<Rightarrow> bool" where
  "is_space c \<longleftrightarrow> c \<in> {CHR '' '', CHR 0x09, CHR 0x0A, CHR 0x0B, CHR 0x0C, CHR 0x0D}"

text \<open>The literal part of a \<open>scanf\<close> format: a space matches any white space, also none.\<close>

fun scan_literal :: "string \<Rightarrow> string \<Rightarrow> string option" where
  "scan_literal [] input = Some input"
| "scan_literal (f # format) input =
     (if is_space f then scan_literal format (dropWhile is_space input)
      else case input of
             [] \<Rightarrow> None
           | c # rest \<Rightarrow> if c = f then scan_literal format rest else None)"

text \<open>\<open>%ld\<close>: leading white space, a sign, and at least one digit. A value beyond \<open>long\<close> saturates in C;
  it is out of the accepted range either way.\<close>

definition scan_long :: "string \<Rightarrow> (int \<times> string) option" where
  "scan_long input =
     (let input = dropWhile is_space input;
          negative = (input \<noteq> [] \<and> hd input = CHR ''-'');
          body = (if input \<noteq> [] \<and> (hd input = CHR ''-'' \<or> hd input = CHR ''+'') then tl input else input);
          ds = takeWhile is_digit body
      in if ds = [] then None
         else Some (if negative then - digits_value ds else digits_value ds, dropWhile is_digit body))"

text \<open>\<open>sscanf(contents, "Ventilator worker v1 %ld\n%n", &recorded, &used) == 1\<close>: the two outputs.\<close>

definition scan_record :: "string \<Rightarrow> (int \<times> nat) option" where
  "scan_record contents =
     (let input = c_string contents
      in case scan_literal record_prefix input of
           None \<Rightarrow> None
         | Some rest \<Rightarrow>
             case scan_long rest of
               None \<Rightarrow> None
             | Some (recorded, rest) \<Rightarrow>
                 Some (recorded, length input - length (dropWhile is_space rest)))"

definition text_of :: "u8 list \<Rightarrow> string" where
  "text_of bytes = map (\<lambda>b. char_of (unat b)) bytes"

section \<open>Files\<close>

definition private_file :: "'d posix \<Rightarrow> int \<Rightarrow> ('d parent, bool) state" where
  "private_file os descriptor =
     (if descriptor < 0 then ret False
      else do {
        info \<leftarrow> in_system (sys_fstat os descriptor);
        uid \<leftarrow> in_system (sys_geteuid os);
        ret (case info of
               None \<Rightarrow> False
             | Some st \<Rightarrow> st_kind st = RegularFile \<and> st_uid st = uid \<and>
                 st_permissions st AND 0x1FF = 0x180 \<and> st_nlink st = 1)
      })"

definition recorded_worker :: "u8 list \<Rightarrow> int option" where
  "recorded_worker bytes =
     (case scan_record (text_of bytes) of
        None \<Rightarrow> None
      | Some (recorded, used) \<Rightarrow>
          if used \<noteq> length bytes \<or> recorded < 0 \<or> INT_MAX < recorded then None else Some recorded)"

text \<open>\<open>proc_pidinfo\<close> returns 0 with an errno (\<open>Inl\<close>), or a size.\<close>

definition old_worker_absent :: "'d posix \<Rightarrow> int \<Rightarrow> bool \<Rightarrow> ('d parent, bool) state" where
  "old_worker_absent os directory_fd pending = do {
     opened \<leftarrow> logged_call (sys_openat os directory_fd worker_name [O_RDONLY, O_NOFOLLOW, O_CLOEXEC])
                 (Opened_at worker_name [O_RDONLY, O_NOFOLLOW, O_CLOEXEC]);
     case opened of
       Inl e \<Rightarrow> ret (e = ENOENT \<and> \<not> pending)
     | Inr descriptor \<Rightarrow> do {
         is_private \<leftarrow> private_file os descriptor;
         contents \<leftarrow> (if is_private then in_system (sys_read os descriptor 63) else ret (Inl OtherErrno));
         exact \<leftarrow> (case contents of
                      Inl _ \<Rightarrow> ret False
                    | Inr bytes \<Rightarrow>
                        if bytes = [] then ret False
                        else do {
                          info \<leftarrow> in_system (sys_fstat os descriptor);
                          ret (case info of None \<Rightarrow> False | Some st \<Rightarrow> st_size st = int (length bytes))
                        });
         closed \<leftarrow> logged_call (sys_close os descriptor) (Closed_fd descriptor);
         if \<not> closed then ret False
         else if \<not> exact then ret False
         else case (case contents of Inl _ \<Rightarrow> None | Inr bytes \<Rightarrow> recorded_worker bytes) of
           None \<Rightarrow> ret False
         | Some recorded \<Rightarrow>
             if recorded = 0 then ret True
             else do {
               size \<leftarrow> in_system (sys_pidinfo os recorded);
               ret (size = Inl ESRCH)
             }
       }
   }"

definition supervisor_ownership_record :: "'d posix \<Rightarrow> int \<Rightarrow> int \<Rightarrow> ('d parent, bool) state" where
  "supervisor_ownership_record os directory_fd child = do {
     is_private \<leftarrow> private_directory os directory_fd;
     if \<not> is_private \<or> child < 0 then ret False
     else let contents = worker_record child in
       if length contents = 0 \<or> 64 \<le> length contents then ret False
       else do {
         opened \<leftarrow> logged_call
           (sys_openat os directory_fd next_name [O_WRONLY, O_CREAT 0x180, O_NOFOLLOW, O_CLOEXEC])
           (Opened_at next_name [O_WRONLY, O_CREAT 0x180, O_NOFOLLOW, O_CLOEXEC]);
         case opened of
           Inl _ \<Rightarrow> ret False
         | Inr descriptor \<Rightarrow> do {
             acceptable \<leftarrow> private_file os descriptor;
             if \<not> acceptable
             then do {
               (if 0 \<le> descriptor
                then do { logged_call (sys_close os descriptor) (Closed_fd descriptor); ret () }
                else ret ());
               ret False
             }
             else do {
               saved \<leftarrow> logged_call (sys_ftruncate os descriptor) (Truncated descriptor);
               saved \<leftarrow> (if saved
                 then do { written \<leftarrow> write_all os descriptor (bytes_of contents);
                           ret (written = length contents) }
                 else ret False);
               saved \<leftarrow> and_then (ret saved)
                 (logged_call (sys_fsync os descriptor) (Synced descriptor));
               closed \<leftarrow> logged_call (sys_close os descriptor) (Closed_fd descriptor);
               and_then (ret (saved \<and> closed))
                 (and_then (logged_call (sys_renameat os directory_fd next_name worker_name)
                              (Renamed next_name worker_name))
                           (logged_call (sys_fsync os directory_fd) (Synced directory_fd)))
             }
           }
       }
   }"

text \<open>\<open>None\<close> is the result -1.\<close>

definition supervisor_ownership_acquire :: "'d posix \<Rightarrow> int \<Rightarrow> bool \<Rightarrow> ('d parent, int option) state" where
  "supervisor_ownership_acquire os directory_fd pending = do {
     is_private \<leftarrow> private_directory os directory_fd;
     if \<not> is_private then ret None
     else do {
       opened \<leftarrow> logged_call
         (sys_openat os directory_fd lock_name [O_RDWR, O_CREAT 0x180, O_NOFOLLOW, O_CLOEXEC])
         (Opened_at lock_name [O_RDWR, O_CREAT 0x180, O_NOFOLLOW, O_CLOEXEC]);
       case opened of
         Inl _ \<Rightarrow> ret None
       | Inr descriptor \<Rightarrow> do {
           admitted \<leftarrow>
             and_then (private_file os descriptor)
             (and_then (logged_call (sys_flock os descriptor) (Locked descriptor))
             (and_then (do {
                 intent \<leftarrow> control_intent_read os directory_fd;
                 ret (intent = (if pending then CONTROL_INTENT_PENDING else CONTROL_INTENT_CLEAR))
               })
               (old_worker_absent os directory_fd pending)));
           if \<not> admitted
           then do {
             (if 0 \<le> descriptor
              then do { logged_call (sys_close os descriptor) (Closed_fd descriptor); ret () }
              else ret ());
             ret None
           }
           else do {
             same \<leftarrow> (do {
               opened_info \<leftarrow> in_system (sys_fstat os descriptor);
               named_info \<leftarrow> (case opened_info of
                                 None \<Rightarrow> ret None
                               | Some _ \<Rightarrow> in_system (sys_fstatat os directory_fd lock_name));
               ret (case (opened_info, named_info) of
                      (Some a, Some b) \<Rightarrow> st_dev a = st_dev b \<and> st_ino a = st_ino b
                    | _ \<Rightarrow> False)
             });
             recorded \<leftarrow> and_then (ret same) (supervisor_ownership_record os directory_fd 0);
             if \<not> recorded
             then do { logged_call (sys_close os descriptor) (Closed_fd descriptor); ret None }
             else ret (Some descriptor)
           }
         }
     }
   }"

section \<open>The worker's side\<close>

text \<open>The exit code of the watching thread, which runs beside the worker and ends its process.\<close>

definition parent_connection_watch :: "'d posix \<Rightarrow> int \<Rightarrow> ('d parent, nat) state" where
  "parent_connection_watch os connection = do {
     read_retry os (retry_fuel os) connection 1;
     ret 125
   }"

text \<open>\<open>Some code\<close>: the worker exits; \<open>None\<close>: it may run its callback.\<close>

definition supervisor_ownership_enter_child ::
  "'d posix \<Rightarrow> int \<Rightarrow> u64 \<Rightarrow> ('d parent, nat option) state" where
  "supervisor_ownership_enter_child os connection deadline_ns = do {
     grant \<leftarrow> read_retry os (retry_fuel os) connection 1;
     denied \<leftarrow> or_else (ret (grant \<noteq> Inr (bytes_of ''G'')))
                 (do { now \<leftarrow> in_system (sys_clock os); ret (deadline_ns \<le> now) });
     if denied then ret (Some 126)
     else do {
       watching \<leftarrow> in_system (sys_start_watcher os connection);
       ret (if \<not> watching then Some 126 else None)
     }
   }"

end
