(* ===== verification/WorkerSupervisor.thy ===== *)
theory WorkerSupervisor
  imports WorkerOwnership
begin

text \<open>
  The supervisor of the helper's workers, \<open>prototype/helper-ipc/WorkerSupervisor.c\<close>: deadlines, the
  reaping of a child, the phases operation, recovery and observation, and the three entry points.
  The functions of the parent run in the state \<open>parent\<close>; what a child runs after \<open>fork\<close> is a
  function of its own (\<open>action_child\<close>, \<open>observe_child\<close>) that returns the child's exit code.

  The polling loops end by the clock, which the system provides; \<open>retry_fuel\<close> bounds the rounds of a
  loop, and a loop that runs out of them reports that the child was not stopped. The memory layout of
  an observation in the pipe is the record \<open>observation_abi\<close>.
\<close>

section \<open>Data\<close>

record supervisor_limits =
  operation_ns :: u64
  recovery_ns :: u64
  observation_ns :: u64
  reap_ns :: u64

record 'd worker_backend =
  operate :: "('d, int) state option"
  recover :: "('d, int) state option"
  read_baseline_of :: "('d, smc_baseline_result \<times> smc_baseline_snapshot) state option"
  observer_started :: "(int \<Rightarrow> bool \<Rightarrow> ('d, unit) state) option"
  parent_hook :: "('d, unit) state option"

datatype worker_exit =
    WORKER_NOT_STARTED
  | WORKER_EXITED
  | WORKER_FAILED
  | WORKER_CRASHED
  | WORKER_TIMED_OUT
  | WORKER_CANCELLED

datatype supervisor_result =
    SUPERVISOR_BLOCKED
  | SUPERVISOR_RECOVERED
  | SUPERVISOR_RECOVERY_FAILED
  | SUPERVISOR_OBSERVATION_FAILED
  | SUPERVISOR_STOP_FAILED
  | SUPERVISOR_BASELINE_READY

record supervisor_report =
  sup_result :: supervisor_result
  operation_exit :: worker_exit
  operation_pid :: int
  recovery_pid :: int
  observer_pid :: int
  reaped_count :: u32

definition blocked_report :: supervisor_report where
  "blocked_report = \<lparr>sup_result = SUPERVISOR_BLOCKED, operation_exit = WORKER_NOT_STARTED,
     operation_pid = 0, recovery_pid = 0, observer_pid = 0, reaped_count = 0\<rparr>"

record observation =
  started_ns :: u64
  finished_ns :: u64
  observation_result :: smc_baseline_result
  observation_snapshot :: smc_baseline_snapshot

record observation_abi =
  observation_size :: nat
  observation_encode :: "observation \<Rightarrow> u8 list"
  observation_decode :: "u8 list \<Rightarrow> observation"

definition SECOND_NS :: u64 where "SECOND_NS = 1000000000"
definition MAX_READ_NS :: u64 where "MAX_READ_NS = 5000000000"
definition POLL_NS :: u64 where "POLL_NS = 10000000"
definition STDOUT_FILENO :: int where "STDOUT_FILENO = 1"

section \<open>Clock and limits\<close>

definition sup_now :: "'d posix \<Rightarrow> ('d parent, u64) state" where
  "sup_now os = in_system (sys_clock os)"

definition parent_check :: "'d worker_backend \<Rightarrow> ('d parent, unit) state" where
  "parent_check backend =
     (case parent_hook backend of None \<Rightarrow> ret () | Some m \<Rightarrow> in_system m)"

definition deadline_for :: "'d posix \<Rightarrow> u64 \<Rightarrow> ('d parent, u64 option) state" where
  "deadline_for os duration = do {
     now \<leftarrow> sup_now os;
     ret (if now = 0 \<or> duration = 0 \<or> UINT64_MAX - duration < now then None else Some (now + duration))
   }"

definition pause_ns :: "'d posix \<Rightarrow> u64 \<Rightarrow> ('d parent, unit) state" where
  "pause_ns os duration = in_system (sys_nanosleep os duration)"

definition limits_valid :: "supervisor_limits \<Rightarrow> bool" where
  "limits_valid limits \<longleftrightarrow>
     0 < operation_ns limits \<and> operation_ns limits \<le> CONTROL_LEASE_TTL_NS \<and>
     0 < recovery_ns limits \<and> recovery_ns limits \<le> 90 * SECOND_NS \<and>
     CONTROL_LEASE_BASELINE_NS \<le> observation_ns limits \<and> observation_ns limits \<le> 90 * SECOND_NS \<and>
     0 < reap_ns limits \<and> reap_ns limits \<le> 5 * SECOND_NS"

text \<open>The status of \<open>waitpid\<close>, with the macros of \<open>sys/wait.h\<close>.\<close>

definition wait_status :: "int \<Rightarrow> int" where "wait_status status = status mod 128"

definition wifsignaled :: "int \<Rightarrow> bool" where
  "wifsignaled status \<longleftrightarrow> wait_status status \<noteq> 127 \<and> wait_status status \<noteq> 0"

definition wifexited :: "int \<Rightarrow> bool" where "wifexited status \<longleftrightarrow> wait_status status = 0"

definition wexitstatus :: "int \<Rightarrow> int" where "wexitstatus status = status div 256 mod 256"

definition classify_exit :: "int \<Rightarrow> worker_exit" where
  "classify_exit status =
     (if wifsignaled status then WORKER_CRASHED
      else if wifexited status \<and> wexitstatus status = 0 then WORKER_EXITED else WORKER_FAILED)"

section \<open>Stopping and reaping a child\<close>

definition wait_child :: "'d posix \<Rightarrow> int \<Rightarrow> ('d parent, wait_result) state" where
  "wait_child os child = logged_call (sys_waitpid os child) (Waited child)"

definition count_reaped :: "supervisor_report \<Rightarrow> supervisor_report" where
  "count_reaped report = report\<lparr>reaped_count := reaped_count report + 1\<rparr>"

primrec reap_until ::
  "'d posix \<Rightarrow> nat \<Rightarrow> int \<Rightarrow> u64 \<Rightarrow> supervisor_report \<Rightarrow> ('d parent, bool \<times> supervisor_report) state"
where
  "reap_until os 0 child deadline report = do { note_sys Ran_out; ret (False, report) }"
| "reap_until os (Suc fuel) child deadline report = do {
     waited \<leftarrow> wait_child os child;
     case waited of
       Reaped status \<Rightarrow> ret (True, count_reaped report)
     | WaitFailed e \<Rightarrow>
         if e \<noteq> EINTR then ret (False, report)
         else do {
           now \<leftarrow> sup_now os;
           if now = 0 \<or> deadline \<le> now then ret (False, report)
           else do { pause_ns os POLL_NS; reap_until os fuel child deadline report }
         }
     | StillRunning \<Rightarrow> do {
         now \<leftarrow> sup_now os;
         if now = 0 \<or> deadline \<le> now then ret (False, report)
         else do { pause_ns os POLL_NS; reap_until os fuel child deadline report }
       }
   }"

definition stop_and_reap ::
  "'d posix \<Rightarrow> int \<Rightarrow> u64 \<Rightarrow> supervisor_report \<Rightarrow> ('d parent, bool \<times> supervisor_report) state" where
  "stop_and_reap os child reap_limit report =
     (if child \<le> 0 then ret (False, report)
      else do {
        limit \<leftarrow> deadline_for os reap_limit;
        case limit of
          None \<Rightarrow> ret (False, report)
        | Some deadline \<Rightarrow> do {
            waited \<leftarrow> wait_child os child;
            let go_on = do {
                  killed \<leftarrow> logged_call (sys_kill os child) (\<lambda>_. Killed child);
                  if killed \<noteq> None \<and> killed \<noteq> Some ESRCH then ret (False, report)
                  else reap_until os (retry_fuel os) child deadline report
                }
            in case waited of
                 Reaped status \<Rightarrow> ret (True, count_reaped report)
               | WaitFailed e \<Rightarrow> if e \<noteq> EINTR then ret (False, report) else go_on
               | StillRunning \<Rightarrow> go_on
          }
      })"

text \<open>\<open>cancel\<close> is the pointer to the flag a signal handler may set; \<open>None\<close> is NULL.\<close>

definition cancelled :: "('d, bool) state option \<Rightarrow> ('d parent, bool) state" where
  "cancelled cancel = (case cancel of None \<Rightarrow> ret False | Some m \<Rightarrow> in_system m)"

primrec wait_phase_from ::
  "'d posix \<Rightarrow> nat \<Rightarrow> int \<Rightarrow> u64 \<Rightarrow> u64 \<Rightarrow> ('d, bool) state option \<Rightarrow> worker_exit \<Rightarrow> supervisor_report \<Rightarrow>
   'd worker_backend \<Rightarrow> ('d parent, bool \<times> worker_exit \<times> supervisor_report) state"
where
  "wait_phase_from os 0 child deadline reap_limit cancel exit_kind report backend =
     do { note_sys Ran_out; ret (False, exit_kind, report) }"
| "wait_phase_from os (Suc fuel) child deadline reap_limit cancel exit_kind report backend = do {
     parent_check backend;
     now \<leftarrow> sup_now os;
     over \<leftarrow> or_else (ret (now = 0 \<or> deadline \<le> now)) (cancelled cancel);
     if over
     then do {
       was_cancelled \<leftarrow> cancelled cancel;
       (stopped, report) \<leftarrow> stop_and_reap os child reap_limit report;
       ret (stopped, if was_cancelled then WORKER_CANCELLED else WORKER_TIMED_OUT, report)
     }
     else do {
       waited \<leftarrow> wait_child os child;
       let again = do {
             pause_ns os POLL_NS;
             wait_phase_from os fuel child deadline reap_limit cancel exit_kind report backend
           }
       in case waited of
            Reaped status \<Rightarrow> ret (True, classify_exit status, count_reaped report)
          | WaitFailed e \<Rightarrow> if e \<noteq> EINTR then ret (False, exit_kind, report) else again
          | StillRunning \<Rightarrow> again
     }
   }"

definition wait_phase where
  "wait_phase os child deadline reap_limit cancel exit_kind report backend =
     wait_phase_from os (retry_fuel os) child deadline reap_limit cancel exit_kind report backend"

section \<open>Starting a child\<close>

definition close_fd :: "'d posix \<Rightarrow> int \<Rightarrow> ('d parent, unit) state" where
  "close_fd os fd = do { logged_call (sys_close os fd) (Closed_fd fd); ret () }"

definition close_some :: "'d posix \<Rightarrow> int option \<Rightarrow> ('d parent, unit) state" where
  "close_some os connection = (case connection of None \<Rightarrow> ret () | Some fd \<Rightarrow> close_fd os fd)"

text \<open>The parent's side: the child, or -1, and its connection (\<open>None\<close> is -1).\<close>

definition fork_worker :: "'d posix \<Rightarrow> worker_role \<Rightarrow> ('d parent, int) state" where
  "fork_worker os role =
     logged_call (map_state (\<lambda>r. case r of None \<Rightarrow> - 1 | Some n \<Rightarrow> int n + 1) (sys_fork os role))
       (Forked role)"

definition spawn_worker ::
  "'d posix \<Rightarrow> int \<Rightarrow> 'd worker_backend \<Rightarrow> worker_role \<Rightarrow> ('d parent, int \<times> int option) state" where
  "spawn_worker os directory_fd backend role = do {
     parent_check backend;
     channel \<leftarrow> in_system (sys_socketpair os);
     case channel of
       None \<Rightarrow> ret (- 1, None)
     | Some (ours, theirs) \<Rightarrow> do {
         prepared \<leftarrow> and_then (in_system (sys_set_cloexec os ours)) (in_system (sys_set_cloexec os theirs));
         if \<not> prepared then do { close_fd os ours; close_fd os theirs; ret (- 1, None) }
         else do {
           child \<leftarrow> fork_worker os role;
           close_fd os theirs;
           if child < 0 then do { close_fd os ours; ret (child, None) }
           else do {
             recorded \<leftarrow> supervisor_ownership_record os directory_fd child;
             parent_check backend;
             granted \<leftarrow> and_then (ret recorded)
               (logged_call (map_state (\<lambda>r. r = Inr 1) (sys_send os ours (bytes_of ''G'')))
                  (Granted child));
             if \<not> granted then do { close_fd os ours; ret (child, None) }
             else ret (child, Some ours)
           }
         }
       }
   }"

section \<open>The child's side\<close>

text \<open>What the child of \<open>spawn_worker\<close> does first: \<open>Some code\<close> when it exits.\<close>

definition worker_child :: "'d posix \<Rightarrow> int \<Rightarrow> int \<Rightarrow> int \<Rightarrow> u64 \<Rightarrow> ('d parent, nat option) state" where
  "worker_child os directory_fd ours theirs deadline = do {
     close_fd os ours;
     close_fd os directory_fd;
     close_fd os STDOUT_FILENO;
     supervisor_ownership_enter_child os theirs deadline
   }"

text \<open>The child of \<open>start_action\<close>: its exit code.\<close>

definition action_child ::
  "'d posix \<Rightarrow> int \<Rightarrow> ('d, int) state \<Rightarrow> u64 \<Rightarrow> int \<Rightarrow> int \<Rightarrow> ('d parent, nat) state" where
  "action_child os directory_fd action deadline ours theirs = do {
     exited \<leftarrow> worker_child os directory_fd ours theirs deadline;
     case exited of
       Some code \<Rightarrow> ret code
     | None \<Rightarrow> do { result \<leftarrow> in_system action; ret (if result = 0 then 0 else 1) }
   }"

primrec observe_child_from ::
  "'d posix \<Rightarrow> observation_abi \<Rightarrow> ('d, smc_baseline_result \<times> smc_baseline_snapshot) state \<Rightarrow> int \<Rightarrow>
   nat list \<Rightarrow> ('d parent, nat) state"
where
  "observe_child_from os abi reader output [] = ret 0"
| "observe_child_from os abi reader output (index # indices) = do {
     started \<leftarrow> sup_now os;
     (result, snapshot) \<leftarrow> in_system reader;
     finished \<leftarrow> sup_now os;
     let observation = \<lparr>started_ns = started, finished_ns = finished, observation_result = result,
                        observation_snapshot = snapshot\<rparr>
     in do {
       written \<leftarrow> write_retry os (retry_fuel os) output (observation_encode abi observation);
       if written \<noteq> Inr (observation_size abi) then ret 1
       else if result \<noteq> SMC_BASELINE_OK then ret 1
       else do {
         (if index + 1 < unat CONTROL_LEASE_REQUIRED_SAMPLES then pause_ns os SECOND_NS else ret ());
         observe_child_from os abi reader output indices
       }
     }
   }"

definition observe_child ::
  "'d posix \<Rightarrow> observation_abi \<Rightarrow> ('d, smc_baseline_result \<times> smc_baseline_snapshot) state \<Rightarrow> int \<Rightarrow>
   ('d parent, nat) state" where
  "observe_child os abi reader output =
     observe_child_from os abi reader output [0..<unat CONTROL_LEASE_REQUIRED_SAMPLES]"

text \<open>The child of \<open>observe_owned\<close>, which also closes its copy of the pipe's reading end.\<close>

definition observer_child ::
  "'d posix \<Rightarrow> observation_abi \<Rightarrow> int \<Rightarrow> ('d, smc_baseline_result \<times> smc_baseline_snapshot) state \<Rightarrow>
   u64 \<Rightarrow> int \<Rightarrow> int \<Rightarrow> int \<Rightarrow> int \<Rightarrow> ('d parent, nat) state" where
  "observer_child os abi directory_fd reader deadline ours theirs input output = do {
     exited \<leftarrow> worker_child os directory_fd ours theirs deadline;
     case exited of
       Some code \<Rightarrow> ret code
     | None \<Rightarrow> do { close_fd os input; observe_child os abi reader output }
   }"

end
