(* ===== verification/SupervisorPhases.thy ===== *)
theory SupervisorPhases
  imports WorkerSupervisor
begin

text \<open>
  The phases of \<open>prototype/helper-ipc/WorkerSupervisor.c\<close> on the parent's side: the acceptance of an
  observation, the supervision of the observer over its pipe, and the three entry points, which take
  the exclusive ownership, run their phases in order and return a report.
\<close>

section \<open>Observations\<close>

text \<open>The observation becomes a call on the lease: the first opens a window.\<close>

definition feed_observation :: "observation \<Rightarrow> u32 \<Rightarrow> bool \<Rightarrow> ('d parent, unit) state" where
  "feed_observation observation taken recovering =
     (let result = observation_result observation;
          snapshot = Some (observation_snapshot observation);
          finished = finished_ns observation
      in if taken = 0
         then if recovering
              then on_lease_void (\<lambda>l. control_lease_recovery_started l result snapshot finished)
                     (RecoveryStarted (result, snapshot, finished))
              else on_lease_void
                     (\<lambda>l. control_lease_start l CONTROL_INTENT_CLEAR result snapshot finished)
                     (Start CONTROL_INTENT_CLEAR (result, snapshot, finished))
         else on_lease_void (\<lambda>l. control_lease_sample l result snapshot finished)
                (Sample (result, snapshot, finished)))"

text \<open>When the observation was made, on the clock both processes share.\<close>

definition observation_timely ::
  "control_lease \<Rightarrow> observation \<Rightarrow> u64 \<Rightarrow> u64 \<Rightarrow> u32 \<Rightarrow> bool" where
  "observation_timely lease observation launched_ns received_ns taken \<longleftrightarrow>
     \<not> (started_ns observation < launched_ns \<or>
        finished_ns observation < started_ns observation \<or>
        MAX_READ_NS < finished_ns observation - started_ns observation \<or>
        received_ns < finished_ns observation \<or>
        2 * SECOND_NS < received_ns - finished_ns observation \<or>
        0 < taken \<and> started_ns observation < last_sample_ns lease)"

definition accept_observation ::
  "observation \<Rightarrow> u64 \<Rightarrow> u64 \<Rightarrow> u32 \<Rightarrow> bool \<Rightarrow> ('d parent, bool) state" where
  "accept_observation observation launched_ns received_ns taken recovering = do {
     lease \<leftarrow> get_lease;
     if \<not> observation_timely (the lease) observation launched_ns received_ns taken then ret False
     else do {
       feed_observation observation taken recovering;
       lease \<leftarrow> get_lease;
       ret (lease_state (the lease) =
              (if recovering then CONTROL_LEASE_VERIFYING_RECOVERY else CONTROL_LEASE_OBSERVING) \<or>
            lease_state (the lease) = CONTROL_LEASE_STABLE \<and>
            recovery_verified (the lease) = recovering)
     }
   }"

text \<open>The loop's variables: the bytes of the observation being read, the observations accepted, and
  the flags.\<close>

record supervision =
  partial_bytes :: "u8 list"
  accepted_samples :: u32
  at_eof :: bool
  was_reaped :: bool
  exited_ok :: bool
  progress_deadline :: u64

datatype loop_step = Leave | Continue supervision | Proceed supervision

definition keep_latest :: "bool \<Rightarrow> observation \<Rightarrow> ('d parent, unit) state" where
  "keep_latest wanted observation = State (\<lambda>p.
     ((), if wanted then p\<lparr>latest_snapshot := observation_snapshot observation\<rparr> else p))"

text \<open>The body of \<open>if (!eof)\<close>: \<open>Leave\<close> is \<open>break\<close>, \<open>Continue\<close> is \<open>continue\<close>.\<close>

definition observer_input ::
  "'d posix \<Rightarrow> observation_abi \<Rightarrow> int \<Rightarrow> u64 \<Rightarrow> bool \<Rightarrow> bool \<Rightarrow> supervision \<Rightarrow>
   ('d parent, loop_step) state" where
  "observer_input os abi input launched_ns recovering wanted s = do {
     chunk \<leftarrow> in_system (sys_read os input (observation_size abi - length (partial_bytes s)));
     case chunk of
       Inl e \<Rightarrow> ret (if e \<noteq> EAGAIN \<and> e \<noteq> EINTR then Leave else Proceed s)
     | Inr bytes \<Rightarrow>
         if bytes = [] then ret (Proceed (s\<lparr>at_eof := True\<rparr>))
         else let filled = partial_bytes s @ bytes in
           if length filled \<noteq> observation_size abi
           then ret (Continue (s\<lparr>partial_bytes := filled\<rparr>))
           else let observation = observation_decode abi filled in
             if CONTROL_LEASE_REQUIRED_SAMPLES \<le> accepted_samples s then ret Leave
             else do {
               received \<leftarrow> sup_now os;
               good \<leftarrow> accept_observation observation launched_ns received (accepted_samples s) recovering;
               if \<not> good then ret Leave
               else do {
                 keep_latest wanted observation;
                 ret (Continue (s\<lparr>partial_bytes := [],
                   accepted_samples := accepted_samples s + 1,
                   progress_deadline := finished_ns observation + MAX_READ_NS + 2 * SECOND_NS\<rparr>))
               }
             }
   }"

text \<open>The body of \<open>if (!reaped)\<close>; \<open>None\<close> is the early return.\<close>

definition observer_exit ::
  "'d posix \<Rightarrow> int \<Rightarrow> supervision \<Rightarrow> supervisor_report \<Rightarrow>
   ('d parent, (supervision \<times> supervisor_report) option) state" where
  "observer_exit os child s report =
     (if was_reaped s then ret (Some (s, report))
      else do {
        waited \<leftarrow> wait_child os child;
        ret (case waited of
               Reaped status \<Rightarrow> Some (s\<lparr>was_reaped := True,
                 exited_ok := (classify_exit status = WORKER_EXITED)\<rparr>, count_reaped report)
             | WaitFailed e \<Rightarrow> if e \<noteq> EINTR then None else Some (s, report)
             | StillRunning \<Rightarrow> Some (s, report))
      })"

text \<open>After the loop.\<close>

definition leave_observer ::
  "'d posix \<Rightarrow> int \<Rightarrow> u64 \<Rightarrow> supervision \<Rightarrow> supervisor_report \<Rightarrow>
   ('d parent, bool \<times> supervisor_report) state" where
  "leave_observer os child reap_limit s report =
     (if was_reaped s then ret (False, report)
      else do {
        (stopped, report) \<leftarrow> stop_and_reap os child reap_limit report;
        ret (False, if stopped then report else report\<lparr>sup_result := SUPERVISOR_STOP_FAILED\<rparr>)
      })"

definition observed_all :: "bool \<Rightarrow> supervision \<Rightarrow> ('d parent, bool) state" where
  "observed_all recovering s = do {
     lease \<leftarrow> get_lease;
     ret (exited_ok s \<and> partial_bytes s = [] \<and> accepted_samples s = CONTROL_LEASE_REQUIRED_SAMPLES \<and>
          lease_state (the lease) = CONTROL_LEASE_STABLE \<and> recovery_verified (the lease) = recovering)
   }"

primrec supervise_from ::
  "'d posix \<Rightarrow> observation_abi \<Rightarrow> 'd worker_backend \<Rightarrow> nat \<Rightarrow> int \<Rightarrow> int \<Rightarrow> u64 \<Rightarrow> u64 \<Rightarrow> u64 \<Rightarrow> bool \<Rightarrow>
   bool \<Rightarrow> supervision \<Rightarrow> supervisor_report \<Rightarrow> ('d parent, bool \<times> supervisor_report) state"
where
  "supervise_from os abi backend 0 input child launched_ns deadline reap_limit recovering wanted s report =
     do { note_sys Ran_out; ret (False, report\<lparr>sup_result := SUPERVISOR_STOP_FAILED\<rparr>) }"
| "supervise_from os abi backend (Suc fuel) input child launched_ns deadline reap_limit recovering wanted
     s report = do {
     parent_check backend;
     now \<leftarrow> sup_now os;
     if now = 0 \<or> deadline \<le> now \<or> progress_deadline s \<le> now
     then leave_observer os child reap_limit s report
     else do {
       reading \<leftarrow> (if at_eof s then ret (Proceed s)
                  else observer_input os abi input launched_ns recovering wanted s);
       case reading of
         Leave \<Rightarrow> leave_observer os child reap_limit s report
       | Continue s \<Rightarrow> supervise_from os abi backend fuel input child launched_ns deadline reap_limit
           recovering wanted s report
       | Proceed s \<Rightarrow> do {
           waited \<leftarrow> observer_exit os child s report;
           case waited of
             None \<Rightarrow> ret (False, report\<lparr>sup_result := SUPERVISOR_STOP_FAILED\<rparr>)
           | Some (s, report) \<Rightarrow>
               if was_reaped s \<and> at_eof s
               then do { verified \<leftarrow> observed_all recovering s; ret (verified, report) }
               else do {
                 pause_ns os POLL_NS;
                 supervise_from os abi backend fuel input child launched_ns deadline reap_limit
                   recovering wanted s report
               }
         }
     }
   }"

definition supervise_observer where
  "supervise_observer os abi backend input child launched_ns deadline reap_limit recovering wanted report =
     supervise_from os abi backend (retry_fuel os) input child launched_ns deadline reap_limit
       recovering wanted
       \<lparr>partial_bytes = [], accepted_samples = 0, at_eof = False, was_reaped = False,
        exited_ok = False, progress_deadline = launched_ns + MAX_READ_NS + 2 * SECOND_NS\<rparr> report"

definition can_supervise ::
  "'d posix \<Rightarrow> 'd worker_backend \<Rightarrow> supervisor_limits \<Rightarrow> ('d parent, bool) state" where
  "can_supervise os backend limits =
     and_then (ret (limits_valid limits \<and> recover backend \<noteq> None \<and> read_baseline_of backend \<noteq> None))
       (in_system (sys_sigchld_default os))"

section \<open>The owned phases\<close>

definition announce_observer ::
  "'d worker_backend \<Rightarrow> int option \<Rightarrow> int \<Rightarrow> bool \<Rightarrow> ('d parent, unit) state" where
  "announce_observer backend connection child recovering =
     (case observer_started backend of
        Some m \<Rightarrow> if connection \<noteq> None \<and> 0 < child then in_system (m child recovering) else ret ()
      | None \<Rightarrow> ret ())"

definition observe_owned ::
  "'d posix \<Rightarrow> observation_abi \<Rightarrow> 'd worker_backend \<Rightarrow> int \<Rightarrow> supervisor_limits \<Rightarrow> supervisor_report \<Rightarrow>
   bool \<Rightarrow> bool \<Rightarrow> ('d parent, bool \<times> supervisor_report) state" where
  "observe_owned os abi backend directory_fd limits report recovering wanted = do {
     channel \<leftarrow> in_system (sys_pipe os);
     case channel of
       None \<Rightarrow> ret (False, report)
     | Some (input, output) \<Rightarrow> do {
         nonblocking \<leftarrow> in_system (sys_set_nonblock os input);
         if \<not> nonblocking then do { close_fd os input; close_fd os output; ret (False, report) }
         else do {
           launched_ns \<leftarrow> sup_now os;
           limit \<leftarrow> deadline_for os (observation_ns limits);
           case limit of
             None \<Rightarrow> do { close_fd os input; close_fd os output; ret (False, report) }
           | Some deadline \<Rightarrow> do {
               (child, connection) \<leftarrow> spawn_worker os directory_fd backend Observing;
               let report = report\<lparr>observer_pid := child\<rparr> in do {
                 close_fd os output;
                 announce_observer backend connection child recovering;
                 (verified, report) \<leftarrow> (if 0 < child
                   then supervise_observer os abi backend input child launched_ns deadline
                          (reap_ns limits) recovering wanted report
                   else ret (False, report));
                 close_fd os input;
                 close_some os connection;
                 ret (verified, report)
               }
             }
         }
       }
   }"

definition recover_owned ::
  "'d posix \<Rightarrow> observation_abi \<Rightarrow> 'd worker_backend \<Rightarrow> int \<Rightarrow> supervisor_limits \<Rightarrow> supervisor_report \<Rightarrow>
   ('d parent, supervisor_report) state" where
  "recover_owned os abi backend directory_fd limits report = do {
     let report = report\<lparr>sup_result := SUPERVISOR_RECOVERY_FAILED\<rparr> in do {
       limit \<leftarrow> deadline_for os (recovery_ns limits);
       case limit of
         None \<Rightarrow> ret report
       | Some deadline \<Rightarrow> do {
           (child, connection) \<leftarrow> spawn_worker os directory_fd backend Recovering;
           let report = report\<lparr>recovery_pid := child\<rparr> in
             if child \<le> 0 then ret report
             else do {
               (stopped, recovery_exit, report) \<leftarrow> wait_phase os child deadline (reap_ns limits) None
                 WORKER_NOT_STARTED report backend;
               close_some os connection;
               if \<not> stopped then ret (report\<lparr>sup_result := SUPERVISOR_STOP_FAILED\<rparr>)
               else if recovery_exit \<noteq> WORKER_EXITED then ret report
               else do {
                 (verified, report) \<leftarrow> observe_owned os abi backend directory_fd limits
                   (report\<lparr>sup_result := SUPERVISOR_OBSERVATION_FAILED\<rparr>) True False;
                 parent_check backend;
                 cleared \<leftarrow> and_then (ret verified) (control_intent_clear_verified os directory_fd);
                 if cleared then ret (report\<lparr>sup_result := SUPERVISOR_RECOVERED\<rparr>)
                 else do { on_lease_void control_lease_sleep Sleep; ret report }
               }
             }
         }
     }
   }"

definition owner_lost :: "u64 \<Rightarrow> ('d parent, unit) state" where
  "owner_lost owner = on_lease_void (\<lambda>l. control_lease_owner_lost l owner) (OwnerLost owner)"

text \<open>\<open>stopped\<close> and the report of the operation phase.\<close>

definition run_operation ::
  "'d posix \<Rightarrow> 'd worker_backend \<Rightarrow> int \<Rightarrow> supervisor_limits \<Rightarrow> ('d, bool) state option \<Rightarrow>
   supervisor_report \<Rightarrow> ('d parent, bool \<times> supervisor_report) state" where
  "run_operation os backend directory_fd limits cancel report = do {
     limit \<leftarrow> deadline_for os (operation_ns limits);
     case limit of
       None \<Rightarrow> ret (True, report)
     | Some deadline \<Rightarrow> do {
         lease \<leftarrow> get_lease;
         let deadline = (if expires_at_ns (the lease) < deadline then expires_at_ns (the lease) else deadline)
         in do {
           (child, connection) \<leftarrow> spawn_worker os directory_fd backend Operating;
           let report = report\<lparr>operation_pid := child\<rparr> in do {
             (stopped, report) \<leftarrow> (if child \<le> 0 then ret (True, report)
               else do {
                 (stopped, exit_kind, report) \<leftarrow> wait_phase os child deadline (reap_ns limits) cancel
                   (operation_exit report) report backend;
                 ret (stopped, report\<lparr>operation_exit := exit_kind\<rparr>)
               });
             close_some os connection;
             ret (stopped, report)
           }
         }
       }
   }"

definition run_owned ::
  "'d posix \<Rightarrow> observation_abi \<Rightarrow> 'd worker_backend \<Rightarrow> int \<Rightarrow> supervisor_limits \<Rightarrow>
   ('d, bool) state option \<Rightarrow> ('d parent, supervisor_report) state" where
  "run_owned os abi backend directory_fd limits cancel = do {
     lease \<leftarrow> get_lease;
     let owner = lease_owner (the lease) in do {
       parent_check backend;
       marked \<leftarrow> and_then (control_intent_mark_pending os directory_fd) (do {
         now \<leftarrow> sup_now os;
         on_lease (\<lambda>l. control_lease_mark_write_pending l owner now CONTROL_INTENT_PENDING)
           (MarkPending owner now CONTROL_INTENT_PENDING)
       });
       if \<not> marked then do { owner_lost owner; ret blocked_report }
       else do {
         (stopped, report) \<leftarrow> run_operation os backend directory_fd limits cancel blocked_report;
         owner_lost owner;
         if \<not> stopped then ret (report\<lparr>sup_result := SUPERVISOR_STOP_FAILED\<rparr>)
         else recover_owned os abi backend directory_fd limits report
       }
     }
   }"

section \<open>The entry points\<close>

definition worker_supervisor_observe_baseline ::
  "'d posix \<Rightarrow> observation_abi \<Rightarrow> int \<Rightarrow> bool \<Rightarrow> 'd worker_backend \<Rightarrow> supervisor_limits \<Rightarrow>
   ('d parent, supervisor_report) state" where
  "worker_supervisor_observe_baseline os abi directory_fd has_latest backend limits = do {
     parent_check backend;
     lease \<leftarrow> get_lease;
     admitted \<leftarrow> and_then (ret (lease \<noteq> None \<and> has_latest))
       (and_then (can_supervise os backend limits)
         (do { intent \<leftarrow> control_intent_read os directory_fd; ret (intent = CONTROL_INTENT_CLEAR) }));
     if \<not> admitted then ret blocked_report
     else do {
       owner_lock \<leftarrow> supervisor_ownership_acquire os directory_fd False;
       case owner_lock of
         None \<Rightarrow> ret blocked_report
       | Some lock \<Rightarrow> do {
           clear_lease;
           (verified, report) \<leftarrow> observe_owned os abi backend directory_fd limits
             (blocked_report\<lparr>sup_result := SUPERVISOR_OBSERVATION_FAILED\<rparr>) False True;
           report \<leftarrow> (if verified then ret (report\<lparr>sup_result := SUPERVISOR_BASELINE_READY\<rparr>)
                     else do { on_lease_void control_lease_sleep Sleep; ret report });
           close_fd os lock;
           ret report
         }
     }
   }"

definition lease_current :: "control_lease \<Rightarrow> u64 \<Rightarrow> bool" where
  "lease_current lease now \<longleftrightarrow>
     lease_state lease = CONTROL_LEASE_HELD \<and> lease_owner lease \<noteq> 0 \<and>
     last_sample_ns lease \<le> now \<and> now < expires_at_ns lease \<and>
     now - last_sample_ns lease \<le> 2 * SECOND_NS"

definition worker_supervisor_run ::
  "'d posix \<Rightarrow> observation_abi \<Rightarrow> int \<Rightarrow> 'd worker_backend \<Rightarrow> supervisor_limits \<Rightarrow>
   ('d, bool) state option \<Rightarrow> ('d parent, supervisor_report) state" where
  "worker_supervisor_run os abi directory_fd backend limits cancel = do {
     parent_check backend;
     now \<leftarrow> sup_now os;
     lease \<leftarrow> get_lease;
     admitted \<leftarrow> and_then (ret (lease \<noteq> None))
       (and_then (can_supervise os backend limits)
       (and_then (ret (operate backend \<noteq> None))
       (and_then (negated (cancelled cancel))
       (and_then (ret (lease_current (the lease) now))
         (do { intent \<leftarrow> control_intent_read os directory_fd; ret (intent = CONTROL_INTENT_CLEAR) })))));
     if \<not> admitted then ret blocked_report
     else do {
       owner_lock \<leftarrow> supervisor_ownership_acquire os directory_fd False;
       case owner_lock of
         None \<Rightarrow> ret blocked_report
       | Some lock \<Rightarrow> do {
           report \<leftarrow> run_owned os abi backend directory_fd limits cancel;
           close_fd os lock;
           ret report
         }
     }
   }"

definition worker_supervisor_resume ::
  "'d posix \<Rightarrow> observation_abi \<Rightarrow> int \<Rightarrow> 'd worker_backend \<Rightarrow> supervisor_limits \<Rightarrow>
   ('d parent, supervisor_report) state" where
  "worker_supervisor_resume os abi directory_fd backend limits = do {
     parent_check backend;
     lease \<leftarrow> get_lease;
     admitted \<leftarrow> and_then (ret (lease \<noteq> None))
       (and_then (can_supervise os backend limits)
         (do { intent \<leftarrow> control_intent_read os directory_fd; ret (intent = CONTROL_INTENT_PENDING) }));
     if \<not> admitted then ret blocked_report
     else do {
       now \<leftarrow> sup_now os;
       on_lease_void (\<lambda>l. control_lease_start l CONTROL_INTENT_PENDING SMC_BASELINE_READ_FAILED None now)
         (Start CONTROL_INTENT_PENDING (SMC_BASELINE_READ_FAILED, None, now));
       owner_lock \<leftarrow> supervisor_ownership_acquire os directory_fd True;
       case owner_lock of
         None \<Rightarrow> ret blocked_report
       | Some lock \<Rightarrow> do {
           report \<leftarrow> recover_owned os abi backend directory_fd limits blocked_report;
           close_fd os lock;
           ret report
         }
     }
   }"

end
