(* ===== verification/SmcInventory.thy ===== *)
theory SmcInventory
  imports SmcBaseline TextFormat
begin

text \<open>
  The read-only inventory tool, \<open>prototype/smc-read/smc-read.c\<close>: its protocol calls, its text and
  JSON reports, character by character, and \<open>main\<close>. The controller and the I/O Kit connection are the
  functions of \<open>inventory_system\<close>; whatever they answer, the tool's output is the model's output.
\<close>

section \<open>State\<close>

text \<open>\<open>struct_call\<close> is \<open>IOConnectCallStructMethod\<close> with the zeroed response buffer it is given: the
  kernel status, the size it reports and the buffer afterwards.\<close>

record 'd inventory_system =
  find_service :: "('d, bool) state"
  connect :: "('d, u32) state"
  struct_call :: "smc_key_data \<Rightarrow> smc_key_data \<Rightarrow> ('d, u32 \<times> nat \<times> smc_key_data) state"

record 'd inventory =
  system_state :: 'd
  call_kernel_status :: u32
  call_smc_status :: u8
  last_command :: u8
  stdout_text :: string
  stderr_text :: string
  connection_events :: "io_event list"

definition in_tool :: "('d, 'r) state \<Rightarrow> ('d inventory, 'r) state" where
  "in_tool m =
     State (\<lambda>s. case run_state m (system_state s) of (r, d) \<Rightarrow> (r, s\<lparr>system_state := d\<rparr>))"

definition connection_note :: "io_event \<Rightarrow> ('d inventory, unit) state" where
  "connection_note e = State (\<lambda>s. ((), s\<lparr>connection_events := e # connection_events s\<rparr>))"

definition put_text :: "string \<Rightarrow> ('d inventory, unit) state" where
  "put_text text = State (\<lambda>s. ((), s\<lparr>stdout_text := stdout_text s @ text\<rparr>))"

definition put_line :: "string \<Rightarrow> ('d inventory, unit) state" where
  "put_line text = put_text (text @ [CHR 0x0A])"

definition put_error :: "string \<Rightarrow> ('d inventory, unit) state" where
  "put_error text = State (\<lambda>s. ((), s\<lparr>stderr_text := stderr_text s @ text\<rparr>))"

definition SMC_READ_INDEX :: u8 where "SMC_READ_INDEX = 8"
definition MAX_SMC_KEYS :: u32 where "MAX_SMC_KEYS = 20000"

section \<open>Protocol calls\<close>

definition inventory_call_read ::
  "'d inventory_system \<Rightarrow> smc_key_data \<Rightarrow> ('d inventory, bool \<times> smc_key_data) state" where
  "inventory_call_read sys request = do {
     connection_note (Requested request);
     (kernel, output_size, response) \<leftarrow> in_tool (struct_call sys request zero_key_data);
     State (\<lambda>s. ((), s\<lparr>call_kernel_status := kernel, call_smc_status := reply_result response,
       last_command := command request\<rparr>));
     ret (kernel = 0 \<and> output_size = SMC_KEY_DATA_SIZE \<and> reply_result response = 0, response)
   }"

text \<open>\<open>read_key\<close> fills its parameter as it goes: a failed second call leaves the new size and type with
  the old bytes, and a success overwrites only the bytes of the new size.\<close>

definition inventory_read_key ::
  "'d inventory_system \<Rightarrow> string \<Rightarrow> smc_value \<Rightarrow> ('d inventory, bool \<times> smc_value) state" where
  "inventory_read_key sys name value = do {
     (ok, response) \<leftarrow> inventory_call_read sys
        (zero_key_data\<lparr>request_key := fourcc name, command := SMC_READ_KEY_INFO\<rparr>);
     if \<not> ok then ret (False, value)
     else if info_size (key_info response) = 0 \<or> 32 < info_size (key_info response)
     then ret (False, value)
     else do {
       let value = value\<lparr>value_size := info_size (key_info response),
                         value_type := fourcc_text (info_type (key_info response))\<rparr>;
       (ok, response) \<leftarrow> inventory_call_read sys
          (zero_key_data\<lparr>request_key := fourcc name,
             key_info := (key_info zero_key_data)\<lparr>info_size := value_size value\<rparr>,
             command := SMC_READ_BYTES\<rparr>);
       if \<not> ok then ret (False, value)
       else ret (True, value\<lparr>value_bytes :=
              \<lambda>i. if i < unat (value_size value) then data_bytes response i else value_bytes value i\<rparr>)
     }
   }"

text \<open>The characters of a key, and whether all four are printable; a failed call leaves the key alone.\<close>

definition printable :: "char \<Rightarrow> bool" where
  "printable c \<longleftrightarrow> 32 \<le> (of_char c :: nat) \<and> (of_char c :: nat) \<le> 126"

definition read_key_at ::
  "'d inventory_system \<Rightarrow> u32 \<Rightarrow> string \<Rightarrow> ('d inventory, bool \<times> string) state" where
  "read_key_at sys index key = do {
     (ok, response) \<leftarrow> inventory_call_read sys
        (zero_key_data\<lparr>command := SMC_READ_INDEX, request_index := index\<rparr>);
     if \<not> ok then ret (False, key)
     else let key = fourcc_text (request_key response)
          in ret (list_all printable key, key)
   }"

definition read_finite_number ::
  "'d inventory_system \<Rightarrow> string \<Rightarrow> double \<Rightarrow> ('d inventory, bool \<times> double) state" where
  "read_finite_number sys key number = do {
     (ok, value) \<leftarrow> inventory_read_key sys key zero_value;
     if \<not> ok then ret (False, number) else ret (inventory_read_number value number)
   }"

section \<open>The text report on the fans\<close>

text \<open>\<open>%-4s\<close> and its kin, and \<open>%.4s\<close> of a type, both up to the terminator.\<close>

definition field :: "nat \<Rightarrow> string \<Rightarrow> string" where
  "field width text = pad_right width (c_string text)"

definition type_text :: "smc_value \<Rightarrow> string" where
  "type_text value = take 4 (c_string (value_type value))"

definition print_key :: "'d inventory_system \<Rightarrow> string \<Rightarrow> string \<Rightarrow> ('d inventory, unit) state" where
  "print_key sys name unit_name = do {
     (ok, value) \<leftarrow> inventory_read_key sys name zero_value;
     if \<not> ok then put_line (''  '' @ field 4 name @ '' unavailable'')
     else case inventory_read_number value (Fin 0) of (numeric, number) \<Rightarrow>
       if numeric
       then put_line (''  '' @ field 4 name @ '' '' @ pad_right 6 (fixed 0 number) @ '' '' @
              field 4 unit_name @ '' (type '' @ type_text value @ '')'')
       else put_line (''  '' @ field 4 name @ '' present, type '' @ type_text value @ '', size '' @
              decimal (unat (value_size value)) @ '' (decoder unavailable)'')
   }"

text \<open>C's conversion to \<open>unsigned\<close>, of a double in range.\<close>

definition to_unsigned :: "double \<Rightarrow> nat" where
  "to_unsigned d = nat \<lfloor>fval d\<rfloor>"

definition byte_char :: "u8 \<Rightarrow> char" where
  "byte_char b = char_of (unat b)"

definition fan_label :: "smc_value \<Rightarrow> string" where
  "fan_label value =
     c_string (map (\<lambda>i. let c = byte_char (value_bytes value (4 + i))
                        in if printable c then c else CHR 0x00) [0..<12])"

definition print_fan ::
  "'d inventory_system \<Rightarrow> nat \<Rightarrow> smc_value \<Rightarrow> ('d inventory, smc_value) state" where
  "print_fan sys fan value = do {
     put_line (''  Fan '' @ decimal fan @ '':'');
     (ok, value) \<leftarrow> inventory_read_key sys (fan_key fan ''ID'') value;
     (if ok \<and> 16 \<le> value_size value \<and> fan_label value \<noteq> []
      then put_line (''  '' @ field 4 (fan_key fan ''ID'') @ '' '' @ fan_label value @
             '' (unverified label)'')
      else ret ());
     print_key sys (fan_key fan ''Ac'') ''RPM'';
     print_key sys (fan_key fan ''Tg'') ''RPM'';
     print_key sys (fan_key fan ''Mn'') ''RPM'';
     print_key sys (fan_key fan ''Mx'') ''RPM'';
     (ok, value) \<leftarrow> inventory_read_key sys (fan_key fan ''Md'') value;
     (if ok then print_key sys (fan_key fan ''Md'') ''mode''
      else print_key sys (fan_key fan ''md'') ''mode'');
     ret value
   }"

text \<open>The loop stops at fan ten, whose key would not fit.\<close>

primrec print_fans_from ::
  "'d inventory_system \<Rightarrow> nat list \<Rightarrow> smc_value \<Rightarrow> ('d inventory, unit) state" where
  "print_fans_from sys [] value = ret ()"
| "print_fans_from sys (fan # rest) value =
     (if 9 < fan then ret ()
      else do { value \<leftarrow> print_fan sys fan value; print_fans_from sys rest value })"

definition inventory_print_fans :: "'d inventory_system \<Rightarrow> ('d inventory, unit) state" where
  "inventory_print_fans sys = do {
     put_line ''Fans:'';
     (ok, value) \<leftarrow> inventory_read_key sys ''FNum'' zero_value;
     case (if ok then inventory_read_number value (Fin 0) else (False, Fin 0)) of
       (numeric, number) \<Rightarrow>
         if \<not> ok \<or> \<not> numeric \<or> number < round64 0 \<or> round64 16 < number
         then put_line ''  FNum unavailable or unexpected; fan count cannot be determined''
         else do {
           put_line (''  FNum '' @ fixed 0 number @ '' (type '' @ type_text value @ '')'');
           print_fans_from sys [0..<to_unsigned number] value;
           put_line ''  Additional state keys (presence does not prove write access):'';
           print_key sys ''Ftst'' ''flag'';
           print_key sys ''FS! '' ''bits''
         }
   }"

section \<open>JSON reports\<close>

definition quote :: char where "quote = CHR 0x22"

text \<open>A C string literal of JSON text, in which a backquote stands for the quotation mark.\<close>

definition json :: "string \<Rightarrow> string" where
  "json text = map (\<lambda>c. if c = CHR 0x60 then quote else c) text"

definition plausible_celsius :: "double \<Rightarrow> bool" where
  "plausible_celsius d \<longleftrightarrow> round64 10 \<le> d \<and> d \<le> round64 115"

definition print_json_number ::
  "'d inventory_system \<Rightarrow> string \<Rightarrow> bool \<Rightarrow> ('d inventory, unit) state" where
  "print_json_number sys key temperature = do {
     (ok, number) \<leftarrow> read_finite_number sys key (Fin 0);
     if \<not> ok \<or> temperature \<and> (number < round64 10 \<or> round64 115 < number) \<or>
        \<not> temperature \<and> number < round64 0
     then put_text ''null'' else put_text (fixed 2 number)
   }"

definition whole :: "double \<Rightarrow> bool" where
  "whole d \<longleftrightarrow> deq (round64 (of_int \<lfloor>fval d\<rfloor>)) d"

definition print_status_fan :: "'d inventory_system \<Rightarrow> nat \<Rightarrow> ('d inventory, unit) state" where
  "print_status_fan sys fan = do {
     (if fan \<noteq> 0 then put_text '','' else ret ());
     put_text (json ''{`index`:'' @ decimal fan @ json '',`actual_rpm`:'');
     print_json_number sys (fan_key fan ''Ac'') False;
     put_text (json '',`min_rpm`:'');
     print_json_number sys (fan_key fan ''Mn'') False;
     put_text (json '',`max_rpm`:'');
     print_json_number sys (fan_key fan ''Mx'') False;
     put_text ''}''
   }"

definition print_selected :: "'d inventory_system \<Rightarrow> nat \<Rightarrow> string \<Rightarrow> ('d inventory, unit) state" where
  "print_selected sys index key = do {
     (if index \<noteq> 0 then put_text '','' else ret ());
     put_text (json ''{`key`:`'' @ key @ json ''`,`celsius`:'');
     print_json_number sys key True;
     put_text ''}''
   }"

primrec each :: "('a \<Rightarrow> ('s, unit) state) \<Rightarrow> 'a list \<Rightarrow> ('s, unit) state" where
  "each body [] = ret ()"
| "each body (x # xs) = do { body x; each body xs }"

definition print_status_json :: "'d inventory_system \<Rightarrow> ('d inventory, unit) state" where
  "print_status_json sys = do {
     (numeric, number) \<leftarrow> read_finite_number sys ''FNum'' (Fin 0);
     let count_valid = numeric \<and> round64 0 \<le> number \<and> number \<le> round64 10 \<and> whole number;
     put_text (json ''{`schema`:1,`fan_count`:'');
     (if count_valid then put_text (fixed 0 number) else put_text ''null'');
     put_text (json '',`fans`:['');
     (if count_valid then each (print_status_fan sys) [0..<to_unsigned number] else ret ());
     put_text (json ''],`cpu_key`:`TCMz`,`cpu_temp_c`:'');
     print_json_number sys ''TCMz'' True;
     put_text (json '',`selected_temperatures`:['');
     each (\<lambda>(index, key). print_selected sys index key) (enumerate 0 [''Tg0D'', ''TH0a'']);
     put_text '']'';
     put_line ''}''
   }"

definition json_character :: "u8 \<Rightarrow> string" where
  "json_character b =
     (if b = 0x22 \<or> b = 0x5c then [CHR 0x5c] else []) @
     (if b < 32 \<or> 126 < b then CHR 0x5c # ''u'' @ hex 4 (unat b) else [byte_char b])"

definition print_json_key :: "string \<Rightarrow> ('d inventory, unit) state" where
  "print_json_key key = do {
     put_text [quote];
     each (\<lambda>i. put_text (json_character (byte_at key i))) [0..<4];
     put_text [quote]
   }"

text \<open>The number of keys, in the byte order that makes it plausible; 0 when neither does.\<close>

definition plausible_count :: "u32 \<Rightarrow> bool" where
  "plausible_count count \<longleftrightarrow> count \<noteq> 0 \<and> count \<le> MAX_SMC_KEYS"

definition key_count :: "smc_value \<Rightarrow> u32" where
  "key_count value =
     (if plausible_count (big32 (value_bytes value)) then big32 (value_bytes value)
      else little32 (value_bytes value))"

definition is_temperature_type :: "smc_value \<Rightarrow> bool" where
  "is_temperature_type value \<longleftrightarrow>
     strcmp_eq (value_type value) ''flt '' \<or> strcmp_eq (value_type value) ''sp78''"

definition print_temperature_entry ::
  "'d inventory_system \<Rightarrow> string \<Rightarrow> smc_value \<Rightarrow> ('d inventory, smc_value) state" where
  "print_temperature_entry sys key value = do {
     put_text (json ''{`key`:'');
     print_json_key key;
     put_text (json '',`celsius`:'');
     (ok, value) \<leftarrow> inventory_read_key sys key value;
     (if ok \<and> is_temperature_type value
      then case inventory_read_number value (Fin 0) of (numeric, celsius) \<Rightarrow>
        if numeric \<and> plausible_celsius celsius then put_text (fixed 2 celsius) else put_text ''null''
      else put_text ''null'');
     put_text ''}'';
     ret value
   }"

primrec print_temperature_entries ::
  "'d inventory_system \<Rightarrow> nat list \<Rightarrow> bool \<Rightarrow> string \<Rightarrow> smc_value \<Rightarrow> ('d inventory, unit) state" where
  "print_temperature_entries sys [] first key value = ret ()"
| "print_temperature_entries sys (index # rest) first key value = do {
     (ok, key) \<leftarrow> read_key_at sys (word_of_nat index) key;
     if \<not> ok \<or> key ! 0 \<noteq> CHR ''T'' then print_temperature_entries sys rest first key value
     else do {
       (if \<not> first then put_text '','' else ret ());
       value \<leftarrow> print_temperature_entry sys key value;
       print_temperature_entries sys rest False key value
     }
   }"

definition print_temperatures_json :: "'d inventory_system \<Rightarrow> ('d inventory, unit) state" where
  "print_temperatures_json sys = do {
     put_text (json ''{`schema`:1,`temperatures`:'');
     (ok, value) \<leftarrow> inventory_read_key sys ''#KEY'' zero_value;
     if \<not> ok \<or> value_size value < 4 then put_line ''null}''
     else if \<not> plausible_count (key_count value) then put_line ''null}''
     else do {
       put_text ''['';
       print_temperature_entries sys [0..<unat (key_count value)] True [] value;
       put_line '']}''
     }
   }"

definition print_raw_details :: "smc_value \<Rightarrow> ('d inventory, unit) state" where
  "print_raw_details value = do {
     put_text (json '',`type`:'');
     print_json_key (value_type value);
     put_text (json '',`size`:'' @ decimal (unat (value_size value)) @ json '',`bytes_hex`:`'');
     each (\<lambda>i. put_text (hex 2 (unat (value_bytes value i)))) [0..<unat (value_size value)];
     put_text (json ''`,`raw_celsius`:'');
     case (if is_temperature_type value then inventory_read_number value (Fin 0)
           else (False, Fin 0)) of
       (decodable, number) \<Rightarrow> do {
         (if decodable then put_text (fixed 5 number) else put_text ''null'');
         put_text (json '',`plausible_celsius`:'');
         (if decodable \<and> plausible_celsius number then put_text (fixed 2 number)
          else put_text ''null'')
       }
   }"

definition print_raw_fields ::
  "string \<Rightarrow> bool \<Rightarrow> smc_value \<Rightarrow> nat \<Rightarrow> nat \<Rightarrow> nat \<Rightarrow> ('d inventory, unit) state" where
  "print_raw_fields name available value sent kernel_code smc_code = do {
     put_text (json ''{`key`:`'' @ take 4 (c_string name) @ json ''`,`read_ok`:'' @
       (if available then ''true'' else ''false'') @ json '',`last_command`:'' @ decimal sent @
       json '',`kernel`:'' @ decimal kernel_code @ json '',`smc`:'' @ decimal smc_code);
     (if available then print_raw_details value else ret ());
     put_text ''}''
   }"

definition print_raw_temperature :: "'d inventory_system \<Rightarrow> string \<Rightarrow> ('d inventory, unit) state" where
  "print_raw_temperature sys name = do {
     (available, value) \<leftarrow> inventory_read_key sys name zero_value;
     s \<leftarrow> State (\<lambda>s. (s, s));
     print_raw_fields name available value (unat (last_command s))
       (unat (call_kernel_status s)) (unat (call_smc_status s))
   }"

definition gpu_raw_keys :: "string list" where
  "gpu_raw_keys = [''TCMz'', ''Tg0D'', ''Tg05'', ''Tg1B'', ''TH0a'']"

definition print_gpu_raw_json :: "'d inventory_system \<Rightarrow> ('d inventory, unit) state" where
  "print_gpu_raw_json sys = do {
     put_text (json ''{`schema`:1,`readings`:['');
     each (\<lambda>(index, key). do {
       (if index \<noteq> 0 then put_text '','' else ret ());
       print_raw_temperature sys key
     }) (enumerate 0 gpu_raw_keys);
     put_line '']}''
   }"

section \<open>The text report on the temperatures\<close>

record temperature_tally =
  candidates :: nat
  readable :: nat
  plausible :: nat
  shown :: nat

definition empty_tally :: temperature_tally where
  "empty_tally = \<lparr>candidates = 0, readable = 0, plausible = 0, shown = 0\<rparr>"

definition print_temperature_line ::
  "'d inventory_system \<Rightarrow> bool \<Rightarrow> string \<Rightarrow> smc_value \<Rightarrow> temperature_tally \<Rightarrow>
   ('d inventory, smc_value \<times> temperature_tally) state" where
  "print_temperature_line sys show_all key value tally = do {
     let tally = tally\<lparr>candidates := candidates tally + 1\<rparr>;
     (ok, value) \<leftarrow> inventory_read_key sys key value;
     if \<not> ok then ret (value, tally)
     else do {
       let tally = tally\<lparr>readable := readable tally + 1\<rparr>;
       if \<not> is_temperature_type value then ret (value, tally)
       else case inventory_read_number value (Fin 0) of (numeric, celsius) \<Rightarrow>
         if \<not> numeric \<or> celsius < round64 10 \<or> round64 115 < celsius then ret (value, tally)
         else do {
           let tally = tally\<lparr>plausible := plausible tally + 1\<rparr>;
           if show_all \<or> shown tally < 24
           then do {
             put_line (''  '' @ field 4 key @ '' '' @ fixed 2 celsius @ '' C (type '' @
               type_text value @ '')'');
             ret (value, tally\<lparr>shown := shown tally + 1\<rparr>)
           }
           else ret (value, tally)
         }
     }
   }"

primrec print_temperature_lines ::
  "'d inventory_system \<Rightarrow> bool \<Rightarrow> nat list \<Rightarrow> string \<Rightarrow> smc_value \<Rightarrow> temperature_tally \<Rightarrow>
   ('d inventory, temperature_tally) state" where
  "print_temperature_lines sys show_all [] key value tally = ret tally"
| "print_temperature_lines sys show_all (index # rest) key value tally = do {
     (ok, key) \<leftarrow> read_key_at sys (word_of_nat index) key;
     if \<not> ok \<or> key ! 0 \<noteq> CHR ''T'' then print_temperature_lines sys show_all rest key value tally
     else do {
       (value, tally) \<leftarrow> print_temperature_line sys show_all key value tally;
       print_temperature_lines sys show_all rest key value tally
     }
   }"

definition print_temperatures :: "'d inventory_system \<Rightarrow> bool \<Rightarrow> ('d inventory, unit) state" where
  "print_temperatures sys show_all = do {
     put_line ''Temperatures (raw SMC IDs; component names are unverified):'';
     (ok, value) \<leftarrow> inventory_read_key sys ''#KEY'' zero_value;
     if \<not> ok \<or> value_size value < 4
     then put_line ''  #KEY unavailable; temperature enumeration unavailable''
     else if \<not> plausible_count (key_count value)
     then put_line ''  #KEY returned an implausible count''
     else do {
       let count = key_count value;
       (case inventory_read_number value (Fin 0) of (numeric, count_number) \<Rightarrow>
          if numeric \<and> \<not> deq count_number (double_of_int (uint count))
          then put_line (''  #KEY count decoded using byte order probe: '' @ decimal (unat count))
          else ret ());
       tally \<leftarrow> print_temperature_lines sys show_all [0..<unat count] [] value empty_tally;
       (if \<not> show_all \<and> shown tally < plausible tally
        then put_line (''  ... '' @ decimal (plausible tally - shown tally) @
               '' more; use --all-temperatures to list all'')
        else ret ());
       put_line (''  Summary: '' @ decimal (unat count) @ '' total SMC keys, '' @
         decimal (candidates tally) @ '' T-prefixed, '' @ decimal (readable tally) @
         '' readable, '' @ decimal (plausible tally) @ '' plausible temperatures'')
     }
   }"

section \<open>The program\<close>

definition kIOReturnNotPermitted :: u32 where "kIOReturnNotPermitted = 0xe00002e2"

text \<open>The exit status is 0 (\<open>EXIT_SUCCESS\<close>) or 1 (\<open>EXIT_FAILURE\<close>).\<close>

definition inventory_usage :: "string \<Rightarrow> string" where
  "inventory_usage program = ''Usage: '' @ c_string program @
     '' [--all-temperatures|--status-json|--temperatures-json|--gpu-raw-json]'' @ [CHR 0x0A]"

definition clear_smc :: "('d inventory, unit) state" where
  "clear_smc =
     State (\<lambda>s. ((), s\<lparr>call_kernel_status := 0, call_smc_status := 0, last_command := 0\<rparr>))"

definition print_report ::
  "'d inventory_system \<Rightarrow> bool \<Rightarrow> bool \<Rightarrow> bool \<Rightarrow> bool \<Rightarrow> ('d inventory, unit) state" where
  "print_report sys show_all status_json temperatures_json gpu_raw_json =
     (if status_json then print_status_json sys
      else if temperatures_json then print_temperatures_json sys
      else if gpu_raw_json then print_gpu_raw_json sys
      else do { inventory_print_fans sys; print_temperatures sys show_all })"

definition inventory_main :: "'d inventory_system \<Rightarrow> string list \<Rightarrow> ('d inventory, int) state" where
  "inventory_main sys argv =
     (let argc = length argv;
          option = (\<lambda>name. argc = 2 \<and> strcmp_eq (argv ! 1) name);
          show_all = option ''--all-temperatures'';
          status_json = option ''--status-json'';
          temperatures_json = option ''--temperatures-json'';
          gpu_raw_json = option ''--gpu-raw-json''
      in if 2 < argc \<or> argc = 2 \<and> \<not> show_all \<and> \<not> status_json \<and> \<not> temperatures_json \<and> \<not> gpu_raw_json
         then do { put_error (inventory_usage (argv ! 0)); ret 1 }
         else do {
           service \<leftarrow> in_tool (find_service sys);
           if \<not> service
           then do { put_error (''AppleSMC service not found'' @ [CHR 0x0A]); ret 1 }
           else do {
             clear_smc;
             result \<leftarrow> in_tool (connect sys);
             connection_note (Opened (result = 0));
             if result \<noteq> 0
             then do {
               put_error (''AppleSMC open failed: 0x'' @ hex 8 (unat result) @ [CHR 0x0A]);
               (if result = kIOReturnNotPermitted
                then put_error (''Access denied by this process environment; try a normal Terminal session.''
                  @ [CHR 0x0A])
                else ret ());
               ret 1
             }
             else do {
               print_report sys show_all status_json temperatures_json gpu_raw_json;
               connection_note Closed;
               ret 0
             }
           }
         })"

end
