(* ===== verification/SupervisorProbe.thy ===== *)
theory SupervisorProbe
  imports SupervisorPhases SmcInventory
begin

text \<open>
  The supervisor probe of \<open>prototype/helper-ipc\<close>: the runner's lifetime (\<open>SupervisorRunnerLifetime.c\<close>),
  its private directory and launch lock (\<open>SupervisorProbeDirectory.h\<close>, \<open>SupervisorProbeStorage.c\<close>), the
  crash diagnostic (\<open>SupervisorProbeCrash.c\<close>) and \<open>main\<close> (\<open>supervisor-probe.c\<close>), which supervises read-only
  workers and prints one JSON line.

  The process may end in the middle of a function (\<open>_exit\<close>, SIGKILL, SIGALRM). Its end is recorded in the
  \<open>probe_world\<close>, which every system call and every print leaves alone from then on: what a function goes
  on to compute after the end has no effect on the machine and prints nothing.
\<close>

section \<open>The world of a process\<close>

datatype process_end = Exited nat | Killed_by string

record 'd probe_world =
  machine :: 'd
  smc_trace :: "io_event list"
  probe_output :: string
  probe_errors :: string
  process_ended :: "process_end option"

record 'd probe_host =
  base_os :: "'d posix"
  base_driver :: "'d smc_driver"
  real_uid :: "('d, u32) state"
  process_id :: "('d, int) state"
  set_umask :: "nat \<Rightarrow> ('d, unit) state"
  status_flags :: "int \<Rightarrow> ('d, int option) state"
  is_fifo :: "int \<Rightarrow> ('d, bool) state"
  set_status_flags :: "int \<Rightarrow> int \<Rightarrow> ('d, bool) state"
  open_path :: "string \<Rightarrow> open_flag list \<Rightarrow> ('d, int option) state"
  make_directory_at :: "int \<Rightarrow> string \<Rightarrow> nat \<Rightarrow> ('d, errno option) state"
  unlink_at :: "int \<Rightarrow> string \<Rightarrow> ('d, errno option) state"
  remove_directory :: "string \<Rightarrow> ('d, bool) state"
  child_parent_and_uid :: "int \<Rightarrow> ('d, (u32 \<times> u32) option) state"

text \<open>A call of the machine; \<open>dead\<close> is what it seems to answer after the end of the process.\<close>

definition alive :: "'r \<Rightarrow> ('d, 'r) state \<Rightarrow> ('d probe_world, 'r) state" where
  "alive dead m = State (\<lambda>w.
     if process_ended w \<noteq> None then (dead, w)
     else case run_state m (machine w) of (r, d) \<Rightarrow> (r, w\<lparr>machine := d\<rparr>))"

definition alive_os :: "'d posix \<Rightarrow> 'd probe_world posix" where
  "alive_os os =
     \<lparr>sys_fstat = \<lambda>fd. alive None (sys_fstat os fd),
      sys_fstatat = \<lambda>fd name. alive None (sys_fstatat os fd name),
      sys_geteuid = alive 0 (sys_geteuid os),
      sys_openat = \<lambda>fd name flags. alive (Inl OtherErrno) (sys_openat os fd name flags),
      sys_read = \<lambda>fd n. alive (Inl OtherErrno) (sys_read os fd n),
      sys_write = \<lambda>fd bytes. alive (Inl OtherErrno) (sys_write os fd bytes),
      sys_ftruncate = \<lambda>fd. alive False (sys_ftruncate os fd),
      sys_fsync = \<lambda>fd. alive False (sys_fsync os fd),
      sys_close = \<lambda>fd. alive False (sys_close os fd),
      sys_unlinkat = \<lambda>fd name. alive False (sys_unlinkat os fd name),
      sys_renameat = \<lambda>fd from_name to_name. alive False (sys_renameat os fd from_name to_name),
      sys_flock = \<lambda>fd. alive False (sys_flock os fd),
      sys_pidinfo = \<lambda>pid. alive (Inl OtherErrno) (sys_pidinfo os pid),
      sys_clock = alive 0 (sys_clock os),
      sys_nanosleep = \<lambda>ns. alive () (sys_nanosleep os ns),
      sys_socketpair = alive None (sys_socketpair os),
      sys_pipe = alive None (sys_pipe os),
      sys_set_cloexec = \<lambda>fd. alive False (sys_set_cloexec os fd),
      sys_set_nonblock = \<lambda>fd. alive False (sys_set_nonblock os fd),
      sys_send = \<lambda>fd bytes. alive (Inl OtherErrno) (sys_send os fd bytes),
      sys_fork = \<lambda>role. alive None (sys_fork os role),
      sys_waitpid = \<lambda>pid. alive (WaitFailed OtherErrno) (sys_waitpid os pid),
      sys_kill = \<lambda>pid. alive (Some OtherErrno) (sys_kill os pid),
      sys_start_watcher = \<lambda>fd. alive False (sys_start_watcher os fd),
      sys_sigchld_default = alive False (sys_sigchld_default os),
      retry_fuel = retry_fuel os\<rparr>"

definition probe_os :: "'d probe_host \<Rightarrow> 'd probe_world posix" where
  "probe_os h = alive_os (base_os h)"

definition end_process :: "process_end \<Rightarrow> ('d probe_world, unit) state" where
  "end_process e = State (\<lambda>w. ((), if process_ended w = None then w\<lparr>process_ended := Some e\<rparr> else w))"

definition probe_print :: "string \<Rightarrow> ('d probe_world parent, unit) state" where
  "probe_print text = in_system (State (\<lambda>w.
     ((), if process_ended w = None then w\<lparr>probe_output := probe_output w @ text\<rparr> else w)))"

definition probe_complain :: "string \<Rightarrow> ('d probe_world parent, unit) state" where
  "probe_complain text = in_system (State (\<lambda>w.
     ((), if process_ended w = None then w\<lparr>probe_errors := probe_errors w @ text @ [CHR 0x0A]\<rparr> else w)))"

text \<open>A helper that runs inside a callback, which sees the system and not the caller's state.\<close>

definition at_system :: "('d parent, 'r) state \<Rightarrow> ('d, 'r) state" where
  "at_system m = State (\<lambda>d.
     case run_state m \<lparr>system = d, the_lease = None, latest_snapshot = zero_snapshot, sys_log = []\<rparr> of
       (r, p) \<Rightarrow> (r, system p))"

section \<open>The runner's lifetime\<close>

definition STDIN_FILENO :: int where "STDIN_FILENO = 0"
definition O_NONBLOCK :: int where "O_NONBLOCK = 4"

text \<open>Anything but an empty pipe whose writer lives ends the process.\<close>

definition supervisor_runner_lifetime_check :: "'d probe_host \<Rightarrow> int \<Rightarrow> ('d probe_world, unit) state" where
  "supervisor_runner_lifetime_check h descriptor = do {
     count \<leftarrow> at_system (read_retry (probe_os h) (retry_fuel (base_os h)) descriptor 1);
     if count = Inl EAGAIN then ret () else end_process (Exited 125)
   }"

definition supervisor_runner_lifetime_enter :: "'d probe_host \<Rightarrow> int \<Rightarrow> ('d probe_world, bool) state" where
  "supervisor_runner_lifetime_enter h descriptor = do {
     flags \<leftarrow> alive None (status_flags h descriptor);
     case flags of
       None \<Rightarrow> ret False
     | Some flags \<Rightarrow> do {
         prepared \<leftarrow> and_then (alive False (is_fifo h descriptor))
           (alive False (set_status_flags h descriptor (flags OR O_NONBLOCK)));
         if \<not> prepared then ret False
         else do {
           grant \<leftarrow> at_system (read_retry (probe_os h) (retry_fuel (base_os h)) descriptor 1);
           if grant \<noteq> Inr (bytes_of ''G'') then ret False
           else do { supervisor_runner_lifetime_check h descriptor; ret True }
         }
       }
   }"

section \<open>The private directory and the launch lock\<close>

definition probe_directory_path :: string where
  "probe_directory_path = ''/private/var/db/com.ventilator.supervisor-read-only''"

definition probe_directory_name :: string where
  "probe_directory_name = ''com.ventilator.supervisor-read-only''"

definition probe_executable_name :: string where "probe_executable_name = ''supervisor-executable-v1''"
definition probe_staging_name :: string where "probe_staging_name = ''supervisor-executable.next''"
definition launch_name :: string where "launch_name = ''probe-launch-v1''"

definition from_host :: "'r \<Rightarrow> ('d, 'r) state \<Rightarrow> ('d probe_world parent, 'r) state" where
  "from_host dead m = in_system (alive dead m)"

definition directory_flags :: "open_flag list" where
  "directory_flags = [O_RDONLY, O_DIRECTORY, O_NOFOLLOW, O_CLOEXEC]"

definition SupervisorProbeOpenDirectory :: "'d probe_host \<Rightarrow> ('d probe_world parent, int option) state" where
  "SupervisorProbeOpenDirectory h = do {
     root \<leftarrow> and_then (do { uid \<leftarrow> from_host 0 (real_uid h); ret (uid = 0) })
                     (do { uid \<leftarrow> in_system (sys_geteuid (probe_os h)); ret (uid = 0) });
     if \<not> root then ret None
     else do {
       opened \<leftarrow> from_host None (open_path h ''/private/var/db'' directory_flags);
       case opened of
         None \<Rightarrow> ret None
       | Some parent \<Rightarrow> do {
           info \<leftarrow> in_system (sys_fstat (probe_os h) parent);
           if (case info of None \<Rightarrow> True | Some st \<Rightarrow> st_uid st \<noteq> 0 \<or> st_permissions st AND 0x12 \<noteq> 0)
           then do { close_fd (probe_os h) parent; ret None }
           else do {
             made \<leftarrow> from_host (Some OtherErrno) (make_directory_at h parent probe_directory_name 0x1C0);
             if made \<noteq> None \<and> made \<noteq> Some EEXIST then do { close_fd (probe_os h) parent; ret None }
             else do {
               directory \<leftarrow> logged_call (sys_openat (probe_os h) parent probe_directory_name directory_flags)
                 (Opened_at probe_directory_name directory_flags);
               close_fd (probe_os h) parent;
               case directory of
                 Inl e \<Rightarrow> ret None
               | Inr directory_fd \<Rightarrow> do {
                   info \<leftarrow> in_system (sys_fstat (probe_os h) directory_fd);
                   if (case info of None \<Rightarrow> False
                       | Some st \<Rightarrow> st_uid st = 0 \<and> st_permissions st AND 0x1FF = 0x1C0)
                   then ret (Some directory_fd)
                   else do { close_fd (probe_os h) directory_fd; ret None }
                 }
             }
           }
         }
     }
   }"

definition launch_directory :: "file_status option \<Rightarrow> u32 \<Rightarrow> bool" where
  "launch_directory info uid = (case info of None \<Rightarrow> False
     | Some st \<Rightarrow> st_kind st = Directory \<and> st_uid st = uid \<and> st_permissions st AND 0x1FF = 0x1C0)"

definition supervisor_probe_lock :: "'d posix \<Rightarrow> int \<Rightarrow> ('d parent, int option) state" where
  "supervisor_probe_lock os directory_fd = do {
     directory \<leftarrow> in_system (sys_fstat os directory_fd);
     uid \<leftarrow> in_system (sys_geteuid os);
     if \<not> launch_directory directory uid then ret None
     else do {
       opened \<leftarrow> logged_call (sys_openat os directory_fd launch_name [O_RDWR, O_CREAT 0x180, O_NOFOLLOW, O_CLOEXEC])
         (Opened_at launch_name [O_RDWR, O_CREAT 0x180, O_NOFOLLOW, O_CLOEXEC]);
       case opened of
         Inl e \<Rightarrow> ret None
       | Inr lock \<Rightarrow> do {
           file \<leftarrow> in_system (sys_fstat os lock);
           uid \<leftarrow> in_system (sys_geteuid os);
           locked \<leftarrow> and_then
             (ret (case file of None \<Rightarrow> False
                | Some st \<Rightarrow> st_kind st = RegularFile \<and> st_uid st = uid \<and>
                    st_permissions st AND 0x1FF = 0x180 \<and> st_nlink st = 1))
             (and_then (logged_call (sys_flock os lock) (Locked lock))
             (do {
                named \<leftarrow> in_system (sys_fstatat os directory_fd launch_name);
                ret (case (file, named) of
                       (Some a, Some b) \<Rightarrow> st_dev a = st_dev b \<and> st_ino a = st_ino b
                     | _ \<Rightarrow> False)
              }));
           if \<not> locked then do { close_fd os lock; ret None } else ret (Some lock)
         }
     }
   }"

definition unlink_probe :: "'d probe_host \<Rightarrow> int \<Rightarrow> string \<Rightarrow> ('d probe_world parent, errno option) state" where
  "unlink_probe h directory_fd name =
     logged_call (alive (Some OtherErrno) (unlink_at h directory_fd name)) (\<lambda>e. Unlinked name (e = None))"

primrec remove_files ::
  "'d probe_host \<Rightarrow> int \<Rightarrow> string list \<Rightarrow> bool \<Rightarrow> ('d probe_world parent, bool) state" where
  "remove_files h directory_fd [] removed = ret removed"
| "remove_files h directory_fd (name # names) removed = do {
     failed \<leftarrow> unlink_probe h directory_fd name;
     remove_files h directory_fd names (removed \<and> (failed = None \<or> failed = Some ENOENT))
   }"

definition probe_files :: "string list" where
  "probe_files = [next_name, worker_name, lock_name, probe_executable_name, probe_staging_name]"

definition supervisor_probe_cleanup :: "'d probe_host \<Rightarrow> int \<Rightarrow> ('d probe_world parent, bool) state" where
  "supervisor_probe_cleanup h directory_fd = do {
     ownership \<leftarrow> supervisor_ownership_acquire (probe_os h) directory_fd False;
     case ownership of
       None \<Rightarrow> ret False
     | Some lock \<Rightarrow> do {
         removed \<leftarrow> remove_files h directory_fd probe_files True;
         synced \<leftarrow> logged_call (sys_fsync (probe_os h) directory_fd) (Synced directory_fd);
         close_fd (probe_os h) lock;
         ret (removed \<and> synced)
       }
   }"

section \<open>The crash diagnostic\<close>

definition crash_message :: "int \<Rightarrow> u32 \<Rightarrow> int \<Rightarrow> u64 \<Rightarrow> string" where
  "crash_message pid uid observer now =
     json ''{`runner_pid`:'' @ decimal_int pid @ json '',`runner_uid`:'' @ decimal (unat uid) @
     json '',`observer_pid`:'' @ decimal_int observer @
     json '',`journal_pending`:true,`armed_monotonic_ns`:'' @ decimal (unat now) @ ''}'' @ [CHR 0x0A]"

text \<open>A \<open>write\<close> to the standard output: the bytes it says it wrote are part of the output.\<close>

definition probe_write :: "'d probe_host \<Rightarrow> string \<Rightarrow> ('d probe_world, errno + nat) state" where
  "probe_write h text = do {
     sent \<leftarrow> at_system (write_retry (probe_os h) (retry_fuel (base_os h)) STDOUT_FILENO (bytes_of text));
     State (\<lambda>w. (sent, case sent of
         Inl e \<Rightarrow> w
       | Inr n \<Rightarrow> if process_ended w = None then w\<lparr>probe_output := probe_output w @ take n text\<rparr> else w))
   }"

definition crash_identified :: "'d probe_host \<Rightarrow> int \<Rightarrow> ('d probe_world, bool) state" where
  "crash_identified h observer = do {
     pid \<leftarrow> alive 0 (process_id h);
     if observer \<le> 1 \<or> observer = pid then ret False
     else do {
       child \<leftarrow> alive None (child_parent_and_uid h observer);
       uid \<leftarrow> sys_geteuid (probe_os h);
       ret (case child of None \<Rightarrow> False
            | Some (parent_pid, child_uid) \<Rightarrow> parent_pid = word_of_int pid \<and> child_uid = uid)
     }
   }"

definition supervisor_probe_crash_after_observer_start ::
  "'d probe_host \<Rightarrow> int \<Rightarrow> int \<Rightarrow> ('d probe_world, bool) state" where
  "supervisor_probe_crash_after_observer_start h directory_fd observer = do {
     armed \<leftarrow> and_then (crash_identified h observer)
       (do { intent \<leftarrow> at_system (control_intent_read (probe_os h) directory_fd);
             ret (intent = CONTROL_INTENT_PENDING) });
     if \<not> armed then ret False
     else do {
       now \<leftarrow> sys_clock (probe_os h);
       if now = 0 then ret False
       else do {
         pid \<leftarrow> alive 0 (process_id h);
         uid \<leftarrow> sys_geteuid (probe_os h);
         let message = crash_message pid uid observer now in
           if length message = 0 \<or> 256 \<le> length message then ret False
           else do {
             sent \<leftarrow> probe_write h message;
             if sent \<noteq> Inr (length message) then ret False
             else do { end_process (Killed_by ''SIGKILL''); ret False }
           }
       }
     }
   }"

section \<open>The backend\<close>

text \<open>The helper's reader on the probe's machine.\<close>

definition probe_read ::
  "'d probe_host \<Rightarrow> ('d probe_world, smc_baseline_result \<times> smc_baseline_snapshot) state" where
  "probe_read h = State (\<lambda>w.
     if process_ended w \<noteq> None then ((SMC_BASELINE_READ_FAILED, zero_snapshot), w)
     else case run_state (smc_baseline_read (base_driver h) (Some zero_snapshot))
                 \<lparr>driver_state = machine w, io_events = smc_trace w\<rparr> of
            ((result, snapshot), io) \<Rightarrow>
              ((result, the snapshot), w\<lparr>machine := driver_state io, smc_trace := io_events io\<rparr>))"

text \<open>A crashed observer waits for its watcher or, at the latest, for the alarm.\<close>

definition probe_read_baseline ::
  "'d probe_host \<Rightarrow> bool \<Rightarrow> ('d probe_world, smc_baseline_result \<times> smc_baseline_snapshot) state" where
  "probe_read_baseline h crash_observer =
     (if crash_observer then do { end_process (Killed_by ''SIGALRM''); probe_read h } else probe_read h)"

definition check_only :: "'d probe_host \<Rightarrow> ('d probe_world, int) state" where
  "check_only h = do {
     (result, snapshot) \<leftarrow> probe_read h;
     ret (if result = SMC_BASELINE_OK \<and> smc_baseline_is_system (Some snapshot) then 0 else 1)
   }"

definition probe_observer_started ::
  "'d probe_host \<Rightarrow> int \<Rightarrow> bool \<Rightarrow> int \<Rightarrow> bool \<Rightarrow> ('d probe_world, unit) state" where
  "probe_observer_started h directory_fd crash_observer observer recovering =
     (if recovering \<and> crash_observer
      then do { supervisor_probe_crash_after_observer_start h directory_fd observer; ret () }
      else ret ())"

definition check_owner :: "'d probe_host \<Rightarrow> ('d probe_world, unit) state" where
  "check_owner h = supervisor_runner_lifetime_check h STDIN_FILENO"

definition probe_backend :: "'d probe_host \<Rightarrow> int \<Rightarrow> bool \<Rightarrow> 'd probe_world worker_backend" where
  "probe_backend h directory_fd crash_observer =
     \<lparr>operate = Some (check_only h), recover = Some (check_only h),
      read_baseline_of = Some (probe_read_baseline h crash_observer),
      observer_started = Some (probe_observer_started h directory_fd crash_observer),
      parent_hook = Some (check_owner h)\<rparr>"

definition probe_limits :: supervisor_limits where
  "probe_limits = \<lparr>operation_ns = 5 * SECOND_NS, recovery_ns = 5 * SECOND_NS,
     observation_ns = 75 * SECOND_NS, reap_ns = 2 * SECOND_NS\<rparr>"

definition window_ns :: "control_lease \<Rightarrow> u64" where
  "window_ns lease =
     (if observation_started_ns lease \<le> last_sample_ns lease
      then last_sample_ns lease - observation_started_ns lease else 0)"

section \<open>The run\<close>

record probe_outcome =
  journal_resumed :: bool
  admission :: supervisor_report
  admission_samples :: u32
  admission_duration :: u64
  final_report :: supervisor_report

definition no_outcome :: probe_outcome where
  "no_outcome = \<lparr>journal_resumed = False, admission = blocked_report, admission_samples = 0,
     admission_duration = 0, final_report = blocked_report\<rparr>"

text \<open>The claim's arguments, in order: the process id, the clock, the marker.\<close>

definition probe_claim :: "'d probe_host \<Rightarrow> int \<Rightarrow> ('d probe_world parent, bool) state" where
  "probe_claim h directory_fd = do {
     pid \<leftarrow> from_host 0 (process_id h);
     now \<leftarrow> sup_now (probe_os h);
     intent \<leftarrow> control_intent_read (probe_os h) directory_fd;
     latest \<leftarrow> State (\<lambda>p. (latest_snapshot p, p));
     on_lease (\<lambda>l. control_lease_claim l (word_of_int pid) now True intent SMC_BASELINE_OK (Some latest))
       (Claim (word_of_int pid) now True intent SMC_BASELINE_OK (Some latest))
   }"

definition probe_operation ::
  "'d probe_host \<Rightarrow> observation_abi \<Rightarrow> int \<Rightarrow> bool \<Rightarrow> ('d probe_world parent, probe_outcome) state" where
  "probe_operation h abi directory_fd crash = do {
     report \<leftarrow> worker_supervisor_observe_baseline (probe_os h) abi directory_fd True
       (probe_backend h directory_fd False) probe_limits;
     lease \<leftarrow> get_lease;
     let outcome = no_outcome\<lparr>admission := report, admission_samples := lease_samples (the lease),
                              admission_duration := window_ns (the lease)\<rparr>
     in do {
       claimed \<leftarrow> and_then (ret (sup_result report = SUPERVISOR_BASELINE_READY)) (probe_claim h directory_fd);
       if \<not> claimed then ret outcome
       else do {
         final \<leftarrow> worker_supervisor_run (probe_os h) abi directory_fd
           (probe_backend h directory_fd crash) probe_limits None;
         ret (outcome\<lparr>final_report := final\<rparr>)
       }
     }
   }"

definition probe_supervise ::
  "'d probe_host \<Rightarrow> observation_abi \<Rightarrow> int \<Rightarrow> bool \<Rightarrow> bool \<Rightarrow> ('d probe_world parent, probe_outcome) state" where
  "probe_supervise h abi directory_fd crash resume_only = do {
     intent \<leftarrow> control_intent_read (probe_os h) directory_fd;
     if intent = CONTROL_INTENT_PENDING \<and> \<not> crash
     then do {
       final \<leftarrow> worker_supervisor_resume (probe_os h) abi directory_fd
         (probe_backend h directory_fd False) probe_limits;
       ret (no_outcome\<lparr>journal_resumed := True, final_report := final\<rparr>)
     }
     else if intent = CONTROL_INTENT_CLEAR \<and> \<not> resume_only
     then probe_operation h abi directory_fd crash
     else ret (no_outcome\<lparr>journal_resumed := (intent = CONTROL_INTENT_PENDING)\<rparr>)
   }"

definition probe_state :: "supervisor_report \<Rightarrow> bool \<Rightarrow> string" where
  "probe_state report clear =
     (if sup_result report = SUPERVISOR_RECOVERED \<and> clear then ''verified''
      else if clear then ''blocked'' else ''pending'')"

definition json_bool :: "bool \<Rightarrow> string" where
  "json_bool b = (if b then ''true'' else ''false'')"

definition probe_line :: "probe_outcome \<Rightarrow> bool \<Rightarrow> int \<Rightarrow> u32 \<Rightarrow> control_lease \<Rightarrow> string" where
  "probe_line outcome clear pid uid lease =
     (let report = final_report outcome; recovered = sup_result report = SUPERVISOR_RECOVERED
      in json ''{`state`:`'' @ probe_state report clear @ json ''`,`runner_pid`:'' @ decimal_int pid @
         json '',`runner_uid`:'' @ decimal (unat uid) @ json '',`resumed`:'' @
         json_bool (journal_resumed outcome) @
         json '',`admission_pid`:'' @ decimal_int (observer_pid (admission outcome)) @
         json '',`admission_samples`:'' @ decimal (unat (admission_samples outcome)) @
         json '',`admission_duration_ns`:'' @ decimal (unat (admission_duration outcome)) @
         json '',`operation_pid`:'' @ decimal_int (operation_pid report) @
         json '',`recovery_pid`:'' @ decimal_int (recovery_pid report) @
         json '',`observer_pid`:'' @ decimal_int (observer_pid report) @
         json '',`reaped`:'' @ decimal (unat (reaped_count (admission outcome) + reaped_count report)) @
         json '',`recovery_samples`:'' @ decimal (if recovered then unat (lease_samples lease) else 0) @
         json '',`recovery_duration_ns`:'' @ decimal (if recovered then unat (window_ns lease) else 0) @
         json '',`journal_clear`:'' @ json_bool clear @ ''}'' @ [CHR 0x0A])"

definition probe_report ::
  "'d probe_host \<Rightarrow> int \<Rightarrow> probe_outcome \<Rightarrow> ('d probe_world parent, string) state" where
  "probe_report h directory_fd outcome = do {
     intent \<leftarrow> control_intent_read (probe_os h) directory_fd;
     in_system (check_owner h);
     lease \<leftarrow> get_lease;
     pid \<leftarrow> from_host 0 (process_id h);
     uid \<leftarrow> in_system (sys_geteuid (probe_os h));
     let clear = (intent = CONTROL_INTENT_CLEAR) in do {
       probe_print (probe_line outcome clear pid uid (the lease));
       ret (probe_state (final_report outcome) clear)
     }
   }"

definition probe_clean ::
  "'d probe_host \<Rightarrow> int \<Rightarrow> int \<Rightarrow> ('d probe_world parent, int) state" where
  "probe_clean h directory_fd lock = do {
     in_system (check_owner h);
     clean \<leftarrow> supervisor_probe_cleanup h directory_fd;
     clean \<leftarrow> and_then (ret clean)
       (and_then (do { e \<leftarrow> unlink_probe h directory_fd launch_name; ret (e = None) })
         (from_host False (remove_directory h probe_directory_path)));
     close_fd (probe_os h) lock;
     close_fd (probe_os h) directory_fd;
     (if clean then probe_print (json ''{`cleaned`:true}'' @ [CHR 0x0A]) else ret ());
     ret (if clean then 0 else 2)
   }"

definition probe_main ::
  "'d probe_host \<Rightarrow> observation_abi \<Rightarrow> string list \<Rightarrow> ('d probe_world parent, int) state" where
  "probe_main h abi argv =
     (let argc = length argv;
          option = (\<lambda>name. argc = 2 \<and> strcmp_eq (argv ! 1) name);
          cleanup = option ''--cleanup'';
          crash = option ''--crash-observer'';
          resume_only = option ''--resume-pending''
      in do {
        uid \<leftarrow> from_host 0 (real_uid h);
        euid \<leftarrow> in_system (sys_geteuid (probe_os h));
        if uid \<noteq> 0 \<or> euid \<noteq> 0 \<or> argc \<noteq> 1 \<and> \<not> cleanup \<and> \<not> crash \<and> \<not> resume_only
        then do { probe_complain ''root read-only probe accepts only fixed diagnostic modes''; ret 2 }
        else do {
          from_host () (set_umask h 0x3F);
          entered \<leftarrow> in_system (supervisor_runner_lifetime_enter h STDIN_FILENO);
          if \<not> entered then ret 2
          else do {
            directory \<leftarrow> SupervisorProbeOpenDirectory h;
            lock \<leftarrow> (case directory of None \<Rightarrow> ret None
                    | Some directory_fd \<Rightarrow> supervisor_probe_lock (probe_os h) directory_fd);
            case lock of
              None \<Rightarrow> do {
                close_some (probe_os h) directory;
                probe_complain ''private probe state is busy or unsafe'';
                ret 2
              }
            | Some lock_fd \<Rightarrow>
                if cleanup then probe_clean h (the directory) lock_fd
                else do {
                  outcome \<leftarrow> probe_supervise h abi (the directory) crash resume_only;
                  probe_report h (the directory) outcome;
                  close_fd (probe_os h) lock_fd;
                  close_some (probe_os h) directory;
                  ret 0
                }
          }
        }
      })"

end
