(* ===== verification/SupervisorSteady.thy ===== *)
theory SupervisorSteady
  imports SupervisorPhases
begin

text \<open>
  What the system's own calls never undo, the supervisor never undoes: a reflexive and transitive
  relation on the system that every system call and callback respects is respected by every function of
  the journal, the ownership and the supervisor, in the parent and in the children.
\<close>

section \<open>Programs that respect a relation\<close>

definition steadily :: "('s \<Rightarrow> 's \<Rightarrow> bool) \<Rightarrow> ('s, 'a) state \<Rightarrow> bool" where
  "steadily R m \<longleftrightarrow> (\<forall>s. R s (snd (run_state m s)))"

named_theorems steady_intros "introduction rules of steadily"

lemma steadilyD: "steadily R m \<Longrightarrow> run_state m s = (r, s') \<Longrightarrow> R s s'"
  by (metis snd_conv steadily_def)

lemma steady_if [steady_intros]:
  "(b \<Longrightarrow> steadily R m) \<Longrightarrow> (\<not> b \<Longrightarrow> steadily R n) \<Longrightarrow> steadily R (if b then m else n)"
  by simp

lemma steady_let [steady_intros]: "steadily R (f a) \<Longrightarrow> steadily R (let x = a in f x)"
  by simp

lemma steady_prod [steady_intros]:
  "(\<And>x y. p = (x, y) \<Longrightarrow> steadily R (f x y)) \<Longrightarrow> steadily R (case p of (x, y) \<Rightarrow> f x y)"
  by (cases p) auto

lemma steady_option [steady_intros]:
  "(v = None \<Longrightarrow> steadily R m) \<Longrightarrow> (\<And>x. v = Some x \<Longrightarrow> steadily R (f x)) \<Longrightarrow>
   steadily R (case v of None \<Rightarrow> m | Some x \<Rightarrow> f x)"
  by (cases v) auto

lemma steady_sum [steady_intros]:
  "(\<And>x. v = Inl x \<Longrightarrow> steadily R (f x)) \<Longrightarrow> (\<And>y. v = Inr y \<Longrightarrow> steadily R (g y)) \<Longrightarrow>
   steadily R (case v of Inl x \<Rightarrow> f x | Inr y \<Rightarrow> g y)"
  by (cases v) auto

lemma steady_wait [steady_intros]:
  "(v = StillRunning \<Longrightarrow> steadily R m) \<Longrightarrow> (\<And>x. v = Reaped x \<Longrightarrow> steadily R (g x)) \<Longrightarrow>
   (\<And>e. v = WaitFailed e \<Longrightarrow> steadily R (h e)) \<Longrightarrow>
   steadily R (case v of StillRunning \<Rightarrow> m | Reaped x \<Rightarrow> g x | WaitFailed e \<Rightarrow> h e)"
  by (cases v) auto

lemma steady_loop [steady_intros]:
  "(v = Leave \<Longrightarrow> steadily R m) \<Longrightarrow> (\<And>x. v = Continue x \<Longrightarrow> steadily R (g x)) \<Longrightarrow>
   (\<And>x. v = Proceed x \<Longrightarrow> steadily R (h x)) \<Longrightarrow>
   steadily R (case v of Leave \<Rightarrow> m | Continue x \<Rightarrow> g x | Proceed x \<Rightarrow> h x)"
  by (cases v) auto

section \<open>The relation and the calls\<close>

definition steady_os :: "('d \<Rightarrow> 'd \<Rightarrow> bool) \<Rightarrow> 'd posix \<Rightarrow> bool" where
  "steady_os R os \<longleftrightarrow>
     (\<forall>fd. steadily R (sys_fstat os fd)) \<and> (\<forall>fd name. steadily R (sys_fstatat os fd name)) \<and>
     steadily R (sys_geteuid os) \<and> (\<forall>fd name flags. steadily R (sys_openat os fd name flags)) \<and>
     (\<forall>fd n. steadily R (sys_read os fd n)) \<and> (\<forall>fd bytes. steadily R (sys_write os fd bytes)) \<and>
     (\<forall>fd. steadily R (sys_ftruncate os fd)) \<and> (\<forall>fd. steadily R (sys_fsync os fd)) \<and>
     (\<forall>fd. steadily R (sys_close os fd)) \<and> (\<forall>fd name. steadily R (sys_unlinkat os fd name)) \<and>
     (\<forall>fd a b. steadily R (sys_renameat os fd a b)) \<and> (\<forall>fd. steadily R (sys_flock os fd)) \<and>
     (\<forall>pid. steadily R (sys_pidinfo os pid)) \<and> steadily R (sys_clock os) \<and>
     (\<forall>ns. steadily R (sys_nanosleep os ns)) \<and> steadily R (sys_socketpair os) \<and>
     steadily R (sys_pipe os) \<and> (\<forall>fd. steadily R (sys_set_cloexec os fd)) \<and>
     (\<forall>fd. steadily R (sys_set_nonblock os fd)) \<and> (\<forall>fd bytes. steadily R (sys_send os fd bytes)) \<and>
     (\<forall>role. steadily R (sys_fork os role)) \<and> (\<forall>pid. steadily R (sys_waitpid os pid)) \<and>
     (\<forall>pid. steadily R (sys_kill os pid)) \<and> (\<forall>fd. steadily R (sys_start_watcher os fd)) \<and>
     steadily R (sys_sigchld_default os)"

text \<open>The callbacks the parent runs; those of the children are arguments of their functions.\<close>

definition steady_hooks :: "('d \<Rightarrow> 'd \<Rightarrow> bool) \<Rightarrow> 'd worker_backend \<Rightarrow> bool" where
  "steady_hooks R backend \<longleftrightarrow>
     (\<forall>m. parent_hook backend = Some m \<longrightarrow> steadily R m) \<and>
     (\<forall>f child recovering. observer_started backend = Some f \<longrightarrow> steadily R (f child recovering))"

definition on_systems :: "('d \<Rightarrow> 'd \<Rightarrow> bool) \<Rightarrow> 'd parent \<Rightarrow> 'd parent \<Rightarrow> bool" where
  "on_systems R p p' \<longleftrightarrow> R (system p) (system p')"

locale steady_system =
  fixes R :: "'d \<Rightarrow> 'd \<Rightarrow> bool" and os :: "'d posix"
  assumes R_refl: "R d d" and R_trans: "R d d' \<Longrightarrow> R d' d'' \<Longrightarrow> R d d''"
    and os_steady: "steady_os R os"
begin

lemma calls [steady_intros]:
  "steadily R (sys_fstat os fd)" "steadily R (sys_fstatat os fd name)" "steadily R (sys_geteuid os)"
  "steadily R (sys_openat os fd name flags)" "steadily R (sys_read os fd n)"
  "steadily R (sys_write os fd bytes)" "steadily R (sys_ftruncate os fd)" "steadily R (sys_fsync os fd)"
  "steadily R (sys_close os fd)" "steadily R (sys_unlinkat os fd name)"
  "steadily R (sys_renameat os fd a b)" "steadily R (sys_flock os fd)" "steadily R (sys_pidinfo os pid)"
  "steadily R (sys_clock os)" "steadily R (sys_nanosleep os ns)" "steadily R (sys_socketpair os)"
  "steadily R (sys_pipe os)" "steadily R (sys_set_cloexec os fd)" "steadily R (sys_set_nonblock os fd)"
  "steadily R (sys_send os fd bytes)" "steadily R (sys_fork os role)" "steadily R (sys_waitpid os pid)"
  "steadily R (sys_kill os pid)" "steadily R (sys_start_watcher os fd)"
  "steadily R (sys_sigchld_default os)"
  using os_steady by (simp_all add: steady_os_def)

lemma machine_return [steady_intros]: "steadily R (ret x)"
  by (simp add: steadily_def R_refl)

lemma machine_bind [steady_intros]:
  "steadily R m \<Longrightarrow> (\<And>x. steadily R (f x)) \<Longrightarrow> steadily R (m \<bind> f)"
  by (auto simp: steadily_def split_def intro: R_trans)

lemma machine_and [steady_intros]:
  "steadily R m \<Longrightarrow> steadily R n \<Longrightarrow> steadily R (and_then m n)"
  unfolding and_then_def by (intro steady_intros)

lemma return [steady_intros]: "steadily (on_systems R) (ret x)"
  by (simp add: steadily_def on_systems_def R_refl)

lemma bind [steady_intros]:
  "steadily (on_systems R) m \<Longrightarrow> (\<And>x. steadily (on_systems R) (f x)) \<Longrightarrow>
   steadily (on_systems R) (m \<bind> f)"
  by (auto simp: steadily_def split_def on_systems_def intro: R_trans)

lemma connectives [steady_intros]:
  "steadily (on_systems R) m \<Longrightarrow> steadily (on_systems R) n \<Longrightarrow> steadily (on_systems R) (and_then m n)"
  "steadily (on_systems R) m \<Longrightarrow> steadily (on_systems R) n \<Longrightarrow> steadily (on_systems R) (or_else m n)"
  "steadily (on_systems R) m \<Longrightarrow> steadily (on_systems R) (negated m)"
  unfolding and_then_def or_else_def negated_def by (intro steady_intros; assumption)+

lemma called [steady_intros]: "steadily R m \<Longrightarrow> steadily (on_systems R) (in_system m)"
  by (auto simp: steadily_def in_system_def on_systems_def split_def)

lemma noted [steady_intros]: "steadily (on_systems R) (note_sys e)"
  by (simp add: steadily_def note_sys_def on_systems_def R_refl)

lemma logged [steady_intros]: "steadily R m \<Longrightarrow> steadily (on_systems R) (logged_call m e)"
  unfolding logged_call_def by (intro steady_intros)

lemma mapped [steady_intros]: "steadily R m \<Longrightarrow> steadily R (map_state f m)"
  unfolding map_state_def by (intro steady_intros)

lemma memory [steady_intros]:
  "steadily (on_systems R) (on_lease f c)" "steadily (on_systems R) clear_lease"
  "steadily (on_systems R) get_lease" "steadily (on_systems R) (keep_latest wanted observation)"
  by (auto simp: steadily_def on_lease_def clear_lease_def get_lease_def keep_latest_def on_systems_def
      R_refl split_def)

lemma lease_calls [steady_intros]:
  "steadily (on_systems R) (on_lease_void g c)" "steadily (on_systems R) (owner_lost owner)"
  unfolding on_lease_void_def owner_lost_def by (intro steady_intros)+

section \<open>The functions\<close>

lemma transfers [steady_intros]:
  "steadily (on_systems R) (write_from os fuel fd contents written)"
  "steadily (on_systems R) (read_from os fuel fd wanted got)"
  "steadily (on_systems R) (read_retry os fuel fd wanted)"
  "steadily (on_systems R) (write_retry os fuel fd contents)"
  by (induction fuel arbitrary: written got) (auto intro!: steady_intros)

lemma files [steady_intros]:
  "steadily (on_systems R) (close_fd os fd)" "steadily (on_systems R) (close_some os connection)"
  "steadily (on_systems R) (private_directory os fd)" "steadily (on_systems R) (private_file os fd)"
  unfolding close_fd_def close_some_def private_directory_def private_file_def
  by (intro steady_intros)+

lemma journal [steady_intros]:
  "steadily (on_systems R) (control_intent_read os directory_fd)"
  "steadily (on_systems R) (control_intent_mark_pending os directory_fd)"
  "steadily (on_systems R) (control_intent_clear_verified os directory_fd)"
  unfolding control_intent_mark_pending_def control_intent_clear_verified_def control_intent_read_def
    read_up_to_def write_all_def
  by (intro steady_intros)+

lemma ownership [steady_intros]:
  "steadily (on_systems R) (old_worker_absent os directory_fd pending)"
  "steadily (on_systems R) (supervisor_ownership_record os directory_fd child)"
  "steadily (on_systems R) (supervisor_ownership_acquire os directory_fd pending)"
  "steadily (on_systems R) (supervisor_ownership_enter_child os connection deadline)"
  unfolding supervisor_ownership_acquire_def supervisor_ownership_record_def old_worker_absent_def
    supervisor_ownership_enter_child_def write_all_def
  by (intro steady_intros)+

lemma clocks [steady_intros]:
  "steadily (on_systems R) (sup_now os)" "steadily (on_systems R) (deadline_for os duration)"
  "steadily (on_systems R) (pause_ns os duration)"
  unfolding sup_now_def deadline_for_def pause_ns_def by (intro steady_intros)+

lemma stopping [steady_intros]:
  "steadily (on_systems R) (wait_child os child)"
  "steadily (on_systems R) (reap_until os fuel child deadline report)"
  "steadily (on_systems R) (stop_and_reap os child reap_limit report)"
  "steadily (on_systems R) (leave_observer os child reap_limit s report)"
proof -
  show w: "steadily (on_systems R) (wait_child os child)" for child
    unfolding wait_child_def by (intro steady_intros)
  show r: "steadily (on_systems R) (reap_until os fuel child deadline report)"
    for fuel child deadline report
    by (induction fuel arbitrary: report) (auto intro!: steady_intros w)
  show s: "steadily (on_systems R) (stop_and_reap os child reap_limit report)" for child reap_limit report
    unfolding stop_and_reap_def by (intro steady_intros w r)
  show "steadily (on_systems R) (leave_observer os child reap_limit s report)"
    unfolding leave_observer_def by (intro steady_intros s)
qed

section \<open>The children\<close>

lemma child_entry [steady_intros]: "steadily (on_systems R) (worker_child os directory_fd ours theirs deadline)"
  unfolding worker_child_def by (intro steady_intros)

lemma action [steady_intros]:
  "steadily R action \<Longrightarrow> steadily (on_systems R) (action_child os directory_fd action deadline ours theirs)"
  unfolding action_child_def by (intro steady_intros)

lemma observing:
  "steadily R reader \<Longrightarrow> steadily (on_systems R) (observe_child_from os abi reader output indices)"
  by (induction indices) (auto intro!: steady_intros)

lemma observer:
  "steadily R reader \<Longrightarrow>
   steadily (on_systems R) (observer_child os abi directory_fd reader deadline ours theirs input output)"
  unfolding observer_child_def observe_child_def by (intro steady_intros observing)

end

section \<open>The parent\<close>

text \<open>What the parent does but for announcing an observer depends on one callback alone.\<close>

locale steady_waiting = steady_system +
  fixes backend :: "'a worker_backend"
  assumes hook: "parent_hook backend = Some m \<Longrightarrow> steadily R m"
begin

lemma check [steady_intros]: "steadily (on_systems R) (parent_check backend)"
  unfolding parent_check_def by (intro steady_intros hook)

lemma supervise_check [steady_intros]: "steadily (on_systems R) (can_supervise os backend limits)"
  unfolding can_supervise_def by (intro steady_intros)

lemma spawning [steady_intros]: "steadily (on_systems R) (spawn_worker os directory_fd backend role)"
  unfolding spawn_worker_def fork_worker_def by (intro steady_intros)

lemma phase [steady_intros]:
  "steadily (on_systems R) (wait_phase os child deadline reap_limit None exit_kind report backend)"
proof -
  have "steadily (on_systems R) (wait_phase_from os fuel child deadline reap_limit None exit_kind report backend)"
    for fuel
    by (induction fuel) (auto simp: cancelled_def intro!: steady_intros)
  then show ?thesis by (simp add: wait_phase_def)
qed

lemma observation [steady_intros]:
  "steadily (on_systems R) (observer_input os abi input launched recovering wanted s)"
  "steadily (on_systems R) (observer_exit os child s report)"
  "steadily (on_systems R) (observed_all recovering s)"
  unfolding observer_input_def accept_observation_def feed_observation_def observer_exit_def observed_all_def
  by (intro steady_intros)+

lemma supervision [steady_intros]:
  "steadily (on_systems R)
     (supervise_from os abi backend fuel input child launched deadline reap_limit recovering wanted s report)"
  by (induction fuel arbitrary: s report) (auto intro!: steady_intros)

end

locale steady_supervision = steady_system +
  fixes backend :: "'a worker_backend"
  assumes hooks: "steady_hooks R backend"

sublocale steady_supervision \<subseteq> steady_waiting
  by unfold_locales (use hooks in \<open>simp add: steady_hooks_def\<close>)

context steady_supervision
begin

lemma announce [steady_intros]:
  "steadily (on_systems R) (announce_observer backend connection child recovering)"
  using hooks unfolding announce_observer_def steady_hooks_def by (intro steady_intros) auto

lemma owned [steady_intros]:
  "steadily (on_systems R) (observe_owned os abi backend directory_fd limits report recovering wanted)"
  "steadily (on_systems R) (recover_owned os abi backend directory_fd limits report)"
  "steadily (on_systems R) (run_owned os abi backend directory_fd limits None)"
  unfolding run_owned_def run_operation_def recover_owned_def observe_owned_def supervise_observer_def
  by (intro steady_intros)+

lemma entry_points [steady_intros]:
  "steadily (on_systems R) (worker_supervisor_observe_baseline os abi directory_fd has_latest backend limits)"
  "steadily (on_systems R) (worker_supervisor_run os abi directory_fd backend limits None)"
  "steadily (on_systems R) (worker_supervisor_resume os abi directory_fd backend limits)"
  unfolding worker_supervisor_observe_baseline_def worker_supervisor_run_def worker_supervisor_resume_def
    cancelled_def
  by (intro steady_intros; simp)+

end

end
