(* ===== verification/SupervisorViews.thy ===== *)
theory SupervisorViews
  imports SupervisorPhases
begin

text \<open>
  Parts of the supervisor's state that its helpers leave alone, whatever the system answers. A view is
  a function of the lease and the log; a view that does not see the file events of the log is kept by
  the journal and the ownership file operations, and one that does not see the process events either
  by the waits and stops. Two views are of interest: the lease with its history, and the children.
\<close>

section \<open>System calls, exactly\<close>

lemma wp_in_system: "wp (in_system m) Q p = (case run_state m (system p) of (r, d) \<Rightarrow> Q r (p\<lparr>system := d\<rparr>))"
  by (simp add: in_system_def wp_State split: prod.split)

lemma wp_logged_eq: "wp (logged_call m e) Q p =
    (case run_state m (system p) of (r, d) \<Rightarrow> Q r (p\<lparr>system := d, sys_log := e r # sys_log p\<rparr>))"
  by (simp add: logged_call_def wp_bind wp_in_system note_sys_def wp_State wp_return split: prod.split)

section \<open>Case rules\<close>

lemma keeps_case_wait [keeps_intros]:
  "(v = StillRunning \<Longrightarrow> keeps f m) \<Longrightarrow> (\<And>x. v = Reaped x \<Longrightarrow> keeps f (g x)) \<Longrightarrow>
   (\<And>e. v = WaitFailed e \<Longrightarrow> keeps f (h e)) \<Longrightarrow>
   keeps f (case v of StillRunning \<Rightarrow> m | Reaped x \<Rightarrow> g x | WaitFailed e \<Rightarrow> h e)"
  by (cases v) auto

lemma keeps_case_loop [keeps_intros]:
  "(v = Leave \<Longrightarrow> keeps f m) \<Longrightarrow> (\<And>x. v = Continue x \<Longrightarrow> keeps f (g x)) \<Longrightarrow>
   (\<And>x. v = Proceed x \<Longrightarrow> keeps f (h x)) \<Longrightarrow>
   keeps f (case v of Leave \<Rightarrow> m | Continue x \<Rightarrow> g x | Proceed x \<Rightarrow> h x)"
  by (cases v) auto

lemma wp_case_waitI:
  "(v = StillRunning \<Longrightarrow> wp m Q s) \<Longrightarrow> (\<And>x. v = Reaped x \<Longrightarrow> wp (g x) Q s) \<Longrightarrow>
   (\<And>e. v = WaitFailed e \<Longrightarrow> wp (h e) Q s) \<Longrightarrow>
   wp (case v of StillRunning \<Rightarrow> m | Reaped x \<Rightarrow> g x | WaitFailed e \<Rightarrow> h e) Q s"
  by (cases v) auto

lemma wp_case_loopI:
  "(v = Leave \<Longrightarrow> wp m Q s) \<Longrightarrow> (\<And>x. v = Continue x \<Longrightarrow> wp (g x) Q s) \<Longrightarrow>
   (\<And>x. v = Proceed x \<Longrightarrow> wp (h x) Q s) \<Longrightarrow>
   wp (case v of Leave \<Rightarrow> m | Continue x \<Rightarrow> g x | Proceed x \<Rightarrow> h x) Q s"
  by (cases v) auto

lemma wp_logged:
  "(\<And>r p'. the_lease p' = the_lease p \<Longrightarrow> sys_log p' = e r # sys_log p \<Longrightarrow> Q r p') \<Longrightarrow>
   wp (logged_call m e) Q p"
  by (simp add: logged_call_def wp_def in_system_def note_sys_def split: prod.splits)

section \<open>Events\<close>

fun quiet_event :: "sys_event \<Rightarrow> bool" where
  "quiet_event (Forked role child) = False"
| "quiet_event (Waited child result) = False"
| "quiet_event (Killed child) = False"
| "quiet_event (Called c b) = False"
| "quiet_event Zeroed_lease = False"
| "quiet_event (Unlinked name done) = False"
| "quiet_event e = True"

fun process_event :: "sys_event \<Rightarrow> bool" where
  "process_event (Waited child result) = True"
| "process_event (Killed child) = True"
| "process_event e = False"

section \<open>Views that do not see files\<close>

lemmas clock_calls = sup_now_def parent_check_def deadline_for_def pause_ns_def cancelled_def
  announce_observer_def can_supervise_def

locale quiet_view =
  fixes view :: "'d parent \<Rightarrow> 'k"
  assumes view_same: "sys_log p' = sys_log p \<Longrightarrow> the_lease p' = the_lease p \<Longrightarrow> view p' = view p"
    and view_quiet: "quiet_event e \<Longrightarrow> view (p\<lparr>sys_log := e # sys_log p\<rparr>) = view p"
begin

lemma in_system [keeps_intros]: "keeps view (in_system m)"
  by (auto simp: keeps_def in_system_def split_def intro: view_same)

lemma noted [keeps_intros]: "quiet_event e \<Longrightarrow> keeps view (note_sys e)"
  by (simp add: keeps_def note_sys_def view_quiet)

lemma logged [keeps_intros]: "(\<And>r. quiet_event (e r)) \<Longrightarrow> keeps view (logged_call m e)"
  unfolding logged_call_def by (intro keeps_intros)

lemma get_lease [keeps_intros]: "keeps view get_lease"
  by (simp add: keeps_def get_lease_def)

lemma keep_latest [keeps_intros]: "keeps view (keep_latest wanted observation)"
  by (auto simp: keeps_def keep_latest_def intro: view_same)

lemma write_from [keeps_intros]: "keeps view (write_from os fuel fd contents written)"
  by (induction fuel arbitrary: written) (auto intro!: keeps_intros)

lemma read_from [keeps_intros]: "keeps view (read_from os fuel fd wanted got)"
  by (induction fuel arbitrary: got) (auto intro!: keeps_intros)

lemma intent_read [keeps_intros]: "keeps view (control_intent_read os directory_fd)"
  unfolding control_intent_read_def private_directory_def read_up_to_def
  by (intro keeps_intros) auto

lemma record_worker [keeps_intros]: "keeps view (supervisor_ownership_record os directory_fd child)"
  unfolding supervisor_ownership_record_def private_directory_def private_file_def write_all_def
  by (intro keeps_intros) auto

lemma absent [keeps_intros]: "keeps view (old_worker_absent os directory_fd pending)"
  unfolding old_worker_absent_def private_file_def by (intro keeps_intros) auto

lemma acquire [keeps_intros]: "keeps view (supervisor_ownership_acquire os directory_fd pending)"
  unfolding supervisor_ownership_acquire_def private_directory_def private_file_def
  by (intro keeps_intros) auto

lemma clock [keeps_intros]:
  "keeps view (sup_now os)" "keeps view (parent_check backend)"
  "keeps view (deadline_for os duration)" "keeps view (pause_ns os duration)"
  "keeps view (cancelled cancel)"
  "keeps view (announce_observer backend connection child recovering)"
  "keeps view (can_supervise os backend limits)"
  unfolding clock_calls by (intro keeps_intros)+

lemma close [keeps_intros]: "keeps view (close_fd os fd)"
  unfolding close_fd_def by (intro keeps_intros) auto

lemma close_some [keeps_intros]: "keeps view (close_some os connection)"
  unfolding close_some_def by (intro keeps_intros)

end

section \<open>Views that do not see processes\<close>

locale file_view = quiet_view +
  assumes view_process: "process_event e \<Longrightarrow> view (p\<lparr>sys_log := e # sys_log p\<rparr>) = view p"
begin

lemma process_noted: "process_event e \<Longrightarrow> keeps view (note_sys e)"
  by (simp add: keeps_def note_sys_def view_process)

lemma process_call [keeps_intros]: "(\<And>r. process_event (e r)) \<Longrightarrow> keeps view (logged_call m e)"
  unfolding logged_call_def by (intro keeps_bind keeps_return in_system process_noted)

lemma wait_child [keeps_intros]: "keeps view (wait_child os child)"
  unfolding wait_child_def by (rule process_call) simp

lemma reap_until [keeps_intros]: "keeps view (reap_until os fuel child deadline report)"
  by (induction fuel arbitrary: report) (auto intro!: keeps_intros)

lemma kill [keeps_intros]: "keeps view (logged_call m (\<lambda>_. Killed child))"
  by (rule process_call) simp

lemma stop_and_reap [keeps_intros]: "keeps view (stop_and_reap os child reap_limit report)"
  unfolding stop_and_reap_def Let_def by (rule keeps_intros kill wait_child | assumption)+

lemma wait_phase [keeps_intros]:
  "keeps view (wait_phase os child deadline reap_limit cancel exit_kind report backend)"
proof -
  have "keeps view (wait_phase_from os fuel child deadline reap_limit cancel exit_kind report backend)"
    for fuel
    by (induction fuel) (auto intro!: keeps_intros)
  then show ?thesis by (simp add: wait_phase_def)
qed

lemma spawn:
  assumes "\<And>child p. view (p\<lparr>sys_log := Forked role child # sys_log p\<rparr>) = view p"
  shows "keeps view (spawn_worker os directory_fd backend role)"
proof -
  have "keeps view (fork_worker os role)"
    unfolding fork_worker_def logged_call_def
    by (intro keeps_bind keeps_return in_system) (simp add: keeps_def note_sys_def assms)
  then show ?thesis unfolding spawn_worker_def by (intro keeps_intros) auto
qed

end

section \<open>Views that do not see the lease\<close>

locale blind_view = file_view +
  assumes view_called:
    "view (p\<lparr>the_lease := lease, sys_log := Called c b # sys_log p\<rparr>) = view p"
begin

lemma called [keeps_intros]: "keeps view (on_lease f c)"
  by (simp add: keeps_def on_lease_def split_def view_called)

lemma called_void [keeps_intros]: "keeps view (on_lease_void f c)"
  unfolding on_lease_void_def by (intro keeps_intros)

lemma accept [keeps_intros]:
  "keeps view (accept_observation observation launched received taken recovering)"
  unfolding accept_observation_def feed_observation_def by (intro keeps_intros)

lemma input [keeps_intros]: "keeps view (observer_input os abi input launched recovering wanted s)"
  unfolding observer_input_def by (intro keeps_intros)

lemma observer_exit [keeps_intros]: "keeps view (observer_exit os child s report)"
  unfolding observer_exit_def by (intro keeps_intros)

lemma leave [keeps_intros]: "keeps view (leave_observer os child reap_limit s report)"
  unfolding leave_observer_def by (intro keeps_intros)

lemma observed_all [keeps_intros]: "keeps view (observed_all recovering s)"
  unfolding observed_all_def by (intro keeps_intros)

lemma supervise [keeps_intros]:
  "keeps view (supervise_from os abi backend fuel input child launched deadline reap_limit recovering
     wanted s report)"
proof (induction fuel arbitrary: s report)
  case 0
  show ?case unfolding supervise_from.simps by (intro keeps_intros) simp
next
  case (Suc fuel)
  show ?case unfolding supervise_from.simps by (intro keeps_intros Suc.IH)
qed

lemma observe:
  assumes "\<And>child p. view (p\<lparr>sys_log := Forked Observing child # sys_log p\<rparr>) = view p"
  shows "keeps view (observe_owned os abi backend directory_fd limits report recovering wanted)"
  unfolding observe_owned_def supervise_observer_def by (intro keeps_intros spawn[OF assms])

end

section \<open>The lease and its history\<close>

definition lease_view :: "'d parent \<Rightarrow> control_lease option \<times> (lease_call \<times> bool) list" where
  "lease_view p = (the_lease p, lease_history (sys_log p))"

lemma history_quiet: "quiet_event e \<or> process_event e \<Longrightarrow> lease_history (e # es) = lease_history es"
  by (cases e) auto

interpretation lv: file_view lease_view
  by unfold_locales (simp_all add: lease_view_def history_quiet)

lemma view_spawn [keeps_intros]: "keeps lease_view (spawn_worker os directory_fd backend role)"
  by (rule lv.spawn) (simp add: lease_view_def)

section \<open>The children\<close>

text \<open>The children forked and not yet reaped, and that only such a child was ever killed.\<close>

fun children :: "sys_event list \<Rightarrow> int set" where
  "children [] = {}"
| "children (Forked role child # es) = (if 0 < child then insert child (children es) else children es)"
| "children (Waited child (Reaped status) # es) = children es - {child}"
| "children (e # es) = children es"

fun kills_ok :: "sys_event list \<Rightarrow> bool" where
  "kills_ok [] = True"
| "kills_ok (Killed child # es) = (child \<in> children es \<and> kills_ok es)"
| "kills_ok (e # es) = kills_ok es"

definition child_view :: "'d parent \<Rightarrow> int set \<times> bool" where
  "child_view p = (children (sys_log p), kills_ok (sys_log p))"

lemma children_quiet:
  "\<not> process_event e \<Longrightarrow> \<forall>role child. e \<noteq> Forked role child \<Longrightarrow> children (e # es) = children es \<and> kills_ok (e # es) = kills_ok es"
  by (cases e) auto

lemma quiet_not_process: "quiet_event e \<Longrightarrow> \<not> process_event e \<and> (\<forall>role child. e \<noteq> Forked role child)"
  by (cases e) auto

interpretation cv: quiet_view child_view
  by unfold_locales (simp_all add: child_view_def children_quiet quiet_not_process)

text \<open>Calls on the lease do not touch the children.\<close>

lemma child_called [keeps_intros]: "keeps child_view (on_lease f c)"
  by (simp add: keeps_def on_lease_def child_view_def split_def)

lemma child_called_void [keeps_intros]: "keeps child_view (on_lease_void f c)"
  unfolding on_lease_void_def by (intro keeps_intros)

lemma child_cleared [keeps_intros]: "keeps child_view clear_lease"
  by (simp add: keeps_def clear_lease_def child_view_def)

lemma child_unlinked [keeps_intros]: "keeps child_view (logged_call m (Unlinked name))"
  by (simp add: keeps_def logged_call_def in_system_def note_sys_def child_view_def split_def)

end
