(* ===== verification/SupervisorLease.thy ===== *)
theory SupervisorLease
  imports SupervisorViews
begin

text \<open>
  The lease through the phases of the supervisor: the history in the log is a run of the lease's
  reducer that ends in the lease in memory, so what the reducer guarantees holds of every phase.
\<close>

section \<open>Calls on the lease\<close>

lemma view_keeps_wp:
  "keeps lease_view m \<Longrightarrow> (\<And>r s'. lease_view s' = lease_view s \<Longrightarrow> wp (f r) Q s') \<Longrightarrow>
   wp (m \<bind> f) Q s"
  by (simp add: wp_bind wp_keeps)

text \<open>The lease is what the calls in its history made of it.\<close>

definition lease_ok :: "'d parent \<Rightarrow> bool" where
  "lease_ok p \<longleftrightarrow> (case lease_view p of (None, h) \<Rightarrow> False | (Some l, h) \<Rightarrow> lease_run h l)"

text \<open>A zeroed lease has no history; its first call is \<open>control_lease_start\<close>.\<close>

definition lease_ready :: "'d parent \<Rightarrow> bool" where
  "lease_ready p \<longleftrightarrow> the_lease p \<noteq> None \<and> (lease_history (sys_log p) = [] \<or> lease_ok p)"

lemma lease_okE:
  assumes "lease_ok p"
  obtains l where "the_lease p = Some l" and "lease_run (lease_history (sys_log p)) l"
  using assms by (auto simp: lease_ok_def lease_view_def split: option.splits)

lemma lease_okI:
  "the_lease p = Some l \<Longrightarrow> lease_run (lease_history (sys_log p)) l \<Longrightarrow> lease_ok p"
  by (simp add: lease_ok_def lease_view_def)

lemma ok_ready: "lease_ok p \<Longrightarrow> lease_ready p"
  by (auto simp: lease_ready_def elim!: lease_okE)

lemma ok_same: "lease_view p' = lease_view p \<Longrightarrow> lease_ok p' = lease_ok p"
  by (simp add: lease_ok_def)

lemma ready_same: "lease_view p' = lease_view p \<Longrightarrow> lease_ready p' = lease_ready p"
  by (auto simp: lease_ready_def lease_ok_def lease_view_def)

text \<open>Each call on the lease extends its history by a step.\<close>

lemma wp_on_lease:
  assumes "lease_ok p" and "\<And>l b l'. f (Some l) = (b, Some l') \<Longrightarrow> lease_step l c b l'"
    and "\<And>l. snd (f (Some l)) \<noteq> None"
  shows "wp (on_lease f c) (\<lambda>b p'. lease_ok p' \<and> lease_history (sys_log p') = (c, b) # lease_history (sys_log p) \<and>
    (\<exists>l l'. the_lease p = Some l \<and> the_lease p' = Some l' \<and> lease_step l c b l')) p"
proof -
  obtain l where l: "the_lease p = Some l" "lease_run (lease_history (sys_log p)) l"
    using assms(1) by (rule lease_okE)
  obtain b l' where f: "f (Some l) = (b, Some l')" using assms(3)[of l] by (metis not_Some_eq prod.collapse)
  show ?thesis
    using l f assms(2)[OF f] lease_run.further[OF l(2) assms(2)[OF f]]
    by (auto simp: on_lease_def wp_State intro: lease_okI)
qed

lemma void_ok:
  assumes "lease_ok p" and "\<And>l l'. f (Some l) = Some l' \<Longrightarrow> lease_step l c True l'"
    and "\<And>l. f (Some l) \<noteq> None"
  shows "wp (on_lease_void f c) (\<lambda>_. lease_ok) p"
  unfolding on_lease_void_def wp_bind wp_return
  by (rule wp_mono[OF wp_on_lease[OF assms(1)]]) (use assms(2,3) in auto)

lemma sample_some: "control_lease_sample (Some l) r s t \<noteq> None"
  by (simp add: control_lease_sample_def)

lemma start_some: "control_lease_start (Some l) intent r s t \<noteq> None"
  by (simp add: control_lease_start_def)

lemmas lease_somes = sample_some start_some control_lease_recovery_started_def
  control_lease_sleep_def control_lease_owner_lost_def

lemma sample_ok: "lease_ok p \<Longrightarrow>
    wp (on_lease_void (\<lambda>l. control_lease_sample l r s t) (Sample (r, s, t))) (\<lambda>_. lease_ok) p"
  by (rule void_ok) (auto simp: lease_somes intro: lease_step.intros)

lemma sleep_ok: "lease_ok p \<Longrightarrow> wp (on_lease_void control_lease_sleep Sleep) (\<lambda>_. lease_ok) p"
  by (rule void_ok) (auto intro: lease_step.intros simp: control_lease_sleep_def)

lemma owner_lost_ok: "lease_ok p \<Longrightarrow> wp (owner_lost owner) (\<lambda>_. lease_ok) p"
  unfolding owner_lost_def
  by (rule void_ok) (auto intro: lease_step.intros simp: control_lease_owner_lost_def)

lemma recovery_ok: "lease_ok p \<Longrightarrow>
    wp (on_lease_void (\<lambda>l. control_lease_recovery_started l r s t) (RecoveryStarted (r, s, t)))
      (\<lambda>_. lease_ok) p"
  by (rule void_ok) (auto intro: lease_step.intros simp: control_lease_recovery_started_def)

lemma start_ok:
  assumes "lease_ready p"
  shows "wp (on_lease_void (\<lambda>l. control_lease_start l intent r s t) (Start intent (r, s, t)))
      (\<lambda>_. lease_ok) p"
proof (cases "lease_ok p")
  case True
  then show ?thesis by (rule void_ok) (auto intro: lease_step.intros simp: start_some)
next
  case False
  with assms obtain l where l: "the_lease p = Some l" "lease_history (sys_log p) = []"
    by (auto simp: lease_ready_def)
  obtain l' where l': "control_lease_start (Some l) intent r s t = Some l'" using start_some by blast
  from lease_run.first[OF l'] l l' show ?thesis
    by (simp add: on_lease_void_def on_lease_def wp_bind wp_return wp_State lease_ok_def lease_view_def)
qed

section \<open>The lease through the phases\<close>

text \<open>Before the first observation of a fresh baseline the lease may still be zeroed.\<close>

definition lease_for :: "bool \<Rightarrow> 'd parent \<Rightarrow> bool" where
  "lease_for begun p \<longleftrightarrow> (if begun then lease_ok p else lease_ready p)"

lemma for_ready: "lease_for begun p \<Longrightarrow> lease_ready p"
  by (auto simp: lease_for_def ok_ready split: if_splits)

lemma for_weaken: "lease_for begun p \<Longrightarrow> (begun' \<Longrightarrow> begun) \<Longrightarrow> lease_for begun' p"
  by (auto simp: lease_for_def ok_ready split: if_splits)

lemma for_ok: "lease_ok p \<Longrightarrow> lease_for begun p"
  by (auto simp: lease_for_def ok_ready)

lemma for_same: "lease_view p' = lease_view p \<Longrightarrow> lease_for begun p \<Longrightarrow> lease_for begun p'"
  using ok_same[of p' p] ready_same[of p' p] by (simp add: lease_for_def split: if_split_asm)

lemma for_keeps:
  "keeps lease_view m \<Longrightarrow> lease_for begun s \<Longrightarrow> (\<And>r s'. lease_for begun s' \<Longrightarrow> Q r s') \<Longrightarrow> wp m Q s"
  by (erule wp_keeps) (blast intro: for_same)

lemma for_bind:
  "keeps lease_view m \<Longrightarrow> lease_for begun s \<Longrightarrow> (\<And>r s'. lease_for begun s' \<Longrightarrow> wp (f r) Q s') \<Longrightarrow>
   wp (m \<bind> f) Q s"
  by (rule wp_bindI) (rule for_keeps)

lemma wp_get_lease [wp_simps]: "wp get_lease Q s = Q (the_lease s) s"
  by (simp add: get_lease_def wp_State)

lemma feed_lease:
  assumes "lease_for (recovering \<or> 0 < taken) p"
  shows "wp (feed_observation observation taken recovering) (\<lambda>_. lease_ok) p"
  using assms unfolding feed_observation_def Let_def
  by (auto simp: lease_for_def word_gt_0 intro!: wp_intros intro: recovery_ok start_ok sample_ok
      split: if_splits)

lemma accept_lease:
  assumes "lease_for (recovering \<or> 0 < taken) p"
  shows "wp (accept_observation observation launched received taken recovering)
    (\<lambda>good. lease_for (recovering \<or> 0 < taken \<or> good)) p"
proof -
  have "wp (do { feed_observation observation taken recovering; lease \<leftarrow> get_lease; ret (done lease) })
    (\<lambda>good. lease_for (recovering \<or> 0 < taken \<or> good)) p" for "done"
    unfolding wp_bind wp_get_lease wp_return
    by (rule wp_mono[OF feed_lease[OF assms]]) (rule for_ok)
  then show ?thesis
    unfolding accept_observation_def wp_bind[of get_lease] wp_get_lease
    using assms by (intro wp_ifI wp_returnI) simp_all
qed

lemma input_lease:
  assumes "lease_for (recovering \<or> 0 < accepted_samples s) p"
  shows "wp (observer_input os abi input launched recovering wanted s)
    (\<lambda>step p'. case step of Leave \<Rightarrow> lease_for recovering p'
       | Continue s' \<Rightarrow> lease_for (recovering \<or> 0 < accepted_samples s') p'
       | Proceed s' \<Rightarrow> lease_for (recovering \<or> 0 < accepted_samples s') p') p"
  unfolding observer_input_def
proof (rule for_bind[OF lv.in_system assms], goal_cases)
  case (1 chunk p1)
  have left: "lease_for recovering p1" using 1 by (rule for_weaken) simp
  show ?case
  proof (rule wp_case_sumI, goal_cases)
    case (1 e)
    then show ?case using \<open>lease_for (recovering \<or> 0 < accepted_samples s) p1\<close> left
      by (auto simp: wp_return)
  next
    case (2 bytes)
    note at = \<open>lease_for (recovering \<or> 0 < accepted_samples s) p1\<close>
    have late: "wp (do {
        received \<leftarrow> sup_now os;
        good \<leftarrow> accept_observation obs launched received (accepted_samples s) recovering;
        if \<not> good then ret Leave
        else do { keep_latest wanted obs; ret (Continue (s' obs)) }
      }) (\<lambda>step p'. case step of Leave \<Rightarrow> lease_for recovering p'
       | Continue s' \<Rightarrow> lease_for (recovering \<or> 0 < accepted_samples s') p'
       | Proceed s' \<Rightarrow> lease_for (recovering \<or> 0 < accepted_samples s') p') p1" for obs s'
    proof (rule for_bind[OF lv.clock(1) at], rule wp_bindI, rule wp_mono[OF accept_lease], assumption, goal_cases)
      case (1 received p2 good p3)
      show ?case
      proof (cases good)
        case False
        have "lease_for recovering p3" using 1(2) by (rule for_weaken) simp
        with False show ?thesis by (simp add: wp_return)
      next
        case True
        with 1(2) have "lease_for True p3" by simp
        then have "wp (do { keep_latest wanted obs; ret (Continue (s' obs)) })
          (\<lambda>step p'. case step of Leave \<Rightarrow> lease_for recovering p'
             | Continue s' \<Rightarrow> lease_for (recovering \<or> 0 < accepted_samples s') p'
             | Proceed s' \<Rightarrow> lease_for (recovering \<or> 0 < accepted_samples s') p') p3"
          by (rule for_bind[OF lv.keep_latest]) (auto simp: wp_return intro: for_weaken)
        with True show ?thesis by simp
      qed
    qed
    show ?case
      unfolding Let_def using at left late
      by (intro wp_ifI wp_returnI) simp_all
  qed
qed

text \<open>What a verified observation leaves in the lease.\<close>

definition verified_lease :: "bool \<Rightarrow> bool \<Rightarrow> 'd parent \<Rightarrow> bool" where
  "verified_lease recovering verified p \<longleftrightarrow>
     lease_for (recovering \<or> verified) p \<and>
     (verified \<longrightarrow> (\<exists>l. the_lease p = Some l \<and> lease_state l = CONTROL_LEASE_STABLE \<and>
        recovery_verified l = recovering))"

lemma verified_same:
  "lease_view p' = lease_view p \<Longrightarrow> verified_lease recovering verified p \<Longrightarrow>
   verified_lease recovering verified p'"
  using for_same[of p' p] by (simp add: verified_lease_def lease_view_def)

lemma verified_bind:
  "keeps lease_view m \<Longrightarrow> verified_lease recovering v s \<Longrightarrow>
   (\<And>r s'. verified_lease recovering v s' \<Longrightarrow> wp (f r) Q s') \<Longrightarrow> wp (m \<bind> f) Q s"
  by (rule view_keeps_wp, assumption) (metis verified_same)

lemma unverified: "lease_for (recovering \<or> b) p \<Longrightarrow> verified_lease recovering False p"
  by (auto simp: verified_lease_def intro: for_weaken)

lemma leave_lease:
  "lease_for recovering p \<Longrightarrow>
   wp (leave_observer os child reap_limit s report) (\<lambda>(v, r). verified_lease recovering v) p"
  unfolding leave_observer_def
  by (intro wp_ifI wp_returnI for_bind[OF lv.stop_and_reap] wp_case_prodI) (auto intro: unverified[of _ False])

lemma all_lease:
  assumes "lease_for (recovering \<or> 0 < accepted_samples s) p"
  shows "wp (observed_all recovering s) (\<lambda>v. verified_lease recovering v) p"
proof -
  have "0 < accepted_samples s" if "accepted_samples s = CONTROL_LEASE_REQUIRED_SAMPLES"
    using that by (simp add: CONTROL_LEASE_REQUIRED_SAMPLES_def)
  moreover obtain l where "the_lease p = Some l"
    using for_ready[OF assms] by (auto simp: lease_ready_def)
  ultimately show ?thesis
    using assms
    by (auto simp: observed_all_def wp_simps verified_lease_def intro: for_weaken)
qed

lemma exit_samples:
  "wp (observer_exit os child s report)
     (\<lambda>o' p'. lease_for (recovering \<or> 0 < accepted_samples s) p' \<and>
       (\<forall>s' r'. o' = Some (s', r') \<longrightarrow> accepted_samples s' = accepted_samples s)) p"
  if "lease_for (recovering \<or> 0 < accepted_samples s) p"
  unfolding observer_exit_def
proof (rule wp_ifI)
  show "wp (do { waited \<leftarrow> wait_child os child;
      ret (case waited of
             Reaped status \<Rightarrow> Some (s\<lparr>was_reaped := True,
               exited_ok := (classify_exit status = WORKER_EXITED)\<rparr>, count_reaped report)
           | WaitFailed e \<Rightarrow> if e \<noteq> EINTR then None else Some (s, report)
           | StillRunning \<Rightarrow> Some (s, report)) })
    (\<lambda>o' p'. lease_for (recovering \<or> 0 < accepted_samples s) p' \<and>
       (\<forall>s' r'. o' = Some (s', r') \<longrightarrow> accepted_samples s' = accepted_samples s)) p"
    by (rule for_bind[OF lv.wait_child that]) (auto simp: wp_return split: wait_result.split)
qed (use that in \<open>simp add: wp_return\<close>)

lemma supervise_lease:
  assumes "lease_for (recovering \<or> 0 < accepted_samples s) p"
  shows "wp (supervise_from os abi backend fuel input child launched deadline reap_limit recovering wanted
     s report) (\<lambda>(v, r). verified_lease recovering v) p"
  using assms
proof (induction fuel arbitrary: s report p)
  case 0
  have "keeps lease_view (note_sys Ran_out)" by (intro keeps_intros) simp
  then show ?case
    unfolding supervise_from.simps
    by (rule for_bind[OF _ 0]) (auto simp: wp_return intro: unverified)
next
  case (Suc fuel)
  have left: "lease_for recovering p'" if "lease_for (recovering \<or> b) p'" for b p'
    using that by (rule for_weaken) simp
  show ?case
    unfolding supervise_from.simps
  proof (rule for_bind[OF lv.clock(2) Suc.prems], rule for_bind[OF lv.clock(1)], assumption,
      rule wp_ifI, goal_cases)
    case 1
    then show ?case by (intro leave_lease left)
  next
    case (2 _ p1 now p2)
    show ?case
    proof (rule wp_bindI, rule wp_mono[where Q = "\<lambda>step p'. case step of Leave \<Rightarrow> lease_for recovering p'
       | Continue s' \<Rightarrow> lease_for (recovering \<or> 0 < accepted_samples s') p'
       | Proceed s' \<Rightarrow> lease_for (recovering \<or> 0 < accepted_samples s') p'"], goal_cases)
      case 1
      show ?case using 2 by (auto intro!: wp_ifI input_lease simp: wp_return)
    next
      case (2 step p3)
      show ?case
      proof (cases step)
        case Leave
        with 2 show ?thesis by (simp add: leave_lease)
      next
        case (Continue s')
        with 2 show ?thesis by (simp add: Suc.IH)
      next
        case (Proceed s')
        with 2 have at: "lease_for (recovering \<or> 0 < accepted_samples s') p3" by simp
        show ?thesis
          unfolding Proceed loop_step.case
        proof (rule wp_bindI, rule wp_mono[OF exit_samples[OF at]], rule wp_case_optionI, goal_cases)
          case (1 waited p4)
          then show ?case by (auto simp: wp_return intro: unverified)
        next
          case (2 waited p4 x)
          then obtain s'' r'' where x: "x = (s'', r'')" "accepted_samples s'' = accepted_samples s'"
            and p4: "lease_for (recovering \<or> 0 < accepted_samples s'') p4"
            by (cases x) auto
          show ?case
            unfolding x(1) prod.case
          proof (rule wp_ifI)
            show "wp (do { verified \<leftarrow> observed_all recovering s''; ret (verified, r'') })
               (\<lambda>(v, r). verified_lease recovering v) p4"
              by (rule wp_bindI, rule wp_mono[OF all_lease[OF p4]]) (simp add: wp_return)
          qed (rule for_bind[OF lv.clock(4) p4], rule Suc.IH)
        qed
      qed
    qed
  qed
qed

lemma observe_lease:
  assumes "lease_for recovering p"
  shows "wp (observe_owned os abi backend directory_fd limits report recovering wanted)
     (\<lambda>(v, r). verified_lease recovering v) p"
  unfolding observe_owned_def
proof (rule for_bind[OF lv.in_system assms], rule wp_case_optionI, goal_cases)
  case (1 channel p1)
  then show ?case by (simp add: wp_return unverified[of _ False])
next
  case (2 channel p1 x)
  have fail: "wp (do { close_fd os a; close_fd os b; ret (False, report) })
      (\<lambda>(v, r). verified_lease recovering v) p'" if "lease_for recovering p'" for a b p'
    using that
    by (rule for_bind[OF lv.close]) (rule for_bind[OF lv.close], assumption,
        simp add: wp_return unverified[of _ False])
  obtain input outlet where x: "x = (input, outlet)" by (cases x)
  have watched: "wp (if 0 < child
       then supervise_observer os abi backend input child launched deadline reap_limit recovering wanted r
       else ret (False, r)) (\<lambda>(v, r). verified_lease recovering v) p'"
    if "lease_for recovering p'" for child launched deadline reap_limit r p'
    using that by (intro wp_ifI)
      (auto simp: supervise_observer_def wp_return unverified[of _ False] intro!: supervise_lease)
  show ?case
    unfolding x prod.case
  proof (rule for_bind[OF lv.in_system 2(1)], rule wp_ifI, goal_cases)
    case 1
    then show ?case by (intro fail)
  next
    case (2 _ p2)
    show ?case
    proof (rule for_bind[OF lv.clock(1) 2(1)], rule for_bind[OF lv.clock(3)], assumption,
        rule wp_case_optionI, goal_cases)
      case 1
      then show ?case by (intro fail)
    next
      case (2 launched p3 limit p4 deadline)
      show ?case
        unfolding Let_def
        apply (rule for_bind[OF view_spawn 2(2)], rule wp_case_prodI)
        apply (rule for_bind[OF lv.close], assumption, rule for_bind[OF lv.clock(6)], assumption)
        apply (rule wp_bindI, rule wp_mono[OF watched], assumption, clarsimp)
        apply (rule verified_bind[OF lv.close], assumption, rule verified_bind[OF lv.close_some], assumption)
        by (simp add: wp_return)
    qed
  qed
qed

section \<open>The marker is removed only with a proof\<close>

lemma proof_evidence:
  assumes "lease_run cs l" and "lease_step l TakeProof True l'"
  shows "observed_baseline True cs"
  using lease_run_evidence[OF assms(1)] assms(2) proof_outcome
  by (fastforce simp: take_proof_simps evidence_inv_def)

definition proved_release :: "int \<Rightarrow> sys_event list \<Rightarrow> bool" where
  "proved_release directory_fd history \<longleftrightarrow> (\<exists>before.
     history = Synced directory_fd True # Unlinked marker_name True # Called TakeProof True # before \<and>
     observed_baseline True (lease_history before))"

lemma take_ok:
  assumes "lease_ok p"
  shows "wp (on_lease control_lease_take_recovery_proof TakeProof)
    (\<lambda>b p'. lease_ok p' \<and> (b \<longrightarrow> (\<exists>before. sys_log p' = Called TakeProof True # before \<and>
       observed_baseline True (lease_history before)))) p"
proof -
  obtain l where l: "the_lease p = Some l" "lease_run (lease_history (sys_log p)) l"
    using assms by (rule lease_okE)
  have "\<exists>b l'. control_lease_take_recovery_proof (Some l) = (b, Some l')"
    by (cases "snd (control_lease_take_recovery_proof (Some l))")
      (auto simp: control_lease_take_recovery_proof_def split: if_splits)
  then obtain b l' where t: "control_lease_take_recovery_proof (Some l) = (b, Some l')" by blast
  note step = lease_step.take_proof[OF t]
  show ?thesis
    using l t lease_run.further[OF l(2) step] proof_evidence[OF l(2)] step
    by (auto simp: on_lease_def wp_State intro: lease_okI)
qed

lemma clear_ok:
  assumes "lease_ok p"
  shows "wp (control_intent_clear_verified os directory_fd)
    (\<lambda>b p'. lease_ok p' \<and> (b \<longrightarrow> proved_release directory_fd (sys_log p'))) p"
  unfolding control_intent_clear_verified_def
proof (rule for_bind[OF lv.intent_read, of True], use assms in \<open>simp add: lease_for_def\<close>, rule wp_ifI, goal_cases)
  case (1 intent p1)
  then show ?case by (simp add: wp_return lease_for_def)
next
  case (2 intent p1)
  then have "lease_ok p1" by (simp add: lease_for_def)
  from take_ok[OF this] show ?case
  proof (intro wp_bindI, rule_tac wp_mono, assumption, intro wp_ifI, goal_cases)
    case (1 b p2)
    then show ?case by (simp add: wp_return)
  next
    case (2 b p2)
    then obtain older where older: "sys_log p2 = Called TakeProof True # older"
      "observed_baseline True (lease_history older)" and ok: "lease_ok p2" by auto
    show ?case
    proof (intro wp_bindI, rule wp_logged, rule wp_ifI, goal_cases)
      case (1 r p3)
      with ok have "lease_ok p3" by (simp add: lease_ok_def lease_view_def)
      then show ?case by (simp add: wp_return)
    next
      case (2 r p3)
      with ok older show ?case
        by (intro wp_logged) (auto simp: lease_ok_def lease_view_def proved_release_def)
    qed
  qed
qed

end
