(* ===== verification/SupervisorChildren.thy ===== *)
theory SupervisorChildren
  imports SupervisorViews
begin

text \<open>
  The children through the phases of the supervisor: every child is reaped before the next is forked,
  unless the report says that one could not be stopped, and no other process is ever killed.
\<close>

definition kids :: "int set \<Rightarrow> 'd parent \<Rightarrow> bool" where
  "kids cs p \<longleftrightarrow> children (sys_log p) = cs \<and> kills_ok (sys_log p)"

lemma kids_same: "child_view p' = child_view p \<Longrightarrow> kids cs p \<Longrightarrow> kids cs p'"
  by (simp add: kids_def child_view_def)

lemma kids_keeps:
  "keeps child_view m \<Longrightarrow> kids cs s \<Longrightarrow> (\<And>r s'. kids cs s' \<Longrightarrow> Q r s') \<Longrightarrow> wp m Q s"
  by (erule wp_keeps) (blast intro: kids_same)

lemma kids_bind:
  "keeps child_view m \<Longrightarrow> kids cs s \<Longrightarrow> (\<And>r s'. kids cs s' \<Longrightarrow> wp (f r) Q s') \<Longrightarrow> wp (m \<bind> f) Q s"
  by (rule wp_bindI) (rule kids_keeps)

lemma wait_kids:
  assumes "kids cs p"
  shows "wp (wait_child os child)
    (\<lambda>w. case w of Reaped status \<Rightarrow> kids (cs - {child}) | _ \<Rightarrow> kids cs) p"
  unfolding wait_child_def
  by (rule wp_logged) (use assms in \<open>auto simp: kids_def split: wait_result.split\<close>)

text \<open>After a wait, stop or phase: the child is gone if it is reported stopped.\<close>

definition child_settled :: "int set \<Rightarrow> int \<Rightarrow> supervisor_result \<Rightarrow> bool \<Rightarrow> supervisor_report \<Rightarrow> 'd parent \<Rightarrow> bool" where
  "child_settled cs child result stopped report p \<longleftrightarrow>
     kids (if stopped then cs - {child} else cs) p \<and> sup_result report = result"

lemma child_settledI:
  "kids (cs - {child}) p \<Longrightarrow> sup_result report = result \<Longrightarrow> child_settled cs child result True report p"
  "kids cs p \<Longrightarrow> sup_result report = result \<Longrightarrow> child_settled cs child result False report p"
  by (simp_all add: child_settled_def)

lemma counted [simp]: "sup_result (count_reaped report) = sup_result report"
  by (simp add: count_reaped_def)

text \<open>A wait, and what follows it by its result.\<close>

lemma wait_bind:
  assumes "kids cs p" and "\<And>p'. kids cs p' \<Longrightarrow> wp running Q p'"
    and "\<And>status p'. kids (cs - {child}) p' \<Longrightarrow> wp (reaped status) Q p'"
    and "\<And>e p'. kids cs p' \<Longrightarrow> wp (failed e) Q p'"
  shows "wp (do { w \<leftarrow> wait_child os child;
      case w of StillRunning \<Rightarrow> running | Reaped status \<Rightarrow> reaped status | WaitFailed e \<Rightarrow> failed e }) Q p"
  by (rule wp_bindI, rule wp_mono[OF wait_kids[OF assms(1)]], rule wp_case_waitI) (simp_all add: assms(2-))

lemma reap_kids:
  assumes "kids cs p"
  shows "wp (reap_until os fuel child deadline report)
    (\<lambda>(stopped, r). child_settled cs child (sup_result report) stopped r) p"
  using assms
proof (induction fuel arbitrary: p)
  case 0
  have "keeps child_view (note_sys Ran_out)" by (intro keeps_intros) simp
  then show ?case
    unfolding reap_until.simps
    by (rule kids_bind[OF _ 0]) (simp add: wp_return child_settledI)
next
  case (Suc fuel)
  have again: "wp (do {
       now \<leftarrow> sup_now os;
       if now = 0 \<or> deadline \<le> now then ret (False, report)
       else do { pause_ns os POLL_NS; reap_until os fuel child deadline report } })
     (\<lambda>(stopped, r). child_settled cs child (sup_result report) stopped r) p'"
    if "kids cs p'" for p'
    using that
    by (rule kids_bind[OF cv.clock(1)])
      (auto simp: wp_return intro!: child_settledI wp_ifI kids_bind[OF cv.clock(4)] Suc.IH)
  show ?case
    unfolding reap_until.simps
    by (rule wait_bind[OF Suc.prems])
      (auto simp: wp_return intro!: child_settledI again wp_ifI)
qed

lemma stop_kids:
  assumes "kids cs p" and "child \<in> cs"
  shows "wp (stop_and_reap os child reap_limit report)
    (\<lambda>(stopped, r). child_settled cs child (sup_result report) stopped r) p"
proof -
  have kill: "wp (do {
       killed \<leftarrow> logged_call (sys_kill os child) (\<lambda>_. Killed child);
       if killed \<noteq> None \<and> killed \<noteq> Some ESRCH then ret (False, report)
       else reap_until os (retry_fuel os) child deadline report })
     (\<lambda>(stopped, r). child_settled cs child (sup_result report) stopped r) p'"
    if "kids cs p'" for p' deadline
  proof (rule wp_bindI, rule wp_logged, goal_cases)
    case (1 killed p2)
    with that assms(2) have "kids cs p2" by (auto simp: kids_def)
    then show ?case by (auto simp: wp_return intro!: child_settledI wp_ifI reap_kids)
  qed
  show ?thesis
    unfolding stop_and_reap_def Let_def
    apply (rule wp_ifI, simp add: wp_return child_settledI assms(1))
    apply (rule kids_bind[OF cv.clock(3) assms(1)], rule wp_case_optionI)
     apply (simp add: wp_return child_settledI)
    by (rule wait_bind, assumption) (rule kill wp_ifI | assumption | simp add: wp_return child_settledI)+
qed

lemma phase_kids:
  assumes "kids cs p" and "child \<in> cs"
  shows "wp (wait_phase os child deadline reap_limit cancel exit_kind report backend)
    (\<lambda>(stopped, e, r). child_settled cs child (sup_result report) stopped r) p"
proof -
  have "wp (wait_phase_from os fuel child deadline reap_limit cancel exit_kind report backend)
    (\<lambda>(stopped, e, r). child_settled cs child (sup_result report) stopped r) p'"
    if "kids cs p'" for fuel p'
    using that
  proof (induction fuel arbitrary: p')
    case 0
    have "keeps child_view (note_sys Ran_out)" by (intro keeps_intros) simp
    then show ?case
      unfolding wait_phase_from.simps
      by (rule kids_bind[OF _ 0]) (simp add: wp_return child_settledI)
  next
    case (Suc fuel)
    have over: "wp (do {
         was_cancelled \<leftarrow> cancelled cancel;
         (stopped, report) \<leftarrow> stop_and_reap os child reap_limit report;
         ret (stopped, kind was_cancelled, report) })
       (\<lambda>(stopped, e, r). child_settled cs child (sup_result report) stopped r) p'"
      if "kids cs p'" for p' and kind :: "bool \<Rightarrow> worker_exit"
      using that
      by (rule kids_bind[OF cv.clock(5)])
        (rule wp_bindI, rule wp_mono[OF stop_kids[OF _ assms(2)]], auto simp: wp_return)
    have again: "wp (do { pause_ns os POLL_NS;
         wait_phase_from os fuel child deadline reap_limit cancel exit_kind report backend })
       (\<lambda>(stopped, e, r). child_settled cs child (sup_result report) stopped r) p'"
      if "kids cs p'" for p'
      using that by (rule kids_bind[OF cv.clock(4)]) (rule Suc.IH)
    have late: "keeps child_view (or_else (ret b) (cancelled cancel))" for b
      by (intro keeps_intros)
    show ?case
      unfolding wait_phase_from.simps Let_def
      apply (rule kids_bind[OF cv.clock(2) Suc.prems], rule kids_bind[OF cv.clock(1)], assumption)
      apply (rule kids_bind[OF late], assumption, rule wp_ifI, rule over, assumption)
      by (rule wait_bind, assumption) (auto intro!: wp_ifI again child_settledI simp: wp_return)
  qed
  from this[OF assms(1)] show ?thesis by (simp add: wait_phase_def)
qed

lemma spawn_kids:
  assumes "kids cs p"
  shows "wp (spawn_worker os directory_fd backend role)
    (\<lambda>(child, connection). kids (if 0 < child then insert child cs else cs)) p"
proof -
  have fork: "wp (fork_worker os role) (\<lambda>child. kids (if 0 < child then insert child cs else cs)) p'"
    if "kids cs p'" for p'
    unfolding fork_worker_def by (rule wp_logged) (use that in \<open>auto simp: kids_def\<close>)
  have prepare: "keeps child_view
      (and_then (in_system (sys_set_cloexec os ours)) (in_system (sys_set_cloexec os theirs)))" for ours theirs
    by (intro keeps_intros)
  have grant: "keeps child_view (and_then (ret recorded) (logged_call m (Granted child)))"
    for recorded m child
    by (intro keeps_intros) simp
  have fail: "wp (do { close_fd os ours; ret (child, None) })
      (\<lambda>(child, connection). kids (if 0 < child then insert child cs else cs)) p'"
    if "kids (if 0 < child then insert child cs else cs) p'" for ours child p'
    using that by (rule kids_bind[OF cv.close]) (simp add: wp_return)
  show ?thesis
    unfolding spawn_worker_def
    apply (rule kids_bind[OF cv.clock(2) assms], rule kids_bind[OF cv.in_system], assumption)
    apply (rule wp_case_optionI, simp add: wp_return, rule wp_case_prodI)
    apply (rule kids_bind[OF prepare], assumption, rule wp_ifI)
     apply (rule kids_bind[OF cv.close], assumption, rule fail, simp)
    apply (rule wp_bindI, rule wp_mono[OF fork], assumption)
    apply (rule kids_bind[OF cv.close], assumption, rule wp_ifI, rule fail, assumption)
    apply (rule kids_bind[OF cv.record_worker], assumption, rule kids_bind[OF cv.clock(2)], assumption)
    apply (rule kids_bind[OF grant], assumption, rule wp_ifI, rule fail, assumption)
    by (simp add: wp_return)
qed

section \<open>The observer\<close>

text \<open>
  After a phase of its own child: either the phase reports a child that was not stopped, or the
  result is unchanged and no child is left.
\<close>

definition phase_ok :: "supervisor_result \<Rightarrow> bool \<Rightarrow> supervisor_report \<Rightarrow> 'd parent \<Rightarrow> bool" where
  "phase_ok result verified report p \<longleftrightarrow> kills_ok (sys_log p) \<and>
     (\<not> verified \<and> sup_result report = SUPERVISOR_STOP_FAILED \<or> sup_result report = result \<and> kids {} p)"

lemma phase_okI: "kids {} p \<Longrightarrow> sup_result report = result \<Longrightarrow> phase_ok result verified report p"
  by (simp add: phase_ok_def kids_def)

lemma phase_stuck: "kids cs p \<Longrightarrow> sup_result report = SUPERVISOR_STOP_FAILED \<Longrightarrow>
   phase_ok result False report p"
  by (simp add: phase_ok_def kids_def)

lemma phase_same: "child_view p' = child_view p \<Longrightarrow> phase_ok result verified report p \<Longrightarrow>
   phase_ok result verified report p'"
  by (auto simp: phase_ok_def kids_def child_view_def)

lemma phase_bind:
  "keeps child_view m \<Longrightarrow> phase_ok result verified report s \<Longrightarrow>
   (\<And>r s'. phase_ok result verified report s' \<Longrightarrow> wp (f r) Q s') \<Longrightarrow> wp (m \<bind> f) Q s"
  by (rule wp_bindI, erule wp_keeps) (metis phase_same)

lemma feed_keeps [keeps_intros]: "keeps child_view (feed_observation observation taken recovering)"
  unfolding feed_observation_def by (intro keeps_intros)

lemma accept_keeps [keeps_intros]:
  "keeps child_view (accept_observation observation launched received taken recovering)"
  unfolding accept_observation_def by (intro keeps_intros)

lemma input_keeps:
  "keeps child_view (observer_input os abi input launched recovering wanted s)"
  unfolding observer_input_def by (intro keeps_intros)

lemma input_reaped:
  "wp (observer_input os abi input launched recovering wanted s)
     (\<lambda>step p. case step of Leave \<Rightarrow> True | Continue s' \<Rightarrow> was_reaped s' = was_reaped s
        | Proceed s' \<Rightarrow> was_reaped s' = was_reaped s) p"
  unfolding observer_input_def
  by (intro wp_intros wp_any) (auto intro!: wp_any wp_intros simp: wp_simps)

definition watched :: "int \<Rightarrow> supervision \<Rightarrow> 'd parent \<Rightarrow> bool" where
  "watched child s = kids (if was_reaped s then {} else {child})"

lemma leave_kids:
  assumes "watched child s p"
  shows "wp (leave_observer os child reap_limit s report)
    (\<lambda>(v, r). phase_ok (sup_result report) v r) p"
  unfolding leave_observer_def
proof (rule wp_ifI)
  assume "\<not> was_reaped s"
  with assms have "kids {child} p" by (simp add: watched_def)
  then show "wp (do { (stopped, report) \<leftarrow> stop_and_reap os child reap_limit report;
      ret (False, if stopped then report else report\<lparr>sup_result := SUPERVISOR_STOP_FAILED\<rparr>) })
      (\<lambda>(v, r). phase_ok (sup_result report) v r) p"
    by (intro wp_bindI, rule_tac wp_mono[OF stop_kids])
      (auto simp: wp_return child_settled_def phase_okI phase_stuck[of "{child}"] split: if_split_asm)
qed (use assms in \<open>auto simp: watched_def wp_return intro: phase_okI\<close>)

lemma exit_kids:
  assumes "watched child s p"
  shows "wp (observer_exit os child s report)
    (\<lambda>w p'. case w of None \<Rightarrow> kids {child} p'
       | Some (s', r) \<Rightarrow> watched child s' p' \<and> sup_result r = sup_result report) p"
  unfolding observer_exit_def
proof (rule wp_ifI)
  assume "\<not> was_reaped s"
  with assms have "kids {child} p" by (simp add: watched_def)
  then show "wp (do { waited \<leftarrow> wait_child os child;
      ret (case waited of
             Reaped status \<Rightarrow> Some (s\<lparr>was_reaped := True,
               exited_ok := (classify_exit status = WORKER_EXITED)\<rparr>, count_reaped report)
           | WaitFailed e \<Rightarrow> if e \<noteq> EINTR then None else Some (s, report)
           | StillRunning \<Rightarrow> Some (s, report)) })
    (\<lambda>w p'. case w of None \<Rightarrow> kids {child} p'
       | Some (s', r) \<Rightarrow> watched child s' p' \<and> sup_result r = sup_result report) p"
    using \<open>\<not> was_reaped s\<close>
    by (intro wp_bindI, rule_tac wp_mono[OF wait_kids])
      (auto simp: wp_return watched_def split: wait_result.splits)
qed (use assms in \<open>simp add: wp_return\<close>)

lemma supervise_kids:
  assumes "watched child s p"
  shows "wp (supervise_from os abi backend fuel input child launched deadline reap_limit recovering wanted
     s report) (\<lambda>(v, r). phase_ok (sup_result report) v r) p"
  using assms
proof (induction fuel arbitrary: s report p)
  case 0
  have "keeps child_view (note_sys Ran_out)" by (intro keeps_intros) simp
  then show ?case
    unfolding supervise_from.simps
    by (rule kids_bind[OF _ 0[unfolded watched_def]]) (simp add: wp_return phase_stuck)
next
  case (Suc fuel)
  have keep: "watched child s' p' \<Longrightarrow> child_view p'' = child_view p' \<Longrightarrow> watched child s' p''" for s' p' p''
    by (simp add: watched_def kids_same)
  have pass: "watched child s' p' \<Longrightarrow> keeps child_view m \<Longrightarrow>
      (\<And>r p''. watched child s' p'' \<Longrightarrow> wp (f r) Q p'') \<Longrightarrow> wp (m \<bind> f) Q p'" for m f Q s' p'
    unfolding watched_def by (rule kids_bind)
  have read: "wp (if at_eof s then ret (Proceed s)
        else observer_input os abi input launched recovering wanted s)
     (\<lambda>step p''. (case step of Leave \<Rightarrow> True | Continue s' \<Rightarrow> was_reaped s' = was_reaped s
        | Proceed s' \<Rightarrow> was_reaped s' = was_reaped s) \<and> watched child s p'') p'"
    if "watched child s p'" for p'
    by (intro wp_ifI wp_conjI input_reaped wp_keeps[OF input_keeps])
      (use that in \<open>auto simp: wp_return intro: keep\<close>)
  show ?case
    unfolding supervise_from.simps
  proof (rule pass[OF Suc.prems cv.clock(2)], rule pass[OF _ cv.clock(1)], assumption, rule wp_ifI, goal_cases)
    case 1
    then show ?case by (intro leave_kids)
  next
    case (2 _ p1 now p2)
    show ?case
    proof (rule wp_bindI, rule wp_mono[OF read], rule 2, goal_cases)
      case (1 step p3)
      show ?case
      proof (cases step)
        case Leave
        with 1 show ?thesis by (simp add: leave_kids)
      next
        case (Continue s')
        with 1 show ?thesis by (auto simp: watched_def intro: Suc.IH)
      next
        case (Proceed s')
        with 1 have at: "watched child s' p3" by (simp add: watched_def)
        show ?thesis
          unfolding Proceed loop_step.case
        proof (rule wp_bindI, rule wp_mono[OF exit_kids[OF at]], rule wp_case_optionI, goal_cases)
          case (1 w p4)
          then show ?case by (simp add: wp_return phase_stuck)
        next
          case (2 w p4 x)
          then obtain s'' r'' where x: "x = (s'', r'')" and p4: "watched child s'' p4"
            and r: "sup_result r'' = sup_result report" by (cases x) auto
          have all: "keeps child_view (observed_all recovering s'')" for recovering
            unfolding observed_all_def by (intro keeps_intros)
          show ?case
            unfolding x prod.case
          proof (rule wp_ifI, goal_cases)
            case 1
            show ?case
              by (rule pass[OF p4 all]) (use 1 r in \<open>auto simp: watched_def wp_return intro: phase_okI\<close>)
          next
            case 2
            show ?case by (rule pass[OF p4 cv.clock(4)]) (rule Suc.IH[of s'' _ r'', unfolded r])
          qed
        qed
      qed
    qed
  qed
qed

lemma observe_kids:
  assumes "kids {} p"
  shows "wp (observe_owned os abi backend directory_fd limits report recovering wanted)
     (\<lambda>(v, r). phase_ok (sup_result report) v r) p"
  unfolding observe_owned_def
proof (rule kids_bind[OF cv.in_system assms], rule wp_case_optionI, goal_cases)
  case (1 channel p1)
  then show ?case by (simp add: wp_return phase_okI)
next
  case (2 channel p1 x)
  have fail: "wp (do { close_fd os a; close_fd os b; ret (False, report) })
      (\<lambda>(v, r). phase_ok (sup_result report) v r) p'" if "kids {} p'" for a b p'
    using that
    by (rule kids_bind[OF cv.close]) (rule kids_bind[OF cv.close], assumption, simp add: wp_return phase_okI)
  obtain input outlet where x: "x = (input, outlet)" by (cases x)
  have watched: "wp (if 0 < child
       then supervise_observer os abi backend input child launched deadline reap_limit recovering wanted r
       else ret (False, r)) (\<lambda>(v, r). phase_ok (sup_result report) v r) p'"
    if "kids (if 0 < child then {child} else {}) p'" "sup_result r = sup_result report"
    for child launched deadline reap_limit r p'
    using that(1)
    by (intro wp_ifI) (auto simp: supervise_observer_def that(2)[symmetric] watched_def wp_return
        intro!: phase_okI supervise_kids)
  show ?case
    unfolding x prod.case
  proof (rule kids_bind[OF cv.in_system 2(1)], rule wp_ifI, goal_cases)
    case 1
    then show ?case by (intro fail)
  next
    case (2 _ p2)
    show ?case
    proof (rule kids_bind[OF cv.clock(1) 2(1)], rule kids_bind[OF cv.clock(3)], assumption,
        rule wp_case_optionI, goal_cases)
      case 1
      then show ?case by (intro fail)
    next
      case (2 launched p3 limit p4 deadline)
      show ?case
        unfolding Let_def
        apply (rule wp_bindI, rule wp_mono[OF spawn_kids[OF 2(2)]], clarify)
        apply (rule kids_bind[OF cv.close], assumption, rule kids_bind[OF cv.clock(6)], assumption)
        apply (rule wp_bindI, rule wp_mono[OF watched], assumption, simp, clarify)
        apply (rule phase_bind[OF cv.close], assumption, rule phase_bind[OF cv.close_some], assumption)
        by (simp add: wp_return)
    qed
  qed
qed

end
