(* ===== verification/SupervisorRelease.thy ===== *)
theory SupervisorRelease
  imports SupervisorLease SupervisorChildren
begin

text \<open>
  The guarantees of the worker supervisor: what a recovered report means, what is on disk before an
  operation's child exists, and that no child is left behind or foreign process killed.
\<close>

section \<open>The result of the report\<close>

definition result_from :: "supervisor_report \<Rightarrow> supervisor_report \<Rightarrow> bool" where
  "result_from report r \<longleftrightarrow> sup_result r = sup_result report \<or> sup_result r = SUPERVISOR_STOP_FAILED"

lemma result_from_simps [simp]:
  "result_from report report" "result_from report (count_reaped report)"
  "result_from report (r\<lparr>sup_result := SUPERVISOR_STOP_FAILED\<rparr>)"
  "result_from (report\<lparr>observer_pid := pid\<rparr>) r = result_from report r"
  by (simp_all add: result_from_def)

lemma reap_result: "wp (reap_until os fuel child deadline report) (\<lambda>(b, r) p'. result_from report r) p"
proof (induction fuel arbitrary: p)
  case (Suc fuel)
  show ?case
    unfolding reap_until.simps
    by (rule wp_intros wp_case_waitI Suc.IH wp_any | simp)+
qed (simp, (rule wp_intros wp_any | simp)+)

lemma stop_result: "wp (stop_and_reap os child reap_limit report) (\<lambda>(b, r) p'. result_from report r) p"
  unfolding stop_and_reap_def
  by (rule wp_intros wp_case_waitI reap_result wp_any | simp)+

lemma leave_result: "wp (leave_observer os child reap_limit s report) (\<lambda>(b, r) p'. result_from report r) p"
  unfolding leave_observer_def
  by (rule wp_intros wp_mono[OF stop_result] | clarsimp simp: wp_return)+

lemma exit_result:
  "wp (observer_exit os child s report) (\<lambda>o' p'. \<forall>s' r. o' = Some (s', r) \<longrightarrow> result_from report r) p"
  unfolding observer_exit_def
  by (rule wp_intros wp_any | auto split: wait_result.split)+

lemma result_from_trans: "result_from a b \<Longrightarrow> result_from b c \<Longrightarrow> result_from a c"
  by (auto simp: result_from_def)

lemma supervise_result:
  "wp (supervise_from os abi backend fuel input child launched deadline reap_limit recovering wanted s
     report) (\<lambda>(b, r) p'. result_from report r) p"
proof (induction fuel arbitrary: s report p)
  case (Suc fuel)
  have later: "wp (supervise_from os abi backend fuel input child launched deadline reap_limit recovering
      wanted s' r') (\<lambda>(b, r) p'. result_from report r) p'" if "result_from report r'" for s' r' p'
    by (rule wp_mono[OF Suc.IH]) (use that result_from_trans in blast)
  show ?case
    unfolding supervise_from.simps
    apply (rule wp_bindI, rule wp_any, rule wp_bindI, rule wp_any, rule wp_ifI, rule leave_result)
    apply (rule wp_bindI, rule wp_any, rule wp_case_loopI, rule leave_result, rule Suc.IH)
    apply (rule wp_bindI, rule wp_mono[OF exit_result], rule wp_case_optionI, simp add: wp_return)
    apply (rule wp_case_prodI, rule wp_ifI, rule wp_bindI, rule wp_any, simp add: wp_return)
    by (rule wp_bindI, rule wp_any, rule later) simp
qed (simp, (rule wp_intros wp_any | simp)+)

lemma observe_result:
  "wp (observe_owned os abi backend directory_fd limits report recovering wanted)
     (\<lambda>(b, r) p'. result_from report r) p"
proof -
  have watched: "wp (if 0 < child
       then supervise_observer os abi backend input child launched deadline reap_limit recovering wanted
              (report\<lparr>observer_pid := child\<rparr>)
       else ret (False, report\<lparr>observer_pid := child\<rparr>))
     (\<lambda>(b, r) p'. result_from report r) p'" for child input launched deadline reap_limit p'
    using supervise_result[where report = "report\<lparr>observer_pid := child\<rparr>"]
    by (auto simp: supervise_observer_def wp_return result_from_def intro: wp_ifI)
  show ?thesis
    unfolding observe_owned_def Let_def
    by (rule wp_returnI wp_ifI wp_case_optionI wp_case_prodI wp_bindI wp_mono[OF watched] wp_any | clarsimp)+
qed

lemma phase_result:
  "wp (wait_phase os child deadline reap_limit cancel exit_kind report backend)
     (\<lambda>(b, e, r) p'. result_from report r) p"
proof -
  have "wp (wait_phase_from os fuel child deadline reap_limit cancel exit_kind report backend)
     (\<lambda>(b, e, r) p'. result_from report r) p" for fuel p
  proof (induction fuel arbitrary: p)
    case (Suc fuel)
    show ?case
      unfolding wait_phase_from.simps
      by (rule wp_returnI wp_ifI wp_case_prodI wp_letI wp_bindI wp_case_waitI Suc.IH
          wp_mono[OF stop_result] wp_any | clarsimp)+
  qed (simp, (rule wp_intros wp_any | simp)+)
  then show ?thesis by (simp add: wait_phase_def)
qed

section \<open>A recovered report\<close>

lemma recover_lease:
  assumes "lease_ok p"
  shows "wp (recover_owned os abi backend directory_fd limits report)
    (\<lambda>r p'. lease_ok p' \<and> (sup_result r = SUPERVISOR_RECOVERED \<longrightarrow> proved_release directory_fd (sys_log p'))) p"
proof -
  have at: "lease_for True p" using assms by (simp add: lease_for_def)
  have final: "wp (do {
      (verified, report) \<leftarrow> observe_owned os abi backend directory_fd limits
        (r\<lparr>sup_result := SUPERVISOR_OBSERVATION_FAILED\<rparr>) True False;
      parent_check backend;
      cleared \<leftarrow> and_then (ret verified) (control_intent_clear_verified os directory_fd);
      if cleared then ret (report\<lparr>sup_result := SUPERVISOR_RECOVERED\<rparr>)
      else do { on_lease_void control_lease_sleep Sleep; ret report } })
    (\<lambda>r p'. lease_ok p' \<and> (sup_result r = SUPERVISOR_RECOVERED \<longrightarrow> proved_release directory_fd (sys_log p'))) p'"
    if "lease_for True p'" for r p'
  proof (rule wp_bindI, rule wp_mono[OF wp_conjI[OF observe_lease[OF that] observe_result]], clarify, goal_cases)
    case (1 verified r1 p1)
    have "lease_for True p1" using 1(1) by (simp add: verified_lease_def)
    then show ?case
    proof (rule for_bind[OF lv.clock(2)], goal_cases)
      case (1 _ p2)
      then have "lease_ok p2" by (simp add: lease_for_def)
      then have cleared: "wp (and_then (ret verified) (control_intent_clear_verified os directory_fd))
          (\<lambda>b p'. lease_ok p' \<and> (b \<longrightarrow> proved_release directory_fd (sys_log p'))) p2"
        by (cases verified) (simp_all add: wp_and_then wp_return clear_ok)
      have failed: "sup_result r1 \<noteq> SUPERVISOR_RECOVERED"
        using \<open>result_from (r\<lparr>sup_result := SUPERVISOR_OBSERVATION_FAILED\<rparr>) r1\<close>
        by (auto simp: result_from_def)
      show ?case
        by (rule wp_bindI, rule wp_mono[OF cleared], rule wp_ifI, simp add: wp_return)
          (rule wp_bindI, rule wp_mono[OF sleep_ok], simp, simp add: wp_return failed)
    qed
  qed
  have for_wait: "wp (wait_phase os child deadline reap_limit cancel e r backend)
      (\<lambda>_. lease_for True) p'" if "lease_for True p'" for child deadline reap_limit cancel e r p'
    using that by (rule for_keeps[OF lv.wait_phase])
  show ?thesis
    unfolding recover_owned_def Let_def
    apply (rule for_bind[OF lv.clock(3) at], rule wp_case_optionI, simp add: wp_return lease_for_def)
    apply (rule for_bind[OF view_spawn], assumption, rule wp_case_prodI, rule wp_ifI)
     apply (simp add: wp_return lease_for_def)
    apply (rule wp_bindI, rule wp_mono[OF wp_conjI[OF for_wait phase_result]], assumption, clarify)
    apply (rule for_bind[OF lv.close_some], assumption, rule wp_ifI)
     apply (simp add: wp_return lease_for_def)
    apply (rule wp_ifI, force simp: wp_return lease_for_def result_from_def)
    by (rule final)
qed

text \<open>What the entry points conclude, once ownership is released.\<close>

definition released :: "int \<Rightarrow> supervisor_report \<Rightarrow> 'd parent \<Rightarrow> bool" where
  "released directory_fd report p \<longleftrightarrow> (sup_result report = SUPERVISOR_RECOVERED \<longrightarrow>
     (\<exists>lock b older. sys_log p = Closed_fd lock b # older \<and> proved_release directory_fd older))"

lemma close_releases:
  assumes "sup_result r = SUPERVISOR_RECOVERED \<longrightarrow> proved_release directory_fd (sys_log p)"
  shows "wp (do { close_fd os lock; ret r }) (\<lambda>r. released directory_fd r) p"
  unfolding close_fd_def
  by (rule wp_bindI, rule wp_bindI, rule wp_logged)
    (use assms in \<open>auto simp: wp_return released_def\<close>)

lemma blocked_released: "wp (ret blocked_report) (\<lambda>r. released directory_fd r) p"
  by (simp add: wp_return released_def blocked_report_def)

lemma mark_ok:
  assumes "lease_ok p"
  shows "wp (control_intent_mark_pending os directory_fd) (\<lambda>_. lease_ok) p"
  unfolding control_intent_mark_pending_def
proof (rule wp_bindI, rule wp_mono[OF wp_on_lease[OF assms]], goal_cases)
  case (1 l b l')
  then show ?case by (rule lease_step.prepare)
next
  case (2 l)
  then show ?case by (simp add: control_lease_prepare_persistent_intent_def)
next
  case (3 prepared p1)
  then have "lease_for True p1" by (simp add: lease_for_def)
  then show ?case
  proof (rule for_keeps[rotated], goal_cases)
    case (2)
    show ?case unfolding write_all_def by (intro keeps_intros) auto
  qed (simp add: lease_for_def)
qed

lemma pending_ok:
  assumes "lease_ok p"
  shows "wp (on_lease (\<lambda>l. control_lease_mark_write_pending l owner now intent) (MarkPending owner now intent))
    (\<lambda>_. lease_ok) p"
  by (rule wp_mono[OF wp_on_lease[OF assms]])
    (auto intro: lease_step.mark_pending simp: control_lease_mark_write_pending_def)

lemma operation_keeps: "keeps lease_view (run_operation os backend directory_fd limits cancel report)"
  unfolding run_operation_def by (intro keeps_intros)

lemma run_lease:
  assumes "lease_ok p"
  shows "wp (run_owned os abi backend directory_fd limits cancel)
    (\<lambda>r p'. sup_result r = SUPERVISOR_RECOVERED \<longrightarrow> proved_release directory_fd (sys_log p')) p"
proof -
  have at: "lease_for True p" using assms by (simp add: lease_for_def)
  have marked: "wp (and_then (control_intent_mark_pending os directory_fd) (do {
       now \<leftarrow> sup_now os;
       on_lease (\<lambda>l. control_lease_mark_write_pending l owner now CONTROL_INTENT_PENDING)
         (MarkPending owner now CONTROL_INTENT_PENDING) })) (\<lambda>_. lease_ok) p'"
    if "lease_for True p'" for owner p'
    unfolding wp_and_then
  proof (rule wp_mono[OF mark_ok], goal_cases)
    case (2 b p2)
    then have "lease_for True p2" by (simp add: lease_for_def)
    with 2 show ?case
      by (intro if_boolI for_bind[OF lv.clock(1)]) (auto simp: lease_for_def intro: pending_ok)
  qed (use that in \<open>simp add: lease_for_def\<close>)
  have lost: "wp (do { owner_lost owner; ret r })
      (\<lambda>r p'. sup_result r = SUPERVISOR_RECOVERED \<longrightarrow> proved_release directory_fd (sys_log p')) p'"
    if "sup_result r \<noteq> SUPERVISOR_RECOVERED" for owner r p'
    by (rule wp_bindI, rule wp_any) (simp add: wp_return that)
  have later: "wp (do { owner_lost owner;
        if \<not> stopped then ret (r\<lparr>sup_result := SUPERVISOR_STOP_FAILED\<rparr>)
        else recover_owned os abi backend directory_fd limits r })
      (\<lambda>r p'. sup_result r = SUPERVISOR_RECOVERED \<longrightarrow> proved_release directory_fd (sys_log p')) p'"
    if "lease_for True p'" for owner stopped r p'
    by (rule wp_bindI, rule wp_mono[OF owner_lost_ok], use that in \<open>simp add: lease_for_def\<close>,
        rule wp_ifI, simp add: wp_return, rule wp_mono[OF recover_lease], assumption, simp)
  show ?thesis
    unfolding run_owned_def Let_def
    apply (rule for_bind[OF lv.get_lease at], rule for_bind[OF lv.clock(2)], assumption)
    apply (rule wp_bindI, rule wp_mono[OF marked], assumption, rule wp_ifI)
     apply (rule lost, simp add: blocked_report_def)
    apply (rule for_bind[OF operation_keeps, of True], simp add: lease_for_def, rule wp_case_prodI)
    by (rule later)
qed

lemma run_recovered:
  assumes "lease_ok p"
  shows "wp (worker_supervisor_run os abi directory_fd backend limits cancel) (released directory_fd) p"
proof -
  have at: "lease_for True p" using assms by (simp add: lease_for_def)
  show ?thesis
    unfolding worker_supervisor_run_def
    apply (rule for_bind[OF lv.clock(2) at], rule for_bind[OF lv.clock(1)], assumption)
    apply (rule for_bind[OF lv.get_lease], assumption)
    apply (rule for_bind, intro keeps_intros, assumption)
    apply (rule wp_ifI, rule blocked_released, rule for_bind[OF lv.acquire], assumption)
    apply (rule wp_case_optionI, rule blocked_released)
    apply (rule wp_bindI, rule wp_mono[OF run_lease], simp add: lease_for_def)
    by (rule close_releases)
qed

lemma resume_recovered:
  assumes "lease_ready p"
  shows "wp (worker_supervisor_resume os abi directory_fd backend limits) (released directory_fd) p"
proof -
  have at: "lease_for False p" using assms by (simp add: lease_for_def)
  show ?thesis
    unfolding worker_supervisor_resume_def
    apply (rule for_bind[OF lv.clock(2) at], rule for_bind[OF lv.get_lease], assumption)
    apply (rule for_bind, intro keeps_intros, assumption)
    apply (rule wp_ifI, rule blocked_released, rule for_bind[OF lv.clock(1)], assumption)
    apply (rule wp_bindI, rule wp_mono[OF start_ok], erule for_ready)
    apply (rule for_bind[OF lv.acquire, of True], simp add: lease_for_def)
    apply (rule wp_case_optionI, rule blocked_released)
    apply (rule wp_bindI, rule wp_mono[OF recover_lease], simp add: lease_for_def)
    by (rule close_releases) simp
qed

text \<open>A ready baseline: the lease in memory is stable, and its history has the whole minute.\<close>

definition baseline_proved :: "supervisor_report \<Rightarrow> 'd parent \<Rightarrow> bool" where
  "baseline_proved report p \<longleftrightarrow> (sup_result report = SUPERVISOR_BASELINE_READY \<longrightarrow>
     (\<exists>l. the_lease p = Some l \<and> lease_state l = CONTROL_LEASE_STABLE \<and>
        lease_run (lease_history (sys_log p)) l \<and> observed_baseline False (lease_history (sys_log p))))"

lemma proved_bind: "keeps lease_view m \<Longrightarrow> baseline_proved report s \<Longrightarrow>
    wp (do { m; ret report }) baseline_proved s"
  by (rule view_keeps_wp) (auto simp: wp_return baseline_proved_def lease_view_def)

lemma verified_proved: "verified_lease False True p \<Longrightarrow> baseline_proved report p"
  using lease_run_evidence
  by (auto simp: verified_lease_def lease_for_def baseline_proved_def evidence_inv_def elim!: lease_okE)

lemma not_ready: "sup_result r \<noteq> SUPERVISOR_BASELINE_READY \<Longrightarrow> baseline_proved r p"
  by (simp add: baseline_proved_def)

lemma baseline_ready:
  "wp (worker_supervisor_observe_baseline os abi directory_fd has_latest backend limits) baseline_proved p"
proof -
  have cleared: "wp clear_lease (\<lambda>_. lease_for False) p'" if "the_lease p' \<noteq> None" for p'
    using that by (simp add: clear_lease_def wp_State lease_for_def lease_ready_def)
  have blocked: "wp (ret blocked_report) baseline_proved p'" for p'
    by (simp add: wp_return not_ready blocked_report_def)
  have pass: "keeps lease_view m \<Longrightarrow> the_lease s \<noteq> None \<Longrightarrow>
      (\<And>r s'. the_lease s' \<noteq> None \<Longrightarrow> wp (f r) Q s') \<Longrightarrow> wp (m \<bind> f) Q s" for m f Q s
    by (rule view_keeps_wp, assumption) (simp add: lease_view_def)
  have admit: "wp (and_then (ret (lease \<noteq> None \<and> has_latest)) m)
      (\<lambda>b s'. b \<longrightarrow> the_lease s' \<noteq> None) p'"
    if "the_lease p' = lease" "keeps lease_view m" for lease m p'
  proof (cases "lease \<noteq> None \<and> has_latest")
    case True
    have "wp m (\<lambda>b s'. the_lease s' \<noteq> None) p'"
      by (rule wp_keeps[OF that(2)]) (use True that(1) in \<open>simp add: lease_view_def\<close>)
    then show ?thesis
      using True by (simp add: wp_and_then wp_return) (erule wp_mono, simp)
  qed (auto simp: wp_and_then wp_return)
  have finish: "wp (do {
       report \<leftarrow> (if verified then ret (r\<lparr>sup_result := SUPERVISOR_BASELINE_READY\<rparr>)
                 else do { on_lease_void control_lease_sleep Sleep; ret r });
       close_fd os lock;
       ret report }) baseline_proved p'"
    if "verified_lease False verified p'" "sup_result r \<noteq> SUPERVISOR_BASELINE_READY" for verified r lock p'
  proof (cases verified)
    case True
    with that(1) have "baseline_proved (r\<lparr>sup_result := SUPERVISOR_BASELINE_READY\<rparr>) p'"
      by (simp add: verified_proved)
    with True show ?thesis by (simp add: proved_bind[OF lv.close])
  next
    case False
    have "wp (do { close_fd os lock; ret r }) baseline_proved p''" for p''
      by (rule wp_bindI, rule wp_any) (simp add: wp_return not_ready that(2))
    with False show ?thesis by (simp, intro wp_bindI) (rule wp_any, simp)
  qed
  show ?thesis
    unfolding worker_supervisor_observe_baseline_def
    apply (rule wp_bindI, rule wp_any, rule wp_bindI, unfold wp_get_lease)
    apply (rule wp_bindI, rule wp_mono[OF admit], rule refl, (intro keeps_intros)[1])
    apply (rule wp_ifI, rule blocked, rule pass[OF lv.acquire], simp)
    apply (rule wp_case_optionI, rule blocked)
    apply (rule wp_bindI, rule wp_mono[OF cleared], assumption)
    apply (rule wp_bindI, rule wp_mono[OF wp_conjI[OF observe_lease observe_result]], assumption)
    apply (rule wp_case_prodI, rule finish)
    by (auto simp: result_from_def blocked_report_def)
qed

end
