(* ===== verification/SupervisorSweep.thy ===== *)
theory SupervisorSweep
  imports SupervisorChildren
begin

text \<open>
  The children over the entry points of the supervisor: on return no child is left, unless the report
  says that one could not be stopped.
\<close>

definition swept :: "supervisor_report \<Rightarrow> 'd parent \<Rightarrow> bool" where
  "swept report p \<longleftrightarrow> kills_ok (sys_log p) \<and>
     (sup_result report = SUPERVISOR_STOP_FAILED \<or> children (sys_log p) = {})"

lemma sweptI: "kids {} p \<Longrightarrow> swept report p"
  by (simp add: swept_def kids_def)

lemma swept_stuck: "kids cs p \<Longrightarrow> sup_result report = SUPERVISOR_STOP_FAILED \<Longrightarrow> swept report p"
  by (simp add: swept_def kids_def)

lemma phase_swept: "phase_ok result verified report p \<Longrightarrow> swept report p"
  by (auto simp: phase_ok_def swept_def kids_def)

lemma swept_same: "child_view p' = child_view p \<Longrightarrow> swept report p \<Longrightarrow> swept report p'"
  by (auto simp: swept_def child_view_def)

lemma swept_bind:
  "keeps child_view m \<Longrightarrow> swept report s \<Longrightarrow> (\<And>r s'. swept report s' \<Longrightarrow> wp (f r) Q s') \<Longrightarrow>
   wp (m \<bind> f) Q s"
  by (rule wp_bindI, erule wp_keeps) (metis swept_same)

lemma clear_keeps [keeps_intros]: "keeps child_view (control_intent_clear_verified os directory_fd)"
  unfolding control_intent_clear_verified_def by (intro keeps_intros) auto

lemma mark_keeps [keeps_intros]: "keeps child_view (control_intent_mark_pending os directory_fd)"
  unfolding control_intent_mark_pending_def write_all_def by (intro keeps_intros) auto

lemma lost_keeps [keeps_intros]: "keeps child_view (owner_lost owner)"
  unfolding owner_lost_def by (intro keeps_intros)

text \<open>The wait for a child that is the only one.\<close>

lemma only_child:
  assumes "kids {child} p"
  shows "wp (wait_phase os child deadline reap_limit cancel exit_kind report backend)
    (\<lambda>(stopped, e, r) p'. kids (if stopped then {} else {child}) p') p"
  by (rule wp_mono[OF phase_kids[OF assms]]) (auto simp: child_settled_def)

lemma recover_kids:
  assumes "kids {} p"
  shows "wp (recover_owned os abi backend directory_fd limits report) swept p"
proof -
  have final: "wp (do {
      (verified, report) \<leftarrow> observe_owned os abi backend directory_fd limits r True False;
      parent_check backend;
      cleared \<leftarrow> and_then (ret verified) (control_intent_clear_verified os directory_fd);
      if cleared then ret (report\<lparr>sup_result := SUPERVISOR_RECOVERED\<rparr>)
      else do { on_lease_void control_lease_sleep Sleep; ret report } }) swept p'"
    if "kids {} p'" for r p'
  proof (rule wp_bindI, rule wp_mono[OF observe_kids[OF that]], rule wp_case_prodI, goal_cases)
    case (1 x p1 verified r1)
    then have at: "phase_ok (sup_result r) verified r1 p1" by simp
    show ?case
    proof (rule phase_bind[OF cv.clock(2) at], goal_cases)
      case (1 _ p2)
      show ?case
      proof (cases verified)
        case True
        with 1 have none: "kids {} p2" by (simp add: phase_ok_def)
        have "keeps child_view
            (and_then (ret verified) (control_intent_clear_verified os directory_fd))"
          by (intro keeps_intros)
        then show ?thesis
          by (rule kids_bind[OF _ none])
            (auto intro!: wp_ifI kids_bind[OF child_called_void] simp: wp_return sweptI)
      next
        case False
        from 1 have "swept r1 p2" by (rule phase_swept)
        then have "wp (do { on_lease_void control_lease_sleep Sleep; ret r1 }) swept p2"
          by (rule swept_bind[OF child_called_void]) (simp add: wp_return)
        with False show ?thesis by (simp add: wp_bind wp_and_then wp_return)
      qed
    qed
  qed
  show ?thesis
    unfolding recover_owned_def Let_def
    apply (rule kids_bind[OF cv.clock(3) assms], rule wp_case_optionI, simp add: wp_return sweptI)
    apply (rule wp_bindI, rule wp_mono[OF spawn_kids], assumption)
    apply (rule wp_case_prodI, rule wp_ifI, force simp: wp_return intro: sweptI)
    apply (rule wp_bindI, rule wp_mono[OF only_child], force)
    apply (rule wp_case_prodI, rule wp_case_prodI, clarify)
    apply (rule kids_bind[OF cv.close_some], assumption, rule wp_ifI)
     apply (simp add: wp_return, erule swept_stuck, simp)
    apply (rule wp_ifI, simp add: wp_return sweptI)
    by (rule final) simp
qed

lemma operation_kids:
  assumes "kids {} p"
  shows "wp (run_operation os backend directory_fd limits cancel report)
    (\<lambda>(stopped, r) p'. if stopped then kids {} p' else \<exists>child. kids {child} p') p"
proof -
  have waited: "wp (if child \<le> 0 then ret (True, r)
      else do {
        (stopped, exit_kind, r) \<leftarrow> wait_phase os child deadline reap_limit cancel e r backend;
        ret (stopped, r\<lparr>operation_exit := exit_kind\<rparr>) })
    (\<lambda>(stopped, r) p'. if stopped then kids {} p' else \<exists>child. kids {child} p') p'"
    if "kids (if 0 < child then {child} else {}) p'" for child deadline reap_limit e r p'
    apply (rule wp_ifI, use that in \<open>simp add: wp_return\<close>)
    apply (rule wp_bindI, rule wp_mono[OF only_child], use that in force)
    by (auto simp: wp_return split: if_split_asm)
  have close: "wp (do { close_some os connection; ret (stopped, r) })
    (\<lambda>(stopped, r) p'. if stopped then kids {} p' else \<exists>child. kids {child} p') p'"
    if "if stopped then kids {} p' else \<exists>child. kids {child} p'"
    for connection and stopped and r :: supervisor_report and p'
    by (rule wp_bindI, rule wp_keeps[OF cv.close_some])
      (use that in \<open>auto simp: wp_return intro: kids_same split: if_split_asm\<close>)
  show ?thesis
    unfolding run_operation_def Let_def
    apply (rule kids_bind[OF cv.clock(3) assms], rule wp_case_optionI, simp add: wp_return)
    apply (rule kids_bind[OF cv.get_lease], assumption)
    apply (rule wp_bindI, rule wp_mono[OF spawn_kids], assumption, rule wp_case_prodI)
    apply (rule wp_bindI, rule wp_mono[OF waited], force)
    apply (rule wp_case_prodI, rule close)
    by auto
qed

lemma run_kids:
  assumes "kids {} p"
  shows "wp (run_owned os abi backend directory_fd limits cancel) swept p"
proof -
  have later: "wp (do { owner_lost owner;
      if \<not> stopped then ret (r\<lparr>sup_result := SUPERVISOR_STOP_FAILED\<rparr>)
      else recover_owned os abi backend directory_fd limits r }) swept p'"
    if "if stopped then kids {} p' else \<exists>child. kids {child} p'" for owner stopped r p'
  proof (cases stopped)
    case True
    with that have "kids {} p'" by simp
    with True show ?thesis by (simp add: kids_bind[OF lost_keeps] recover_kids)
  next
    case False
    with that obtain child where "kids {child} p'" by auto
    then have "wp (do { owner_lost owner; ret (r\<lparr>sup_result := SUPERVISOR_STOP_FAILED\<rparr>) }) swept p'"
      by (rule kids_bind[OF lost_keeps]) (simp add: wp_return swept_stuck)
    with False show ?thesis by simp
  qed
  show ?thesis
    unfolding run_owned_def Let_def
    apply (rule kids_bind[OF cv.get_lease assms], rule kids_bind[OF cv.clock(2)], assumption)
    apply (rule kids_bind, intro keeps_intros, assumption, rule wp_ifI)
     apply (rule kids_bind[OF lost_keeps], assumption, simp add: wp_return sweptI)
    apply (rule wp_bindI, rule wp_mono[OF operation_kids], assumption, rule wp_case_prodI)
    by (rule later) auto
qed

lemma close_swept: "swept r p \<Longrightarrow> wp (do { close_fd os lock; ret r }) swept p"
  by (rule swept_bind[OF cv.close]) (auto simp: wp_return)

lemma run_swept:
  assumes "kids {} p"
  shows "wp (worker_supervisor_run os abi directory_fd backend limits cancel) swept p"
  unfolding worker_supervisor_run_def
  apply (rule kids_bind[OF cv.clock(2) assms], rule kids_bind[OF cv.clock(1)], assumption)
  apply (rule kids_bind[OF cv.get_lease], assumption, rule kids_bind, intro keeps_intros, assumption)
  apply (rule wp_ifI, simp add: wp_return sweptI, rule kids_bind[OF cv.acquire], assumption)
  apply (rule wp_case_optionI, simp add: wp_return sweptI)
  by (rule wp_bindI, rule wp_mono[OF run_kids], assumption, rule close_swept)

lemma resume_swept:
  assumes "kids {} p"
  shows "wp (worker_supervisor_resume os abi directory_fd backend limits) swept p"
  unfolding worker_supervisor_resume_def
  apply (rule kids_bind[OF cv.clock(2) assms], rule kids_bind[OF cv.get_lease], assumption)
  apply (rule kids_bind, intro keeps_intros, assumption)
  apply (rule wp_ifI, simp add: wp_return sweptI, rule kids_bind[OF cv.clock(1)], assumption)
  apply (rule kids_bind[OF child_called_void], assumption, rule kids_bind[OF cv.acquire], assumption)
  apply (rule wp_case_optionI, simp add: wp_return sweptI)
  by (rule wp_bindI, rule wp_mono[OF recover_kids], assumption, rule close_swept)

lemma baseline_swept:
  assumes "kids {} p"
  shows "wp (worker_supervisor_observe_baseline os abi directory_fd has_latest backend limits) swept p"
proof -
  have finish: "wp (do {
       report \<leftarrow> (if verified then ret (r\<lparr>sup_result := SUPERVISOR_BASELINE_READY\<rparr>)
                 else do { on_lease_void control_lease_sleep Sleep; ret r });
       close_fd os lock;
       ret report }) swept p'"
    if "phase_ok result verified r p'" for result verified r lock p'
  proof (cases verified)
    case True
    with that have "swept (r\<lparr>sup_result := SUPERVISOR_BASELINE_READY\<rparr>) p'"
      by (intro sweptI) (simp add: phase_ok_def)
    with True show ?thesis by (simp add: close_swept)
  next
    case False
    from that have "swept r p'" by (rule phase_swept)
    then have "wp (do { on_lease_void control_lease_sleep Sleep; close_fd os lock; ret r }) swept p'"
      by (rule swept_bind[OF child_called_void]) (rule close_swept)
    with False show ?thesis by (simp add: wp_bind wp_return)
  qed
  show ?thesis
    unfolding worker_supervisor_observe_baseline_def
    apply (rule kids_bind[OF cv.clock(2) assms], rule kids_bind[OF cv.get_lease], assumption)
    apply (rule kids_bind, intro keeps_intros, assumption)
    apply (rule wp_ifI, simp add: wp_return sweptI, rule kids_bind[OF cv.acquire], assumption)
    apply (rule wp_case_optionI, simp add: wp_return sweptI)
    apply (rule kids_bind[OF child_cleared], assumption)
    apply (rule wp_bindI, rule wp_mono[OF observe_kids], assumption, rule wp_case_prodI)
    by (rule finish) auto
qed

end
