(* ===== verification/IntentDurable.thy ===== *)
theory IntentDurable
  imports SupervisorViews
begin

text \<open>
  The marker is on disk before an operation's child exists: what the log shows after
  \<open>control_intent_mark_pending\<close> succeeds, and that every fork of an operation follows it.
\<close>

section \<open>A durable marker\<close>

text \<open>The bytes that the writes of a log segment, newest first, put into a file.\<close>

fun bytes_written :: "int \<Rightarrow> sys_event list \<Rightarrow> u8 list option" where
  "bytes_written fd [] = Some []"
| "bytes_written fd (Wrote file contents (Inr n) # es) =
     (if file = fd then map_option (\<lambda>bs. bs @ take n contents) (bytes_written fd es) else None)"
| "bytes_written fd (Wrote file contents (Inl e) # es) =
     (if file = fd then bytes_written fd es else None)"
| "bytes_written fd (Ran_out # es) = bytes_written fd es"
| "bytes_written fd (e # es) = None"

definition creation_flags :: "open_flag list" where
  "creation_flags = [O_WRONLY, O_CREAT 0x180, O_EXCL, O_CLOEXEC, O_NOFOLLOW]"

definition marker_durable :: "int \<Rightarrow> sys_event list \<Rightarrow> bool" where
  "marker_durable directory_fd history \<longleftrightarrow> (\<exists>marker writes before.
     history = Synced directory_fd True # Closed_fd marker True # Synced marker True # writes @
        Opened_at marker_name creation_flags (Inr marker) # before \<and>
     bytes_written marker writes = Some (bytes_of marker_contents))"

lemma wp_logged_log:
  "(\<And>r p'. sys_log p' = e r # sys_log p \<Longrightarrow> Q r p') \<Longrightarrow> wp (logged_call m e) Q p"
  by (rule wp_logged)

lemma write_from_bytes:
  assumes "sys_log p = ws @ base"
    and "written \<le> length contents \<longrightarrow> bytes_written fd ws = Some (take written contents)"
  shows "wp (write_from os fuel fd contents written)
    (\<lambda>n p'. n = length contents \<longrightarrow>
       (\<exists>ws. sys_log p' = ws @ base \<and> bytes_written fd ws = Some contents)) p"
  using assms
proof (induction fuel arbitrary: written ws p)
  case 0
  have "sys_log (p\<lparr>sys_log := Ran_out # sys_log p\<rparr>) = (Ran_out # ws) @ base" using 0 by simp
  with 0(2) show ?case
    by (auto simp: note_sys_def wp_bind wp_State wp_return intro!: exI[of _ "Ran_out # ws"])
next
  case (Suc fuel)
  show ?case
    unfolding write_from.simps
  proof (rule wp_ifI, goal_cases)
    case 1
    with Suc.prems show ?case by (auto simp: wp_return)
  next
    case 2
    then have short: "written \<le> length contents" by simp
    show ?case
    proof (rule wp_bindI, rule wp_logged_log, rule wp_case_sumI, goal_cases)
      case (1 r p1 e)
      then have l: "sys_log p1 = (Wrote fd (drop written contents) (Inl e) # ws) @ base"
        using Suc.prems by simp
      show ?case
        by (rule wp_ifI, rule Suc.IH[OF l]) (use 2 Suc.prems in \<open>auto simp: wp_return\<close>)
    next
      case (2 r p1 n)
      then have l: "sys_log p1 = (Wrote fd (drop written contents) (Inr n) # ws) @ base"
        using Suc.prems by simp
      show ?case
        by (rule wp_ifI, rule Suc.IH[OF l])
          (use short \<open>\<not> \<not> written < length contents\<close> Suc.prems(2) in \<open>auto simp: wp_return take_add\<close>)
    qed
  qed
qed

lemma mark_durable:
  "wp (control_intent_mark_pending os directory_fd)
     (\<lambda>b p'. b \<longrightarrow> marker_durable directory_fd (sys_log p')) p"
proof -
  have wrote: "wp (write_all os marker (bytes_of marker_contents))
    (\<lambda>n p''. n = length marker_contents \<longrightarrow>
       (\<exists>ws. sys_log p'' = ws @ sys_log p' \<and> bytes_written marker ws = Some (bytes_of marker_contents))) p'"
    for marker p'
    unfolding write_all_def
    by (rule wp_mono[OF write_from_bytes[of p' "[]"]]) (auto simp: bytes_of_def)
  show ?thesis
    unfolding control_intent_mark_pending_def
    apply (rule wp_bindI, rule wp_any, rule wp_ifI, simp add: wp_return)
    apply (rule wp_bindI, rule wp_any, rule wp_ifI, simp add: wp_return)
    apply (rule wp_bindI, rule wp_logged_log, rule wp_case_sumI, simp add: wp_return)
    apply (rule wp_bindI, rule wp_mono[OF wrote], rule wp_bindI)
    apply (unfold wp_and_then wp_return, rule if_boolI)
     apply (rule wp_logged_log, rule wp_bindI, rule wp_logged_log, rule wp_bindI, rule wp_logged_log)
     apply (force simp: wp_return marker_durable_def creation_flags_def)
    by (rule wp_bindI, rule wp_any, rule wp_bindI, rule wp_any) (simp add: wp_return)
qed

section \<open>The fork of an operation\<close>

definition marked_pending :: "int \<Rightarrow> sys_event list \<Rightarrow> bool" where
  "marked_pending directory_fd history \<longleftrightarrow> (\<exists>owner now before.
     history = Called (MarkPending owner now CONTROL_INTENT_PENDING) True # before \<and>
     marker_durable directory_fd before)"

text \<open>Every fork of an operation follows a durable marker and a pending write in the lease.\<close>

fun forks_marked :: "int \<Rightarrow> sys_event list \<Rightarrow> bool" where
  "forks_marked directory_fd [] = True"
| "forks_marked directory_fd (Forked Operating child # es) =
     (marked_pending directory_fd es \<and> forks_marked directory_fd es)"
| "forks_marked directory_fd (e # es) = forks_marked directory_fd es"

lemma forks_other:
  "\<forall>child. e \<noteq> Forked Operating child \<Longrightarrow> forks_marked directory_fd (e # es) = forks_marked directory_fd es"
  by (cases "(directory_fd, e # es)" rule: forks_marked.cases) auto

definition fork_view :: "int \<Rightarrow> 'd parent \<Rightarrow> bool" where
  "fork_view directory_fd p = forks_marked directory_fd (sys_log p)"

interpretation fv: blind_view "fork_view directory_fd" for directory_fd
  by unfold_locales (auto simp: fork_view_def intro!: forks_other)

lemma fork_unlinked [keeps_intros]: "keeps (fork_view directory_fd) (logged_call m (Unlinked name))"
  by (simp add: keeps_def logged_call_def in_system_def note_sys_def fork_view_def split_def)

lemma fork_cleared [keeps_intros]: "keeps (fork_view directory_fd) clear_lease"
  by (simp add: keeps_def clear_lease_def fork_view_def)

lemma fork_spawn_other:
  "role \<noteq> Operating \<Longrightarrow> keeps (fork_view directory_fd) (spawn_worker os directory_fd' backend role)"
  by (rule fv.spawn) (simp add: fork_view_def forks_other)

lemma fork_observe:
  "keeps (fork_view directory_fd)
     (observe_owned os abi backend directory_fd' limits report recovering wanted)"
  by (rule fv.observe) (simp add: fork_view_def)

lemma fork_lost [keeps_intros]: "keeps (fork_view directory_fd) (owner_lost owner)"
  unfolding owner_lost_def by (intro keeps_intros)

lemma fork_clear: "keeps (fork_view directory_fd) (control_intent_clear_verified os directory_fd')"
  unfolding control_intent_clear_verified_def by (intro keeps_intros) auto

lemma fork_mark: "keeps (fork_view directory_fd) (control_intent_mark_pending os directory_fd')"
  unfolding control_intent_mark_pending_def write_all_def by (intro keeps_intros) auto

lemma fork_recover: "keeps (fork_view directory_fd) (recover_owned os abi backend directory_fd' limits report)"
  unfolding recover_owned_def
  by (intro keeps_intros fork_observe fork_clear fork_spawn_other) simp

text \<open>Nothing is logged between the mark and the fork.\<close>

lemma silent: "keeps sys_log (in_system m)"
  by (simp add: keeps_def in_system_def split_def)

lemma silent_calls:
  "keeps sys_log (sup_now os)" "keeps sys_log (parent_check backend)"
  "keeps sys_log (deadline_for os duration)" "keeps sys_log get_lease"
  unfolding clock_calls by (intro keeps_intros silent)+ (simp add: keeps_def get_lease_def)

lemma silent_bind:
  "keeps sys_log m \<Longrightarrow> P (sys_log s) \<Longrightarrow> (\<And>r s'. P (sys_log s') \<Longrightarrow> wp (f r) Q s') \<Longrightarrow> wp (m \<bind> f) Q s"
  by (rule wp_bindI, erule wp_keeps) simp

lemma fork_bind:
  "keeps (fork_view directory_fd) m \<Longrightarrow> fork_view directory_fd s \<Longrightarrow>
   (\<And>r s'. fork_view directory_fd s' \<Longrightarrow> wp (f r) Q s') \<Longrightarrow> wp (m \<bind> f) Q s"
  by (rule wp_bindI, erule wp_keeps) simp

lemma fork_keeps:
  "keeps (fork_view directory_fd) m \<Longrightarrow> fork_view directory_fd s \<Longrightarrow> wp m (\<lambda>_. fork_view directory_fd) s"
  by (erule wp_keeps) simp

definition fork_ready :: "int \<Rightarrow> sys_event list \<Rightarrow> bool" where
  "fork_ready directory_fd history \<longleftrightarrow> marked_pending directory_fd history \<and> forks_marked directory_fd history"

lemma ready_bind:
  "keeps sys_log m \<Longrightarrow> fork_ready directory_fd (sys_log s) \<Longrightarrow>
   (\<And>r s'. fork_ready directory_fd (sys_log s') \<Longrightarrow> wp (f r) Q s') \<Longrightarrow> wp (m \<bind> f) Q s"
  by (rule silent_bind)

lemma spawn_marked:
  assumes "fork_ready directory_fd (sys_log p)"
  shows "wp (spawn_worker os directory_fd' backend role) (\<lambda>_. fork_view directory_fd) p"
proof -
  have fork: "wp (fork_worker os role) (\<lambda>_. fork_view directory_fd) p'"
    if "fork_ready directory_fd (sys_log p')" for p'
    unfolding fork_worker_def
    by (rule wp_logged_log) (use that in \<open>cases role; auto simp: fork_view_def fork_ready_def\<close>)
  have prepare: "keeps sys_log
      (and_then (in_system (sys_set_cloexec os ours)) (in_system (sys_set_cloexec os theirs)))" for ours theirs
    by (intro keeps_intros silent)
  have fin: "wp (ret r) (\<lambda>_. fork_view directory_fd) p'" if "fork_ready directory_fd (sys_log p')"
    for p' and r :: "int \<times> int option"
    using that by (simp add: wp_return fork_view_def fork_ready_def)
  have closed: "wp (do { close_fd os a; close_fd os b; ret r }) (\<lambda>_. fork_view directory_fd) p'"
    if "fork_ready directory_fd (sys_log p')" for a b p' and r :: "int \<times> int option"
    by (rule fork_keeps, intro keeps_intros) (use that in \<open>simp add: fork_view_def fork_ready_def\<close>)
  show ?thesis
    unfolding spawn_worker_def
    apply (rule ready_bind[OF silent_calls(2) assms], rule ready_bind[OF silent], assumption)
    apply (rule wp_case_optionI, rule fin, assumption, rule wp_case_prodI)
    apply (rule ready_bind[OF prepare], assumption, rule wp_ifI, rule closed, assumption)
    apply (rule wp_bindI, rule wp_mono[OF fork], assumption)
    apply (rule fork_keeps, intro keeps_intros)
    by auto
qed

lemma run_marked:
  assumes "fork_view directory_fd p"
  shows "wp (run_owned os abi backend directory_fd limits cancel) (\<lambda>_. fork_view directory_fd) p"
proof -
  have marked: "wp (and_then (control_intent_mark_pending os directory_fd) (do {
       now \<leftarrow> sup_now os;
       on_lease (\<lambda>l. control_lease_mark_write_pending l owner now CONTROL_INTENT_PENDING)
         (MarkPending owner now CONTROL_INTENT_PENDING) }))
    (\<lambda>b p'. fork_view directory_fd p' \<and> (b \<longrightarrow> fork_ready directory_fd (sys_log p'))) p'"
    if "fork_view directory_fd p'" for owner p'
    unfolding wp_and_then
  proof (rule wp_mono[OF wp_conjI[OF mark_durable fork_keeps[OF fork_mark that]]], rule if_boolI, goal_cases)
    case (1 b p2)
    then have at: "marker_durable directory_fd (sys_log p2) \<and> forks_marked directory_fd (sys_log p2)"
      by (simp add: fork_view_def)
    show ?case
      by (rule silent_bind[where P = "\<lambda>l. marker_durable directory_fd l \<and> forks_marked directory_fd l",
            OF silent_calls(1) at])
        (auto simp: on_lease_def wp_State fork_view_def fork_ready_def marked_pending_def split: prod.split)
  qed simp
  have operation: "wp (run_operation os backend directory_fd limits cancel r)
      (\<lambda>_. fork_view directory_fd) p'" if "fork_ready directory_fd (sys_log p')" for r p'
    unfolding run_operation_def Let_def
    apply (rule ready_bind[OF silent_calls(3) that], rule wp_case_optionI)
     apply (simp add: wp_return fork_view_def fork_ready_def)
    apply (rule ready_bind[OF silent_calls(4)], assumption)
    apply (rule wp_bindI, rule wp_mono[OF spawn_marked], assumption)
    by (rule fork_keeps, intro keeps_intros) auto
  show ?thesis
    unfolding run_owned_def Let_def
    apply (rule fork_bind[OF fv.get_lease assms], rule fork_bind[OF fv.clock(2)], assumption)
    apply (rule wp_bindI, rule wp_mono[OF marked], assumption, rule wp_ifI)
     apply (rule fork_keeps, intro keeps_intros, simp)
    apply (rule wp_bindI, rule wp_mono[OF operation], simp)
    by (rule fork_keeps, intro keeps_intros fork_recover)
qed

lemma supervisor_run_marked:
  assumes "forks_marked directory_fd (sys_log p)"
  shows "wp (worker_supervisor_run os abi directory_fd backend limits cancel)
    (\<lambda>_. fork_view directory_fd) p"
proof -
  have at: "fork_view directory_fd p" using assms by (simp add: fork_view_def)
  show ?thesis
    unfolding worker_supervisor_run_def
    apply (rule fork_bind[OF fv.clock(2) at], rule fork_bind[OF fv.clock(1)], assumption)
    apply (rule fork_bind[OF fv.get_lease], assumption, rule fork_bind, intro keeps_intros, assumption)
    apply (rule wp_ifI, simp add: wp_return, rule fork_bind[OF fv.acquire], assumption)
    apply (rule wp_case_optionI, simp add: wp_return)
    apply (rule wp_bindI, rule wp_mono[OF run_marked], assumption)
    by (rule fork_keeps, intro keeps_intros)
qed

end
