(* ===== verification/WorkerExits.thy ===== *)
theory WorkerExits
  imports WorkerSupervisor
begin

text \<open>
  How the workers of \<open>prototype/helper-ipc/WorkerSupervisor.c\<close> end: the entry that waits for the grant
  (\<open>supervisor_ownership_enter_child\<close>), the child of \<open>start_action\<close> and the observer. Stated of every
  system: what it answered just before tells whether the worker was admitted or refused.
\<close>

section \<open>The entry\<close>

text \<open>The grant was read, the clock then stood before the deadline, and the watcher was then started,
  which left the system in state \<open>d\<close>.\<close>

definition worker_admitted :: "'d posix \<Rightarrow> int \<Rightarrow> u64 \<Rightarrow> 'd \<Rightarrow> bool" where
  "worker_admitted os connection deadline d \<longleftrightarrow> (\<exists>d0 d1 now d2.
     run_state (sys_read os connection 1) d0 = (Inr (bytes_of ''G''), d1) \<and>
     run_state (sys_clock os) d1 = (now, d2) \<and> now < deadline \<and>
     run_state (sys_start_watcher os connection) d2 = (True, d))"

text \<open>The last call before \<open>d\<close> did not give the grant, showed a time past the deadline, or failed to start
  the watcher.\<close>

definition worker_refused :: "'d posix \<Rightarrow> int \<Rightarrow> u64 \<Rightarrow> 'd \<Rightarrow> bool" where
  "worker_refused os connection deadline d \<longleftrightarrow> retry_fuel os = 0 \<or>
     (\<exists>d0 answer. run_state (sys_read os connection 1) d0 = (answer, d) \<and> answer \<noteq> Inr (bytes_of ''G'')) \<or>
     (\<exists>d1 now. run_state (sys_clock os) d1 = (now, d) \<and> deadline \<le> now) \<or>
     (\<exists>d2. run_state (sys_start_watcher os connection) d2 = (False, d))"

text \<open>An observation written whole to the pipe.\<close>

fun delivery :: "int \<Rightarrow> nat \<Rightarrow> sys_event \<Rightarrow> bool" where
  "delivery outlet len (Wrote fd bytes r) \<longleftrightarrow> fd = outlet \<and> r = Inr len"
| "delivery outlet len e \<longleftrightarrow> False"

definition delivered_since :: "int \<Rightarrow> nat \<Rightarrow> 'd parent \<Rightarrow> 'd parent \<Rightarrow> sys_event list \<Rightarrow> bool" where
  "delivered_since outlet len p p' ds \<longleftrightarrow>
     (\<exists>es. sys_log p' = es @ sys_log p \<and> filter (delivery outlet len) (rev es) = ds)"

lemma delivered_none: "sys_log p' = sys_log p \<Longrightarrow> delivered_since outlet len p p' []"
  by (simp add: delivered_since_def)

lemma delivered_trans:
  "delivered_since outlet len p p' ds \<Longrightarrow> delivered_since outlet len p' p'' ds' \<Longrightarrow>
   delivered_since outlet len p p'' (ds @ ds')"
  unfolding delivered_since_def
  by (elim exE conjE, rule_tac x = "esa @ es" in exI) simp

lemma delivered_emits:
  assumes "emits sys_log (\<lambda>e. \<not> delivery outlet len e) m"
  shows "wp m (\<lambda>_ p'. delivered_since outlet len p p' []) p"
proof (rule wpI)
  fix r p' assume "run_state m p = (r, p')"
  with assms obtain es where "sys_log p' = es @ sys_log p" "\<forall>e \<in> set es. \<not> delivery outlet len e"
    by (rule emitsD)
  then show "delivered_since outlet len p p' []"
    unfolding delivered_since_def by (intro exI[of _ es]) (simp add: filter_empty_conv)
qed

lemma grant_read:
  "wp (read_retry os fuel connection 1) (\<lambda>grant p'.
     fuel = 0 \<and> grant = Inl EINTR \<or> (\<exists>d0. run_state (sys_read os connection 1) d0 = (grant, system p'))) p"
proof (induction fuel arbitrary: p)
  case (Suc fuel)
  show ?case
    using Suc.IH by (cases fuel) (auto simp: wp_simps in_system_def note_sys_def split: prod.splits)
qed (simp add: wp_simps note_sys_def)

lemma logs_system [emits_intros]: "emits sys_log P (in_system m)"
  by (auto simp: emits_def in_system_def split: prod.splits)

lemma logs_note [emits_intros]: "P e \<Longrightarrow> emits sys_log P (note_sys e)"
  by (auto simp: emits_def note_sys_def)

lemma logs_call [emits_intros]: "(\<And>r. P (e r)) \<Longrightarrow> emits sys_log P (logged_call m e)"
  unfolding logged_call_def by (intro emits_intros)

lemma entry_outcome:
  "wp (worker_child os directory_fd ours theirs deadline) (\<lambda>exited p'.
     (case exited of Some code \<Rightarrow> code = 126 \<and> worker_refused os theirs deadline (system p')
      | None \<Rightarrow> worker_admitted os theirs deadline (system p')) \<and>
     delivered_since outlet len p p' []) p"
proof (rule wp_conjI)
  have enter: "wp (supervisor_ownership_enter_child os theirs deadline) (\<lambda>exited p'.
     case exited of Some code \<Rightarrow> code = 126 \<and> worker_refused os theirs deadline (system p')
      | None \<Rightarrow> worker_admitted os theirs deadline (system p')) q" for q
    unfolding supervisor_ownership_enter_child_def
    apply (rule wp_bindI, rule wp_mono[OF grant_read])
    by (auto simp: wp_simps in_system_def worker_refused_def worker_admitted_def not_le split: prod.splits) blast
  show "wp (worker_child os directory_fd ours theirs deadline) (\<lambda>exited p'.
     case exited of Some code \<Rightarrow> code = 126 \<and> worker_refused os theirs deadline (system p')
      | None \<Rightarrow> worker_admitted os theirs deadline (system p')) p"
    unfolding worker_child_def by (rule wp_bindI, rule wp_any)+ (rule enter)
  have "emits sys_log (\<lambda>e. \<not> delivery outlet len e) (read_retry os fuel fd n)" for fuel fd n
    by (induction fuel) (auto intro!: emits_intros)
  then show "wp (worker_child os directory_fd ours theirs deadline) (\<lambda>_ p'. delivered_since outlet len p p' []) p"
    unfolding worker_child_def supervisor_ownership_enter_child_def close_fd_def
    by (intro delivered_emits emits_intros) simp_all
qed


section \<open>The observer\<close>

lemma written_whole:
  "wp (write_retry os fuel outlet bytes) (\<lambda>r p'.
     delivered_since outlet len p p' (if r = Inr len then [Wrote outlet bytes (Inr len)] else [])) p"
proof (induction fuel arbitrary: p)
  case (Suc fuel)
  have "wp (logged_call (sys_write os outlet bytes) (Wrote outlet bytes)) (\<lambda>r p'.
      delivered_since outlet len p p' (if r = Inr len then [Wrote outlet bytes (Inr len)] else [])) p"
    by (auto simp: logged_call_def wp_simps in_system_def note_sys_def delivered_since_def split: prod.splits)
  then show ?case
    unfolding write_retry.simps
    by (rule wp_bindI[OF wp_mono])
      (auto intro!: wp_intros wp_mono[OF Suc.IH] dest: delivered_trans)
qed (simp add: wp_simps note_sys_def delivered_since_def)

text \<open>\<open>observed_by outlet abi p p' n os\<close>: of at most \<open>n\<close> observations, \<open>os\<close> were written whole, in this
  order.\<close>

abbreviation observed_by where
  "observed_by outlet abi p p' observations \<equiv>
     delivered_since outlet (observation_size abi) p p'
       (map (\<lambda>x. Wrote outlet (observation_encode abi x) (Inr (observation_size abi))) observations)"

lemma quiet_step:
  assumes "emits sys_log (\<lambda>e. \<not> delivery outlet len e) m" "delivered_since outlet len p q ds"
    and "\<And>r q'. delivered_since outlet len p q' ds \<Longrightarrow> wp (f r) Q q'"
  shows "wp (m \<bind> f) Q q"
  by (rule wp_bindI, rule wp_mono[OF delivered_emits[OF assms(1)]], rule assms(3))
    (metis delivered_trans[OF assms(2)] append_Nil2)

lemma observing_exit:
  "wp (observe_child_from os abi reader outlet indices) (\<lambda>code p'. \<exists>observations.
     observed_by outlet abi p p' observations \<and> length observations \<le> length indices \<and>
     code = (if length observations = length indices \<and>
                list_all (\<lambda>x. observation_result x = SMC_BASELINE_OK) observations then 0 else 1)) p"
proof (induction indices arbitrary: p)
  case Nil
  show ?case by (simp add: wp_return delivered_none)
next
  case (Cons index indices)
  let ?Q = "\<lambda>(code :: nat) p'. \<exists>observations.
     observed_by outlet abi p p' observations \<and> length observations \<le> length (index # indices) \<and>
     code = (if length observations = length (index # indices) \<and>
                list_all (\<lambda>x. observation_result x = SMC_BASELINE_OK) observations then 0 else 1)"
  have start: "delivered_since outlet (observation_size abi) p p []" by (simp add: delivered_none)
  have rest: "wp (do { (if index + 1 < unat CONTROL_LEASE_REQUIRED_SAMPLES then pause_ns os SECOND_NS else ret ());
      observe_child_from os abi reader outlet indices }) ?Q q"
    if "observed_by outlet abi p q [x]" "observation_result x = SMC_BASELINE_OK" for x q
  proof -
    have more: "wp (observe_child_from os abi reader outlet indices) ?Q q'" if q': "observed_by outlet abi p q' [x]" for q'
    proof (rule wp_mono[OF Cons.IH], elim exE conjE)
      fix code :: nat and p' observations
      assume o: "observed_by outlet abi q' p' observations" "length observations \<le> length indices"
        "code = (if length observations = length indices \<and>
                list_all (\<lambda>x. observation_result x = SMC_BASELINE_OK) observations then 0 else 1)"
      show "?Q code p'"
        by (rule exI[of _ "x # observations"])
          (use delivered_trans[OF q' o(1)] o(2,3) \<open>observation_result x = SMC_BASELINE_OK\<close> in simp)
    qed
    show ?thesis
      by (rule quiet_step[OF _ that(1)], unfold pause_ns_def, (intro emits_intros)[1], rule more)
  qed
  have ended: "wp (if written \<noteq> Inr (observation_size abi) then ret 1
      else if result \<noteq> SMC_BASELINE_OK then ret 1
      else do { (if index + 1 < unat CONTROL_LEASE_REQUIRED_SAMPLES then pause_ns os SECOND_NS else ret ());
        observe_child_from os abi reader outlet indices }) ?Q q"
    if q': "delivered_since outlet (observation_size abi) p q' []"
      and q: "delivered_since outlet (observation_size abi) q' q
        (if written = Inr (observation_size abi)
         then [Wrote outlet (observation_encode abi \<lparr>started_ns = started, finished_ns = finished,
                 observation_result = result, observation_snapshot = snapshot\<rparr>) (Inr (observation_size abi))]
         else [])"
    for written started finished result snapshot q' q
  proof (rule wp_ifI)
    assume "written \<noteq> Inr (observation_size abi)"
    with delivered_trans[OF q' q] show "wp (ret 1) ?Q q" by (simp add: wp_return exI[of _ "[]"])
  next
    let ?x = "\<lparr>started_ns = started, finished_ns = finished, observation_result = result,
       observation_snapshot = snapshot\<rparr>"
    assume "\<not> written \<noteq> Inr (observation_size abi)"
    with delivered_trans[OF q' q] have x: "observed_by outlet abi p q [?x]" by simp
    show "wp (if result \<noteq> SMC_BASELINE_OK then ret 1
      else do { (if index + 1 < unat CONTROL_LEASE_REQUIRED_SAMPLES then pause_ns os SECOND_NS else ret ());
        observe_child_from os abi reader outlet indices }) ?Q q"
    proof (rule wp_ifI)
      assume "result \<noteq> SMC_BASELINE_OK"
      with x show "wp (ret 1) ?Q q" by (simp add: wp_return exI[of _ "[?x]"])
    qed (use rest[OF x] in simp)
  qed
  show ?case
    unfolding observe_child_from.simps sup_now_def
    apply (rule quiet_step[OF _ start], (intro emits_intros)[1])
    apply (rule quiet_step, (intro emits_intros)[1], assumption, rule wp_case_prodI)
    apply (rule quiet_step, (intro emits_intros)[1], assumption, rule wp_letI)
    by (rule wp_bindI, rule wp_mono[OF written_whole[where len = "observation_size abi"]], rule ended)
qed


section \<open>Properties\<close>

text \<open>The exit code as the parent's \<open>waitpid\<close> reports it.\<close>

definition exit_status :: "nat \<Rightarrow> int" where
  "exit_status code = 256 * int code"

lemma exit_classified:
  "classify_exit (exit_status 0) = WORKER_EXITED" "classify_exit (exit_status 1) = WORKER_FAILED"
  "classify_exit (exit_status 126) = WORKER_FAILED"
  by (simp_all add: classify_exit_def wifsignaled_def wifexited_def wait_status_def wexitstatus_def exit_status_def)

lemma child_refused:
  assumes "run_state (worker_child os directory_fd ours theirs deadline) p = (Some code, p')"
  shows "run_state (action_child os directory_fd action deadline ours theirs) p = (code, p')"
    "run_state (observer_child os abi directory_fd reader deadline ours theirs input outlet) p = (code, p')"
  using assms by (simp_all add: action_child_def observer_child_def)

text \<open>C22: A worker started for an operation or a recovery ends with exit code 126 only when it was
  refused, that is, when it did not read its grant (or, in the model, had no round left to read it), read
  it too late, or could not start its watcher, and then it ends the same whatever its action would have
  done. In every other case it was admitted, by a grant read in time and a watcher started, the action ran
  right after that, and its exit code is 0 when the action returned 0 and 1 otherwise; and of all these
  the supervisor classifies only an admitted worker whose action returned 0 as having exited.\<close>

theorem worker_exit_codes:
  "case run_state (action_child os directory_fd action deadline ours theirs) p of (code, p') \<Rightarrow>
     if code = 126
     then worker_refused os theirs deadline (system p') \<and> classify_exit (exit_status code) = WORKER_FAILED \<and>
       (\<forall>action'. run_state (action_child os directory_fd action' deadline ours theirs) p = (126, p'))
     else \<exists>d result. worker_admitted os theirs deadline d \<and> run_state action d = (result, system p') \<and>
       code = (if result = 0 then 0 else 1) \<and>
       classify_exit (exit_status code) = (if result = 0 then WORKER_EXITED else WORKER_FAILED)"
proof -
  obtain exited p1 where run: "run_state (worker_child os directory_fd ours theirs deadline) p = (exited, p1)"
    by fastforce
  note entry = wpD[OF entry_outcome run]
  show ?thesis
  proof (cases exited)
    case None
    then have "worker_admitted os theirs deadline (system p1)" using entry by simp
    with run None show ?thesis
      by (auto simp: action_child_def in_system_def exit_classified exit_classified(2)[unfolded One_nat_def]
          split: prod.splits)
  next
    case (Some code)
    then have "code = 126" "worker_refused os theirs deadline (system p1)" using entry by auto
    with child_refused(1)[OF run[unfolded Some]] show ?thesis by (simp add: exit_classified)
  qed
qed

text \<open>C23: The observer ends with exit code 126 only when it was refused, and then whatever its reader
  would have read. In every other case it was admitted and wrote at most 61 observations whole, in order,
  to its pipe; its exit code is 0 when it wrote all 61 of them and each had read the baseline, and 1
  otherwise.\<close>

theorem observer_exit_codes:
  "case run_state (observer_child os abi directory_fd reader deadline ours theirs input outlet) p of (code, p') \<Rightarrow>
     if code = 126
     then worker_refused os theirs deadline (system p') \<and>
       (\<forall>reader'. run_state (observer_child os abi directory_fd reader' deadline ours theirs input outlet) p =
          (126, p'))
     else (\<exists>d. worker_admitted os theirs deadline d) \<and>
       (\<exists>observations. length observations \<le> 61 \<and>
          delivered_since outlet (observation_size abi) p p'
            (map (\<lambda>x. Wrote outlet (observation_encode abi x) (Inr (observation_size abi))) observations) \<and>
          code = (if length observations = 61 \<and>
                     list_all (\<lambda>x. observation_result x = SMC_BASELINE_OK) observations then 0 else 1))"
proof -
  obtain exited p1 where run: "run_state (worker_child os directory_fd ours theirs deadline) p = (exited, p1)"
    by fastforce
  note entry = wpD[OF entry_outcome[where outlet = outlet and len = "observation_size abi"] run]
  show ?thesis
  proof (cases exited)
    case None
    let ?m = "do { close_fd os input; observe_child os abi reader outlet }"
    have "wp ?m (\<lambda>code p'. \<exists>observations.
       observed_by outlet abi p p' observations \<and> length observations \<le> 61 \<and>
       code = (if length observations = 61 \<and>
                  list_all (\<lambda>x. observation_result x = SMC_BASELINE_OK) observations then 0 else 1)) p1"
      unfolding close_fd_def observe_child_def
      apply (rule quiet_step[of outlet "observation_size abi" _ p _ "[]"], (intro emits_intros; simp)[1])
       apply (use entry in simp)
      apply (rule wp_mono[OF observing_exit], elim exE conjE)
      subgoal for r q' code p' observations
        using delivered_trans[of outlet "observation_size abi" p q' "[]" p']
        by (auto simp: CONTROL_LEASE_REQUIRED_SAMPLES_def)
      done
    with run None entry show ?thesis
      by (auto simp: observer_child_def wp_def split: prod.splits)
  next
    case (Some code)
    then have "code = 126" "worker_refused os theirs deadline (system p1)" using entry by auto
    with child_refused(2)[OF run[unfolded Some]] show ?thesis by simp
  qed
qed

end
