(* ===== verification/SupervisorProperties.thy ===== *)
theory SupervisorProperties
  imports SupervisorRelease SupervisorSweep IntentDurable WorkerExits
begin

text \<open>
  The guarantees of the journal, the ownership record and the worker supervisor, for every system,
  backend and starting state.
\<close>

section \<open>Reports\<close>

text \<open>C10: When a recovery restart reports RECOVERED, its last acts are to take a recovery proof from the
  lease, remove the marker, sync the directory and release the ownership lock; and before the proof
  was taken, the calls on the lease since its start show a recovery observation: at least sixty
  accepted baseline readings over a minute, with no write marked, sleep or restart in between.\<close>

theorem resume_recovers_with_proof:
  assumes "lease_ready p"
    and "run_state (worker_supervisor_resume os abi directory_fd backend limits) p = (report, p')"
    and "sup_result report = SUPERVISOR_RECOVERED"
  shows "\<exists>lock b before.
    sys_log p' = Closed_fd lock b # Synced directory_fd True # Unlinked marker_name True #
      Called TakeProof True # before \<and>
    observed_baseline True (lease_history before)"
  using wpD[OF resume_recovered[OF assms(1)] assms(2)] assms(3)
  by (auto simp: released_def proved_release_def)

text \<open>The same for a supervised operation that starts with a lease its calls account for: it reports
  RECOVERED only after a recovery proof backed by a full observation, with the marker removed and
  synced.\<close>

theorem run_recovers_with_proof:
  assumes "the_lease p = Some l" and "lease_run (lease_history (sys_log p)) l"
    and "run_state (worker_supervisor_run os abi directory_fd backend limits cancel) p = (report, p')"
  shows "released directory_fd report p'"
  by (rule wpD[OF run_recovered[OF lease_okI[OF assms(1,2)]] assms(3)])

text \<open>A baseline observation reports BASELINE_READY only with a stable lease in memory whose calls,
  since it was zeroed, show at least sixty accepted baseline readings over a minute.\<close>

theorem baseline_ready_observed:
  "case run_state (worker_supervisor_observe_baseline os abi directory_fd has_latest backend limits) p of
     (report, p') \<Rightarrow> baseline_proved report p'"
  using baseline_ready[of os abi directory_fd has_latest backend limits p] by (simp add: wp_def)

section \<open>Children\<close>

text \<open>C12: Unless it reports that a worker could not be stopped, each entry point returns with every
  child it forked reaped; and it only ever kills a child that it forked and has not reaped.\<close>

theorem workers_settled:
  assumes "children (sys_log p) = {}" and "kills_ok (sys_log p)"
    and "m = worker_supervisor_run os abi directory_fd backend limits cancel \<or>
      m = worker_supervisor_resume os abi directory_fd backend limits \<or>
      m = worker_supervisor_observe_baseline os abi directory_fd has_latest backend limits"
    and "run_state m p = (report, p')"
  shows "kills_ok (sys_log p') \<and>
    (sup_result report = SUPERVISOR_STOP_FAILED \<or> children (sys_log p') = {})"
proof -
  have "kids {} p" using assms(1,2) by (simp add: kids_def)
  then have "wp m swept p"
    using assms(3) run_swept resume_swept baseline_swept by blast
  from wpD[OF this assms(4)] show ?thesis by (simp add: swept_def)
qed

text \<open>C11: A supervised operation forks its worker only when the intent marker has been created
  exclusively, written in full, synced, closed and its directory synced, and the lease has then
  accepted the pending write.\<close>

theorem operation_follows_marker:
  assumes "forks_marked directory_fd (sys_log p)"
    and "run_state (worker_supervisor_run os abi directory_fd backend limits cancel) p = (report, p')"
  shows "forks_marked directory_fd (sys_log p')"
  using wpD[OF supervisor_run_marked[OF assms(1)] assms(2)] by (simp add: fork_view_def)

section \<open>The journal\<close>

text \<open>Successful removals of the marker.\<close>

definition removals :: "sys_event list \<Rightarrow> sys_event list" where
  "removals history = filter (\<lambda>e. e = Unlinked marker_name True) history"

definition removal_view :: "'d parent \<Rightarrow> sys_event list" where
  "removal_view p = removals (sys_log p)"

lemma removal_quiet: "quiet_event e \<Longrightarrow> e \<noteq> Unlinked marker_name True"
  by (cases e) auto

interpretation rv: quiet_view removal_view
  by unfold_locales (auto simp: removal_view_def removals_def dest: removal_quiet)

text \<open>C14: Clearing the marker succeeds only right after the lease gave its recovery proof, with the
  unlink and the directory synced; when it fails, the marker is untouched, unless it was removed with
  a proof and the sync of the directory failed.\<close>

theorem clear_outcome:
  "case run_state (control_intent_clear_verified os directory_fd) p of (cleared, p') \<Rightarrow>
     if cleared
     then \<exists>before. sys_log p' = Synced directory_fd True # Unlinked marker_name True #
            Called TakeProof True # before \<and> removals before = removals (sys_log p)
     else removals (sys_log p') = removals (sys_log p) \<or>
          (\<exists>before. sys_log p' = Synced directory_fd False # Unlinked marker_name True #
            Called TakeProof True # before \<and> removals before = removals (sys_log p))"
proof -
  have "wp (control_intent_clear_verified os directory_fd) (\<lambda>cleared p'.
     if cleared
     then \<exists>before. sys_log p' = Synced directory_fd True # Unlinked marker_name True #
            Called TakeProof True # before \<and> removals before = removals (sys_log p)
     else removals (sys_log p') = removals (sys_log p) \<or>
          (\<exists>before. sys_log p' = Synced directory_fd False # Unlinked marker_name True #
            Called TakeProof True # before \<and> removals before = removals (sys_log p))) p"
    unfolding control_intent_clear_verified_def
    apply (rule wp_bindI, rule wp_keeps[OF rv.intent_read], rule wp_ifI)
     apply (simp add: wp_return removal_view_def)
    apply (rule wp_bindI)
    apply (simp only: on_lease_def wp_State split: prod.split, intro allI impI)
    apply (rule wp_ifI, simp add: wp_return removal_view_def removals_def)
    apply (rule wp_bindI, rule wp_logged, rule wp_ifI)
     apply (simp add: wp_return removal_view_def removals_def)
    by (rule wp_logged) (auto simp: removal_view_def removals_def)
  then show ?thesis by (simp add: wp_def)
qed

end
