(* ===== verification/JsonText.thy ===== *)
theory JsonText
  imports SmcInventory
begin

text \<open>
  JSON documents: the grammar of RFC 8259 without white space (\<open>json_value\<close>), a datatype of documents and
  their compact text (\<open>render\<close>). Every document with finite numbers and plain member names renders to a
  text of the grammar (\<open>render_valid\<close>). The reports of the inventory tool are stated with them.
\<close>

section \<open>The grammar\<close>

definition json_integer :: "string \<Rightarrow> bool" where
  "json_integer t \<longleftrightarrow> t \<noteq> [] \<and> list_all is_digit t \<and> (hd t = CHR ''0'' \<longrightarrow> length t = 1)"

inductive json_number :: "string \<Rightarrow> bool" where
  integer: "json_integer t \<Longrightarrow> json_number t"
| fraction: "json_integer t \<Longrightarrow> ds \<noteq> [] \<Longrightarrow> list_all is_digit ds \<Longrightarrow> json_number (t @ CHR ''.'' # ds)"
| negative: "json_number t \<Longrightarrow> hd t \<noteq> CHR ''-'' \<Longrightarrow> json_number (CHR ''-'' # t)"

definition is_hex :: "char \<Rightarrow> bool" where
  "is_hex c \<longleftrightarrow> is_digit c \<or> 97 \<le> (of_char c :: nat) \<and> (of_char c :: nat) \<le> 102"

inductive json_characters :: "string \<Rightarrow> bool" where
  empty: "json_characters []"
| plain: "printable c \<Longrightarrow> c \<noteq> quote \<Longrightarrow> c \<noteq> CHR 0x5c \<Longrightarrow> json_characters t \<Longrightarrow> json_characters (c # t)"
| escaped: "c = quote \<or> c = CHR 0x5c \<Longrightarrow> json_characters t \<Longrightarrow> json_characters (CHR 0x5c # c # t)"
| unicode: "list_all is_hex ds \<Longrightarrow> length ds = 4 \<Longrightarrow> json_characters t \<Longrightarrow>
    json_characters (CHR 0x5c # CHR ''u'' # ds @ t)"

inductive json_value :: "string \<Rightarrow> bool"
  and json_elements :: "string \<Rightarrow> bool"
  and json_members :: "string \<Rightarrow> bool"
where
  null: "json_value ''null''"
| true: "json_value ''true''"
| false: "json_value ''false''"
| number: "json_number t \<Longrightarrow> json_value t"
| characters: "json_characters t \<Longrightarrow> json_value (quote # t @ [quote])"
| empty_array: "json_value ''[]''"
| array: "json_elements t \<Longrightarrow> json_value (CHR ''['' # t @ '']'')"
| empty_object: "json_value ''{}''"
| object: "json_members t \<Longrightarrow> json_value (CHR ''{'' # t @ ''}'')"
| element: "json_value t \<Longrightarrow> json_elements t"
| elements: "json_value t \<Longrightarrow> json_elements u \<Longrightarrow> json_elements (t @ CHR '','' # u)"
| member: "json_characters k \<Longrightarrow> json_value t \<Longrightarrow> json_members (quote # k @ [quote, CHR '':''] @ t)"
| members: "json_characters k \<Longrightarrow> json_value t \<Longrightarrow> json_members u \<Longrightarrow>
    json_members ((quote # k @ [quote, CHR '':''] @ t) @ CHR '','' # u)"

section \<open>Documents and their text\<close>

datatype json_doc =
    JNull
  | JBool bool
  | JNatural nat
  | JInteger int
  | JFixed nat double
  | JText string
  | JArray "json_doc list"
  | JObject "(string \<times> json_doc) list"

text \<open>Items with a comma before each, except before the first of the list when \<open>first\<close>.\<close>

primrec joined :: "bool \<Rightarrow> string list \<Rightarrow> string" where
  "joined first [] = []"
| "joined first (t # ts) = (if first then [] else '','') @ t @ joined False ts"

definition text_characters :: "string \<Rightarrow> string" where
  "text_characters t = concat (map (\<lambda>c. json_character (word_of_nat (of_char c))) t)"

fun render :: "json_doc \<Rightarrow> string" where
  "render JNull = ''null''"
| "render (JBool b) = (if b then ''true'' else ''false'')"
| "render (JNatural n) = decimal n"
| "render (JInteger i) = decimal_int i"
| "render (JFixed places x) = fixed places x"
| "render (JText t) = quote # text_characters t @ [quote]"
| "render (JArray ds) = CHR ''['' # joined True (map render ds) @ '']''"
| "render (JObject ms) = CHR ''{'' #
     joined True (map (\<lambda>(k, d). quote # k @ [quote, CHR '':''] @ render d) ms) @ ''}''"

definition plain_name :: "string \<Rightarrow> bool" where
  "plain_name k \<longleftrightarrow> list_all (\<lambda>c. printable c \<and> c \<noteq> quote \<and> c \<noteq> CHR 0x5c) k"

fun renderable :: "json_doc \<Rightarrow> bool" where
  "renderable (JFixed places x) = isfinite x"
| "renderable (JArray ds) = (\<forall>d \<in> set ds. renderable d)"
| "renderable (JObject ms) = (\<forall>(k, d) \<in> set ms. plain_name k \<and> renderable d)"
| "renderable d = True"

section \<open>Rendered documents are JSON\<close>

lemma json_text: "json [] = []" "json (c # t) = (if c = CHR 0x60 then quote else c) # json t"
  by (simp_all add: json_def)

lemma joined_append: "joined first (ts @ us) = joined first ts @ joined (first \<and> ts = []) us"
  by (induction ts arbitrary: first) auto

lemma digits_plain: "is_digit c \<Longrightarrow> c \<noteq> CHR ''-'' \<and> c \<noteq> CHR ''.''"
  by (auto simp: is_digit_def)

lemma decimal_integer: "json_integer (decimal n)"
  using decimal_not_empty[of n] decimal_digits[of n] decimal_head[of n] decimal_0
  by (cases "n = 0") (auto simp: json_integer_def)

lemma fixed_number: "json_number (fixed places x)"
proof -
  let ?whole = "decimal (magnitude places x div 10 ^ places)"
  let ?part = "decimal (magnitude places x mod 10 ^ places)"
  let ?ds = "replicate (places - length ?part) CHR ''0'' @ ?part"
  let ?t = "?whole @ (if places = 0 then [] else CHR ''.'' # ?ds)"
  have w: "json_integer ?whole" by (rule decimal_integer)
  have "?ds \<noteq> []" "list_all is_digit ?ds"
    using decimal_not_empty decimal_digits by (auto simp: is_digit_def list_all_iff)
  then have n: "json_number ?t"
    using json_number.fraction[OF w] json_number.integer[OF w] by auto
  have "is_digit (hd ?t)" using w by (cases ?whole) (auto simp: json_integer_def)
  then have "json_number (CHR ''-'' # ?t)" using n digits_plain by (intro json_number.negative) auto
  with n show ?thesis by (simp add: fixed_def Let_def)
qed

lemma decimal_int_number: "json_number (decimal_int i)"
proof -
  have "hd (decimal n) \<noteq> CHR ''-''" for n
    using decimal_integer[of n] digits_plain by (cases "decimal n") (auto simp: json_integer_def)
  then show ?thesis
    by (auto simp: decimal_int_def intro: json_number.intros decimal_integer)
qed

lemma hex_digit_hex: "d < 16 \<Longrightarrow> is_hex (hex_digit d)"
  by (simp add: is_hex_def is_digit_def hex_digit_def of_char_of)

lemma hex_hex: "list_all is_hex (hex width n)" and hex_length: "length (hex width n) = width"
  by (induction width arbitrary: n) (auto simp: hex_digit_hex)

lemma json_characters_append:
  "json_characters t \<Longrightarrow> json_characters u \<Longrightarrow> json_characters (t @ u)"
  by (induction rule: json_characters.induct) (auto intro: json_characters.intros)

lemma byte_char_of: "of_char (byte_char b) = unat b"
  using unsigned_less[where ?'a = nat, of b] by (simp add: byte_char_def of_char_of)

lemma character_json: "json_characters (json_character b)"
proof (cases "b < 32 \<or> 126 < b")
  case True
  then have "json_character b = CHR 0x5c # CHR ''u'' # hex 4 (unat b) @ []"
    by (auto simp: json_character_def)
  then show ?thesis using hex_hex hex_length by (metis json_characters.intros(1,4))
next
  case False
  then have p: "printable (byte_char b)"
    by (simp add: printable_def byte_char_of word_less_nat_alt)
  have q: "byte_char 0x22 = quote" "byte_char 0x5c = CHR 0x5c"
    using char_of_char[of "CHR 0x5c", where ?'a = nat] char_of_char[of "CHR 0x22", where ?'a = nat]
    by (simp_all add: byte_char_def quote_def)
  show ?thesis
  proof (cases "b = 0x22 \<or> b = 0x5c")
    case True
    with False q have "json_character b = CHR 0x5c # byte_char b # []" "byte_char b = quote \<or> byte_char b = CHR 0x5c"
      by (auto simp: json_character_def)
    then show ?thesis by (metis json_characters.intros(1,3))
  next
    case b: False
    have "of_char (byte_char b) \<noteq> (0x22::nat)" "of_char (byte_char b) \<noteq> (0x5c::nat)"
      using b by (auto simp: byte_char_of word_unat_eq_iff)
    then have "byte_char b \<noteq> quote" "byte_char b \<noteq> CHR 0x5c" by (auto simp: quote_def)
    with p b False show ?thesis by (simp add: json_character_def json_characters.intros)
  qed
qed

lemma text_json: "json_characters (text_characters t)"
  by (induction t) (auto simp: text_characters_def intro: json_characters.intros json_characters_append character_json)

lemma plain_name_json: "plain_name k \<Longrightarrow> json_characters k"
  by (induction k) (auto simp: plain_name_def intro: json_characters.intros)

lemma elements_joined:
  "ts \<noteq> [] \<Longrightarrow> (\<And>t. t \<in> set ts \<Longrightarrow> json_value t) \<Longrightarrow> json_elements (joined True ts)"
proof (induction ts)
  case (Cons t ts)
  then show ?case
    by (cases ts) (auto intro: json_value_json_elements_json_members.intros)
qed simp

lemma members_joined:
  assumes "ms \<noteq> []" "\<And>k t. (k, t) \<in> set ms \<Longrightarrow> json_characters k \<and> json_value t"
  shows "json_members (joined True (map (\<lambda>(k, t). quote # k @ [quote, CHR '':''] @ t) ms))"
  using assms
proof (induction ms)
  case (Cons m ms)
  obtain k t where m: "m = (k, t)" by (cases m)
  then have kt: "json_characters k" "json_value t" using Cons.prems by auto
  show ?case
  proof (cases ms)
    case Nil
    with kt m show ?thesis using member[OF kt] by simp
  next
    case (Cons m' ms')
    then have "json_members (joined True (map (\<lambda>(k, t). quote # k @ [quote, CHR '':''] @ t) ms))"
      using Cons.IH Cons.prems by auto
    from members[OF kt this] m Cons show ?thesis by (simp add: split_def)
  qed
qed simp

theorem render_valid: "renderable d \<Longrightarrow> json_value (render d)"
proof (induction d rule: render.induct)
  case (7 ds)
  then show ?case
    using array[OF elements_joined[of "map render ds"]] empty_array by (cases ds) auto
next
  case (8 ms)
  show ?case
  proof (cases "ms = []")
    case False
    have "json_characters k \<and> json_value t" if kt: "(k, t) \<in> set (map (\<lambda>(k, d). (k, render d)) ms)" for k t
    proof -
      obtain d where d: "(k, d) \<in> set ms" "t = render d" using kt by auto
      then have "plain_name k" "renderable d" using 8(2) by auto
      with 8(1)[OF d(1) refl] d(2) show ?thesis by (auto intro: plain_name_json)
    qed
    then have "json_members (joined True (map (\<lambda>(k, t). quote # k @ [quote, CHR '':''] @ t)
        (map (\<lambda>(k, d). (k, render d)) ms)))"
      using False by (intro members_joined) auto
    then show ?thesis using object by (simp add: comp_def split_def)
  qed (simp add: empty_object)
qed (auto intro: json_value_json_elements_json_members.intros text_json fixed_number
    json_number.integer decimal_integer decimal_int_number)

end
