(* ===== verification/ProbeProperties.thy ===== *)
theory ProbeProperties
  imports SupervisorProbe SupervisorSteady SupervisorProperties JsonText
begin

text \<open>
  What the supervisor probe reports, removes and sends: a line that says verified is backed by a
  recovery proof, the cleanup removes files only as the exclusive owner, and no process of the probe
  sends the controller anything but reads.
\<close>

section \<open>The machine and the output\<close>

definition untouched_world :: "'d probe_world \<Rightarrow> 'd probe_world \<Rightarrow> bool" where
  "untouched_world w w' \<longleftrightarrow> probe_output w' = probe_output w \<and> smc_trace w' = smc_trace w \<and>
     (process_ended w \<noteq> None \<longrightarrow> w' = w)"

lemma untouched_alive [steady_intros]: "steadily untouched_world (alive dead m)"
  by (auto simp: steadily_def alive_def untouched_world_def split_def)

lemma untouched_end [steady_intros]: "steadily untouched_world (end_process e)"
  by (auto simp: steadily_def end_process_def untouched_world_def)

lemma untouched_os: "steady_os untouched_world (probe_os h)"
  by (simp add: steady_os_def probe_os_def alive_os_def untouched_alive)

interpretation uw: steady_system untouched_world "probe_os h" for h :: "'d probe_host"
  by unfold_locales (auto simp: untouched_world_def untouched_os)

lemma steady_at_system [steady_intros]: "steadily (on_systems R) m \<Longrightarrow> steadily R (at_system m)"
proof -
  assume m: "steadily (on_systems R) m"
  have "R d (system (snd (run_state m \<lparr>system = d, the_lease = None, latest_snapshot = zero_snapshot, sys_log = []\<rparr>)))" for d
    using m unfolding steadily_def on_systems_def by (metis parent.select_convs(1))
  then show ?thesis by (simp add: steadily_def at_system_def split_def)
qed

lemma untouched_check [steady_intros]:
  "steadily untouched_world (supervisor_runner_lifetime_check h fd)" "steadily untouched_world (check_owner h)"
  unfolding check_owner_def supervisor_runner_lifetime_check_def by (intro steady_intros)+

lemma untouched_enter [steady_intros]: "steadily untouched_world (supervisor_runner_lifetime_enter h fd)"
  unfolding supervisor_runner_lifetime_enter_def by (intro steady_intros)

text \<open>An observer that is not to be crashed is announced without a word.\<close>

lemma untouched_hooks: "steady_hooks untouched_world (probe_backend h directory_fd False)"
  by (simp add: steady_hooks_def probe_backend_def untouched_check probe_observer_started_def
      uw.machine_return)

interpretation uh: steady_waiting untouched_world "probe_os h" "probe_backend h directory_fd crash"
  for h :: "'d probe_host" and directory_fd crash
  by unfold_locales (auto simp: probe_backend_def intro: untouched_check)

interpretation us: steady_supervision untouched_world "probe_os h" "probe_backend h directory_fd False"
  for h :: "'d probe_host" and directory_fd
  by unfold_locales (rule untouched_hooks)

lemma untouched_from_host [steady_intros]: "steadily (on_systems untouched_world) (from_host dead m)"
  unfolding from_host_def by (intro steady_intros)

lemma untouched_latest: "steadily (on_systems untouched_world) (State (\<lambda>p. (latest_snapshot p, p)))"
  by (simp add: steadily_def on_systems_def untouched_world_def)

lemma untouched_claim: "steadily (on_systems untouched_world) (probe_claim h directory_fd)"
  unfolding probe_claim_def by (intro steady_intros untouched_latest)

lemma untouched_setup:
  "steadily (on_systems untouched_world) (SupervisorProbeOpenDirectory h)"
  "steadily (on_systems untouched_world) (supervisor_probe_lock (probe_os h) directory_fd)"
  unfolding SupervisorProbeOpenDirectory_def supervisor_probe_lock_def
  by (intro steady_intros)+

lemma untouched_unlink [steady_intros]: "steadily (on_systems untouched_world) (unlink_probe h directory_fd name)"
  unfolding unlink_probe_def by (intro steady_intros)

lemma untouched_cleanup: "steadily (on_systems untouched_world) (supervisor_probe_cleanup h directory_fd)"
proof -
  have "steadily (on_systems untouched_world) (remove_files h directory_fd names removed)" for names removed
    by (induction names arbitrary: removed) (auto intro!: steady_intros)
  then show ?thesis unfolding supervisor_probe_cleanup_def by (intro steady_intros)
qed

section \<open>Processes that read\<close>

text \<open>A process that may read the controller, and one that does not even do that; either leaves
  everything alone once it has ended.\<close>

definition child_world :: "'d probe_world \<Rightarrow> 'd probe_world \<Rightarrow> bool" where
  "child_world w w' \<longleftrightarrow> (\<exists>es. smc_trace w' = es @ smc_trace w \<and> (\<forall>e \<in> set es. only_reads e)) \<and>
     (process_ended w \<noteq> None \<longrightarrow> w' = w)"

definition parent_world :: "'d probe_world \<Rightarrow> 'd probe_world \<Rightarrow> bool" where
  "parent_world w w' \<longleftrightarrow> smc_trace w' = smc_trace w \<and> (process_ended w \<noteq> None \<longrightarrow> w' = w)"

lemma untouched_parent: "untouched_world w w' \<Longrightarrow> parent_world w w'"
  and untouched_child: "untouched_world w w' \<Longrightarrow> child_world w w'"
  by (auto simp: untouched_world_def parent_world_def child_world_def)

lemma steadily_mono: "steadily R m \<Longrightarrow> (\<And>s s'. R s s' \<Longrightarrow> S s s') \<Longrightarrow> steadily S m"
  by (simp add: steadily_def)

lemma untouched_os_mono: "(\<And>w w'. untouched_world w w' \<Longrightarrow> S w w') \<Longrightarrow> steady_os S (probe_os h)"
  unfolding steady_os_def probe_os_def alive_os_def posix.simps
  by (intro conjI allI; rule steadily_mono[OF untouched_alive])

interpretation pw: steady_system parent_world "probe_os h" for h :: "'d probe_host"
  by unfold_locales (auto simp: parent_world_def intro: untouched_os_mono[OF untouched_parent])

interpretation cw: steady_system child_world "probe_os h" for h :: "'d probe_host"
proof (unfold_locales, goal_cases)
  case (2 d d' d'')
  then show ?case unfolding child_world_def by (metis Un_iff append.assoc set_append)
qed (auto simp: child_world_def intro: untouched_os_mono[OF untouched_child])

lemma parent_steady: "steadily (on_systems untouched_world) m \<Longrightarrow> steadily (on_systems parent_world) m"
  by (erule steadily_mono) (simp add: on_systems_def untouched_parent)

lemma parent_write [steady_intros]: "steadily parent_world (probe_write h text)"
  unfolding probe_write_def
  by (intro pw.machine_bind steady_at_system pw.transfers)
    (auto simp: steadily_def parent_world_def split: sum.splits)

lemma parent_hooks: "steady_hooks parent_world (probe_backend h directory_fd crash)"
proof -
  have alive: "steadily parent_world (alive dead m)" for dead m
    by (rule steadily_mono[OF untouched_alive untouched_parent])
  have ends: "steadily parent_world (end_process e)" for e
    by (rule steadily_mono[OF untouched_end untouched_parent])
  have "steadily parent_world (probe_observer_started h directory_fd crash observer recovering)"
    for observer recovering
    unfolding probe_observer_started_def supervisor_probe_crash_after_observer_start_def crash_identified_def
    by (intro steady_intros alive ends)
  moreover have "steadily parent_world (check_owner h)"
    by (rule steadily_mono[OF untouched_check(2) untouched_parent])
  ultimately show ?thesis by (simp add: steady_hooks_def probe_backend_def)
qed

interpretation ps: steady_supervision parent_world "probe_os h" "probe_backend h directory_fd crash"
  for h :: "'d probe_host" and directory_fd crash
  by unfold_locales (rule parent_hooks)

lemma parent_print:
  "steadily (on_systems parent_world) (probe_print text)"
  unfolding probe_print_def by (rule pw.called) (auto simp: steadily_def parent_world_def)

lemma parent_supervise: "steadily (on_systems parent_world) (probe_supervise h abi directory_fd crash resume_only)"
  unfolding probe_supervise_def probe_operation_def
  by (intro steady_intros untouched_claim[THEN parent_steady])

section \<open>The diagnostic\<close>

text \<open>What POSIX says of \<open>write\<close>: it never writes more than it was given.\<close>

definition writes_bounded :: "'d posix \<Rightarrow> bool" where
  "writes_bounded os \<longleftrightarrow>
     (\<forall>fd bytes d n d'. run_state (sys_write os fd bytes) d = (Inr n, d') \<longrightarrow> n \<le> length bytes)"

text \<open>\<open>told h crash out w\<close>: since \<open>out\<close> at most one diagnostic was written, and only in the crash mode, of
  which \<open>write\<close> took \<open>n\<close> bytes; when it took all of them, the process was killed.\<close>

definition told :: "'d probe_host \<Rightarrow> bool \<Rightarrow> string \<Rightarrow> 'd probe_world \<Rightarrow> bool" where
  "told h crash out w \<longleftrightarrow> (\<exists>pid uid observer now n. let message = crash_message pid uid observer now in
     probe_output w = out @ take n message \<and> (n = 0 \<or> crash) \<and>
     (if n = length message then process_ended w = Some (Killed_by ''SIGKILL'') else True) \<and>
     (if writes_bounded (base_os h) then n \<le> length message else True))"

lemma message_nonempty: "crash_message pid uid observer now \<noteq> []"
  by (simp add: crash_message_def)

lemma told_silent: "probe_output w = out \<Longrightarrow> told h crash out w"
  unfolding told_def
  by (rule exI[of _ 0], rule exI[of _ 0], rule exI[of _ 0], rule exI[of _ 0], rule exI[of _ 0])
    (simp add: message_nonempty)

lemma told_steady:
  assumes "steadily (on_systems untouched_world) m" "told h crash out (system p)"
  shows "wp m (\<lambda>_ p'. told h crash out (system p')) p"
proof (rule wpI)
  fix r p' assume "run_state m p = (r, p')"
  then have "untouched_world (system p) (system p')"
    using steadilyD[OF assms(1)] by (auto simp: on_systems_def)
  then have "probe_output (system p') = probe_output (system p)"
    "process_ended (system p) \<noteq> None \<Longrightarrow> system p' = system p"
    by (auto simp: untouched_world_def)
  with assms(2) show "told h crash out (system p')"
    unfolding told_def Let_def by (metis option.distinct(1))
qed

lemma retry_bounded:
  assumes "writes_bounded (base_os h)"
  shows "wp (write_retry (probe_os h) fuel fd contents) (\<lambda>r p'. \<forall>n. r = Inr n \<longrightarrow> n \<le> length contents) p"
proof (induction fuel arbitrary: p)
  case (Suc fuel)
  have "wp (logged_call (sys_write (probe_os h) fd contents) e) (\<lambda>r p'. \<forall>n. r = Inr n \<longrightarrow> n \<le> length contents) p"
    for e p
    using assms unfolding writes_bounded_def
    by (auto simp: logged_call_def in_system_def note_sys_def probe_os_def alive_os_def alive_def wp_simps
        split: prod.splits if_splits) blast
  then show ?case
    unfolding write_retry.simps
    by (rule wp_bindI[OF wp_mono]) (auto intro!: wp_intros Suc.IH)
qed (simp add: wp_simps note_sys_def)

lemma wp_probe_write:
  "wp (probe_write h text) (\<lambda>sent w'.
     probe_output w' = probe_output w \<or>
     (\<exists>n. sent = Inr n \<and> process_ended w' = None \<and> probe_output w' = probe_output w @ take n text \<and>
       (if writes_bounded (base_os h) then n \<le> length text else True))) w"
proof -
  let ?m = "write_retry (probe_os h) (retry_fuel (base_os h)) STDOUT_FILENO (bytes_of text)"
  have "wp (at_system ?m) (\<lambda>sent w'. probe_output w' = probe_output w \<and>
      (\<forall>n. sent = Inr n \<longrightarrow> (if writes_bounded (base_os h) then n \<le> length text else True))) w"
  proof (rule wp_conjI)
    have "steadily untouched_world (at_system ?m)" by (intro steady_intros)
    then show "wp (at_system ?m) (\<lambda>_ w'. probe_output w' = probe_output w) w"
      by (auto simp: steadily_def untouched_world_def wp_def split_def)
    show "wp (at_system ?m) (\<lambda>sent w'. \<forall>n. sent = Inr n \<longrightarrow>
        (if writes_bounded (base_os h) then n \<le> length text else True)) w"
      using retry_bounded[of h "retry_fuel (base_os h)" STDOUT_FILENO "bytes_of text"]
      by (auto simp: at_system_def wp_def bytes_of_def split_def)
  qed
  then show ?thesis
    unfolding probe_write_def
    by (rule wp_bindI[OF wp_mono]) (auto simp: wp_State split: sum.splits)
qed

lemma quiet_machine:
  assumes "steadily untouched_world m" "probe_output w = out"
    and "\<And>r w'. probe_output w' = out \<Longrightarrow> wp (f r) Q w'"
  shows "wp (m \<bind> f) Q w"
proof (rule wp_bindI, rule wpI)
  fix r w' assume "run_state m w = (r, w')"
  then have "probe_output w' = probe_output w"
    using steadilyD[OF assms(1)] by (auto simp: untouched_world_def)
  then show "wp (f r) Q w'" using assms(2,3) by simp
qed

lemma quiet_bind:
  assumes "steadily (on_systems untouched_world) m" "probe_output (system p) = out"
    and "\<And>r p'. probe_output (system p') = out \<Longrightarrow> wp (f r) Q p'"
  shows "wp (m \<bind> f) Q p"
proof (rule wp_bindI, rule wpI)
  fix r p' assume "run_state m p = (r, p')"
  then have "probe_output (system p') = probe_output (system p)"
    using steadilyD[OF assms(1)] by (auto simp: on_systems_def untouched_world_def)
  then show "wp (f r) Q p'" using assms(2,3) by simp
qed

lemma crash_told:
  assumes "probe_output w = out"
  shows "wp (supervisor_probe_crash_after_observer_start h directory_fd observer) (\<lambda>_. told h True out) w"
proof -
  have quiet: "wp (ret b) (\<lambda>_. told h True out) w'" if "probe_output w' = out" for b w'
    using that by (simp add: wp_return told_silent)
  have sent: "wp (probe_write h (crash_message pid uid observer now) \<bind> (\<lambda>sent.
      if sent \<noteq> Inr (length (crash_message pid uid observer now)) then ret False
      else do { end_process (Killed_by ''SIGKILL''); ret False })) (\<lambda>_. told h True out) w'"
    if "probe_output w' = out" for pid uid now w'
  proof (rule wp_bindI, rule wp_mono[OF wp_probe_write], elim disjE exE conjE)
    fix sent and w'' :: "'a probe_world" assume "probe_output w'' = probe_output w'"
    with that show "wp (if sent \<noteq> Inr (length (crash_message pid uid observer now)) then ret False
      else do { end_process (Killed_by ''SIGKILL''); ret False }) (\<lambda>_. told h True out) w''"
      by (auto simp: wp_simps end_process_def told_silent)
  next
    fix sent n and w'' :: "'a probe_world"
    assume *: "sent = Inr n" "process_ended w'' = None"
      "probe_output w'' = probe_output w' @ take n (crash_message pid uid observer now)"
      "if writes_bounded (base_os h) then n \<le> length (crash_message pid uid observer now) else True"
    have "told h True out w3" if "probe_output w3 = probe_output w''"
      "n = length (crash_message pid uid observer now) \<Longrightarrow> process_ended w3 = Some (Killed_by ''SIGKILL'')" for w3
      unfolding told_def Let_def using * that \<open>probe_output w' = out\<close>
      by (intro exI[of _ pid] exI[of _ uid] exI[of _ observer] exI[of _ now] exI[of _ n]) simp
    with * show "wp (if sent \<noteq> Inr (length (crash_message pid uid observer now)) then ret False
      else do { end_process (Killed_by ''SIGKILL''); ret False }) (\<lambda>_. told h True out) w''"
      by (simp add: wp_simps end_process_def)
  qed
  have armed: "steadily untouched_world (and_then (crash_identified h observer)
      (do { intent \<leftarrow> at_system (control_intent_read (probe_os h) directory_fd);
            ret (intent = CONTROL_INTENT_PENDING) }))"
    unfolding crash_identified_def by (intro steady_intros)
  show ?thesis
    unfolding supervisor_probe_crash_after_observer_start_def
    apply (rule quiet_machine[OF armed assms], rule wp_ifI, erule quiet)
    apply (rule quiet_machine[OF uw.calls(14)], assumption, rule wp_ifI, erule quiet)
    apply (rule quiet_machine[OF untouched_alive], assumption, rule quiet_machine[OF uw.calls(3)], assumption)
    by (rule wp_letI, rule wp_ifI, erule quiet, rule sent)
qed

lemma announce_told:
  assumes "probe_output (system p) = out"
  shows "wp (announce_observer (probe_backend h directory_fd crash) connection child recovering)
     (\<lambda>_ p'. told h crash out (system p')) p"
proof (cases "crash \<and> recovering \<and> connection \<noteq> None \<and> 0 < child")
  case True
  then show ?thesis
    using crash_told[OF assms, of h directory_fd child]
    by (auto simp: announce_observer_def probe_backend_def probe_observer_started_def wp_def in_system_def
        split: prod.splits)
next
  case False
  then have "announce_observer (probe_backend h directory_fd crash) connection child recovering =
      announce_observer (probe_backend h directory_fd False) connection child recovering"
    by (auto simp: announce_observer_def probe_backend_def probe_observer_started_def)
  then show ?thesis
    using us.announce[of h directory_fd connection child recovering] assms
    by (auto intro!: wpI told_silent dest: steadilyD simp: on_systems_def untouched_world_def)
qed

text \<open>The one place where a run may write the diagnostic is the observation of a recovery.\<close>

lemma observe_told:
  assumes "probe_output (system p) = out"
  shows "wp (observe_owned (probe_os h) abi (probe_backend h d crash) directory_fd limits report recovering wanted)
     (\<lambda>_ p'. told h crash out (system p')) p"
proof -
  have over: "wp m (\<lambda>_ p'. told h crash out (system p')) p'"
    if "steadily (on_systems untouched_world) m" "probe_output (system p') = out" for m p'
    by (rule told_steady[OF that(1) told_silent[OF that(2)]])
  show ?thesis
    unfolding observe_owned_def supervise_observer_def
    apply (rule quiet_bind[OF _ assms], (intro steady_intros)[1])
    apply (rule wp_case_optionI, rule over, (intro steady_intros)[1], assumption)
    apply (rule wp_case_prodI, rule quiet_bind, (intro steady_intros)[1], assumption)
    apply (rule wp_ifI, rule over, (intro steady_intros)[1], assumption)
    apply (rule quiet_bind, (intro steady_intros)[1], assumption, rule quiet_bind, (intro steady_intros)[1], assumption)
    apply (rule wp_case_optionI, rule over, (intro steady_intros)[1], assumption)
    apply (rule quiet_bind, rule uh.spawning, assumption, rule wp_case_prodI, rule wp_letI)
    apply (rule quiet_bind, (intro steady_intros)[1], assumption)
    apply (rule wp_bindI, rule wp_mono[OF announce_told], assumption)
    by (rule told_steady, intro steady_intros)
qed

lemma told_over:
  "steadily (on_systems untouched_world) m \<Longrightarrow> probe_output (system p) = out \<Longrightarrow>
   wp m (\<lambda>_ p'. told h crash out (system p')) p"
  by (rule told_steady) (simp_all add: told_silent)

lemma recover_told:
  assumes "probe_output (system p) = out"
  shows "wp (recover_owned (probe_os h) abi (probe_backend h d crash) directory_fd limits report)
     (\<lambda>_ p'. told h crash out (system p')) p"
  unfolding recover_owned_def
  apply (rule wp_letI, rule quiet_bind[OF _ assms], (intro steady_intros)[1])
  apply (rule wp_case_optionI, rule told_over, (intro steady_intros)[1], assumption)
  apply (rule quiet_bind, rule uh.spawning, assumption, rule wp_case_prodI, rule wp_letI)
  apply (rule wp_ifI, rule told_over, (intro steady_intros)[1], assumption)
  apply (rule quiet_bind, rule uh.phase, assumption, rule wp_case_prodI, rule wp_case_prodI)
  apply (rule quiet_bind, (intro steady_intros)[1], assumption)
  apply (rule wp_ifI, rule told_over, (intro steady_intros)[1], assumption)
  apply (rule wp_ifI, rule told_over, (intro steady_intros)[1], assumption)
  apply (rule wp_bindI, rule wp_mono[OF observe_told], assumption)
  by (rule told_steady, intro steady_intros)

lemma run_told:
  assumes "probe_output (system p) = out"
  shows "wp (worker_supervisor_run (probe_os h) abi directory_fd (probe_backend h d crash) limits None)
     (\<lambda>_ p'. told h crash out (system p')) p"
proof -
  have operation: "steadily (on_systems untouched_world)
      (run_operation (probe_os h) (probe_backend h d crash) directory_fd limits None report)" for report
    unfolding run_operation_def by (intro steady_intros)
  have owned: "wp (run_owned (probe_os h) abi (probe_backend h d crash) directory_fd limits None)
     (\<lambda>_ p'. told h crash out (system p')) p'" if "probe_output (system p') = out" for p'
    unfolding run_owned_def
    apply (rule quiet_bind[OF _ that], (intro steady_intros)[1], rule wp_letI)
    apply (rule quiet_bind, (intro steady_intros)[1], assumption)
    apply (rule quiet_bind, (intro steady_intros)[1], assumption)
    apply (rule wp_ifI, rule told_over, (intro steady_intros)[1], assumption)
    apply (rule quiet_bind, rule operation, assumption, rule wp_case_prodI)
    apply (rule quiet_bind, (intro steady_intros)[1], assumption)
    apply (rule wp_ifI, rule told_over, (intro steady_intros)[1], assumption)
    by (rule recover_told)
  show ?thesis
    unfolding worker_supervisor_run_def cancelled_def
    apply (rule quiet_bind[OF _ assms], (intro steady_intros)[1])
    apply (rule quiet_bind, (intro steady_intros)[1], assumption)
    apply (rule quiet_bind, (intro steady_intros)[1], assumption)
    apply (rule quiet_bind, (intro steady_intros; simp)[1], assumption)
    apply (rule wp_ifI, rule told_over, (intro steady_intros)[1], assumption)
    apply (rule quiet_bind, (intro steady_intros)[1], assumption)
    apply (rule wp_case_optionI, rule told_over, (intro steady_intros)[1], assumption)
    apply (rule wp_bindI, rule wp_mono[OF owned], assumption)
    by (rule told_steady, intro steady_intros)
qed

lemma supervise_told:
  assumes "probe_output (system p) = out"
  shows "wp (probe_supervise h abi directory_fd crash resume_only) (\<lambda>_ p'. told h crash out (system p')) p"
proof -
  have operation: "wp (probe_operation h abi directory_fd crash) (\<lambda>_ p'. told h crash out (system p')) p'"
    if "probe_output (system p') = out" for p'
    unfolding probe_operation_def
    apply (rule quiet_bind[OF _ that], rule us.entry_points)
    apply (rule quiet_bind, (intro steady_intros)[1], assumption, rule wp_letI)
    apply (rule quiet_bind, (intro steady_intros untouched_claim)[1], assumption)
    apply (rule wp_ifI, rule told_over, (intro steady_intros)[1], assumption)
    apply (rule wp_bindI, rule wp_mono[OF run_told], assumption)
    by (rule told_steady, intro steady_intros)
  show ?thesis
    unfolding probe_supervise_def
    apply (rule quiet_bind[OF _ assms], (intro steady_intros)[1])
    apply (rule wp_ifI, rule told_over, (intro steady_intros us.entry_points)[1], assumption)
    by (rule wp_ifI, erule operation, rule told_over, (intro steady_intros)[1])
qed

section \<open>The line is JSON\<close>

definition probe_doc :: "probe_outcome \<Rightarrow> bool \<Rightarrow> int \<Rightarrow> u32 \<Rightarrow> control_lease \<Rightarrow> json_doc" where
  "probe_doc outcome clear pid uid lease =
     (let report = final_report outcome; recovered = sup_result report = SUPERVISOR_RECOVERED
      in JObject [(''state'', JText (probe_state report clear)), (''runner_pid'', JInteger pid),
           (''runner_uid'', JNatural (unat uid)), (''resumed'', JBool (journal_resumed outcome)),
           (''admission_pid'', JInteger (observer_pid (admission outcome))),
           (''admission_samples'', JNatural (unat (admission_samples outcome))),
           (''admission_duration_ns'', JNatural (unat (admission_duration outcome))),
           (''operation_pid'', JInteger (operation_pid report)),
           (''recovery_pid'', JInteger (recovery_pid report)),
           (''observer_pid'', JInteger (observer_pid report)),
           (''reaped'', JNatural (unat (reaped_count (admission outcome) + reaped_count report))),
           (''recovery_samples'', JNatural (if recovered then unat (lease_samples lease) else 0)),
           (''recovery_duration_ns'', JNatural (if recovered then unat (window_ns lease) else 0)),
           (''journal_clear'', JBool clear)])"

lemma probe_line_doc: "probe_line outcome clear pid uid lease = render (probe_doc outcome clear pid uid lease) @ [CHR 0x0A]"
proof -
  have "text_characters (probe_state report clear) = probe_state report clear" for report
    unfolding probe_state_def by (simp, code_simp)
  then show ?thesis
    by (simp add: probe_line_def probe_doc_def Let_def json_text json_bool_def)
qed

lemma probe_doc_json: "json_value (render (probe_doc outcome clear pid uid lease))"
proof -
  have "list_all plain_name [''state'', ''runner_pid'', ''runner_uid'', ''resumed'', ''admission_pid'',
     ''admission_samples'', ''admission_duration_ns'', ''operation_pid'', ''recovery_pid'', ''observer_pid'',
     ''reaped'', ''recovery_samples'', ''recovery_duration_ns'', ''journal_clear'']"
    by code_simp
  then show ?thesis by (intro render_valid) (simp add: probe_doc_def Let_def)
qed

section \<open>The marker\<close>

definition marker_read_flags :: "open_flag list" where
  "marker_read_flags = [O_RDONLY, O_CLOEXEC, O_NOFOLLOW]"

text \<open>What reading the marker and closing descriptors log.\<close>

fun look_event :: "sys_event \<Rightarrow> bool" where
  "look_event (Opened_at name flags r) = (name = marker_name \<and> flags = marker_read_flags)"
| "look_event (Closed_fd fd b) = True"
| "look_event Ran_out = True"
| "look_event e = False"

definition marker_absent :: sys_event where
  "marker_absent = Opened_at marker_name marker_read_flags (Inl ENOENT)"

lemma logs_close [emits_intros]: "emits sys_log look_event (close_fd os fd)"
  "emits sys_log look_event (close_some os connection)"
  unfolding close_some_def close_fd_def by (intro emits_intros; simp)+

lemma logs_intent [emits_intros]: "emits sys_log look_event (control_intent_read os directory_fd)"
proof -
  have "emits sys_log look_event (read_from os fuel fd wanted got)" for fuel fd wanted got
    by (induction fuel arbitrary: got) (auto intro!: emits_intros)
  then show ?thesis
    unfolding control_intent_read_def private_directory_def read_up_to_def
    by (intro emits_intros; simp add: marker_read_flags_def)
qed

lemma intent_clear:
  "wp (control_intent_read os directory_fd)
     (\<lambda>intent p'. intent = CONTROL_INTENT_CLEAR \<longrightarrow> sys_log p' = marker_absent # sys_log p) p"
proof -
  have silent: "wp (private_directory os directory_fd) (\<lambda>_ p'. sys_log p' = sys_log p) p"
    unfolding private_directory_def
    by (auto simp: in_system_def wp_simps split_def)
  have later: "wp m (\<lambda>result _. result \<noteq> CONTROL_INTENT_CLEAR) p' \<Longrightarrow>
      wp m (\<lambda>intent p'. intent = CONTROL_INTENT_CLEAR \<longrightarrow> Q p') p'" for m Q p'
    by (erule wp_mono) simp
  show ?thesis
    unfolding control_intent_read_def
    apply (rule wp_bindI, rule wp_mono[OF silent], rule wp_ifI, simp add: wp_return)
    apply (rule wp_bindI, rule wp_logged, rule wp_case_sumI)
     apply (simp add: wp_return marker_absent_def marker_read_flags_def)
    apply (rule later, rule wp_bindI, rule wp_any, rule wp_bindI, rule wp_any, rule wp_bindI)
    apply (rule wp_mono[where Q = "\<lambda>result _. result \<noteq> CONTROL_INTENT_CLEAR"])
     apply (intro wp_intros; (rule wp_any)?; simp add: wp_return)
    apply (rule wp_bindI, rule wp_any)
    by (simp add: wp_return)
qed

section \<open>A verified run\<close>

text \<open>The end of a verified run: the lease gave its proof, the marker was removed and the directory
  synced, the ownership released; afterwards the marker was looked for, and was absent.\<close>

definition verified_log :: "int \<Rightarrow> sys_event list \<Rightarrow> bool" where
  "verified_log directory_fd history \<longleftrightarrow> (\<exists>later lock b before.
     history = later @ Closed_fd lock b # Synced directory_fd True # Unlinked marker_name True #
       Called TakeProof True # before \<and>
     observed_baseline True (lease_history before) \<and>
     marker_absent \<in> set later \<and> list_all look_event later)"

lemma verified_later:
  "verified_log directory_fd history \<Longrightarrow> list_all look_event es \<Longrightarrow> verified_log directory_fd (es @ history)"
proof -
  assume es: "list_all look_event es"
  assume "verified_log directory_fd history"
  then obtain later lock b before where
    "history = later @ Closed_fd lock b # Synced directory_fd True # Unlinked marker_name True #
       Called TakeProof True # before" "observed_baseline True (lease_history before)"
    "marker_absent \<in> set later" "list_all look_event later"
    unfolding verified_log_def by blast
  with es show ?thesis
    unfolding verified_log_def
    by (intro exI[of _ "es @ later"] exI[of _ lock] exI[of _ b] exI[of _ before]) auto
qed

lemma released_verified:
  assumes "released directory_fd report p" "sup_result report = SUPERVISOR_RECOVERED"
    and "sys_log p' = marker_absent # sys_log p"
  shows "verified_log directory_fd (sys_log p')"
  using assms unfolding released_def proved_release_def verified_log_def
  by (auto simp: marker_absent_def marker_read_flags_def intro!: exI[of _ "[Opened_at _ _ _]"])

lemma claim_ok:
  assumes "lease_ok p"
  shows "wp (probe_claim h directory_fd) (\<lambda>_. lease_ok) p"
proof -
  have at: "lease_for True p" using assms by (simp add: lease_for_def)
  have get: "keeps lease_view (State (\<lambda>p. (latest_snapshot p, p)))" by (simp add: keeps_def)
  have host: "keeps lease_view (from_host dead m)" for dead m unfolding from_host_def by (rule lv.in_system)
  have step: "wp (on_lease (\<lambda>l. control_lease_claim l owner now True intent SMC_BASELINE_OK (Some s))
      (Claim owner now True intent SMC_BASELINE_OK (Some s))) (\<lambda>_. lease_ok) p'"
    if "lease_ok p'" for owner now intent s p'
    by (rule wp_mono[OF wp_on_lease[OF that]])
      (auto intro: lease_step.intros simp: control_lease_claim_def)
  show ?thesis
    unfolding probe_claim_def
    by (rule for_bind[OF host at], rule for_bind[OF lv.clock(1)], assumption,
        rule for_bind[OF lv.intent_read], assumption, rule for_bind[OF get], assumption,
        rule step) (simp add: lease_for_def)
qed

lemma blocked_outcome: "released directory_fd blocked_report p"
  by (simp add: released_def blocked_report_def)

lemma operation_released:
  "wp (probe_operation h abi directory_fd crash)
     (\<lambda>outcome. released directory_fd (final_report outcome)) p"
proof -
  have ok: "lease_ok p'" if "baseline_proved report p'" "sup_result report = SUPERVISOR_BASELINE_READY" for report p'
    using that by (auto simp: baseline_proved_def intro: lease_okI)
  have claim: "wp (and_then (ret b) (probe_claim h directory_fd)) (\<lambda>claimed p'. claimed \<longrightarrow> lease_ok p') p'"
    if "b \<Longrightarrow> lease_ok p'" for b p'
    using that by (cases b) (auto simp: wp_and_then wp_return intro: wp_mono[OF claim_ok])
  show ?thesis
    unfolding probe_operation_def
    apply (rule wp_bindI, rule wp_mono[OF baseline_ready], rule wp_bindI, simp only: wp_get_lease)
    apply (rule wp_letI, rule wp_bindI, rule wp_mono[OF claim], erule ok, assumption)
    apply (rule wp_ifI, simp add: wp_return blocked_outcome no_outcome_def)
    by (rule wp_bindI, rule wp_mono[OF run_recovered]) (simp_all add: wp_return)
qed

lemma supervise_released:
  assumes "lease_ready p"
  shows "wp (probe_supervise h abi directory_fd crash resume_only)
     (\<lambda>outcome. released directory_fd (final_report outcome)) p"
proof -
  have at: "lease_for False p" using assms by (simp add: lease_for_def)
  show ?thesis
    unfolding probe_supervise_def
    apply (rule for_bind[OF lv.intent_read at], rule wp_ifI)
     apply (rule wp_bindI, rule wp_mono[OF resume_recovered], erule for_ready, simp add: wp_return)
    apply (rule wp_ifI, rule operation_released)
    by (simp add: wp_return blocked_outcome no_outcome_def)
qed

section \<open>What the probe prints\<close>

definition cleaned_line :: string where "cleaned_line = json ''{`cleaned`:true}'' @ [CHR 0x0A]"

text \<open>What a run may print: nothing, the line of the cleanup, or the line of a run, which says verified
  only of a verified run.\<close>

definition honest_output :: "string \<Rightarrow> sys_event list \<Rightarrow> bool" where
  "honest_output text history \<longleftrightarrow> text = [] \<or> text = cleaned_line \<or>
     (\<exists>directory_fd outcome clear pid uid lease. text = probe_line outcome clear pid uid lease \<and>
        (probe_state (final_report outcome) clear = ''verified'' \<longrightarrow> verified_log directory_fd history))"

lemma honest_json:
  "honest_output text history \<Longrightarrow>
   text = [] \<or> (\<exists>d. json_value (render d) \<and> text = render d @ [CHR 0x0A])"
proof -
  have "cleaned_line = render (JObject [(''cleaned'', JBool True)]) @ [CHR 0x0A]"
    by (simp add: cleaned_line_def json_text)
  moreover have "json_value (render (JObject [(''cleaned'', JBool True)]))"
    by (intro render_valid) (simp, code_simp)
  ultimately show "honest_output text history \<Longrightarrow> ?thesis"
    using probe_line_doc probe_doc_json unfolding honest_output_def by metis
qed

lemma honest_later:
  assumes "honest_output text history" "list_all look_event es"
  shows "honest_output text (es @ history)"
  using assms(1) verified_later[OF _ assms(2)] unfolding honest_output_def by blast

lemma state_verified:
  "probe_state report clear = ''verified'' \<longleftrightarrow> sup_result report = SUPERVISOR_RECOVERED \<and> clear"
  by (simp add: probe_state_def)

lemma wp_probe_print:
  assumes "\<And>p'. sys_log p' = sys_log p \<Longrightarrow>
     probe_output (system p') = probe_output (system p) @ text \<or>
     probe_output (system p') = probe_output (system p) \<Longrightarrow> Q () p'"
  shows "wp (probe_print text) Q p"
  using assms by (auto simp: probe_print_def in_system_def wp_State)

lemma wp_quiet_world:
  assumes "steadily (on_systems untouched_world) m"
    and "\<And>r p'. probe_output (system p') = probe_output (system p) \<Longrightarrow> Q r p'"
  shows "wp m Q p"
  using assms by (auto simp: steadily_def on_systems_def untouched_world_def wp_def split: prod.split)
    (metis snd_conv)

definition appends :: "'d probe_world parent \<Rightarrow> 'd probe_world parent \<Rightarrow> bool" where
  "appends p p' \<longleftrightarrow> (\<exists>text. probe_output (system p') = probe_output (system p) @ text \<and>
     honest_output text (sys_log p'))"

lemma appends_nothing: "probe_output (system p') = probe_output (system p) \<Longrightarrow> appends p p'"
  unfolding appends_def by (intro exI[of _ "[]"]) (simp add: honest_output_def)

lemma wp_closing:
  assumes "appends p s"
  shows "wp (do { close_fd (probe_os h) a; close_some (probe_os h) b; ret r }) (\<lambda>_. appends p) s"
proof -
  let ?m = "do { close_fd (probe_os h) a; close_some (probe_os h) b; ret r }"
  have "emits sys_log look_event ?m" by (intro emits_intros)
  moreover have "steadily (on_systems untouched_world) ?m" by (intro steady_intros)
  ultimately have "appends p s'" if run: "run_state ?m s = (x, s')" for x s'
  proof -
    obtain es where es: "sys_log s' = es @ sys_log s" "\<forall>e \<in> set es. look_event e"
      using \<open>emits sys_log look_event ?m\<close> run by (rule emitsD)
    have "probe_output (system s') = probe_output (system s)"
      using steadilyD[OF \<open>steadily (on_systems untouched_world) ?m\<close> run]
      by (simp add: on_systems_def untouched_world_def)
    then show ?thesis
      using assms es honest_later[of _ "sys_log s" es] unfolding appends_def by (auto simp: list_all_iff)
  qed
  then show ?thesis by (rule wpI)
qed

lemma wp_silent:
  assumes "steadily untouched_world m"
    and "\<And>r p'. sys_log p' = sys_log p \<Longrightarrow> probe_output (system p') = probe_output (system p) \<Longrightarrow> wp (f r) Q p'"
  shows "wp (in_system m \<bind> f) Q p"
proof (rule wp_bindI, rule wpI)
  fix r p' assume run: "run_state (in_system m) p = (r, p')"
  then have "sys_log p' = sys_log p" by (auto simp: in_system_def split: prod.splits)
  moreover have "probe_output (system p') = probe_output (system p)"
    using steadilyD[OF uw.called[OF assms(1)] run] by (simp add: on_systems_def untouched_world_def)
  ultimately show "wp (f r) Q p'" by (rule assms(2))
qed

lemma report_appends:
  assumes "released directory_fd (final_report outcome) s" and "probe_output (system s) = probe_output (system p)"
  shows "wp (probe_report h directory_fd outcome) (\<lambda>_. appends p) s"
proof -
  have line: "appends p s'"
    if shown: "probe_output (system s') = probe_output (system p) @ probe_line outcome (intent = CONTROL_INTENT_CLEAR) pid uid l \<or>
        probe_output (system s') = probe_output (system p)"
      and log: "intent = CONTROL_INTENT_CLEAR \<longrightarrow> sys_log s' = marker_absent # sys_log s" for s' intent pid uid l
  proof (cases "probe_output (system s') = probe_output (system p)")
    case False
    have "probe_state (final_report outcome) (intent = CONTROL_INTENT_CLEAR) = ''verified'' \<longrightarrow>
        verified_log directory_fd (sys_log s')"
      using released_verified[OF assms(1), of s'] log by (auto simp: state_verified)
    with False shown show ?thesis unfolding appends_def honest_output_def by blast
  qed (rule appends_nothing)
  have look: "wp (control_intent_read (probe_os h) directory_fd) (\<lambda>intent s'.
      (intent = CONTROL_INTENT_CLEAR \<longrightarrow> sys_log s' = marker_absent # sys_log s) \<and>
      probe_output (system s') = probe_output (system p)) s"
    by (rule wp_conjI[OF intent_clear wp_quiet_world]) (auto intro: steady_intros simp: assms(2))
  show ?thesis
    unfolding probe_report_def from_host_def Let_def
    apply (rule wp_bindI, rule wp_mono[OF look])
    apply (rule wp_silent, rule untouched_check)
    apply (rule wp_bindI, simp only: wp_get_lease)
    apply (rule wp_silent, rule untouched_alive, rule wp_silent, rule uw.calls)
    apply (rule wp_bindI, rule wp_probe_print)
    by (simp only: wp_return, rule line) auto
qed

lemma clean_appends:
  assumes "probe_output (system s) = probe_output (system p)"
  shows "wp (probe_clean h directory_fd lock) (\<lambda>_. appends p) s"
proof -
  have printed: "appends p s'" if "probe_output (system s') = probe_output (system p) @ cleaned_line \<or>
      probe_output (system s') = probe_output (system p)" for s'
    using that unfolding appends_def honest_output_def by (metis append_Nil2)
  have quiet: "wp (m \<bind> f) Q s'"
    if "steadily (on_systems untouched_world) m" "probe_output (system s') = probe_output (system p)"
      and "\<And>r s''. probe_output (system s'') = probe_output (system p) \<Longrightarrow> wp (f r) Q s''" for m f Q s'
    by (rule wp_bindI, rule wp_quiet_world[OF that(1)]) (use that in auto)
  show ?thesis
    unfolding probe_clean_def
    apply (rule quiet[OF _ assms], intro steady_intros)
    apply (rule quiet[OF untouched_cleanup], assumption)
    apply (rule quiet, (intro steady_intros)[1], assumption)
    apply (rule quiet, rule uw.files, assumption, rule quiet, rule uw.files, assumption)
    apply (rule wp_bindI, rule wp_ifI, rule wp_probe_print)
     apply (simp only: wp_return cleaned_line_def[symmetric], rule printed, simp)
    by (simp only: wp_return, rule printed) simp
qed

lemma setup_keeps:
  "keeps lease_view (from_host dead m)" "keeps lease_view (SupervisorProbeOpenDirectory h)"
  "keeps lease_view (supervisor_probe_lock (probe_os h) directory_fd)" "keeps lease_view (probe_complain text)"
  unfolding from_host_def SupervisorProbeOpenDirectory_def supervisor_probe_lock_def probe_complain_def
  by (intro keeps_intros; simp)+

lemma untouched_complain: "steadily (on_systems untouched_world) (probe_complain text)"
  unfolding probe_complain_def
  by (rule uw.called) (auto simp: steadily_def untouched_world_def)

definition set_out :: "'d probe_world parent \<Rightarrow> 'd probe_world parent \<Rightarrow> bool" where
  "set_out p s \<longleftrightarrow> probe_output (system s) = probe_output (system p) \<and> lease_ready s"

lemma set_out_bind:
  assumes "steadily (on_systems untouched_world) m" "keeps lease_view m" "set_out p s"
    and "\<And>r s'. set_out p s' \<Longrightarrow> wp (f r) Q s'"
  shows "wp (m \<bind> f) Q s"
proof (rule wp_bindI, rule wpI)
  fix r s' assume run: "run_state m s = (r, s')"
  have "probe_output (system s') = probe_output (system s)"
    using steadilyD[OF assms(1) run] by (simp add: on_systems_def untouched_world_def)
  moreover have "lease_view s' = lease_view s"
    using assms(2) run unfolding keeps_def by (metis snd_conv)
  ultimately have "set_out p s'" using assms(3) ready_same[of s' s] by (simp add: set_out_def)
  then show "wp (f r) Q s'" by (rule assms(4))
qed

lemma set_out_done: "set_out p s \<Longrightarrow> wp (ret r) (\<lambda>_. appends p) s"
  by (simp add: wp_return set_out_def appends_nothing)

text \<open>\<open>reported h crash out p\<close>: since \<open>out\<close> the diagnostic, if any, and then the report, if any, was
  written; a run whose diagnostic was written in full was killed and reports nothing.\<close>

definition reported :: "'d probe_host \<Rightarrow> bool \<Rightarrow> string \<Rightarrow> 'd probe_world parent \<Rightarrow> bool" where
  "reported h crash out p \<longleftrightarrow> (\<exists>pid uid observer now n report.
     let message = crash_message pid uid observer now in
     probe_output (system p) = out @ take n message @ report \<and> honest_output report (sys_log p) \<and>
     (n = 0 \<or> crash) \<and>
     (if n = length message
      then process_ended (system p) = Some (Killed_by ''SIGKILL'') \<and> report = [] else True) \<and>
     (if writes_bounded (base_os h) then n \<le> length message else True))"

lemma appends_reported: "appends p s \<Longrightarrow> reported h crash (probe_output (system p)) s"
  unfolding appends_def reported_def
  by (elim exE conjE, rule exI[of _ 0], rule exI[of _ 0], rule exI[of _ 0], rule exI[of _ 0], rule exI[of _ 0])
    (simp add: message_nonempty)

lemma told_reported:
  assumes "told h crash out (system s)" "appends s s'" "parent_world (system s) (system s')"
  shows "reported h crash out s'"
proof -
  obtain report where r: "probe_output (system s') = probe_output (system s) @ report"
    "honest_output report (sys_log s')"
    using assms(2) unfolding appends_def by blast
  have ended: "process_ended (system s) \<noteq> None \<Longrightarrow> system s' = system s"
    using assms(3) by (simp add: parent_world_def)
  then have "process_ended (system s) \<noteq> None \<Longrightarrow> report = []" using r(1) by simp
  moreover obtain pid uid observer now n where
    "let message = crash_message pid uid observer now in
     probe_output (system s) = out @ take n message \<and> (n = 0 \<or> crash) \<and>
     (if n = length message then process_ended (system s) = Some (Killed_by ''SIGKILL'') else True) \<and>
     (if writes_bounded (base_os h) then n \<le> length message else True)"
    using assms(1) unfolding told_def by blast
  ultimately show ?thesis
    using r ended unfolding reported_def Let_def
    by (intro exI[of _ pid] exI[of _ uid] exI[of _ observer] exI[of _ now] exI[of _ n] exI[of _ report])
      (auto split: if_splits)
qed

lemma supervised_appends:
  assumes "set_out p s"
  shows "wp (do {
     outcome \<leftarrow> probe_supervise h abi directory_fd crash resume_only;
     probe_report h directory_fd outcome;
     close_fd (probe_os h) lock;
     close_some (probe_os h) directory;
     ret code
   }) (\<lambda>_. reported h crash (probe_output (system p))) s"
proof -
  have supervised: "wp (probe_supervise h abi directory_fd crash resume_only) (\<lambda>outcome s'.
      released directory_fd (final_report outcome) s' \<and> told h crash (probe_output (system p)) (system s')) s"
    using assms by (intro wp_conjI supervise_released supervise_told) (simp_all add: set_out_def)
  have rest: "wp (do {
     probe_report h directory_fd outcome;
     close_fd (probe_os h) lock;
     close_some (probe_os h) directory;
     ret code
   }) (\<lambda>_ p'. appends s' p' \<and> parent_world (system s') (system p')) s'"
    if "released directory_fd (final_report outcome) s'" for outcome s'
  proof (rule wp_conjI)
    let ?m = "do {
     probe_report h directory_fd outcome;
     close_fd (probe_os h) lock;
     close_some (probe_os h) directory;
     ret code
    }"
    show "wp ?m (\<lambda>_ p'. appends s' p') s'"
      by (rule wp_bindI, rule wp_mono[OF report_appends[OF that]], simp, rule wp_closing)
    have "steadily (on_systems parent_world) ?m"
      unfolding probe_report_def
      by (intro steady_intros parent_print untouched_from_host[THEN parent_steady]
          steadily_mono[OF untouched_check(2) untouched_parent])
    then show "wp ?m (\<lambda>_ p'. parent_world (system s') (system p')) s'"
      by (auto intro!: wpI dest: steadilyD simp: on_systems_def)
  qed
  show ?thesis
    by (rule wp_bindI[OF wp_mono[OF supervised]])
      (auto intro: wp_mono[OF rest] told_reported)
qed

definition crash_mode :: "string list \<Rightarrow> bool" where
  "crash_mode argv \<longleftrightarrow> length argv = 2 \<and> strcmp_eq (argv ! 1) ''--crash-observer''"

lemma main_appends:
  assumes "lease_ready p"
  shows "wp (probe_main h abi argv) (\<lambda>_. reported h (crash_mode argv) (probe_output (system p))) p"
proof -
  have start: "set_out p p" using assms by (simp add: set_out_def)
  have over: "wp (ret r) (\<lambda>_. reported h (crash_mode argv) (probe_output (system p))) s" if "set_out p s" for r s
    using set_out_done[OF that] by (simp add: wp_return appends_reported)
  show ?thesis
    unfolding probe_main_def Let_def
    apply (rule set_out_bind[OF untouched_from_host setup_keeps(1) start])
    apply (rule set_out_bind, (intro steady_intros)[1], rule lv.in_system, assumption)
    apply (rule wp_ifI, rule set_out_bind[OF untouched_complain setup_keeps(4)], assumption, rule over,
        assumption)
    apply (rule set_out_bind[OF untouched_from_host setup_keeps(1)], assumption)
    apply (rule set_out_bind, (intro steady_intros)[1], rule lv.in_system, assumption)
    apply (rule wp_ifI, rule over, assumption)
    apply (rule set_out_bind[OF untouched_setup(1) setup_keeps(2)], assumption)
    apply (rule set_out_bind, (intro steady_intros untouched_setup)[1], (intro keeps_intros setup_keeps)[1], assumption)
    apply (rule wp_case_optionI)
     apply (rule set_out_bind[OF uw.files(2) lv.close_some], assumption)
     apply (rule set_out_bind[OF untouched_complain setup_keeps(4)], assumption, rule over, assumption)
    apply (rule wp_ifI, rule wp_mono[OF clean_appends], simp add: set_out_def, erule appends_reported)
    unfolding crash_mode_def by (rule supervised_appends)
qed

text \<open>The process as \<open>main\<close> finds it: a zeroed lease and snapshot, nothing printed.\<close>

definition probe_start :: "'d \<Rightarrow> 'd probe_world parent" where
  "probe_start d = \<lparr>system = \<lparr>machine = d, smc_trace = [], probe_output = [], probe_errors = [],
     process_ended = None\<rparr>, the_lease = Some zero_lease, latest_snapshot = zero_snapshot, sys_log = []\<rparr>"

text \<open>C17: Whatever its arguments, its machine and the moment its process ends, the probe's standard
  output is at most one crash diagnostic, whole or cut short and only with \<open>--crash-observer\<close>, and then
  nothing, the line of a cleanup, or one JSON line on a run. A process whose diagnostic was written in
  full was killed by it and reports nothing after it; where \<open>write\<close> never writes more than it is given, a
  diagnostic followed by a line was cut short. The line says verified only when the lease gave its
  recovery proof after a full observation, the marker was then removed and the directory synced, the
  ownership was released, and the marker was looked for again and found absent.\<close>

theorem probe_output_honest:
  "case run_state (probe_main h abi argv) (probe_start d) of (code, p') \<Rightarrow>
     \<exists>pid uid observer now n report. let diagnostic = crash_message pid uid observer now in
       probe_output (system p') = take n diagnostic @ report \<and>
       (n = 0 \<or> crash_mode argv) \<and>
       (if n = length diagnostic
        then process_ended (system p') = Some (Killed_by ''SIGKILL'') \<and> report = [] else True) \<and>
       (if writes_bounded (base_os h) then n \<le> length diagnostic else True) \<and>
       honest_output report (sys_log p') \<and>
       (report = [] \<or> (\<exists>line. json_value (render line) \<and> report = render line @ [CHR 0x0A]))"
proof -
  have "lease_ready (probe_start d)" by (simp add: lease_ready_def probe_start_def)
  from main_appends[OF this, of h abi argv] obtain code p' where
    run: "run_state (probe_main h abi argv) (probe_start d) = (code, p')"
    and out: "reported h (crash_mode argv) [] p'"
    by (auto simp: wp_def probe_start_def split: prod.splits)
  from out obtain pid uid observer now n report where r: "let message = crash_message pid uid observer now in
     probe_output (system p') = [] @ take n message @ report \<and> honest_output report (sys_log p') \<and>
     (n = 0 \<or> crash_mode argv) \<and>
     (if n = length message
      then process_ended (system p') = Some (Killed_by ''SIGKILL'') \<and> report = [] else True) \<and>
     (if writes_bounded (base_os h) then n \<le> length message else True)"
    unfolding reported_def by blast
  then have "honest_output report (sys_log p')" by (simp add: Let_def)
  then have "report = [] \<or> (\<exists>line. json_value (render line) \<and> report = render line @ [CHR 0x0A])"
    by (rule honest_json)
  with r run show ?thesis unfolding Let_def
    by (simp only: prod.case append_Nil) blast
qed

section \<open>The cleanup\<close>

fun calm_event :: "sys_event \<Rightarrow> bool" where
  "calm_event (Unlinked name b) = False"
| "calm_event (Forked role child) = False"
| "calm_event (Killed child) = False"
| "calm_event (Called c b) = False"
| "calm_event e = True"

text \<open>The log since \<open>log0\<close>: only events of a kind, some of them known.\<close>

definition grown :: "sys_event list \<Rightarrow> (sys_event \<Rightarrow> bool) \<Rightarrow> sys_event set \<Rightarrow> 'd parent \<Rightarrow> bool" where
  "grown log0 P known p \<longleftrightarrow> (\<exists>es. sys_log p = es @ log0 \<and> (\<forall>e \<in> set es. P e) \<and> known \<subseteq> set es)"

lemma grown_step:
  assumes "grown log0 P known s" "sys_log s' = e # sys_log s" "P e"
  shows "grown log0 P (insert e known) s'"
proof -
  obtain es where "sys_log s = es @ log0" "\<forall>e \<in> set es. P e" "known \<subseteq> set es"
    using assms(1) unfolding grown_def by blast
  with assms(2,3) show ?thesis unfolding grown_def by (intro exI[of _ "e # es"]) auto
qed

lemma grown_emits:
  assumes "emits sys_log P m" "grown log0 P known s" "\<And>r s'. grown log0 P known s' \<Longrightarrow> Q r s'"
  shows "wp m Q s"
proof (rule wpI)
  fix r s' assume run: "run_state m s = (r, s')"
  obtain fs where fs: "sys_log s' = fs @ sys_log s" "\<forall>e \<in> set fs. P e"
    using assms(1) run by (rule emitsD)
  obtain es where "sys_log s = es @ log0" "\<forall>e \<in> set es. P e" "known \<subseteq> set es"
    using assms(2) unfolding grown_def by blast
  with fs have "grown log0 P known s'" unfolding grown_def by (intro exI[of _ "fs @ es"]) auto
  then show "Q r s'" by (rule assms(3))
qed

lemma look_calm: "look_event e \<Longrightarrow> calm_event e"
  by (cases e) auto

lemma calm_files [emits_intros]:
  "emits sys_log calm_event (control_intent_read os directory_fd)"
  "emits sys_log calm_event (close_fd os fd)"
  "emits sys_log P (private_directory os directory_fd)" "emits sys_log P (private_file os fd)"
  "emits sys_log calm_event (old_worker_absent os directory_fd pending)"
  "emits sys_log calm_event (supervisor_ownership_record os directory_fd child)"
proof -
  show "emits sys_log calm_event (control_intent_read os directory_fd)"
    by (rule emits_mono[OF logs_intent look_calm])
  show "emits sys_log calm_event (close_fd os fd)" by (rule emits_mono[OF logs_close(1) look_calm])
  show d: "emits sys_log P (private_directory os directory_fd)" for P directory_fd
    unfolding private_directory_def by (intro emits_intros)
  show f: "emits sys_log P (private_file os fd)" for P fd
    unfolding private_file_def by (intro emits_intros)
  show "emits sys_log calm_event (old_worker_absent os directory_fd pending)"
    unfolding old_worker_absent_def by (intro emits_intros f; simp)
  have "emits sys_log calm_event (write_from os fuel fd contents written)" for fuel fd contents written
    by (induction fuel arbitrary: written) (auto intro!: emits_intros)
  then show "emits sys_log calm_event (supervisor_ownership_record os directory_fd child)"
    unfolding supervisor_ownership_record_def write_all_def by (intro emits_intros d f; simp)
qed

lemma absent_calm: "calm_event marker_absent"
  by (simp add: marker_absent_def)

lemma grown_mono: "grown log0 P known s \<Longrightarrow> known' \<subseteq> known \<Longrightarrow> grown log0 P known' s"
  unfolding grown_def by blast

lemma grown_logged:
  assumes "grown log0 P known s" "\<And>r. P (e r)"
    and "\<And>r s'. grown log0 P (insert (e r) known) s' \<Longrightarrow> Q r s'"
  shows "wp (logged_call m e) Q s"
  by (rule wp_logged, rule assms(3), rule grown_step[OF assms(1) _ assms(2)])

definition owned_known :: "int option \<Rightarrow> sys_event set \<Rightarrow> bool" where
  "owned_known r known \<longleftrightarrow> r \<noteq> None \<longrightarrow> marker_absent \<in> known \<and> (\<exists>fd. Locked fd True \<in> known)"

lemma acquire_grown:
  assumes "grown log0 calm_event {} p"
  shows "wp (supervisor_ownership_acquire os directory_fd False)
    (\<lambda>r p'. \<exists>known. owned_known r known \<and> grown log0 calm_event known p') p"
proof -
  have fail: "wp (ret None) (\<lambda>r p'. \<exists>known. owned_known r known \<and> grown log0 calm_event known p') s"
    if "grown log0 calm_event known s" for known s
    using that by (auto simp: wp_return owned_known_def)
  have close_fail: "wp (do { logged_call (sys_close os d) (Closed_fd d); ret None })
      (\<lambda>r p'. \<exists>known. owned_known r known \<and> grown log0 calm_event known p') s"
    if "grown log0 calm_event known s" for known s d
    by (rule wp_bindI, rule grown_logged[OF that], simp, rule fail)
  have intent: "wp (do { intent \<leftarrow> control_intent_read os directory_fd; ret (intent = CONTROL_INTENT_CLEAR) })
      (\<lambda>b s'. grown log0 calm_event (if b then insert marker_absent known else known) s') s"
    if g: "grown log0 calm_event known s" for known s
  proof -
    have "wp (control_intent_read os directory_fd) (\<lambda>i s'.
        (i = CONTROL_INTENT_CLEAR \<longrightarrow> sys_log s' = marker_absent # sys_log s) \<and> grown log0 calm_event known s') s"
      by (rule wp_conjI[OF intent_clear], rule grown_emits[OF calm_files(1) g])
    then show ?thesis
      using grown_step[OF g _ absent_calm]
      by (intro wp_bindI) (erule wp_mono, auto simp: wp_return)
  qed
  have known: "\<exists>known. (b \<longrightarrow> marker_absent \<in> known \<and> Locked d True \<in> known) \<and> grown log0 calm_event known s"
    if "grown log0 calm_event k s" "b \<Longrightarrow> marker_absent \<in> k \<and> Locked d True \<in> k" for b k s d
    using that by blast
  have admit: "wp (and_then (private_file os d) (and_then (logged_call (sys_flock os d) (Locked d))
        (and_then (do { intent \<leftarrow> control_intent_read os directory_fd; ret (intent = CONTROL_INTENT_CLEAR) })
          (old_worker_absent os directory_fd False))))
      (\<lambda>b s'. \<exists>known. (b \<longrightarrow> marker_absent \<in> known \<and> Locked d True \<in> known) \<and> grown log0 calm_event known s') s"
    if "grown log0 calm_event known s" for known s d
    apply (rule wp_and_thenI, rule grown_emits[OF calm_files(4) that], rule if_boolI)
     apply (rule wp_and_thenI, rule grown_logged, assumption, simp, rule if_boolI)
      apply (rule wp_and_thenI, rule wp_mono[OF intent], assumption, rule if_boolI)
       apply (simp only: if_True, rule grown_emits[OF calm_files(5)], assumption, erule known, simp)
      apply (erule known, simp)+
    done
  show ?thesis
    unfolding supervisor_ownership_acquire_def if_False
    apply (rule wp_bindI, rule grown_emits[OF calm_files(3) assms], rule wp_ifI, rule fail, assumption)
    apply (rule wp_bindI, rule grown_logged, assumption, simp, rule wp_case_sumI, rule fail, assumption)
    apply (rule wp_bindI, rule wp_mono[OF admit], assumption, elim exE conjE, rule wp_ifI)
     apply (rule wp_bindI, rule grown_emits[where P = calm_event], (intro emits_intros; simp)[1], assumption, rule fail, assumption)
    apply (rule wp_bindI, rule grown_emits[where P = calm_event], (intro emits_intros; simp)[1], assumption)
    apply (rule wp_bindI, rule grown_emits[where P = calm_event], (intro emits_intros; simp)[1], assumption)
    apply (rule wp_ifI, rule close_fail, assumption)
    by (auto simp: wp_return owned_known_def)
qed

text \<open>What is removed, and after what.\<close>

fun cleanup_event :: "sys_event \<Rightarrow> bool" where
  "cleanup_event (Unlinked name b) = (name \<in> set (launch_name # probe_files))"
| "cleanup_event e = calm_event e"

lemma calm_cleanup: "calm_event e \<Longrightarrow> cleanup_event e"
  by (cases e) auto

definition removals_owned :: "int \<Rightarrow> int \<Rightarrow> sys_event list \<Rightarrow> sys_event list \<Rightarrow> bool" where
  "removals_owned directory_fd code log0 history \<longleftrightarrow> (\<exists>after before. history = after @ before @ log0 \<and>
     list_all calm_event before \<and> list_all cleanup_event after \<and>
     (list_ex (\<lambda>e. \<not> calm_event e) after \<longrightarrow>
        marker_absent \<in> set before \<and> (\<exists>fd. Locked fd True \<in> set before)) \<and>
     (code = 0 \<longrightarrow> Unlinked launch_name True \<in> set after \<and> Synced directory_fd True \<in> set after))"

lemma owned_removals:
  assumes "grown log0 calm_event known p1" "marker_absent \<in> known" "Locked fd True \<in> known"
    and "grown (sys_log p1) cleanup_event known' p'"
    and "code = 0 \<Longrightarrow> {Unlinked launch_name True, Synced directory_fd True} \<subseteq> known'"
  shows "removals_owned directory_fd code log0 (sys_log p')"
proof -
  obtain before where "sys_log p1 = before @ log0" "\<forall>e \<in> set before. calm_event e" "known \<subseteq> set before"
    using assms(1) unfolding grown_def by blast
  moreover obtain after where "sys_log p' = after @ sys_log p1" "\<forall>e \<in> set after. cleanup_event e"
    "known' \<subseteq> set after"
    using assms(4) unfolding grown_def by blast
  ultimately show ?thesis
    using assms(2,3,5) unfolding removals_owned_def
    by (intro exI[of _ after] exI[of _ before]) (auto simp: list_all_iff)
qed

lemma calm_removals:
  assumes "grown log0 calm_event known p'"
  shows "removals_owned directory_fd 2 log0 (sys_log p')"
proof -
  obtain before where "sys_log p' = before @ log0" "\<forall>e \<in> set before. calm_event e"
    using assms unfolding grown_def by blast
  then show ?thesis
    unfolding removals_owned_def by (intro exI[of _ "[]"] exI[of _ before]) (auto simp: list_all_iff)
qed

lemma remove_emits:
  "set names \<subseteq> set (launch_name # probe_files) \<Longrightarrow>
   emits sys_log cleanup_event (remove_files h directory_fd names removed)"
  by (induction names arbitrary: removed) (auto simp: unlink_probe_def intro!: emits_intros)

definition clean_end :: "'d probe_host \<Rightarrow> int \<Rightarrow> int \<Rightarrow> bool \<Rightarrow> ('d probe_world parent, int) state" where
  "clean_end h directory_fd lock clean = do {
     clean \<leftarrow> and_then (ret clean)
       (and_then (do { e \<leftarrow> unlink_probe h directory_fd launch_name; ret (e = None) })
         (from_host False (remove_directory h probe_directory_path)));
     close_fd (probe_os h) lock;
     close_fd (probe_os h) directory_fd;
     (if clean then probe_print cleaned_line else ret ());
     ret (if clean then 0 else 2)
   }"

lemma logs_print [emits_intros]:
  "emits sys_log P (probe_print text)" "emits sys_log P (from_host dead m)"
  unfolding probe_print_def from_host_def by (intro emits_intros)+

lemma unlink_grown:
  assumes "grown log1 cleanup_event K s" "name \<in> set (launch_name # probe_files)"
    and "\<And>r s'. grown log1 cleanup_event (insert (Unlinked name (r = None)) K) s' \<Longrightarrow> Q r s'"
  shows "wp (unlink_probe h directory_fd name) Q s"
  unfolding unlink_probe_def by (rule grown_logged[OF assms(1)]) (use assms(2,3) in auto)

lemma clean_end_grown:
  assumes "grown log1 cleanup_event K s" and "c \<Longrightarrow> Synced directory_fd True \<in> K"
  shows "wp (clean_end h directory_fd lock c) (\<lambda>code p'. \<exists>K. grown log1 cleanup_event K p' \<and>
    (code = 0 \<longrightarrow> {Unlinked launch_name True, Synced directory_fd True} \<subseteq> K)) s"
proof -
  have closing: "emits sys_log cleanup_event (close_fd (probe_os h) fd)" for fd
    by (rule emits_mono[OF calm_files(2) calm_cleanup])
  have finish: "wp (do {
       close_fd (probe_os h) lock;
       close_fd (probe_os h) directory_fd;
       (if clean then probe_print cleaned_line else ret ());
       ret (if clean then 0 else 2)
     }) (\<lambda>code p'. \<exists>K. grown log1 cleanup_event K p' \<and>
    (code = (0::int) \<longrightarrow> {Unlinked launch_name True, Synced directory_fd True} \<subseteq> K)) s"
    if "grown log1 cleanup_event K s" "clean \<Longrightarrow> {Unlinked launch_name True, Synced directory_fd True} \<subseteq> K"
    for K clean s
    apply (rule wp_bindI, rule grown_emits[OF closing that(1)])
    apply (rule wp_bindI, rule grown_emits[OF closing], assumption)
    apply (rule wp_bindI, rule grown_emits[where P = cleanup_event], (intro emits_intros)[1], assumption)
    using that(2) by (auto simp: wp_return)
  show ?thesis
    unfolding clean_end_def
    apply (rule wp_bindI, rule wp_and_thenI, simp only: wp_return, rule if_boolI)
     apply (rule wp_and_thenI, rule wp_bindI, rule unlink_grown[OF assms(1)], simp)
     apply (simp only: wp_return, rule if_boolI)
      apply (rule grown_emits[where P = cleanup_event], (intro emits_intros)[1], assumption)
      apply (erule finish) using assms(2) apply simp
     apply (erule finish, simp)
    by (rule finish[OF assms(1)]) simp
qed

lemma option_case_bind:
  fixes m :: "('s, 'b) state" and f :: "'b \<Rightarrow> ('s, 'c) state"
  shows "(case r of None \<Rightarrow> m | Some x \<Rightarrow> g x) \<bind> f = (case r of None \<Rightarrow> m \<bind> f | Some x \<Rightarrow> g x \<bind> f)"
  by (cases r) simp_all

lemma probe_clean_parts:
  "probe_clean h directory_fd lock = do {
     in_system (check_owner h);
     ownership \<leftarrow> supervisor_ownership_acquire (probe_os h) directory_fd False;
     case ownership of
       None \<Rightarrow> clean_end h directory_fd lock False
     | Some owned \<Rightarrow> do {
         removed \<leftarrow> remove_files h directory_fd probe_files True;
         synced \<leftarrow> logged_call (sys_fsync (probe_os h) directory_fd) (Synced directory_fd);
         close_fd (probe_os h) owned;
         clean_end h directory_fd lock (removed \<and> synced)
       }
   }"
  unfolding probe_clean_def supervisor_probe_cleanup_def clean_end_def cleaned_line_def
  by (simp add: option_case_bind cong: option.case_cong)

text \<open>C19: The cleanup removes only the launch file and the five files of the supervisor and its executable,
  never the intent marker, and only after it holds the ownership lock and has seen that there is no
  marker; it reports success only when the launch file is removed and the directory synced.\<close>

theorem cleanup_owned:
  "(case run_state (probe_clean h directory_fd lock) p of (code, p') \<Rightarrow>
      removals_owned directory_fd code (sys_log p) (sys_log p')) \<and>
   marker_name \<notin> set (launch_name # probe_files)"
proof
  show "marker_name \<notin> set (launch_name # probe_files)" by code_simp
  have "grown (sys_log p) calm_event {} p" by (simp add: grown_def)
  have closed: "emits sys_log calm_event (clean_end h directory_fd lock False)"
    unfolding clean_end_def and_then_def by (simp, intro emits_intros)
  have ended: "wp (clean_end h directory_fd lock False) (\<lambda>code p'. code = 2) s" for s
    unfolding clean_end_def and_then_def by (simp, rule wp_bindI, rule wp_any, rule wp_bindI, rule wp_any, simp add: wp_return)
  have kept: "emits sys_log cleanup_event (close_fd (probe_os h) fd)" for fd
    by (rule emits_mono[OF calm_files(2) calm_cleanup])
  have owned: "wp (do {
         removed \<leftarrow> remove_files h directory_fd probe_files True;
         synced \<leftarrow> logged_call (sys_fsync (probe_os h) directory_fd) (Synced directory_fd);
         close_fd (probe_os h) fd;
         clean_end h directory_fd lock (removed \<and> synced)
       }) (\<lambda>code p'. removals_owned directory_fd code log0 (sys_log p')) s"
    if "grown log0 calm_event known s" and mine: "owned_known (Some fd) known" for known s log0 fd
  proof -
    obtain lock_fd where k: "marker_absent \<in> known" "Locked lock_fd True \<in> known"
      using mine by (auto simp: owned_known_def)
    have start: "grown (sys_log s) cleanup_event {} s" by (simp add: grown_def)
    have "wp (do {
         removed \<leftarrow> remove_files h directory_fd probe_files True;
         synced \<leftarrow> logged_call (sys_fsync (probe_os h) directory_fd) (Synced directory_fd);
         close_fd (probe_os h) fd;
         clean_end h directory_fd lock (removed \<and> synced)
       }) (\<lambda>code p'. \<exists>K. grown (sys_log s) cleanup_event K p' \<and>
         (code = 0 \<longrightarrow> {Unlinked launch_name True, Synced directory_fd True} \<subseteq> K)) s"
      apply (rule wp_bindI, rule grown_emits[OF remove_emits start], force)
      apply (rule wp_bindI, rule grown_logged, assumption, simp)
      apply (rule wp_bindI, rule grown_emits[OF kept], assumption)
      by (erule clean_end_grown) simp
    then show ?thesis by (rule wp_mono) (use owned_removals[OF that(1) k] in blast)
  qed
  have none: "wp (clean_end h directory_fd lock False)
      (\<lambda>code p'. removals_owned directory_fd code log0 (sys_log p')) s"
    if "grown log0 calm_event known s" for log0 known s
    by (rule wp_mono[OF wp_conjI[OF ended grown_emits[OF closed that,
      where Q = "\<lambda>_ s'. grown log0 calm_event known s'"]]])
      (auto intro: calm_removals)
  have start: "grown (sys_log p) calm_event {} p" by (simp add: grown_def)
  have "wp (probe_clean h directory_fd lock)
      (\<lambda>code p'. removals_owned directory_fd code (sys_log p) (sys_log p')) p"
    unfolding probe_clean_parts
    apply (rule wp_bindI, rule grown_emits[OF logs_system start])
    apply (rule wp_bindI, rule wp_mono[OF acquire_grown], assumption, elim exE conjE, rule wp_case_optionI)
     apply (erule none)
    by (rule owned) simp_all
  then show "case run_state (probe_clean h directory_fd lock) p of (code, p') \<Rightarrow>
      removals_owned directory_fd code (sys_log p) (sys_log p')"
    by (simp add: wp_def split: prod.split)
qed

section \<open>Requests\<close>

lemma child_read: "steadily child_world (probe_read h)"
proof -
  have "emits io_events only_reads (smc_baseline_read (base_driver h) (Some zero_snapshot))"
    by (rule baseline_reads)
  then have "child_world w (snd (run_state (probe_read h) w))" for w
    unfolding probe_read_def child_world_def emits_def by (auto split: prod.splits) (metis io_world.select_convs(2) snd_conv)
  then show ?thesis by (simp add: steadily_def)
qed

lemma child_callbacks: "steadily child_world (check_only h)" "steadily child_world (probe_read_baseline h crash)"
proof -
  have e: "steadily child_world (end_process e)" for e
    by (rule steadily_mono[OF untouched_end untouched_child])
  show "steadily child_world (check_only h)"
    unfolding check_only_def by (intro steady_intros child_read)
  show "steadily child_world (probe_read_baseline h crash)"
    unfolding probe_read_baseline_def by (intro steady_intros child_read e)
qed

lemma parent_main: "steadily (on_systems parent_world) (probe_main h abi argv)"
  unfolding probe_main_def probe_report_def probe_clean_def
  by (intro steady_intros parent_print untouched_complain[THEN parent_steady]
      untouched_setup[THEN parent_steady] untouched_cleanup[THEN parent_steady]
      parent_supervise untouched_from_host[THEN parent_steady]
      untouched_unlink[THEN parent_steady] steadily_mono[OF untouched_check(2) untouched_parent]
      steadily_mono[OF untouched_enter untouched_parent])

text \<open>C20: No process of the probe can write to the controller: the supervising process sends it nothing, and
  its workers, the ones that check and the ones that observe, send only the helper's read requests.
  A process that has ended changes nothing any more.\<close>

theorem probe_only_reads:
  "parent_world (system p) (system (snd (run_state (probe_main h abi argv) p))) \<and>
   child_world (system p) (system (snd (run_state
     (action_child (probe_os h) directory_fd (check_only h) deadline ours theirs) p))) \<and>
   child_world (system p) (system (snd (run_state
     (observer_child (probe_os h) abi directory_fd (probe_read_baseline h crash) deadline ours theirs
        input outlet) p)))"
  using parent_main[of h abi argv] cw.action[OF child_callbacks(1), of h directory_fd h deadline ours theirs]
    cw.observer[OF child_callbacks(2), of h abi directory_fd h crash deadline ours theirs input outlet]
  by (simp add: steadily_def on_systems_def)

end
