(* ===== verification/WorkerRecord.thy ===== *)
theory WorkerRecord
  imports WorkerOwnership
begin

text \<open>
  The durable worker record is read back as it was written: the decimal printer and the \<open>sscanf\<close>
  reader of \<open>prototype/helper-ipc/SupervisorOwnership.c\<close> agree on every process id.
\<close>

section \<open>The record\<close>

lemma digit_plain: "is_digit c \<Longrightarrow> \<not> is_space c \<and> c \<noteq> CHR ''-'' \<and> c \<noteq> CHR ''+'' \<and> c \<noteq> CHR 0x00"
  by (auto simp: is_digit_def is_space_def)

lemma text_bytes: "text_of (bytes_of s) = s"
proof -
  have "char_of (unat (word_of_nat (of_char c) :: u8)) = c" for c
  proof -
    have "(of_char c :: nat) < 256" using nat_of_char_less_256[of c] by simp
    then show ?thesis by (simp add: unat_of_nat)
  qed
  then show ?thesis by (simp add: text_of_def bytes_of_def comp_def)
qed

lemma literal_prefix:
  assumes "is_digit c"
  shows "scan_literal record_prefix (record_prefix @ c # rest) = Some (c # rest)"
  using digit_plain[OF assms] by (simp add: record_prefix_def is_space_def)

lemma decimal_taken:
  "takeWhile is_digit (decimal n @ [CHR 0x0A]) = decimal n"
  "dropWhile is_digit (decimal n @ [CHR 0x0A]) = [CHR 0x0A]"
  using decimal_digits[of n] by (simp_all add: list_all_iff takeWhile_append dropWhile_append is_digit_def)

lemma decimal_cases: obtains c cs where "decimal n = c # cs" and "is_digit c"
  using decimal_not_empty[of n] decimal_digits[of n] by (cases "decimal n") auto

lemma scan_decimal: "scan_long (decimal n @ [CHR 0x0A]) = Some (int n, [CHR 0x0A])"
proof -
  obtain c cs where c: "decimal n = c # cs" "is_digit c" by (rule decimal_cases)
  then have "dropWhile is_space (decimal n @ [CHR 0x0A]) = decimal n @ [CHR 0x0A]"
    by (simp add: digit_plain)
  then show ?thesis
    using c digit_plain[OF c(2)] decimal_taken[of n] decimal_value[of n]
    by (simp add: scan_long_def Let_def)
qed

lemma record_of: "0 \<le> child \<Longrightarrow> worker_record child = record_prefix @ decimal (nat child) @ [CHR 0x0A]"
  by (simp add: worker_record_def)

lemma record_c_string: "0 \<le> child \<Longrightarrow> c_string (worker_record child) = worker_record child"
  using decimal_digits[of "nat child"] digit_plain
  by (auto simp: record_of c_string_def record_prefix_def list_all_iff takeWhile_eq_all_conv)

lemma scan_written:
  assumes "0 \<le> child"
  shows "scan_record (worker_record child) = Some (child, length (worker_record child))"
proof -
  obtain c cs where c: "decimal (nat child) = c # cs" "is_digit c" by (rule decimal_cases)
  show ?thesis
    using literal_prefix[OF c(2), of "cs @ [CHR 0x0A]"] scan_decimal[of "nat child"] assms
    by (simp add: scan_record_def record_c_string Let_def) (simp add: record_of c is_space_def)
qed

lemma recorded_written:
  "0 \<le> child \<Longrightarrow> child \<le> INT_MAX \<Longrightarrow> recorded_worker (bytes_of (worker_record child)) = Some child"
proof -
  have "length (bytes_of (worker_record child)) = length (worker_record child)" by (simp add: bytes_of_def)
  then show "0 \<le> child \<Longrightarrow> child \<le> INT_MAX \<Longrightarrow> ?thesis"
    by (simp add: recorded_worker_def text_bytes scan_written)
qed

text \<open>C21: The record of a process id from 0 to INT_MAX fits the reader's buffer of 63 bytes, and the
  check of the previous worker reads back exactly that process id.\<close>

theorem worker_record_roundtrip:
  assumes "0 \<le> child" and "child \<le> INT_MAX"
  shows "recorded_worker (bytes_of (worker_record child)) = Some child \<and> length (worker_record child) < 64"
proof -
  have "nat child < 10 ^ Suc 9" using assms(2) by (simp add: INT_MAX_def)
  then have "length (worker_record child) < 64"
    using decimal_length[of "nat child" 9] assms(1) by (simp add: record_of record_prefix_def)
  then show ?thesis using assms by (simp add: recorded_written)
qed

theorem worker_record_roundtrip_witness:
  "recorded_worker (bytes_of (worker_record 2147483647)) = Some 2147483647"
  using worker_record_roundtrip[of 2147483647] by (simp add: INT_MAX_def)

end
