(* ===== verification/HelperExamples.thy ===== *)
theory HelperExamples
  imports ControlLease
begin

text \<open>
  Closed examples for the properties of the helper's observers: a machine that stays in the system
  baseline at 40 C and is sampled exactly once a second. \<open>steady_lease\<close> and \<open>steady_watch\<close> are the
  observers after \<open>k\<close> further samples.
\<close>

definition steady_snapshot :: smc_baseline_snapshot where
  "steady_snapshot = \<lparr>snap_ftst = 0, snap_mode = \<lambda>_. 3, snap_target_rpm = \<lambda>_. Fin 0,
     snap_actual_rpm = \<lambda>_. Fin 1200, snap_temperatures_c = \<lambda>_. Fin 40\<rparr>"

definition second_ns :: "nat \<Rightarrow> u64" where
  "second_ns k = of_nat (Suc k * 1000000000)"

definition steady_reading :: "nat \<Rightarrow> reading" where
  "steady_reading k = (SMC_BASELINE_OK, Some steady_snapshot, second_ns k)"

lemma steady_baseline: "smc_baseline_is_system (Some steady_snapshot)"
  by (simp add: snapshot_is_system_iff steady_snapshot_def)

lemma steady_cool: "cool_enough steady_snapshot"
  by (simp add: cool_enough_def steady_snapshot_def smc_baseline_temperature_valid_def upt_small)

lemma second_ns_unat: "k < 1000 \<Longrightarrow> unat (second_ns k) = Suc k * 1000000000"
proof -
  assume "k < 1000"
  then have "Suc k * 1000000000 < 2 ^ LENGTH(64)" by simp
  then show ?thesis unfolding second_ns_def by (rule of_nat_inverse[OF refl])
qed

lemma second_ns_step:
  "second_ns (Suc k) - second_ns k = 1000000000"
  "k < 500 \<Longrightarrow> \<not> second_ns (Suc k) \<le> second_ns k"
proof -
  show "second_ns (Suc k) - second_ns k = 1000000000" by (simp add: second_ns_def algebra_simps)
  show "\<not> second_ns (Suc k) \<le> second_ns k" if "k < 500"
    unfolding word_le_nat_alt using that by (simp add: second_ns_unat)
qed

lemma second_ns_span: "second_ns k - second_ns 0 = of_nat (k * 1000000000)"
  by (simp add: second_ns_def algebra_simps)

section \<open>The lease\<close>

definition steady_lease :: "control_lease_state \<Rightarrow> bool \<Rightarrow> nat \<Rightarrow> control_lease" where
  "steady_lease st pending k = \<lparr>lease_state = st, lease_owner = 0, expires_at_ns = 0,
     observation_started_ns = second_ns 0, last_sample_ns = second_ns k,
     lease_samples = of_nat (Suc k), write_pending = pending, recovery_verified = False\<rparr>"

definition stable_lease :: "bool \<Rightarrow> control_lease" where
  "stable_lease verified = (steady_lease CONTROL_LEASE_STABLE False 60)\<lparr>recovery_verified := verified\<rparr>"

definition held_lease :: "u64 \<Rightarrow> control_lease" where
  "held_lease owner = (stable_lease False)\<lparr>lease_state := CONTROL_LEASE_HELD, lease_owner := owner,
     expires_at_ns := second_ns 75\<rparr>"

lemma steady_sample:
  assumes "st = CONTROL_LEASE_OBSERVING \<or> st = CONTROL_LEASE_VERIFYING_RECOVERY" "k < 59"
  shows "lease_step (steady_lease st pending k) (Sample (steady_reading (Suc k))) True
           (steady_lease st pending (Suc k))"
proof -
  have few: "\<not> (61 :: u32) \<le> of_nat (Suc (Suc k))"
    using assms(2) by (simp add: word_le_nat_alt unat_of_nat del: of_nat_Suc)
  show ?thesis
    unfolding steady_reading_def
    by (rule lease_step.sample)
       (use assms few second_ns_step[of k] in \<open>auto simp: control_lease_sample_def steady_lease_def
          valid_read_def steady_baseline lease_constants Let_def add.commute[of 1]\<close>)
qed

lemma steady_last:
  assumes "st = CONTROL_LEASE_OBSERVING \<or> st = CONTROL_LEASE_VERIFYING_RECOVERY"
  shows "lease_step (steady_lease st pending 59) (Sample (steady_reading 60)) True
           (stable_lease (st = CONTROL_LEASE_VERIFYING_RECOVERY))"
  unfolding steady_reading_def
  by (rule lease_step.sample)
     (use assms second_ns_step[of 59] second_ns_span[of 60] in \<open>auto simp: control_lease_sample_def
        steady_lease_def stable_lease_def valid_read_def steady_baseline lease_constants Let_def\<close>)

fun steady_calls :: "nat \<Rightarrow> (lease_call \<times> bool) list \<Rightarrow> (lease_call \<times> bool) list" where
  "steady_calls 0 cs = cs"
| "steady_calls (Suc k) cs = (Sample (steady_reading (Suc k)), True) # steady_calls k cs"

lemma steady_run:
  assumes "lease_run cs (steady_lease st pending 0)"
    and "st = CONTROL_LEASE_OBSERVING \<or> st = CONTROL_LEASE_VERIFYING_RECOVERY"
  shows "k \<le> 59 \<Longrightarrow> lease_run (steady_calls k cs) (steady_lease st pending k)"
    and "lease_run (steady_calls 60 cs) (stable_lease (st = CONTROL_LEASE_VERIFYING_RECOVERY))"
proof -
  show run: "lease_run (steady_calls k cs) (steady_lease st pending k)" if "k \<le> 59" for k
    using that
  proof (induction k)
    case (Suc k)
    then show ?case using lease_run.further[OF _ steady_sample[OF assms(2)]] by simp
  qed (simp add: assms(1))
  have "steady_calls 60 cs = (Sample (steady_reading 60), True) # steady_calls 59 cs"
    by (simp add: numeral_eq_Suc)
  then show "lease_run (steady_calls 60 cs) (stable_lease (st = CONTROL_LEASE_VERIFYING_RECOVERY))"
    using lease_run.further[OF run steady_last[OF assms(2)]] by simp
qed

definition clear_start :: "lease_call \<times> bool" where
  "clear_start = (Start CONTROL_INTENT_CLEAR (steady_reading 0), True)"

definition pending_start :: "lease_call \<times> bool" where
  "pending_start = (Start CONTROL_INTENT_PENDING (steady_reading 0), True)"

definition recovery_call :: "lease_call \<times> bool" where
  "recovery_call = (RecoveryStarted (steady_reading 0), True)"

lemma second_0: "second_ns 0 = 1000000000" "second_ns 0 \<noteq> 0"
  by (simp_all add: second_ns_def)

lemma clear_run: "lease_run [clear_start] (steady_lease CONTROL_LEASE_OBSERVING False 0)"
  unfolding clear_start_def steady_reading_def
  by (rule lease_run.first[of zero_lease])
     (simp add: control_lease_start_def valid_read_def steady_baseline steady_lease_def
       zero_lease_def second_0)

lemma pending_run:
  "lease_run [pending_start] (require_recovery (zero_lease\<lparr>write_pending := True\<rparr>))"
  unfolding pending_start_def steady_reading_def
  by (rule lease_run.first[of zero_lease]) (simp add: control_lease_start_def)

lemma recovery_run:
  "lease_run [recovery_call, pending_start]
     (steady_lease CONTROL_LEASE_VERIFYING_RECOVERY True 0)"
proof -
  have "lease_step (require_recovery (zero_lease\<lparr>write_pending := True\<rparr>))
     (RecoveryStarted (steady_reading 0)) True (steady_lease CONTROL_LEASE_VERIFYING_RECOVERY True 0)"
    unfolding steady_reading_def
    by (rule lease_step.recovery_started)
       (simp add: control_lease_recovery_started_def valid_read_def steady_baseline steady_lease_def
         zero_lease_def require_recovery_def second_0)
  from lease_run.further[OF pending_run this] show ?thesis by (simp add: recovery_call_def)
qed

lemma stable_runs:
  "lease_run (steady_calls 60 [clear_start]) (stable_lease False)"
  "lease_run (steady_calls 60 [recovery_call, pending_start]) (stable_lease True)"
  using steady_run(2)[OF clear_run] steady_run(2)[OF recovery_run] by simp_all

definition claim_call :: "lease_call" where
  "claim_call = Claim 7 (second_ns 60) True CONTROL_INTENT_CLEAR SMC_BASELINE_OK (Some steady_snapshot)"

lemma claim_step: "lease_step (stable_lease False) claim_call True (held_lease 7)"
  unfolding claim_call_def
  by (rule lease_step.claim)
     (simp add: control_lease_claim_def stable_lease_def held_lease_def steady_lease_def
       valid_read_def steady_baseline steady_cool second_ns_def UINT64_MAX_def CLAIM_MAX_AGE_NS_def
       CONTROL_LEASE_TTL_NS_def)

lemma held_run: "lease_run ((claim_call, True) # steady_calls 60 [clear_start]) (held_lease 7)"
  by (rule lease_run.further[OF stable_runs(1) claim_step])

section \<open>The watch\<close>

definition steady_watch :: "nat \<Rightarrow> baseline_watch" where
  "steady_watch k = \<lparr>watch_status = if k < 60 then BASELINE_WATCH_RUNNING else BASELINE_WATCH_STABLE,
     watch_samples = of_nat (Suc k), watch_last_second = of_nat k,
     last_read_result = SMC_BASELINE_OK, latest = steady_snapshot,
     started_continuous_ns = second_ns 0, last_continuous_ns = second_ns k, timing_failed = False\<rparr>"

lemma steady_next:
  assumes "k < 60"
  shows "baseline_watch_next (Some (steady_watch k)) (of_nat (Suc k)) SMC_BASELINE_OK
    (Some steady_snapshot) (second_ns (Suc k)) = Some (steady_watch (Suc k))"
proof -
  have last: "(of_nat k :: u32) = 59 \<longleftrightarrow> k = 59"
    using assms by (simp add: word_unat_eq_iff unat_of_nat)
  have bound: "\<not> (60 :: u32) < of_nat (Suc k)"
    using assms by (simp add: word_less_nat_alt unat_of_nat del: of_nat_Suc)
  have span: "\<not> second_ns 60 - second_ns 0 < 60000000000" by (simp add: second_ns_span)
  show ?thesis
    using assms last bound span second_ns_step[of k]
    by (cases "k = 59")
       (simp_all add: baseline_watch_next_def steady_watch_def watch_constants steady_baseline
         Let_def add.commute[of 1])
qed

fun steady_inputs :: "nat \<Rightarrow> nat \<Rightarrow> (u32 \<times> reading) list" where
  "steady_inputs k 0 = []"
| "steady_inputs k (Suc n) = (of_nat (Suc k), steady_reading (Suc k)) # steady_inputs (Suc k) n"

lemma steady_feed:
  "k + n = 60 \<Longrightarrow> watch_feed (Some (steady_watch k)) (steady_inputs k n) = Some (steady_watch 60)"
proof (induction n arbitrary: k)
  case (Suc n)
  then show ?case by (simp add: steady_reading_def steady_next del: of_nat_Suc)
qed simp

lemma steady_watch_run:
  "watch_run (steady_reading 0) (steady_inputs 0 60) = Some (steady_watch 60)"
proof -
  have "baseline_watch_begin (Some zero_watch) SMC_BASELINE_OK (Some steady_snapshot) (second_ns 0) =
    Some (steady_watch 0)"
    by (simp add: baseline_watch_begin_def steady_watch_def zero_watch_def steady_baseline second_0)
  then show ?thesis using steady_feed[of 0 60] by (simp add: watch_run_def steady_reading_def)
qed

section \<open>Witnesses\<close>

lemma watch_stable_evidence_witness:
  "smc_baseline_is_system (Some steady_snapshot) \<and>
   (\<exists>k. window_evidence (second_ns 0) (map snd (take k (steady_inputs 0 60))))"
  using watch_stable_evidence[OF steady_watch_run[unfolded steady_reading_def]]
  by (simp add: steady_watch_def)

lemma lease_invariant_witness: "held_inv (held_lease 7) \<and> pending_inv (held_lease 7)"
  by (rule lease_invariant[OF held_run])

lemma proof_step:
  "lease_step (stable_lease True) TakeProof True (stable_lease False)"
  by (rule lease_step.take_proof)
     (simp add: control_lease_take_recovery_proof_def stable_lease_def steady_lease_def
       lease_constants second_ns_def)

lemma proof_needs_recovery_witness:
  "observed_baseline True (steady_calls 60 [recovery_call, pending_start])"
  by (rule proof_needs_recovery[OF stable_runs(2) proof_step])

lemma claim_needs_baseline_witness:
  "lease_state (stable_lease False) = CONTROL_LEASE_STABLE \<and>
   observed_baseline False (steady_calls 60 [clear_start]) \<and> cool_enough steady_snapshot"
  using claim_needs_baseline[OF stable_runs(1) claim_step[unfolded claim_call_def]] by simp

lemma mark_step:
  "lease_step (held_lease 7) (MarkPending 7 (second_ns 61) CONTROL_INTENT_PENDING) True
     ((held_lease 7)\<lparr>write_pending := True\<rparr>)"
  by (rule lease_step.mark_pending)
     (simp add: control_lease_mark_write_pending_def held_lease_def stable_lease_def steady_lease_def
       second_ns_def)

lemma only_owner_in_time_witness:
  "lease_owner ((held_lease 7)\<lparr>write_pending := True\<rparr>) = 7 \<and>
   unat (second_ns 61) < unat (last_sample_ns (held_lease 7)) + 15000000000"
  using only_owner_in_time[OF held_run mark_step, of 7 "second_ns 61" CONTROL_INTENT_PENDING] by simp

lemma held_owner_unchanged_witness:
  "lease_owner ((held_lease 7)\<lparr>write_pending := True\<rparr>) = lease_owner (held_lease 7)"
  by (rule held_owner_unchanged[OF held_run mark_step]) (simp_all add: held_lease_def)

lemma pending_retained_witness:
  "(\<exists>r. Sample (steady_reading 60) = Start CONTROL_INTENT_CLEAR r) \<or>
   (\<exists>r. Sample (steady_reading 60) = Sample r \<and> recovery_verified (stable_lease True))"
  using pending_retained[OF steady_run(1)[OF recovery_run, of 59]
      steady_last[of CONTROL_LEASE_VERIFYING_RECOVERY True]]
  by (simp add: steady_lease_def stable_lease_def)

lemma tick_expires_witness:
  "control_lease_tick (Some (held_lease 7)) (second_ns 75) = Some (require_recovery (held_lease 7))"
  using tick_expires[OF held_run, of "second_ns 75"]
  by (simp add: held_lease_def stable_lease_def steady_lease_def second_ns_unat)

end
