(* ===== verification/SupervisorExamples.thy ===== *)
theory SupervisorExamples
  imports SupervisorProperties WorkerRecord HelperExamples
begin

text \<open>
  A concrete machine on which a pending intent is recovered: the marker is on disk, every call
  succeeds, the recovery worker exits with 0, and the observer reports the system baseline once a
  second. Its state is the number of observations read, which drives the clock.
\<close>

definition directory_status :: file_status where
  "directory_status = \<lparr>st_kind = Directory, st_permissions = 0x1C0, st_uid = 0, st_nlink = 2, st_size = 0,
     st_dev = 1, st_ino = 1\<rparr>"

definition regular_status :: "nat \<Rightarrow> file_status" where
  "regular_status n = \<lparr>st_kind = RegularFile, st_permissions = 0x180, st_uid = 0, st_nlink = 1,
     st_size = int n, st_dev = 1, st_ino = 2\<rparr>"

text \<open>Descriptor 3 is the directory, 4 the marker, 5 the lock, 6 the worker record, 7 its successor,
  10 the observer's pipe.\<close>

definition demo_clock :: "nat \<Rightarrow> u64" where
  "demo_clock n = (case n of 0 \<Rightarrow> 1 | Suc k \<Rightarrow> second_ns k)"

definition demo_os :: "nat posix" where
  "demo_os = \<lparr>
     sys_fstat = (\<lambda>fd. ret (Some (if fd = 3 then directory_status
        else if fd = 4 then regular_status (length marker_contents)
        else regular_status (length (worker_record 0))))),
     sys_fstatat = (\<lambda>_ _. ret (Some (regular_status 0))),
     sys_geteuid = ret 0,
     sys_openat = (\<lambda>_ name _. ret (Inr (if name = marker_name then 4 else if name = lock_name then 5
        else if name = worker_name then 6 else 7))),
     sys_read = (\<lambda>fd _. if fd = 4 then ret (Inr (bytes_of marker_contents))
        else if fd = 6 then ret (Inr (bytes_of (worker_record 0)))
        else State (\<lambda>n. if n < 61 then (Inr [of_nat n], Suc n) else (Inr [], n))),
     sys_write = (\<lambda>_ contents. ret (Inr (length contents))),
     sys_ftruncate = (\<lambda>_. ret True), sys_fsync = (\<lambda>_. ret True), sys_close = (\<lambda>_. ret True),
     sys_unlinkat = (\<lambda>_ _. ret True), sys_renameat = (\<lambda>_ _ _. ret True), sys_flock = (\<lambda>_. ret True),
     sys_pidinfo = (\<lambda>_. ret (Inl ESRCH)), sys_clock = State (\<lambda>n. (demo_clock n, n)),
     sys_nanosleep = (\<lambda>_. ret ()), sys_socketpair = ret (Some (8, 9)), sys_pipe = ret (Some (10, 11)),
     sys_set_cloexec = (\<lambda>_. ret True), sys_set_nonblock = (\<lambda>_. ret True),
     sys_send = (\<lambda>_ contents. ret (Inr (length contents))), sys_fork = (\<lambda>_. ret (Some 99)),
     sys_waitpid = (\<lambda>_. ret (Reaped 0)), sys_kill = (\<lambda>_. ret None),
     sys_start_watcher = (\<lambda>_. ret True), sys_sigchld_default = ret True, retry_fuel = 70\<rparr>"

definition demo_abi :: observation_abi where
  "demo_abi = \<lparr>observation_size = 1, observation_encode = (\<lambda>_. [0]),
     observation_decode = (\<lambda>bytes. let t = second_ns (unat (hd bytes)) in
       \<lparr>started_ns = t, finished_ns = t, observation_result = SMC_BASELINE_OK,
        observation_snapshot = steady_snapshot\<rparr>)\<rparr>"

definition demo_backend :: "nat worker_backend" where
  "demo_backend = \<lparr>operate = Some (ret 0), recover = Some (ret 0),
     read_baseline_of = Some (ret (SMC_BASELINE_OK, steady_snapshot)), observer_started = None,
     parent_hook = None\<rparr>"

definition demo_limits :: supervisor_limits where
  "demo_limits = \<lparr>operation_ns = 10000000000, recovery_ns = 60000000000, observation_ns = 80000000000,
     reap_ns = 1000000000\<rparr>"

definition demo_parent :: "nat parent" where
  "demo_parent = \<lparr>system = 0, the_lease = Some zero_lease, latest_snapshot = steady_snapshot, sys_log = []\<rparr>"

section \<open>Symbolic execution\<close>

lemma wp_map_state: "run_state (map_state f m) s = (case run_state m s of (r, d) \<Rightarrow> (f r, d))"
  by (simp add: map_state_def split: prod.split)

lemma clock_order:
  "k < 1000 \<Longrightarrow> j < 1000 \<Longrightarrow> (second_ns k \<le> second_ns j) = (k \<le> j)"
  "k < 1000 \<Longrightarrow> j < 1000 \<Longrightarrow> (second_ns k < second_ns j) = (k < j)"
  by (simp_all add: word_le_nat_alt word_less_nat_alt second_ns_unat)

section \<open>The observation of the recovery\<close>

text \<open>The lease after \<open>k\<close> further observations.\<close>

definition demo_lease :: "nat \<Rightarrow> control_lease" where
  "demo_lease k = (if k < 60 then steady_lease CONTROL_LEASE_VERIFYING_RECOVERY True k else stable_lease True)"

definition demo_observation :: "nat \<Rightarrow> observation" where
  "demo_observation k = \<lparr>started_ns = second_ns k, finished_ns = second_ns k,
     observation_result = SMC_BASELINE_OK, observation_snapshot = steady_snapshot\<rparr>"

lemma demo_sample:
  "k < 60 \<Longrightarrow> control_lease_sample (Some (demo_lease k)) SMC_BASELINE_OK (Some steady_snapshot)
     (second_ns (Suc k)) = Some (demo_lease (Suc k))"
  using steady_sample[of CONTROL_LEASE_VERIFYING_RECOVERY k True]
    steady_last[of CONTROL_LEASE_VERIFYING_RECOVERY True]
  by (cases "k = 59") (auto simp: sample_simps steady_reading_def demo_lease_def)

lemma demo_lease_fields:
  "k \<le> 60 \<Longrightarrow> last_sample_ns (demo_lease k) = second_ns k"
  "lease_state (demo_lease k) = CONTROL_LEASE_VERIFYING_RECOVERY \<or>
   lease_state (demo_lease k) = CONTROL_LEASE_STABLE \<and> recovery_verified (demo_lease k)"
  by (simp_all add: demo_lease_def steady_lease_def stable_lease_def)

lemma demo_accept:
  assumes "k < 60" and "the_lease p = Some (demo_lease k)"
  shows "wp (accept_observation (demo_observation (Suc k)) 1 (second_ns (Suc k)) (of_nat (Suc k)) True)
    (\<lambda>good p'. good \<and> the_lease p' = Some (demo_lease (Suc k)) \<and> system p' = system p) p"
proof -
  have "(1 :: u64) \<le> second_ns (Suc k)" using assms(1) by (simp add: word_le_nat_alt second_ns_unat)
  moreover have "second_ns k \<le> second_ns (Suc k)" using assms(1) by (simp add: clock_order)
  ultimately have timely: "observation_timely (demo_lease k) (demo_observation (Suc k)) 1
      (second_ns (Suc k)) (of_nat (Suc k))"
    using assms(1) by (auto simp: observation_timely_def demo_observation_def demo_lease_fields not_less
        MAX_READ_NS_def SECOND_NS_def)
  have "(of_nat (Suc k) :: u32) \<noteq> 0"
    using assms(1) by (simp add: word_unat_eq_iff unat_of_nat del: of_nat_Suc)
  with timely show ?thesis
    using demo_lease_fields(2)[of "Suc k"] assms
    by (simp add: accept_observation_def wp_simps feed_observation_def on_lease_void_def on_lease_def
        demo_observation_def demo_sample del: of_nat_Suc)
qed

lemma demo_decode: "k < 61 \<Longrightarrow> observation_decode demo_abi [of_nat k] = demo_observation k"
  by (simp add: demo_abi_def demo_observation_def Let_def unat_of_nat)

lemma demo_size: "observation_size demo_abi = 1"
  by (simp add: demo_abi_def)

lemmas demo_calls = sup_now_def parent_check_def pause_ns_def deadline_for_def demo_backend_def wp_in_system
  wp_simps

lemma demo_read: "n < 61 \<Longrightarrow> run_state (sys_read demo_os 10 m) n = (Inr [of_nat n], Suc n)"
  "run_state (sys_read demo_os 10 m) 61 = (Inr [], 61)"
  by (simp_all add: demo_os_def)

lemma demo_now: "run_state (sys_clock demo_os) n = (demo_clock n, n)"
  by (simp add: demo_os_def)

text \<open>One round of the loop reads and accepts an observation.\<close>

definition demo_watch :: "nat \<Rightarrow> supervision" where
  "demo_watch k = \<lparr>partial_bytes = [], accepted_samples = of_nat (Suc k), at_eof = False,
     was_reaped = False, exited_ok = False, progress_deadline = second_ns k + MAX_READ_NS + 2 * SECOND_NS\<rparr>"

lemma demo_watch_fields:
  "at_eof (demo_watch k) = False"
  "progress_deadline (demo_watch k) = second_ns k + MAX_READ_NS + 2 * SECOND_NS"
  by (simp_all add: demo_watch_def)

lemma demo_input:
  assumes "k < 60" and "the_lease p = Some (demo_lease k)" and "system p = Suc k"
  shows "wp (observer_input demo_os demo_abi 10 1 True False (demo_watch k))
    (\<lambda>step p'. step = Continue (demo_watch (Suc k)) \<and> the_lease p' = Some (demo_lease (Suc k)) \<and>
       system p' = Suc (Suc k)) p"
proof -
  have few: "\<not> CONTROL_LEASE_REQUIRED_SAMPLES \<le> of_nat (Suc k)"
    using assms(1) by (simp add: CONTROL_LEASE_REQUIRED_SAMPLES_def word_le_nat_alt unat_of_nat
        del: of_nat_Suc)
  have accept: "wp (accept_observation (demo_observation (Suc k)) 1 (second_ns (Suc k)) (of_nat (Suc k)) True)
    (\<lambda>good p'. good \<and> the_lease p' = Some (demo_lease (Suc k)) \<and> system p' = Suc (Suc k))
    (p\<lparr>system := Suc (Suc k)\<rparr>)"
    using demo_accept[of k "p\<lparr>system := Suc (Suc k)\<rparr>"] assms by simp
  show ?thesis
    unfolding observer_input_def
    using few demo_decode[of "Suc k"] assms(1)
    by (simp add: wp_bind wp_in_system demo_read assms demo_watch_def demo_size wp_if wp_return sup_now_def
        demo_now demo_clock_def Let_def del: of_nat_Suc)
      (rule wp_mono[OF accept],
        simp add: wp_simps keep_latest_def demo_observation_def demo_watch_def add.commute)
qed

lemma demo_live:
  assumes "k \<le> 60"
  shows "demo_clock (Suc k) \<noteq> 0" "\<not> 80000000001 \<le> demo_clock (Suc k)"
    "\<not> second_ns k + MAX_READ_NS + 2 * SECOND_NS \<le> demo_clock (Suc k)"
proof -
  have u: "unat (second_ns k) = Suc k * 1000000000" using assms by (simp add: second_ns_unat)
  show "demo_clock (Suc k) \<noteq> 0" "\<not> 80000000001 \<le> demo_clock (Suc k)"
    using u assms by (auto simp: demo_clock_def word_le_nat_alt)
  have "unat (second_ns k + 7000000000) = Suc k * 1000000000 + 7000000000"
    using u assms by (simp add: unat_word_ariths)
  then show "\<not> second_ns k + MAX_READ_NS + 2 * SECOND_NS \<le> demo_clock (Suc k)"
    using u by (simp add: demo_clock_def MAX_READ_NS_def SECOND_NS_def word_le_nat_alt add.assoc)
qed

lemma demo_supervise:
  assumes "k \<le> 60" and "the_lease p = Some (demo_lease k)" and "system p = Suc k" and "63 \<le> fuel + k"
  shows "wp (supervise_from demo_os demo_abi demo_backend fuel 10 100 1 80000000001 1000000000 True False
     (demo_watch k) report)
    (\<lambda>(verified, r) p'. verified \<and> r = count_reaped report \<and> the_lease p' = Some (stable_lease True) \<and>
       system p' = 61) p"
  using assms
proof (induction "60 - k" arbitrary: k p fuel)
  case 0
  then have k: "k = 60" by simp
  obtain f where fuel: "fuel = Suc f" using 0 by (cases fuel) auto
  show ?case
    using 0 demo_live[of 60]
    unfolding fuel supervise_from.simps k
    by (simp add: wp_simps wp_in_system sup_now_def parent_check_def demo_backend_def demo_now demo_watch_def
        observer_input_def demo_read demo_size observer_exit_def wait_child_def wp_logged_eq demo_os_def
        observed_all_def classify_exit_def wifsignaled_def wifexited_def wexitstatus_def wait_status_def
        demo_lease_def CONTROL_LEASE_REQUIRED_SAMPLES_def stable_lease_def steady_lease_def)
next
  case (Suc j)
  then have k: "k < 60" by simp
  obtain f where fuel: "fuel = Suc f" using Suc.prems k by (cases fuel) auto
  have rest: "wp (supervise_from demo_os demo_abi demo_backend f 10 100 1 80000000001 1000000000 True False
     (demo_watch (Suc k)) report)
    (\<lambda>(verified, r) p'. verified \<and> r = count_reaped report \<and> the_lease p' = Some (stable_lease True) \<and>
       system p' = 61) p'"
    if "the_lease p' = Some (demo_lease (Suc k))" "system p' = Suc (Suc k)" for p'
    by (rule Suc.hyps(1)) (use Suc k fuel that in auto)
  show ?case
    unfolding fuel supervise_from.simps
    using Suc.prems demo_live[of k] k
    by (simp add: wp_simps wp_in_system sup_now_def parent_check_def demo_backend_def demo_now
          demo_watch_fields)
      (rule wp_mono[OF demo_input], simp_all add: rest[unfolded demo_backend_def])
qed

section \<open>The whole restart\<close>

text \<open>The lease after \<open>control_lease_start\<close> with a pending marker.\<close>

definition pending_lease :: control_lease where
  "pending_lease = require_recovery (zero_lease\<lparr>write_pending := True\<rparr>)"

definition quiet_run :: "nat parent \<Rightarrow> nat parent \<Rightarrow> bool" where
  "quiet_run p p' \<longleftrightarrow> the_lease p' = the_lease p \<and> system p' = system p"

lemma fuel_demo: "retry_fuel demo_os = Suc 69"
  by (simp add: demo_os_def)

lemma demo_fields:
  "sys_fstat demo_os = (\<lambda>fd. ret (Some (if fd = 3 then directory_status
        else if fd = 4 then regular_status (length marker_contents)
        else regular_status (length (worker_record 0)))))"
  "sys_fstatat demo_os = (\<lambda>_ _. ret (Some (regular_status 0)))"
  "sys_geteuid demo_os = ret 0"
  "sys_openat demo_os = (\<lambda>_ name _. ret (Inr (if name = marker_name then 4 else if name = lock_name then 5
        else if name = worker_name then 6 else 7)))"
  "sys_read demo_os = (\<lambda>fd _. if fd = 4 then ret (Inr (bytes_of marker_contents))
        else if fd = 6 then ret (Inr (bytes_of (worker_record 0)))
        else State (\<lambda>n. if n < 61 then (Inr [of_nat n], Suc n) else (Inr [], n)))"
  "sys_write demo_os = (\<lambda>_ contents. ret (Inr (length contents)))"
  "sys_ftruncate demo_os = (\<lambda>_. ret True)"
  "sys_fsync demo_os = (\<lambda>_. ret True)"
  "sys_close demo_os = (\<lambda>_. ret True)"
  "sys_unlinkat demo_os = (\<lambda>_ _. ret True)"
  "sys_renameat demo_os = (\<lambda>_ _ _. ret True)"
  "sys_flock demo_os = (\<lambda>_. ret True)"
  "sys_pidinfo demo_os = (\<lambda>_. ret (Inl ESRCH))"
  "sys_clock demo_os = State (\<lambda>n. (demo_clock n, n))"
  "sys_nanosleep demo_os = (\<lambda>_. ret ())"
  "sys_socketpair demo_os = ret (Some (8, 9))"
  "sys_pipe demo_os = ret (Some (10, 11))"
  "sys_set_cloexec demo_os = (\<lambda>_. ret True)"
  "sys_set_nonblock demo_os = (\<lambda>_. ret True)"
  "sys_send demo_os = (\<lambda>_ contents. ret (Inr (length contents)))"
  "sys_fork demo_os = (\<lambda>_. ret (Some 99))"
  "sys_waitpid demo_os = (\<lambda>_. ret (Reaped 0))"
  "sys_kill demo_os = (\<lambda>_. ret None)"
  "sys_start_watcher demo_os = (\<lambda>_. ret True)"
  "sys_sigchld_default demo_os = ret True"
  "retry_fuel demo_os = 70"
  by (simp_all add: demo_os_def)

lemma demo_started:
  "control_lease_recovery_started (Some pending_lease) SMC_BASELINE_OK (Some steady_snapshot) (second_ns 0) =
   Some (demo_lease 0)"
  by (simp add: control_lease_recovery_started_def pending_lease_def require_recovery_def zero_lease_def
      valid_read_def steady_baseline demo_lease_def steady_lease_def second_0)

lemma demo_first:
  assumes "the_lease p = Some pending_lease" and "system p = 0"
  shows "wp (supervise_observer demo_os demo_abi demo_backend 10 100 1 80000000001 1000000000 True False report)
    (\<lambda>(verified, r) p'. verified \<and> r = count_reaped report \<and> the_lease p' = Some (stable_lease True)) p"
proof -
  have watch0: "\<lparr>partial_bytes = [], accepted_samples = 1, at_eof = False, was_reaped = False,
      exited_ok = False, progress_deadline = second_ns 0 + MAX_READ_NS + 2 * SECOND_NS\<rparr> = demo_watch 0"
    by (simp add: demo_watch_def)
  have rest: "wp (supervise_from demo_os demo_abi demo_backend 69 10 100 1 80000000001 1000000000 True False
     (demo_watch 0) report)
    (\<lambda>(verified, r) p'. verified \<and> r = count_reaped report \<and> the_lease p' = Some (stable_lease True)) p'"
    if "the_lease p' = Some (demo_lease 0)" "system p' = 1" for p'
    by (rule wp_mono[OF demo_supervise]) (use that in auto)
  have nums: "\<not> (80000000001 :: u64) \<le> 1" "\<not> (7000000001 :: u64) \<le> 1" "\<not> (1000000000 :: u64) < 1"
    by (simp_all add: word_le_nat_alt word_less_nat_alt)
  show ?thesis
    unfolding supervise_observer_def fuel_demo supervise_from.simps
    using assms demo_decode[of 0] rest demo_lease_fields(2)[of 0] watch0 nums
    apply (simp add: wp_simps wp_in_system sup_now_def parent_check_def demo_backend_def demo_now demo_clock_def
        MAX_READ_NS_def SECOND_NS_def observer_input_def demo_read demo_size Let_def
        CONTROL_LEASE_REQUIRED_SAMPLES_def accept_observation_def feed_observation_def on_lease_void_def
        on_lease_def demo_observation_def observation_timely_def demo_started[unfolded second_0] keep_latest_def second_0)
    by blast
qed

lemma demo_names: "lock_name \<noteq> marker_name" "worker_name \<noteq> marker_name" "worker_name \<noteq> lock_name"
  "next_name \<noteq> marker_name" "next_name \<noteq> lock_name" "next_name \<noteq> worker_name"
  by (simp_all add: lock_name_def marker_name_def worker_name_def next_name_def)

lemma demo_write: "contents \<noteq> [] \<Longrightarrow> wp (write_all demo_os fd contents)
    (\<lambda>n p'. n = length contents \<and> quiet_run p p') p"
  by (simp add: write_all_def fuel_demo numeral_eq_Suc wp_simps wp_logged_eq demo_fields quiet_run_def
      note_sys_def del: length_greater_0_conv)

lemma quiet_trans: "quiet_run p q \<Longrightarrow> quiet_run q r \<Longrightarrow> quiet_run p r"
  by (simp add: quiet_run_def)

lemma quiet_seq:
  "wp m (\<lambda>r p'. A r \<and> quiet_run p p') p \<Longrightarrow> (\<And>r p'. A r \<Longrightarrow> quiet_run p p' \<Longrightarrow> wp (f r) Q p') \<Longrightarrow>
   wp (m \<bind> f) Q p"
  by (rule wp_bindI) (erule wp_mono, simp)

lemma demo_record:
  assumes "0 \<le> child" "child \<le> INT_MAX"
  shows "wp (supervisor_ownership_record demo_os 3 child) (\<lambda>b p'. b \<and> quiet_run p p') p"
proof -
  have "nat child < 10 ^ Suc 9" using assms(2) by (simp add: INT_MAX_def)
  then have len: "length (worker_record child) < 64" "worker_record child \<noteq> []"
    using decimal_length[of "nat child" 9] assms(1) by (simp_all add: record_of record_prefix_def)
  have bytes: "length (bytes_of (worker_record child)) = length (worker_record child)"
    "bytes_of (worker_record child) \<noteq> []"
    using len(2) by (simp_all add: bytes_of_def)
  show ?thesis
    unfolding supervisor_ownership_record_def private_directory_def private_file_def Let_def
    using assms len
    by (simp add: wp_bind wp_in_system wp_logged_eq demo_fields directory_status_def regular_status_def
      wp_if wp_return demo_names)
      (rule wp_mono[OF demo_write[OF bytes(2)]],
        simp add: wp_simps wp_logged_eq demo_fields quiet_run_def bytes)
qed

text \<open>The marker reads as pending, and ownership is granted.\<close>

lemma demo_intent: "wp (control_intent_read demo_os 3) (\<lambda>i p'. i = CONTROL_INTENT_PENDING \<and> quiet_run p p') p"
proof -
  have "marker_contents \<noteq> []" "bytes_of marker_contents \<noteq> []" "length (bytes_of marker_contents) = length marker_contents"
    by (simp_all add: bytes_of_def marker_contents_def)
  then show ?thesis
    unfolding control_intent_read_def private_directory_def read_up_to_def fuel_demo
    by (simp add: wp_simps wp_in_system wp_logged_eq demo_fields directory_status_def regular_status_def
        marker_file_valid_def quiet_run_def numeral_eq_Suc del: length_greater_0_conv)
qed

lemma demo_absent: "wp (old_worker_absent demo_os 3 True) (\<lambda>b p'. b \<and> quiet_run p p') p"
proof -
  have "recorded_worker (bytes_of (worker_record 0)) = Some 0"
    by (simp add: recorded_written INT_MAX_def)
  moreover have "bytes_of (worker_record 0) \<noteq> []" "length (bytes_of (worker_record 0)) = length (worker_record 0)"
    by (simp_all add: bytes_of_def record_of)
  ultimately show ?thesis
    unfolding old_worker_absent_def private_file_def
    by (simp add: wp_simps wp_in_system wp_logged_eq demo_fields regular_status_def demo_names quiet_run_def)
qed

lemma quiet_and:
  "wp m (\<lambda>b p'. b \<and> quiet_run p p') p \<Longrightarrow> (\<And>p'. quiet_run p p' \<Longrightarrow> wp n (\<lambda>b p''. b \<and> quiet_run p' p'') p') \<Longrightarrow>
   wp (and_then m n) (\<lambda>b p'. b \<and> quiet_run p p') p"
  unfolding wp_and_then by (erule wp_mono) (auto intro: wp_mono quiet_trans)

lemma demo_logged:
  "(\<And>s. run_state m s = (r, s)) \<Longrightarrow> wp (logged_call m e) (\<lambda>x p'. x = r \<and> quiet_run p p') p"
  by (simp add: wp_logged_eq quiet_run_def)

lemma demo_private: "wp (private_file demo_os 5) (\<lambda>b p'. b \<and> quiet_run p p') p"
  by (simp add: private_file_def wp_simps wp_in_system demo_fields regular_status_def quiet_run_def)

lemma demo_directory: "wp (private_directory demo_os 3) (\<lambda>b p'. b \<and> quiet_run p p') p"
  by (simp add: private_directory_def wp_simps wp_in_system demo_fields directory_status_def quiet_run_def)

lemma demo_acquire:
  "wp (supervisor_ownership_acquire demo_os 3 True) (\<lambda>lock p'. lock = Some 5 \<and> quiet_run p p') p"
proof -
  have admitted: "wp (and_then (private_file demo_os 5)
      (and_then (logged_call (sys_flock demo_os 5) (Locked 5))
      (and_then (do { intent \<leftarrow> control_intent_read demo_os 3;
           ret (intent = (if True then CONTROL_INTENT_PENDING else CONTROL_INTENT_CLEAR)) })
      (old_worker_absent demo_os 3 True)))) (\<lambda>b p'. b \<and> quiet_run q p') q" for q
    by (intro quiet_and demo_private demo_absent quiet_seq[OF demo_intent])
      (auto simp: wp_return wp_logged_eq demo_fields quiet_run_def)
  have rest: "wp (do {
      same \<leftarrow> (do {
        opened_info \<leftarrow> in_system (sys_fstat demo_os 5);
        named_info \<leftarrow> (case opened_info of
                          None \<Rightarrow> ret None
                        | Some _ \<Rightarrow> in_system (sys_fstatat demo_os 3 lock_name));
        ret (case (opened_info, named_info) of
               (Some a, Some b) \<Rightarrow> st_dev a = st_dev b \<and> st_ino a = st_ino b
             | _ \<Rightarrow> False)
      });
      recorded \<leftarrow> and_then (ret same) (supervisor_ownership_record demo_os 3 0);
      if \<not> recorded
      then do { logged_call (sys_close demo_os 5) (Closed_fd 5); ret None }
      else ret (Some (5 :: int)) }) (\<lambda>lock p'. lock = Some 5 \<and> quiet_run p p') q" if "quiet_run p q" for q
  proof -
    have "wp (supervisor_ownership_record demo_os 3 0) (\<lambda>b p'. b \<and> quiet_run p p') (q\<lparr>system := system q\<rparr>)"
      by (rule wp_mono[OF demo_record]) (use that in \<open>auto simp: INT_MAX_def quiet_run_def\<close>)
    then show ?thesis
      by (simp add: wp_simps wp_in_system demo_fields regular_status_def) (erule wp_mono, simp add: wp_return)
  qed
  show ?thesis
    unfolding supervisor_ownership_acquire_def
    apply (rule quiet_seq[OF demo_directory], rule wp_ifI, simp)
    apply (rule quiet_seq[OF demo_logged[where r = "Inr 5"]], simp add: demo_fields demo_names)
    apply (hypsubst, unfold sum.case, rule quiet_seq[OF admitted], rule wp_ifI, simp)
    by (rule rest) (blast intro: quiet_trans)
qed

lemma demo_close: "wp (close_fd demo_os fd) (\<lambda>_ p'. quiet_run p p') p"
  by (simp add: close_fd_def wp_simps wp_logged_eq demo_fields quiet_run_def)

lemma quiet_refl: "quiet_run p p"
  by (simp add: quiet_run_def)

lemma quiet_skip:
  "wp m (\<lambda>_ p'. quiet_run p p') p \<Longrightarrow> (\<And>r p'. quiet_run p p' \<Longrightarrow> wp (f r) Q p') \<Longrightarrow> wp (m \<bind> f) Q p"
  by (rule wp_bindI) (erule wp_mono, simp)

lemma demo_hook: "wp (parent_check demo_backend) (\<lambda>_ p'. quiet_run p p') p"
  by (simp add: parent_check_def demo_backend_def wp_return quiet_refl)

lemma demo_spawn:
  "wp (spawn_worker demo_os 3 demo_backend role) (\<lambda>r p'. r = (100, Some 8) \<and> quiet_run p p') p"
proof -
  have pair: "wp (in_system (sys_socketpair demo_os)) (\<lambda>r p'. r = Some (8, 9) \<and> quiet_run q p') q" for q
    by (simp add: wp_in_system demo_fields quiet_run_def)
  have prepared: "wp (and_then (in_system (sys_set_cloexec demo_os 8)) (in_system (sys_set_cloexec demo_os 9)))
      (\<lambda>b p'. b \<and> quiet_run q p') q" for q
    by (simp add: wp_simps wp_in_system demo_fields quiet_run_def)
  have fork: "wp (fork_worker demo_os role) (\<lambda>c p'. c = 100 \<and> quiet_run q p') q" for q
    by (simp add: fork_worker_def wp_logged_eq wp_map_state demo_fields quiet_run_def)
  have grant: "wp (and_then (ret True)
      (logged_call (map_state (\<lambda>r. r = Inr 1) (sys_send demo_os 8 (bytes_of ''G''))) (Granted 100)))
      (\<lambda>b p'. b \<and> quiet_run q p') q" for q
    by (simp add: wp_simps wp_logged_eq wp_map_state demo_fields quiet_run_def bytes_of_def)
  show ?thesis
    unfolding spawn_worker_def
    apply (rule quiet_skip[OF demo_hook], rule quiet_seq[OF pair], hypsubst, unfold option.case prod.case)
    apply (rule quiet_seq[OF prepared], rule wp_ifI, simp)
    apply (rule quiet_seq[OF fork], rule quiet_skip[OF demo_close], rule wp_ifI, simp)
    apply (hypsubst, rule quiet_seq[OF demo_record], simp, simp add: INT_MAX_def)
    apply (rule quiet_skip[OF demo_hook], simp only: eqTrueI, rule quiet_seq[OF grant], rule wp_ifI, simp)
    by (simp add: wp_return quiet_run_def)
qed

lemma demo_deadline:
  assumes "system p = 0" and "duration \<in> {60000000000, 80000000000}"
  shows "wp (deadline_for demo_os duration) (\<lambda>r p'. r = Some (duration + 1) \<and> quiet_run p p') p"
  using assms
  by (auto simp: deadline_for_def sup_now_def wp_simps wp_in_system demo_now demo_clock_def quiet_run_def
      UINT64_MAX_def word_less_nat_alt)

lemma demo_phase:
  assumes "system p = 0"
  shows "wp (wait_phase demo_os 100 (60000000000 + 1) 1000000000 None exit_kind report demo_backend)
    (\<lambda>r p'. r = (True, WORKER_EXITED, count_reaped report) \<and> quiet_run p p') p"
proof -
  have "\<not> (60000000001 :: u64) \<le> 1" by (simp add: word_le_nat_alt)
  then show ?thesis
    using assms
    unfolding wait_phase_def fuel_demo wait_phase_from.simps
    by (simp add: wp_simps wp_in_system sup_now_def parent_check_def demo_backend_def demo_now demo_clock_def
        cancelled_def wait_child_def wp_logged_eq demo_fields classify_exit_def wifsignaled_def
        wifexited_def wexitstatus_def wait_status_def quiet_run_def Let_def)
qed

lemma demo_observe:
  assumes "the_lease p = Some pending_lease" and "system p = 0"
  shows "wp (observe_owned demo_os demo_abi demo_backend 3 demo_limits report True False)
    (\<lambda>(verified, r) p'. verified \<and> the_lease p' = Some (stable_lease True)) p"
proof -
  have pipe: "wp (in_system (sys_pipe demo_os)) (\<lambda>r p'. r = Some (10, 11) \<and> quiet_run q p') q" for q
    by (simp add: wp_in_system demo_fields quiet_run_def)
  have block: "wp (in_system (sys_set_nonblock demo_os 10)) (\<lambda>b p'. b \<and> quiet_run q p') q" for q
    by (simp add: wp_in_system demo_fields quiet_run_def)
  have now: "wp (sup_now demo_os) (\<lambda>r p'. r = 1 \<and> quiet_run q p') q" if "system q = 0" for q
    using that by (simp add: sup_now_def wp_in_system demo_now demo_clock_def quiet_run_def)
  have announce: "wp (announce_observer demo_backend connection child recovering) (\<lambda>_ p'. quiet_run q p') q"
    for connection child recovering q
    by (simp add: announce_observer_def demo_backend_def wp_return quiet_refl)
  have watched: "wp (if 0 < (100 :: int)
      then supervise_observer demo_os demo_abi demo_backend 10 100 1 (observation_ns demo_limits + 1)
             (reap_ns demo_limits) True False r
      else ret (False, r))
    (\<lambda>(verified, r') p'. verified \<and> the_lease p' = Some (stable_lease True)) q"
    if "the_lease q = Some pending_lease" "system q = 0" for q r
    by (simp add: demo_limits_def) (rule wp_mono[OF demo_first], use that in auto)
  have finish: "wp (do { close_fd demo_os 10; close_some demo_os (Some 8); ret (verified, r) })
    (\<lambda>(verified, r) p'. verified \<and> the_lease p' = Some (stable_lease True)) q"
    if "verified" "the_lease q = Some (stable_lease True)" for verified q and r :: supervisor_report
    unfolding close_some_def option.case
    by (rule quiet_skip[OF demo_close], rule quiet_skip[OF demo_close])
      (use that in \<open>simp add: wp_return quiet_run_def\<close>)
  show ?thesis
    unfolding observe_owned_def
    apply (rule quiet_seq[OF pipe], hypsubst, unfold option.case prod.case)
    apply (rule quiet_seq[OF block], rule wp_ifI, simp)
    apply (rule quiet_seq[OF now], use assms in \<open>simp add: quiet_run_def\<close>, hypsubst)
    apply (rule quiet_seq[OF demo_deadline], use assms in \<open>simp add: quiet_run_def\<close>, simp add: demo_limits_def)
    apply (hypsubst, unfold option.case)
    apply (rule quiet_seq[OF demo_spawn], hypsubst, unfold prod.case Let_def)
    apply (rule quiet_skip[OF demo_close], rule quiet_skip[OF announce])
    apply (rule wp_bindI, rule wp_mono[OF watched], use assms in \<open>simp_all add: quiet_run_def\<close>)
    by (auto intro!: finish)
qed

lemma demo_proof:
  "control_lease_take_recovery_proof (Some (stable_lease True)) = (True, Some (stable_lease False))"
proof -
  have "second_ns 60 - second_ns 0 = 60000000000" by (simp add: second_ns_span)
  moreover have "\<not> second_ns 60 < second_ns 0" by (simp add: clock_order)
  ultimately show ?thesis
    by (simp add: control_lease_take_recovery_proof_def stable_lease_def steady_lease_def
        CONTROL_LEASE_REQUIRED_SAMPLES_def CONTROL_LEASE_BASELINE_NS_def)
qed

lemma demo_clear:
  "the_lease p = Some (stable_lease True) \<Longrightarrow>
   wp (and_then (ret True) (control_intent_clear_verified demo_os 3)) (\<lambda>b p'. b) p"
  unfolding control_intent_clear_verified_def wp_and_then wp_return
  by simp (rule quiet_seq[OF demo_intent],
      simp add: wp_simps on_lease_def wp_logged_eq demo_fields demo_proof quiet_run_def)

lemma demo_recover:
  assumes "the_lease p = Some pending_lease" and "system p = 0"
  shows "wp (recover_owned demo_os demo_abi demo_backend 3 demo_limits report)
    (\<lambda>r p'. sup_result r = SUPERVISOR_RECOVERED) p"
proof -
  have limits: "recovery_ns demo_limits = 60000000000" "reap_ns demo_limits = 1000000000"
    by (simp_all add: demo_limits_def)
  have finish: "wp (do {
      (verified, report) \<leftarrow> observe_owned demo_os demo_abi demo_backend 3 demo_limits r True False;
      parent_check demo_backend;
      cleared \<leftarrow> and_then (ret verified) (control_intent_clear_verified demo_os 3);
      if cleared then ret (report\<lparr>sup_result := SUPERVISOR_RECOVERED\<rparr>)
      else do { on_lease_void control_lease_sleep Sleep; ret report } })
    (\<lambda>r p'. sup_result r = SUPERVISOR_RECOVERED) q"
    if "the_lease q = Some pending_lease" "system q = 0" for r q
  proof (rule wp_bindI, rule wp_mono[OF demo_observe[OF that]], rule wp_case_prodI,
      rule quiet_skip[OF demo_hook], goal_cases)
    case (1 x q1 verified r1 _ q2)
    then have "verified = True" "the_lease q2 = Some (stable_lease True)" by (auto simp: quiet_run_def)
    then show ?case
      by (simp only:) (rule wp_bindI, rule wp_mono[OF demo_clear], assumption, simp add: wp_return)
  qed
  show ?thesis
    unfolding recover_owned_def Let_def limits
    apply (rule quiet_seq[OF demo_deadline], rule assms, simp, hypsubst, unfold option.case)
    apply (rule quiet_seq[OF demo_spawn], hypsubst, unfold prod.case, rule wp_ifI, simp)
    apply (rule quiet_seq[OF demo_phase], use assms in \<open>simp add: quiet_run_def\<close>)
    apply (hypsubst, unfold prod.case close_some_def option.case, rule quiet_skip[OF demo_close])
    apply (rule wp_ifI, simp, rule wp_ifI, simp)
    by (rule finish) (use assms in \<open>simp_all add: quiet_run_def\<close>)
qed

lemma demo_resume:
  "wp (worker_supervisor_resume demo_os demo_abi 3 demo_backend demo_limits)
     (\<lambda>r p'. sup_result r = SUPERVISOR_RECOVERED) demo_parent"
proof -
  have get: "wp get_lease (\<lambda>l p'. l = the_lease p \<and> quiet_run p p') p" for p :: "nat parent"
    by (simp add: wp_get_lease quiet_refl)
  have now: "wp (sup_now demo_os) (\<lambda>_ p'. quiet_run p p') p" for p
    by (simp add: sup_now_def wp_in_system demo_now quiet_run_def)
  have able: "wp (can_supervise demo_os demo_backend demo_limits) (\<lambda>b p'. b \<and> quiet_run p p') p" for p
    by (simp add: can_supervise_def wp_simps wp_in_system demo_fields demo_backend_def demo_limits_def
        limits_valid_def quiet_run_def CONTROL_LEASE_TTL_NS_def CONTROL_LEASE_BASELINE_NS_def SECOND_NS_def
        word_le_nat_alt word_less_nat_alt)
  have admitted: "wp (and_then (ret (Some l \<noteq> None))
       (and_then (can_supervise demo_os demo_backend demo_limits)
         (do { intent \<leftarrow> control_intent_read demo_os 3; ret (intent = CONTROL_INTENT_PENDING) })))
       (\<lambda>b p'. b \<and> quiet_run p p') p" for p and l :: control_lease
    by (intro quiet_and able quiet_seq[OF demo_intent]) (auto simp: wp_return quiet_run_def)
  show ?thesis
    unfolding worker_supervisor_resume_def
  proof (rule quiet_skip[OF demo_hook], rule quiet_seq[OF get], goal_cases)
    case (1 _ p1 l p2)
    then have l: "l = Some zero_lease" and at: "the_lease p2 = Some zero_lease" "system p2 = 0"
      by (auto simp: quiet_run_def demo_parent_def)
    show ?case
      unfolding l
    proof (rule quiet_seq[OF admitted], rule wp_ifI, simp, rule quiet_skip[OF now], goal_cases)
      case (1 _ p3 t p4)
      then have "the_lease p4 = Some zero_lease" "system p4 = 0" using at by (auto simp: quiet_run_def)
      then have started: "wp (on_lease_void
          (\<lambda>l. control_lease_start l CONTROL_INTENT_PENDING SMC_BASELINE_READ_FAILED None t)
          (Start CONTROL_INTENT_PENDING (SMC_BASELINE_READ_FAILED, None, t)))
          (\<lambda>_ p5. the_lease p5 = Some pending_lease \<and> system p5 = 0) p4"
        by (simp add: on_lease_void_def on_lease_def wp_simps control_lease_start_def pending_lease_def)
      show ?case
      proof (rule wp_bindI, rule wp_mono[OF started], rule quiet_seq[OF demo_acquire], hypsubst,
          unfold option.case, goal_cases)
        case (1 _ p5 _ p6)
        then have "the_lease p6 = Some pending_lease" "system p6 = 0" by (auto simp: quiet_run_def)
        note recovered = demo_recover[OF this]
        show ?case
          by (rule wp_bindI, rule wp_mono[OF recovered], rule wp_bindI, rule wp_any)
            (simp add: wp_return)
      qed
    qed
  qed
qed

section \<open>Witnesses\<close>

lemma demo_ready: "lease_ready demo_parent"
  by (simp add: lease_ready_def demo_parent_def)

theorem resume_recovers_with_proof_witness:
  "\<exists>report p' lock b before.
     run_state (worker_supervisor_resume demo_os demo_abi 3 demo_backend demo_limits) demo_parent = (report, p') \<and>
     sup_result report = SUPERVISOR_RECOVERED \<and>
     sys_log p' = Closed_fd lock b # Synced 3 True # Unlinked marker_name True # Called TakeProof True # before \<and>
     observed_baseline True (lease_history before)"
proof -
  obtain report p' where r:
    "run_state (worker_supervisor_resume demo_os demo_abi 3 demo_backend demo_limits) demo_parent = (report, p')"
    by fastforce
  from wpD[OF demo_resume r] have "sup_result report = SUPERVISOR_RECOVERED" .
  from resume_recovers_with_proof[OF demo_ready r this] this r show ?thesis by blast
qed

definition held_parent :: "nat parent" where
  "held_parent = demo_parent\<lparr>the_lease := Some (held_lease 7),
     sys_log := map (\<lambda>(c, b). Called c b) ((claim_call, True) # steady_calls 60 [clear_start])\<rparr>"

lemma history_called: "lease_history (map (\<lambda>(c, b). Called c b) cs) = cs"
  by (induction cs) auto

theorem run_recovers_with_proof_witness:
  "\<exists>report p'. run_state (worker_supervisor_run demo_os demo_abi 3 demo_backend demo_limits None) held_parent =
     (report, p') \<and> released 3 report p'"
proof -
  obtain report p' where r:
    "run_state (worker_supervisor_run demo_os demo_abi 3 demo_backend demo_limits None) held_parent = (report, p')"
    by fastforce
  have "the_lease held_parent = Some (held_lease 7)" by (simp add: held_parent_def)
  moreover have "lease_run (lease_history (sys_log held_parent)) (held_lease 7)"
    using held_run history_called[of "(claim_call, True) # steady_calls 60 [clear_start]"]
    by (simp add: held_parent_def)
  ultimately show ?thesis using run_recovers_with_proof[OF _ _ r] r by blast
qed

theorem workers_settled_witness:
  "\<exists>report p'. run_state (worker_supervisor_resume demo_os demo_abi 3 demo_backend demo_limits) demo_parent =
     (report, p') \<and> kills_ok (sys_log p') \<and> children (sys_log p') = {}"
proof -
  obtain report p' where r:
    "run_state (worker_supervisor_resume demo_os demo_abi 3 demo_backend demo_limits) demo_parent = (report, p')"
    by fastforce
  from wpD[OF demo_resume r] have "sup_result report \<noteq> SUPERVISOR_STOP_FAILED" by simp
  moreover have "children (sys_log demo_parent) = {}" "kills_ok (sys_log demo_parent)"
    by (simp_all add: demo_parent_def)
  ultimately show ?thesis
    using workers_settled[where m = "worker_supervisor_resume demo_os demo_abi 3 demo_backend demo_limits",
        OF _ _ _ r] r
    by blast
qed

section \<open>An operation is forked\<close>

text \<open>
  A machine on which an operation is forked: no marker and no worker record are there yet, every call
  succeeds, the operation exits with 0, and no second worker can be forked.
\<close>

definition fork_os :: "nat posix" where
  "fork_os = demo_os\<lparr>
     sys_openat := (\<lambda>_ name flags. ret (if O_RDONLY \<in> set flags then Inl ENOENT
        else Inr (if name = marker_name then 4 else if name = lock_name then 5 else 7))),
     sys_clock := ret (second_ns 61),
     sys_fork := (\<lambda>role. ret (if role = Operating then Some 99 else None))\<rparr>"

lemma fork_fields:
  "sys_fstat fork_os = sys_fstat demo_os" "sys_fstatat fork_os = sys_fstatat demo_os"
  "sys_geteuid fork_os = sys_geteuid demo_os" "sys_write fork_os = sys_write demo_os"
  "sys_ftruncate fork_os = sys_ftruncate demo_os" "sys_fsync fork_os = sys_fsync demo_os"
  "sys_close fork_os = sys_close demo_os" "sys_renameat fork_os = sys_renameat demo_os"
  "sys_flock fork_os = sys_flock demo_os" "sys_nanosleep fork_os = sys_nanosleep demo_os"
  "sys_socketpair fork_os = sys_socketpair demo_os" "sys_set_cloexec fork_os = sys_set_cloexec demo_os"
  "sys_send fork_os = sys_send demo_os" "sys_waitpid fork_os = sys_waitpid demo_os"
  "sys_sigchld_default fork_os = sys_sigchld_default demo_os" "retry_fuel fork_os = Suc 69"
  "sys_openat fork_os = (\<lambda>_ name flags. ret (if O_RDONLY \<in> set flags then Inl ENOENT
        else Inr (if name = marker_name then 4 else if name = lock_name then 5 else 7)))"
  "sys_clock fork_os = ret (second_ns 61)"
  "sys_fork fork_os = (\<lambda>role. ret (if role = Operating then Some 99 else None))"
  by (simp_all add: fork_os_def fuel_demo)

definition grew :: "nat parent \<Rightarrow> nat parent \<Rightarrow> bool" where
  "grew p p' \<longleftrightarrow> the_lease p' = the_lease p \<and> set (sys_log p) \<subseteq> set (sys_log p')"

lemma grew_refl: "grew p p"
  by (simp add: grew_def)

lemma grew_trans: "grew p p' \<Longrightarrow> grew p' p'' \<Longrightarrow> grew p p''"
  by (auto simp: grew_def)

lemma grew_seq:
  "wp m (\<lambda>r p'. P r \<and> grew p p') p \<Longrightarrow> (\<And>r p'. P r \<Longrightarrow> grew p p' \<Longrightarrow> wp (f r) Q p') \<Longrightarrow> wp (m \<bind> f) Q p"
  by (rule wp_bindI) (erule wp_mono, simp)

lemmas fork_steps = fork_fields demo_fields wp_simps wp_in_system wp_logged_eq wp_map_state grew_def subset_insertI2

lemma fork_directory: "wp (private_directory fork_os 3) (\<lambda>b p'. b \<and> grew p p') p"
  by (simp add: private_directory_def fork_steps directory_status_def)

lemma fork_file: "fd \<in> {4, 5, 7} \<Longrightarrow> wp (private_file fork_os fd) (\<lambda>b p'. b \<and> grew p p') p"
  by (auto simp: private_file_def fork_steps regular_status_def)

lemma forking_clear: "wp (control_intent_read fork_os 3) (\<lambda>i p'. i = CONTROL_INTENT_CLEAR \<and> grew p p') p"
  unfolding control_intent_read_def
  by (rule grew_seq[OF fork_directory]) (auto simp: fork_steps)

lemma fork_absent: "wp (old_worker_absent fork_os 3 False) (\<lambda>b p'. b \<and> grew p p') p"
  by (auto simp: old_worker_absent_def fork_steps)

lemma fork_written:
  "contents \<noteq> [] \<Longrightarrow> wp (write_all fork_os fd contents) (\<lambda>n p'. n = length contents \<and> grew p p') p"
  by (auto simp: write_all_def fork_steps eval_nat_numeral)

lemma fork_record:
  assumes "0 \<le> child" "child \<le> INT_MAX"
  shows "wp (supervisor_ownership_record fork_os 3 child) (\<lambda>b p'. b \<and> grew p p') p"
proof -
  have "nat child < 10 ^ Suc 9" using assms(2) by (simp add: INT_MAX_def)
  then have len: "length (worker_record child) < 64" "worker_record child \<noteq> []"
    using decimal_length[of "nat child" 9] assms(1) by (simp_all add: record_of record_prefix_def)
  have bytes: "length (bytes_of (worker_record child)) = length (worker_record child)"
    "bytes_of (worker_record child) \<noteq> []"
    using len(2) by (simp_all add: bytes_of_def)
  show ?thesis
    unfolding supervisor_ownership_record_def private_directory_def private_file_def Let_def
    using assms len
    by (simp add: wp_bind wp_in_system wp_logged_eq fork_fields demo_fields directory_status_def regular_status_def
      wp_if wp_return demo_names)
      (rule wp_mono[OF fork_written[OF bytes(2)]],
        auto simp: fork_steps bytes)
qed

lemma fork_acquire:
  "wp (supervisor_ownership_acquire fork_os 3 False) (\<lambda>lock p'. lock = Some 5 \<and> grew p p') p"
proof -
  have seq: "wp (and_then m n) (\<lambda>b p'. b \<and> grew q p') q"
    if "\<And>q. wp m (\<lambda>b p'. b \<and> grew q p') q" "\<And>q. wp n (\<lambda>b p'. b \<and> grew q p') q" for m n q
    unfolding wp_and_then by (rule wp_mono[OF that(1)]) (auto intro: wp_mono[OF that(2)] grew_trans)
  have clear: "wp (do { intent \<leftarrow> control_intent_read fork_os 3;
           ret (intent = (if False then CONTROL_INTENT_PENDING else CONTROL_INTENT_CLEAR)) })
      (\<lambda>b p'. b \<and> grew q p') q" for q
    by (rule grew_seq[OF forking_clear]) (simp add: wp_return)
  have locked: "wp (logged_call (sys_flock fork_os 5) (Locked 5)) (\<lambda>b p'. b \<and> grew q p') q" for q
    by (simp add: fork_steps)
  have opened: "wp (logged_call (sys_openat fork_os 3 lock_name flags) (Opened_at lock_name flags))
      (\<lambda>r p'. r = Inr 5 \<and> grew q p') q" if "O_RDONLY \<notin> set flags" for flags q
    using that by (simp add: fork_steps demo_names)
  have same: "wp (do {
        opened_info \<leftarrow> in_system (sys_fstat fork_os 5);
        named_info \<leftarrow> (case opened_info of
                          None \<Rightarrow> ret None
                        | Some _ \<Rightarrow> in_system (sys_fstatat fork_os 3 lock_name));
        ret (case (opened_info, named_info) of
               (Some a, Some b) \<Rightarrow> st_dev a = st_dev b \<and> st_ino a = st_ino b
             | _ \<Rightarrow> False)
      }) (\<lambda>b p'. b \<and> grew q p') q" for q
    by (simp add: fork_steps regular_status_def)
  have true: "wp (ret True) (\<lambda>b p'. b \<and> grew q p') q" for q :: "nat parent"
    by (simp add: wp_return grew_refl)
  have recorded: "wp (supervisor_ownership_record fork_os 3 0) (\<lambda>b p'. b \<and> grew q p') q" for q
    by (rule fork_record) (simp_all add: INT_MAX_def)
  show ?thesis
    unfolding supervisor_ownership_acquire_def
    apply (rule grew_seq[OF fork_directory], rule wp_ifI, simp)
    apply (rule grew_seq[OF opened], simp, hypsubst, unfold sum.case)
    apply (rule grew_seq[OF seq[OF fork_file seq[OF locked seq[OF clear fork_absent]]]], simp, rule wp_ifI, simp)
    apply (rule grew_seq[OF same], simp only: eqTrueI, rule grew_seq[OF seq[OF true recorded]], rule wp_ifI, simp)
    by (simp add: wp_return) (blast intro: grew_trans)
qed


text \<open>The operation, up to its end.\<close>

definition marked_lease :: control_lease where
  "marked_lease = (held_lease 7)\<lparr>recovery_verified := False, write_pending := True\<rparr>"

lemma forking_mark:
  assumes "the_lease p = Some (held_lease 7)"
  shows "wp (and_then (control_intent_mark_pending fork_os 3) (do {
      now \<leftarrow> sup_now fork_os;
      on_lease (\<lambda>l. control_lease_mark_write_pending l 7 now CONTROL_INTENT_PENDING)
        (MarkPending 7 now CONTROL_INTENT_PENDING) }))
    (\<lambda>b p'. b \<and> the_lease p' = Some marked_lease) p"
proof -
  have contents: "bytes_of marker_contents \<noteq> []" "length (bytes_of marker_contents) = length marker_contents"
    by (simp_all add: bytes_of_def marker_contents_def)
  let ?l = "(held_lease 7)\<lparr>recovery_verified := False\<rparr>"
  have prepare: "wp (on_lease control_lease_prepare_persistent_intent PrepareIntent)
      (\<lambda>b p'. b \<and> the_lease p' = Some ?l) p"
    using assms by (simp add: on_lease_def wp_simps control_lease_prepare_persistent_intent_def held_lease_def
        stable_lease_def steady_lease_def)
  have create: "wp (control_intent_mark_pending fork_os 3) (\<lambda>b p'. b \<and> the_lease p' = Some ?l) p"
    unfolding control_intent_mark_pending_def
    apply (rule wp_bindI, rule wp_mono[OF prepare], rule wp_ifI, simp)
    apply (rule grew_seq[OF forking_clear], rule wp_ifI, simp)
    apply (simp add: fork_steps)
    apply (rule wp_mono[OF fork_written[OF contents(1)]])
    by (simp add: fork_steps contents)
  show ?thesis
    unfolding wp_and_then
    apply (rule wp_mono[OF create])
    by (simp add: fork_steps sup_now_def on_lease_def control_lease_mark_write_pending_def held_lease_def
        stable_lease_def steady_lease_def marked_lease_def second_ns_def)
qed

lemma fork_spawned:
  "wp (spawn_worker fork_os 3 demo_backend Operating)
     (\<lambda>r p'. r = (100, Some 8) \<and> Forked Operating 100 \<in> set (sys_log p') \<and> the_lease p' = the_lease p) p"
proof -
  have recorded: "wp (supervisor_ownership_record fork_os 3 100) (\<lambda>b p'. b \<and> grew q p') q" for q
    by (rule fork_record) (simp_all add: INT_MAX_def)
  show ?thesis
    unfolding spawn_worker_def parent_check_def fork_worker_def close_fd_def demo_backend_def
    apply (simp add: fork_steps)
    apply (rule wp_mono[OF recorded])
    by (auto simp: fork_steps bytes_of_def)
qed

lemma fork_phase:
  assumes "second_ns 61 < deadline"
  shows "wp (wait_phase fork_os 100 deadline 1000000000 None exit_kind report demo_backend)
    (\<lambda>r p'. fst r \<and> grew p p') p"
proof -
  have "second_ns 61 \<noteq> 0" "\<not> deadline \<le> second_ns 61"
    using assms by (simp_all add: second_ns_def)
  then show ?thesis
    unfolding wait_phase_def fork_fields wait_phase_from.simps
    by (auto simp: fork_steps sup_now_def parent_check_def demo_backend_def cancelled_def wait_child_def Let_def)
qed

lemma fork_operation:
  assumes "the_lease p = Some marked_lease"
  shows "wp (run_operation fork_os demo_backend 3 demo_limits None report)
    (\<lambda>r p'. fst r \<and> Forked Operating 100 \<in> set (sys_log p') \<and> the_lease p' = Some marked_lease) p"
proof -
  have limit: "wp (deadline_for fork_os (operation_ns demo_limits))
      (\<lambda>r p'. r = Some (second_ns 71) \<and> the_lease p' = the_lease p) p"
    by (simp add: deadline_for_def sup_now_def fork_steps demo_limits_def second_ns_def UINT64_MAX_def
        word_less_nat_alt)
  have expires: "\<not> expires_at_ns marked_lease < second_ns 71" "second_ns 61 < second_ns 71"
    "reap_ns demo_limits = 1000000000"
    by (simp_all add: marked_lease_def held_lease_def clock_order demo_limits_def)
  show ?thesis
    unfolding run_operation_def
    apply (rule wp_bindI, rule wp_mono[OF limit], elim conjE, hypsubst, unfold option.case)
    apply (rule wp_bindI, simp only: wp_get_lease assms option.sel Let_def expires if_False)
    apply (rule wp_bindI, rule wp_mono[OF fork_spawned], elim conjE, hypsubst, unfold prod.case)
    apply (simp add: wp_bind wp_if wp_return)
    apply (rule wp_mono[OF fork_phase[OF expires(2)]])
    using assms by (auto simp: fork_steps close_some_def close_fd_def split: prod.splits)
qed

lemma forking_recover: "wp (recover_owned fork_os demo_abi demo_backend 3 demo_limits report) (\<lambda>_ p'. grew p p') p"
  unfolding recover_owned_def Let_def spawn_worker_def parent_check_def fork_worker_def close_fd_def demo_backend_def
    deadline_for_def sup_now_def
  by (auto simp: fork_steps)

lemma fork_owned:
  assumes "the_lease p = Some (held_lease 7)"
  shows "wp (run_owned fork_os demo_abi demo_backend 3 demo_limits None)
    (\<lambda>_ p'. Forked Operating 100 \<in> set (sys_log p')) p"
proof -
  have owner: "lease_owner (held_lease 7) = 7" by (simp add: held_lease_def)
  have hook: "parent_check demo_backend = ret ()" by (simp add: parent_check_def demo_backend_def)
  have lost: "wp (owner_lost 7) (\<lambda>_ p'. set (sys_log q) \<subseteq> set (sys_log p')) q" for q :: "nat parent"
    by (auto simp: owner_lost_def on_lease_void_def on_lease_def fork_steps split: prod.splits)
  show ?thesis
    unfolding run_owned_def
    apply (rule wp_bindI, simp only: wp_get_lease assms option.sel Let_def owner)
    apply (simp only: hook, rule wp_bindI, simp only: wp_return)
    apply (rule wp_bindI, rule wp_mono[OF forking_mark[OF assms]], rule wp_ifI, simp)
    apply (rule wp_bindI, rule wp_mono[OF fork_operation], simp, elim conjE, rule wp_case_prodI)
    apply (rule wp_bindI, rule wp_mono[OF lost], rule wp_ifI, simp)
    by (rule wp_mono[OF forking_recover]) (auto simp: grew_def)
qed

lemma held_admitted: "lease_current (held_lease 7) (second_ns 61)"
  by (simp add: lease_current_def held_lease_def stable_lease_def steady_lease_def clock_order)
    (simp add: second_ns_def SECOND_NS_def word_le_nat_alt)

lemma fork_run:
  assumes "the_lease p = Some (held_lease 7)"
  shows "wp (worker_supervisor_run fork_os demo_abi 3 demo_backend demo_limits None)
    (\<lambda>_ p'. Forked Operating 100 \<in> set (sys_log p')) p"
proof -
  have hook: "parent_check demo_backend = ret ()" by (simp add: parent_check_def demo_backend_def)
  have seq: "wp (and_then m n) (\<lambda>b p'. b \<and> grew q p') q"
    if "\<And>q. wp m (\<lambda>b p'. b \<and> grew q p') q" "\<And>q. wp n (\<lambda>b p'. b \<and> grew q p') q" for m n q
    unfolding wp_and_then by (rule wp_mono[OF that(1)]) (auto intro: wp_mono[OF that(2)] grew_trans)
  have able: "wp (can_supervise fork_os demo_backend demo_limits) (\<lambda>b p'. b \<and> grew q p') q" for q
    by (simp add: can_supervise_def fork_steps demo_backend_def demo_limits_def
        limits_valid_def CONTROL_LEASE_TTL_NS_def CONTROL_LEASE_BASELINE_NS_def SECOND_NS_def
        word_le_nat_alt word_less_nat_alt)
  have quiet: "wp (ret True) (\<lambda>b p'. b \<and> grew q p') q" for q :: "nat parent"
    by (simp add: wp_return grew_refl)
  have free: "wp (negated (cancelled None)) (\<lambda>b p'. b \<and> grew q p') q" for q :: "nat parent"
    by (simp add: cancelled_def wp_simps grew_refl)
  have clear: "wp (do { intent \<leftarrow> control_intent_read fork_os 3; ret (intent = CONTROL_INTENT_CLEAR) })
      (\<lambda>b p'. b \<and> grew q p') q" for q
    by (rule grew_seq[OF forking_clear]) (simp add: wp_return)
  have now: "wp (sup_now fork_os) (\<lambda>t p'. t = second_ns 61 \<and> grew q p') q" for q
    by (simp add: sup_now_def fork_steps)
  have able_to: "(Some (held_lease 7) \<noteq> None) = True" "(operate demo_backend \<noteq> None) = True"
    "lease_current (the (Some (held_lease 7))) (second_ns 61) = True"
    using held_admitted by (simp_all add: demo_backend_def)
  show ?thesis
    unfolding worker_supervisor_run_def hook
    apply (rule wp_bindI, simp only: wp_return, rule grew_seq[OF now], hypsubst)
    apply (rule wp_bindI, simp only: wp_get_lease grew_def assms able_to)
    apply (rule grew_seq[OF seq[OF quiet seq[OF able seq[OF quiet seq[OF free seq[OF quiet clear]]]]]])
    apply (rule wp_ifI, simp, rule grew_seq[OF fork_acquire], hypsubst, unfold option.case)
    apply (rule wp_bindI, rule wp_mono[OF fork_owned])
     apply (simp add: grew_def)
    by (simp add: close_fd_def fork_steps)
qed

theorem operation_follows_marker_witness:
  "\<exists>report p'. run_state (worker_supervisor_run fork_os demo_abi 3 demo_backend demo_limits None) held_parent =
     (report, p') \<and> forks_marked 3 (sys_log p') \<and> Forked Operating 100 \<in> set (sys_log p')"
proof -
  obtain report p' where r:
    "run_state (worker_supervisor_run fork_os demo_abi 3 demo_backend demo_limits None) held_parent = (report, p')"
    by fastforce
  have "the_lease held_parent = Some (held_lease 7)" by (simp add: held_parent_def)
  from wpD[OF fork_run[OF this] r] have forked: "Forked Operating 100 \<in> set (sys_log p')" .
  have "forks_marked 3 (map (\<lambda>(c, b). Called c b) cs)" for cs
    by (induction cs) auto
  moreover have "sys_log held_parent =
      map (\<lambda>(c, b). Called c b) ((claim_call, True) # steady_calls 60 [clear_start])"
    by (simp add: held_parent_def)
  ultimately have "forks_marked 3 (sys_log held_parent)" by metis
  from operation_follows_marker[OF this r] have "forks_marked 3 (sys_log p')" .
  with forked r show ?thesis by blast
qed

end
