(* ===== verification/SupervisorTermination.thy ===== *)
theory SupervisorTermination
  imports SupervisorSteady
begin

text \<open>
  The supervisor's loops end: on a machine whose clock keeps up with its sleeps, and on which finitely
  many signals interrupt calls, no loop of a supervised run exhausts its fuel, given a round for every
  10 ms of the longest phase, for every signal and for every byte transferred.
\<close>

section \<open>Machines in time\<close>

text \<open>\<open>time\<close> is the monotonic time and \<open>signals\<close> the number of signals still to come.\<close>

definition orderly :: "('d \<Rightarrow> nat) \<Rightarrow> ('d \<Rightarrow> nat) \<Rightarrow> 'd \<Rightarrow> 'd \<Rightarrow> bool" where
  "orderly time signals d d' \<longleftrightarrow> time d \<le> time d' \<and> signals d' \<le> signals d"

text \<open>
  The clock answers a time of its call, or 0. A sleep lasts unless a signal ends it. An interrupted read
  or write has used up a signal, and a read gives at most what was asked for.
\<close>

definition orderly_os :: "('d \<Rightarrow> nat) \<Rightarrow> ('d \<Rightarrow> nat) \<Rightarrow> 'd posix \<Rightarrow> bool" where
  "orderly_os time signals os \<longleftrightarrow> steady_os (orderly time signals) os \<and>
     (\<forall>d r d'. run_state (sys_clock os) d = (r, d') \<longrightarrow> r = 0 \<or> time d \<le> unat r \<and> unat r \<le> time d') \<and>
     (\<forall>ns d r d'. run_state (sys_nanosleep os ns) d = (r, d') \<longrightarrow>
        time d + unat ns \<le> time d' \<or> signals d' < signals d) \<and>
     (\<forall>fd n d r d'. run_state (sys_read os fd n) d = (r, d') \<longrightarrow>
        (r = Inl EINTR \<longrightarrow> signals d' < signals d) \<and> (\<forall>bytes. r = Inr bytes \<longrightarrow> length bytes \<le> n)) \<and>
     (\<forall>fd bytes d r d'. run_state (sys_write os fd bytes) d = (r, d') \<longrightarrow>
        r = Inl EINTR \<longrightarrow> signals d' < signals d)"

text \<open>How often a loop has exhausted its fuel.\<close>

definition exhausted :: "'d parent \<Rightarrow> nat" where
  "exhausted p = count_list (sys_log p) Ran_out"

definition progressed :: "('d \<Rightarrow> nat) \<Rightarrow> ('d \<Rightarrow> nat) \<Rightarrow> 'd parent \<Rightarrow> 'd parent \<Rightarrow> bool" where
  "progressed time signals p p' \<longleftrightarrow> exhausted p' = exhausted p \<and>
     orderly time signals (system p) (system p')"

text \<open>From any state at the time \<open>t\<close> or later, with at most \<open>K\<close> signals to come, no loop of the program
  exhausts its fuel.\<close>

definition ends :: "('d \<Rightarrow> nat) \<Rightarrow> ('d \<Rightarrow> nat) \<Rightarrow> nat \<Rightarrow> nat \<Rightarrow> ('d parent, 'r) state \<Rightarrow> bool" where
  "ends time signals K t m \<longleftrightarrow> (\<forall>p. t \<le> time (system p) \<longrightarrow> signals (system p) \<le> K \<longrightarrow>
     wp m (\<lambda>_. progressed time signals p) p)"

named_theorems ends_intros "introduction rules of ends"

lemma progressed_refl: "progressed time signals p p"
  by (simp add: progressed_def orderly_def)

lemma progressed_trans:
  "progressed time signals p q \<Longrightarrow> progressed time signals q r \<Longrightarrow> progressed time signals p r"
  by (auto simp: progressed_def orderly_def)

lemma endsI:
  "(\<And>p. t \<le> time (system p) \<Longrightarrow> signals (system p) \<le> K \<Longrightarrow> wp m (\<lambda>_. progressed time signals p) p) \<Longrightarrow>
   ends time signals K t m"
  by (simp add: ends_def)

lemma endsD:
  assumes "ends time signals K t m" "t \<le> time (system p)" "signals (system p) \<le> K"
  shows "wp m (\<lambda>_. progressed time signals p) p"
  using assms by (simp add: ends_def)

lemma ends_return [ends_intros]: "ends time signals K t (ret x)"
  by (simp add: ends_def wp_return progressed_refl)

text \<open>What a first part establishes of its result may be used at the time it ends.\<close>

lemma ends_bindI:
  fixes m :: "('d parent, 'a) state"
  assumes "\<And>p. t \<le> time (system p) \<Longrightarrow> signals (system p) \<le> K \<Longrightarrow>
      wp m (\<lambda>r p'. progressed time signals p p' \<and> P r (time (system p'))) p"
    and "\<And>r t'. t \<le> t' \<Longrightarrow> P r t' \<Longrightarrow> ends time signals K t' (f r)"
  shows "ends time signals K t (m \<bind> f)"
proof (rule endsI)
  fix p :: "'d parent" assume p: "t \<le> time (system p)" "signals (system p) \<le> K"
  show "wp (m \<bind> f) (\<lambda>_. progressed time signals p) p"
  proof (rule wp_bindI, rule wp_mono[OF assms(1)[OF p]], elim conjE)
    fix r p' assume first: "progressed time signals p p'" and found: "P r (time (system p'))"
    have "t \<le> time (system p')" "signals (system p') \<le> K"
      using first p by (auto simp: progressed_def orderly_def)
    from endsD[OF assms(2)[OF this(1) found] order_refl this(2)]
    show "wp (f r) (\<lambda>_. progressed time signals p) p'"
      by (rule wp_mono) (rule progressed_trans[OF first])
  qed
qed

lemma ends_later: "ends time signals K t m \<Longrightarrow> t \<le> t' \<Longrightarrow> ends time signals K t' m"
  by (simp add: ends_def)

lemma ends_bind [ends_intros]:
  assumes "ends time signals K t m" "\<And>x. ends time signals K t (f x)"
  shows "ends time signals K t (m \<bind> f)"
  by (rule ends_bindI[where P = "\<lambda>_ _. True"]) (use assms in \<open>auto intro: endsD ends_later\<close>)

lemma ends_if [ends_intros]:
  "(b \<Longrightarrow> ends time signals K t m) \<Longrightarrow> (\<not> b \<Longrightarrow> ends time signals K t n) \<Longrightarrow>
   ends time signals K t (if b then m else n)"
  by simp

lemma ends_let [ends_intros]: "ends time signals K t (f a) \<Longrightarrow> ends time signals K t (let x = a in f x)"
  by simp

lemma ends_prod [ends_intros]:
  "(\<And>x y. p = (x, y) \<Longrightarrow> ends time signals K t (f x y)) \<Longrightarrow>
   ends time signals K t (case p of (x, y) \<Rightarrow> f x y)"
  by (cases p) auto

lemma ends_option [ends_intros]:
  "(v = None \<Longrightarrow> ends time signals K t m) \<Longrightarrow> (\<And>x. v = Some x \<Longrightarrow> ends time signals K t (f x)) \<Longrightarrow>
   ends time signals K t (case v of None \<Rightarrow> m | Some x \<Rightarrow> f x)"
  by (cases v) auto

lemma ends_sum [ends_intros]:
  "(\<And>x. v = Inl x \<Longrightarrow> ends time signals K t (f x)) \<Longrightarrow> (\<And>y. v = Inr y \<Longrightarrow> ends time signals K t (g y)) \<Longrightarrow>
   ends time signals K t (case v of Inl x \<Rightarrow> f x | Inr y \<Rightarrow> g y)"
  by (cases v) auto

lemma ends_connectives [ends_intros]:
  "ends time signals K t m \<Longrightarrow> ends time signals K t n \<Longrightarrow> ends time signals K t (and_then m n)"
  "ends time signals K t m \<Longrightarrow> ends time signals K t n \<Longrightarrow> ends time signals K t (or_else m n)"
  "ends time signals K t m \<Longrightarrow> ends time signals K t (negated m)"
  unfolding and_then_def or_else_def negated_def by (intro ends_intros; assumption)+

lemma ends_called [ends_intros]:
  assumes "steadily (orderly time signals) m"
  shows "ends time signals K t (in_system m)"
  using assms by (auto simp: ends_def wp_def in_system_def steadily_def progressed_def exhausted_def split_def)

lemma ends_noted [ends_intros]: "e \<noteq> Ran_out \<Longrightarrow> ends time signals K t (note_sys e)"
  by (simp add: ends_def wp_def note_sys_def progressed_def exhausted_def orderly_def)

lemma ends_logged [ends_intros]:
  assumes "steadily (orderly time signals) m" "\<And>r. e r \<noteq> Ran_out"
  shows "ends time signals K t (logged_call m e)"
  unfolding logged_call_def by (intro ends_intros assms)

lemma ends_memory [ends_intros]:
  "ends time signals K t (on_lease f c)" "ends time signals K t clear_lease" "ends time signals K t get_lease"
  "ends time signals K t (keep_latest wanted observation)"
  by (simp_all add: ends_def wp_def on_lease_def clear_lease_def get_lease_def keep_latest_def
      progressed_def exhausted_def orderly_def split_def)

lemma ends_lease_calls [ends_intros]:
  "ends time signals K t (on_lease_void g c)" "ends time signals K t (owner_lost owner)"
  "ends time signals K t (feed_observation observation taken recovering)"
  "ends time signals K t (accept_observation observation launched received taken recovering)"
  unfolding feed_observation_def accept_observation_def on_lease_void_def owner_lost_def
  by (intro ends_intros)+

lemma orderly_calls [ends_intros]:
  assumes "orderly_os time signals os"
  shows "steadily (orderly time signals) (sys_fstat os fd)"
    "steadily (orderly time signals) (sys_fstatat os fd name)"
    "steadily (orderly time signals) (sys_geteuid os)"
    "steadily (orderly time signals) (sys_openat os fd name flags)"
    "steadily (orderly time signals) (sys_read os fd n)"
    "steadily (orderly time signals) (sys_write os fd bytes)"
    "steadily (orderly time signals) (sys_ftruncate os fd)"
    "steadily (orderly time signals) (sys_fsync os fd)" "steadily (orderly time signals) (sys_close os fd)"
    "steadily (orderly time signals) (sys_unlinkat os fd name)"
    "steadily (orderly time signals) (sys_renameat os fd a b)"
    "steadily (orderly time signals) (sys_flock os fd)" "steadily (orderly time signals) (sys_pidinfo os pid)"
    "steadily (orderly time signals) (sys_clock os)" "steadily (orderly time signals) (sys_nanosleep os ns)"
    "steadily (orderly time signals) (sys_socketpair os)" "steadily (orderly time signals) (sys_pipe os)"
    "steadily (orderly time signals) (sys_set_cloexec os fd)"
    "steadily (orderly time signals) (sys_set_nonblock os fd)"
    "steadily (orderly time signals) (sys_send os fd bytes)"
    "steadily (orderly time signals) (sys_fork os role)"
    "steadily (orderly time signals) (sys_waitpid os pid)"
    "steadily (orderly time signals) (sys_kill os pid)"
    "steadily (orderly time signals) (sys_start_watcher os fd)"
    "steadily (orderly time signals) (sys_sigchld_default os)"
  using assms by (simp_all add: orderly_os_def steady_os_def)

lemma orderly_mapped [ends_intros]:
  "steadily (orderly time signals) m \<Longrightarrow> steadily (orderly time signals) (map_state f m)"
  by (auto simp: steadily_def map_state_def split_def)

section \<open>Transfers\<close>

text \<open>What a single call of the machine does to the time and the signals.\<close>

lemma wp_system_call:
  assumes "steadily (orderly time signals) m"
    and "\<And>r d'. run_state m (system p) = (r, d') \<Longrightarrow> orderly time signals (system p) d' \<Longrightarrow>
       Q r (p\<lparr>system := d'\<rparr>)"
  shows "wp (in_system m) Q p"
proof -
  obtain r d' where run: "run_state m (system p) = (r, d')" by fastforce
  with steadilyD[OF assms(1) run] assms(2) show ?thesis by (simp add: wp_def in_system_def)
qed

lemma progressed_call:
  "orderly time signals (system p) d' \<Longrightarrow> progressed time signals p (p\<lparr>system := d'\<rparr>)"
  by (simp add: progressed_def exhausted_def)

lemma wp_logged_write:
  assumes "orderly_os time signals os"
    and "\<And>r p'. progressed time signals p p' \<Longrightarrow>
      (r = Inl EINTR \<Longrightarrow> signals (system p') < signals (system p)) \<Longrightarrow> Q r p'"
  shows "wp (logged_call (sys_write os fd bytes) (Wrote fd sent)) Q p"
  unfolding logged_call_def
proof (rule wp_bindI, rule wp_system_call[OF orderly_calls(6)[OF assms(1)]])
  fix r d' assume run: "run_state (sys_write os fd bytes) (system p) = (r, d')"
    and "orderly time signals (system p) d'"
  moreover have "r = Inl EINTR \<longrightarrow> signals d' < signals (system p)"
    using assms(1) run unfolding orderly_os_def by blast
  ultimately show "wp (do { note_sys (Wrote fd sent r); ret r }) Q (p\<lparr>system := d'\<rparr>)"
    by (simp add: wp_bind note_sys_def wp_State wp_return assms(2) progressed_def exhausted_def)
qed

lemma wp_ends_read:
  assumes "orderly_os time signals os"
    and "\<And>r p'. progressed time signals p p' \<Longrightarrow>
      (r = Inl EINTR \<Longrightarrow> signals (system p') < signals (system p)) \<Longrightarrow>
      (\<And>bytes. r = Inr bytes \<Longrightarrow> length bytes \<le> n) \<Longrightarrow> Q r p'"
  shows "wp (in_system (sys_read os fd n)) Q p"
proof (rule wp_system_call[OF orderly_calls(5)[OF assms(1)]])
  fix r d' assume run: "run_state (sys_read os fd n) (system p) = (r, d')"
    and ordered: "orderly time signals (system p) d'"
  have facts: "r = Inl EINTR \<longrightarrow> signals d' < signals (system p)"
    "\<forall>bytes. r = Inr bytes \<longrightarrow> length bytes \<le> n"
    using assms(1) run unfolding orderly_os_def by blast+
  show "Q r (p\<lparr>system := d'\<rparr>)"
    by (rule assms(2)[OF progressed_call[OF ordered]]) (use facts in auto)
qed

lemma write_ends:
  assumes os: "orderly_os time signals os"
    and "length contents - written + signals (system p) < fuel"
  shows "wp (write_from os fuel fd contents written) (\<lambda>_. progressed time signals p) p"
  using assms(2)
proof (induction fuel arbitrary: written p)
  case (Suc fuel)
  show ?case
  proof (cases "written < length contents")
    case True
    have after: "wp (case r of
          Inr n \<Rightarrow> if 0 < n then write_from os fuel fd contents (written + n) else ret written
        | Inl e \<Rightarrow> if e = EINTR then write_from os fuel fd contents written else ret written)
        (\<lambda>_. progressed time signals p) p'"
      if step: "progressed time signals p p'" "r = Inl EINTR \<Longrightarrow> signals (system p') < signals (system p)"
      for r p'
    proof -
      have later: "wp (write_from os fuel fd contents n) (\<lambda>_. progressed time signals p) p'"
        if "length contents - n + signals (system p') < fuel" for n
        by (rule wp_mono[OF Suc.IH[OF that]]) (rule progressed_trans[OF step(1)])
      have "signals (system p') \<le> signals (system p)" using step(1) by (simp add: progressed_def orderly_def)
      then show ?thesis
        using step Suc.prems True
        by (auto simp: wp_return intro!: later split: sum.split)
    qed
    then show ?thesis using True by (simp add: wp_bind) (rule wp_logged_write[OF os], rule after; simp)
  qed (simp add: wp_return progressed_refl)
qed simp

lemma read_ends:
  assumes os: "orderly_os time signals os"
    and "wanted - length got + signals (system p) < fuel"
  shows "wp (read_from os fuel fd wanted got) (\<lambda>_. progressed time signals p) p"
  using assms(2)
proof (induction fuel arbitrary: got p)
  case (Suc fuel)
  show ?case
  proof (cases "length got < wanted")
    case True
    have after: "wp (case r of
          Inr bytes \<Rightarrow> if bytes \<noteq> [] then read_from os fuel fd wanted (got @ bytes) else ret got
        | Inl e \<Rightarrow> if e = EINTR then read_from os fuel fd wanted got else ret got)
        (\<lambda>_. progressed time signals p) p'"
      if step: "progressed time signals p p'" "r = Inl EINTR \<Longrightarrow> signals (system p') < signals (system p)"
      for r p'
    proof -
      have later: "wp (read_from os fuel fd wanted more) (\<lambda>_. progressed time signals p) p'"
        if "wanted - length more + signals (system p') < fuel" for more
        by (rule wp_mono[OF Suc.IH[OF that]]) (rule progressed_trans[OF step(1)])
      have "signals (system p') \<le> signals (system p)" using step(1) by (simp add: progressed_def orderly_def)
      moreover have "bytes \<noteq> [] \<Longrightarrow> 0 < length bytes" for bytes :: "u8 list" by simp
      ultimately show ?thesis
        using step Suc.prems True
        by (auto simp: wp_return simp flip: length_greater_0_conv intro!: later split: sum.split)
    qed
    then show ?thesis using True by (simp add: wp_bind) (rule wp_ends_read[OF os], rule after; simp)
  qed (simp add: wp_return progressed_refl)
qed simp

lemma ends_transfers [ends_intros]:
  assumes "orderly_os time signals os"
  shows "length contents + K < retry_fuel os \<Longrightarrow> ends time signals K t (write_all os fd contents)"
    and "wanted + K < retry_fuel os \<Longrightarrow> ends time signals K t (read_up_to os fd wanted)"
  unfolding write_all_def read_up_to_def
  by (auto intro!: endsI write_ends[OF assms] read_ends[OF assms])

section \<open>Clocks\<close>

lemma ends_clocks [ends_intros]:
  assumes "orderly_os time signals os"
  shows "ends time signals K t (sup_now os)" "ends time signals K t (deadline_for os duration)"
    "ends time signals K t (pause_ns os duration)" "ends time signals K t (wait_child os child)"
  unfolding sup_now_def deadline_for_def pause_ns_def wait_child_def
  by (intro ends_intros assms; simp)+

lemma wp_ends_now:
  assumes "orderly_os time signals os"
    and "\<And>r p'. progressed time signals p p' \<Longrightarrow>
      r = 0 \<or> time (system p) \<le> unat r \<and> unat r \<le> time (system p') \<Longrightarrow> Q r p'"
  shows "wp (sup_now os) Q p"
  unfolding sup_now_def
proof (rule wp_system_call[OF orderly_calls(14)[OF assms(1)]])
  fix r d' assume run: "run_state (sys_clock os) (system p) = (r, d')"
    and ordered: "orderly time signals (system p) d'"
  have fact: "r = 0 \<or> time (system p) \<le> unat r \<and> unat r \<le> time d'"
    using assms(1) run unfolding orderly_os_def by blast
  show "Q r (p\<lparr>system := d'\<rparr>)"
    by (rule assms(2)[OF progressed_call[OF ordered]]) (use fact in auto)
qed

lemma wp_pause:
  assumes "orderly_os time signals os"
    and "\<And>r p'. progressed time signals p p' \<Longrightarrow>
      time (system p) + unat ns \<le> time (system p') \<or> signals (system p') < signals (system p) \<Longrightarrow> Q r p'"
  shows "wp (pause_ns os ns) Q p"
  unfolding pause_ns_def
proof (rule wp_system_call[OF orderly_calls(15)[OF assms(1)]])
  fix r d' assume run: "run_state (sys_nanosleep os ns) (system p) = (r, d')"
    and ordered: "orderly time signals (system p) d'"
  have fact: "time (system p) + unat ns \<le> time d' \<or> signals d' < signals (system p)"
    using assms(1) run unfolding orderly_os_def by blast
  show "Q r (p\<lparr>system := d'\<rparr>)"
    by (rule assms(2)[OF progressed_call[OF ordered]]) (use fact in auto)
qed

text \<open>A deadline is at most its duration ahead.\<close>

lemma ends_deadline:
  assumes os: "orderly_os time signals os"
    and "ends time signals K t (f None)"
    and "\<And>deadline t'. t \<le> t' \<Longrightarrow> unat deadline \<le> t' + unat duration \<Longrightarrow>
      ends time signals K t' (f (Some deadline))"
  shows "ends time signals K t (deadline_for os duration \<bind> f)"
proof (rule ends_bindI[where
      P = "\<lambda>r now. \<forall>deadline. r = Some deadline \<longrightarrow> unat deadline \<le> now + unat duration"])
  fix p :: "'a parent" assume "t \<le> time (system p)"
  show "wp (deadline_for os duration)
      (\<lambda>r p'. progressed time signals p p' \<and>
        (\<forall>deadline. r = Some deadline \<longrightarrow> unat deadline \<le> time (system p') + unat duration)) p"
    unfolding deadline_for_def
  proof (rule wp_bindI, rule wp_ends_now[OF os])
    fix now :: u64 and p' :: "'a parent"
    assume step: "progressed time signals p p'"
      "now = 0 \<or> time (system p) \<le> unat now \<and> unat now \<le> time (system p')"
    have "unat (now + duration) \<le> unat now + unat duration" by (simp add: unat_word_ariths)
    with step show "wp (ret (if now = 0 \<or> duration = 0 \<or> UINT64_MAX - duration < now then None
          else Some (now + duration)))
        (\<lambda>r p'. progressed time signals p p' \<and>
          (\<forall>deadline. r = Some deadline \<longrightarrow> unat deadline \<le> time (system p') + unat duration)) p'"
      by (auto simp: wp_return)
  qed
next
  fix r :: "u64 option" and t' assume "t \<le> t'" "\<forall>deadline. r = Some deadline \<longrightarrow> unat deadline \<le> t' + unat duration"
  then show "ends time signals K t' (f r)"
    using assms(2,3) by (cases r) (auto intro: ends_later)
qed

section \<open>Polling\<close>

text \<open>\<open>rounds\<close> are enough to reach the deadline: one for every pause that lasts, one for every signal.\<close>

definition enough_rounds :: "('d \<Rightarrow> nat) \<Rightarrow> ('d \<Rightarrow> nat) \<Rightarrow> u64 \<Rightarrow> 'd parent \<Rightarrow> nat \<Rightarrow> bool" where
  "enough_rounds time signals deadline p rounds \<longleftrightarrow>
     (\<exists>n. unat deadline \<le> time (system p) + n * unat POLL_NS \<and> n + signals (system p) < rounds)"

lemma enough_progressed:
  "enough_rounds time signals deadline p k \<Longrightarrow> progressed time signals p q \<Longrightarrow>
   enough_rounds time signals deadline q k"
  unfolding enough_rounds_def progressed_def orderly_def
  by (elim exE conjE, rule_tac x = n in exI) linarith

lemma enough_paused:
  assumes "enough_rounds time signals deadline p (Suc k)" "time (system p) < unat deadline"
    "progressed time signals p q"
    "time (system p) + unat POLL_NS \<le> time (system q) \<or> signals (system q) < signals (system p)"
  shows "enough_rounds time signals deadline q k"
proof -
  obtain n where n: "unat deadline \<le> time (system p) + n * unat POLL_NS" "n + signals (system p) < Suc k"
    using assms(1) unfolding enough_rounds_def by blast
  with assms(2) obtain m where m: "n = Suc m" by (cases n) auto
  have later: "time (system p) \<le> time (system q)" "signals (system q) \<le> signals (system p)"
    using assms(3) by (auto simp: progressed_def orderly_def)
  show ?thesis
  proof (cases "signals (system q) < signals (system p)")
    case True
    then show ?thesis using n later unfolding enough_rounds_def by (intro exI[of _ n]) auto
  next
    case False
    then show ?thesis using n m later assms(4) unfolding enough_rounds_def by (intro exI[of _ m]) auto
  qed
qed

lemma poll_ends:
  assumes os: "orderly_os time signals os"
    and enough: "enough_rounds time signals deadline p (Suc fuel)" "time (system p) < unat deadline"
    and so_far: "progressed time signals start p" and since: "progressed time signals p q"
    and rest: "\<And>q. enough_rounds time signals deadline q fuel \<Longrightarrow> progressed time signals start q \<Longrightarrow>
      wp m (\<lambda>_. progressed time signals q) q"
  shows "wp (do { pause_ns os POLL_NS; m }) (\<lambda>_. progressed time signals start) q"
proof (rule wp_bindI, rule wp_pause[OF os])
  fix r :: unit and q' :: "'a parent"
  assume step: "progressed time signals q q'"
    "time (system q) + unat POLL_NS \<le> time (system q') \<or> signals (system q') < signals (system q)"
  have "time (system p) + unat POLL_NS \<le> time (system q') \<or> signals (system q') < signals (system p)"
    using step since by (auto simp: progressed_def orderly_def)
  note enough' = enough_paused[OF enough progressed_trans[OF since step(1)] this]
  have whole: "progressed time signals start q'"
    by (rule progressed_trans[OF so_far progressed_trans[OF since step(1)]])
  show "wp m (\<lambda>_. progressed time signals start) q'"
    by (rule wp_mono[OF rest[OF enough' whole]]) (rule progressed_trans[OF whole])
qed

text \<open>The check of the clock before a pause.\<close>

lemma timed_poll_ends:
  assumes os: "orderly_os time signals os"
    and enough: "enough_rounds time signals deadline p (Suc fuel)"
    and so_far: "progressed time signals start p"
    and rest: "\<And>q. enough_rounds time signals deadline q fuel \<Longrightarrow> progressed time signals start q \<Longrightarrow>
      wp m (\<lambda>_. progressed time signals q) q"
  shows "wp (do {
      now \<leftarrow> sup_now os;
      if now = 0 \<or> deadline \<le> now then ret x else do { pause_ns os POLL_NS; m }
    }) (\<lambda>_. progressed time signals start) p"
proof (rule wp_bindI, rule wp_ends_now[OF os])
  fix now :: u64 and q :: "'a parent"
  assume step: "progressed time signals p q"
    "now = 0 \<or> time (system p) \<le> unat now \<and> unat now \<le> time (system q)"
  show "wp (if now = 0 \<or> deadline \<le> now then ret x else do { pause_ns os POLL_NS; m })
      (\<lambda>_. progressed time signals start) q"
  proof (rule wp_ifI)
    show "wp (ret x) (\<lambda>_. progressed time signals start) q"
      using progressed_trans[OF so_far step(1)] by (simp add: wp_return)
  next
    assume "\<not> (now = 0 \<or> deadline \<le> now)"
    then have "time (system p) < unat deadline"
      using step(2) by (auto simp: word_le_nat_alt)
    then show "wp (do { pause_ns os POLL_NS; m }) (\<lambda>_. progressed time signals start) q"
      by (rule poll_ends[OF os enough _ so_far step(1) rest])
  qed
qed

lemma reap_ends:
  assumes os: "orderly_os time signals os"
    and "enough_rounds time signals deadline p fuel"
  shows "wp (reap_until os fuel child deadline report) (\<lambda>_. progressed time signals p) p"
  using assms(2)
proof (induction fuel arbitrary: p)
  case 0
  then show ?case by (simp add: enough_rounds_def)
next
  case (Suc fuel)
  show ?case
    unfolding reap_until.simps
  proof (rule wp_bindI, rule wp_mono[OF endsD[OF ends_clocks(4)[OF os] order_refl order_refl]])
    fix waited and q :: "'a parent" assume step: "progressed time signals p q"
    note poll = timed_poll_ends[OF os enough_progressed[OF Suc.prems step] step Suc.IH]
    show "wp (case waited of
        StillRunning \<Rightarrow> do {
          now \<leftarrow> sup_now os;
          if now = 0 \<or> deadline \<le> now then ret (False, report)
          else do { pause_ns os POLL_NS; reap_until os fuel child deadline report }
        }
      | Reaped status \<Rightarrow> ret (True, count_reaped report)
      | WaitFailed e \<Rightarrow>
          if e \<noteq> EINTR then ret (False, report)
          else do {
            now \<leftarrow> sup_now os;
            if now = 0 \<or> deadline \<le> now then ret (False, report)
            else do { pause_ns os POLL_NS; reap_until os fuel child deadline report }
          }) (\<lambda>_. progressed time signals p) q"
      using poll step by (cases waited) (simp_all add: wp_return)
  qed
qed

lemma ends_case_wait [ends_intros]:
  "(v = StillRunning \<Longrightarrow> ends time signals K t m) \<Longrightarrow> (\<And>x. v = Reaped x \<Longrightarrow> ends time signals K t (g x)) \<Longrightarrow>
   (\<And>e. v = WaitFailed e \<Longrightarrow> ends time signals K t (h e)) \<Longrightarrow>
   ends time signals K t (case v of StillRunning \<Rightarrow> m | Reaped x \<Rightarrow> g x | WaitFailed e \<Rightarrow> h e)"
  by (cases v) auto

text \<open>Enough rounds for a deadline \<open>ahead\<close> nanoseconds from the time \<open>t\<close>.\<close>

lemma enough_at:
  assumes "unat deadline \<le> t + n * unat POLL_NS" "t \<le> time (system p)" "signals (system p) \<le> K"
    and "n + K < rounds"
  shows "enough_rounds time signals deadline p rounds"
  unfolding enough_rounds_def using assms by (intro exI[of _ n]) linarith

lemma ends_reap:
  assumes "orderly_os time signals os" "unat deadline \<le> t + n * unat POLL_NS" "n + K < fuel"
  shows "ends time signals K t (reap_until os fuel child deadline report)"
  by (rule endsI, rule reap_ends[OF assms(1)]) (rule enough_at[OF assms(2) _ _ assms(3)])

lemma ends_stop:
  assumes os: "orderly_os time signals os"
    and "unat reap_limit \<le> n * unat POLL_NS" "n + K < retry_fuel os"
  shows "ends time signals K t (stop_and_reap os child reap_limit report)"
    "ends time signals K t (leave_observer os child reap_limit s report)"
proof -
  show stop: "ends time signals K t (stop_and_reap os child reap_limit report)" for t child report
    unfolding stop_and_reap_def
  proof (intro ends_if ends_return ends_deadline[OF os])
    fix deadline :: u64 and t' assume "unat deadline \<le> t' + unat reap_limit"
    then have "unat deadline \<le> t' + n * unat POLL_NS" using assms(2) by linarith
    note reap = ends_reap[OF os this assms(3)]
    show "ends time signals K t' (case Some deadline of None \<Rightarrow> ret (False, report)
       | Some deadline \<Rightarrow> do {
            waited \<leftarrow> wait_child os child;
            let go_on = do {
                  killed \<leftarrow> logged_call (sys_kill os child) (\<lambda>_. Killed child);
                  if killed \<noteq> None \<and> killed \<noteq> Some ESRCH then ret (False, report)
                  else reap_until os (retry_fuel os) child deadline report
                }
            in case waited of
                 Reaped status \<Rightarrow> ret (True, count_reaped report)
               | WaitFailed e \<Rightarrow> if e \<noteq> EINTR then ret (False, report) else go_on
               | StillRunning \<Rightarrow> go_on
          })"
      by (simp, intro ends_intros reap os) simp_all
  qed (simp add: ends_return)
  show "ends time signals K t (leave_observer os child reap_limit s report)"
    unfolding leave_observer_def by (intro ends_intros stop)
qed

text \<open>The callbacks of the parent are orderly too.\<close>

definition orderly_hooks ::
  "('d \<Rightarrow> nat) \<Rightarrow> ('d \<Rightarrow> nat) \<Rightarrow> 'd worker_backend \<Rightarrow> ('d, bool) state option \<Rightarrow> bool" where
  "orderly_hooks time signals backend cancel \<longleftrightarrow> steady_hooks (orderly time signals) backend \<and>
     (\<forall>m. cancel = Some m \<longrightarrow> steadily (orderly time signals) m)"

lemma ends_hooks:
  assumes "orderly_hooks time signals backend cancel"
  shows "ends time signals K t (parent_check backend)" "ends time signals K t (cancelled cancel)"
    "ends time signals K t (announce_observer backend connection child recovering)"
  using assms unfolding parent_check_def cancelled_def announce_observer_def orderly_hooks_def steady_hooks_def
  by (intro ends_intros; simp)+

lemma phase_ends:
  assumes os: "orderly_os time signals os" and hooks: "orderly_hooks time signals backend cancel"
    and reap: "unat reap_limit \<le> n * unat POLL_NS" "n + K < retry_fuel os"
    and "enough_rounds time signals deadline p fuel" "signals (system p) \<le> K"
  shows "wp (wait_phase_from os fuel child deadline reap_limit cancel exit_kind report backend)
    (\<lambda>_. progressed time signals p) p"
  using assms(5,6)
proof (induction fuel arbitrary: p)
  case 0
  then show ?case by (simp add: enough_rounds_def)
next
  case (Suc fuel)
  let ?stop = "do {
      was_cancelled \<leftarrow> cancelled cancel;
      (stopped, report) \<leftarrow> stop_and_reap os child reap_limit report;
      ret (stopped, if was_cancelled then WORKER_CANCELLED else WORKER_TIMED_OUT, report)
    }"
  have stop: "ends time signals K t ?stop" for t
    by (intro ends_intros ends_stop[OF os reap] ends_hooks(2)[OF hooks])
  show ?case
    unfolding wait_phase_from.simps or_else_def
  proof (rule wp_bindI, rule wp_mono[OF endsD[OF ends_hooks(1)[OF hooks] order_refl order_refl]],
      rule wp_bindI, rule wp_ends_now[OF os])
    fix r :: unit and now :: u64 and p1 p2 :: "'a parent"
    assume p1: "progressed time signals p p1" and p2: "progressed time signals p1 p2"
      "now = 0 \<or> time (system p1) \<le> unat now \<and> unat now \<le> time (system p2)"
    have p02: "progressed time signals p p2" by (rule progressed_trans[OF p1 p2(1)])
    have few: "signals (system q) \<le> K" if "progressed time signals p q" for q
      using that Suc.prems(2) by (auto simp: progressed_def orderly_def)
    have rest: "wp (wait_phase_from os fuel child deadline reap_limit cancel exit_kind report backend)
        (\<lambda>_. progressed time signals q) q"
      if "enough_rounds time signals deadline q fuel" "signals (system q) \<le> K" for q
      by (rule Suc.IH[OF that])
    show "wp (do {
        over \<leftarrow> (do { a \<leftarrow> ret (now = 0 \<or> deadline \<le> now); if a then ret True else cancelled cancel });
        if over then ?stop
        else do {
          waited \<leftarrow> wait_child os child;
          let again = do {
                pause_ns os POLL_NS;
                wait_phase_from os fuel child deadline reap_limit cancel exit_kind report backend
              }
          in case waited of
               Reaped status \<Rightarrow> ret (True, classify_exit status, count_reaped report)
             | WaitFailed e \<Rightarrow> if e \<noteq> EINTR then ret (False, exit_kind, report) else again
             | StillRunning \<Rightarrow> again
        }
      }) (\<lambda>_. progressed time signals p) p2"
    proof -
      have halt: "wp ?stop (\<lambda>_. progressed time signals p) q" if "progressed time signals p q" for q
        by (rule wp_mono[OF endsD[OF stop order_refl few[OF that]]]) (rule progressed_trans[OF that])
      have wait: "wp (do {
          waited \<leftarrow> wait_child os child;
          let again = do {
                pause_ns os POLL_NS;
                wait_phase_from os fuel child deadline reap_limit cancel exit_kind report backend
              }
          in case waited of
               Reaped status \<Rightarrow> ret (True, classify_exit status, count_reaped report)
             | WaitFailed e \<Rightarrow> if e \<noteq> EINTR then ret (False, exit_kind, report) else again
             | StillRunning \<Rightarrow> again
        }) (\<lambda>_. progressed time signals p) q"
        if early: "time (system p1) < unat deadline" and q: "progressed time signals p q" "progressed time signals p1 q"
        for q
      proof (rule wp_bindI, rule wp_mono[OF endsD[OF ends_clocks(4)[OF os] order_refl order_refl]])
        fix waited and q' :: "'a parent" assume q': "progressed time signals q q'"
        have paused: "wp (do {
            pause_ns os POLL_NS;
            wait_phase_from os fuel child deadline reap_limit cancel exit_kind report backend
          }) (\<lambda>_. progressed time signals p) q'"
          by (rule poll_ends[OF os enough_progressed[OF Suc.prems(1) p1] early p1
                progressed_trans[OF q(2) q'] rest]) (assumption, rule few)
        then show "wp (let again = do {
                pause_ns os POLL_NS;
                wait_phase_from os fuel child deadline reap_limit cancel exit_kind report backend
              }
          in case waited of
               Reaped status \<Rightarrow> ret (True, classify_exit status, count_reaped report)
             | WaitFailed e \<Rightarrow> if e \<noteq> EINTR then ret (False, exit_kind, report) else again
             | StillRunning \<Rightarrow> again) (\<lambda>_. progressed time signals p) q'"
          using progressed_trans[OF q(1) q'] by (cases waited) (simp_all add: wp_return)
      qed
      show ?thesis
      proof (cases "now = 0 \<or> deadline \<le> now")
        case True
        then show ?thesis using halt[OF p02] by (simp add: wp_bind)
      next
        case False
        then have early: "time (system p1) < unat deadline" using p2(2) by (auto simp: word_le_nat_alt)
        have "wp (cancelled cancel \<bind> (\<lambda>over. if over then ?stop else do {
          waited \<leftarrow> wait_child os child;
          let again = do {
                pause_ns os POLL_NS;
                wait_phase_from os fuel child deadline reap_limit cancel exit_kind report backend
              }
          in case waited of
               Reaped status \<Rightarrow> ret (True, classify_exit status, count_reaped report)
             | WaitFailed e \<Rightarrow> if e \<noteq> EINTR then ret (False, exit_kind, report) else again
             | StillRunning \<Rightarrow> again
        })) (\<lambda>_. progressed time signals p) p2"
          by (rule wp_bindI, rule wp_mono[OF endsD[OF ends_hooks(2)[OF hooks] order_refl order_refl]],
              rule wp_ifI)
            (auto intro: halt wait[OF early] progressed_trans[OF p02] progressed_trans[OF p2(1)])
        with False show ?thesis by simp
      qed
    qed
  qed
qed

section \<open>The observer\<close>

text \<open>The bytes the observer may still send: those of the samples that are missing, and of the sample
  being read.\<close>

definition bytes_left :: "observation_abi \<Rightarrow> supervision \<Rightarrow> nat" where
  "bytes_left abi s = (unat CONTROL_LEASE_REQUIRED_SAMPLES - unat (accepted_samples s)) * observation_size abi +
     (observation_size abi - length (partial_bytes s))"

lemma input_ends:
  assumes os: "orderly_os time signals os"
    and fits: "length (partial_bytes s) \<le> observation_size abi"
  shows "wp (observer_input os abi input launched recovering wanted s)
    (\<lambda>step q. progressed time signals p q \<and>
      (case step of
         Leave \<Rightarrow> True
       | Continue s' \<Rightarrow> bytes_left abi s' < bytes_left abi s \<and> length (partial_bytes s') \<le> observation_size abi
       | Proceed s' \<Rightarrow> bytes_left abi s' = bytes_left abi s \<and> partial_bytes s' = partial_bytes s)) p"
  (is "wp _ ?Q p")
  unfolding observer_input_def
proof (rule wp_bindI, rule wp_ends_read[OF os])
  fix chunk :: "errno + u8 list" and q :: "'a parent"
  assume step: "progressed time signals p q"
    and short: "\<And>bytes. chunk = Inr bytes \<Longrightarrow> length bytes \<le> observation_size abi - length (partial_bytes s)"
  let ?filled = "\<lambda>bytes. partial_bytes s @ bytes"
  let ?next = "\<lambda>observation. s\<lparr>partial_bytes := [], accepted_samples := accepted_samples s + 1,
      progress_deadline := finished_ns observation + MAX_READ_NS + 2 * SECOND_NS\<rparr>"
  have partial: "bytes_left abi (s\<lparr>partial_bytes := ?filled bytes\<rparr>) < bytes_left abi s \<and>
      length (?filled bytes) \<le> observation_size abi"
    if "chunk = Inr bytes" "bytes \<noteq> []" for bytes
  proof -
    have "0 < length bytes" using that(2) by simp
    moreover have "length bytes \<le> observation_size abi - length (partial_bytes s)" by (rule short[OF that(1)])
    ultimately have "observation_size abi - (length (partial_bytes s) + length bytes)
          < observation_size abi - length (partial_bytes s)"
        "length (partial_bytes s) + length bytes \<le> observation_size abi"
      using fits by linarith+
    then show ?thesis 
      unfolding bytes_left_def by (simp del: add_diff_assoc diff_diff_left)
  qed
  have full: "bytes_left abi (?next observation) < bytes_left abi s"
    if "chunk = Inr bytes" "bytes \<noteq> []" "length (?filled bytes) = observation_size abi"
      "\<not> CONTROL_LEASE_REQUIRED_SAMPLES \<le> accepted_samples s" for bytes observation
  proof -
    have "unat (accepted_samples s) < 61" using that(4)
      by (simp add: CONTROL_LEASE_REQUIRED_SAMPLES_def word_le_nat_alt)
    moreover from this have "unat (accepted_samples s + 1) = Suc (unat (accepted_samples s))"
      by (simp add: unat_word_ariths)
    moreover have "length (partial_bytes s) < observation_size abi"
      using that(2,3) by (simp flip: length_greater_0_conv)
    ultimately obtain k where "61 - unat (accepted_samples s) = Suc k" "61 - unat (accepted_samples s + 1) = k"
      "length (partial_bytes s) < observation_size abi"
      by (metis Suc_diff_Suc)
    then show ?thesis by (simp add: bytes_left_def CONTROL_LEASE_REQUIRED_SAMPLES_def)
  qed
  show "wp (case chunk of
        Inl e \<Rightarrow> ret (if e \<noteq> EAGAIN \<and> e \<noteq> EINTR then Leave else Proceed s)
      | Inr bytes \<Rightarrow>
          if bytes = [] then ret (Proceed (s\<lparr>at_eof := True\<rparr>))
          else let filled = ?filled bytes in
            if length filled \<noteq> observation_size abi then ret (Continue (s\<lparr>partial_bytes := filled\<rparr>))
            else let observation = observation_decode abi filled in
              if CONTROL_LEASE_REQUIRED_SAMPLES \<le> accepted_samples s then ret Leave
              else do {
                received \<leftarrow> sup_now os;
                good \<leftarrow> accept_observation observation launched received (accepted_samples s) recovering;
                if \<not> good then ret Leave
                else do {
                  keep_latest wanted observation;
                  ret (Continue (?next observation))
                }
              }) ?Q q"
  proof (cases chunk)
    case (Inl e)
    then show ?thesis using step by (auto simp: wp_return)
  next
    case (Inr bytes)
    have accepting: "wp (do {
          received \<leftarrow> sup_now os;
          good \<leftarrow> accept_observation observation launched received (accepted_samples s) recovering;
          if \<not> good then ret Leave
          else do { keep_latest wanted observation; ret (Continue (?next observation)) }
        }) ?Q q" if "bytes_left abi (?next observation) < bytes_left abi s" for observation
    proof (rule wp_bindI, rule wp_mono[OF endsD[OF ends_clocks(1)[OF os] order_refl order_refl]],
        rule wp_bindI, rule wp_mono[OF endsD[OF ends_lease_calls(4) order_refl order_refl]])
      fix received good and q1 q2 :: "'a parent"
      assume "progressed time signals q q1" "progressed time signals q1 q2"
      then have here: "progressed time signals p q2" by (blast intro: step progressed_trans)
      moreover have "progressed time signals p q3" if "progressed time signals q2 q3" for q3
        by (rule progressed_trans[OF here that])
      ultimately show "wp (if \<not> good then ret Leave
          else do { keep_latest wanted observation; ret (Continue (?next observation)) }) ?Q q2"
        using that by (auto simp: wp_simps keep_latest_def progressed_def exhausted_def)
    qed
    show ?thesis
      using Inr step partial[OF Inr] full[OF Inr] accepting
      by (auto simp: wp_return wp_if Let_def bytes_left_def)
  qed
qed

lemma observer_exit_ends:
  assumes os: "orderly_os time signals os"
  shows "wp (observer_exit os child s report) (\<lambda>r q. progressed time signals p q \<and>
      (\<forall>s' report'. r = Some (s', report') \<longrightarrow>
         bytes_left abi s' = bytes_left abi s \<and> partial_bytes s' = partial_bytes s)) p"
proof (cases "was_reaped s")
  case True
  then show ?thesis by (simp add: observer_exit_def wp_return progressed_refl)
next
  case False
  then show ?thesis
    unfolding observer_exit_def
    by (simp, intro wp_bindI wp_mono[OF endsD[OF ends_clocks(4)[OF os] order_refl order_refl]])
      (auto simp: wp_return bytes_left_def split: wait_result.splits if_splits)
qed

lemma supervise_ends:
  assumes os: "orderly_os time signals os" and hooks: "orderly_hooks time signals backend cancel"
    and reap: "unat reap_limit \<le> n * unat POLL_NS" "n + K < retry_fuel os"
    and "enough_rounds time signals deadline p k" "k + bytes_left abi s \<le> fuel"
    and "length (partial_bytes s) \<le> observation_size abi" "signals (system p) \<le> K"
  shows "wp (supervise_from os abi backend fuel input child launched deadline reap_limit recovering wanted
      s report) (\<lambda>_. progressed time signals p) p"
  using assms(5-8)
proof (induction fuel arbitrary: p s report k)
  case 0
  then show ?case by (simp add: enough_rounds_def)
next
  case (Suc fuel)
  obtain k' where k: "k = Suc k'" using Suc.prems(1) by (cases k) (auto simp: enough_rounds_def)
  have few: "signals (system q) \<le> K" if "progressed time signals p q" for q
    using that Suc.prems(4) by (auto simp: progressed_def orderly_def)
  have leave: "wp (leave_observer os child reap_limit s' report') (\<lambda>_. progressed time signals p) q"
    if "progressed time signals p q" for s' report' q
    by (rule wp_mono[OF endsD[OF ends_stop(2)[OF os reap] order_refl few[OF that]]])
      (rule progressed_trans[OF that])
  let ?loop = "supervise_from os abi backend fuel input child launched deadline reap_limit recovering wanted"
  show ?case
    unfolding supervise_from.simps
  proof (rule wp_bindI, rule wp_mono[OF endsD[OF ends_hooks(1)[OF hooks] order_refl order_refl]],
      rule wp_bindI, rule wp_ends_now[OF os], rule wp_ifI)
    fix r :: unit and now :: u64 and p1 p2 :: "'a parent"
    assume p1: "progressed time signals p p1" and p2: "progressed time signals p1 p2"
      "now = 0 \<or> time (system p1) \<le> unat now \<and> unat now \<le> time (system p2)"
    have p02: "progressed time signals p p2" by (rule progressed_trans[OF p1 p2(1)])
    show "wp (leave_observer os child reap_limit s report) (\<lambda>_. progressed time signals p) p2"
      by (rule leave[OF p02])
    assume "\<not> (now = 0 \<or> deadline \<le> now \<or> progress_deadline s \<le> now)"
    then have early: "time (system p1) < unat deadline" using p2(2) by (auto simp: word_le_nat_alt)
    have enough: "enough_rounds time signals deadline p1 (Suc k')"
      using enough_progressed[OF Suc.prems(1) p1] by (simp add: k)
    have exit: "wp (do {
          waited \<leftarrow> observer_exit os child s' report;
          case waited of
            None \<Rightarrow> ret (False, report\<lparr>sup_result := SUPERVISOR_STOP_FAILED\<rparr>)
          | Some (s, report) \<Rightarrow>
              if was_reaped s \<and> at_eof s
              then do { verified \<leftarrow> observed_all recovering s; ret (verified, report) }
              else do { pause_ns os POLL_NS; ?loop s report }
        }) (\<lambda>_. progressed time signals p) q"
      if q: "progressed time signals p q" "progressed time signals p1 q"
        and s': "bytes_left abi s' = bytes_left abi s" "partial_bytes s' = partial_bytes s" for q s'
    proof (rule wp_bindI, rule wp_mono[OF observer_exit_ends[OF os, where abi = abi]], elim conjE, rule wp_case_optionI)
      fix waited and q' :: "'a parent" assume q': "progressed time signals q q'"
      have here: "progressed time signals p q'" by (rule progressed_trans[OF q(1) q'])
      show "wp (ret (False, report\<lparr>sup_result := SUPERVISOR_STOP_FAILED\<rparr>)) (\<lambda>_. progressed time signals p) q'"
        using here by (simp add: wp_return)
      fix found :: "supervision \<times> supervisor_report"
      assume same: "\<forall>s'' report'. waited = Some (s'', report') \<longrightarrow>
          bytes_left abi s'' = bytes_left abi s' \<and> partial_bytes s'' = partial_bytes s'"
        and some: "waited = Some found"
      obtain s2 report2 where pair: "found = (s2, report2)" by (cases found)
      have "bytes_left abi s2 = bytes_left abi s' \<and> partial_bytes s2 = partial_bytes s'"
        using same some pair by blast
      then have found: "found = (s2, report2)" "bytes_left abi s2 = bytes_left abi s"
          "partial_bytes s2 = partial_bytes s"
        using s' pair by (simp_all only:)
      have again: "wp (do { pause_ns os POLL_NS; ?loop s2 report2 }) (\<lambda>_. progressed time signals p) q'"
      proof (rule poll_ends[OF os enough early p1 progressed_trans[OF q(2) q']])
        fix q3 assume "enough_rounds time signals deadline q3 k'" "progressed time signals p q3"
        then show "wp (?loop s2 report2) (\<lambda>_. progressed time signals q3) q3"
          using Suc.prems k few found by (intro Suc.IH[of _ k']) auto
      qed
      have "wp (do { verified \<leftarrow> observed_all recovering s2; ret (verified, report2) })
          (\<lambda>_. progressed time signals p) q'"
        using here by (simp add: observed_all_def get_lease_def wp_simps)
      with again show "wp (case found of (s, report) \<Rightarrow>
              if was_reaped s \<and> at_eof s
              then do { verified \<leftarrow> observed_all recovering s; ret (verified, report) }
              else do { pause_ns os POLL_NS; ?loop s report }) (\<lambda>_. progressed time signals p) q'"
        by (simp add: found)
    qed
    have more: "wp (?loop s' report) (\<lambda>_. progressed time signals p) q"
      if "progressed time signals p q" "bytes_left abi s' < bytes_left abi s"
        "length (partial_bytes s') \<le> observation_size abi" for q s'
      by (rule wp_mono[OF Suc.IH[OF enough_progressed[OF Suc.prems(1) that(1)] _ that(3) few[OF that(1)]]])
        (use Suc.prems(2) that in \<open>auto intro: progressed_trans\<close>)
    show "wp (do {
       reading \<leftarrow> (if at_eof s then ret (Proceed s)
                  else observer_input os abi input launched recovering wanted s);
       case reading of
         Leave \<Rightarrow> leave_observer os child reap_limit s report
       | Continue s \<Rightarrow> ?loop s report
       | Proceed s \<Rightarrow> do {
           waited \<leftarrow> observer_exit os child s report;
           case waited of
             None \<Rightarrow> ret (False, report\<lparr>sup_result := SUPERVISOR_STOP_FAILED\<rparr>)
           | Some (s, report) \<Rightarrow>
               if was_reaped s \<and> at_eof s
               then do { verified \<leftarrow> observed_all recovering s; ret (verified, report) }
               else do { pause_ns os POLL_NS; ?loop s report }
         }
     }) (\<lambda>_. progressed time signals p) p2"
    proof (cases "at_eof s")
      case True
      then show ?thesis using exit[OF p02 p2(1)] by simp
    next
      case False
      have after: "wp (case step of
         Leave \<Rightarrow> leave_observer os child reap_limit s report
       | Continue s \<Rightarrow> ?loop s report
       | Proceed s \<Rightarrow> do {
           waited \<leftarrow> observer_exit os child s report;
           case waited of
             None \<Rightarrow> ret (False, report\<lparr>sup_result := SUPERVISOR_STOP_FAILED\<rparr>)
           | Some (s, report) \<Rightarrow>
               if was_reaped s \<and> at_eof s
               then do { verified \<leftarrow> observed_all recovering s; ret (verified, report) }
               else do { pause_ns os POLL_NS; ?loop s report }
         }) (\<lambda>_. progressed time signals p) q"
        if "progressed time signals p2 q" "case step of
             Leave \<Rightarrow> True
           | Continue s' \<Rightarrow> bytes_left abi s' < bytes_left abi s \<and> length (partial_bytes s') \<le> observation_size abi
           | Proceed s' \<Rightarrow> bytes_left abi s' = bytes_left abi s \<and> partial_bytes s' = partial_bytes s"
        for step q
      proof -
        have q: "progressed time signals p q" "progressed time signals p1 q"
          by (rule progressed_trans[OF p02 that(1)], rule progressed_trans[OF p2(1) that(1)])
        show ?thesis
        proof (cases step)
          case Leave
          show ?thesis unfolding Leave loop_step.simps by (rule leave[OF q(1)])
        next
          case (Continue s')
          show ?thesis unfolding Continue loop_step.simps
            by (rule more[OF q(1)]) (use that(2) Continue in simp_all)
        next
          case (Proceed s')
          show ?thesis unfolding Proceed loop_step.simps
            by (rule exit[OF q]) (use that(2) Proceed in simp_all)
        qed
      qed
      show ?thesis
        unfolding if_not_P[OF False]
        by (rule wp_bindI, rule wp_mono[OF input_ends[OF os Suc.prems(3)]]) (elim conjE, rule after)
    qed
  qed
qed

section \<open>The whole supervisor\<close>

text \<open>The rounds that are always enough: the longest phase in pauses of 10 ms, the signals, the bytes of
  the observer's samples.\<close>

definition supervision_rounds :: "observation_abi \<Rightarrow> nat \<Rightarrow> nat" where
  "supervision_rounds abi signals = 9001 + signals + 62 * observation_size abi"

lemma ends_files [ends_intros]:
  assumes os: "orderly_os time signals os"
  shows "ends time signals K t (close_fd os fd)" "ends time signals K t (close_some os connection)"
    "ends time signals K t (private_directory os fd)" "ends time signals K t (private_file os fd)"
  unfolding close_fd_def close_some_def private_directory_def private_file_def
  by (intro ends_intros os; simp)+

lemma ends_journal:
  assumes os: "orderly_os time signals os" and fuel: "supervision_rounds abi K \<le> retry_fuel os"
  shows "ends time signals K t (control_intent_read os directory_fd)"
    "ends time signals K t (control_intent_mark_pending os directory_fd)"
    "ends time signals K t (control_intent_clear_verified os directory_fd)"
proof -
  have "length marker_contents \<le> 60" by (simp add: marker_contents_def)
  then have "length marker_contents + K < retry_fuel os"
    using fuel by (simp add: supervision_rounds_def)
  note transfers = ends_transfers[OF os]
  note fits = \<open>length marker_contents + K < retry_fuel os\<close>
  show read: "ends time signals K t (control_intent_read os directory_fd)" for t
    unfolding control_intent_read_def
    by (intro ends_intros os transfers(2) fits) simp_all
  show "ends time signals K t (control_intent_mark_pending os directory_fd)"
    unfolding control_intent_mark_pending_def
    by (intro ends_intros os read transfers(1)) (simp_all add: bytes_of_def fits)
  show "ends time signals K t (control_intent_clear_verified os directory_fd)"
    unfolding control_intent_clear_verified_def
    by (intro ends_intros os read) simp_all
qed

lemma ends_ownership:
  assumes os: "orderly_os time signals os" and fuel: "supervision_rounds abi K \<le> retry_fuel os"
  shows "ends time signals K t (old_worker_absent os directory_fd pending)"
    "ends time signals K t (supervisor_ownership_record os directory_fd child)"
    "ends time signals K t (supervisor_ownership_acquire os directory_fd pending)"
proof -
  have fits: "length contents + K < retry_fuel os" if "\<not> (length contents = 0 \<or> 64 \<le> length contents)"
    for contents :: string
    using that fuel by (simp add: supervision_rounds_def)
  show absent: "ends time signals K t (old_worker_absent os directory_fd pending)" for t
    unfolding old_worker_absent_def
    by (intro ends_intros os) simp_all
  show recorded: "ends time signals K t (supervisor_ownership_record os directory_fd child)" for t child
    unfolding supervisor_ownership_record_def
    by (intro ends_intros os ends_transfers(1)[OF os]) (simp_all add: bytes_of_def fits)
  show "ends time signals K t (supervisor_ownership_acquire os directory_fd pending)"
    unfolding supervisor_ownership_acquire_def
    by (intro ends_intros os absent recorded ends_journal(1)[OF os fuel]) simp_all
qed

lemma ends_phase:
  assumes os: "orderly_os time signals os" and hooks: "orderly_hooks time signals backend cancel"
    and fuel: "supervision_rounds abi K \<le> retry_fuel os" and limits: "limits_valid limits"
    and "unat deadline \<le> t + 9000 * unat POLL_NS"
  shows "ends time signals K t (wait_phase os child deadline (reap_ns limits) cancel exit_kind report backend)"
    "ends time signals K t (supervise_observer os abi backend input child launched deadline (reap_ns limits)
       recovering wanted report)"
proof -
  have reap: "unat (reap_ns limits) \<le> 500 * unat POLL_NS" "500 + K < retry_fuel os"
    using limits fuel
    by (simp_all add: limits_valid_def SECOND_NS_def POLL_NS_def word_le_nat_alt supervision_rounds_def)
  have enough: "enough_rounds time signals deadline p (9001 + K)"
    if "t \<le> time (system p)" "signals (system p) \<le> K" for p :: "'a parent"
    by (rule enough_at[where time = time and signals = signals, OF assms(5) that]) simp
  show "ends time signals K t (wait_phase os child deadline (reap_ns limits) cancel exit_kind report backend)"
    unfolding wait_phase_def
  proof (rule endsI, rule phase_ends[OF os hooks reap])
    fix p :: "'a parent" assume p: "t \<le> time (system p)" "signals (system p) \<le> K"
    show "signals (system p) \<le> K" by (rule p(2))
    show "enough_rounds time signals deadline p (retry_fuel os)"
      by (rule enough_at[where time = time and signals = signals, OF assms(5) p]) (use fuel in \<open>simp add: supervision_rounds_def\<close>)
  qed
  show "ends time signals K t (supervise_observer os abi backend input child launched deadline
      (reap_ns limits) recovering wanted report)"
    unfolding supervise_observer_def
    by (rule endsI, rule supervise_ends[OF os hooks reap enough])
      (use fuel in \<open>simp_all add: bytes_left_def supervision_rounds_def CONTROL_LEASE_REQUIRED_SAMPLES_def\<close>)
qed

lemma limits_short:
  assumes "limits_valid limits"
  shows "unat (operation_ns limits) \<le> 9000 * unat POLL_NS" "unat (recovery_ns limits) \<le> 9000 * unat POLL_NS"
    "unat (observation_ns limits) \<le> 9000 * unat POLL_NS"
  using assms by (simp_all add: limits_valid_def SECOND_NS_def POLL_NS_def word_le_nat_alt
      CONTROL_LEASE_TTL_NS_def)

lemma ends_supervised:
  assumes os: "orderly_os time signals os" and hooks: "orderly_hooks time signals backend cancel"
    and fuel: "supervision_rounds abi K \<le> retry_fuel os"
  shows "ends time signals K t (can_supervise os backend limits)"
    "ends time signals K t (spawn_worker os directory_fd backend role)"
    "ends time signals K t (observed_all recovering s)"
proof -
  note hook = ends_hooks[OF hooks]
  show "ends time signals K t (can_supervise os backend limits)"
    unfolding can_supervise_def by (intro ends_intros os)
  show "ends time signals K t (spawn_worker os directory_fd backend role)"
    unfolding spawn_worker_def fork_worker_def
    by (intro ends_intros os hook ends_ownership(2)[OF os fuel]) simp_all
  show "ends time signals K t (observed_all recovering s)"
    unfolding observed_all_def by (intro ends_intros)
qed

lemma ends_observe:
  assumes os: "orderly_os time signals os" and hooks: "orderly_hooks time signals backend cancel"
    and fuel: "supervision_rounds abi K \<le> retry_fuel os" and limits: "limits_valid limits"
  shows "ends time signals K t (observe_owned os abi backend directory_fd limits report recovering wanted)"
proof -
  note parts = os ends_hooks[OF hooks] ends_supervised[OF os hooks fuel] ends_phase(2)[OF os hooks fuel limits]
  have launched: "ends time signals K t' (do {
               (child, connection) \<leftarrow> spawn_worker os directory_fd backend Observing;
               let report = report\<lparr>observer_pid := child\<rparr> in do {
                 close_fd os outlet;
                 announce_observer backend connection child recovering;
                 (verified, report) \<leftarrow> (if 0 < child
                   then supervise_observer os abi backend input child launched_ns deadline
                          (reap_ns limits) recovering wanted report
                   else ret (False, report));
                 close_fd os input;
                 close_some os connection;
                 ret (verified, report)
               }
             })" if "unat deadline \<le> t' + unat (observation_ns limits)" for t' deadline input outlet launched_ns
  proof -
    have "unat deadline \<le> t' + 9000 * unat POLL_NS" using that limits_short(3)[OF limits] by linarith
    then show ?thesis by (intro ends_intros parts)
  qed
  show ?thesis
    unfolding observe_owned_def
    apply (rule ends_bind, (intro ends_intros os)[1], rule ends_option, rule ends_return, rule ends_prod,
        rule ends_bind, (intro ends_intros os)[1], rule ends_if, (intro ends_intros os)[1],
        rule ends_bind, (intro ends_intros os)[1], rule ends_deadline[OF os])
     apply (simp only: option.case, intro ends_intros os)
    by (simp only: option.case, rule launched)
qed

lemma ends_recover:
  assumes os: "orderly_os time signals os" and hooks: "orderly_hooks time signals backend None"
    and fuel: "supervision_rounds abi K \<le> retry_fuel os" and limits: "limits_valid limits"
  shows "ends time signals K t (recover_owned os abi backend directory_fd limits report)"
proof -
  note parts = os ends_hooks(1)[OF hooks] ends_supervised[OF os hooks fuel] ends_journal(3)[OF os fuel]
    ends_observe[OF os hooks fuel limits] ends_phase(1)[OF os hooks fuel limits]
  show ?thesis
    unfolding recover_owned_def
    apply (rule ends_let, rule ends_deadline[OF os])
     apply (simp only: option.case, rule ends_return)
    subgoal for deadline t'
      apply (subgoal_tac "unat deadline \<le> t' + 9000 * unat POLL_NS")
       apply (simp only: option.case, intro ends_intros parts, assumption)
      using limits_short(2)[OF limits] by linarith
    done
qed

lemma ends_operation:
  assumes os: "orderly_os time signals os" and hooks: "orderly_hooks time signals backend cancel"
    and fuel: "supervision_rounds abi K \<le> retry_fuel os" and limits: "limits_valid limits"
  shows "ends time signals K t (run_operation os backend directory_fd limits cancel report)"
proof -
  note parts = os ends_supervised[OF os hooks fuel] ends_phase(1)[OF os hooks fuel limits]
  show ?thesis
    unfolding run_operation_def
    apply (rule ends_deadline[OF os])
     apply (simp only: option.case, rule ends_return)
    subgoal for deadline t'
      apply (subgoal_tac "\<forall>limit. unat (if limit < deadline then limit else deadline) \<le> t' + 9000 * unat POLL_NS")
       apply (simp only: option.case, intro ends_intros parts, blast)
      using limits_short(1)[OF limits] by (auto simp: word_less_nat_alt)
    done
qed

lemma hooks_alone: "orderly_hooks time signals backend cancel \<Longrightarrow> orderly_hooks time signals backend None"
  by (simp add: orderly_hooks_def)

lemma ends_run:
  assumes os: "orderly_os time signals os" and hooks: "orderly_hooks time signals backend cancel"
    and fuel: "supervision_rounds abi K \<le> retry_fuel os" and limits: "limits_valid limits"
  shows "ends time signals K t (run_owned os abi backend directory_fd limits cancel)"
  unfolding run_owned_def
  by (intro ends_intros os ends_hooks(1)[OF hooks] ends_journal(2)[OF os fuel]
      ends_operation[OF os hooks fuel limits] ends_recover[OF os hooks_alone[OF hooks] fuel limits])

text \<open>Limits that are not valid are refused at once.\<close>

lemma invalid_refused:
  "\<not> limits_valid limits \<Longrightarrow> can_supervise os backend limits = ret False"
  by (simp add: can_supervise_def and_then_def)

lemma and_then_refused: "and_then (ret b) (and_then (ret False) m) = ret False"
  by (simp add: and_then_def)

lemma ends_entry_points:
  assumes os: "orderly_os time signals os" and hooks: "orderly_hooks time signals backend cancel"
    and fuel: "supervision_rounds abi K \<le> retry_fuel os"
  shows "ends time signals K t (worker_supervisor_observe_baseline os abi directory_fd has_latest backend limits)"
    "ends time signals K t (worker_supervisor_resume os abi directory_fd backend limits)"
    "ends time signals K t (worker_supervisor_run os abi directory_fd backend limits cancel)"
proof -
  note parts = os ends_hooks(1,2)[OF hooks] ends_supervised(1)[OF os hooks fuel] ends_journal[OF os fuel]
    ends_ownership(3)[OF os fuel]
  show "ends time signals K t (worker_supervisor_observe_baseline os abi directory_fd has_latest backend limits)"
  proof (cases "limits_valid limits")
    case True
    then show ?thesis
      unfolding worker_supervisor_observe_baseline_def
      by (intro ends_intros parts ends_observe[OF os hooks fuel])
  next
    case False
    then show ?thesis
      unfolding worker_supervisor_observe_baseline_def
      by (simp add: invalid_refused and_then_refused, intro ends_intros parts)
  qed
  show "ends time signals K t (worker_supervisor_resume os abi directory_fd backend limits)"
  proof (cases "limits_valid limits")
    case True
    then show ?thesis
      unfolding worker_supervisor_resume_def
      by (intro ends_intros parts ends_recover[OF os hooks_alone[OF hooks] fuel])
  next
    case False
    then show ?thesis
      unfolding worker_supervisor_resume_def
      by (simp add: invalid_refused and_then_refused, intro ends_intros parts)
  qed
  show "ends time signals K t (worker_supervisor_run os abi directory_fd backend limits cancel)"
  proof (cases "limits_valid limits")
    case True
    then show ?thesis
      unfolding worker_supervisor_run_def
      by (intro ends_intros parts ends_run[OF os hooks fuel])
  next
    case False
    then show ?thesis
      unfolding worker_supervisor_run_def
      by (simp add: invalid_refused and_then_refused, intro ends_intros parts)
  qed
qed

text \<open>C13: A supervised run, a recovery restart and a baseline observation all end: on a machine whose clock
  keeps up with its sleeps none of their loops exhausts its fuel, whatever the workers do, when the fuel
  has one round for each 10 ms of 90 seconds, for each signal that still interrupts a call and for each
  byte the observer may send.\<close>

theorem supervisor_ends:
  assumes "orderly_os time signals os" and "orderly_hooks time signals backend cancel"
    and "supervision_rounds abi (signals (system p)) \<le> retry_fuel os"
  shows "exhausted (snd (run_state (worker_supervisor_run os abi directory_fd backend limits cancel) p)) =
      exhausted p \<and>
    exhausted (snd (run_state (worker_supervisor_resume os abi directory_fd backend limits) p)) =
      exhausted p \<and>
    exhausted (snd (run_state
      (worker_supervisor_observe_baseline os abi directory_fd has_latest backend limits) p)) = exhausted p"
proof -
  have "exhausted (snd (run_state m p)) = exhausted p"
    if "ends time signals (signals (system p)) 0 m" for m :: "('a parent, supervisor_report) state"
    using endsD[OF that, of p] by (simp add: wp_def progressed_def split_def)
  with ends_entry_points[OF assms] show ?thesis by blast
qed

end
