(* ===== verification/ProbeExamples.thy ===== *)
theory ProbeExamples
  imports ProbeProperties SupervisorExamples SupervisorTermination
begin

text \<open>
  Concrete runs of the probe: a machine without a pending intent, on which the cleanup runs to its end,
  and the same machine entered by another user, or left by its runner.
\<close>

definition grant_bytes :: "nat \<Rightarrow> errno + u8 list" where
  "grant_bytes reads = (if reads = 0 then Inr (bytes_of ''G'') else Inl EAGAIN)"

definition tidy_os :: "nat posix" where
  "tidy_os = demo_os\<lparr>
     sys_fstat := (\<lambda>fd. ret (Some (if fd \<le> 3 then directory_status else regular_status 0))),
     sys_openat := (\<lambda>_ name _. ret (if name = probe_directory_name then Inr 3
        else if name = lock_name then Inr 5 else if name = next_name then Inr 7 else if name = launch_name then Inr 12 else Inl ENOENT)),
     sys_read := (\<lambda>fd _. State (\<lambda>n. (if fd = STDIN_FILENO then grant_bytes n else Inr [], Suc n))),
     retry_fuel := Suc (Suc (Suc 0))\<rparr>"

definition no_controller :: "nat smc_driver" where
  "no_controller = \<lparr>sysctl = (\<lambda>_. ret (False, [], 0)), get_matching_service = ret False,
     service_open = ret False, call_struct_method = (\<lambda>_ out. ret (False, 0, out))\<rparr>"

definition tidy_host :: "u32 \<Rightarrow> (nat \<Rightarrow> errno + u8 list) \<Rightarrow> nat probe_host" where
  "tidy_host uid input = \<lparr>base_os = tidy_os\<lparr>
       sys_read := (\<lambda>fd _. State (\<lambda>n. (if fd = STDIN_FILENO then input n else Inr [], Suc n)))\<rparr>,
     base_driver = no_controller, real_uid = ret uid, process_id = ret 500, set_umask = (\<lambda>_. ret ()),
     status_flags = (\<lambda>_. ret (Some 0)), is_fifo = (\<lambda>_. ret True), set_status_flags = (\<lambda>_ _. ret True),
     open_path = (\<lambda>_ _. ret (Some 2)), make_directory_at = (\<lambda>_ _ _. ret (Some EEXIST)),
     unlink_at = (\<lambda>_ _. ret None), remove_directory = (\<lambda>_. ret True),
     child_parent_and_uid = (\<lambda>_. ret None)\<rparr>"


definition running :: "nat \<Rightarrow> sys_event list \<Rightarrow> nat probe_world parent" where
  "running reads history = (probe_start reads)\<lparr>sys_log := history\<rparr>"

lemmas tidy_calls = probe_os_def alive_os_def alive_def tidy_host_def tidy_os_def demo_os_def running_def
  probe_start_def wp_simps wp_in_system wp_logged_eq from_host_def close_fd_def and_then_def

lemma tidy_directory:
  "wp (SupervisorProbeOpenDirectory (tidy_host 0 input))
    (\<lambda>r p'. r = Some 3 \<and> (\<exists>es. p' = running n (es @ history))) (running n history)"
  unfolding SupervisorProbeOpenDirectory_def
  by (simp add: tidy_calls directory_status_def)

lemma tidy_lock:
  "wp (supervisor_probe_lock (probe_os (tidy_host 0 input)) 3)
    (\<lambda>r p'. r = Some 12 \<and> (\<exists>es. p' = running n (es @ history))) (running n history)"
  unfolding supervisor_probe_lock_def
  by (simp add: tidy_calls directory_status_def regular_status_def launch_directory_def launch_name_def
      probe_directory_name_def lock_name_def next_name_def)

lemma tidy_intent:
  "wp (control_intent_read (probe_os (tidy_host 0 input)) 3)
    (\<lambda>r p'. r = CONTROL_INTENT_CLEAR \<and> (\<exists>es. p' = running n (es @ history))) (running n history)"
  unfolding control_intent_read_def private_directory_def
  by (simp add: tidy_calls directory_status_def regular_status_def marker_name_def launch_name_def
      probe_directory_name_def lock_name_def next_name_def)

lemma tidy_absent:
  "wp (old_worker_absent (probe_os (tidy_host 0 input)) 3 False)
    (\<lambda>r p'. r \<and> (\<exists>es. p' = running n (es @ history))) (running n history)"
  unfolding old_worker_absent_def
  by (simp add: tidy_calls worker_name_def launch_name_def
      probe_directory_name_def lock_name_def next_name_def)

lemma tidy_record:
  "wp (supervisor_ownership_record (probe_os (tidy_host 0 input)) 3 0)
    (\<lambda>r p'. r \<and> (\<exists>es. p' = running n (es @ history))) (running n history)"
proof -
  have "worker_record 0 = ''Ventilator worker v1 0'' @ [CHR 0x0A]" by code_simp
  then show ?thesis
    unfolding supervisor_ownership_record_def private_file_def private_directory_def
    by (simp add: tidy_calls worker_name_def launch_name_def regular_status_def directory_status_def
        write_all_def probe_directory_name_def lock_name_def next_name_def bytes_of_def)
qed

lemma tidy_then:
  assumes "wp m (\<lambda>r p'. P r \<and> (\<exists>es. p' = running n (es @ history))) (running n history)"
    and "\<And>r es. P r \<Longrightarrow> wp (f r) Q (running n (es @ history))"
  shows "wp (m \<bind> f) Q (running n history)"
  by (rule wp_bindI, rule wp_mono[OF assms(1)]) (use assms(2) in blast)

lemma more_history: "later = es @ history \<Longrightarrow> \<exists>es. running n later = running n (es @ history)"
  by blast

lemma tidy_acquire:
  "wp (supervisor_ownership_acquire (probe_os (tidy_host 0 input)) 3 False)
    (\<lambda>r p'. r = Some 5 \<and> (\<exists>es. p' = running n (es @ history))) (running n history)"
proof -
  let ?os = "probe_os (tidy_host 0 input)"
  have private_dir: "wp (private_directory ?os 3) (\<lambda>r p'. r \<and> (\<exists>es. p' = running n (es @ h))) (running n h)"
    for h unfolding private_directory_def by (simp add: tidy_calls directory_status_def)
  have regular: "wp (private_file ?os 5) (\<lambda>r p'. r \<and> (\<exists>es. p' = running n (es @ h))) (running n h)"
    for h unfolding private_file_def by (simp add: tidy_calls regular_status_def)
  have opened: "wp (logged_call (sys_openat ?os 3 lock_name flags) (Opened_at lock_name flags))
      (\<lambda>r p'. r = Inr 5 \<and> (\<exists>es. p' = running n (es @ h))) (running n h)" for flags h
    by (simp add: tidy_calls lock_name_def probe_directory_name_def)
  have locked: "wp (logged_call (sys_flock ?os 5) (Locked 5))
      (\<lambda>r p'. r \<and> (\<exists>es. p' = running n (es @ h))) (running n h)" for h
    by (simp add: tidy_calls)
  have stat: "wp (in_system (sys_fstat ?os 5)) (\<lambda>r p'. r = Some (regular_status 0) \<and>
      (\<exists>es. p' = running n (es @ h))) (running n h)" for h
    by (simp add: tidy_calls)
  have named: "wp (in_system (sys_fstatat ?os 3 lock_name)) (\<lambda>r p'. r = Some (regular_status 0) \<and>
      (\<exists>es. p' = running n (es @ h))) (running n h)" for h
    by (simp add: tidy_calls)
  show ?thesis
    unfolding supervisor_ownership_acquire_def and_then_def
    apply (rule tidy_then[OF private_dir], simp)
    apply (rule tidy_then[OF opened], simp)
    apply (rule tidy_then[OF regular], simp)
    apply (rule tidy_then[OF locked], simp)
    apply (rule tidy_then[OF tidy_intent], simp)
    apply (rule tidy_then[OF tidy_absent], simp)
    apply (rule tidy_then[OF stat], simp)
    apply (rule tidy_then[OF named], simp)
    by (rule tidy_then[OF tidy_record], simp add: wp_return) (rule more_history, simp)
qed

lemma tidy_unlink:
  "wp (unlink_probe (tidy_host 0 input) 3 name)
    (\<lambda>r p'. r = None \<and> (\<exists>es. p' = running n (es @ history))) (running n history)"
  by (simp add: unlink_probe_def tidy_calls)

lemma tidy_remove:
  "wp (remove_files (tidy_host 0 input) 3 names True)
    (\<lambda>r p'. r \<and> (\<exists>es. p' = running n (es @ history))) (running n history)"
proof (induction names arbitrary: history)
  case (Cons name names)
  show ?case
    by (simp, rule tidy_then[OF tidy_unlink], simp, rule wp_mono[OF Cons.IH])
      (metis append.assoc)
next
  case Nil
  show ?case by (simp add: wp_return) (rule more_history[of _ "[]"], simp)
qed

lemma tidy_clean:
  "wp (supervisor_probe_cleanup (tidy_host 0 input) 3)
    (\<lambda>r p'. r \<and> (\<exists>es. p' = running n (es @ history))) (running n history)"
proof -
  have sync: "wp (logged_call (sys_fsync (probe_os (tidy_host 0 input)) 3) (Synced 3))
      (\<lambda>r p'. r \<and> (\<exists>es. p' = running n (es @ h))) (running n h)" for h
    by (simp add: tidy_calls)
  show ?thesis
    unfolding supervisor_probe_cleanup_def
    apply (rule tidy_then[OF tidy_acquire], simp)
    apply (rule tidy_then[OF tidy_remove], simp)
    apply (rule tidy_then[OF sync], simp)
    by (simp add: tidy_calls)
qed

lemma tidy_check:
  assumes "input n = Inl EAGAIN"
  shows "wp (in_system (supervisor_runner_lifetime_check (tidy_host 0 input) 0))
    (\<lambda>r p'. p' = running (Suc n) history) (running n history)"
  using assms
  by (simp add: supervisor_runner_lifetime_check_def at_system_def in_system_def tidy_calls STDIN_FILENO_def)

lemma tidy_enter:
  assumes "input 0 = Inr (bytes_of ''G'')" "input 1 = Inl EAGAIN"
  shows "wp (in_system (supervisor_runner_lifetime_enter (tidy_host 0 input) 0))
    (\<lambda>r p'. r \<and> p' = running 2 []) (running 0 [])"
  using assms
  by (simp add: supervisor_runner_lifetime_enter_def supervisor_runner_lifetime_check_def at_system_def in_system_def
      tidy_calls STDIN_FILENO_def bytes_of_def numeral_2_eq_2)

lemma tidy_close:
  "wp (close_fd (probe_os (tidy_host 0 input)) fd)
    (\<lambda>r p'. True \<and> (\<exists>es. p' = running n (es @ history))) (running n history)"
  by (simp add: tidy_calls)

lemma tidy_probe_clean:
  "wp (probe_clean (tidy_host 0 grant_bytes) 3 12)
    (\<lambda>code p'. code = 0 \<and> probe_output (system p') = cleaned_line \<and> process_ended (system p') = None)
    (running 2 history)"
proof -
  have removed: "wp (from_host False (remove_directory (tidy_host 0 grant_bytes) path))
      (\<lambda>r p'. r \<and> (\<exists>es. p' = running 3 (es @ h))) (running 3 h)" for path h
    by (simp add: tidy_calls)
  show ?thesis
    unfolding probe_clean_def and_then_def check_owner_def STDIN_FILENO_def
    apply (rule wp_bindI, rule wp_mono[OF tidy_check], simp add: grant_bytes_def, hypsubst)
    apply (simp add: numeral_3_eq_3[symmetric])
    apply (rule tidy_then[OF tidy_clean], simp)
    apply (rule tidy_then[OF tidy_unlink], simp)
    apply (rule tidy_then[OF removed], simp)
    apply (rule tidy_then[OF tidy_close])
    apply (rule tidy_then[OF tidy_close])
    by (simp add: probe_print_def wp_in_system wp_simps running_def probe_start_def cleaned_line_def)
qed

text \<open>On this machine the cleanup runs to its end and says so.\<close>

lemma tidy_main:
  "wp (probe_main (tidy_host 0 grant_bytes) demo_abi [''probe'', ''--cleanup''])
    (\<lambda>code p'. code = 0 \<and> probe_output (system p') = cleaned_line \<and> process_ended (system p') = None)
    (probe_start 0)"
proof -
  let ?h = "tidy_host 0 grant_bytes"
  have start: "probe_start 0 = running 0 []" by (simp add: running_def probe_start_def)
  have uid: "wp (from_host 0 (real_uid ?h)) (\<lambda>r p'. r = 0 \<and> p' = running 0 []) (running 0 [])"
      "wp (in_system (sys_geteuid (probe_os ?h))) (\<lambda>r p'. r = 0 \<and> p' = running 0 []) (running 0 [])"
      "wp (from_host () (set_umask ?h mask)) (\<lambda>r p'. p' = running 0 []) (running 0 [])" for mask
    by (simp_all add: tidy_calls)
  have granted: "grant_bytes 0 = Inr (bytes_of ''G'')" "grant_bytes 1 = Inl EAGAIN"
    by (simp_all add: grant_bytes_def)
  show ?thesis
    unfolding probe_main_def Let_def start STDIN_FILENO_def
    apply (rule wp_bindI, rule wp_mono[OF uid(1)], elim conjE, hypsubst)
    apply (rule wp_bindI, rule wp_mono[OF uid(2)], elim conjE, hypsubst)
    apply (simp add: strcmp_eq_def c_string_def)
    apply (rule wp_bindI, rule wp_mono[OF uid(3)], hypsubst)
    apply (rule wp_bindI, rule wp_mono[OF tidy_enter[OF granted]], elim conjE, hypsubst, simp)
    apply (rule tidy_then[OF tidy_directory], simp)
    apply (rule tidy_then[OF tidy_lock], simp)
    by (rule tidy_probe_clean)
qed

text \<open>Another user is refused, and a runner that has gone ends the process, before anything is touched.\<close>

lemma other_user_refused:
  "wp (probe_main (tidy_host 501 input) demo_abi argv)
    (\<lambda>code p'. code = 2 \<and> sys_log p' = [] \<and> probe_output (system p') = []) (probe_start 0)"
  by (simp add: probe_main_def Let_def tidy_calls probe_complain_def)

lemma abandoned_runner_ends:
  assumes "input 0 = Inr (bytes_of ''G'')" "input 1 = Inr []"
  shows "wp (in_system (supervisor_runner_lifetime_enter (tidy_host 0 input) STDIN_FILENO))
    (\<lambda>r p'. process_ended (system p') = Some (Exited 125)) (probe_start 0)"
  using assms
  by (simp add: supervisor_runner_lifetime_enter_def supervisor_runner_lifetime_check_def at_system_def
      in_system_def tidy_calls STDIN_FILENO_def bytes_of_def end_process_def)

section \<open>A worker that hangs\<close>

text \<open>A machine in time, on which no worker ever ends: its state is the time in nanoseconds.\<close>

definition hung_os :: "nat posix" where
  "hung_os = demo_os\<lparr>
     sys_read := (\<lambda>fd n. ret (if fd = 4 then Inr (take n (bytes_of marker_contents)) else Inl EAGAIN)),
     sys_clock := State (\<lambda>n. (if n < 2 ^ 64 then of_nat n else 0, n)),
     sys_nanosleep := (\<lambda>ns. State (\<lambda>n. ((), n + unat ns))),
     sys_waitpid := (\<lambda>_. ret StillRunning), retry_fuel := 10000\<rparr>"

lemma hung_orderly: "orderly_os (\<lambda>n. n) (\<lambda>_. 0) hung_os"
  by (auto simp: orderly_os_def steady_os_def steadily_def orderly_def hung_os_def demo_os_def unat_of_nat
      split: if_splits)

lemma supervisor_ends_witness:
  "exhausted (snd (run_state (worker_supervisor_resume hung_os demo_abi 3 demo_backend demo_limits)
     demo_parent)) = 0"
  using supervisor_ends[of "\<lambda>n. n" "\<lambda>_. 0" hung_os demo_backend None demo_abi demo_parent, OF hung_orderly]
  by (simp add: orderly_hooks_def steady_hooks_def demo_backend_def supervision_rounds_def demo_size
      hung_os_def exhausted_def demo_parent_def)

end
