(* ===== verification/InventoryReports.thy ===== *)
theory InventoryReports
  imports JsonText
begin

text \<open>
  What the inventory tool prints and sends. \<open>writes R m\<close>: whatever the controller answers, \<open>m\<close> appends a
  text related by \<open>R\<close> to its result. With it the JSON reports are documents of a fixed shape
  (\<open>status_report\<close>, \<open>temperatures_report\<close>, \<open>gpu_report\<close>).
\<close>

section \<open>The text a program writes\<close>

definition writes :: "('a \<Rightarrow> string \<Rightarrow> bool) \<Rightarrow> ('d inventory, 'a) state \<Rightarrow> bool" where
  "writes R m \<longleftrightarrow> (\<forall>s. wp m (\<lambda>r s'. \<exists>t. stdout_text s' = stdout_text s @ t \<and> R r t) s)"

named_theorems writes_intros "introduction rules of writes"

lemma writesI: "(\<And>s. wp m (\<lambda>r s'. \<exists>t. stdout_text s' = stdout_text s @ t \<and> R r t) s) \<Longrightarrow> writes R m"
  by (simp add: writes_def)

lemma writesD: "writes R m \<Longrightarrow> wp m (\<lambda>r s'. \<exists>t. stdout_text s' = stdout_text s @ t \<and> R r t) s"
  by (simp add: writes_def)

lemma writes_return [writes_intros]: "R x [] \<Longrightarrow> writes R (ret x)"
  by (simp add: writes_def wp_return)

lemma writes_put [writes_intros]: "R () text \<Longrightarrow> writes R (put_text text)"
  by (simp add: writes_def put_text_def wp_State)

lemma writes_line [writes_intros]: "R () (text @ [CHR 0x0A]) \<Longrightarrow> writes R (put_line text)"
  unfolding put_line_def by (rule writes_put)

lemma writes_bind:
  assumes "writes P m" and "\<And>x t. P x t \<Longrightarrow> writes (\<lambda>r u. R r (t @ u)) (f x)"
  shows "writes R (m \<bind> f)"
proof (rule writesI)
  fix s
  show "wp (m \<bind> f) (\<lambda>r s'. \<exists>t. stdout_text s' = stdout_text s @ t \<and> R r t) s"
    by (rule wp_bindI, rule wp_mono[OF writesD[OF assms(1)]], elim exE conjE,
        rule wp_mono[OF writesD[OF assms(2)]]) auto
qed

text \<open>The rule the reports are walked with: the text of the first part, then the rest.\<close>

lemma writes_step [writes_intros]:
  "writes (\<lambda>x t. writes (\<lambda>r u. R r (t @ u)) (f x)) m \<Longrightarrow> writes R (m \<bind> f)"
  by (rule writes_bind)

lemma writes_if [writes_intros]:
  "(b \<Longrightarrow> writes R m) \<Longrightarrow> (\<not> b \<Longrightarrow> writes R n) \<Longrightarrow> writes R (if b then m else n)"
  by simp

lemma writes_let [writes_intros]: "writes R (f a) \<Longrightarrow> writes R (let x = a in f x)"
  by simp

lemma writes_prod [writes_intros]:
  "(\<And>x y. p = (x, y) \<Longrightarrow> writes R (f x y)) \<Longrightarrow> writes R (case p of (x, y) \<Rightarrow> f x y)"
  by (cases p) auto

lemma writes_system [writes_intros]: "(\<And>x. R x []) \<Longrightarrow> writes R (in_tool m)"
  by (simp add: writes_def in_tool_def wp_State split: prod.splits)

lemma writes_note [writes_intros]: "R () [] \<Longrightarrow> writes R (connection_note e)"
  by (simp add: writes_def connection_note_def wp_State)

lemma writes_error [writes_intros]: "R () [] \<Longrightarrow> writes R (put_error text)"
  by (simp add: writes_def put_error_def wp_State)

lemma writes_each:
  assumes "\<And>x. x \<in> set xs \<Longrightarrow> writes (\<lambda>_. P x) (body x)"
    and "\<And>ts. list_all2 P xs ts \<Longrightarrow> R () (concat ts)"
  shows "writes R (each body xs)"
  using assms
proof (induction xs arbitrary: R)
  case (Cons x xs)
  have "writes (\<lambda>r u. R r (t @ u)) (each body xs)" if "P x t" for t
    using that Cons.prems(1) Cons.prems(2)[of "t # ts" for ts] by (intro Cons.IH) auto
  with Cons.prems(1)[of x] show ?case by (auto intro!: writes_bind[of "\<lambda>_. P x"])
qed (simp add: writes_return)

text \<open>Items printed with a comma before each but the one of index 0 are a joined list.\<close>

lemma joined_items:
  assumes "list_all2 (\<lambda>x t. \<exists>d. D x d \<and> t = (if index x = 0 then [] else '','') @ render d) xs ts"
    and "map index xs = [k..<k + length xs]"
  shows "\<exists>ds. list_all2 D xs ds \<and> concat ts = joined (k = 0) (map render ds)"
  using assms
proof (induction arbitrary: k rule: list_all2_induct)
  case (Cons x xs t ts)
  have "[k..<k + length (x # xs)] = k # [Suc k..<Suc k + length xs]"
    by (simp add: upt_conv_Cons del: upt_Suc)
  with Cons.prems have k: "index x = k" "map index xs = [Suc k..<Suc k + length xs]"
    by (simp_all del: upt_Suc)
  from Cons.IH[OF k(2)] obtain ds where ds: "list_all2 D xs ds" "concat ts = joined False (map render ds)"
    by auto
  from Cons.hyps obtain d where "D x d" "t = (if k = 0 then [] else '','') @ render d" using k by auto
  with ds show ?case by (intro exI[of _ "d # ds"]) auto
qed simp

lemma writes_items:
  assumes "\<And>x. x \<in> set xs \<Longrightarrow>
      writes (\<lambda>_ t. \<exists>d. D x d \<and> t = (if index x = 0 then [] else '','') @ render d) (body x)"
    and "map index xs = [0..<length xs]"
    and "\<And>ds. list_all2 D xs ds \<Longrightarrow> R () (joined True (map render ds))"
  shows "writes R (each body xs)"
proof (rule writes_each[OF assms(1)])
  fix ts
  assume "list_all2 (\<lambda>x t. \<exists>d. D x d \<and> t = (if index x = 0 then [] else '','') @ render d) xs ts"
  from joined_items[OF this, of 0] assms(2,3) show "R () (concat ts)" by auto
qed

section \<open>Reading\<close>

lemma wp_inventory_call:
  assumes "\<And>ok response s'. stdout_text s' = stdout_text s \<Longrightarrow> last_command s' = command request \<Longrightarrow>
     (ok \<Longrightarrow> call_kernel_status s' = 0 \<and> call_smc_status s' = 0) \<Longrightarrow> Q (ok, response) s'"
  shows "wp (inventory_call_read sys request) Q s"
  unfolding inventory_call_read_def connection_note_def in_tool_def
  by (auto simp: wp_simps split: prod.splits intro!: assms)

definition value_ok :: "smc_value \<Rightarrow> bool" where
  "value_ok v \<longleftrightarrow> length (value_type v) = 4 \<and> 0 < value_size v \<and> value_size v \<le> 32"

lemma fourcc_text_length [simp]: "length (fourcc_text v) = 4"
  by (simp add: fourcc_text_def)

lemma wp_read_key:
  assumes "\<And>ok value s'. stdout_text s' = stdout_text s \<Longrightarrow> last_command s' \<in> {5, 9} \<Longrightarrow>
     (ok \<Longrightarrow> last_command s' = 5 \<and> call_kernel_status s' = 0 \<and> call_smc_status s' = 0 \<and> value_ok value) \<Longrightarrow>
     Q (ok, value) s'"
  shows "wp (inventory_read_key sys name v) Q s"
  unfolding inventory_read_key_def
  by (intro wp_intros wp_inventory_call)
     (auto simp: value_ok_def SMC_READ_BYTES_def SMC_READ_KEY_INFO_def word_gt_0 not_less intro!: assms)

lemma writes_read_key [writes_intros]:
  "(\<And>ok value. (ok \<Longrightarrow> value_ok value) \<Longrightarrow> R (ok, value) []) \<Longrightarrow> writes R (inventory_read_key sys name v)"
  by (rule writesI, rule wp_read_key) auto

lemma writes_key_at [writes_intros]:
  "(\<And>ok key. (ok \<Longrightarrow> list_all printable key \<and> length key = 4) \<Longrightarrow> R (ok, key) []) \<Longrightarrow>
   writes R (read_key_at sys index key)"
  unfolding read_key_at_def by (rule writesI, intro wp_intros wp_inventory_call) auto

lemma read_number_finite: "inventory_read_number v d = (True, x) \<Longrightarrow> isfinite x"
  by (auto simp: inventory_read_number_def decoded_def Let_def split: if_splits)

lemma writes_finite_number [writes_intros]:
  "(\<And>ok x. (ok \<Longrightarrow> isfinite x) \<Longrightarrow> R (ok, x) []) \<Longrightarrow> writes R (read_finite_number sys key d)"
  unfolding read_finite_number_def
  by (intro writes_intros) (auto, metis (full_types) prod.collapse read_number_finite)

section \<open>The shape of the reports\<close>

text \<open>A reported number is absent or finite and in the range of its kind.\<close>

definition temperature_doc :: "json_doc \<Rightarrow> bool" where
  "temperature_doc d \<longleftrightarrow> d = JNull \<or>
     (\<exists>x. d = JFixed 2 x \<and> isfinite x \<and> 10 \<le> fval x \<and> fval x \<le> 115)"

definition rpm_doc :: "json_doc \<Rightarrow> bool" where
  "rpm_doc d \<longleftrightarrow> d = JNull \<or> (\<exists>x. d = JFixed 2 x \<and> isfinite x \<and> 0 \<le> fval x)"

definition fan_doc :: "nat \<Rightarrow> json_doc \<Rightarrow> bool" where
  "fan_doc fan d \<longleftrightarrow> (\<exists>actual least most. rpm_doc actual \<and> rpm_doc least \<and> rpm_doc most \<and>
     d = JObject [(''index'', JNatural fan), (''actual_rpm'', actual), (''min_rpm'', least),
           (''max_rpm'', most)])"

definition celsius_doc :: "string \<Rightarrow> json_doc \<Rightarrow> bool" where
  "celsius_doc key d \<longleftrightarrow> (\<exists>t. temperature_doc t \<and> d = JObject [(''key'', JText key), (''celsius'', t)])"

text \<open>The fan count is a whole number from 0 to 10, or absent, and there is one entry per fan.\<close>

definition count_doc :: "json_doc \<Rightarrow> nat \<Rightarrow> bool" where
  "count_doc d n \<longleftrightarrow> d = JNull \<and> n = 0 \<or>
     (\<exists>x. d = JFixed 0 x \<and> isfinite x \<and> fval x = of_nat n \<and> n \<le> 10)"

definition status_report :: "json_doc \<Rightarrow> bool" where
  "status_report d \<longleftrightarrow> (\<exists>count n fans cpu first second.
     count_doc count n \<and> list_all2 fan_doc [0..<n] fans \<and> temperature_doc cpu \<and>
     celsius_doc ''Tg0D'' first \<and> celsius_doc ''TH0a'' second \<and>
     d = JObject [(''schema'', JNatural 1), (''fan_count'', count), (''fans'', JArray fans),
           (''cpu_key'', JText ''TCMz''), (''cpu_temp_c'', cpu),
           (''selected_temperatures'', JArray [first, second])])"

definition temperature_key :: "string \<Rightarrow> bool" where
  "temperature_key key \<longleftrightarrow> length key = 4 \<and> list_all printable key \<and> key ! 0 = CHR ''T''"

definition temperatures_report :: "json_doc \<Rightarrow> bool" where
  "temperatures_report d \<longleftrightarrow> (\<exists>ts. (ts = JNull \<or> (\<exists>ds. ts = JArray ds \<and>
       list_all (\<lambda>e. \<exists>key. temperature_key key \<and> celsius_doc key e) ds \<and> length ds \<le> 20000)) \<and>
     d = JObject [(''schema'', JNatural 1), (''temperatures'', ts)])"

definition raw_details :: "(string \<times> json_doc) list \<Rightarrow> bool" where
  "raw_details ms \<longleftrightarrow> (\<exists>ty n bytes raw celsius.
     length ty = 4 \<and> 0 < n \<and> n \<le> 32 \<and> length bytes = 2 * n \<and> list_all is_hex bytes \<and>
     (raw = JNull \<or> (\<exists>x. raw = JFixed 5 x \<and> isfinite x)) \<and> temperature_doc celsius \<and>
     (raw = JNull \<longrightarrow> celsius = JNull) \<and>
     ms = [(''type'', JText ty), (''size'', JNatural n), (''bytes_hex'', JText bytes),
           (''raw_celsius'', raw), (''plausible_celsius'', celsius)])"

text \<open>The details are there exactly when the read succeeded, and then no call reported an error.\<close>

definition raw_doc :: "string \<Rightarrow> json_doc \<Rightarrow> bool" where
  "raw_doc key d \<longleftrightarrow> (\<exists>ok sent kernel_code smc_code details.
     sent \<in> {5, 9} \<and> (ok \<longrightarrow> sent = 5 \<and> kernel_code = 0 \<and> smc_code = 0 \<and> raw_details details) \<and>
     (\<not> ok \<longrightarrow> details = []) \<and>
     d = JObject ([(''key'', JText key), (''read_ok'', JBool ok), (''last_command'', JNatural sent),
           (''kernel'', JNatural kernel_code), (''smc'', JNatural smc_code)] @ details))"

definition gpu_report :: "json_doc \<Rightarrow> bool" where
  "gpu_report d \<longleftrightarrow> (\<exists>rs. list_all2 raw_doc gpu_raw_keys rs \<and>
     d = JObject [(''schema'', JNatural 1), (''readings'', JArray rs)])"

section \<open>The printers\<close>

lemma writes_number:
  assumes "\<And>d. (if temperature then temperature_doc d else rpm_doc d) \<Longrightarrow> R () (render d)"
  shows "writes R (print_json_number sys key temperature)"
proof -
  have "R () (fixed 2 x)" if "isfinite x" "temperature \<longrightarrow> \<not> (x < round64 10 \<or> round64 115 < x)"
    "\<not> temperature \<longrightarrow> \<not> x < round64 0" for x
    using that assms[of "JFixed 2 x"]
    by (cases temperature) (auto simp: temperature_doc_def rpm_doc_def less_finite not_less)
  moreover have "R () ''null''" using assms[of JNull] by (simp add: temperature_doc_def rpm_doc_def split: if_splits)
  ultimately show ?thesis unfolding print_json_number_def by (intro writes_intros) auto
qed

lemmas writes_temperature [writes_intros] = writes_number[where temperature = True, simplified]
lemmas writes_rpm [writes_intros] = writes_number[where temperature = False, simplified]

lemma render_object_member:
  "render (JObject ms) = CHR ''{'' #
     joined True (map (\<lambda>(k, d). quote # k @ [quote, CHR '':''] @ render d) ms) @ ''}''"
  by simp

lemma writes_status_fan:
  assumes "\<And>d. fan_doc fan d \<Longrightarrow> R () ((if fan = 0 then [] else '','') @ render d)"
  shows "writes R (print_status_fan sys fan)"
proof -
  have *: "R () ((if fan = 0 then [] else '','') @ json ''{`index`:'' @ decimal fan @ json '',`actual_rpm`:'' @
      render a @ json '',`min_rpm`:'' @ render b @ json '',`max_rpm`:'' @ render c @ ''}'')"
    if "rpm_doc a" "rpm_doc b" "rpm_doc c" for a b c
    using assms[of "JObject [(''index'', JNatural fan), (''actual_rpm'', a), (''min_rpm'', b), (''max_rpm'', c)]"]
      that by (auto simp: fan_doc_def json_text)
  show ?thesis
    unfolding print_status_fan_def
    by (intro writes_intros; use * in \<open>auto simp: append_assoc\<close>)
qed

lemma decimal_1: "decimal (Suc 0) = ''1''"
  by (subst decimal.simps) (simp add: digit_eq_iff del: digit.simps)

lemma whole_count:
  assumes "isfinite x" "round64 0 \<le> x" "x \<le> round64 10" "whole x"
  shows "fval x = of_nat (to_unsigned x)" "to_unsigned x \<le> 10"
proof -
  have b: "0 \<le> fval x" "fval x \<le> 10" using assms(1-3) by (auto simp: less_eq_finite)
  then have "0 \<le> \<lfloor>fval x\<rfloor>" "\<lfloor>fval x\<rfloor> \<le> 10" by linarith+
  then have "\<bar>\<lfloor>fval x\<rfloor>\<bar> < 2 ^ 53" by simp
  then have "round64 (of_int \<lfloor>fval x\<rfloor>) = Fin (of_int \<lfloor>fval x\<rfloor>)"
    by (intro round64_exact exact64_of_int)
  with assms(1,4) have "fval x = of_int \<lfloor>fval x\<rfloor>"
    by (auto simp: whole_def deq_def less_eq_finite intro: antisym)
  with b show "fval x = of_nat (to_unsigned x)" unfolding to_unsigned_def by simp
  show "to_unsigned x \<le> 10" using b unfolding to_unsigned_def by linarith
qed

lemma writes_selected:
  assumes "\<And>d. celsius_doc key d \<Longrightarrow> R () ((if index = 0 then [] else '','') @ render d)"
    and "text_characters key = key"
  shows "writes R (print_selected sys index key)"
proof -
  have "R () ((if index = 0 then [] else '','') @ json ''{`key`:`'' @ key @ json ''`,`celsius`:'' @
      render t @ ''}'')" if "temperature_doc t" for t
    using assms(1)[of "JObject [(''key'', JText key), (''celsius'', t)]"] that assms(2)
    by (auto simp: celsius_doc_def json_text)
  then show ?thesis
    unfolding print_selected_def by (intro writes_intros) auto
qed

lemma writes_status:
  assumes "\<And>d. status_report d \<Longrightarrow> R () (render d @ [CHR 0x0A])"
  shows "writes R (print_status_json sys)"
proof -
  have fans: "writes (\<lambda>_ t. \<exists>d. fan_doc fan d \<and> t = (if id fan = 0 then [] else '','') @ render d)
      (print_status_fan sys fan)" for fan
    by (rule writes_status_fan) auto
  have selected: "writes (\<lambda>_ t. \<exists>d. celsius_doc (snd p) d \<and> t = (if fst p = 0 then [] else '','') @ render d)
      (case p of (index, key) \<Rightarrow> print_selected sys index key)"
    if "p \<in> set (enumerate 0 [''Tg0D'', ''TH0a''])" for p
  proof -
    have "text_characters (snd p) = snd p" using that by (auto, code_simp+)
    then show ?thesis by (cases p) (auto intro!: writes_selected)
  qed
  have report: "R () (json ''{`schema`:1,`fan_count`:'' @ render count @ json '',`fans`:['' @
      joined True (map render fans) @ json ''],`cpu_key`:`TCMz`,`cpu_temp_c`:'' @ render cpu @
      json '',`selected_temperatures`:['' @ joined True (map render ds) @ '']'' @ ''}'' @ [CHR 0x0A])"
    if "count_doc count n" and "list_all2 fan_doc [0..<n] fans" and "temperature_doc cpu" and
      two: "list_all2 (\<lambda>p. celsius_doc (snd p)) (enumerate 0 [''Tg0D'', ''TH0a'']) ds" for count n fans cpu ds
  proof -
    obtain first second where ds: "ds = [first, second]" "celsius_doc ''Tg0D'' first" "celsius_doc ''TH0a'' second"
      using two by (auto simp: list_all2_Cons1 numeral_eq_Suc)
    have "text_characters ''TCMz'' = ''TCMz''" by code_simp
    moreover have "status_report (JObject [(''schema'', JNatural 1), (''fan_count'', count),
        (''fans'', JArray fans), (''cpu_key'', JText ''TCMz''), (''cpu_temp_c'', cpu),
        (''selected_temperatures'', JArray [first, second])])"
      unfolding status_report_def using that ds by blast
    from assms[OF this] calculation ds show ?thesis by (simp add: json_text decimal_1)
  qed
  have count: "count_doc (JFixed 0 x) (to_unsigned x)"
    if "isfinite x" "round64 0 \<le> x" "x \<le> round64 10" "whole x" for x
    using that whole_count[of x] by (auto simp: count_doc_def)
  note counted = report[OF count]
    and uncounted = report[of JNull 0 "[]"]
  show ?thesis
    unfolding print_status_json_def
    by (intro writes_intros writes_items[where index = id and D = fan_doc, OF fans]
        writes_items[where index = fst and D = "\<lambda>p. celsius_doc (snd p)", OF selected])
       (use counted uncounted in \<open>simp_all add: count_doc_def\<close>)
qed

lemma list_all2_function: "list_all2 (\<lambda>x t. t = f x) xs ts \<longleftrightarrow> ts = map f xs"
  by (induction xs arbitrary: ts) (auto simp: list_all2_Cons1)

lemma writes_json_key:
  assumes "length key = 4" and "R () (render (JText key))"
  shows "writes R (print_json_key key)"
proof -
  have "map (\<lambda>i. json_character (byte_at key i)) [0..<4] =
      map (\<lambda>c. json_character (word_of_nat (of_char c))) key"
    using assms(1) by (intro nth_equalityI) (auto simp: byte_at_def)
  then have "R () ([quote] @ concat (map (\<lambda>i. json_character (byte_at key i)) [0..<4]) @ [quote])"
    using assms(2) by (simp add: text_characters_def del: upt_Suc)
  then have *: "R () ([quote] @ concat ts @ [quote])"
    if "list_all2 (\<lambda>i t. t = json_character (byte_at key i)) [0..<4] ts" for ts
    using that by (simp only: list_all2_function)
  show ?thesis
    unfolding print_json_key_def
    by (intro writes_intros writes_each[where P = "\<lambda>i t. t = json_character (byte_at key i)"])
       (use * in auto)
qed

lemma temperature_null [simp]: "temperature_doc JNull"
  by (simp add: temperature_doc_def)

lemma plausible_doc: "isfinite x \<Longrightarrow> plausible_celsius x \<Longrightarrow> temperature_doc (JFixed 2 x)"
  by (auto simp: temperature_doc_def plausible_celsius_def less_eq_finite)

lemma writes_temperature_entry:
  assumes "temperature_key key" and "\<And>d v. celsius_doc key d \<Longrightarrow> R v (render d)"
  shows "writes R (print_temperature_entry sys key value)"
proof -
  have *: "R v (json ''{`key`:'' @ render (JText key) @ json '',`celsius`:'' @ render t @ ''}'')"
    if "temperature_doc t" for t v
    using assms(2)[of "JObject [(''key'', JText key), (''celsius'', t)]"] that
    by (auto simp: celsius_doc_def json_text)
  note found = *[OF plausible_doc] and missing = *[of JNull]
  show ?thesis
    unfolding print_temperature_entry_def
    using assms(1)
    by (intro writes_intros writes_json_key)
       (use found missing in \<open>auto simp: temperature_key_def temperature_doc_def dest: read_number_finite\<close>)
qed

lemma writes_temperature_entries:
  assumes "\<And>ds. list_all (\<lambda>e. \<exists>key. temperature_key key \<and> celsius_doc key e) ds \<Longrightarrow>
     length ds \<le> length indices \<Longrightarrow> R () (joined first (map render ds))"
  shows "writes R (print_temperature_entries sys indices first key v)"
  using assms
proof (induction indices arbitrary: first key v R)
  case Nil
  then show ?case using Nil[of "[]"] by (simp add: writes_return)
next
  case (Cons index rest)
  have skip: "writes R (print_temperature_entries sys rest first k v)" for k v
    by (rule Cons.IH) (simp add: Cons.prems)
  have entry: "writes (\<lambda>r u. R r ((if first then [] else '','') @ render d @ u))
      (print_temperature_entries sys rest False k v)" if "temperature_key k'" "celsius_doc k' d" for d k k' v
  proof (rule Cons.IH)
    fix ds assume "list_all (\<lambda>e. \<exists>key. temperature_key key \<and> celsius_doc key e) ds" "length ds \<le> length rest"
    then have "R () (joined first (map render (d # ds)))"
      using that by (intro Cons.prems) auto
    then show "R () ((if first then [] else '','') @ render d @ joined False (map render ds))" by simp
  qed
  show ?case
    unfolding print_temperature_entries.simps
    by (intro writes_intros writes_temperature_entry)
       (use skip entry in \<open>auto simp: temperature_key_def\<close>)
qed

lemma writes_temperatures:
  assumes "\<And>d. temperatures_report d \<Longrightarrow> R () (render d @ [CHR 0x0A])"
  shows "writes R (print_temperatures_json sys)"
proof -
  have *: "R () (json ''{`schema`:1,`temperatures`:'' @ render ts @ ''}'' @ [CHR 0x0A])"
    if "ts = JNull \<or> (\<exists>ds. ts = JArray ds \<and>
       list_all (\<lambda>e. \<exists>key. temperature_key key \<and> celsius_doc key e) ds \<and> length ds \<le> 20000)" for ts
  proof -
    have "temperatures_report (JObject [(''schema'', JNatural 1), (''temperatures'', ts)])"
      using that unfolding temperatures_report_def by blast
    from assms[OF this] show ?thesis by (simp add: json_text decimal_1)
  qed
  have entries: "R () (json ''{`schema`:1,`temperatures`:'' @ ''['' @ joined True (map render ds) @ '']}'' @ [CHR 0x0A])"
    if "list_all (\<lambda>e. \<exists>key. temperature_key key \<and> celsius_doc key e) ds" "length ds \<le> 20000" for ds
    using *[of "JArray ds"] that by auto
  have "unat c \<le> 20000" if "plausible_count c" for c
    using that by (simp add: plausible_count_def MAX_SMC_KEYS_def word_le_nat_alt)
  with entries show ?thesis
    unfolding print_temperatures_json_def
    by (intro writes_intros writes_temperature_entries)
       (use *[of JNull] in \<open>auto dest: le_trans\<close>)
qed

lemma hex_characters: "list_all is_hex t \<Longrightarrow> text_characters t = t"
proof (induction t)
  case (Cons c t)
  have "json_character (word_of_nat (of_char c)) = [c]" if "is_hex c"
  proof -
    have c: "(of_char c :: nat) < 256" using nat_of_char_less_256[of c] by simp
    then have "unat (word_of_nat (of_char c) :: u8) = of_char c" by (simp add: unat_of_nat)
    with that show ?thesis
      by (auto simp: json_character_def byte_char_def is_hex_def is_digit_def word_less_nat_alt word_unat_eq_iff)
  qed
  with Cons show ?case by (simp add: text_characters_def)
qed (simp add: text_characters_def)

lemma concat_hex:
  "list_all is_hex (concat (map (\<lambda>i. hex 2 (f i)) xs)) \<and>
   length (concat (map (\<lambda>i. hex 2 (f i)) xs)) = 2 * length xs"
  by (induction xs) (auto simp: hex_hex hex_length)

definition members_text :: "(string \<times> json_doc) list \<Rightarrow> string" where
  "members_text ms = joined False (map (\<lambda>(k, d). quote # k @ [quote, CHR '':''] @ render d) ms)"

lemma writes_raw_details:
  assumes "value_ok v" and "\<And>ms. raw_details ms \<Longrightarrow> R () (members_text ms)"
  shows "writes R (print_raw_details v)"
proof -
  let ?n = "unat (value_size v)"
  let ?bytes = "concat (map (\<lambda>i. hex 2 (unat (value_bytes v i))) [0..<?n])"
  have n: "0 < ?n" "?n \<le> 32" "length (value_type v) = 4"
    using assms(1) by (auto simp: value_ok_def word_less_nat_alt word_le_nat_alt)
  have *: "R () (json '',`type`:'' @ render (JText (value_type v)) @ json '',`size`:'' @ decimal ?n @
      json '',`bytes_hex`:`'' @ ?bytes @ json ''`,`raw_celsius`:'' @ render raw @
      json '',`plausible_celsius`:'' @ render celsius)"
    if "raw = JNull \<or> (\<exists>x. raw = JFixed 5 x \<and> isfinite x)" "temperature_doc celsius"
      "raw = JNull \<longrightarrow> celsius = JNull" for raw celsius
  proof -
    have "raw_details [(''type'', JText (value_type v)), (''size'', JNatural ?n),
        (''bytes_hex'', JText ?bytes), (''raw_celsius'', raw), (''plausible_celsius'', celsius)]"
      unfolding raw_details_def using that n concat_hex[of "\<lambda>i. unat (value_bytes v i)" "[0..<?n]"]
      by auto
    from assms(2)[OF this] show ?thesis
      using concat_hex[of "\<lambda>i. unat (value_bytes v i)" "[0..<?n]"]
      by (simp add: members_text_def json_text hex_characters)
  qed
  note missing = *[of JNull JNull] and raw = *[of "JFixed 5 x" JNull for x]
    and both = *[OF _ plausible_doc, of "JFixed 5 x" x for x]
  show ?thesis
    unfolding print_raw_details_def
    by (intro writes_intros writes_json_key n
        writes_each[where P = "\<lambda>i t. t = hex 2 (unat (value_bytes v i))"])
       (use missing raw both in \<open>auto simp: list_all2_function dest: read_number_finite split: if_splits\<close>)
qed

lemma writes_raw_fields:
  assumes "\<And>d. raw_doc name d \<Longrightarrow> R () (render d)"
    and "text_characters name = name" "take 4 (c_string name) = name"
    and "sent \<in> {5, 9}" "ok \<Longrightarrow> sent = 5 \<and> kernel_code = 0 \<and> smc_code = 0 \<and> value_ok v"
  shows "writes R (print_raw_fields name ok v sent kernel_code smc_code)"
proof -
  have *: "R () (json ''{`key`:`'' @ name @ json ''`,`read_ok`:'' @ (if ok then ''true'' else ''false'') @
      json '',`last_command`:'' @ decimal sent @ json '',`kernel`:'' @ decimal kernel_code @
      json '',`smc`:'' @ decimal smc_code @ members_text details @ ''}'')"
    if "ok \<Longrightarrow> raw_details details" "\<not> ok \<Longrightarrow> details = []" for details
  proof -
    have "raw_doc name (JObject ([(''key'', JText name), (''read_ok'', JBool ok),
        (''last_command'', JNatural sent), (''kernel'', JNatural kernel_code),
        (''smc'', JNatural smc_code)] @ details))"
      unfolding raw_doc_def using that assms(4,5) by blast
    from assms(1)[OF this] show ?thesis
      using assms(2) by (simp add: members_text_def json_text joined_append)
  qed
  show ?thesis
    unfolding print_raw_fields_def
    by (intro writes_intros writes_raw_details)
       (use * *[of "[]"] assms(3,5) in \<open>auto simp: members_text_def\<close>)
qed

lemma writes_raw_temperature:
  assumes "\<And>d. raw_doc name d \<Longrightarrow> R () (render d)"
    and "text_characters name = name" "take 4 (c_string name) = name"
  shows "writes R (print_raw_temperature sys name)"
proof (rule writesI)
  fix s
  have fields: "writes R (print_raw_fields name ok v sent kernel_code smc_code)"
    if "sent \<in> {5, 9}" "ok \<Longrightarrow> sent = 5 \<and> kernel_code = 0 \<and> smc_code = 0 \<and> value_ok v"
    for ok v sent kernel_code smc_code
    using that by (intro writes_raw_fields assms) auto
  show "wp (print_raw_temperature sys name) (\<lambda>r s'. \<exists>t. stdout_text s' = stdout_text s @ t \<and> R r t) s"
    unfolding print_raw_temperature_def
    by (rule wp_bindI, rule wp_read_key, simp only: prod.case wp_State wp_bind,
        rule wp_mono[OF writesD[OF fields]]) auto
qed

lemma writes_gpu:
  assumes "\<And>d. gpu_report d \<Longrightarrow> R () (render d @ [CHR 0x0A])"
  shows "writes R (print_gpu_raw_json sys)"
proof -
  have plain: "text_characters key = key \<and> take 4 (c_string key) = key" if "key \<in> set gpu_raw_keys" for key
    using that by (simp add: gpu_raw_keys_def, elim disjE; hypsubst; code_simp)
  let ?body = "\<lambda>(index, key). do {
     (if index \<noteq> 0 then put_text '','' else ret ());
     print_raw_temperature sys key
   }"
  have item: "writes (\<lambda>_ t. \<exists>d. raw_doc (snd p) d \<and> t = (if fst p = 0 then [] else '','') @ render d) (?body p)"
    if "p \<in> set (enumerate 0 gpu_raw_keys)" for p
  proof -
    have "snd p \<in> set gpu_raw_keys" using that by (auto simp: in_set_enumerate_eq) (metis nth_mem)
    with plain show ?thesis
      by (cases p) (auto intro!: writes_intros writes_raw_temperature)
  qed
  have report: "R () (json ''{`schema`:1,`readings`:['' @ joined True (map render ds) @ '']}'' @ [CHR 0x0A])"
    if "list_all2 (\<lambda>p. raw_doc (snd p)) (enumerate 0 gpu_raw_keys) ds" for ds
  proof -
    have "list_all2 raw_doc (map snd (enumerate 0 gpu_raw_keys)) ds" using that by (simp only: list_all2_map1)
    then have "gpu_report (JObject [(''schema'', JNatural 1), (''readings'', JArray ds)])"
      by (simp add: gpu_report_def)
    from assms[OF this] show ?thesis by (simp add: json_text decimal_1)
  qed
  show ?thesis
    unfolding print_gpu_raw_json_def
    by (intro writes_intros writes_items[where index = fst and D = "\<lambda>p. raw_doc (snd p)", OF item])
       (use report in auto)
qed

section \<open>Every report is JSON\<close>

lemma report_renderable:
  "temperature_doc d \<Longrightarrow> renderable d" "rpm_doc d \<Longrightarrow> renderable d" "count_doc d n \<Longrightarrow> renderable d"
  by (auto simp: temperature_doc_def rpm_doc_def count_doc_def)

lemma plain_names:
  "list_all plain_name [''schema'', ''fan_count'', ''fans'', ''cpu_key'', ''cpu_temp_c'',
     ''selected_temperatures'', ''index'', ''actual_rpm'', ''min_rpm'', ''max_rpm'', ''key'', ''celsius'',
     ''temperatures'', ''readings'', ''read_ok'', ''last_command'', ''kernel'', ''smc'', ''type'', ''size'',
     ''bytes_hex'', ''raw_celsius'', ''plausible_celsius'']"
  by code_simp

lemma fan_renderable: "fan_doc fan d \<Longrightarrow> renderable d"
  using plain_names by (auto simp: fan_doc_def report_renderable)

lemma celsius_renderable: "celsius_doc key d \<Longrightarrow> renderable d"
  using plain_names by (auto simp: celsius_doc_def report_renderable)

lemma items_renderable:
  "list_all2 D xs ds \<Longrightarrow> (\<And>x d. D x d \<Longrightarrow> renderable d) \<Longrightarrow> d \<in> set ds \<Longrightarrow> renderable d"
  by (auto simp: list_all2_conv_all_nth in_set_conv_nth)

lemma status_json: "status_report d \<Longrightarrow> json_value (render d)"
  using plain_names
  by (intro render_valid)
     (auto simp: status_report_def report_renderable celsius_renderable dest: items_renderable[OF _ fan_renderable])

lemma temperatures_json: "temperatures_report d \<Longrightarrow> json_value (render d)"
  using plain_names
  by (intro render_valid) (auto simp: temperatures_report_def list_all_iff; metis celsius_renderable)

lemma details_renderable: "raw_details ms \<Longrightarrow> (k, d) \<in> set ms \<Longrightarrow> plain_name k \<and> renderable d"
  using plain_names by (auto simp: raw_details_def report_renderable)

lemma raw_renderable: "raw_doc key d \<Longrightarrow> renderable d"
  using plain_names by (auto simp: raw_doc_def dest: details_renderable)

lemma gpu_json: "gpu_report d \<Longrightarrow> json_value (render d)"
  using plain_names
  by (intro render_valid)
     (auto simp: gpu_report_def dest: items_renderable[OF _ raw_renderable])

end
