(* ===== verification/InventoryProperties.thy ===== *)
theory InventoryProperties
  imports InventoryReports
begin

text \<open>
  The inventory tool as a whole: which requests it sends, that it closes its connection, what it prints
  in each mode and the exit status.
\<close>

section \<open>Requests and connections\<close>

fun read_request :: "io_event \<Rightarrow> bool" where
  "read_request (Requested request) =
     (command request \<in> {SMC_READ_BYTES, SMC_READ_INDEX, SMC_READ_KEY_INFO} \<and>
      data_bytes request = (\<lambda>_. 0))"
| "read_request e = False"

lemma reads_put [emits_intros]:
  "emits connection_events P (put_text text)" "emits connection_events P (put_line text)"
  "emits connection_events P (put_error text)" "emits connection_events P (in_tool m)"
  by (auto simp: emits_def put_text_def put_line_def put_error_def in_tool_def split: prod.splits)

lemma reads_note [emits_intros]: "P e \<Longrightarrow> emits connection_events P (connection_note e)"
  by (auto simp: emits_def connection_note_def)

lemma reads_each [emits_intros]:
  "(\<And>x. emits tr P (body x)) \<Longrightarrow> emits tr P (each body xs)"
  by (induction xs) (auto intro: emits_intros)

lemma reads_call: "read_request (Requested request) \<Longrightarrow>
   emits connection_events read_request (inventory_call_read sys request)"
  unfolding inventory_call_read_def by (intro emits_intros) (auto simp: emits_def)

lemma reads_key [emits_intros]:
  "emits connection_events read_request (inventory_read_key sys name v)"
  "emits connection_events read_request (read_key_at sys index key)"
  unfolding inventory_read_key_def read_key_at_def
  by (intro emits_intros reads_call; simp add: zero_key_data_def)+

lemma reads_printers [emits_intros]:
  "emits connection_events read_request (print_key sys name unit_name)"
  "emits connection_events read_request (print_json_number sys name temperature)"
  "emits connection_events read_request (print_json_key name)"
  unfolding print_key_def print_json_number_def read_finite_number_def print_json_key_def
  by (intro emits_intros)+

lemma reads_fans_from [emits_intros]: "emits connection_events read_request (print_fans_from sys indices v)"
  by (induction indices arbitrary: v) (auto simp: print_fan_def intro!: emits_intros)

lemma reads_entries [emits_intros]:
  "emits connection_events read_request (print_temperature_entries sys indices first key v)"
  by (induction indices arbitrary: first key v)
     (auto simp: print_temperature_entry_def intro!: emits_intros)

lemma reads_lines [emits_intros]:
  "emits connection_events read_request (print_temperature_lines sys show_all indices key v tally)"
  by (induction indices arbitrary: key v tally)
     (auto simp: print_temperature_line_def intro!: emits_intros)

lemma reads_reports:
  "emits connection_events read_request (print_status_json sys)"
  "emits connection_events read_request (print_temperatures_json sys)"
  "emits connection_events read_request (print_gpu_raw_json sys)"
  "emits connection_events read_request (inventory_print_fans sys)"
  "emits connection_events read_request (print_temperatures sys show_all)"
  unfolding print_status_json_def print_temperatures_json_def print_gpu_raw_json_def inventory_print_fans_def
    print_temperatures_def print_status_fan_def print_selected_def print_raw_temperature_def
    print_raw_fields_def print_raw_details_def read_finite_number_def
  by (intro emits_intros emits_silent; simp)+

lemma reads_report:
  "emits connection_events read_request (print_report sys show_all status_json temperatures_json gpu_raw_json)"
  unfolding print_report_def by (intro emits_intros reads_reports)

lemma reads_clear [emits_intros]: "emits connection_events P clear_smc"
  by (simp add: emits_def clear_smc_def)

fun inventory_event :: "io_event \<Rightarrow> bool" where
  "inventory_event (Requested request) = read_request (Requested request)"
| "inventory_event e = True"

lemma reads_event: "emits tr read_request m \<Longrightarrow> emits tr inventory_event m"
  by (erule emits_mono) (metis inventory_event.simps read_request.elims(2))

text \<open>C37: Whatever its arguments and whatever the controller answers, the inventory tool sends only the
  three read commands (bytes, key by index, key information), and no request carries data bytes.\<close>

theorem inventory_read_only: "emits connection_events inventory_event (inventory_main sys argv)"
  unfolding inventory_main_def
  by (intro emits_intros reads_report[THEN reads_event]; simp)

lemma wp_reports:
  assumes "emits connection_events read_request m"
    and "\<And>r es s'. connection_events s' = es @ connection_events s \<Longrightarrow> \<forall>e \<in> set es. is_request e \<Longrightarrow> Q r s'"
  shows "wp m Q s"
proof (rule wpI)
  fix r s' assume run: "run_state m s = (r, s')"
  have "read_request e \<Longrightarrow> is_request e" for e by (cases e) auto
  with assms(1) have "emits connection_events is_request m" by (rule emits_mono)
  then obtain es where "connection_events s' = es @ connection_events s" "\<forall>e \<in> set es. is_request e"
    using run by (rule emitsD)
  then show "Q r s'" by (rule assms(2))
qed

lemma wp_connection:
  "(\<And>s'. connection_events s' = e # connection_events s \<Longrightarrow> Q () s') \<Longrightarrow> wp (connection_note e) Q s"
  "(\<And>r s'. connection_events s' = connection_events s \<Longrightarrow> R r s') \<Longrightarrow> wp (in_tool m) R s"
  "(\<And>s'. connection_events s' = connection_events s \<Longrightarrow> Q () s') \<Longrightarrow> wp (put_error text) Q s"
  "(\<And>s'. connection_events s' = connection_events s \<Longrightarrow> Q () s') \<Longrightarrow> wp clear_smc Q s"
  by (simp_all add: connection_note_def in_tool_def put_error_def clear_smc_def wp_State
      split: prod.splits)

text \<open>The events of a run: none, a refused connection, or an opened one with requests and its end.\<close>

definition connection_done :: "io_event list \<Rightarrow> io_event list \<Rightarrow> int \<Rightarrow> bool" where
  "connection_done tr0 tr code \<longleftrightarrow> closed_since tr0 tr \<and>
     (\<exists>es. tr = es @ tr0 \<and> code = (if Opened True \<in> set es then 0 else 1))"

lemma connection_done_cases:
  "connection_done tr tr 1" "connection_done tr (Opened False # tr) 1"
  "\<forall>e \<in> set es. is_request e \<Longrightarrow> connection_done tr (Closed # es @ Opened True # tr) 0"
proof -
  show "connection_done tr tr 1" "connection_done tr (Opened False # tr) 1"
    by (auto simp: connection_done_def closed_since_refl closed_since_failed)
  assume "\<forall>e \<in> set es. is_request e"
  from closed_since_closed[OF this] show "connection_done tr (Closed # es @ Opened True # tr) 0"
    unfolding connection_done_def by (intro conjI exI[of _ "Closed # es @ [Opened True]"]) auto
qed

text \<open>The tool closes the one connection it opens, and its exit status is 0 exactly when it opened
  one: a wrong argument, a missing service and a refused connection are status 1.\<close>

theorem inventory_closes:
  "case run_state (inventory_main sys argv) s of (code, s') \<Rightarrow>
     connection_done (connection_events s) (connection_events s') code"
proof -
  have "wp (inventory_main sys argv) (\<lambda>code s'.
     connection_done (connection_events s) (connection_events s') code) s"
    unfolding inventory_main_def
    by (intro wp_intros wp_connection wp_reports[OF reads_report]) (auto simp: connection_done_cases)
  then show ?thesis by (simp add: wp_def)
qed

definition reports_json :: "(json_doc \<Rightarrow> bool) \<Rightarrow> 'd inventory \<Rightarrow> int \<times> 'd inventory \<Rightarrow> bool" where
  "reports_json shape s outcome \<longleftrightarrow>
     fst outcome = 0 \<and> (\<exists>d. shape d \<and> json_value (render d) \<and>
       stdout_text (snd outcome) = stdout_text s @ render d @ [CHR 0x0A]) \<or>
     fst outcome = 1 \<and> stdout_text (snd outcome) = stdout_text s"

lemma reports_json:
  assumes "writes (\<lambda>code t. code = 0 \<and> (\<exists>d. shape d \<and> json_value (render d) \<and>
      t = render d @ [CHR 0x0A]) \<or> code = 1 \<and> t = []) m"
  shows "reports_json shape s (run_state m s)"
  using writesD[OF assms, of s] by (auto simp: wp_def reports_json_def split: prod.splits)

lemma writes_reset [writes_intros]:
  "R () [] \<Longrightarrow> writes R clear_smc"
  by (simp add: writes_def clear_smc_def wp_State)

text \<open>C36: In each of its JSON modes the tool prints one document of that mode's shape and a newline, the
  text is JSON, and it prints nothing to its output when it fails.\<close>

theorem inventory_prints_json:
  "reports_json status_report s (run_state (inventory_main sys [program, ''--status-json'']) s) \<and>
   reports_json temperatures_report s (run_state (inventory_main sys [program, ''--temperatures-json'']) s) \<and>
   reports_json gpu_report s (run_state (inventory_main sys [program, ''--gpu-raw-json'']) s)"
proof (intro conjI reports_json)
  have c: "c_string ''--status-json'' = ''--status-json''" "c_string ''--temperatures-json'' = ''--temperatures-json''"
    "c_string ''--gpu-raw-json'' = ''--gpu-raw-json''" "c_string ''--all-temperatures'' = ''--all-temperatures''"
    by code_simp+
  show "writes (\<lambda>code t. code = 0 \<and> (\<exists>d. status_report d \<and> json_value (render d) \<and>
      t = render d @ [CHR 0x0A]) \<or> code = 1 \<and> t = []) (inventory_main sys [program, ''--status-json''])"
    unfolding inventory_main_def print_report_def
    by (intro writes_intros writes_status) (auto simp: strcmp_eq_def c intro: status_json)
  show "writes (\<lambda>code t. code = 0 \<and> (\<exists>d. temperatures_report d \<and> json_value (render d) \<and>
      t = render d @ [CHR 0x0A]) \<or> code = 1 \<and> t = []) (inventory_main sys [program, ''--temperatures-json''])"
    unfolding inventory_main_def print_report_def
    by (intro writes_intros writes_temperatures) (auto simp: strcmp_eq_def c intro: temperatures_json)
  show "writes (\<lambda>code t. code = 0 \<and> (\<exists>d. gpu_report d \<and> json_value (render d) \<and>
      t = render d @ [CHR 0x0A]) \<or> code = 1 \<and> t = []) (inventory_main sys [program, ''--gpu-raw-json''])"
    unfolding inventory_main_def print_report_def
    by (intro writes_intros writes_gpu) (auto simp: strcmp_eq_def c intro: gpu_json)
qed

section \<open>The text report's counts\<close>

definition tally_ok :: "bool \<Rightarrow> nat \<Rightarrow> temperature_tally \<Rightarrow> bool" where
  "tally_ok show_all keys tally \<longleftrightarrow>
     shown tally \<le> plausible tally \<and> plausible tally \<le> readable tally \<and>
     readable tally \<le> candidates tally \<and> candidates tally \<le> keys \<and>
     shown tally = (if show_all then plausible tally else min 24 (plausible tally))"

lemma line_tally:
  "tally_ok show_all n tally \<Longrightarrow>
   wp (print_temperature_line sys show_all key v tally) (\<lambda>r s'. tally_ok show_all (Suc n) (snd r)) s"
  unfolding print_temperature_line_def
  by (intro wp_intros wp_any) (auto simp: tally_ok_def)

lemma lines_tally:
  "tally_ok show_all n tally \<Longrightarrow>
   wp (print_temperature_lines sys show_all indices key v tally)
     (\<lambda>r s'. tally_ok show_all (n + length indices) r) s"
proof (induction indices arbitrary: n key v tally s)
  case (Cons index rest)
  have skip: "tally_ok show_all (n + length (index # rest)) r" if "tally_ok show_all (n + length rest) r" for r
    using that by (simp add: tally_ok_def)
  have lines: "wp (print_temperature_lines sys show_all rest key v tally)
      (\<lambda>r s'. tally_ok show_all (n + length (index # rest)) r) s"
    if "tally_ok show_all n tally" for key v tally s
    by (rule wp_mono[OF Cons.IH[OF that]]) (rule skip)
  have counted: "wp (print_temperature_lines sys show_all rest key v tally)
      (\<lambda>r s'. tally_ok show_all (n + length (index # rest)) r) s"
    if "tally_ok show_all (Suc n) tally" for key v tally s
    by (rule wp_mono[OF Cons.IH[OF that]]) simp
  show ?case
    unfolding print_temperature_lines.simps
    by (rule wp_bindI, rule wp_any, rule wp_case_prodI, intro wp_intros lines Cons.prems
        wp_mono[OF line_tally[OF Cons.prems]] counted) auto
qed (simp add: wp_return)

text \<open>The counts of the text report: shown, plausible, readable and T-prefixed keys are each at most
  the next and at most the keys enumerated, and what is shown is every plausible temperature, or the
  first 24 of them unless all were asked for.\<close>

theorem inventory_tally:
  "tally_ok show_all (length indices)
     (fst (run_state (print_temperature_lines sys show_all indices key v empty_tally) s))"
proof -
  have "tally_ok show_all 0 empty_tally" by (simp add: tally_ok_def empty_tally_def)
  from wp_fst[OF lines_tally[OF this]] show ?thesis by simp
qed

end
