(* ===== verification/Foundation.thy ===== *)
theory Foundation
  imports SmcBaseline JsonText
begin

text \<open>
  The part of Objective-C's Foundation that the response validation of \<open>prototype/helper-ipc\<close> uses: the
  objects of a property list, what \<open>isEqual:\<close>, \<open>count\<close> and subscripting give on them, and the conversions
  of \<open>NSNumber\<close>. A pointer that may be nil is an option; a message to nil answers nil, 0 or NO.
\<close>

section \<open>Objects\<close>

datatype ns_number = NSBool bool | NSInt int | NSDouble double

datatype ns_object =
    NSNull
  | NSString string
  | NSNumber ns_number
  | NSArray "ns_object list"
  | NSDictionary "(string \<times> ns_object) list"

text \<open>The value that two numbers have in common when they are equal.\<close>

fun number_value :: "ns_number \<Rightarrow> rat option" where
  "number_value (NSBool b) = Some (if b then 1 else 0)"
| "number_value (NSInt i) = Some (of_int i)"
| "number_value (NSDouble x) = (if isfinite x then Some (fval x) else None)"

definition number_equal :: "ns_number \<Rightarrow> ns_number \<Rightarrow> bool" where
  "number_equal m n \<longleftrightarrow>
     (if number_value m = None \<and> number_value n = None then m = n else number_value m = number_value n)"

lemma zip_size [termination_simp]: "(x, y) \<in> set (zip xs ys) \<Longrightarrow> size x < Suc (size_list size xs)"
  by (auto dest!: set_zip_leftD simp: less_Suc_eq_le intro: size_list_estimation')

fun ns_equal :: "ns_object \<Rightarrow> ns_object \<Rightarrow> bool" where
  "ns_equal NSNull NSNull = True"
| "ns_equal (NSString s) (NSString t) = (s = t)"
| "ns_equal (NSNumber m) (NSNumber n) = number_equal m n"
| "ns_equal (NSArray xs) (NSArray ys) =
     (length xs = length ys \<and> (\<forall>(x, y) \<in> set (zip xs ys). ns_equal x y))"
| "ns_equal (NSDictionary xs) (NSDictionary ys) =
     (length xs = length ys \<and>
      (\<forall>(k, x) \<in> set xs. case map_of ys k of None \<Rightarrow> False | Some y \<Rightarrow> ns_equal x y))"
| "ns_equal _ _ = False"

text \<open>\<open>[value isEqual:other]\<close>; the argument is never nil in the sources' literals.\<close>

definition is_equal :: "ns_object option \<Rightarrow> ns_object option \<Rightarrow> bool" where
  "is_equal value other = (case (value, other) of (Some x, Some y) \<Rightarrow> ns_equal x y | _ \<Rightarrow> False)"

definition is_string :: "ns_object option \<Rightarrow> bool" where
  "is_string value = (case value of Some (NSString s) \<Rightarrow> True | _ \<Rightarrow> False)"

definition is_number :: "ns_object option \<Rightarrow> bool" where
  "is_number value = (case value of Some (NSNumber n) \<Rightarrow> True | _ \<Rightarrow> False)"

definition is_array :: "ns_object option \<Rightarrow> bool" where
  "is_array value = (case value of Some (NSArray xs) \<Rightarrow> True | _ \<Rightarrow> False)"

definition is_dictionary :: "ns_object option \<Rightarrow> bool" where
  "is_dictionary value = (case value of Some (NSDictionary ms) \<Rightarrow> True | _ \<Rightarrow> False)"

text \<open>\<open>object.count\<close>, \<open>object[key]\<close> and \<open>object[index]\<close>, which the sources use after the check of the class.\<close>

definition ns_count :: "ns_object option \<Rightarrow> nat" where
  "ns_count value = (case value of Some (NSDictionary ms) \<Rightarrow> length ms | Some (NSArray xs) \<Rightarrow> length xs | _ \<Rightarrow> 0)"

definition at_key :: "ns_object option \<Rightarrow> string \<Rightarrow> ns_object option" where
  "at_key value key = (case value of Some (NSDictionary ms) \<Rightarrow> map_of ms key | _ \<Rightarrow> None)"

definition at_index :: "ns_object option \<Rightarrow> nat \<Rightarrow> ns_object option" where
  "at_index value i = (case value of Some (NSArray xs) \<Rightarrow> (if i < length xs then Some (xs ! i) else None) | _ \<Rightarrow> None)"

definition elements_of :: "ns_object option \<Rightarrow> ns_object list" where
  "elements_of value = (case value of Some (NSArray xs) \<Rightarrow> xs | _ \<Rightarrow> [])"

section \<open>Conversions of NSNumber\<close>

text \<open>
  An integer is cut to the width asked for. A double is truncated; C leaves open what it gives outside of
  the range of the type, which is the parameter \<open>cast\<close>.
\<close>

datatype c_type = Int32 | UInt32 | UInt64

fun type_range :: "c_type \<Rightarrow> int \<times> int" where
  "type_range Int32 = (- (2 ^ 31), 2 ^ 31 - 1)"
| "type_range UInt32 = (0, 2 ^ 32 - 1)"
| "type_range UInt64 = (0, 2 ^ 64 - 1)"

definition in_range :: "c_type \<Rightarrow> int \<Rightarrow> bool" where
  "in_range t i \<longleftrightarrow> fst (type_range t) \<le> i \<and> i \<le> snd (type_range t)"

definition cut_to :: "c_type \<Rightarrow> int \<Rightarrow> int" where
  "cut_to t i = (case type_range t of (lo, hi) \<Rightarrow> (i - lo) mod (hi - lo + 1) + lo)"

definition truncated :: "double \<Rightarrow> int" where
  "truncated x = (if fval x < 0 then \<lceil>fval x\<rceil> else \<lfloor>fval x\<rfloor>)"

type_synonym c_cast = "c_type \<Rightarrow> double \<Rightarrow> int"

fun number_as :: "c_cast \<Rightarrow> c_type \<Rightarrow> ns_number \<Rightarrow> int" where
  "number_as cast t (NSBool b) = (if b then 1 else 0)"
| "number_as cast t (NSInt i) = cut_to t i"
| "number_as cast t (NSDouble x) =
     (if isfinite x \<and> in_range t (truncated x) then truncated x else cut_to t (cast t x))"

text \<open>\<open>intValue\<close>, \<open>unsignedIntValue\<close>, \<open>unsignedLongLongValue\<close> (and \<open>unsignedIntegerValue\<close>), \<open>doubleValue\<close>
  and \<open>boolValue\<close> of an object that is a number, or of nil.\<close>

definition value_as :: "c_cast \<Rightarrow> c_type \<Rightarrow> ns_object option \<Rightarrow> int" where
  "value_as cast t value = (case value of Some (NSNumber n) \<Rightarrow> number_as cast t n | _ \<Rightarrow> 0)"

fun double_of :: "ns_number \<Rightarrow> double" where
  "double_of (NSBool b) = (if b then Fin 1 else Fin 0)"
| "double_of (NSInt i) = round64 (of_int i)"
| "double_of (NSDouble x) = x"

definition double_value :: "ns_object option \<Rightarrow> double" where
  "double_value value = (case value of Some (NSNumber n) \<Rightarrow> double_of n | _ \<Rightarrow> Fin 0)"

definition bool_value :: "ns_object option \<Rightarrow> bool" where
  "bool_value value = (case value of Some (NSNumber n) \<Rightarrow> number_value n \<noteq> Some 0 | _ \<Rightarrow> False)"

text \<open>\<open>CFGetTypeID(value) == CFBooleanGetTypeID()\<close>\<close>

definition is_boolean :: "ns_object option \<Rightarrow> bool" where
  "is_boolean value = (case value of Some (NSNumber (NSBool b)) \<Rightarrow> True | _ \<Rightarrow> False)"

section \<open>Documents\<close>

text \<open>What \<open>NSJSONSerialization\<close> documents to make of the text of a document.\<close>

fun ns_of_json :: "json_doc \<Rightarrow> ns_object" where
  "ns_of_json JNull = NSNull"
| "ns_of_json (JBool b) = NSNumber (NSBool b)"
| "ns_of_json (JNatural n) = NSNumber (NSInt (int n))"
| "ns_of_json (JInteger i) = NSNumber (NSInt i)"
| "ns_of_json (JFixed places x) = NSNumber (NSDouble x)"
| "ns_of_json (JText t) = NSString t"
| "ns_of_json (JArray ds) = NSArray (map ns_of_json ds)"
| "ns_of_json (JObject ms) = NSDictionary (map (\<lambda>(k, d). (k, ns_of_json d)) ms)"

section \<open>Lemmas\<close>

named_theorems ns_simps "messages to known objects"

lemma class_simps [ns_simps]:
  "is_string (Some (NSString s))" "is_number (Some (NSNumber n))" "is_array (Some (NSArray xs))"
  "is_dictionary (Some (NSDictionary ms))" "\<not> is_number None" "\<not> is_string None" "\<not> is_array None"
  "\<not> is_dictionary None" "\<not> is_number (Some NSNull)" "\<not> is_string (Some (NSNumber n))"
  "ns_count (Some (NSDictionary ms)) = length ms" "ns_count (Some (NSArray xs)) = length xs"
  "at_key (Some (NSDictionary ms)) key = map_of ms key"
  "elements_of (Some (NSArray xs)) = xs"
  "at_index (Some (NSArray xs)) i = (if i < length xs then Some (xs ! i) else None)"
  "value_as cast t (Some (NSNumber n)) = number_as cast t n" "value_as cast t None = 0"
  "double_value (Some (NSNumber n)) = double_of n"
  "bool_value (Some (NSNumber (NSBool b))) = b"
  "is_boolean (Some (NSNumber (NSBool b)))" "\<not> is_boolean (Some (NSNumber (NSInt i)))" "\<not> is_boolean None"
  by (auto simp: is_string_def is_number_def is_array_def is_dictionary_def ns_count_def at_key_def
      elements_of_def at_index_def value_as_def double_value_def bool_value_def is_boolean_def)

lemma equal_simps [ns_simps]:
  "is_equal (Some x) (Some y) = ns_equal x y" "\<not> is_equal None u" "\<not> is_equal u None"
  "number_equal (NSBool b) (NSBool c) = (b = c)" "number_equal (NSInt i) (NSInt j) = (i = j)"
  "number_equal (NSBool b) (NSInt i) = (i = (if b then 1 else 0))"
  "number_equal (NSInt i) (NSBool b) = (i = (if b then 1 else 0))"
  by (auto simp: is_equal_def number_equal_def split: option.splits)

lemma cut_to_id: "in_range t i \<Longrightarrow> cut_to t i = i"
  by (cases t) (auto simp: in_range_def cut_to_def mod_pos_pos_trivial)

lemma number_as_int [simp]: "in_range t i \<Longrightarrow> number_as cast t (NSInt i) = i"
  by (simp add: cut_to_id)

lemma word_in_range [simp]:
  "in_range UInt64 (uint (w :: u64))" "in_range UInt64 (uint (v :: u32))" "in_range UInt64 (uint (b :: u8))"
  "in_range UInt32 (uint (v :: u32))" "in_range UInt32 (uint (b :: u8))"
  using uint_lt2p[of w] uint_lt2p[of v] uint_lt2p[of b] by (auto simp: in_range_def)

text \<open>An integer in a double is finite and keeps its sign.\<close>

lemma double_of_integer:
  assumes "\<bar>i\<bar> \<le> 2 ^ 64"
  shows "isfinite (round64 (of_int i))" "Fin 0 \<le> round64 (of_int i) \<longleftrightarrow> 0 \<le> i"
proof -
  have edge: "round64 (of_int j) = Fin (of_int j)" if "j = m * 2 ^ 64" "\<bar>m\<bar> < 2 ^ 53" "\<bar>m\<bar> \<le> 1" for j m :: int
  proof -
    have "round_to 53 (- 1074) (of_int j) = of_int j"
      by (rule round_to_exact'[of _ m 64]) (use that in \<open>simp_all add: power_int_def\<close>)
    moreover have "\<bar>of_int j :: rat\<bar> < 2 powi 1024"
    proof -
      have "\<bar>j\<bar> \<le> 2 ^ 64" using that by (simp add: abs_mult)
      then have "\<bar>of_int j :: rat\<bar> \<le> of_int (2 ^ 64)" by (simp only: of_int_abs[symmetric] of_int_le_iff)
      also have "\<dots> < 2 powi 1024" by simp
      finally show ?thesis .
    qed
    ultimately show ?thesis by (intro round64_exact) (simp add: exact64_def)
  qed
  have "round64 (of_int (- (2 ^ 64))) \<le> round64 (of_int i)" "round64 (of_int i) \<le> round64 (of_int (2 ^ 64))"
    using assms by (intro round64_mono; simp only: of_int_le_iff; linarith)+
  moreover have "round64 (of_int (- (2 ^ 64))) = Fin (of_int (- (2 ^ 64)))"
      "round64 (of_int (2 ^ 64)) = Fin (of_int (2 ^ 64))"
    using edge[of "- (2 ^ 64)" "- 1"] edge[of "2 ^ 64" 1] by simp_all
  ultimately have "Fin (of_int (- (2 ^ 64))) \<le> round64 (of_int i)" "round64 (of_int i) \<le> Fin (of_int (2 ^ 64))"
    by simp_all
  then show "isfinite (round64 (of_int i))" by (cases "round64 (of_int i)") auto
  show "Fin 0 \<le> round64 (of_int i) \<longleftrightarrow> 0 \<le> i"
  proof
    assume "0 \<le> i"
    then have "round64 0 \<le> round64 (of_int i)" by (intro round64_mono) simp
    then show "Fin 0 \<le> round64 (of_int i)" by simp
  next
    assume nonneg: "Fin 0 \<le> round64 (of_int i)"
    show "0 \<le> i"
    proof (rule ccontr)
      assume "\<not> 0 \<le> i"
      then have "round64 (of_int i) \<le> round64 (of_int (- 1))" by (intro round64_mono) simp
      also have "round64 (of_int (- 1)) = Fin (- 1)"
        using round64_exact[OF exact64_of_int[of "- 1"]] by simp
      finally show False using nonneg by (cases "round64 (of_int i)") auto
    qed
  qed
qed

end
