(* ===== verification/HelperValidation.thy ===== *)
theory HelperValidation
  imports Foundation
begin

text \<open>
  The client's validation of the daemon's replies: \<open>HelperStatus.h\<close>, \<open>HelperTemperatureValue.h\<close>,
  \<open>HelperBaselineValidation.h\<close>, \<open>HelperWatchValidation.h\<close>, \<open>HelperStartupAuditValidation.h\<close> and
  \<open>HelperSupervisorValidation.h\<close>. A reply is any object, or nil.
\<close>

definition HelperStatusProtocolVersion :: int where "HelperStatusProtocolVersion = 1"

abbreviation number :: "int \<Rightarrow> ns_object option" where "number i \<equiv> Some (NSNumber (NSInt i))"
abbreviation boolean :: "bool \<Rightarrow> ns_object option" where "boolean b \<equiv> Some (NSNumber (NSBool b))"
abbreviation words :: "string \<Rightarrow> ns_object option" where "words s \<equiv> Some (NSString s)"

definition protocol_current :: "ns_object option \<Rightarrow> bool" where
  "protocol_current result \<longleftrightarrow> is_equal (at_key result ''protocol_version'') (number HelperStatusProtocolVersion)"

section \<open>Temperatures\<close>

definition HelperTemperatureValue :: "double \<Rightarrow> ns_object" where
  "HelperTemperatureValue celsius =
     (if smc_baseline_temperature_valid celsius then NSNumber (NSDouble celsius) else NSNull)"

definition HelperTemperatureValueValid :: "ns_object \<Rightarrow> bool" where
  "HelperTemperatureValueValid value \<longleftrightarrow> value = NSNull \<or>
     is_number (Some value) \<and> smc_baseline_temperature_valid (double_value (Some value))"

section \<open>Snapshots\<close>

definition numbers_array :: "ns_object option \<Rightarrow> nat \<Rightarrow> bool" where
  "numbers_array value n \<longleftrightarrow> is_array value \<and> ns_count value = n"

text \<open>The body of the loop over the fans: whether it goes on, and the fan's part of the baseline.\<close>

definition fan_numbers_valid :: "ns_object option \<Rightarrow> ns_object option \<Rightarrow> ns_object option \<Rightarrow> nat \<Rightarrow> bool" where
  "fan_numbers_valid mode target actual index \<longleftrightarrow>
     is_number (at_index mode index) \<and> is_number (at_index target index) \<and>
     is_number (at_index actual index) \<and>
     (let goal = double_value (at_index target index); rpm = double_value (at_index actual index)
      in isfinite goal \<and> isfinite rpm \<and> \<not> goal < Fin 0 \<and> \<not> rpm < Fin 0)"

definition fan_at_baseline :: "c_cast \<Rightarrow> ns_object option \<Rightarrow> ns_object option \<Rightarrow> nat \<Rightarrow> bool" where
  "fan_at_baseline cast mode target index \<longleftrightarrow>
     value_as cast UInt64 (at_index mode index) = 3 \<and> \<bar>double_value (at_index target index)\<bar> \<le> Fin 1"

definition reply_baseline :: "c_cast \<Rightarrow> ns_object option \<Rightarrow> bool" where
  "reply_baseline cast result \<longleftrightarrow> value_as cast UInt64 (at_key result ''Ftst'') = 0 \<and>
     list_all (fan_at_baseline cast (at_key result ''mode'') (at_key result ''target_rpm'')) [0..<2]"

definition snapshot_fields_valid :: "c_cast \<Rightarrow> ns_object option \<Rightarrow> bool" where
  "snapshot_fields_valid cast result \<longleftrightarrow>
     numbers_array (at_key result ''mode'') 2 \<and> numbers_array (at_key result ''target_rpm'') 2 \<and>
     numbers_array (at_key result ''actual_rpm'') 2 \<and> numbers_array (at_key result ''temperatures_c'') 3 \<and>
     list_all (fan_numbers_valid (at_key result ''mode'') (at_key result ''target_rpm'')
       (at_key result ''actual_rpm'')) [0..<2] \<and>
     list_all HelperTemperatureValueValid (elements_of (at_key result ''temperatures_c''))"

definition HelperBaselineResponseValid :: "c_cast \<Rightarrow> ns_object option \<Rightarrow> bool" where
  "HelperBaselineResponseValid cast result \<longleftrightarrow>
     is_dictionary result \<and> ns_count result = 11 \<and> protocol_current result \<and>
     is_equal (at_key result ''available'') (boolean True) \<and>
     is_equal (at_key result ''model'') (words ''Mac15,7'') \<and>
     is_equal (at_key result ''macos'') (words ''27.0'') \<and>
     is_number (at_key result ''sample_monotonic_ns'') \<and>
     value_as cast UInt64 (at_key result ''sample_monotonic_ns'') \<noteq> 0 \<and>
     is_number (at_key result ''baseline'') \<and> is_number (at_key result ''Ftst'') \<and>
     snapshot_fields_valid cast result \<and>
     is_equal (at_key result ''baseline'') (boolean (reply_baseline cast result))"

section \<open>The watch\<close>

definition HelperWatchResponseValid :: "c_cast \<Rightarrow> ns_object option \<Rightarrow> bool" where
  "HelperWatchResponseValid cast result \<longleftrightarrow>
     is_dictionary result \<and> protocol_current result \<and>
     is_string (at_key result ''state'') \<and> is_number (at_key result ''samples'') \<and>
     is_number (at_key result ''last_second'') \<and> is_number (at_key result ''daemon_pid'') \<and>
     0 < value_as cast Int32 (at_key result ''daemon_pid'') \<and>
     is_number (at_key result ''started_monotonic_ns'') \<and>
     is_number (at_key result ''last_sample_monotonic_ns'') \<and>
     (let state = at_key result ''state'';
          samples = value_as cast UInt32 (at_key result ''samples'');
          second = value_as cast UInt32 (at_key result ''last_second'')
      in if is_equal state (words ''idle'') then ns_count result = 7 \<and> samples = 0 \<and> second = 0
         else if is_equal state (words ''read_failed'')
         then ns_count result = 8 \<and> is_string (at_key result ''reason'') \<and> samples \<le> 60 \<and> second \<le> 59
         else if \<not> (is_equal state (words ''running'') \<or> is_equal state (words ''stable'') \<or>
                    is_equal state (words ''changed'')) \<or> ns_count result \<noteq> 13 \<or>
                 samples = 0 \<or> 61 < samples \<or> second \<noteq> (samples - 1) mod 2 ^ 32 \<or>
                 \<not> is_number (at_key result ''baseline'') \<or> \<not> is_number (at_key result ''Ftst'')
         then False
         else if \<not> snapshot_fields_valid cast result then False
         else let baseline = reply_baseline cast result in
           if \<not> is_equal (at_key result ''baseline'') (boolean baseline) then False
           else if is_equal state (words ''running'') then baseline \<and> second < 60
           else if is_equal state (words ''stable'') then baseline \<and> samples = 61 \<and> second = 60
           else \<not> baseline)"

section \<open>The startup audit\<close>

definition read_failures :: "string list" where
  "read_failures = [''unsupported_environment'', ''open_failed'', ''read_failed'', ''unexpected_format'']"

definition without_keys :: "ns_object option \<Rightarrow> string list \<Rightarrow> ns_object option" where
  "without_keys value keys = (case value of
       Some (NSDictionary ms) \<Rightarrow> Some (NSDictionary (filter (\<lambda>(k, v). k \<notin> set keys) ms))
     | _ \<Rightarrow> value)"

definition HelperStartupAuditResponseValid :: "c_cast \<Rightarrow> ns_object option \<Rightarrow> bool" where
  "HelperStartupAuditResponseValid cast result \<longleftrightarrow>
     is_dictionary result \<and> protocol_current result \<and> is_number (at_key result ''daemon_pid'') \<and>
     0 < value_as cast Int32 (at_key result ''daemon_pid'') \<and>
     is_equal (at_key result ''control_allowed'') (boolean False) \<and> is_string (at_key result ''state'') \<and>
     (let state = at_key result ''state'' in
        if is_equal state (words ''read_failed'')
        then ns_count result = 6 \<and> is_equal (at_key result ''available'') (boolean False) \<and>
             is_string (at_key result ''reason'') \<and>
             list_ex (\<lambda>reason. is_equal (at_key result ''reason'') (words reason)) read_failures
        else if \<not> (is_equal state (words ''system_at_start'') \<or> is_equal state (words ''changed_at_start'')) \<or>
                ns_count result \<noteq> 14
        then False
        else HelperBaselineResponseValid cast
               (without_keys result [''state'', ''daemon_pid'', ''control_allowed'']) \<and>
             is_equal state (words ''system_at_start'') = bool_value (at_key result ''baseline''))"

section \<open>The supervisor\<close>

definition SupervisorUInt :: "c_cast \<Rightarrow> ns_object option \<Rightarrow> int \<Rightarrow> bool" where
  "SupervisorUInt cast value maximum \<longleftrightarrow>
     is_number value \<and> \<not> is_boolean value \<and> isfinite (double_value value) \<and>
     Fin 0 \<le> double_value value \<and> value_as cast UInt64 value \<le> maximum \<and>
     is_equal value (number (value_as cast UInt64 value))"

definition SupervisorBool :: "ns_object option \<Rightarrow> bool" where
  "SupervisorBool value \<longleftrightarrow> is_number value \<and> is_boolean value"

definition INT_MAX32 :: int where "INT_MAX32 = 2 ^ 31 - 1"
definition UINT64_MAX_INT :: int where "UINT64_MAX_INT = 2 ^ 64 - 1"

definition HelperSupervisorCrashMarkerValid :: "c_cast \<Rightarrow> ns_object option \<Rightarrow> int \<Rightarrow> u64 \<Rightarrow> bool" where
  "HelperSupervisorCrashMarkerValid cast marker runner now \<longleftrightarrow>
     is_dictionary marker \<and> ns_count marker = 5 \<and> 0 < runner \<and>
     SupervisorUInt cast (at_key marker ''runner_pid'') INT_MAX32 \<and>
     value_as cast Int32 (at_key marker ''runner_pid'') = runner \<and>
     SupervisorUInt cast (at_key marker ''runner_uid'') 0 \<and>
     SupervisorUInt cast (at_key marker ''observer_pid'') INT_MAX32 \<and>
     0 < value_as cast Int32 (at_key marker ''observer_pid'') \<and>
     value_as cast Int32 (at_key marker ''observer_pid'') \<noteq> runner \<and>
     SupervisorBool (at_key marker ''journal_pending'') \<and> bool_value (at_key marker ''journal_pending'') \<and>
     SupervisorUInt cast (at_key marker ''armed_monotonic_ns'') UINT64_MAX_INT \<and>
     (let armed = word_of_int (value_as cast UInt64 (at_key marker ''armed_monotonic_ns'')) :: u64
      in 0 < armed \<and> armed \<le> now \<and> now - armed \<le> 2000000000)"

definition report_pids :: "string list" where
  "report_pids = [''admission_pid'', ''operation_pid'', ''recovery_pid'', ''observer_pid'']"

definition recovery_only_pids :: "string list" where
  "recovery_only_pids = [''admission_pid'', ''operation_pid'']"

text \<open>The last loop: every child that must have run has a process id of its own.\<close>

primrec pids_distinct :: "c_cast \<Rightarrow> ns_object option \<Rightarrow> bool \<Rightarrow> ns_object option list \<Rightarrow> string list \<Rightarrow> bool" where
  "pids_distinct cast report resumed seen [] = True"
| "pids_distinct cast report resumed seen (key # keys) =
     (if resumed \<and> key \<in> set recovery_only_pids then pids_distinct cast report resumed seen keys
      else if value_as cast Int32 (at_key report key) = 0 \<or> list_ex (is_equal (at_key report key)) seen then False
      else pids_distinct cast report resumed (at_key report key # seen) keys)"

definition report_fields_valid :: "c_cast \<Rightarrow> ns_object option \<Rightarrow> bool" where
  "report_fields_valid cast report \<longleftrightarrow>
     is_dictionary report \<and> ns_count report = 14 \<and> is_string (at_key report ''state'') \<and>
     SupervisorUInt cast (at_key report ''runner_uid'') 0 \<and>
     SupervisorUInt cast (at_key report ''runner_pid'') INT_MAX32 \<and>
     value_as cast Int32 (at_key report ''runner_pid'') \<noteq> 0 \<and>
     SupervisorBool (at_key report ''resumed'') \<and> SupervisorBool (at_key report ''journal_clear'') \<and>
     list_all (\<lambda>key. SupervisorUInt cast (at_key report key) INT_MAX32) report_pids \<and>
     list_all (\<lambda>key. SupervisorUInt cast (at_key report key) 61) [''admission_samples'', ''recovery_samples''] \<and>
     list_all (\<lambda>key. SupervisorUInt cast (at_key report key) 75000000000)
       [''admission_duration_ns'', ''recovery_duration_ns''] \<and>
     SupervisorUInt cast (at_key report ''reaped'') 4"

definition HelperSupervisorReportValid :: "c_cast \<Rightarrow> ns_object option \<Rightarrow> bool" where
  "HelperSupervisorReportValid cast report \<longleftrightarrow> report_fields_valid cast report \<and>
     (let state = at_key report ''state'';
          clear = bool_value (at_key report ''journal_clear'');
          resumed = bool_value (at_key report ''resumed'')
      in if is_equal state (words ''blocked'') \<or> is_equal state (words ''pending'')
         then clear = is_equal state (words ''blocked'') \<and>
              value_as cast Int32 (at_key report ''recovery_samples'') = 0 \<and>
              value_as cast UInt64 (at_key report ''recovery_duration_ns'') = 0
         else is_equal state (words ''verified'') \<and> clear \<and>
              value_as cast Int32 (at_key report ''recovery_samples'') = 61 \<and>
              60000000000 \<le> value_as cast UInt64 (at_key report ''recovery_duration_ns'') \<and>
              (if resumed
               then value_as cast Int32 (at_key report ''admission_pid'') = 0 \<and>
                    value_as cast Int32 (at_key report ''operation_pid'') = 0 \<and>
                    value_as cast Int32 (at_key report ''admission_samples'') = 0 \<and>
                    value_as cast UInt64 (at_key report ''admission_duration_ns'') = 0 \<and>
                    value_as cast Int32 (at_key report ''reaped'') = 2
               else value_as cast Int32 (at_key report ''admission_samples'') = 61 \<and>
                    60000000000 \<le> value_as cast UInt64 (at_key report ''admission_duration_ns'') \<and>
                    value_as cast Int32 (at_key report ''reaped'') = 4) \<and>
              pids_distinct cast report resumed [at_key report ''runner_pid''] report_pids)"

definition failure_reasons :: "string list" where
  "failure_reasons = [''permission'', ''signature'', ''launch'', ''exit'', ''contract'', ''output'',
     ''owner_lost'', ''busy'']"

definition HelperSupervisorResponseValid :: "c_cast \<Rightarrow> ns_object option \<Rightarrow> bool" where
  "HelperSupervisorResponseValid cast response \<longleftrightarrow>
     is_dictionary response \<and> protocol_current response \<and>
     is_equal (at_key response ''backend'') (words ''read_only'') \<and>
     SupervisorBool (at_key response ''write_available'') \<and>
     \<not> bool_value (at_key response ''write_available'') \<and>
     SupervisorUInt cast (at_key response ''daemon_pid'') INT_MAX32 \<and>
     value_as cast Int32 (at_key response ''daemon_pid'') \<noteq> 0 \<and>
     SupervisorUInt cast (at_key response ''runner_pid'') INT_MAX32 \<and>
     is_string (at_key response ''state'') \<and>
     (let state = at_key response ''state'' in
        if is_equal state (words ''interrupted'')
        then let crash = at_key response ''crash'' in
          ns_count response = 7 \<and> 0 < value_as cast Int32 (at_key response ''runner_pid'') \<and>
          is_dictionary crash \<and> ns_count crash = 3 \<and>
          SupervisorUInt cast (at_key crash ''observer_pid'') INT_MAX32 \<and>
          0 < value_as cast Int32 (at_key crash ''observer_pid'') \<and>
          \<not> is_equal (at_key crash ''observer_pid'') (at_key response ''runner_pid'') \<and>
          \<not> is_equal (at_key crash ''observer_pid'') (at_key response ''daemon_pid'') \<and>
          SupervisorBool (at_key crash ''journal_pending'') \<and> bool_value (at_key crash ''journal_pending'') \<and>
          SupervisorUInt cast (at_key crash ''loss_duration_ns'') 2000000000
        else if is_equal state (words ''finished'')
        then ns_count response = 7 \<and> HelperSupervisorReportValid cast (at_key response ''report'') \<and>
             is_equal (at_key response ''runner_pid'') (at_key (at_key response ''report'') ''runner_pid'')
        else if is_equal state (words ''failed'')
        then ns_count response = 7 \<and>
             list_ex (\<lambda>reason. is_equal (at_key response ''reason'') (words reason)) failure_reasons
        else if is_equal state (words ''running'')
        then ns_count response = 6 \<and> 0 < value_as cast Int32 (at_key response ''runner_pid'')
        else ns_count response = 6 \<and> (is_equal state (words ''idle'') \<or> is_equal state (words ''cleaned'')))"

definition HelperSupervisorSameRunValid :: "c_cast \<Rightarrow> ns_object option \<Rightarrow> ns_object option \<Rightarrow> bool" where
  "HelperSupervisorSameRunValid cast started response \<longleftrightarrow>
     HelperSupervisorResponseValid cast started \<and> HelperSupervisorResponseValid cast response \<and>
     is_equal (at_key started ''daemon_pid'') (at_key response ''daemon_pid'') \<and>
     is_equal (at_key started ''runner_pid'') (at_key response ''runner_pid'')"

end
