(* ===== verification/DaemonReplies.thy ===== *)
theory DaemonReplies
  imports HelperValidation BaselineWatch
begin

text \<open>
  The daemon's replies on the fans and the temperatures: the snapshot in a reply
  (\<open>daemon-status.m\<close>, \<open>StartupAuditController.m\<close>), the watch controller with its timers
  (\<open>BaselineWatchController.m\<close>), and what the client's validation makes of them.
\<close>

section \<open>Replies\<close>

definition ns_int :: "int \<Rightarrow> ns_object" where "ns_int i = NSNumber (NSInt i)"
definition ns_bool :: "bool \<Rightarrow> ns_object" where "ns_bool b = NSNumber (NSBool b)"
definition ns_double :: "double \<Rightarrow> ns_object" where "ns_double x = NSNumber (NSDouble x)"

definition snapshot_entries :: "smc_baseline_snapshot \<Rightarrow> (string \<times> ns_object) list" where
  "snapshot_entries snap =
     [(''baseline'', ns_bool (smc_baseline_is_system (Some snap))),
      (''Ftst'', ns_int (uint (snap_ftst snap))),
      (''mode'', NSArray (map (\<lambda>fan. ns_int (uint (snap_mode snap fan))) [0..<2])),
      (''target_rpm'', NSArray (map (\<lambda>fan. ns_double (snap_target_rpm snap fan)) [0..<2])),
      (''actual_rpm'', NSArray (map (\<lambda>fan. ns_double (snap_actual_rpm snap fan)) [0..<2])),
      (''temperatures_c'',
        NSArray (map (\<lambda>sensor. HelperTemperatureValue (snap_temperatures_c snap sensor)) [0..<3]))]"

definition protocol_entry :: "string \<times> ns_object" where
  "protocol_entry = (''protocol_version'', ns_int HelperStatusProtocolVersion)"

text \<open>\<open>fetchBaselineWithReply:\<close>; \<open>sampled_ns\<close> is the clock, when it answers.\<close>

definition baseline_reply ::
  "smc_baseline_result \<Rightarrow> smc_baseline_snapshot \<Rightarrow> u64 option \<Rightarrow> ns_object option" where
  "baseline_reply result snap sampled_ns = Some (NSDictionary (
     if result \<noteq> SMC_BASELINE_OK
     then [protocol_entry, (''available'', ns_bool False),
           (''reason'', NSString (smc_baseline_result_name result))]
     else case sampled_ns of
       None \<Rightarrow> [protocol_entry, (''available'', ns_bool False), (''reason'', NSString ''clock_failed'')]
     | Some now \<Rightarrow>
         [protocol_entry, (''available'', ns_bool True), (''model'', NSString ''Mac15,7''),
          (''macos'', NSString ''27.0''), (''sample_monotonic_ns'', ns_int (uint now))] @
         snapshot_entries snap))"

text \<open>\<open>initWithReader:\<close> of the startup audit; \<open>sampled_ns\<close> is 0 when the clock fails.\<close>

definition audit_reply ::
  "int \<Rightarrow> smc_baseline_result \<Rightarrow> smc_baseline_snapshot \<Rightarrow> u64 \<Rightarrow> ns_object option" where
  "audit_reply pid read_result snap sampled_ns =
     (let result = (if sampled_ns = 0 then SMC_BASELINE_UNEXPECTED_FORMAT else read_result)
      in Some (NSDictionary (
           [protocol_entry, (''daemon_pid'', ns_int pid), (''control_allowed'', ns_bool False)] @
           (if result \<noteq> SMC_BASELINE_OK
            then [(''state'', NSString ''read_failed''), (''available'', ns_bool False),
                  (''reason'', NSString (smc_baseline_result_name result))]
            else [(''state'', NSString (if smc_baseline_is_system (Some snap)
                                        then ''system_at_start'' else ''changed_at_start'')),
                  (''available'', ns_bool True), (''model'', NSString ''Mac15,7''),
                  (''macos'', NSString ''27.0''), (''sample_monotonic_ns'', ns_int (uint sampled_ns))] @
                 snapshot_entries snap))))"

section \<open>The watch controller\<close>

record watch_controller =
  watched :: baseline_watch
  generation :: u64
  started_at :: u64
  last_sample_at :: u64
  scheduled :: "(u32 \<times> u64) list"

definition new_controller :: watch_controller where
  "new_controller = \<lparr>watched = zero_watch, generation = 0, started_at = 0, last_sample_at = 0, scheduled = []\<rparr>"

text \<open>A sample: the reader's result and snapshot, the monotonic time (0 when the clock fails) and the
  continuous time.\<close>

type_synonym sample = "smc_baseline_result \<times> smc_baseline_snapshot \<times> u64 \<times> u64"

definition sample_result :: "sample \<Rightarrow> smc_baseline_result" where
  "sample_result s = (case s of (result, snap, sampled_at, continuous_at) \<Rightarrow>
     if sampled_at = 0 then SMC_BASELINE_UNEXPECTED_FORMAT else result)"

definition schedule_second :: "u32 \<Rightarrow> u64 \<Rightarrow> watch_controller \<Rightarrow> watch_controller" where
  "schedule_second second gen c = c\<lparr>scheduled := (second, gen) # scheduled c\<rparr>"

text \<open>The block that a timer runs; the timer is no longer scheduled then.\<close>

definition run_timer :: "u32 \<times> u64 \<Rightarrow> sample \<Rightarrow> watch_controller \<Rightarrow> watch_controller" where
  "run_timer timer sample c = (case (timer, sample) of ((second, gen), (result, snap, sampled_at, continuous_at)) \<Rightarrow>
     if generation c \<noteq> gen \<or> watch_status (watched c) \<noteq> BASELINE_WATCH_RUNNING then c
     else let watch = the (baseline_watch_next (Some (watched c)) second (sample_result sample) (Some snap)
                             continuous_at);
              c = c\<lparr>watched := watch, last_sample_at := sampled_at\<rparr>
          in if watch_status watch = BASELINE_WATCH_RUNNING then schedule_second (second + 1) gen c else c)"

definition start_watch :: "sample \<Rightarrow> watch_controller \<Rightarrow> watch_controller" where
  "start_watch sample c = (case sample of (result, snap, sampled_at, continuous_at) \<Rightarrow>
     if watch_status (watched c) = BASELINE_WATCH_RUNNING \<or>
        watch_status (watched c) = BASELINE_WATCH_CHANGED \<or>
        watch_status (watched c) = BASELINE_WATCH_READ_FAILED then c
     else let watch = the (baseline_watch_begin (Some (watched c)) (sample_result sample) (Some snap)
                             continuous_at);
              c = c\<lparr>watched := watch, generation := generation c + 1, started_at := sampled_at,
                    last_sample_at := sampled_at\<rparr>
          in if watch_status watch = BASELINE_WATCH_RUNNING
             then schedule_second 1 (generation c) c else c)"

definition status_locked :: "int \<Rightarrow> watch_controller \<Rightarrow> ns_object option" where
  "status_locked pid c = (let watch = watched c in Some (NSDictionary (
     [protocol_entry, (''state'', NSString (baseline_watch_status_name (watch_status watch))),
      (''samples'', ns_int (uint (watch_samples watch))),
      (''last_second'', ns_int (uint (watch_last_second watch))), (''daemon_pid'', ns_int pid),
      (''started_monotonic_ns'', ns_int (uint (started_at c))),
      (''last_sample_monotonic_ns'', ns_int (uint (last_sample_at c)))] @
     (if watch_status watch = BASELINE_WATCH_READ_FAILED
      then [(''reason'', NSString (if timing_failed watch then ''sample_gap''
               else smc_baseline_result_name (last_read_result watch)))]
      else []) @
     (if 0 < watch_samples watch \<and> watch_status watch \<noteq> BASELINE_WATCH_READ_FAILED
      then snapshot_entries (latest watch) else []))))"

text \<open>What the reader can deliver, and the steps of the daemon: a client starts the watch, or a timer that
  is due runs.\<close>

definition delivered :: "'d smc_driver \<Rightarrow> sample \<Rightarrow> bool" where
  "delivered d s \<longleftrightarrow> (\<exists>w w'. run_state (smc_baseline_read d (Some zero_snapshot)) w =
     ((fst s, Some (fst (snd s))), w'))"

inductive controller_step :: "'d smc_driver \<Rightarrow> watch_controller \<Rightarrow> watch_controller \<Rightarrow> bool" where
  start: "delivered d s \<Longrightarrow> controller_step d c (start_watch s c)"
| timer: "scheduled c = before @ t # after \<Longrightarrow> delivered d s \<Longrightarrow>
    controller_step d c (run_timer t s (c\<lparr>scheduled := before @ after\<rparr>))"

inductive controller_reachable :: "'d smc_driver \<Rightarrow> watch_controller \<Rightarrow> bool" where
  init: "controller_reachable d new_controller"
| step: "controller_reachable d c \<Longrightarrow> controller_step d c c' \<Longrightarrow> controller_reachable d c'"

inductive_cases controller_stepE: "controller_step d c c'"

section \<open>Invariants\<close>

definition watch_sound :: "baseline_watch \<Rightarrow> bool" where
  "watch_sound w \<longleftrightarrow> (case watch_status w of
       BASELINE_WATCH_IDLE \<Rightarrow> watch_samples w = 0 \<and> watch_last_second w = 0
     | BASELINE_WATCH_READ_FAILED \<Rightarrow> watch_samples w \<le> 60 \<and> watch_last_second w \<le> 59
     | BASELINE_WATCH_RUNNING \<Rightarrow> watch_last_second w \<le> 59 \<and> watch_samples w = watch_last_second w + 1 \<and>
         smc_baseline_is_system (Some (latest w)) \<and> snapshot_valid (latest w)
     | BASELINE_WATCH_STABLE \<Rightarrow> watch_last_second w = 60 \<and> watch_samples w = 61 \<and>
         smc_baseline_is_system (Some (latest w)) \<and> snapshot_valid (latest w)
     | BASELINE_WATCH_CHANGED \<Rightarrow> watch_last_second w \<le> 60 \<and> watch_samples w = watch_last_second w + 1 \<and>
         \<not> smc_baseline_is_system (Some (latest w)) \<and> snapshot_valid (latest w))"

text \<open>A running watch has one timer, for the next second; another has none.\<close>

definition timers_sound :: "watch_controller \<Rightarrow> bool" where
  "timers_sound c \<longleftrightarrow> scheduled c =
     (if watch_status (watched c) = BASELINE_WATCH_RUNNING
      then [(watch_last_second (watched c) + 1, generation c)] else [])"

lemma delivered_valid:
  assumes "delivered d s" "fst s = SMC_BASELINE_OK"
  shows "snapshot_valid (fst (snd s))"
proof -
  obtain w w' where "run_state (smc_baseline_read d (Some zero_snapshot)) w =
      ((SMC_BASELINE_OK, Some (fst (snd s))), w')"
    using assms by (auto simp: delivered_def)
  with baseline_delivers[of d zero_snapshot w] show ?thesis by simp
qed

lemma begin_sound:
  assumes "result = SMC_BASELINE_OK \<longrightarrow> snapshot_valid snap"
  shows "watch_sound (the (baseline_watch_begin (Some w) result (Some snap) t))"
  using assms by (simp add: baseline_watch_begin_def watch_sound_def zero_watch_def Let_def)

lemma second_bounds:
  fixes k :: u32
  shows "k \<le> 59 \<Longrightarrow> k + 1 \<le> 60" "k \<le> 59 \<Longrightarrow> k + 1 \<noteq> 60 \<Longrightarrow> k + 1 \<le> 59"
    "k \<le> 59 \<Longrightarrow> k + 1 = 60 \<Longrightarrow> k + 1 + 1 = 61"
  by (simp_all add: word_le_nat_alt word_unat_eq_iff unat_word_ariths)

lemma next_sound:
  assumes "watch_sound w" "result = SMC_BASELINE_OK \<longrightarrow> snapshot_valid snap"
  shows "watch_sound (the (baseline_watch_next (Some w) second result (Some snap) t))"
proof (cases "watch_status w = BASELINE_WATCH_RUNNING")
  case True
  then have w: "watch_last_second w \<le> 59" "watch_samples w = watch_last_second w + 1"
    using assms(1) by (simp_all add: watch_sound_def)
  then have failed: "watch_samples w \<le> 60" using second_bounds(1) by simp
  show ?thesis
    using w True assms(2) failed second_bounds[of "watch_last_second w"]
    by (auto simp: baseline_watch_next_def watch_sound_def watch_constants Let_def)
next
  case False
  then show ?thesis using assms(1) by (simp add: next_idle)
qed

lemma timer_next:
  assumes "watch_status w = BASELINE_WATCH_RUNNING"
    and "watch_status (the (baseline_watch_next (Some w) second result (Some snap) t)) = BASELINE_WATCH_RUNNING"
  shows "watch_last_second (the (baseline_watch_next (Some w) second result (Some snap) t)) = second"
  using assms by (auto simp: baseline_watch_next_def Let_def split: if_splits)

lemma begin_second:
  "watch_last_second (the (baseline_watch_begin (Some w) result (Some snap) t)) = 0"
  by (simp add: baseline_watch_begin_def zero_watch_def Let_def)

definition controller_sound :: "watch_controller \<Rightarrow> bool" where
  "controller_sound c \<longleftrightarrow> watch_sound (watched c) \<and> timers_sound c"

lemma start_sound:
  assumes "controller_sound c" "delivered d s"
  shows "controller_sound (start_watch s c)"
proof -
  obtain result snap sampled_at continuous_at where s: "s = (result, snap, sampled_at, continuous_at)"
    by (cases s) auto
  let ?w = "the (baseline_watch_begin (Some (watched c)) (sample_result s) (Some snap) continuous_at)"
  have "sample_result s = SMC_BASELINE_OK \<longrightarrow> snapshot_valid snap"
    using delivered_valid[OF assms(2)] by (simp add: s sample_result_def)
  then have "watch_sound ?w" by (rule begin_sound)
  moreover have "watch_last_second ?w = 0" by (rule begin_second)
  ultimately show ?thesis
    using assms(1)
    by (auto simp: start_watch_def s controller_sound_def timers_sound_def schedule_second_def Let_def)
qed

lemma timer_sound:
  assumes "controller_sound c" "scheduled c = before @ t # after" "delivered d s"
  shows "controller_sound (run_timer t s (c\<lparr>scheduled := before @ after\<rparr>))"
proof -
  obtain result snap sampled_at continuous_at where s: "s = (result, snap, sampled_at, continuous_at)"
    by (cases s) auto
  have running: "watch_status (watched c) = BASELINE_WATCH_RUNNING" and empty: "before = []" "after = []"
    and t: "t = (watch_last_second (watched c) + 1, generation c)"
    using assms(1,2) by (auto simp: controller_sound_def timers_sound_def append_eq_Cons_conv split: if_splits)
  let ?w = "the (baseline_watch_next (Some (watched c)) (fst t) (sample_result s) (Some snap) continuous_at)"
  have "sample_result s = SMC_BASELINE_OK \<longrightarrow> snapshot_valid snap"
    using delivered_valid[OF assms(3)] by (simp add: s sample_result_def)
  then have "watch_sound ?w"
    using assms(1) by (intro next_sound) (simp_all add: controller_sound_def)
  moreover have "watch_last_second ?w = fst t" if "watch_status ?w = BASELINE_WATCH_RUNNING"
    by (rule timer_next[OF running that])
  ultimately show ?thesis
    using running by (simp add: run_timer_def s t empty controller_sound_def timers_sound_def
        schedule_second_def Let_def)
qed

lemma reachable_sound: "controller_reachable d c \<Longrightarrow> controller_sound c"
proof (induction rule: controller_reachable.induct)
  case init
  show ?case
    by (simp add: new_controller_def controller_sound_def watch_sound_def timers_sound_def zero_watch_def)
next
  case (step d c c')
  then show ?case by (auto elim!: controller_stepE intro: start_sound timer_sound)
qed

section \<open>The client's view of a snapshot\<close>

text \<open>The reader delivers any finite speeds; the client accepts none below 0.\<close>

definition speeds_shown :: "smc_baseline_snapshot \<Rightarrow> bool" where
  "speeds_shown snap \<longleftrightarrow> list_all (\<lambda>fan. \<not> snap_target_rpm snap fan < Fin 0 \<and> \<not> snap_actual_rpm snap fan < Fin 0) [0..<2]"

lemma upt_fans: "[0..<2] = [0, 1 :: nat]" "[0..<3] = [0, 1, 2 :: nat]"
  by (simp_all add: upt_rec)

lemma temperature_valid:
  "HelperTemperatureValueValid (HelperTemperatureValue x)"
  by (simp add: HelperTemperatureValueValid_def HelperTemperatureValue_def ns_simps)

lemma snapshot_reply:
  assumes "snapshot_valid snap"
    and "\<And>k. k \<in> {''baseline'', ''Ftst'', ''mode'', ''target_rpm'', ''actual_rpm'', ''temperatures_c''} \<Longrightarrow>
      map_of ms k = map_of (snapshot_entries snap) k"
  shows "snapshot_fields_valid cast (Some (NSDictionary ms)) = speeds_shown snap"
    and "reply_baseline cast (Some (NSDictionary ms)) = smc_baseline_is_system (Some snap)"
    and "at_key (Some (NSDictionary ms)) ''baseline'' = boolean (smc_baseline_is_system (Some snap))"
    and "is_number (at_key (Some (NSDictionary ms)) ''Ftst'')"
proof -
  note entries = snapshot_entries_def ns_int_def ns_bool_def ns_double_def
  have known: "map_of ms ''baseline'' = boolean (smc_baseline_is_system (Some snap))"
    "map_of ms ''Ftst'' = number (uint (snap_ftst snap))"
    "map_of ms ''mode'' = Some (NSArray [ns_int (uint (snap_mode snap 0)), ns_int (uint (snap_mode snap 1))])"
    "map_of ms ''target_rpm'' =
       Some (NSArray [ns_double (snap_target_rpm snap 0), ns_double (snap_target_rpm snap 1)])"
    "map_of ms ''actual_rpm'' =
       Some (NSArray [ns_double (snap_actual_rpm snap 0), ns_double (snap_actual_rpm snap 1)])"
    "map_of ms ''temperatures_c'' =
       Some (NSArray (map (\<lambda>sensor. HelperTemperatureValue (snap_temperatures_c snap sensor)) [0..<3]))"
    by (simp_all add: assms(2) entries upt_fans)
  have finite: "isfinite (snap_target_rpm snap 0)" "isfinite (snap_target_rpm snap 1)"
      "isfinite (snap_actual_rpm snap 0)" "isfinite (snap_actual_rpm snap 1)"
    using assms(1) by (simp_all add: snapshot_valid_def)
  show "snapshot_fields_valid cast (Some (NSDictionary ms)) = speeds_shown snap"
    using finite
    by (simp add: snapshot_fields_valid_def known entries numbers_array_def ns_simps upt_fans
        fan_numbers_valid_def temperature_valid speeds_shown_def Let_def)
  have same: "uint b = 0 \<longleftrightarrow> b = 0" "uint b = 3 \<longleftrightarrow> b = 3" for b :: u8
    by (simp_all add: word_uint_eq_iff)
  have within: "\<bar>x\<bar> \<le> Fin 1 \<longleftrightarrow> \<not> Fin 1 < \<bar>x\<bar>" if "isfinite x" for x
    using that by (simp add: less_eq_finite less_finite not_less)
  show "reply_baseline cast (Some (NSDictionary ms)) = smc_baseline_is_system (Some snap)"
    using finite
    by (simp add: reply_baseline_def known entries ns_simps upt_fans fan_at_baseline_def same within
        smc_baseline_is_system_def del: number_as.simps)
  show "at_key (Some (NSDictionary ms)) ''baseline'' = boolean (smc_baseline_is_system (Some snap))"
    "is_number (at_key (Some (NSDictionary ms)) ''Ftst'')"
    by (simp_all add: known ns_simps)
qed

definition snapshot_keys :: "string list" where
  "snapshot_keys = [''baseline'', ''Ftst'', ''mode'', ''target_rpm'', ''actual_rpm'', ''temperatures_c'']"

lemma snapshot_appended:
  assumes "snapshot_valid snap" and "list_all (\<lambda>(k, v). k \<notin> set snapshot_keys) header"
  shows "snapshot_fields_valid cast (Some (NSDictionary (header @ snapshot_entries snap))) = speeds_shown snap"
    and "reply_baseline cast (Some (NSDictionary (header @ snapshot_entries snap))) =
      smc_baseline_is_system (Some snap)"
    and "at_key (Some (NSDictionary (header @ snapshot_entries snap))) ''baseline'' =
      boolean (smc_baseline_is_system (Some snap))"
    and "is_number (at_key (Some (NSDictionary (header @ snapshot_entries snap))) ''Ftst'')"
proof -
  have "map_of (header @ snapshot_entries snap) k = map_of (snapshot_entries snap) k"
    if "k \<in> {''baseline'', ''Ftst'', ''mode'', ''target_rpm'', ''actual_rpm'', ''temperatures_c''}" for k
  proof -
    have "k \<notin> fst ` set header"
      using assms(2) that by (auto simp: list_all_iff snapshot_keys_def)
    then have "map_of header k = None" by (simp add: map_of_eq_None_iff)
    then show ?thesis by (simp add: map_add_def split: option.split)
  qed
  note reply = snapshot_reply[OF assms(1) this]
  show "snapshot_fields_valid cast (Some (NSDictionary (header @ snapshot_entries snap))) = speeds_shown snap"
    "reply_baseline cast (Some (NSDictionary (header @ snapshot_entries snap))) = smc_baseline_is_system (Some snap)"
    "at_key (Some (NSDictionary (header @ snapshot_entries snap))) ''baseline'' =
      boolean (smc_baseline_is_system (Some snap))"
    "is_number (at_key (Some (NSDictionary (header @ snapshot_entries snap))) ''Ftst'')"
    by (rule reply; simp)+
qed

lemma at_header: "at_key (Some (NSDictionary ((k, v) # ms))) key =
    (if k = key then Some v else at_key (Some (NSDictionary ms)) key)"
  by (simp add: ns_simps)

section \<open>Replies and their validation\<close>

lemma status_names [simp]:
  "(baseline_watch_status_name st = ''idle'') = (st = BASELINE_WATCH_IDLE)"
  "(baseline_watch_status_name st = ''read_failed'') = (st = BASELINE_WATCH_READ_FAILED)"
  "(baseline_watch_status_name st = ''running'') = (st = BASELINE_WATCH_RUNNING)"
  "(baseline_watch_status_name st = ''stable'') = (st = BASELINE_WATCH_STABLE)"
  "(baseline_watch_status_name st = ''changed'') = (st = BASELINE_WATCH_CHANGED)"
  by (cases st; simp)+

definition watch_shown :: "baseline_watch \<Rightarrow> bool" where
  "watch_shown w \<longleftrightarrow> watch_status w \<noteq> BASELINE_WATCH_IDLE \<and> watch_status w \<noteq> BASELINE_WATCH_READ_FAILED"

lemma samples_positive:
  assumes "watch_sound w"
  shows "0 < watch_samples w \<and> watch_status w \<noteq> BASELINE_WATCH_READ_FAILED \<longleftrightarrow> watch_shown w"
proof -
  have "k + 1 \<noteq> 0" if "k \<le> 60" for k :: u32
    using that by (simp add: word_le_nat_alt word_unat_eq_iff unat_word_ariths)
  moreover have "k \<le> 60" if "k \<le> 59" for k :: u32 using that by (simp add: word_le_nat_alt)
  ultimately show ?thesis
    using assms by (auto simp: watch_sound_def watch_shown_def word_gt_0 split: baseline_watch_status.splits)
qed

lemma watch_reply:
  assumes sound: "watch_sound (watched c)"
  shows "HelperWatchResponseValid cast (status_locked pid c) =
    (0 < cut_to Int32 pid \<and> (watch_shown (watched c) \<longrightarrow> speeds_shown (latest (watched c))))"
proof -
  let ?w = "watched c"
  let ?header = "[protocol_entry, (''state'', NSString (baseline_watch_status_name (watch_status ?w))),
      (''samples'', ns_int (uint (watch_samples ?w))),
      (''last_second'', ns_int (uint (watch_last_second ?w))), (''daemon_pid'', ns_int pid),
      (''started_monotonic_ns'', ns_int (uint (started_at c))),
      (''last_sample_monotonic_ns'', ns_int (uint (last_sample_at c)))]"
  have keys: "at_key (Some (NSDictionary (?header @ ms))) ''protocol_version'' = number HelperStatusProtocolVersion"
    "at_key (Some (NSDictionary (?header @ ms))) ''state'' = words (baseline_watch_status_name (watch_status ?w))"
    "at_key (Some (NSDictionary (?header @ ms))) ''samples'' = number (uint (watch_samples ?w))"
    "at_key (Some (NSDictionary (?header @ ms))) ''last_second'' = number (uint (watch_last_second ?w))"
    "at_key (Some (NSDictionary (?header @ ms))) ''daemon_pid'' = number pid"
    "at_key (Some (NSDictionary (?header @ ms))) ''started_monotonic_ns'' = number (uint (started_at c))"
    "at_key (Some (NSDictionary (?header @ ms))) ''last_sample_monotonic_ns'' = number (uint (last_sample_at c))"
    for ms
    by (simp_all add: at_header protocol_entry_def ns_int_def)
  have reason: "at_key (Some (NSDictionary (?header @ [(''reason'', v)]))) ''reason'' = Some v" for v
    by (simp add: at_header protocol_entry_def)
  have size: "ns_count (Some (NSDictionary (?header @ ms))) = 7 + length ms" for ms by (simp add: ns_simps)
  have entries: "length (snapshot_entries snap) = 6" for snap by (simp add: snapshot_entries_def)
  note known = keys reason size class_simps equal_simps protocol_current_def entries
  have shown: "HelperWatchResponseValid cast (status_locked pid c) =
      (0 < cut_to Int32 pid \<and> speeds_shown (latest ?w))" if "watch_shown ?w"
  proof -
    have reply: "status_locked pid c = Some (NSDictionary (?header @ snapshot_entries (latest ?w)))"
      using that samples_positive[OF sound] by (simp add: status_locked_def watch_shown_def Let_def)
    have valid: "snapshot_valid (latest ?w)"
      and count: "watch_samples ?w = watch_last_second ?w + 1" "watch_last_second ?w \<le> 60"
      using that sound by (auto simp: watch_sound_def watch_shown_def word_le_nat_alt split: baseline_watch_status.splits)
    have last: "uint (watch_last_second ?w) \<le> 60" using count(2) by (simp add: word_le_def)
    then have samples: "uint (watch_samples ?w) = uint (watch_last_second ?w) + 1"
      by (simp add: count(1) uint_word_ariths)
    have fresh: "list_all (\<lambda>(k, v). k \<notin> set snapshot_keys) ?header"
      by (simp add: protocol_entry_def snapshot_keys_def)
    note parts = snapshot_appended[OF valid fresh]
    have nonneg: "0 \<le> uint (watch_last_second ?w)" by simp
    have numbers: "number_as cast UInt32 (NSInt (uint (watch_samples ?w))) = uint (watch_last_second ?w) + 1"
        "number_as cast UInt32 (NSInt (uint (watch_last_second ?w))) = uint (watch_last_second ?w)"
        "number_as cast Int32 (NSInt pid) = cut_to Int32 pid"
        "uint (watch_last_second ?w) mod 2 ^ 32 = uint (watch_last_second ?w)"
      using last nonneg by (auto simp: samples cut_to_def mod_pos_pos_trivial)
    have positive: "uint (watch_last_second ?w) + 1 \<noteq> 0" using nonneg by linarith
    show ?thesis
    proof (cases "watch_status ?w")
      case BASELINE_WATCH_RUNNING
      then have "smc_baseline_is_system (Some (latest ?w))" "uint (watch_last_second ?w) \<le> 59"
        using sound by (simp_all add: watch_sound_def word_le_def)
      with BASELINE_WATCH_RUNNING last nonneg show ?thesis
        unfolding reply HelperWatchResponseValid_def parts(1-3) eqTrueI[OF parts(4)] Let_def protocol_current_def keys size entries
        by (simp add: class_simps equal_simps numbers positive del: append_Cons number_as.simps)
    next
      case BASELINE_WATCH_STABLE
      then have "smc_baseline_is_system (Some (latest ?w))" "uint (watch_last_second ?w) = 60"
        using sound by (simp_all add: watch_sound_def)
      with BASELINE_WATCH_STABLE show ?thesis
        unfolding reply HelperWatchResponseValid_def parts(1-3) eqTrueI[OF parts(4)] Let_def protocol_current_def keys size entries
        by (simp add: in_range_def class_simps equal_simps numbers positive del: append_Cons number_as.simps)
    next
      case BASELINE_WATCH_CHANGED
      then have "\<not> smc_baseline_is_system (Some (latest ?w))" using sound by (simp add: watch_sound_def)
      with BASELINE_WATCH_CHANGED last nonneg show ?thesis
        unfolding reply HelperWatchResponseValid_def parts(1-3) eqTrueI[OF parts(4)] Let_def protocol_current_def keys size entries
        by (simp add: class_simps equal_simps numbers positive del: append_Cons number_as.simps)
    qed (use that in \<open>simp_all add: watch_shown_def\<close>)
  qed
  show ?thesis
  proof (cases "watch_status ?w")
    case BASELINE_WATCH_IDLE
    then have "status_locked pid c = Some (NSDictionary (?header @ []))" "watch_samples ?w = 0" "watch_last_second ?w = 0"
      using sound by (simp_all add: status_locked_def watch_sound_def Let_def)
    note reply = this
    show ?thesis
      unfolding reply(1) HelperWatchResponseValid_def Let_def protocol_current_def keys size
      using BASELINE_WATCH_IDLE reply(2,3)
      by (simp add: class_simps equal_simps watch_shown_def cut_to_def del: append_Cons append_Nil2)
  next
    case BASELINE_WATCH_READ_FAILED
    then obtain reason where reply: "status_locked pid c = Some (NSDictionary (?header @ [(''reason'', NSString reason)]))"
      and few: "watch_samples ?w \<le> 60" "watch_last_second ?w \<le> 59"
      using sound by (auto simp: status_locked_def watch_sound_def Let_def)
    have "uint (watch_samples ?w) \<le> 60" "uint (watch_last_second ?w) \<le> 59"
      using few by (simp_all add: word_le_def)
    then show ?thesis
      unfolding reply HelperWatchResponseValid_def Let_def protocol_current_def keys size reason
      using BASELINE_WATCH_READ_FAILED
      by (simp add: class_simps equal_simps watch_shown_def cut_to_id del: append_Cons)
  qed (use shown in \<open>auto simp: watch_shown_def\<close>)
qed

lemma baseline_reply_valid:
  assumes "result = SMC_BASELINE_OK \<longrightarrow> snapshot_valid snap"
  shows "HelperBaselineResponseValid cast (baseline_reply result snap sampled) =
    (result = SMC_BASELINE_OK \<and> sampled \<noteq> None \<and> sampled \<noteq> Some 0 \<and> speeds_shown snap)"
proof (cases "result = SMC_BASELINE_OK \<and> sampled \<noteq> None")
  case True
  then obtain now where now: "sampled = Some now" "result = SMC_BASELINE_OK" by auto
  let ?header = "[protocol_entry, (''available'', ns_bool True), (''model'', NSString ''Mac15,7''),
    (''macos'', NSString ''27.0''), (''sample_monotonic_ns'', ns_int (uint now))]"
  have reply: "baseline_reply result snap sampled = Some (NSDictionary (?header @ snapshot_entries snap))"
    by (simp add: baseline_reply_def now)
  have valid: "snapshot_valid snap" using assms now by simp
  have fresh: "list_all (\<lambda>(k, v). k \<notin> set snapshot_keys) ?header"
    by (simp add: protocol_entry_def snapshot_keys_def)
  have zero: "uint now = 0 \<longleftrightarrow> now = 0" by (simp add: word_uint_eq_iff)
  note parts = snapshot_appended[OF valid fresh]
  have keys: "at_key (Some (NSDictionary (?header @ ms))) ''protocol_version'' = number HelperStatusProtocolVersion"
    "at_key (Some (NSDictionary (?header @ ms))) ''available'' = boolean True"
    "at_key (Some (NSDictionary (?header @ ms))) ''model'' = words ''Mac15,7''"
    "at_key (Some (NSDictionary (?header @ ms))) ''macos'' = words ''27.0''"
    "at_key (Some (NSDictionary (?header @ ms))) ''sample_monotonic_ns'' = number (uint now)" for ms
    by (simp_all add: at_header protocol_entry_def ns_int_def ns_bool_def)
  have size: "ns_count (Some (NSDictionary (?header @ snapshot_entries snap))) = 11"
    by (simp add: ns_simps snapshot_entries_def)
  show ?thesis
    unfolding reply HelperBaselineResponseValid_def protocol_current_def parts(1-3) eqTrueI[OF parts(4)] keys size
    using now by (simp add: class_simps equal_simps zero del: number_as.simps append_Cons)
next
  case False
  then show ?thesis
    by (auto simp: baseline_reply_def HelperBaselineResponseValid_def ns_simps)
qed

lemma removed_keys:
  "without_keys (Some (NSDictionary ms)) keys = Some (NSDictionary (filter (\<lambda>(k, v). k \<notin> set keys) ms))"
  by (simp add: without_keys_def)

lemma entries_kept:
  "filter (\<lambda>(k, v). k \<notin> set [''state'', ''daemon_pid'', ''control_allowed'']) (snapshot_entries snap) =
   snapshot_entries snap"
  by (simp add: snapshot_entries_def)

text \<open>What remains of an audit without its own entries is a reply to the request for a snapshot.\<close>

lemma audit_remainder:
  assumes "sampled \<noteq> 0"
  shows "without_keys (audit_reply pid SMC_BASELINE_OK snap sampled)
      [''state'', ''daemon_pid'', ''control_allowed''] = baseline_reply SMC_BASELINE_OK snap (Some sampled)"
  using assms
  by (simp add: audit_reply_def baseline_reply_def removed_keys entries_kept[simplified] protocol_entry_def Let_def)

lemma audit_reply_valid:
  assumes "result = SMC_BASELINE_OK \<longrightarrow> snapshot_valid snap"
  shows "HelperStartupAuditResponseValid cast (audit_reply pid result snap sampled) =
    (0 < cut_to Int32 pid \<and> (result = SMC_BASELINE_OK \<and> sampled \<noteq> 0 \<longrightarrow> speeds_shown snap))"
proof (cases "result = SMC_BASELINE_OK \<and> sampled \<noteq> 0")
  case True
  let ?state = "if smc_baseline_is_system (Some snap) then ''system_at_start'' else ''changed_at_start''"
  let ?header = "[protocol_entry, (''daemon_pid'', ns_int pid), (''control_allowed'', ns_bool False),
    (''state'', NSString ?state), (''available'', ns_bool True), (''model'', NSString ''Mac15,7''),
    (''macos'', NSString ''27.0''), (''sample_monotonic_ns'', ns_int (uint sampled))]"
  have valid: "snapshot_valid snap" using assms True by simp
  have reply: "audit_reply pid result snap sampled = Some (NSDictionary (?header @ snapshot_entries snap))"
    using True by (simp add: audit_reply_def)
  have fresh: "list_all (\<lambda>(k, v). k \<notin> set snapshot_keys) ?header"
    by (simp add: protocol_entry_def snapshot_keys_def)
  have keys: "at_key (Some (NSDictionary (?header @ ms))) ''protocol_version'' = number HelperStatusProtocolVersion"
    "at_key (Some (NSDictionary (?header @ ms))) ''daemon_pid'' = number pid"
    "at_key (Some (NSDictionary (?header @ ms))) ''control_allowed'' = boolean False"
    "at_key (Some (NSDictionary (?header @ ms))) ''state'' = words ?state" for ms
    by (simp_all add: at_header protocol_entry_def ns_int_def ns_bool_def)
  have size: "ns_count (Some (NSDictionary (?header @ snapshot_entries snap))) = 14"
    by (simp add: ns_simps snapshot_entries_def)
  have rest: "HelperBaselineResponseValid cast (without_keys (Some (NSDictionary (?header @ snapshot_entries snap)))
      [''state'', ''daemon_pid'', ''control_allowed'']) = speeds_shown snap"
    using audit_remainder[of sampled pid snap] reply True baseline_reply_valid[of SMC_BASELINE_OK snap cast "Some sampled"]
      valid by simp
  show ?thesis
    unfolding reply HelperStartupAuditResponseValid_def Let_def protocol_current_def keys size rest
      snapshot_appended(3)[OF valid fresh]
    using True by (simp add: class_simps equal_simps del: append_Cons)
next
  case False
  then have failed: "(if sampled = 0 then SMC_BASELINE_UNEXPECTED_FORMAT else result) \<noteq> SMC_BASELINE_OK" by auto
  then show ?thesis
    using False
    by (cases "if sampled = 0 then SMC_BASELINE_UNEXPECTED_FORMAT else result")
      (auto simp: audit_reply_def HelperStartupAuditResponseValid_def protocol_current_def protocol_entry_def
        at_header ns_int_def ns_bool_def equal_simps class_simps read_failures_def Let_def)
qed

text \<open>C33: The timers of the watch and what it reports stay in step: in every reachable state a running
  watch has exactly one timer, for the next second and of the current generation, and another has none;
  and the samples and seconds it reports fit its state, which the last snapshot confirms.\<close>

theorem watch_in_step:
  assumes "controller_reachable d c"
  shows "timers_sound c \<and> watch_sound (watched c)"
  using reachable_sound[OF assms] by (simp add: controller_sound_def)

text \<open>C34: The client accepts every reply of the watch, in every reachable state, except one that shows a
  speed below 0, which the reader may deliver and the daemon passes on even as the system baseline.\<close>

theorem watch_replies_accepted:
  assumes "controller_reachable d c"
  shows "HelperWatchResponseValid cast (status_locked pid c) =
    (0 < cut_to Int32 pid \<and> (watch_shown (watched c) \<longrightarrow> speeds_shown (latest (watched c))))"
  using reachable_sound[OF assms] by (intro watch_reply) (simp add: controller_sound_def)

text \<open>C35: Of what the reader delivers the client accepts a snapshot as a reply exactly when the read
  succeeded, the clock answered and no speed is below 0; it accepts the startup audit of every failed
  read, and of a successful one exactly when no speed is below 0.\<close>

theorem snapshot_replies_accepted:
  "case run_state (smc_baseline_read d (Some zero_snapshot)) w of ((result, snapshot), w') \<Rightarrow>
     HelperBaselineResponseValid cast (baseline_reply result (the snapshot) sampled) =
       (result = SMC_BASELINE_OK \<and> sampled \<noteq> None \<and> sampled \<noteq> Some 0 \<and> speeds_shown (the snapshot)) \<and>
     HelperStartupAuditResponseValid cast (audit_reply pid result (the snapshot) now) =
       (0 < cut_to Int32 pid \<and>
        (if result = SMC_BASELINE_OK \<and> now \<noteq> 0 then speeds_shown (the snapshot) else True))"
proof -
  obtain result snapshot w' where run: "run_state (smc_baseline_read d (Some zero_snapshot)) w =
      ((result, snapshot), w')" by (metis surj_pair)
  then have "result = SMC_BASELINE_OK \<longrightarrow> snapshot_valid (the snapshot)"
    using baseline_delivers[of d zero_snapshot w] by (auto split: option.splits if_splits)
  with run show ?thesis by (auto simp: baseline_reply_valid audit_reply_valid)
qed

end
