(* ===== verification/ReplyExamples.thy ===== *)
theory ReplyExamples
  imports DaemonReplies
begin

text \<open>
  A controller on which the replies are tried: a Mac in system mode whose first fan has a target a little
  below 0, which counts as the system baseline.
\<close>

definition dip_key :: "u32 \<Rightarrow> string" where
  "dip_key key = (if key = fourcc ''FNum'' then ''FNum'' else if key = fourcc ''Ftst'' then ''Ftst''
     else if key = fourcc ''F0Md'' \<or> key = fourcc ''F1Md'' then ''Md''
     else if key = fourcc ''F0Tg'' then ''F0Tg''
     else if key = fourcc ''TCMz'' \<or> key = fourcc ''Tg0D'' \<or> key = fourcc ''TH0a'' then ''T'' else ''F'')"

definition dip_bytes :: "string \<Rightarrow> u8 list" where
  "dip_bytes name = (if name = ''FNum'' then [2] else if name = ''Ftst'' then [0] else if name = ''Md'' then [3]
     else if name = ''F0Tg'' then [0, 0, 0, 0xBF] else if name = ''T'' then [0, 0, 0x20, 0x42] else [0, 0, 0, 0])"

definition dip_driver :: "unit smc_driver" where
  "dip_driver = \<lparr>
     sysctl = (\<lambda>name. ret (True, (if name = ''hw.model'' then ''Mac15,7'' else ''27.0'') @ replicate 25 (CHR 0x00), 8)),
     get_matching_service = ret True, service_open = ret True,
     call_struct_method = (\<lambda>request out. let bytes = dip_bytes (dip_key (request_key request)) in
       ret (True, SMC_KEY_DATA_SIZE, out\<lparr>
         key_info := \<lparr>info_size = of_nat (length bytes),
           info_type = fourcc (if length bytes = 1 then ''ui8 '' else ''flt ''), info_attributes = 0\<rparr>,
         data_bytes := (\<lambda>i. if i < length bytes then bytes ! i else 0)\<rparr>))\<rparr>"

definition dip_snapshot :: smc_baseline_snapshot where
  "dip_snapshot = \<lparr>snap_ftst = 0, snap_mode = (\<lambda>_. 0)(0 := 3, 1 := 3),
     snap_target_rpm = (\<lambda>_. Fin 0)(0 := Fin (- 1 / 2), 1 := Fin 0),
     snap_actual_rpm = (\<lambda>_. Fin 0)(0 := Fin 0, 1 := Fin 0),
     snap_temperatures_c = (\<lambda>_. Fin 0)(0 := Fin 40, 1 := Fin 40, 2 := Fin 40)\<rparr>"

lemma dip_keys:
  "dip_bytes (dip_key (fourcc ''FNum'')) = [2]" "dip_bytes (dip_key (fourcc ''Ftst'')) = [0]"
  "dip_bytes (dip_key (fourcc ''F0Md'')) = [3]" "dip_bytes (dip_key (fourcc ''F1Md'')) = [3]"
  "dip_bytes (dip_key (fourcc ''F0Tg'')) = [0, 0, 0, 0xBF]" "dip_bytes (dip_key (fourcc ''F1Tg'')) = [0, 0, 0, 0]"
  "dip_bytes (dip_key (fourcc ''F0Ac'')) = [0, 0, 0, 0]" "dip_bytes (dip_key (fourcc ''F1Ac'')) = [0, 0, 0, 0]"
  "dip_bytes (dip_key (fourcc ''TCMz'')) = [0, 0, 0x20, 0x42]"
  "dip_bytes (dip_key (fourcc ''Tg0D'')) = [0, 0, 0x20, 0x42]"
  "dip_bytes (dip_key (fourcc ''TH0a'')) = [0, 0, 0x20, 0x42]"
  by code_simp+

lemma dip_floats:
  "float32_of_bits 0xBF000000 = Fin (- 1 / 2)" "float32_of_bits 0x42200000 = Fin 40" "float32_of_bits 0 = Fin 0"
  by code_simp+

lemma dip_value:
  assumes "unat len = length (dip_bytes (dip_key (fourcc key)))" "ty = (if len = 1 then ''ui8 '' else ''flt '')"
  shows "wp (read_value dip_driver key ty len b0) (\<lambda>(r, bytes) w'. r = SMC_BASELINE_OK \<and>
    (\<forall>i < unat len. bytes i = dip_bytes (dip_key (fourcc key)) ! i)) w"
proof -
  have "of_nat (length (dip_bytes (dip_key (fourcc key)))) = len"
    by (simp flip: assms(1))
  moreover have "length (dip_bytes (dip_key (fourcc key))) = 1 \<longleftrightarrow> len = 1"
    by (simp add: word_unat_eq_iff flip: assms(1))
  ultimately show ?thesis
    using assms
    by (simp add: read_value_def smc_call_def in_driver_def io_note_def wp_simps dip_driver_def zero_key_data_def
        Let_def)
qed

lemma dip_reads:
  "dip_bytes (dip_key (fourcc key)) = [b] \<Longrightarrow> wp (read_u8 dip_driver key) (\<lambda>r w'. r = (SMC_BASELINE_OK, b)) w"
  "dip_bytes (dip_key (fourcc key)) = [b0, b1, b2, b3] \<Longrightarrow>
   float32_of_bits (push_bit 24 (ucast b3) OR push_bit 16 (ucast b2) OR push_bit 8 (ucast b1) OR ucast b0) = Fin x \<Longrightarrow>
   wp (read_float dip_driver key) (\<lambda>r w'. r = (SMC_BASELINE_OK, Fin x)) w"
  unfolding read_u8_def read_float_def
   apply (rule wp_bindI, rule wp_mono[OF dip_value], simp, simp, force simp: wp_return)
  apply (rule wp_bindI, rule wp_mono[OF dip_value], simp, simp)
  apply (auto simp: wp_return little32_def Let_def)
  done

lemma dip_temperature:
  assumes "dip_bytes (dip_key (fourcc key)) = [0, 0, 0x20, 0x42]"
  shows "wp (read_temperature dip_driver key) (\<lambda>r w'. r = (SMC_BASELINE_OK, Fin 40)) w"
  unfolding read_temperature_def
  by (rule wp_bindI, rule wp_mono[OF dip_reads(2)[OF assms, of 40]])
    (use dip_floats(2) in \<open>simp_all add: wp_return smc_baseline_temperature_valid_def\<close>)

lemma wp_read_ok:
  "wp m (\<lambda>r w'. r = (SMC_BASELINE_OK, v)) w \<Longrightarrow> (\<And>w'. wp (k v) Q w') \<Longrightarrow>
   wp (read_or_close m snap k) Q w"
  "wp m (\<lambda>r w'. r = (SMC_BASELINE_OK, v)) w \<Longrightarrow> (\<And>w'. wp (k' (put v snap)) Q w') \<Longrightarrow>
   wp (read_field m put snap k') Q w"
  unfolding read_or_close_def read_field_def by (rule wp_bindI, erule wp_mono, simp)+

lemma dip_fields: "wp (read_fields dip_driver zero_snapshot) (\<lambda>r w'. r = (SMC_BASELINE_OK, dip_snapshot)) w"
  unfolding read_fields_def
  apply (rule wp_read_ok(1), rule dip_reads(1)[OF dip_keys(1)], simp)
  apply (rule wp_read_ok(2), rule dip_reads(1)[OF dip_keys(2)])
  apply (rule wp_read_ok(2), rule dip_reads(1)[OF dip_keys(3)])
  apply (rule wp_read_ok(2), rule dip_reads(1)[OF dip_keys(4)])
  apply (rule wp_read_ok(2), rule dip_reads(2)[OF dip_keys(5), of "- 1 / 2"], simp add: dip_floats)
  apply (rule wp_read_ok(2), rule dip_reads(2)[OF dip_keys(6), of 0], simp add: dip_floats)
  apply (rule wp_read_ok(2), rule dip_reads(2)[OF dip_keys(7), of 0], simp add: dip_floats)
  apply (rule wp_read_ok(2), rule dip_reads(2)[OF dip_keys(8), of 0], simp add: dip_floats)
  apply (rule wp_read_ok(2), rule dip_temperature[OF dip_keys(9)])
  apply (rule wp_read_ok(2), rule dip_temperature[OF dip_keys(10)])
  apply (rule wp_read_ok(2), rule dip_temperature[OF dip_keys(11)])
  by (simp add: wp_return dip_snapshot_def zero_snapshot_def)

lemma dip_environment: "wp (expected_environment dip_driver) (\<lambda>r w'. r) w"
  by (simp add: expected_environment_def dip_driver_def in_driver_def wp_simps strcmp_eq_def c_string_def
      numeral_eq_Suc)

lemma dip_read: "wp (smc_baseline_read dip_driver (Some zero_snapshot))
    (\<lambda>r w'. r = (SMC_BASELINE_OK, Some dip_snapshot)) w"
proof -
  have open_steps: "wp (in_driver (get_matching_service dip_driver)) (\<lambda>r w'. r) w"
    "wp (in_driver (service_open dip_driver)) (\<lambda>r w'. r) w" for w
    by (simp_all add: dip_driver_def in_driver_def wp_simps)
  show ?thesis
    unfolding smc_baseline_read_def
    apply (simp, rule wp_bindI, rule wp_mono[OF dip_environment], simp)
    apply (rule wp_bindI, rule wp_mono[OF open_steps(1)], simp)
    apply (rule wp_bindI, rule wp_mono[OF open_steps(2)], simp)
    apply (rule wp_bindI, rule wp_any, rule wp_bindI, rule wp_mono[OF dip_fields], simp)
    by (rule wp_bindI, rule wp_any, simp add: wp_return)
qed

text \<open>The watch started on it: it reports a running baseline that the client refuses.\<close>

definition dip_sample :: sample where "dip_sample = (SMC_BASELINE_OK, dip_snapshot, 1, 1)"

definition dip_watch :: watch_controller where "dip_watch = start_watch dip_sample new_controller"

lemma dip_reachable: "controller_reachable dip_driver dip_watch"
proof -
  have "delivered dip_driver dip_sample"
  proof -
    obtain r w' where run: "run_state (smc_baseline_read dip_driver (Some zero_snapshot))
        \<lparr>driver_state = (), io_events = []\<rparr> = (r, w')" by fastforce
    with wpD[OF dip_read run] show ?thesis by (auto simp: delivered_def dip_sample_def)
  qed
  then show ?thesis unfolding dip_watch_def by (blast intro: controller_reachable.intros controller_step.start)
qed

lemma dip_baseline: "smc_baseline_is_system (Some dip_snapshot)" "\<not> speeds_shown dip_snapshot"
  by (simp_all add: smc_baseline_is_system_def dip_snapshot_def speeds_shown_def upt_fans abs_double_def)

lemma dip_watched: "watch_status (watched dip_watch) = BASELINE_WATCH_RUNNING"
    "latest (watched dip_watch) = dip_snapshot"
  by (simp_all add: dip_watch_def start_watch_def dip_sample_def sample_result_def new_controller_def zero_watch_def
      baseline_watch_begin_def dip_baseline schedule_second_def Let_def)

lemma watch_replies_accepted_witness:
  "watch_status (watched dip_watch) = BASELINE_WATCH_RUNNING \<and>
   \<not> HelperWatchResponseValid (\<lambda>_ _. 0) (status_locked 100 dip_watch)"
  using watch_replies_accepted[OF dip_reachable, of "\<lambda>_ _. 0" 100]
  by (simp add: dip_watched dip_baseline watch_shown_def)

lemma watch_in_step_witness: "scheduled dip_watch = [(1, 1)]"
  using watch_in_step[OF dip_reachable]
  by (simp add: timers_sound_def dip_watched)
    (simp add: dip_watch_def start_watch_def dip_sample_def sample_result_def new_controller_def zero_watch_def
      baseline_watch_begin_def dip_baseline schedule_second_def Let_def)

end
