(* ===== verification/SupervisorReports.thy ===== *)
theory SupervisorReports
  imports HelperValidation ProbeProperties
begin

text \<open>
  The report that the supervisor probe prints and the client's validation of it: which outcomes of the
  probe \<open>HelperSupervisorReportValid\<close> accepts, in terms of the outcome instead of the printed object.
\<close>

section \<open>Unsigned numbers\<close>

lemma supervisor_uint:
  assumes "maximum \<le> 2 ^ 64 - 1"
  shows "SupervisorUInt cast (Some (NSNumber (NSInt i))) maximum \<longleftrightarrow> 0 \<le> i \<and> i \<le> maximum"
proof
  assume ok: "SupervisorUInt cast (Some (NSNumber (NSInt i))) maximum"
  then have i: "i = cut_to UInt64 i" and le: "cut_to UInt64 i \<le> maximum"
    by (auto simp: SupervisorUInt_def ns_simps)
  have "0 \<le> cut_to UInt64 i" by (simp add: cut_to_def)
  with i le show "0 \<le> i \<and> i \<le> maximum" by simp
next
  assume i: "0 \<le> i \<and> i \<le> maximum"
  with assms have "in_range UInt64 i" by (simp add: in_range_def)
  then have cut: "cut_to UInt64 i = i" by (rule cut_to_id)
  have "\<bar>i\<bar> \<le> 2 ^ 64" using i assms by simp
  from double_of_integer[OF this] i show "SupervisorUInt cast (Some (NSNumber (NSInt i))) maximum"
    by (simp add: SupervisorUInt_def ns_simps is_boolean_def cut)
qed

lemma small_as: "0 \<le> i \<Longrightarrow> i \<le> INT_MAX32 \<Longrightarrow> cut_to Int32 i = i"
  "0 \<le> i \<Longrightarrow> i \<le> 75000000000 \<Longrightarrow> cut_to UInt64 i = i"
  by (auto intro!: cut_to_id simp: in_range_def INT_MAX32_def)

section \<open>Reports the client accepts\<close>

definition pid_in_range :: "int \<Rightarrow> bool" where
  "pid_in_range pid \<longleftrightarrow> 0 \<le> pid \<and> pid \<le> INT_MAX32"

definition recovery_samples :: "probe_outcome \<Rightarrow> control_lease \<Rightarrow> int" where
  "recovery_samples outcome lease =
     (if sup_result (final_report outcome) = SUPERVISOR_RECOVERED then uint (lease_samples lease) else 0)"

definition recovery_duration :: "probe_outcome \<Rightarrow> control_lease \<Rightarrow> int" where
  "recovery_duration outcome lease =
     (if sup_result (final_report outcome) = SUPERVISOR_RECOVERED then uint (window_ns lease) else 0)"

definition reaped_all :: "probe_outcome \<Rightarrow> u32" where
  "reaped_all outcome = reaped_count (admission outcome) + reaped_count (final_report outcome)"

text \<open>The numbers of the report in their ranges.\<close>

definition report_in_range :: "probe_outcome \<Rightarrow> int \<Rightarrow> u32 \<Rightarrow> control_lease \<Rightarrow> bool" where
  "report_in_range outcome pid uid lease \<longleftrightarrow>
     uid = 0 \<and> 0 < pid \<and> pid \<le> INT_MAX32 \<and>
     pid_in_range (observer_pid (admission outcome)) \<and> pid_in_range (operation_pid (final_report outcome)) \<and>
     pid_in_range (recovery_pid (final_report outcome)) \<and> pid_in_range (observer_pid (final_report outcome)) \<and>
     uint (admission_samples outcome) \<le> 61 \<and> recovery_samples outcome lease \<le> 61 \<and>
     uint (admission_duration outcome) \<le> 75000000000 \<and> recovery_duration outcome lease \<le> 75000000000 \<and>
     uint (reaped_all outcome) \<le> 4"

text \<open>A complete proof of the baseline: 61 samples over at least 60 seconds.\<close>

definition full_window :: "int \<Rightarrow> int \<Rightarrow> bool" where
  "full_window samples duration \<longleftrightarrow> samples = 61 \<and> 60000000000 \<le> duration"

definition resumed_report :: "probe_outcome \<Rightarrow> int \<Rightarrow> bool" where
  "resumed_report outcome pid \<longleftrightarrow> (let final = final_report outcome in
     observer_pid (admission outcome) = 0 \<and> operation_pid final = 0 \<and>
     admission_samples outcome = 0 \<and> admission_duration outcome = 0 \<and> reaped_all outcome = 2 \<and>
     0 \<notin> {recovery_pid final, observer_pid final} \<and>
     distinct [pid, recovery_pid final, observer_pid final])"

definition complete_report :: "probe_outcome \<Rightarrow> int \<Rightarrow> bool" where
  "complete_report outcome pid \<longleftrightarrow>
     (let final = final_report outcome;
          children = [observer_pid (admission outcome), operation_pid final, recovery_pid final, observer_pid final]
      in full_window (uint (admission_samples outcome)) (uint (admission_duration outcome)) \<and>
         reaped_all outcome = 4 \<and> 0 \<notin> set children \<and> distinct (pid # children))"

definition report_accepted :: "probe_outcome \<Rightarrow> bool \<Rightarrow> int \<Rightarrow> u32 \<Rightarrow> control_lease \<Rightarrow> bool" where
  "report_accepted outcome clear pid uid lease \<longleftrightarrow>
     report_in_range outcome pid uid lease \<and>
     (if sup_result (final_report outcome) = SUPERVISOR_RECOVERED \<and> clear
      then full_window (recovery_samples outcome lease) (recovery_duration outcome lease) \<and>
           (if journal_resumed outcome then resumed_report outcome pid else complete_report outcome pid)
      else recovery_samples outcome lease = 0 \<and> recovery_duration outcome lease = 0)"

section \<open>The printed object\<close>

definition report_object :: "probe_outcome \<Rightarrow> bool \<Rightarrow> int \<Rightarrow> u32 \<Rightarrow> control_lease \<Rightarrow> ns_object option" where
  "report_object outcome clear pid uid lease = Some (ns_of_json (probe_doc outcome clear pid uid lease))"

lemma report_entries:
  fixes outcome :: probe_outcome
  defines "report clear pid uid lease \<equiv> report_object outcome clear pid uid lease"
  shows "is_dictionary (report clear pid uid lease)" "ns_count (report clear pid uid lease) = 14"
    "at_key (report clear pid uid lease) ''state'' = words (probe_state (final_report outcome) clear)"
    "at_key (report clear pid uid lease) ''runner_pid'' = number pid"
    "at_key (report clear pid uid lease) ''runner_uid'' = number (uint uid)"
    "at_key (report clear pid uid lease) ''resumed'' = boolean (journal_resumed outcome)"
    "at_key (report clear pid uid lease) ''journal_clear'' = boolean clear"
    "at_key (report clear pid uid lease) ''admission_pid'' = number (observer_pid (admission outcome))"
    "at_key (report clear pid uid lease) ''operation_pid'' = number (operation_pid (final_report outcome))"
    "at_key (report clear pid uid lease) ''recovery_pid'' = number (recovery_pid (final_report outcome))"
    "at_key (report clear pid uid lease) ''observer_pid'' = number (observer_pid (final_report outcome))"
    "at_key (report clear pid uid lease) ''admission_samples'' = number (uint (admission_samples outcome))"
    "at_key (report clear pid uid lease) ''recovery_samples'' = number (recovery_samples outcome lease)"
    "at_key (report clear pid uid lease) ''admission_duration_ns'' = number (uint (admission_duration outcome))"
    "at_key (report clear pid uid lease) ''recovery_duration_ns'' = number (recovery_duration outcome lease)"
    "at_key (report clear pid uid lease) ''reaped'' = number (uint (reaped_all outcome))"
  by (simp_all add: report_def report_object_def probe_doc_def Let_def ns_simps recovery_samples_def
      recovery_duration_def reaped_all_def)

lemma recovery_nonneg [simp]: "0 \<le> recovery_samples outcome lease" "0 \<le> recovery_duration outcome lease"
  by (simp_all add: recovery_samples_def recovery_duration_def)

lemma fields_in_range:
  "report_fields_valid cast (report_object outcome clear pid uid lease) \<longleftrightarrow> report_in_range outcome pid uid lease"
proof -
  have "uint uid \<le> 0 \<longleftrightarrow> uid = 0" using uint_ge_0[of uid] by (auto simp: uint_0_iff)
  moreover have "cut_to Int32 pid \<noteq> 0 \<longleftrightarrow> pid \<noteq> 0" if "0 \<le> pid" "pid \<le> INT_MAX32"
    using that by (simp add: small_as)
  ultimately show ?thesis
    unfolding report_fields_valid_def report_in_range_def pid_in_range_def report_pids_def
    by (auto simp: report_entries supervisor_uint INT_MAX32_def ns_simps SupervisorBool_def)
qed

lemma pids_distinct_iff:
  assumes "\<And>key. key \<in> set keys \<Longrightarrow> at_key report key = number (pid key) \<and> pid_in_range (pid key)"
  shows "pids_distinct cast report resumed (map number seen) keys \<longleftrightarrow>
    (let pids = map pid (filter (\<lambda>key. \<not> (resumed \<and> key \<in> set recovery_only_pids)) keys)
     in 0 \<notin> set pids \<and> distinct pids \<and> set pids \<inter> set seen = {})"
  using assms
proof (induction keys arbitrary: seen)
  case Nil
  show ?case by simp
next
  case (Cons key keys)
  have at: "at_key report key = number (pid key)" "pid_in_range (pid key)" using Cons.prems by simp_all
  have rest: "\<And>k. k \<in> set keys \<Longrightarrow> at_key report k = number (pid k) \<and> pid_in_range (pid k)"
    using Cons.prems by simp
  have old: "list_ex (is_equal (number (pid key))) (map number seen) \<longleftrightarrow> pid key \<in> set seen"
    by (induction seen) (auto simp: ns_simps)
  show ?case
    using Cons.IH[OF rest, of seen] Cons.IH[OF rest, of "pid key # seen"] at old
    by (auto simp: Let_def ns_simps small_as pid_in_range_def)
qed

lemma pids_of_report:
  assumes "report_in_range outcome pid uid lease"
  shows "pids_distinct cast (report_object outcome clear pid uid lease) resumed [number pid] report_pids \<longleftrightarrow>
    (let final = final_report outcome;
         early = if resumed then [] else [observer_pid (admission outcome), operation_pid final];
         children = early @ [recovery_pid final, observer_pid final]
     in 0 \<notin> set children \<and> distinct (pid # children))"
proof -
  define pid_of where "pid_of key = (case at_key (report_object outcome clear pid uid lease) key of
      Some (NSNumber (NSInt i)) \<Rightarrow> i | _ \<Rightarrow> 0)" for key
  have each: "pid_of ''admission_pid'' = observer_pid (admission outcome)"
      "pid_of ''operation_pid'' = operation_pid (final_report outcome)"
      "pid_of ''recovery_pid'' = recovery_pid (final_report outcome)"
      "pid_of ''observer_pid'' = observer_pid (final_report outcome)"
    by (simp_all only: pid_of_def report_entries option.case ns_object.case ns_number.case)
  have "filter (\<lambda>key. \<not> (True \<and> key \<in> set recovery_only_pids)) report_pids = [''recovery_pid'', ''observer_pid'']"
      "filter (\<lambda>key. \<not> (False \<and> key \<in> set recovery_only_pids)) report_pids = report_pids"
    by code_simp+
  then have keys: "map pid_of (filter (\<lambda>key. \<not> (resumed \<and> key \<in> set recovery_only_pids)) report_pids) =
      (if resumed then [] else [observer_pid (admission outcome), operation_pid (final_report outcome)]) @
      [recovery_pid (final_report outcome), observer_pid (final_report outcome)]"
    by (cases resumed) (simp_all only: list.map each report_pids_def append.simps if_True if_False)
  have at: "at_key (report_object outcome clear pid uid lease) key = number (pid_of key) \<and> pid_in_range (pid_of key)"
    if "key \<in> set report_pids" for key
    using that assms unfolding report_pids_def report_in_range_def list.set insert_iff empty_iff
    by (elim disjE) (simp_all only: each report_entries simp_thms)
  show ?thesis
    using pids_distinct_iff[of report_pids "report_object outcome clear pid uid lease" pid_of cast resumed "[pid]", OF at]
    unfolding keys by (auto simp: Let_def)
qed

lemma resumed_valid:
  fixes clear :: bool
  assumes "report_in_range outcome pid uid lease"
  defines "report \<equiv> report_object outcome clear pid uid lease"
  shows "(value_as cast Int32 (at_key report ''admission_pid'') = 0 \<and>
      value_as cast Int32 (at_key report ''operation_pid'') = 0 \<and>
      value_as cast Int32 (at_key report ''admission_samples'') = 0 \<and>
      value_as cast UInt64 (at_key report ''admission_duration_ns'') = 0 \<and>
      value_as cast Int32 (at_key report ''reaped'') = 2 \<and>
      pids_distinct cast report True [number pid] report_pids) \<longleftrightarrow> resumed_report outcome pid"
proof -
  have "uint (admission_samples outcome) = 0 \<longleftrightarrow> admission_samples outcome = 0"
      "uint (admission_duration outcome) = 0 \<longleftrightarrow> admission_duration outcome = 0"
      "uint (reaped_all outcome) = 2 \<longleftrightarrow> reaped_all outcome = 2"
    by (simp_all add: word_uint_eq_iff)
  with assms(1) pids_of_report[OF assms(1), of cast clear True] show ?thesis
    unfolding report_in_range_def pid_in_range_def resumed_report_def Let_def report_def
    by (simp add: report_entries ns_simps small_as INT_MAX32_def)
qed

lemma complete_valid:
  fixes clear :: bool
  assumes "report_in_range outcome pid uid lease"
  defines "report \<equiv> report_object outcome clear pid uid lease"
  shows "(value_as cast Int32 (at_key report ''admission_samples'') = 61 \<and>
      60000000000 \<le> value_as cast UInt64 (at_key report ''admission_duration_ns'') \<and>
      value_as cast Int32 (at_key report ''reaped'') = 4 \<and>
      pids_distinct cast report False [number pid] report_pids) \<longleftrightarrow> complete_report outcome pid"
proof -
  have "uint (reaped_all outcome) = 4 \<longleftrightarrow> reaped_all outcome = 4"
    by (simp add: word_uint_eq_iff)
  with assms(1) pids_of_report[OF assms(1), of cast clear False] show ?thesis
    unfolding report_in_range_def pid_in_range_def complete_report_def full_window_def Let_def report_def
    by (simp add: report_entries ns_simps small_as INT_MAX32_def)
qed

text \<open>C18: The client's validation of a supervisor report accepts the line of the supervisor probe exactly when
  the outcome that the line describes is in range and sound. In range: the probe ran as root with a process
  id from 1 to the largest int, every other process id is from 0 to that, both sample counts are at most 61,
  both durations at most 75 seconds, and at most four children were reaped. Sound: either nothing is claimed
  about the recovery (no sample, no duration), or the recovery is proved with the marker clear by 61 samples
  over at least 60 seconds and, for a resumed run, both children of the recovery are distinct and reaped, for
  a complete run, all four children are distinct and reaped and the baseline was observed for at least 60
  seconds before. The validation reads the object that the printed JSON denotes, with its conversions to C's
  integers and doubles; no conversion changes the answer.\<close>

theorem probe_report_accepted:
  "HelperSupervisorReportValid cast (Some (ns_of_json (probe_doc outcome clear pid uid lease))) =
   report_accepted outcome clear pid uid lease"
proof (cases "report_in_range outcome pid uid lease")
  case False
  then show ?thesis
    by (simp add: HelperSupervisorReportValid_def report_accepted_def fields_in_range[unfolded report_object_def])
next
  case True
  let ?report = "report_object outcome clear pid uid lease"
  have small: "cut_to Int32 (recovery_samples outcome lease) = recovery_samples outcome lease"
      "cut_to UInt64 (recovery_duration outcome lease) = recovery_duration outcome lease"
    using True by (simp_all add: report_in_range_def small_as INT_MAX32_def)
  have verdict: "HelperSupervisorReportValid cast ?report = report_accepted outcome clear pid uid lease"
  proof (cases "sup_result (final_report outcome) = SUPERVISOR_RECOVERED \<and> clear")
    case True
    then show ?thesis
      using \<open>report_in_range outcome pid uid lease\<close> resumed_valid[OF \<open>report_in_range outcome pid uid lease\<close>, of cast clear]
        complete_valid[OF \<open>report_in_range outcome pid uid lease\<close>, of cast clear]
      by (cases "journal_resumed outcome")
        (simp_all add: HelperSupervisorReportValid_def report_accepted_def fields_in_range Let_def
          report_entries ns_simps small probe_state_def full_window_def)
  next
    case False
    then have "probe_state (final_report outcome) clear = (if clear then ''blocked'' else ''pending'')"
      by (auto simp: probe_state_def)
    with \<open>report_in_range outcome pid uid lease\<close> have
      "HelperSupervisorReportValid cast ?report \<longleftrightarrow>
         recovery_samples outcome lease = 0 \<and> recovery_duration outcome lease = 0"
      by (simp add: HelperSupervisorReportValid_def fields_in_range Let_def report_entries ns_simps small)
    with False \<open>report_in_range outcome pid uid lease\<close> show ?thesis
      unfolding report_accepted_def by (simp only: if_False simp_thms)
  qed
  then show ?thesis by (simp add: report_object_def)
qed

end
