(* ===== verification/MarkerDisk.thy ===== *)
theory MarkerDisk
  imports IntentDurable
begin

text \<open>
  A disk under the intent journal: one private directory whose only entry is the marker, with calls that
  may fail, be interrupted or fall short, and a power failure that keeps only what was synced. The
  journal's operations of \<open>prototype/helper-ipc/ControlIntentJournal.c\<close> run on it: what they promise
  holds after a crash.
\<close>

section \<open>Files and faults\<close>

record marker_file =
  file_kind_of :: file_kind
  file_mode :: u16
  file_owner :: u32
  file_links :: u16
  file_number :: nat
  file_bytes :: "u8 list"

text \<open>The fate of a call: it works, it fails, or it moves at most so many bytes.\<close>

datatype fate = Works | Fails errno | Short nat

text \<open>\<open>survives d x\<close>: a crash may leave the entry \<open>x\<close>.\<close>

record marker_disk =
  the_marker :: "marker_file option"
  survives :: "marker_file option \<Rightarrow> bool"
  next_number :: nat
  directory_mode :: u16
  offset :: nat
  fates :: "fate list"

definition fate_of :: "(marker_disk, fate) state" where
  "fate_of = State (\<lambda>d. case fates d of [] \<Rightarrow> (Works, d) | f # fs \<Rightarrow> (f, d\<lparr>fates := fs\<rparr>))"

definition DIRECTORY_FD :: int where "DIRECTORY_FD = 3"
definition MARKER_FD :: int where "MARKER_FD = 4"

definition status_of :: "marker_file \<Rightarrow> file_status" where
  "status_of f = \<lparr>st_kind = file_kind_of f, st_permissions = file_mode f, st_uid = file_owner f,
     st_nlink = file_links f, st_size = int (length (file_bytes f)), st_dev = 1, st_ino = of_nat (file_number f)\<rparr>"

definition directory_status_of :: "marker_disk \<Rightarrow> file_status" where
  "directory_status_of d = \<lparr>st_kind = Directory, st_permissions = directory_mode d, st_uid = 0, st_nlink = 2,
     st_size = 0, st_dev = 1, st_ino = 0\<rparr>"

definition new_file :: "nat \<Rightarrow> marker_file" where
  "new_file n = \<lparr>file_kind_of = RegularFile, file_mode = 0x180, file_owner = 0, file_links = 1,
     file_number = n, file_bytes = []\<rparr>"

text \<open>The entry is file \<open>f\<close>, but for its bytes, which are not synced.\<close>

definition dirty :: "marker_file \<Rightarrow> marker_file option \<Rightarrow> bool" where
  "dirty f x \<longleftrightarrow> (case x of None \<Rightarrow> False | Some g \<Rightarrow> g\<lparr>file_bytes := []\<rparr> = f\<lparr>file_bytes := []\<rparr>)"

definition same_file :: "marker_file option \<Rightarrow> marker_file option \<Rightarrow> bool" where
  "same_file x y \<longleftrightarrow> map_option file_number x = map_option file_number y"

section \<open>Calls\<close>

definition disk_fstat :: "int \<Rightarrow> (marker_disk, file_status option) state" where
  "disk_fstat fd = do {
     fate \<leftarrow> fate_of;
     State (\<lambda>d. (if fate \<noteq> Works then None
       else if fd = DIRECTORY_FD then Some (directory_status_of d) else map_option status_of (the_marker d), d))
   }"

text \<open>The mode \<open>openat\<close> creates a file with, if the flags let it create one.\<close>

fun creation_mode :: "open_flag list \<Rightarrow> u16 option" where
  "creation_mode [] = None"
| "creation_mode (O_CREAT mode # flags) = Some mode"
| "creation_mode (flag # flags) = creation_mode flags"

definition disk_open :: "int \<Rightarrow> string \<Rightarrow> open_flag list \<Rightarrow> (marker_disk, errno + int) state" where
  "disk_open fd name flags = do {
     fate \<leftarrow> fate_of;
     State (\<lambda>d. if fate \<noteq> Works \<or> fd \<noteq> DIRECTORY_FD \<or> name \<noteq> marker_name then (Inl OtherErrno, d)
       else case the_marker d of
         None \<Rightarrow> (case creation_mode flags of
           Some mode \<Rightarrow> let f = (new_file (next_number d))\<lparr>file_mode := mode\<rparr> in
             (Inr MARKER_FD, d\<lparr>the_marker := Some f, survives := (\<lambda>x. survives d x \<or> dirty f x),
                next_number := next_number d + 1, offset := 0\<rparr>)
         | None \<Rightarrow> (Inl ENOENT, d))
       | Some f \<Rightarrow> if O_EXCL \<in> set flags then (Inl EEXIST, d)
           else if file_kind_of f = OtherKind then (Inl OtherErrno, d)
           else (Inr MARKER_FD, d\<lparr>offset := 0\<rparr>))
   }"

definition disk_take :: "nat \<Rightarrow> marker_disk \<Rightarrow> (errno + u8 list) \<times> marker_disk" where
  "disk_take n d = (let bytes = take n (drop (offset d) (file_bytes (the (the_marker d))))
     in (Inr bytes, d\<lparr>offset := offset d + length bytes\<rparr>))"

definition disk_read :: "int \<Rightarrow> nat \<Rightarrow> (marker_disk, errno + u8 list) state" where
  "disk_read fd wanted = do {
     fate \<leftarrow> fate_of;
     State (\<lambda>d. case fate of
         Fails e \<Rightarrow> (Inl e, d)
       | Works \<Rightarrow> disk_take wanted d
       | Short n \<Rightarrow> disk_take (min n wanted) d)
   }"

definition disk_append :: "u8 list \<Rightarrow> marker_disk \<Rightarrow> marker_disk" where
  "disk_append bytes d = (case the_marker d of
       None \<Rightarrow> d
     | Some f \<Rightarrow> d\<lparr>the_marker := Some (f\<lparr>file_bytes := file_bytes f @ bytes\<rparr>),
         survives := (\<lambda>x. survives d x \<or> dirty f x)\<rparr>)"

definition disk_write :: "int \<Rightarrow> u8 list \<Rightarrow> (marker_disk, errno + nat) state" where
  "disk_write fd bytes = do {
     fate \<leftarrow> fate_of;
     State (\<lambda>d. case fate of
         Fails e \<Rightarrow> (Inl e, d)
       | Works \<Rightarrow> (Inr (length bytes), disk_append bytes d)
       | Short n \<Rightarrow> (Inr (min n (length bytes)), disk_append (take n bytes) d))
   }"

text \<open>A sync of the file settles its bytes, a sync of the directory which file the entry names.\<close>

definition disk_fsync :: "int \<Rightarrow> (marker_disk, bool) state" where
  "disk_fsync fd = do {
     fate \<leftarrow> fate_of;
     State (\<lambda>d. if fate \<noteq> Works then (False, d)
       else (True, d\<lparr>survives := (\<lambda>x. survives d x \<and>
          (if fd = DIRECTORY_FD then same_file x (the_marker d)
           else same_file x (the_marker d) \<longrightarrow> x = the_marker d))\<rparr>))
   }"

definition disk_unlink :: "int \<Rightarrow> string \<Rightarrow> (marker_disk, bool) state" where
  "disk_unlink fd name = do {
     fate \<leftarrow> fate_of;
     State (\<lambda>d. if fate \<noteq> Works \<or> the_marker d = None then (False, d)
       else (True, d\<lparr>the_marker := None, survives := (\<lambda>x. survives d x \<or> x = None)\<rparr>))
   }"

definition disk_close :: "int \<Rightarrow> (marker_disk, bool) state" where
  "disk_close fd = do { fate \<leftarrow> fate_of; ret (fate = Works) }"

text \<open>The calls of the journal; it makes no other.\<close>

definition disk_os :: "nat \<Rightarrow> marker_disk posix" where
  "disk_os fuel = \<lparr>
     sys_fstat = disk_fstat, sys_fstatat = (\<lambda>_ _. ret None), sys_geteuid = ret 0, sys_openat = disk_open,
     sys_read = disk_read, sys_write = disk_write, sys_ftruncate = (\<lambda>_. ret False), sys_fsync = disk_fsync,
     sys_close = disk_close, sys_unlinkat = disk_unlink, sys_renameat = (\<lambda>_ _ _. ret False),
     sys_flock = (\<lambda>_. ret False), sys_pidinfo = (\<lambda>_. ret (Inl ESRCH)), sys_clock = ret 0,
     sys_nanosleep = (\<lambda>_. ret ()), sys_socketpair = ret None, sys_pipe = ret None,
     sys_set_cloexec = (\<lambda>_. ret False), sys_set_nonblock = (\<lambda>_. ret False),
     sys_send = (\<lambda>_ _. ret (Inl OtherErrno)), sys_fork = (\<lambda>_. ret None),
     sys_waitpid = (\<lambda>_. ret (WaitFailed OtherErrno)), sys_kill = (\<lambda>_. ret None),
     sys_start_watcher = (\<lambda>_. ret False), sys_sigchld_default = ret False, retry_fuel = fuel\<rparr>"

section \<open>Crashes\<close>

text \<open>What is on the disk after a crash that left the entry \<open>x\<close>, and what the next process reads.\<close>

definition restarted :: "marker_disk \<Rightarrow> marker_file option \<Rightarrow> marker_disk" where
  "restarted d x = d\<lparr>the_marker := x, survives := (\<lambda>y. y = x), offset := 0, fates := []\<rparr>"

definition process_on :: "marker_disk \<Rightarrow> marker_disk parent" where
  "process_on d = \<lparr>system = d, the_lease = Some zero_lease, latest_snapshot = zero_snapshot, sys_log = []\<rparr>"

definition intent_after_crash :: "nat \<Rightarrow> marker_disk \<Rightarrow> marker_file option \<Rightarrow> control_intent_status" where
  "intent_after_crash fuel d x =
     fst (run_state (control_intent_read (disk_os fuel) DIRECTORY_FD) (process_on (restarted d x)))"

text \<open>A disk whose files have numbers below the next one, and whose state a crash may leave.\<close>

definition disk_sound :: "marker_disk \<Rightarrow> bool" where
  "disk_sound d \<longleftrightarrow> survives d (the_marker d) \<and>
     (\<forall>f. survives d (Some f) \<longrightarrow> file_number f < next_number d)"

definition marker_written :: "marker_file \<Rightarrow> bool" where
  "marker_written f \<longleftrightarrow> marker_file_valid (status_of f) 0 \<and> file_bytes f = bytes_of marker_contents"

section \<open>The calls\<close>

lemma wp_fate: "(\<And>f fs. Q f (d\<lparr>fates := fs\<rparr>)) \<Longrightarrow> wp fate_of Q d"
proof -
  assume Q: "\<And>f fs. Q f (d\<lparr>fates := fs\<rparr>)"
  have "Q Works d" using Q[of Works "fates d"] by simp
  with Q show ?thesis by (auto simp: fate_of_def wp_State split: list.splits)
qed

text \<open>What a call that only looks leaves alone.\<close>

definition same_disk :: "marker_disk \<Rightarrow> marker_disk \<Rightarrow> bool" where
  "same_disk d d' \<longleftrightarrow> the_marker d' = the_marker d \<and> survives d' = survives d \<and>
     next_number d' = next_number d \<and> directory_mode d' = directory_mode d"

lemma same_disk_simps [simp]:
  "same_disk d d" "same_disk d (d'\<lparr>fates := fs\<rparr>) = same_disk d d'" "same_disk d (d'\<lparr>offset := k\<rparr>) = same_disk d d'"
  by (simp_all add: same_disk_def)

lemma same_disk_trans: "same_disk d d' \<Longrightarrow> same_disk d' d'' \<Longrightarrow> same_disk d d''"
  by (simp add: same_disk_def)

lemma wp_disk_fstat:
  "wp (disk_fstat fd) (\<lambda>info d'. same_disk d d' \<and> offset d' = offset d \<and>
     (info = None \<or> info = (if fd = DIRECTORY_FD then Some (directory_status_of d)
        else map_option status_of (the_marker d)))) d"
  unfolding disk_fstat_def
  by (rule wp_bindI, rule wp_fate) (auto simp: wp_State directory_status_of_def same_disk_def)

lemma wp_disk_close: "wp (disk_close fd) (\<lambda>_. same_disk d) d"
  unfolding disk_close_def by (rule wp_bindI, rule wp_fate) (simp add: wp_return)

lemma wp_disk_look:
  "wp (disk_open DIRECTORY_FD marker_name [O_RDONLY, O_CLOEXEC, O_NOFOLLOW]) (\<lambda>opened d'. same_disk d d' \<and>
     (case opened of Inl e \<Rightarrow> e = ENOENT \<longrightarrow> the_marker d = None
        | Inr fd \<Rightarrow> fd = MARKER_FD \<and> the_marker d \<noteq> None \<and> offset d' = 0)) d"
  unfolding disk_open_def
  by (rule wp_bindI, rule wp_fate) (auto simp: wp_State same_disk_def split: option.splits)

text \<open>What the reading loop has got is what the file begins with.\<close>

definition reading :: "marker_file \<Rightarrow> u8 list \<Rightarrow> marker_disk \<Rightarrow> bool" where
  "reading f got d \<longleftrightarrow> the_marker d = Some f \<and> offset d = length got \<and> got = take (length got) (file_bytes f)"

lemma wp_disk_read:
  assumes "reading f got d"
  shows "wp (disk_read fd wanted) (\<lambda>chunk d'. same_disk d d' \<and>
    reading f (got @ (case chunk of Inl e \<Rightarrow> [] | Inr bytes \<Rightarrow> bytes)) d') d"
proof -
  have taken: "case disk_take n (d\<lparr>fates := fs\<rparr>) of (chunk, d') \<Rightarrow> same_disk d d' \<and>
      reading f (got @ (case chunk of Inl e \<Rightarrow> [] | Inr bytes \<Rightarrow> bytes)) d'" for n fs
  proof -
    have "got @ take n (drop (length got) (file_bytes f)) = take (length got + n) (file_bytes f)"
      using assms by (metis reading_def take_add)
    then show ?thesis
      using assms by (auto simp: disk_take_def Let_def reading_def same_disk_def min_def)
  qed
  show ?thesis
    unfolding disk_read_def
    by (rule wp_bindI, rule wp_fate)
      (use assms taken in \<open>auto simp: wp_State reading_def same_disk_def split: fate.split\<close>)
qed

section \<open>Reading the marker\<close>


lemma wp_in_disk: "wp m (\<lambda>r d. Q r (p\<lparr>system := d\<rparr>)) (system p) \<Longrightarrow> wp (in_system m) Q p"
  by (simp add: in_system_def wp_def split: prod.splits)

lemma wp_call_disk:
  "wp m (\<lambda>r d. Q r (p\<lparr>system := d, sys_log := e r # sys_log p\<rparr>)) (system p) \<Longrightarrow> wp (logged_call m e) Q p"
  unfolding logged_call_def note_sys_def by (rule wp_bindI, rule wp_in_disk) (simp add: wp_bind wp_State wp_return)

lemma disk_os_simps [simp]:
  "sys_fstat (disk_os n) = disk_fstat" "sys_geteuid (disk_os n) = ret 0" "sys_openat (disk_os n) = disk_open"
  "sys_read (disk_os n) = disk_read" "sys_write (disk_os n) = disk_write" "sys_fsync (disk_os n) = disk_fsync"
  "sys_close (disk_os n) = disk_close" "sys_unlinkat (disk_os n) = disk_unlink" "retry_fuel (disk_os n) = n"
  by (simp_all add: disk_os_def)

lemma wp_reading:
  assumes "reading f got (system p)"
  shows "wp (read_from (disk_os n) fuel fd wanted got)
    (\<lambda>bytes p'. same_disk (system p) (system p') \<and> the_lease p' = the_lease p \<and> reading f bytes (system p')) p"
  using assms
proof (induction fuel arbitrary: got p)
  case 0
  then show ?case by (simp add: note_sys_def wp_bind wp_State wp_return)
next
  case (Suc fuel)
  have step: "wp (read_from (disk_os n) fuel fd wanted got') (\<lambda>bytes p'. same_disk (system p) (system p') \<and>
      the_lease p' = the_lease p \<and> reading f bytes (system p')) p'"
    if "same_disk (system p) (system p')" "the_lease p' = the_lease p" "reading f got' (system p')" for got' p'
    by (rule wp_mono[OF Suc.IH[OF that(3)]]) (use that in \<open>auto dest: same_disk_trans\<close>)
  show ?case
    unfolding read_from.simps
    apply (rule wp_ifI, use Suc.prems in \<open>simp add: wp_return\<close>)
    apply (rule wp_bindI, rule wp_in_disk, simp, rule wp_mono[OF wp_disk_read[OF Suc.prems]])
    by (auto simp: wp_return step split: sum.splits)
qed

definition private_mode :: "marker_disk \<Rightarrow> bool" where
  "private_mode d \<longleftrightarrow> directory_mode d AND 0x3F = 0"

text \<open>What the answer says of the marker.\<close>

definition intent_fits :: "control_intent_status \<Rightarrow> marker_disk \<Rightarrow> bool" where
  "intent_fits intent d \<longleftrightarrow>
     (intent = CONTROL_INTENT_CLEAR \<longrightarrow> private_mode d \<and> the_marker d = None) \<and>
     (intent = CONTROL_INTENT_PENDING \<longrightarrow> private_mode d \<and> (\<exists>f. the_marker d = Some f \<and> marker_written f))"

lemma intent_fits_same: "same_disk d d' \<Longrightarrow> intent_fits intent d' = intent_fits intent d"
  by (simp add: intent_fits_def same_disk_def private_mode_def)

definition looked :: "marker_disk parent \<Rightarrow> marker_disk parent \<Rightarrow> bool" where
  "looked p p' \<longleftrightarrow> same_disk (system p) (system p') \<and> the_lease p' = the_lease p"

lemma private_disk:
  "wp (private_directory (disk_os n) DIRECTORY_FD) (\<lambda>b p'. looked p p' \<and> (b \<longrightarrow> private_mode (system p))) p"
  unfolding private_directory_def looked_def private_mode_def
  apply (rule wp_ifI, simp add: DIRECTORY_FD_def)
  apply (rule wp_bindI, rule wp_in_disk, simp, rule wp_mono[OF wp_disk_fstat])
  apply (rule wp_bindI, rule wp_in_disk)
  by (auto simp: wp_return directory_status_of_def same_disk_def split: option.splits if_splits)

lemma looked_trans: "looked p p' \<Longrightarrow> looked p' p'' \<Longrightarrow> looked p p''"
  by (auto simp: looked_def dest: same_disk_trans)

lemma looked_later:
  "same_disk (system p) d \<Longrightarrow> looked p (p\<lparr>system := d\<rparr>)" "same_disk (system p) d \<Longrightarrow> looked p (p\<lparr>system := d, sys_log := l\<rparr>)"
  by (simp_all add: looked_def)

lemma contents_disk:
  assumes "private_mode (system p)" "the_marker (system p) = Some f" "offset (system p) = 0"
    and "marker_file_valid (status_of f) 0"
  shows "wp (read_up_to (disk_os n) fd (length marker_contents)) (\<lambda>bytes p'. looked p p' \<and>
      intent_fits (if bytes = bytes_of marker_contents then CONTROL_INTENT_PENDING else CONTROL_INTENT_UNKNOWN)
        (system p)) p"
proof -
  have "reading f [] (system p)" using assms by (simp add: reading_def)
  then have "wp (read_up_to (disk_os n) fd (length marker_contents)) (\<lambda>bytes p'.
      same_disk (system p) (system p') \<and> the_lease p' = the_lease p \<and> reading f bytes (system p')) p"
    unfolding read_up_to_def disk_os_simps by (rule wp_reading)
  then show ?thesis
  proof (rule wp_mono)
    fix bytes and p' :: "marker_disk parent"
    assume r: "same_disk (system p) (system p') \<and> the_lease p' = the_lease p \<and> reading f bytes (system p')"
    have "marker_written f" if "bytes = bytes_of marker_contents"
      using r assms(4) that
      by (simp add: reading_def marker_written_def marker_file_valid_def status_of_def bytes_of_def)
    with r assms show "looked p p' \<and> intent_fits (if bytes = bytes_of marker_contents
        then CONTROL_INTENT_PENDING else CONTROL_INTENT_UNKNOWN) (system p)"
      by (auto simp: looked_def intent_fits_def)
  qed
qed

lemma close_disk:
  "wp (logged_call (sys_close (disk_os n) fd) (Closed_fd fd)) (\<lambda>_. looked p) p"
  by (rule wp_call_disk, simp only: disk_os_simps, rule wp_mono[OF wp_disk_close]) (auto intro: looked_later)

lemma examined_disk:
  assumes "private_mode (system p)" "the_marker (system p) = Some f" "offset (system p) = 0"
  shows "wp (do {
           info \<leftarrow> in_system (sys_fstat (disk_os n) MARKER_FD);
           uid \<leftarrow> in_system (sys_geteuid (disk_os n));
           result \<leftarrow> (if (case info of None \<Rightarrow> False | Some st \<Rightarrow> marker_file_valid st uid)
             then do {
               contents \<leftarrow> read_up_to (disk_os n) MARKER_FD (length marker_contents);
               ret (if contents = bytes_of marker_contents
                    then CONTROL_INTENT_PENDING else CONTROL_INTENT_UNKNOWN)
             }
             else ret CONTROL_INTENT_UNKNOWN);
           closed \<leftarrow> logged_call (sys_close (disk_os n) MARKER_FD) (Closed_fd MARKER_FD);
           ret (if \<not> closed then CONTROL_INTENT_UNKNOWN else result)
         }) (\<lambda>intent p'. looked p p' \<and> intent_fits intent (system p)) p"
proof -
  have rest: "wp (do {
      result \<leftarrow> (if (case info of None \<Rightarrow> False | Some st \<Rightarrow> marker_file_valid st 0)
        then do {
          contents \<leftarrow> read_up_to (disk_os n) MARKER_FD (length marker_contents);
          ret (if contents = bytes_of marker_contents
               then CONTROL_INTENT_PENDING else CONTROL_INTENT_UNKNOWN)
        }
        else ret CONTROL_INTENT_UNKNOWN);
      closed \<leftarrow> logged_call (sys_close (disk_os n) MARKER_FD) (Closed_fd MARKER_FD);
      ret (if \<not> closed then CONTROL_INTENT_UNKNOWN else result)
    }) (\<lambda>intent p''. looked p p'' \<and> intent_fits intent (system p)) p'"
    if p': "looked p p'" "offset (system p') = 0" "info = None \<or> info = Some (status_of f)" for info p'
  proof -
    have at: "private_mode (system p')" "the_marker (system p') = Some f"
      using p' assms by (auto simp: looked_def same_disk_def private_mode_def)
    have fits: "intent_fits intent (system p') = intent_fits intent (system p)" for intent
      using p' by (intro intent_fits_same) (simp add: looked_def)
    have close: "wp (do { closed \<leftarrow> logged_call (sys_close (disk_os n) MARKER_FD) (Closed_fd MARKER_FD);
          ret (if \<not> closed then CONTROL_INTENT_UNKNOWN else result) })
        (\<lambda>intent p''. looked p p'' \<and> intent_fits intent (system p)) q"
      if "looked p q" "intent_fits result (system p)" for result q
      by (rule wp_bindI, rule wp_mono[OF close_disk])
        (use that in \<open>auto simp: wp_return intent_fits_def dest: looked_trans\<close>)
    show ?thesis
    proof (rule wp_bindI, rule wp_ifI)
      assume "case info of None \<Rightarrow> False | Some st \<Rightarrow> marker_file_valid st 0"
      then have valid: "marker_file_valid (status_of f) 0" using p'(3) by auto
      show "wp (do { contents \<leftarrow> read_up_to (disk_os n) MARKER_FD (length marker_contents);
          ret (if contents = bytes_of marker_contents then CONTROL_INTENT_PENDING else CONTROL_INTENT_UNKNOWN) })
        (\<lambda>result. wp (do { closed \<leftarrow> logged_call (sys_close (disk_os n) MARKER_FD) (Closed_fd MARKER_FD);
          ret (if \<not> closed then CONTROL_INTENT_UNKNOWN else result) })
          (\<lambda>intent p''. looked p p'' \<and> intent_fits intent (system p))) p'"
        by (rule wp_bindI, rule wp_mono[OF contents_disk[OF at p'(2) valid]], subst wp_return, rule close)
          (use p'(1) fits in \<open>auto dest: looked_trans\<close>)
    qed (subst wp_return, rule close, use p'(1) in \<open>simp_all add: intent_fits_def\<close>)
  qed
  show ?thesis
    apply (rule wp_bindI, rule wp_in_disk, simp only: disk_os_simps, rule wp_mono[OF wp_disk_fstat])
    apply (rule wp_bindI, rule wp_in_disk, simp only: disk_os_simps wp_return)
    by (rule rest[unfolded disk_os_simps]) (use assms in \<open>auto simp: looked_def MARKER_FD_def DIRECTORY_FD_def\<close>)
qed

lemma read_disk:
  "wp (control_intent_read (disk_os n) DIRECTORY_FD) (\<lambda>intent p'. looked p p' \<and> intent_fits intent (system p)) p"
proof -
  have opened: "wp (case opened of
         Inl e \<Rightarrow> ret (if e = ENOENT then CONTROL_INTENT_CLEAR else CONTROL_INTENT_UNKNOWN)
       | Inr marker \<Rightarrow> do {
           info \<leftarrow> in_system (sys_fstat (disk_os n) marker);
           uid \<leftarrow> in_system (sys_geteuid (disk_os n));
           result \<leftarrow> (if (case info of None \<Rightarrow> False | Some st \<Rightarrow> marker_file_valid st uid)
             then do {
               contents \<leftarrow> read_up_to (disk_os n) marker (length marker_contents);
               ret (if contents = bytes_of marker_contents
                    then CONTROL_INTENT_PENDING else CONTROL_INTENT_UNKNOWN)
             }
             else ret CONTROL_INTENT_UNKNOWN);
           closed \<leftarrow> logged_call (sys_close (disk_os n) marker) (Closed_fd marker);
           ret (if \<not> closed then CONTROL_INTENT_UNKNOWN else result)
         }) (\<lambda>intent p''. looked p p'' \<and> intent_fits intent (system p)) p'"
    if p': "looked p p'" "private_mode (system p)" and "case opened of Inl e \<Rightarrow> e = ENOENT \<longrightarrow> the_marker (system p) = None
        | Inr fd \<Rightarrow> fd = MARKER_FD \<and> the_marker (system p) \<noteq> None \<and> offset (system p') = 0" for opened p'
  proof (cases opened)
    case (Inl e)
    then show ?thesis using that by (auto simp: wp_return intent_fits_def)
  next
    case (Inr fd)
    with that obtain f where f: "the_marker (system p') = Some f" "private_mode (system p')" "offset (system p') = 0" "fd = MARKER_FD"
      by (auto simp: looked_def same_disk_def private_mode_def)
    have "intent_fits intent (system p') = intent_fits intent (system p)" for intent
      using p' by (intro intent_fits_same) (simp add: looked_def)
    then show ?thesis
      unfolding Inr sum.case f(4)
      by (intro wp_mono[OF examined_disk[OF f(2,1,3)]]) (use p' in \<open>auto dest: looked_trans\<close>)
  qed
  show ?thesis
    unfolding control_intent_read_def
    apply (rule wp_bindI, rule wp_mono[OF private_disk], rule wp_ifI, simp add: wp_return intent_fits_def)
    apply (rule wp_bindI, rule wp_call_disk, simp only: disk_os_simps, rule wp_mono[OF wp_disk_look])
    by (rule opened[unfolded disk_os_simps]) (auto simp: looked_def same_disk_def private_mode_def dest: same_disk_trans split: sum.splits)
qed

section \<open>Setting the marker\<close>

text \<open>File \<open>k\<close> was created and holds \<open>bytes\<close>; a crash may leave it with other bytes, or an older entry.\<close>

definition of_file :: "nat \<Rightarrow> marker_file \<Rightarrow> bool" where
  "of_file k f \<longleftrightarrow> f\<lparr>file_bytes := []\<rparr> = new_file k"

definition created :: "nat \<Rightarrow> u8 list \<Rightarrow> marker_disk \<Rightarrow> bool" where
  "created k bytes d \<longleftrightarrow> (\<exists>f. the_marker d = Some f \<and> of_file k f \<and> file_bytes f = bytes) \<and>
     k < next_number d \<and> private_mode d \<and> survives d (the_marker d) \<and>
     (\<forall>f. survives d (Some f) \<longrightarrow> file_number f < k \<or> of_file k f)"

definition settled :: "nat \<Rightarrow> marker_disk \<Rightarrow> bool" where
  "settled k d \<longleftrightarrow> (\<forall>f. survives d (Some f) \<longrightarrow> of_file k f \<longrightarrow> Some f = the_marker d)"

lemma of_file_number: "of_file k f \<Longrightarrow> file_number f = k"
  unfolding of_file_def new_file_def by (cases f) simp

lemma of_file_append: "of_file k (f\<lparr>file_bytes := bytes\<rparr>) = of_file k f"
  by (simp add: of_file_def)

lemma dirty_of_file: "of_file k f \<Longrightarrow> dirty f (Some g) = of_file k g"
  by (simp add: dirty_def of_file_def)

lemma created_same: "same_disk d d' \<Longrightarrow> created k bytes d \<Longrightarrow> created k bytes d'"
  by (simp add: created_def same_disk_def private_mode_def)

lemma settled_same: "same_disk d d' \<Longrightarrow> settled k d \<Longrightarrow> settled k d'"
  by (simp add: settled_def same_disk_def)

lemma created_sound: "created k bytes d \<Longrightarrow> disk_sound d"
  by (auto simp: created_def disk_sound_def dest!: of_file_number)

lemma disk_sound_same: "same_disk d d' \<Longrightarrow> disk_sound d \<Longrightarrow> disk_sound d'"
  by (simp add: disk_sound_def same_disk_def)

lemma looked_sound:
  assumes "looked (p\<lparr>the_lease := lease, sys_log := es\<rparr>) p'" "disk_sound (system p)"
  shows "disk_sound (system p')"
  using disk_sound_same[of "system p" "system p'"] assms by (simp add: looked_def)

lemma created_append:
  assumes "created k bytes d"
  shows "created k (bytes @ added) (disk_append added d)"
proof -
  obtain f where f: "the_marker d = Some f" "of_file k f" "file_bytes f = bytes"
    using assms by (auto simp: created_def)
  then have "dirty f (Some (f\<lparr>file_bytes := bytes @ added\<rparr>))" by (simp add: dirty_of_file of_file_append)
  with assms f show ?thesis
    by (auto simp: created_def disk_append_def of_file_append dirty_of_file private_mode_def)
qed

lemma new_file_private:
  "(new_file k)\<lparr>file_mode := 0x180\<rparr> = new_file k" "file_bytes (new_file k) = []"
  by (simp_all add: new_file_def)

lemma create_disk:
  assumes "the_marker d = None" "disk_sound d" "private_mode d"
  shows "wp (disk_open DIRECTORY_FD marker_name [O_WRONLY, O_CREAT 0x180, O_EXCL, O_CLOEXEC, O_NOFOLLOW])
    (\<lambda>opened d'. case opened of Inl e \<Rightarrow> same_disk d d'
       | Inr fd \<Rightarrow> fd = MARKER_FD \<and> created (next_number d) [] d') d"
proof -
  have "of_file k (new_file k)" for k by (simp add: of_file_def new_file_def)
  moreover from this have "dirty (new_file k) (Some f) = of_file k f" for k f by (rule dirty_of_file)
  ultimately show ?thesis
    unfolding disk_open_def
    by (intro wp_bindI wp_fate)
      (use assms in \<open>auto simp: wp_State Let_def same_disk_def created_def disk_sound_def private_mode_def new_file_private\<close>)
qed

lemma write_disk:
  assumes "created k bytes d"
  shows "wp (disk_write fd added) (\<lambda>count d'. case count of Inl e \<Rightarrow> created k bytes d'
    | Inr n \<Rightarrow> n \<le> length added \<and> created k (bytes @ take n added) d') d"
proof -
  have c: "created k bytes (d\<lparr>fates := fs\<rparr>)" for fs by (rule created_same[OF _ assms]) simp
  show ?thesis
    unfolding disk_write_def
    apply (rule wp_bindI, rule wp_fate)
    using c created_append[OF c]
    by (auto simp: wp_State min_def split: fate.splits)
qed

lemma writing:
  assumes "created k (take written contents) (system p)" "written \<le> length contents"
  shows "wp (write_from (disk_os n) fuel fd contents written)
    (\<lambda>count p'. created k (take count contents) (system p')) p"
  using assms
proof (induction fuel arbitrary: written p)
  case 0
  then show ?case by (simp add: note_sys_def wp_bind wp_State wp_return)
next
  case (Suc fuel)
  show ?case
    unfolding write_from.simps
  proof (rule wp_ifI)
    assume "\<not> written < length contents"
    then show "wp (ret written) (\<lambda>count p'. created k (take count contents) (system p')) p"
      using Suc.prems by (simp add: wp_return)
  next
    show "wp (do {
        count \<leftarrow> logged_call (sys_write (disk_os n) fd (drop written contents)) (Wrote fd (drop written contents));
        case count of
          Inr m \<Rightarrow> if 0 < m then write_from (disk_os n) fuel fd contents (written + m) else ret written
        | Inl e \<Rightarrow> if e = EINTR then write_from (disk_os n) fuel fd contents written else ret written
      }) (\<lambda>count p'. created k (take count contents) (system p')) p"
    proof (rule wp_bindI, rule wp_call_disk, unfold disk_os_simps, rule wp_mono[OF write_disk[OF Suc.prems(1)]])
      fix count :: "errno + nat" and d
      assume d: "case count of Inl e \<Rightarrow> created k (take written contents) d
        | Inr m \<Rightarrow> m \<le> length (drop written contents) \<and>
            created k (take written contents @ take m (drop written contents)) d"
      show "wp (case count of
          Inr m \<Rightarrow> if 0 < m then write_from (disk_os n) fuel fd contents (written + m) else ret written
        | Inl e \<Rightarrow> if e = EINTR then write_from (disk_os n) fuel fd contents written else ret written)
        (\<lambda>count p'. created k (take count contents) (system p'))
        (p\<lparr>system := d, sys_log := Wrote fd (drop written contents) count # sys_log p\<rparr>)"
        using d Suc.prems(2) by (auto simp: wp_return take_add intro!: Suc.IH split: sum.splits)
    qed
  qed
qed

lemma sync_file:
  assumes "created k bytes d"
  shows "wp (disk_fsync MARKER_FD) (\<lambda>b d'. created k bytes d' \<and> (b \<longrightarrow> settled k d')) d"
proof -
  obtain f where f: "the_marker d = Some f" "of_file k f" using assms by (auto simp: created_def)
  have "same_file (Some g) (Some f)" if "of_file k g" for g
    using that f(2) by (simp add: same_file_def of_file_number)
  with assms f show ?thesis
    unfolding disk_fsync_def
    by (intro wp_bindI wp_fate)
      (auto simp: wp_State created_def settled_def private_mode_def MARKER_FD_def DIRECTORY_FD_def)
qed

lemma sync_directory:
  assumes "created k bytes d"
  shows "wp (disk_fsync DIRECTORY_FD) (\<lambda>b d'. created k bytes d' \<and>
    (b \<and> settled k d \<longrightarrow> (\<forall>x. survives d' x \<longrightarrow> x = the_marker d'))) d"
proof -
  obtain f where f: "the_marker d = Some f" "of_file k f" using assms by (auto simp: created_def)
  have only: "x = Some f" if at: "survives d x" "same_file x (Some f)" "settled k d" for x
  proof -
    obtain g where g: "x = Some g" "file_number g = k"
      using at(2) f(2) by (cases x) (auto simp: same_file_def of_file_number)
    then have "of_file k g" using at(1) assms by (auto simp: created_def)
    with g at f show ?thesis by (simp add: settled_def)
  qed
  have settles: "created k bytes (d\<lparr>fates := fs, survives := \<lambda>x. survives d x \<and> same_file x (the_marker d)\<rparr>)" for fs
    using assms by (auto simp: created_def private_mode_def same_file_def)
  show ?thesis
    unfolding disk_fsync_def
    apply (rule wp_bindI, rule wp_fate)
    using settles created_same[of d "d\<lparr>fates := fs\<rparr>" for fs, OF _ assms] f(1)
    by (auto simp: wp_State intro: only)
qed

lemma bytes_of_length [simp]: "length (bytes_of s) = length s"
  by (simp add: bytes_of_def)

lemma created_written: "created k (bytes_of marker_contents) d \<Longrightarrow> the_marker d = Some f \<Longrightarrow> marker_written f"
proof -
  assume c: "created k (bytes_of marker_contents) d" "the_marker d = Some f"
  then have "f\<lparr>file_bytes := []\<rparr> = new_file k" "file_bytes f = bytes_of marker_contents"
    by (auto simp: created_def of_file_def)
  then show "marker_written f"
    by (cases f) (simp add: new_file_def marker_written_def marker_file_valid_def status_of_def)
qed

text \<open>Every crash leaves a marker that reads as pending.\<close>

definition marked_on_disk :: "marker_disk \<Rightarrow> bool" where
  "marked_on_disk d \<longleftrightarrow> private_mode d \<and> (\<forall>x. survives d x \<longrightarrow> (\<exists>f. x = Some f \<and> marker_written f))"

lemma wp_on_lease_any:
  "(\<And>b lease log. Q b (p\<lparr>the_lease := lease, sys_log := log\<rparr>)) \<Longrightarrow> wp (on_lease f c) Q p"
  by (simp add: on_lease_def wp_State split: prod.split)

lemma mark_disk:
  assumes "disk_sound (system p)"
  shows "wp (control_intent_mark_pending (disk_os n) DIRECTORY_FD)
    (\<lambda>b p'. disk_sound (system p') \<and> (b \<longrightarrow> marked_on_disk (system p'))) p"
proof -
  have finish: "wp (do {
      synced \<leftarrow> logged_call (disk_fsync DIRECTORY_FD) (Synced DIRECTORY_FD);
      ret (durable \<and> closed \<and> synced)
    }) (\<lambda>b p''. disk_sound (system p'') \<and> (b \<longrightarrow> marked_on_disk (system p''))) p'"
    if p': "created k bytes (system p')" "durable \<longrightarrow> settled k (system p') \<and> bytes = bytes_of marker_contents"
    for k bytes durable closed p'
  proof (rule wp_bindI, rule wp_call_disk, rule wp_mono[OF sync_directory[OF p'(1)]])
    fix synced d
    assume d: "created k bytes d \<and> (synced \<and> settled k (system p') \<longrightarrow> (\<forall>x. survives d x \<longrightarrow> x = the_marker d))"
    have "\<exists>f. x = Some f \<and> marker_written f" if "durable" "synced" "survives d x" for x
    proof -
      have "x = the_marker d" using d that p'(2) by blast
      moreover have "created k (bytes_of marker_contents) d" using conjunct1[OF d] that(1) p'(2) by simp
      ultimately show ?thesis using created_written[of k d] unfolding created_def by auto
    qed
    moreover have "private_mode d" "disk_sound d" using conjunct1[OF d] created_sound by (auto simp: created_def)
    ultimately show "wp (ret (durable \<and> closed \<and> synced))
      (\<lambda>b p''. disk_sound (system p'') \<and> (b \<longrightarrow> marked_on_disk (system p'')))
      (p'\<lparr>system := d, sys_log := Synced DIRECTORY_FD synced # sys_log p'\<rparr>)"
      by (simp add: wp_return marked_on_disk_def)
  qed
  have close: "wp (do {
      closed \<leftarrow> logged_call (disk_close MARKER_FD) (Closed_fd MARKER_FD);
      synced \<leftarrow> logged_call (disk_fsync DIRECTORY_FD) (Synced DIRECTORY_FD);
      ret (durable \<and> closed \<and> synced)
    }) (\<lambda>b p''. disk_sound (system p'') \<and> (b \<longrightarrow> marked_on_disk (system p''))) p'"
    if p': "created k bytes (system p')" "durable \<longrightarrow> settled k (system p') \<and> bytes = bytes_of marker_contents"
    for k bytes durable p'
    by (rule wp_bindI, rule wp_call_disk, rule wp_mono[OF wp_disk_close], rule finish)
      (use p' in \<open>auto intro: created_same settled_same\<close>)
  have written: "wp (do {
      durable \<leftarrow> and_then (ret (written = length marker_contents)) (logged_call (disk_fsync MARKER_FD) (Synced MARKER_FD));
      closed \<leftarrow> logged_call (disk_close MARKER_FD) (Closed_fd MARKER_FD);
      synced \<leftarrow> logged_call (disk_fsync DIRECTORY_FD) (Synced DIRECTORY_FD);
      ret (durable \<and> closed \<and> synced)
    }) (\<lambda>b p''. disk_sound (system p'') \<and> (b \<longrightarrow> marked_on_disk (system p''))) p'"
    if p': "created k (take written (bytes_of marker_contents)) (system p')" for k written p'
    apply (rule wp_bindI, unfold wp_and_then wp_return, rule if_boolI)
     apply (rule wp_call_disk, rule wp_mono[OF sync_file[OF p']])
     apply (rule close[where k = k and bytes = "take written (bytes_of marker_contents)"]; simp)
    by (rule close[OF p']) simp
  show ?thesis
    unfolding control_intent_mark_pending_def disk_os_simps
    apply (rule wp_bindI, rule wp_on_lease_any, rule wp_ifI, use assms in \<open>simp add: wp_return\<close>)
    apply (rule wp_bindI, rule wp_mono[OF read_disk], rule wp_ifI)
     apply (use assms in \<open>auto simp: wp_return dest: looked_sound\<close>)[1]
    apply (rule wp_bindI, rule wp_call_disk, rule wp_mono[OF create_disk])
       apply (auto simp: looked_def intent_fits_def same_disk_def)[1]
      apply (use assms in \<open>auto dest: looked_sound\<close>)[1]
     apply (auto simp: looked_def intent_fits_def same_disk_def private_mode_def)[1]
    apply (rule wp_case_sumI)
     apply (use assms in \<open>auto simp: wp_return dest: looked_sound disk_sound_same\<close>)[1]
    apply (rule wp_bindI, unfold write_all_def, rule wp_mono[OF writing])
      apply simp
     apply simp
    by (simp, rule written)
qed

section \<open>Removing the marker\<close>

lemma unlink_disk:
  assumes "disk_sound d"
  shows "wp (disk_unlink DIRECTORY_FD marker_name) (\<lambda>b d'. disk_sound d' \<and> (if b
      then the_marker d' = None \<and> survives d' = (\<lambda>x. survives d x \<or> x = None) \<and> private_mode d' = private_mode d
      else same_disk d d')) d"
  unfolding disk_unlink_def
  by (rule wp_bindI, rule wp_fate) (use assms in \<open>auto simp: wp_State same_disk_def disk_sound_def private_mode_def\<close>)

text \<open>Every crash leaves no marker.\<close>

definition unmarked_on_disk :: "marker_disk \<Rightarrow> bool" where
  "unmarked_on_disk d \<longleftrightarrow> private_mode d \<and> (\<forall>x. survives d x \<longrightarrow> x = None)"

lemma clear_disk:
  assumes "disk_sound (system p)"
  shows "wp (control_intent_clear_verified (disk_os n) DIRECTORY_FD)
    (\<lambda>b p'. disk_sound (system p') \<and> (b \<longrightarrow> unmarked_on_disk (system p')) \<and>
      (\<forall>x. survives (system p') x \<longrightarrow> survives (system p) x \<or> x = None)) p"
proof -
  have sync: "wp (logged_call (disk_fsync DIRECTORY_FD) (Synced DIRECTORY_FD))
      (\<lambda>b p''. disk_sound (system p'') \<and> (b \<longrightarrow> unmarked_on_disk (system p'')) \<and>
        (\<forall>x. survives (system p'') x \<longrightarrow> survives (system p) x \<or> x = None)) p'"
    if "the_marker (system p') = None" "disk_sound (system p')" "private_mode (system p')"
      "\<forall>x. survives (system p') x \<longrightarrow> survives (system p) x \<or> x = None" for p'
    by (rule wp_call_disk, unfold disk_fsync_def, rule wp_bindI, rule wp_fate)
      (use that in \<open>auto simp: wp_State unmarked_on_disk_def disk_sound_def private_mode_def same_file_def\<close>)
  show ?thesis
    unfolding control_intent_clear_verified_def disk_os_simps
    apply (rule wp_bindI, rule wp_mono[OF read_disk], rule wp_ifI)
     apply (use assms in \<open>auto simp: wp_return looked_def disk_sound_same same_disk_def\<close>)[1]
    apply (rule wp_bindI, rule wp_on_lease_any, rule wp_ifI)
     apply (use assms in \<open>auto simp: wp_return looked_def disk_sound_same same_disk_def\<close>)[1]
    apply (rule wp_bindI, rule wp_call_disk, rule wp_mono[OF unlink_disk])
     apply (use assms in \<open>auto simp: looked_def disk_sound_same\<close>)[1]
    apply (rule wp_ifI)
     apply (auto simp: wp_return looked_def same_disk_def)[1]
    by (rule sync) (auto simp: looked_def same_disk_def intent_fits_def private_mode_def)
qed

section \<open>After a crash\<close>

lemma disk_calls:
  assumes "fates d = []"
  shows "run_state (disk_fstat DIRECTORY_FD) d = (Some (directory_status_of d), d)"
    "run_state (disk_fstat MARKER_FD) d = (map_option status_of (the_marker d), d)"
    "run_state (disk_close fd) d = (True, d)"
    "run_state (disk_read fd wanted) d = disk_take wanted d"
    "run_state (disk_open DIRECTORY_FD marker_name [O_RDONLY, O_CLOEXEC, O_NOFOLLOW]) d =
      (case the_marker d of None \<Rightarrow> (Inl ENOENT, d)
       | Some f \<Rightarrow> if file_kind_of f = OtherKind then (Inl OtherErrno, d) else (Inr MARKER_FD, d\<lparr>offset := 0\<rparr>))"
  using assms
  by (simp_all add: disk_fstat_def disk_close_def disk_read_def disk_open_def fate_of_def MARKER_FD_def DIRECTORY_FD_def
      split: option.splits)

lemma wp_run: "run_state m d = (r, d') \<Longrightarrow> Q r d' \<Longrightarrow> wp m Q d"
  by (simp add: wp_def)

lemma wp_full:
  assumes "\<not> length got < wanted"
  shows "wp (read_from os fuel fd wanted got) (\<lambda>bytes p'. bytes = got \<and> system p' = system p \<and> the_lease p' = the_lease p) p"
  using assms by (cases fuel) (simp_all add: note_sys_def wp_bind wp_State wp_return)

text \<open>What is read without faults.\<close>

definition calm_intent :: "marker_disk \<Rightarrow> control_intent_status" where
  "calm_intent d = (if \<not> private_mode d then CONTROL_INTENT_UNKNOWN
     else case the_marker d of
       None \<Rightarrow> CONTROL_INTENT_CLEAR
     | Some f \<Rightarrow> if marker_written f then CONTROL_INTENT_PENDING else CONTROL_INTENT_UNKNOWN)"

definition at_rest :: "marker_disk parent \<Rightarrow> marker_disk parent \<Rightarrow> bool" where
  "at_rest p p' \<longleftrightarrow> the_lease p' = the_lease p \<and> fates (system p') = [] \<and>
     (system p')\<lparr>offset := 0\<rparr> = (system p)\<lparr>offset := 0\<rparr>"

lemma at_rest_trans: "at_rest p p' \<Longrightarrow> at_rest p' p'' \<Longrightarrow> at_rest p p''"
  by (simp add: at_rest_def)

lemma at_rest_log [simp]: "at_rest p (p'\<lparr>sys_log := es\<rparr>) = at_rest p p'" "at_rest (p\<lparr>sys_log := es\<rparr>) p' = at_rest p p'"
  by (simp_all add: at_rest_def)

lemma calm_contents:
  assumes "fates (system p) = []" "offset (system p) = 0" "the_marker (system p) = Some f"
    "length (file_bytes f) = length marker_contents"
  shows "wp (read_up_to (disk_os (Suc n)) fd (length marker_contents)) (\<lambda>bytes p'. bytes = file_bytes f \<and> at_rest p p') p"
proof -
  have "0 < length marker_contents" by (simp add: marker_contents_def)
  moreover have "disk_take (length marker_contents) (system p) =
      (Inr (file_bytes f), (system p)\<lparr>offset := length marker_contents\<rparr>)"
    using assms by (simp add: disk_take_def)
  moreover have "wp (read_from (disk_os (Suc n)) n fd (length marker_contents) (file_bytes f))
      (\<lambda>bytes p'. bytes = file_bytes f \<and> at_rest p p') p'" if "at_rest p p'" for p'
    by (rule wp_mono[OF wp_full]) (use that assms in \<open>simp_all add: at_rest_def\<close>)
  ultimately show ?thesis
    unfolding read_up_to_def disk_os_simps read_from.simps
    using assms by (auto simp: wp_bind wp_in_system disk_calls at_rest_def)
qed

lemma descriptor_nonneg: "\<not> DIRECTORY_FD < 0"
  by (simp add: DIRECTORY_FD_def)

lemma calm_reading:
  assumes "fates (system p) = []"
  shows "wp (control_intent_read (disk_os (Suc n)) DIRECTORY_FD)
    (\<lambda>intent p'. intent = calm_intent (system p) \<and> at_rest p p') p"
proof -
  have finish: "wp (read_up_to (disk_os (Suc n)) MARKER_FD (length marker_contents)) Q p'"
    if "fates (system p') = []" "offset (system p') = 0" "the_marker (system p') = Some f"
      "marker_file_valid (status_of f) 0" "\<And>p''. at_rest p' p'' \<Longrightarrow> Q (file_bytes f) p''" for p' f Q
    by (rule wp_mono[OF calm_contents[OF that(1-3)]])
      (use that(4,5) in \<open>simp_all add: marker_file_valid_def status_of_def\<close>)
  have other: "\<not> marker_file_valid (status_of f) 0" if "file_kind_of f = OtherKind" for f
    using that by (simp add: marker_file_valid_def status_of_def)
  show ?thesis
    using assms
    by (auto simp: control_intent_read_def private_directory_def wp_bind wp_if wp_in_system wp_logged_eq wp_return
      disk_calls directory_status_of_def private_mode_def descriptor_nonneg calm_intent_def at_rest_def
      marker_written_def other split: option.splits intro!: finish)
qed

text \<open>What the next process reads is what the entry found says.\<close>

lemma intent_found: "intent_after_crash (Suc n) d x = calm_intent (restarted d x)"
  using calm_reading[of "process_on (restarted d x)" n]
  by (simp add: intent_after_crash_def wp_def process_on_def restarted_def split: prod.splits)

lemma crash_clear: "private_mode d \<Longrightarrow> intent_after_crash (Suc n) d None = CONTROL_INTENT_CLEAR"
  by (simp add: intent_found calm_intent_def restarted_def private_mode_def)

lemma crash_pending:
  "private_mode d \<Longrightarrow> marker_written f \<Longrightarrow> intent_after_crash (Suc n) d (Some f) = CONTROL_INTENT_PENDING"
  by (simp add: intent_found calm_intent_def restarted_def private_mode_def)

section \<open>Properties\<close>

text \<open>C15: When setting the marker succeeds, the marker survives a crash: whatever calls before failed, were
  interrupted or fell short, and whichever of the entries a power failure may leave is found, the next
  process reads the intent as pending.\<close>

theorem marker_survives_crash:
  assumes "disk_sound (system p)"
    and "run_state (control_intent_mark_pending (disk_os n) DIRECTORY_FD) p = (True, p')"
  shows "survives (system p') (the_marker (system p')) \<and>
    (\<forall>x. survives (system p') x \<longrightarrow>
      intent_after_crash (Suc fuel) (system p') x = CONTROL_INTENT_PENDING)"
  using wpD[OF mark_disk[OF assms(1)] assms(2)]
  by (auto simp: marked_on_disk_def disk_sound_def crash_pending)

text \<open>C16: When clearing the marker succeeds, every crash leaves the journal clear; when it fails, a crash
  finds what it could have found before, or no marker.\<close>

theorem removal_survives_crash:
  assumes "disk_sound (system p)"
    and "run_state (control_intent_clear_verified (disk_os n) DIRECTORY_FD) p = (cleared, p')"
  shows "survives (system p') (the_marker (system p')) \<and>
    (\<forall>x. survives (system p') x \<longrightarrow>
      (if cleared then intent_after_crash (Suc fuel) (system p') x = CONTROL_INTENT_CLEAR
       else survives (system p) x \<or> x = None))"
  using wpD[OF clear_disk[OF assms(1)] assms(2)]
  by (auto simp: unmarked_on_disk_def disk_sound_def crash_clear)

end
