(* ===== verification/LeaseTests.thy ===== *)
theory LeaseTests
  imports ControlLease
begin

text \<open>
  The repository's test of the control lease, \<open>ControlLeaseTest.c\<close>, on the model. A test is an option: \<open>None\<close> when an assertion fails, which aborts the process.
\<close>

definition assert_that :: "bool \<Rightarrow> unit option" where
  "assert_that c = (if c then Some () else None)"

section \<open>The lease\<close>

definition TEST_SECOND :: u64 where "TEST_SECOND = 1000000000"

definition system_snapshot :: smc_baseline_snapshot where
  "system_snapshot = zero_snapshot
     \<lparr>snap_mode := (snap_mode zero_snapshot)(0 := 3, 1 := 3),
      snap_temperatures_c := (snap_temperatures_c zero_snapshot)(0 := Fin 55, 1 := Fin 45, 2 := Fin 30)\<rparr>"

definition altered_snapshot :: smc_baseline_snapshot where
  "altered_snapshot = system_snapshot
     \<lparr>snap_ftst := 1, snap_mode := (snap_mode system_snapshot)(0 := 0, 1 := 0),
      snap_target_rpm := (snap_target_rpm system_snapshot)(0 := Fin 1350, 1 := Fin 1458)\<rparr>"

definition with_temperature :: "nat \<Rightarrow> rat \<Rightarrow> smc_baseline_snapshot \<Rightarrow> smc_baseline_snapshot" where
  "with_temperature sensor celsius snapshot =
     snapshot\<lparr>snap_temperatures_c := (snap_temperatures_c snapshot)(sensor := Fin celsius)\<rparr>"

text \<open>One sample a second, for the seconds from 1 up to, but not including, \<open>n\<close>.\<close>

definition sample_seconds ::
  "nat \<Rightarrow> control_lease option \<Rightarrow> u64 \<Rightarrow> smc_baseline_snapshot option \<Rightarrow> control_lease option" where
  "sample_seconds n lease start snapshot =
     fold (\<lambda>second lease. control_lease_sample lease SMC_BASELINE_OK snapshot
       (start + of_nat second * TEST_SECOND)) [1..<n] lease"

definition finish_baseline_window ::
  "control_lease option \<Rightarrow> u64 \<Rightarrow> smc_baseline_snapshot option \<Rightarrow> control_lease option \<times> u64" where
  "finish_baseline_window lease start snapshot =
     (sample_seconds (unat CONTROL_LEASE_REQUIRED_SAMPLES) lease start snapshot,
      start + CONTROL_LEASE_BASELINE_NS)"

text \<open>The lease, the time and the snapshot that \<open>stable_lease\<close> leaves.\<close>

definition stable_lease_test :: "control_lease option \<times> u64 \<times> smc_baseline_snapshot" where
  "stable_lease_test = (let
     snapshot = system_snapshot;
     start = TEST_SECOND;
     lease = control_lease_start (Some zero_lease) CONTROL_INTENT_CLEAR SMC_BASELINE_OK (Some snapshot) start;
     (lease, now) = finish_baseline_window lease start (Some snapshot)
   in (lease, now, snapshot))"

definition startup_requires_the_full_window_and_explicit_capability :: "unit option" where
  "startup_requires_the_full_window_and_explicit_capability = do {
     let lease = Some zero_lease;
     let snapshot = system_snapshot;
     let lease = control_lease_start lease CONTROL_INTENT_CLEAR SMC_BASELINE_OK (Some snapshot)
         TEST_SECOND;
     assert_that (lease_state (the lease) = CONTROL_LEASE_OBSERVING \<and> lease_samples (the lease) =
         1);
     let (ok, lease) = control_lease_claim lease 7 (2 * TEST_SECOND) True CONTROL_INTENT_CLEAR
         SMC_BASELINE_OK (Some snapshot);
     assert_that (\<not> ok);
     let lease = sample_seconds 60 lease TEST_SECOND (Some snapshot);
     assert_that (lease_state (the lease) = CONTROL_LEASE_OBSERVING \<and> lease_samples (the lease) =
         60);
     let lease = control_lease_sample lease SMC_BASELINE_OK (Some snapshot) (61 * TEST_SECOND);
     assert_that (lease_state (the lease) = CONTROL_LEASE_STABLE \<and> lease_samples (the lease) = 61);
     let (ok, lease) = control_lease_claim lease 7 (61 * TEST_SECOND) False CONTROL_INTENT_CLEAR
         SMC_BASELINE_OK (Some snapshot);
     assert_that (\<not> ok);
     let (ok, lease) = control_lease_claim lease 7 (61 * TEST_SECOND) True CONTROL_INTENT_CLEAR
         SMC_BASELINE_OK (Some snapshot);
     assert_that ok;
     assert_that (lease_state (the lease) = CONTROL_LEASE_HELD \<and> lease_owner (the lease) = 7);
     let (ok, lease) = control_lease_claim lease 8 (61 * TEST_SECOND) True CONTROL_INTENT_CLEAR
         SMC_BASELINE_OK (Some snapshot);
     assert_that (\<not> ok);
     assert_that (lease_owner (the lease) = 7)
   }"

definition changed_startup_never_grants_from_one_later_baseline :: "unit option" where
  "changed_startup_never_grants_from_one_later_baseline = do {
     let lease = Some zero_lease;
     let changed = altered_snapshot;
     let baseline = system_snapshot;
     let lease = control_lease_start lease CONTROL_INTENT_CLEAR SMC_BASELINE_OK (Some changed)
         TEST_SECOND;
     assert_that (lease_state (the lease) = CONTROL_LEASE_RECOVERY_REQUIRED);
     let lease = control_lease_sample lease SMC_BASELINE_OK (Some baseline) (2 * TEST_SECOND);
     assert_that (lease_state (the lease) = CONTROL_LEASE_RECOVERY_REQUIRED);
     let (ok, lease) = control_lease_claim lease 7 (2 * TEST_SECOND) True CONTROL_INTENT_CLEAR
         SMC_BASELINE_OK (Some baseline);
     assert_that (\<not> ok);
     let lease = control_lease_recovery_started lease SMC_BASELINE_OK (Some baseline) (3 * TEST_SECOND);
     assert_that (lease_state (the lease) = CONTROL_LEASE_VERIFYING_RECOVERY \<and> lease_samples (the
         lease) = 1);
     let (lease, _) = finish_baseline_window lease (3 * TEST_SECOND) (Some baseline);
     assert_that (lease_state (the lease) = CONTROL_LEASE_STABLE)
   }"

definition write_intent_and_client_loss_require_new_verification :: "unit option" where
  "write_intent_and_client_loss_require_new_verification = do {
     let lease = Some zero_lease;
     let baseline = zero_snapshot;
     let (lease, now, baseline) = stable_lease_test;
     let (ok, lease) = control_lease_claim lease 23 now True CONTROL_INTENT_CLEAR SMC_BASELINE_OK (Some
         baseline);
     assert_that ok;
     let (ok, lease) = control_lease_mark_write_pending lease 99 now CONTROL_INTENT_PENDING;
     assert_that (\<not> ok);
     let (ok, lease) = control_lease_mark_write_pending lease 23 now CONTROL_INTENT_PENDING;
     assert_that ok;
     assert_that (write_pending (the lease));
     let lease = control_lease_owner_lost lease 99;
     assert_that (lease_state (the lease) = CONTROL_LEASE_HELD);
     let lease = control_lease_owner_lost lease 23;
     assert_that (lease_state (the lease) = CONTROL_LEASE_RECOVERY_REQUIRED \<and> write_pending (the
         lease));
     let (ok, lease) = control_lease_renew lease 23 (now + TEST_SECOND) CONTROL_INTENT_CLEAR
         SMC_BASELINE_OK (Some baseline);
     assert_that (\<not> ok);
     let lease = control_lease_recovery_started lease SMC_BASELINE_OK (Some baseline) (now +
         TEST_SECOND);
     assert_that (lease_state (the lease) = CONTROL_LEASE_VERIFYING_RECOVERY);
     let changed = altered_snapshot;
     let lease = control_lease_sample lease SMC_BASELINE_OK (Some changed) (now + 2 * TEST_SECOND);
     assert_that (lease_state (the lease) = CONTROL_LEASE_RECOVERY_REQUIRED);
     let lease = control_lease_recovery_started lease SMC_BASELINE_OK (Some baseline) (now + 3 *
         TEST_SECOND);
     let (lease, _) = finish_baseline_window lease (now + 3 * TEST_SECOND) (Some baseline);
     assert_that (lease_state (the lease) = CONTROL_LEASE_STABLE \<and> \<not> write_pending (the
         lease))
   }"

definition deadline_and_sleep_fail_closed :: "unit option" where
  "deadline_and_sleep_fail_closed = do {
     let lease = Some zero_lease;
     let baseline = zero_snapshot;
     let (lease, now, baseline) = stable_lease_test;
     let (ok, lease) = control_lease_claim lease 31 now True CONTROL_INTENT_CLEAR SMC_BASELINE_OK (Some
         baseline);
     assert_that ok;
     let lease = control_lease_tick lease (now + CONTROL_LEASE_TTL_NS - 1);
     assert_that (lease_state (the lease) = CONTROL_LEASE_HELD);
     let lease = control_lease_tick lease (now + CONTROL_LEASE_TTL_NS);
     assert_that (lease_state (the lease) = CONTROL_LEASE_RECOVERY_REQUIRED);
     let (lease, now, baseline) = stable_lease_test;
     let (ok, lease) = control_lease_claim lease 31 now True CONTROL_INTENT_CLEAR SMC_BASELINE_OK (Some
         baseline);
     assert_that ok;
     let (ok, lease) = control_lease_mark_write_pending lease 31 now CONTROL_INTENT_PENDING;
     assert_that ok;
     let lease = control_lease_sleep lease;
     assert_that (lease_state (the lease) = CONTROL_LEASE_RECOVERY_REQUIRED);
     let lease = control_lease_start lease CONTROL_INTENT_PENDING SMC_BASELINE_OK (Some baseline) (now +
         TEST_SECOND);
     assert_that (lease_state (the lease) = CONTROL_LEASE_RECOVERY_REQUIRED \<and> write_pending (the
         lease))
   }"

definition system_reclaim_and_stale_reads_end_or_deny_a_lease :: "unit option" where
  "system_reclaim_and_stale_reads_end_or_deny_a_lease = do {
     let lease = Some zero_lease;
     let baseline = zero_snapshot;
     let (lease, now, baseline) = stable_lease_test;
     let (ok, lease) = control_lease_claim lease 37 (now + 3 * TEST_SECOND) True CONTROL_INTENT_CLEAR
         SMC_BASELINE_OK (Some baseline);
     assert_that (\<not> ok);
     assert_that (lease_state (the lease) = CONTROL_LEASE_STABLE);
     let (ok, lease) = control_lease_claim lease 37 now True CONTROL_INTENT_CLEAR SMC_BASELINE_OK (Some
         baseline);
     assert_that ok;
     let (ok, lease) = control_lease_renew lease 99 (now + TEST_SECOND) CONTROL_INTENT_CLEAR
         SMC_BASELINE_OK (Some baseline);
     assert_that (\<not> ok);
     assert_that (lease_state (the lease) = CONTROL_LEASE_HELD);
     let (ok, lease) = control_lease_mark_write_pending lease 37 now CONTROL_INTENT_PENDING;
     assert_that ok;
     let (ok, lease) = control_lease_renew lease 37 (now + TEST_SECOND) CONTROL_INTENT_PENDING
         SMC_BASELINE_OK (Some baseline);
     assert_that (\<not> ok);
     assert_that (lease_state (the lease) = CONTROL_LEASE_RECOVERY_REQUIRED);
     let (lease, now, baseline) = stable_lease_test;
     let (ok, lease) = control_lease_claim lease 37 now True CONTROL_INTENT_CLEAR SMC_BASELINE_OK (Some
         baseline);
     assert_that ok;
     let (ok, lease) = control_lease_renew lease 37 (now - 1) CONTROL_INTENT_CLEAR SMC_BASELINE_OK (Some
         baseline);
     assert_that (\<not> ok);
     assert_that (lease_state (the lease) = CONTROL_LEASE_RECOVERY_REQUIRED);
     let (lease, now, baseline) = stable_lease_test;
     let (ok, lease) = control_lease_claim lease 37 now True CONTROL_INTENT_CLEAR SMC_BASELINE_OK (Some
         baseline);
     assert_that ok;
     let changed = altered_snapshot;
     let (ok, lease) = control_lease_renew lease 37 (now + TEST_SECOND) CONTROL_INTENT_CLEAR
         SMC_BASELINE_OK (Some changed);
     assert_that (\<not> ok);
     assert_that (lease_state (the lease) = CONTROL_LEASE_RECOVERY_REQUIRED)
   }"

definition invalid_reads_timing_and_temperature_never_grant :: "unit option" where
  "invalid_reads_timing_and_temperature_never_grant = do {
     let lease = Some zero_lease;
     let baseline = system_snapshot;
     let lease = control_lease_start lease CONTROL_INTENT_CLEAR SMC_BASELINE_READ_FAILED None
         TEST_SECOND;
     assert_that (lease_state (the lease) = CONTROL_LEASE_READ_FAILED);
     let lease = control_lease_start lease CONTROL_INTENT_CLEAR SMC_BASELINE_OK (Some baseline)
         TEST_SECOND;
     let lease = control_lease_sample lease SMC_BASELINE_OK (Some baseline) TEST_SECOND;
     assert_that (lease_state (the lease) = CONTROL_LEASE_READ_FAILED);
     let (lease, now, baseline) = stable_lease_test;
     let baseline = with_temperature 0 75 baseline;
     let (ok, lease) = control_lease_claim lease 41 now True CONTROL_INTENT_CLEAR SMC_BASELINE_OK (Some
         baseline);
     assert_that (\<not> ok);
     assert_that (lease_state (the lease) = CONTROL_LEASE_RECOVERY_REQUIRED);
     let (lease, now, baseline) = stable_lease_test;
     let (ok, lease) = control_lease_claim lease 41 now False CONTROL_INTENT_CLEAR SMC_BASELINE_OK (Some
         baseline);
     assert_that (\<not> ok);
     assert_that (lease_state (the lease) = CONTROL_LEASE_STABLE);
     let (ok, lease) = control_lease_claim lease 41 now True CONTROL_INTENT_CLEAR SMC_BASELINE_OK (Some
         baseline);
     assert_that ok;
     let baseline = with_temperature 1 75 baseline;
     let (ok, lease) = control_lease_renew lease 41 (now + TEST_SECOND) CONTROL_INTENT_CLEAR
         SMC_BASELINE_OK (Some baseline);
     assert_that (\<not> ok);
     assert_that (lease_state (the lease) = CONTROL_LEASE_RECOVERY_REQUIRED)
   }"

definition restart_rechecks_hardware_instead_of_reusing_memory :: "unit option" where
  "restart_rechecks_hardware_instead_of_reusing_memory = do {
     let lease = Some zero_lease;
     let baseline = zero_snapshot;
     let (lease, now, baseline) = stable_lease_test;
     let (ok, lease) = control_lease_claim lease 51 now True CONTROL_INTENT_CLEAR SMC_BASELINE_OK (Some
         baseline);
     assert_that ok;
     let (ok, lease) = control_lease_mark_write_pending lease 51 now CONTROL_INTENT_PENDING;
     assert_that ok;
     let changed = altered_snapshot;
     let lease = control_lease_start lease CONTROL_INTENT_PENDING SMC_BASELINE_OK (Some changed) (now +
         TEST_SECOND);
     assert_that (lease_state (the lease) = CONTROL_LEASE_RECOVERY_REQUIRED);
     assert_that (lease_owner (the lease) = 0 \<and> lease_samples (the lease) = 0);
     let lease = control_lease_start lease CONTROL_INTENT_PENDING SMC_BASELINE_OK (Some baseline) (now +
         2 * TEST_SECOND);
     assert_that (lease_state (the lease) = CONTROL_LEASE_RECOVERY_REQUIRED \<and> write_pending (the
         lease));
     let (ok, lease) = control_lease_claim lease 51 (now + 2 * TEST_SECOND) True CONTROL_INTENT_PENDING
         SMC_BASELINE_OK (Some baseline);
     assert_that (\<not> ok);
     let lease = control_lease_recovery_started lease SMC_BASELINE_OK (Some baseline) (now + 3 *
         TEST_SECOND);
     let (lease, _) = finish_baseline_window lease (now + 3 * TEST_SECOND) (Some baseline);
     assert_that (lease_state (the lease) = CONTROL_LEASE_STABLE);
     let (ok, lease) = control_lease_claim lease 51 (now + 63 * TEST_SECOND) True CONTROL_INTENT_PENDING
         SMC_BASELINE_OK (Some baseline);
     assert_that (\<not> ok);
     assert_that (lease_state (the lease) = CONTROL_LEASE_RECOVERY_REQUIRED)
   }"

definition missing_or_corrupt_intent_marker_ends_a_lease :: "unit option" where
  "missing_or_corrupt_intent_marker_ends_a_lease = do {
     let lease = Some zero_lease;
     let baseline = zero_snapshot;
     let baseline = system_snapshot;
     let lease = control_lease_start lease CONTROL_INTENT_UNKNOWN SMC_BASELINE_OK (Some baseline)
         TEST_SECOND;
     assert_that (lease_state (the lease) = CONTROL_LEASE_RECOVERY_REQUIRED \<and> write_pending (the
         lease));
     let (lease, now, baseline) = stable_lease_test;
     let (ok, lease) = control_lease_claim lease 61 now True CONTROL_INTENT_CLEAR SMC_BASELINE_OK (Some
         baseline);
     assert_that ok;
     let (ok, lease) = control_lease_mark_write_pending lease 61 now CONTROL_INTENT_CLEAR;
     assert_that (\<not> ok);
     assert_that (lease_state (the lease) = CONTROL_LEASE_RECOVERY_REQUIRED);
     let (lease, now, baseline) = stable_lease_test;
     let (ok, lease) = control_lease_claim lease 61 now True CONTROL_INTENT_CLEAR SMC_BASELINE_OK (Some
         baseline);
     assert_that ok;
     let (ok, lease) = control_lease_mark_write_pending lease 61 now CONTROL_INTENT_PENDING;
     assert_that ok;
     let (ok, lease) = control_lease_renew lease 61 (now + TEST_SECOND) CONTROL_INTENT_UNKNOWN
         SMC_BASELINE_OK (Some baseline);
     assert_that (\<not> ok);
     assert_that (lease_state (the lease) = CONTROL_LEASE_RECOVERY_REQUIRED)
   }"

definition recovery_proof_requires_a_full_window_and_is_one_use :: "unit option" where
  "recovery_proof_requires_a_full_window_and_is_one_use = do {
     let lease = Some zero_lease;
     let baseline = zero_snapshot;
     let (lease, now, baseline) = stable_lease_test;
     let (ok, lease) = control_lease_take_recovery_proof lease;
     assert_that (\<not> ok);
     let lease = control_lease_start lease CONTROL_INTENT_PENDING SMC_BASELINE_OK (Some baseline) (now +
         TEST_SECOND);
     let (ok, lease) = control_lease_take_recovery_proof lease;
     assert_that (\<not> ok);
     let lease = control_lease_recovery_started lease SMC_BASELINE_OK (Some baseline) (now + 2 *
         TEST_SECOND);
     let (ok, lease) = control_lease_take_recovery_proof lease;
     assert_that (\<not> ok);
     let (lease, _) = finish_baseline_window lease (now + 2 * TEST_SECOND) (Some baseline);
     assert_that (recovery_verified (the lease));
     let (ok, lease) = control_lease_take_recovery_proof lease;
     assert_that ok;
     let (ok, lease) = control_lease_take_recovery_proof lease;
     assert_that (\<not> ok)
   }"

definition interrupted_recovery_never_creates_a_journal_proof :: "unit option" where
  "interrupted_recovery_never_creates_a_journal_proof = do {
     let snapshot = system_snapshot;
     let lease = Some zero_lease;
     let lease = control_lease_start lease CONTROL_INTENT_PENDING SMC_BASELINE_OK (Some snapshot)
         TEST_SECOND;
     let lease = control_lease_recovery_started lease SMC_BASELINE_OK (Some snapshot) (2 * TEST_SECOND);
     let lease = control_lease_sample lease SMC_BASELINE_OK (Some snapshot) (8 * TEST_SECOND);
     assert_that (lease_state (the lease) = CONTROL_LEASE_READ_FAILED);
     let (ok, lease) = control_lease_take_recovery_proof lease;
     assert_that (\<not> ok);
     let (lease, _) = finish_baseline_window lease (8 * TEST_SECOND) (Some snapshot);
     assert_that (lease_state (the lease) = CONTROL_LEASE_READ_FAILED)
   }"

definition lease_test_main :: "(string \<times> int) option" where
  "lease_test_main = do {
     startup_requires_the_full_window_and_explicit_capability;
     changed_startup_never_grants_from_one_later_baseline;
     write_intent_and_client_loss_require_new_verification;
     deadline_and_sleep_fail_closed;
     system_reclaim_and_stale_reads_end_or_deny_a_lease;
     invalid_reads_timing_and_temperature_never_grant;
     restart_rechecks_hardware_instead_of_reusing_memory;
     missing_or_corrupt_intent_marker_ends_a_lease;
     recovery_proof_requires_a_full_window_and_is_one_use;
     interrupted_recovery_never_creates_a_journal_proof;
     assert_that (strcmp_eq (control_lease_state_name CONTROL_LEASE_RECOVERY_REQUIRED) ''recovery_required'');
     Some (''control lease tests passed'', 0)
   }"

section \<open>Windows\<close>

lemma snapshot_facts:
  "smc_baseline_is_system (Some system_snapshot)" "cool_enough system_snapshot"
  "\<not> smc_baseline_is_system (Some altered_snapshot)"
  "\<not> cool_enough (with_temperature 0 75 system_snapshot)" "\<not> cool_enough (with_temperature (Suc 0) 75 system_snapshot)"
  "smc_baseline_is_system (Some (with_temperature sensor celsius system_snapshot))"
  by (auto simp: snapshot_is_system_iff system_snapshot_def altered_snapshot_def zero_snapshot_def less_2_cases_iff
      cool_enough_def smc_baseline_temperature_valid_def upt_small with_temperature_def)

lemma start_plus:
  assumes "unat (start :: u64) \<le> 1000000000000" "k \<le> 1000"
  shows "unat (start + of_nat k * TEST_SECOND) = unat start + k * 1000000000"
proof -
  have "k * 1000000000 \<le> 1000000000000" using assms(2) by simp
  with assms(1) have small: "unat start + k * 1000000000 < 2 ^ 64" by simp
  have "start + of_nat k * TEST_SECOND = of_nat (unat start + k * 1000000000)"
    by (simp add: TEST_SECOND_def)
  with small show ?thesis by (simp only:) (rule of_nat_inverse[OF refl], simp)
qed

lemma next_second:
  assumes "unat (start :: u64) \<le> 1000000000000" "k < 1000"
  shows "\<not> start + of_nat (Suc k) * TEST_SECOND \<le> start + of_nat k * TEST_SECOND"
    "start + of_nat (Suc k) * TEST_SECOND - (start + of_nat k * TEST_SECOND) = 1000000000"
proof -
  show "\<not> start + of_nat (Suc k) * TEST_SECOND \<le> start + of_nat k * TEST_SECOND"
    unfolding word_le_nat_alt using assms start_plus[OF assms(1), of k] start_plus[OF assms(1), of "Suc k"]
    by (simp del: of_nat_Suc)
  show "start + of_nat (Suc k) * TEST_SECOND - (start + of_nat k * TEST_SECOND) = 1000000000"
    by (simp add: TEST_SECOND_def algebra_simps)
qed

text \<open>A lease that has just started a window, after samples up to second \<open>k\<close>.\<close>

definition sampled :: "control_lease \<Rightarrow> nat \<Rightarrow> u64 \<Rightarrow> control_lease" where
  "sampled lease k start = lease\<lparr>last_sample_ns := start + of_nat k * TEST_SECOND, lease_samples := of_nat (Suc k)\<rparr>"

definition window_open :: "control_lease \<Rightarrow> u64 \<Rightarrow> bool" where
  "window_open lease start \<longleftrightarrow> lease_active lease \<and> observation_started_ns lease = start \<and>
     last_sample_ns lease = start \<and> lease_samples lease = 1 \<and> unat start \<le> 1000000000000"

lemma sampled_step:
  assumes "window_open lease start" "k < 59" "smc_baseline_is_system (Some snapshot)"
  shows "control_lease_sample (Some (sampled lease k start)) SMC_BASELINE_OK (Some snapshot)
      (start + of_nat (Suc k) * TEST_SECOND) = Some (sampled lease (Suc k) start)"
proof -
  have few: "\<not> (61 :: u32) \<le> of_nat (Suc (Suc k))"
    using assms(2) by (simp add: word_le_nat_alt unat_of_nat del: of_nat_Suc)
  have start: "unat start \<le> 1000000000000" using assms(1) by (simp add: window_open_def)
  have "lease_samples (sampled lease k start) + 1 = of_nat (Suc (Suc k))"
    by (simp add: sampled_def)
  with few next_second[OF start, of k] assms show ?thesis
    by (auto simp: control_lease_sample_def sampled_def valid_read_def window_open_def lease_active_def
        lease_constants Let_def simp del: of_nat_Suc)
qed

lemma sample_seconds_open:
  assumes "window_open lease start" "smc_baseline_is_system (Some snapshot)" "k \<le> 59"
  shows "sample_seconds (Suc k) (Some lease) start (Some snapshot) = Some (sampled lease k start)"
  using assms(3)
proof (induction k)
  case 0
  show ?case using assms(1) by (simp add: sample_seconds_def sampled_def window_open_def)
next
  case (Suc k)
  then show ?case
    using sampled_step[OF assms(1) _ assms(2), of k] by (simp add: sample_seconds_def del: of_nat_Suc)
qed

definition settled_lease :: "control_lease \<Rightarrow> u64 \<Rightarrow> control_lease" where
  "settled_lease lease start = lease\<lparr>last_sample_ns := start + 60000000000, lease_samples := 61,
     recovery_verified := (lease_state lease = CONTROL_LEASE_VERIFYING_RECOVERY),
     lease_state := CONTROL_LEASE_STABLE, write_pending := False, lease_owner := 0, expires_at_ns := 0\<rparr>"

lemma last_sample:
  assumes "window_open lease start" "smc_baseline_is_system (Some snapshot)"
  shows "control_lease_sample (Some (sampled lease 59 start)) SMC_BASELINE_OK (Some snapshot)
      (start + 60000000000) = Some (settled_lease lease start)"
proof -
  have start: "unat start \<le> 1000000000000" using assms(1) by (simp add: window_open_def)
  have "\<not> start + 60000000000 \<le> start + 59000000000"
    using next_second(1)[OF start, of 59] by (simp add: TEST_SECOND_def)
  then show ?thesis
    using assms by (auto simp: control_lease_sample_def sampled_def settled_lease_def valid_read_def
        window_open_def lease_active_def lease_constants Let_def TEST_SECOND_def)
qed

lemma window_finished:
  assumes "window_open lease start" "smc_baseline_is_system (Some snapshot)"
  shows "finish_baseline_window (Some lease) start (Some snapshot) =
    (Some (settled_lease lease start), start + 60000000000)"
proof -
  have "sample_seconds 61 (Some lease) start (Some snapshot) =
      control_lease_sample (sample_seconds 60 (Some lease) start (Some snapshot)) SMC_BASELINE_OK
        (Some snapshot) (start + 60000000000)"
    by (simp add: sample_seconds_def TEST_SECOND_def upt_Suc[of 1 60, simplified])
  with sample_seconds_open[OF assms, of 59] last_sample[OF assms] show ?thesis
    by (simp add: finish_baseline_window_def lease_constants)
qed

lemma window_ended:
  assumes "\<not> lease_active lease"
  shows "finish_baseline_window (Some lease) start snapshot = (Some lease, start + 60000000000)"
proof -
  have "sample_seconds n (Some lease) start snapshot = Some lease" for n
    using assms by (induction n) (auto simp: sample_seconds_def control_lease_sample_def lease_active_def)
  then show ?thesis by (simp add: finish_baseline_window_def lease_constants)
qed

section \<open>The tests run\<close>

lemma bind_weak: "m = m' \<Longrightarrow> Option.bind m f = Option.bind m' f"
  by simp

lemma run_step:
  "assert_that True = Some ()" "Let (Some lease) g = g (Some lease)" "Let (a, b) h = h (a, b)"
  by (simp_all add: assert_that_def)

lemma stable_lease_run: "stable_lease_test = (Some
    \<lparr>lease_state = CONTROL_LEASE_STABLE, lease_owner = 0, expires_at_ns = 0,
     observation_started_ns = 1000000000, last_sample_ns = 61000000000, lease_samples = 61,
     write_pending = False, recovery_verified = False\<rparr>, 61000000000, system_snapshot)"
  by (simp add: stable_lease_test_def control_lease_start_def TEST_SECOND_def valid_read_def snapshot_facts
      window_finished window_open_def lease_active_def zero_lease_def settled_lease_def)

lemma window_from:
  assumes "unat start \<le> 1000000000000" "smc_baseline_is_system (Some snapshot)"
    "st = CONTROL_LEASE_OBSERVING \<or> st = CONTROL_LEASE_VERIFYING_RECOVERY"
  shows "finish_baseline_window (Some \<lparr>lease_state = st, lease_owner = owner, expires_at_ns = expiry,
      observation_started_ns = start, last_sample_ns = start, lease_samples = 1, write_pending = pending,
      recovery_verified = verified\<rparr>) start (Some snapshot) =
    (Some \<lparr>lease_state = CONTROL_LEASE_STABLE, lease_owner = 0, expires_at_ns = 0,
      observation_started_ns = start, last_sample_ns = start + 60000000000, lease_samples = 61,
      write_pending = False, recovery_verified = (st = CONTROL_LEASE_VERIFYING_RECOVERY)\<rparr>,
     start + 60000000000)"
  using assms by (subst window_finished) (auto simp: window_open_def lease_active_def settled_lease_def)

lemma first_minute:
  assumes "unat start \<le> 1000000000000" "smc_baseline_is_system (Some snapshot)"
  shows "sample_seconds 60 (Some \<lparr>lease_state = CONTROL_LEASE_OBSERVING, lease_owner = owner,
      expires_at_ns = expiry, observation_started_ns = start, last_sample_ns = start, lease_samples = 1,
      write_pending = pending, recovery_verified = verified\<rparr>) start (Some snapshot) =
    Some \<lparr>lease_state = CONTROL_LEASE_OBSERVING, lease_owner = owner, expires_at_ns = expiry,
      observation_started_ns = start, last_sample_ns = start + 59000000000, lease_samples = 60,
      write_pending = pending, recovery_verified = verified\<rparr>"
  using assms sample_seconds_open[of _ start snapshot 59]
  by (simp add: window_open_def lease_active_def sampled_def TEST_SECOND_def)

lemmas lease_test = lease_ops lease_constants zero_lease_def require_recovery_def valid_read_def
  snapshot_facts TEST_SECOND_def UINT64_MAX_def CONTROL_LEASE_TTL_NS_def CLAIM_MAX_AGE_NS_def run_step stable_lease_run window_from window_ended first_minute lease_active_def

lemma lease_test_0: "startup_requires_the_full_window_and_explicit_capability = Some ()"
  unfolding startup_requires_the_full_window_and_explicit_capability_def
  by (simp add: lease_test cong: bind_weak let_weak_cong)

lemma lease_test_1: "changed_startup_never_grants_from_one_later_baseline = Some ()"
  unfolding changed_startup_never_grants_from_one_later_baseline_def
  by (simp add: lease_test cong: bind_weak let_weak_cong)

lemma lease_test_2: "write_intent_and_client_loss_require_new_verification = Some ()"
  unfolding write_intent_and_client_loss_require_new_verification_def
  by (simp add: lease_test cong: bind_weak let_weak_cong)

lemma lease_test_3: "deadline_and_sleep_fail_closed = Some ()"
  unfolding deadline_and_sleep_fail_closed_def
  by (simp add: lease_test cong: bind_weak let_weak_cong)

lemma lease_test_4: "system_reclaim_and_stale_reads_end_or_deny_a_lease = Some ()"
  unfolding system_reclaim_and_stale_reads_end_or_deny_a_lease_def
  by (simp add: lease_test cong: bind_weak let_weak_cong)

lemma lease_test_5: "invalid_reads_timing_and_temperature_never_grant = Some ()"
  unfolding invalid_reads_timing_and_temperature_never_grant_def
  by (simp add: lease_test cong: bind_weak let_weak_cong)

lemma lease_test_6: "restart_rechecks_hardware_instead_of_reusing_memory = Some ()"
  unfolding restart_rechecks_hardware_instead_of_reusing_memory_def
  by (simp add: lease_test cong: bind_weak let_weak_cong)

lemma lease_test_7: "missing_or_corrupt_intent_marker_ends_a_lease = Some ()"
  unfolding missing_or_corrupt_intent_marker_ends_a_lease_def
  by (simp add: lease_test cong: bind_weak let_weak_cong)

lemma lease_test_8: "recovery_proof_requires_a_full_window_and_is_one_use = Some ()"
  unfolding recovery_proof_requires_a_full_window_and_is_one_use_def
  by (simp add: lease_test cong: bind_weak let_weak_cong)

lemma lease_test_9: "interrupted_recovery_never_creates_a_journal_proof = Some ()"
  unfolding interrupted_recovery_never_creates_a_journal_proof_def
  by (simp add: lease_test cong: bind_weak let_weak_cong)

lemmas lease_tests = lease_test_0 lease_test_1 lease_test_2 lease_test_3 lease_test_4 lease_test_5 lease_test_6
  lease_test_7 lease_test_8 lease_test_9

lemma lease_test_run: "lease_test_main = Some (''control lease tests passed'', 0)"
  by (simp add: lease_test_main_def lease_tests run_step)

end
