(* ===== verification/WatchTests.thy ===== *)
theory WatchTests
  imports BaselineWatch LeaseTests
begin

text \<open>
  The repository's test of the baseline watch, \<open>BaselineWatchTest.c\<close>, on the model.
\<close>

section \<open>The test\<close>

definition watch_baseline :: smc_baseline_snapshot where
  "watch_baseline = zero_snapshot\<lparr>snap_mode := (snap_mode zero_snapshot)(0 := 3, 1 := 3)\<rparr>"

text \<open>\<open>for (unsigned second = 1; second <= BASELINE_WATCH_LAST_SECOND; ++second)\<close>, one sample every \<open>gap\<close>.\<close>

definition watch_seconds :: "nat \<Rightarrow> baseline_watch option \<Rightarrow> smc_baseline_snapshot \<Rightarrow> u64 \<Rightarrow> baseline_watch option" where
  "watch_seconds final watch normal gap =
     fold (\<lambda>second watch. baseline_watch_next watch (of_nat second) SMC_BASELINE_OK (Some normal)
       (1000000000 + of_nat second * gap)) [1..<Suc final] watch"

definition baseline_watch_test_main :: "(string \<times> int) option" where
  "baseline_watch_test_main = do {
     let watch = Some zero_watch;
     let normal = watch_baseline;
     let watch = baseline_watch_begin watch SMC_BASELINE_OK (Some normal) 1000000000;
     assert_that (watch_status (the watch) = BASELINE_WATCH_RUNNING \<and> watch_samples (the watch) = 1);
     let watch = baseline_watch_next watch 1 SMC_BASELINE_OK (Some normal) 2000000000;
     let changed = normal\<lparr>snap_ftst := 1, snap_mode := (snap_mode normal)(0 := 0),
                          snap_target_rpm := (snap_target_rpm normal)(0 := Fin 1350)\<rparr>;
     let watch = baseline_watch_next watch 2 SMC_BASELINE_OK (Some changed) 3000000000;
     assert_that (watch_status (the watch) = BASELINE_WATCH_CHANGED \<and> watch_samples (the watch) = 3);
     let watch = baseline_watch_next watch 3 SMC_BASELINE_OK (Some normal) 4000000000;
     assert_that (watch_status (the watch) = BASELINE_WATCH_CHANGED \<and> watch_samples (the watch) = 3);

     let watch = baseline_watch_begin watch SMC_BASELINE_OK (Some normal) 1000000000;
     let watch = watch_seconds (unat BASELINE_WATCH_LAST_SECOND) watch normal 1000000000;
     assert_that (watch_status (the watch) = BASELINE_WATCH_STABLE \<and> watch_samples (the watch) = 61 \<and>
       watch_last_second (the watch) = 60);
     let watch = baseline_watch_begin watch SMC_BASELINE_OPEN_FAILED None 1000000000;
     assert_that (watch_status (the watch) = BASELINE_WATCH_READ_FAILED \<and> watch_samples (the watch) = 0);
     let watch = baseline_watch_begin watch SMC_BASELINE_OK (Some normal) 1000000000;
     let watch = baseline_watch_next watch 1 SMC_BASELINE_READ_FAILED None 2000000000;
     assert_that (watch_status (the watch) = BASELINE_WATCH_READ_FAILED \<and> watch_samples (the watch) = 1 \<and>
       \<not> timing_failed (the watch));

     let watch = baseline_watch_begin watch SMC_BASELINE_OK (Some normal) 1000000000;
     let watch = baseline_watch_next watch 1 SMC_BASELINE_OK (Some normal) 22000000000;
     assert_that (watch_status (the watch) = BASELINE_WATCH_READ_FAILED \<and> timing_failed (the watch) \<and>
       watch_samples (the watch) = 1);
     let watch = baseline_watch_next watch 2 SMC_BASELINE_OK (Some normal) 23000000000;
     assert_that (watch_status (the watch) = BASELINE_WATCH_READ_FAILED \<and> watch_samples (the watch) = 1);

     let watch = baseline_watch_begin watch SMC_BASELINE_OK (Some normal) 1000000000;
     let watch = watch_seconds (unat BASELINE_WATCH_LAST_SECOND) watch normal 950000000;
     assert_that (watch_status (the watch) = BASELINE_WATCH_READ_FAILED \<and> timing_failed (the watch) \<and>
       watch_samples (the watch) = 60 \<and> watch_last_second (the watch) = 59);
     Some (''baseline watch tests passed'', 0)
   }"

lemma watch_baseline_system: "smc_baseline_is_system (Some watch_baseline)"
  "\<not> smc_baseline_is_system (Some (watch_baseline\<lparr>snap_ftst := 1, snap_mode := m, snap_target_rpm := t\<rparr>))"
  by (auto simp: snapshot_is_system_iff watch_baseline_def zero_snapshot_def less_2_cases_iff)

text \<open>The watch after \<open>k\<close> seconds of a steady sampling.\<close>

definition watching :: "nat \<Rightarrow> u64 \<Rightarrow> baseline_watch" where
  "watching k gap = zero_watch\<lparr>watch_status := BASELINE_WATCH_RUNNING, watch_samples := of_nat (Suc k),
     watch_last_second := of_nat k, latest := watch_baseline, started_continuous_ns := 1000000000,
     last_continuous_ns := 1000000000 + of_nat k * gap\<rparr>"

lemma next_gap:
  fixes gap :: u64
  assumes "900000000 \<le> unat gap" "unat gap \<le> 5000000000" "k < 60"
  shows "\<not> 1000000000 + of_nat (Suc k) * gap \<le> 1000000000 + of_nat k * gap"
    "1000000000 + of_nat (Suc k) * gap - (1000000000 + of_nat k * gap) = gap"
proof -
  have at: "unat (1000000000 + of_nat j * gap) = 1000000000 + j * unat gap" if "j \<le> 60" for j
  proof -
    have "j * unat gap \<le> 60 * 5000000000" using that assms(2) by (intro mult_le_mono) auto
    moreover have "1000000000 + of_nat j * gap = of_nat (1000000000 + j * unat gap)" by simp
    ultimately show ?thesis by (simp only:) (rule of_nat_inverse[OF refl], simp)
  qed
  show "\<not> 1000000000 + of_nat (Suc k) * gap \<le> 1000000000 + of_nat k * gap"
    unfolding word_le_nat_alt using assms at[of k] at[of "Suc k"] by (simp del: of_nat_Suc)
  show "1000000000 + of_nat (Suc k) * gap - (1000000000 + of_nat k * gap) = gap"
    by (simp add: algebra_simps)
qed

lemma watching_step:
  assumes "900000000 \<le> unat gap" "unat gap \<le> 5000000000" "k < 59"
  shows "baseline_watch_next (Some (watching k gap)) (of_nat (Suc k)) SMC_BASELINE_OK (Some watch_baseline)
      (1000000000 + of_nat (Suc k) * gap) = Some (watching (Suc k) gap)"
proof -
  have "(of_nat (Suc k) :: u32) \<noteq> 60" "\<not> (60 :: u32) < of_nat (Suc k)"
    using assms(3) by (simp_all add: word_unat_eq_iff word_less_nat_alt unat_of_nat del: of_nat_Suc)
  moreover have "\<not> gap < 900000000" "\<not> 5000000000 < gap"
    using assms(1,2) by (simp_all add: word_less_nat_alt)
  ultimately show ?thesis
    using assms(3) next_gap[OF assms(1,2), of k]
    by (simp add: baseline_watch_next_def watching_def watch_constants watch_baseline_system Let_def add.commute
      zero_watch_def)
qed

lemma watching_seconds:
  assumes "900000000 \<le> unat gap" "unat gap \<le> 5000000000" "k \<le> 59"
  shows "watch_seconds k (Some (watching 0 gap)) watch_baseline gap = Some (watching k gap)"
  using assms(3)
proof (induction k)
  case (Suc k)
  then show ?case using watching_step[OF assms(1,2), of k] by (simp add: watch_seconds_def del: of_nat_Suc)
qed (simp add: watch_seconds_def)

lemma watching_start:
  "baseline_watch_begin (Some w) SMC_BASELINE_OK (Some watch_baseline) 1000000000 = Some (watching 0 gap)"
  by (simp add: baseline_watch_begin_def watching_def watch_baseline_system zero_watch_def)

lemma short_window:
  assumes "gap = 950000000 \<or> gap = 1000000000"
  shows "watch_seconds 60 (Some \<lparr>watch_status = BASELINE_WATCH_RUNNING, watch_samples = 1,
      watch_last_second = 0, last_read_result = SMC_BASELINE_OK, latest = watch_baseline,
      started_continuous_ns = 1000000000, last_continuous_ns = 1000000000, timing_failed = False\<rparr>)
      watch_baseline gap =
    Some (if gap = 1000000000 then (watching 60 gap)\<lparr>watch_status := BASELINE_WATCH_STABLE\<rparr>
          else (watching 59 gap)\<lparr>watch_status := BASELINE_WATCH_READ_FAILED, timing_failed := True\<rparr>)"
proof -
  have bounds: "900000000 \<le> unat gap" "unat gap \<le> 5000000000" using assms by auto
  have "watch_seconds 60 w watch_baseline gap = baseline_watch_next (watch_seconds 59 w watch_baseline gap) 60
      SMC_BASELINE_OK (Some watch_baseline) (1000000000 + 60 * gap)" for w
    by (simp add: watch_seconds_def upt_Suc[of 1 60, simplified])
  moreover have "baseline_watch_next (Some (watching 59 gap)) 60 SMC_BASELINE_OK (Some watch_baseline)
      (1000000000 + 60 * gap) =
    Some (if gap = 1000000000 then (watching 60 gap)\<lparr>watch_status := BASELINE_WATCH_STABLE\<rparr>
          else (watching 59 gap)\<lparr>watch_status := BASELINE_WATCH_READ_FAILED, timing_failed := True\<rparr>)"
    using assms by (auto simp: baseline_watch_next_def watching_def watch_constants watch_baseline_system zero_watch_def)
  ultimately show ?thesis
    using watching_seconds[OF bounds, of 59] by (simp add: watching_def zero_watch_def)
qed

lemma watch_test_run: "baseline_watch_test_main = Some (''baseline watch tests passed'', 0)"
  unfolding baseline_watch_test_main_def
  by (simp add: run_step baseline_watch_begin_def baseline_watch_next_def watch_constants zero_watch_def
      watch_baseline_system short_window watching_def cong: bind_weak let_weak_cong)

end
