(* ===== verification/JournalTests.thy ===== *)
theory JournalTests
  imports MarkerDisk WatchTests
begin

text \<open>
  The repository's test of the journal, \<open>ControlIntentJournalTest.c\<close>, on the disk of \<open>MarkerDisk\<close>
  while no call fails. Making, opening, closing and removing the directory are not calls of the journal
  and always succeed here; the forked process that reads the marker is one more read.
\<close>

section \<open>Calls of the test\<close>

text \<open>A process with the lease \<open>lease\<close> makes a call of the journal on the directory; what later calls find is
  its entry.\<close>

definition journal ::
  "(marker_disk parent, 'r) state \<Rightarrow> control_lease option \<Rightarrow> marker_disk \<Rightarrow> 'r \<times> control_lease option \<times> marker_disk"
where
  "journal m lease d = (case run_state m ((process_on d)\<lparr>the_lease := lease\<rparr>) of
     (r, p) \<Rightarrow> (r, the_lease p, restarted (system p) (the_marker (system p))))"

definition journal_read :: "int \<Rightarrow> marker_disk \<Rightarrow> control_intent_status" where
  "journal_read fd d = fst (journal (control_intent_read (disk_os 9) fd) None d)"

definition journal_mark :: "control_lease option \<Rightarrow> marker_disk \<Rightarrow> bool \<times> control_lease option \<times> marker_disk" where
  "journal_mark = journal (control_intent_mark_pending (disk_os 9) DIRECTORY_FD)"

definition journal_clear :: "control_lease option \<Rightarrow> marker_disk \<Rightarrow> bool \<times> control_lease option \<times> marker_disk" where
  "journal_clear = journal (control_intent_clear_verified (disk_os 9) DIRECTORY_FD)"

text \<open>The directory with the entry \<open>x\<close>, and what the test itself does to the entry.\<close>

definition directory_with :: "u16 \<Rightarrow> nat \<Rightarrow> marker_file option \<Rightarrow> marker_disk" where
  "directory_with mode k x = \<lparr>the_marker = x, survives = (\<lambda>y. y = x), next_number = k, directory_mode = mode,
     offset = 0, fates = []\<rparr>"

definition chmod_marker :: "u16 \<Rightarrow> marker_disk \<Rightarrow> marker_disk" where
  "chmod_marker mode d = restarted d (map_option (\<lambda>f. f\<lparr>file_mode := mode\<rparr>) (the_marker d))"

definition put_marker :: "file_kind \<Rightarrow> string \<Rightarrow> marker_disk \<Rightarrow> marker_disk" where
  "put_marker kind contents d = restarted (d\<lparr>next_number := Suc (next_number d)\<rparr>)
     (Some ((new_file (next_number d))\<lparr>file_kind_of := kind, file_bytes := bytes_of contents\<rparr>))"

definition unlink_marker :: "marker_disk \<Rightarrow> marker_disk" where
  "unlink_marker d = restarted d None"

definition chmod_directory :: "u16 \<Rightarrow> marker_disk \<Rightarrow> marker_disk" where
  "chmod_directory mode d = d\<lparr>directory_mode := mode\<rparr>"

section \<open>The test\<close>

definition held_lease_test :: "smc_baseline_snapshot \<Rightarrow> control_lease option option" where
  "held_lease_test snapshot = do {
     let lease = control_lease_start (Some zero_lease) CONTROL_INTENT_CLEAR SMC_BASELINE_OK (Some snapshot) TEST_SECOND;
     let (lease, _) = finish_baseline_window lease TEST_SECOND (Some snapshot);
     assert_that (lease_state (the lease) = CONTROL_LEASE_STABLE \<and> \<not> recovery_verified (the lease));
     let (ok, lease) = control_lease_claim lease 7 (61 * TEST_SECOND) True CONTROL_INTENT_CLEAR
         SMC_BASELINE_OK (Some snapshot);
     assert_that ok;
     Some lease
   }"

definition verified_recovery :: "smc_baseline_snapshot \<Rightarrow> control_lease option option" where
  "verified_recovery snapshot = do {
     let lease = control_lease_start (Some zero_lease) CONTROL_INTENT_PENDING SMC_BASELINE_OK (Some snapshot) TEST_SECOND;
     assert_that (lease_state (the lease) = CONTROL_LEASE_RECOVERY_REQUIRED);
     let lease = control_lease_recovery_started lease SMC_BASELINE_OK (Some snapshot) (2 * TEST_SECOND);
     let (lease, _) = finish_baseline_window lease (2 * TEST_SECOND) (Some snapshot);
     assert_that (lease_state (the lease) = CONTROL_LEASE_STABLE \<and> recovery_verified (the lease));
     Some lease
   }"

text \<open>\<open>for (unsigned second = 2; ...)\<close>: the remaining samples of a window whose first was taken by hand.\<close>

definition remaining_samples ::
  "control_lease option \<Rightarrow> u64 \<Rightarrow> smc_baseline_snapshot option \<Rightarrow> control_lease option" where
  "remaining_samples lease start snapshot =
     fold (\<lambda>second lease. control_lease_sample lease SMC_BASELINE_OK snapshot
       (start + of_nat second * TEST_SECOND)) [2..<unat CONTROL_LEASE_REQUIRED_SAMPLES] lease"

definition journal_test_main :: "(string \<times> int) option" where
  "journal_test_main = do {
     let disk = directory_with 0x1C0 0 None;
     assert_that (journal_read DIRECTORY_FD disk = CONTROL_INTENT_CLEAR);
     assert_that (journal_read (- 1) disk = CONTROL_INTENT_UNKNOWN);
     let snapshot = system_snapshot;
     first \<leftarrow> held_lease_test snapshot;
     let (ok, first, disk) = journal_clear first disk;
     assert_that (\<not> ok);
     let (ok, _, disk) = journal_mark None disk;
     assert_that (\<not> ok);
     let (ok, first, disk) = journal_mark first disk;
     assert_that ok;
     let (ok, first) = control_lease_mark_write_pending first 7 (61 * TEST_SECOND) CONTROL_INTENT_PENDING;
     assert_that ok;
     assert_that (journal_read DIRECTORY_FD disk = CONTROL_INTENT_PENDING);
     other \<leftarrow> held_lease_test snapshot;
     let (ok, other, disk) = journal_mark other disk;
     assert_that (\<not> ok);

     assert_that (journal_read DIRECTORY_FD disk = CONTROL_INTENT_PENDING);
     let intent = journal_read DIRECTORY_FD disk;
     assert_that (intent = CONTROL_INTENT_PENDING);
     let lease = control_lease_start (Some zero_lease) intent SMC_BASELINE_OK (Some snapshot) TEST_SECOND;
     assert_that (lease_state (the lease) = CONTROL_LEASE_RECOVERY_REQUIRED);
     let (ok, lease, disk) = journal_clear lease disk;
     assert_that (\<not> ok);
     let lease = control_lease_recovery_started lease SMC_BASELINE_OK (Some snapshot) (2 * TEST_SECOND);
     let lease = control_lease_sample lease SMC_BASELINE_OK (Some snapshot) (3 * TEST_SECOND);
     let (ok, lease, disk) = journal_clear lease disk;
     assert_that (\<not> ok);
     let lease = remaining_samples lease (2 * TEST_SECOND) (Some snapshot);
     assert_that (lease_state (the lease) = CONTROL_LEASE_STABLE \<and> recovery_verified (the lease));
     let denied = lease;
     let (ok, denied) = control_lease_claim denied 7 (62 * TEST_SECOND) True (journal_read DIRECTORY_FD disk)
         SMC_BASELINE_OK (Some snapshot);
     assert_that (\<not> ok);
     assert_that (lease_state (the denied) = CONTROL_LEASE_RECOVERY_REQUIRED);
     let (ok, denied, disk) = journal_clear denied disk;
     assert_that (\<not> ok);
     let (ok, lease, disk) = journal_clear lease disk;
     assert_that ok;
     assert_that (\<not> recovery_verified (the lease));
     assert_that (journal_read DIRECTORY_FD disk = CONTROL_INTENT_CLEAR);
     let (ok, lease) = control_lease_claim lease 7 (62 * TEST_SECOND) True (journal_read DIRECTORY_FD disk)
         SMC_BASELINE_OK (Some snapshot);
     assert_that ok;

     let (ok, lease, disk) = journal_mark lease disk;
     assert_that ok;
     let (ok, lease, disk) = journal_clear lease disk;
     assert_that (\<not> ok);
     let disk = chmod_marker 0x1A4 disk;
     assert_that (journal_read DIRECTORY_FD disk = CONTROL_INTENT_UNKNOWN);
     proof_lease \<leftarrow> verified_recovery snapshot;
     let (ok, proof_lease, disk) = journal_clear proof_lease disk;
     assert_that (\<not> ok);
     let disk = chmod_marker 0x180 disk;
     let (ok, proof_lease, disk) = journal_clear proof_lease disk;
     assert_that ok;
     let (ok, proof_lease, disk) = journal_clear proof_lease disk;
     assert_that (\<not> ok);

     let disk = put_marker RegularFile ''bad'' disk;
     assert_that (journal_read DIRECTORY_FD disk = CONTROL_INTENT_UNKNOWN);
     bad \<leftarrow> held_lease_test snapshot;
     let (ok, bad, disk) = journal_mark bad disk;
     assert_that (\<not> ok);
     let (ok, bad, disk) = journal_clear bad disk;
     assert_that (\<not> ok);
     let disk = unlink_marker disk;

     let disk = put_marker OtherKind ''/etc/passwd'' disk;
     assert_that (journal_read DIRECTORY_FD disk = CONTROL_INTENT_UNKNOWN);
     bad \<leftarrow> held_lease_test snapshot;
     let (ok, bad, disk) = journal_mark bad disk;
     assert_that (\<not> ok);
     let disk = unlink_marker disk;

     let disk = chmod_directory 0x1FF disk;
     assert_that (journal_read DIRECTORY_FD disk = CONTROL_INTENT_UNKNOWN);
     bad \<leftarrow> held_lease_test snapshot;
     let (ok, bad, disk) = journal_mark bad disk;
     assert_that (\<not> ok);
     let disk = chmod_directory 0x1C0 disk;
     assert_that (journal_read DIRECTORY_FD disk = CONTROL_INTENT_CLEAR);
     Some (''control intent journal tests passed'', 0)
   }"

section \<open>The journal without faults\<close>

text \<open>A process with the lease \<open>l\<close> on the directory, whatever a crash might leave.\<close>

definition found :: "u16 \<Rightarrow> nat \<Rightarrow> marker_file option \<Rightarrow> control_lease option \<Rightarrow> marker_disk parent \<Rightarrow> bool" where
  "found mode k x l p \<longleftrightarrow> the_lease p = l \<and> the_marker (system p) = x \<and> next_number (system p) = k \<and>
     directory_mode (system p) = mode \<and> fates (system p) = []"

lemma found_run:
  assumes "\<And>p. found mode k x lease p \<Longrightarrow> wp m (\<lambda>r p'. r = s \<and> found mode k' y lease' p') p"
  shows "journal m lease (directory_with mode k x) = (s, lease', directory_with mode k' y)"
proof -
  have "found mode k x lease ((process_on (directory_with mode k x))\<lparr>the_lease := lease\<rparr>)"
    by (simp add: found_def process_on_def directory_with_def)
  from assms[OF this] show ?thesis
    by (auto simp: journal_def wp_def found_def restarted_def directory_with_def split: prod.splits)
qed

lemma found_intent: "found mode k x l p \<Longrightarrow> calm_intent (system p) = calm_intent (directory_with mode k x)"
  by (simp add: found_def calm_intent_def private_mode_def directory_with_def)

lemma at_rest_fields:
  "at_rest p p' \<Longrightarrow> the_marker (system p') = the_marker (system p) \<and>
    next_number (system p') = next_number (system p) \<and> directory_mode (system p') = directory_mode (system p)"
  by (cases "system p"; cases "system p'") (simp add: at_rest_def)

lemma found_read:
  assumes "found mode k x l p"
  shows "wp (control_intent_read (disk_os 9) DIRECTORY_FD)
    (\<lambda>intent p'. intent = calm_intent (directory_with mode k x) \<and> found mode k x l p') p"
proof -
  have "wp (control_intent_read (disk_os (Suc 8)) DIRECTORY_FD)
    (\<lambda>intent p'. intent = calm_intent (directory_with mode k x) \<and> found mode k x l p') p"
  proof (rule wp_mono[OF calm_reading])
    fix intent and p' :: "marker_disk parent"
    assume read: "intent = calm_intent (system p) \<and> at_rest p p'"
    with at_rest_fields[of p p'] assms show "intent = calm_intent (directory_with mode k x) \<and> found mode k x l p'"
      using found_intent[OF assms] by (simp add: found_def at_rest_def)
  qed (use assms in \<open>simp add: found_def\<close>)
  then show ?thesis by simp
qed

lemma read_found: "journal_read DIRECTORY_FD (directory_with mode k x) = calm_intent (directory_with mode k x)"
  "journal_read (- 1) d = CONTROL_INTENT_UNKNOWN"
proof -
  have "journal (control_intent_read (disk_os 9) DIRECTORY_FD) None (directory_with mode k x) =
      (calm_intent (directory_with mode k x), None, directory_with mode k x)"
    by (rule found_run) (rule found_read)
  then show "journal_read DIRECTORY_FD (directory_with mode k x) = calm_intent (directory_with mode k x)"
    by (simp add: journal_read_def)
  show "journal_read (- 1) d = CONTROL_INTENT_UNKNOWN"
    by (simp add: journal_read_def journal_def control_intent_read_def private_directory_def split: prod.splits)
qed

lemma calm_changes:
  assumes "fates d = []"
  shows "run_state (disk_unlink fd name) d = (if the_marker d = None then (False, d)
      else (True, d\<lparr>the_marker := None, survives := (\<lambda>x. survives d x \<or> x = None)\<rparr>))"
    "fst (run_state (disk_fsync fd) d)" "\<exists>s. snd (run_state (disk_fsync fd) d) = d\<lparr>survives := s\<rparr>"
  using assms by (auto simp: disk_unlink_def disk_fsync_def fate_of_def)

lemma found_sync: "found mode k x l p \<Longrightarrow> wp (logged_call (disk_fsync fd) e) (\<lambda>b p'. b \<and> found mode k x l p') p"
  using calm_changes(2,3)[of "system p" fd]
  by (auto simp: wp_logged_eq found_def split: prod.splits)

lemma found_lease:
  "found mode k x l p \<Longrightarrow> f l = (b, l') \<Longrightarrow> wp (on_lease f c) (\<lambda>r p'. r = b \<and> found mode k x l' p') p"
  by (simp add: on_lease_def wp_State found_def)

lemma clear_found:
  "journal_clear lease (directory_with mode k x) =
    (if calm_intent (directory_with mode k x) \<noteq> CONTROL_INTENT_PENDING then (False, lease, directory_with mode k x)
     else case control_lease_take_recovery_proof lease of (proved, lease') \<Rightarrow>
       (proved, lease', directory_with mode k (if proved then None else x)))"
proof (cases "calm_intent (directory_with mode k x) = CONTROL_INTENT_PENDING")
  case False
  have "journal (control_intent_clear_verified (disk_os 9) DIRECTORY_FD) lease (directory_with mode k x) =
      (False, lease, directory_with mode k x)"
    unfolding control_intent_clear_verified_def
    by (rule found_run, rule wp_bindI, rule wp_mono, erule found_read) (use False in \<open>simp add: wp_return\<close>)
  with False show ?thesis by (simp add: journal_clear_def)
next
  case True
  then have x: "x \<noteq> None" by (auto simp: calm_intent_def directory_with_def split: if_splits option.splits)
  obtain proved lease' where taken: "control_lease_take_recovery_proof lease = (proved, lease')" by fastforce
  have removed: "wp (do {
      unlinked \<leftarrow> logged_call (sys_unlinkat (disk_os 9) DIRECTORY_FD marker_name) (Unlinked marker_name);
      if \<not> unlinked then ret False
      else logged_call (sys_fsync (disk_os 9) DIRECTORY_FD) (Synced DIRECTORY_FD) })
      (\<lambda>r p'. r = True \<and> found mode k None lease' p') p" if "found mode k x lease' p" for p
  proof -
    have "wp (logged_call (disk_unlink DIRECTORY_FD marker_name) (Unlinked marker_name))
        (\<lambda>r p'. r \<and> found mode k None lease' p') p"
      using that x by (simp add: wp_logged_eq calm_changes found_def)
    then show ?thesis
      unfolding disk_os_simps
      by (rule wp_bindI[OF wp_mono]) (auto simp: wp_return intro!: wp_ifI wp_mono[OF found_sync])
  qed
  have "journal (control_intent_clear_verified (disk_os 9) DIRECTORY_FD) lease (directory_with mode k x) =
      (proved, lease', directory_with mode k (if proved then None else x))"
    unfolding control_intent_clear_verified_def
    apply (rule found_run, rule wp_bindI, rule wp_mono, erule found_read)
    apply (rule wp_ifI, use True in simp)
    apply (rule wp_bindI, rule wp_mono, rule found_lease[where f = control_lease_take_recovery_proof and l = lease], erule conjunct2, rule taken)
    apply (rule wp_ifI, simp add: wp_return)
    by (rule wp_mono[OF removed]) simp_all
  with True show ?thesis by (simp add: journal_clear_def taken)
qed

lemma found_create:
  assumes "found mode k None l p"
  shows "wp (logged_call (disk_open DIRECTORY_FD marker_name [O_WRONLY, O_CREAT 0x180, O_EXCL, O_CLOEXEC, O_NOFOLLOW]) e)
    (\<lambda>opened p'. opened = Inr MARKER_FD \<and> found mode (Suc k) (Some (new_file k)) l p') p"
  using assms by (simp add: wp_logged_eq disk_open_def fate_of_def found_def Let_def new_file_private)

lemma found_write:
  assumes "found mode k (Some (f\<lparr>file_bytes := []\<rparr>)) l p"
  shows "wp (write_all (disk_os 9) fd contents)
    (\<lambda>n p'. n = length contents \<and> found mode k (Some (f\<lparr>file_bytes := contents\<rparr>)) l p') p"
proof -
  have over: "wp (write_from (disk_os 9) 8 fd contents (length contents))
      (\<lambda>n p'. n = length contents \<and> found mode k y l p') p" if "found mode k y l p" for y p
    using that by (simp add: eval_nat_numeral wp_return)
  show ?thesis
  proof (cases "contents = []")
    case True
    with assms show ?thesis by (simp add: write_all_def eval_nat_numeral wp_return)
  next
    case False
    have wrote: "wp (logged_call (disk_write fd contents) e)
        (\<lambda>r p'. r = Inr (length contents) \<and> found mode k (Some (f\<lparr>file_bytes := contents\<rparr>)) l p') p" for e
      using assms by (auto simp: wp_logged_eq disk_write_def fate_of_def found_def disk_append_def)
    have "wp (write_from (disk_os 9) (Suc 8) fd contents 0)
        (\<lambda>n p'. n = length contents \<and> found mode k (Some (f\<lparr>file_bytes := contents\<rparr>)) l p') p"
      unfolding write_from.simps disk_os_simps drop0
      apply (rule wp_ifI, use False in simp)
      by (rule wp_bindI, rule wp_mono[OF wrote]) (use False over in simp)
    then show ?thesis by (simp add: write_all_def)
  qed
qed

lemma found_close: "found mode k x l p \<Longrightarrow> wp (logged_call (disk_close fd) e) (\<lambda>b p'. b \<and> found mode k x l p') p"
  by (simp add: wp_logged_eq disk_close_def fate_of_def found_def)

text \<open>A marker as the journal writes it.\<close>

definition marker_file_of :: "nat \<Rightarrow> marker_file" where
  "marker_file_of k = (new_file k)\<lparr>file_bytes := bytes_of marker_contents\<rparr>"

lemma mark_found:
  "journal_mark lease (directory_with mode k x) = (case control_lease_prepare_persistent_intent lease of (prepared, lease') \<Rightarrow>
     if \<not> prepared \<or> calm_intent (directory_with mode k x) \<noteq> CONTROL_INTENT_CLEAR
     then (False, lease', directory_with mode k x)
     else (True, lease', directory_with mode (Suc k) (Some (marker_file_of k))))"
proof -
  obtain prepared lease' where taken: "control_lease_prepare_persistent_intent lease = (prepared, lease')" by fastforce
  have written: "wp (do {
      written \<leftarrow> write_all (disk_os 9) MARKER_FD (bytes_of marker_contents);
      durable \<leftarrow> and_then (ret (written = length marker_contents)) (logged_call (disk_fsync MARKER_FD) (Synced MARKER_FD));
      closed \<leftarrow> logged_call (disk_close MARKER_FD) (Closed_fd MARKER_FD);
      synced \<leftarrow> logged_call (disk_fsync DIRECTORY_FD) (Synced DIRECTORY_FD);
      ret (durable \<and> closed \<and> synced)
    }) (\<lambda>r p'. r = True \<and> found mode (Suc k) (Some (marker_file_of k)) lease' p') p"
    if "found mode (Suc k) (Some (new_file k)) lease' p" for p
  proof -
    have "found mode (Suc k) (Some ((new_file k)\<lparr>file_bytes := []\<rparr>)) lease' p" using that by (simp add: new_file_def)
    then show ?thesis
      unfolding marker_file_of_def
      apply -
      apply (rule wp_bindI, rule wp_mono, erule found_write)
      apply (rule wp_bindI, rule wp_mono[where Q = "\<lambda>b. \<lambda>p'. b \<and> found mode (Suc k) (Some ((new_file k)\<lparr>file_bytes := bytes_of marker_contents\<rparr>)) lease' p'"])
       apply (simp add: wp_and_then wp_return, rule found_sync, simp)
      apply (rule wp_bindI, rule wp_mono, rule found_close, erule conjunct2)
      apply (rule wp_bindI, rule wp_mono, rule found_sync, erule conjunct2)
      by (simp add: wp_return)
  qed
  have "journal_mark lease (directory_with mode k x) = (if prepared \<and> calm_intent (directory_with mode k x) = CONTROL_INTENT_CLEAR
     then (True, lease', directory_with mode (Suc k) (Some (marker_file_of k)))
     else (False, lease', directory_with mode k x))"
  proof (cases "prepared \<and> calm_intent (directory_with mode k x) = CONTROL_INTENT_CLEAR")
    case True
    then have "x = None" by (auto simp: calm_intent_def directory_with_def split: if_splits option.splits)
    then show ?thesis
      unfolding journal_mark_def control_intent_mark_pending_def disk_os_simps if_P[OF True]
      apply (intro found_run)
      apply (rule wp_bindI, rule wp_mono, rule found_lease[where f = control_lease_prepare_persistent_intent and l = lease],
          assumption, rule taken)
      apply (rule wp_ifI, use True in simp)
      apply (rule wp_bindI, rule wp_mono, rule found_read, erule conjunct2)
      apply (rule wp_ifI, use True in simp)
      apply (rule wp_bindI, rule wp_mono, rule found_create, simp)
      apply (elim conjE, erule ssubst, unfold sum.case)
      by (rule written)
  next
    case False
    then show ?thesis
      unfolding journal_mark_def control_intent_mark_pending_def disk_os_simps if_not_P[OF False]
      apply (intro found_run)
      apply (rule wp_bindI, rule wp_mono, rule found_lease[where f = control_lease_prepare_persistent_intent and l = lease],
          assumption, rule taken)
      apply (rule wp_ifI, simp add: wp_return)
      apply (rule wp_bindI, rule wp_mono, rule found_read, erule conjunct2)
      by (rule wp_ifI; simp add: wp_return)
  qed
  then show ?thesis by (simp add: taken)
qed

section \<open>The test runs\<close>

lemma held_lease_run: "held_lease_test system_snapshot = Some (Some
    \<lparr>lease_state = CONTROL_LEASE_HELD, lease_owner = 7, expires_at_ns = 61000000000 + CONTROL_LEASE_TTL_NS,
     observation_started_ns = 1000000000, last_sample_ns = 61000000000, lease_samples = 61,
     write_pending = False, recovery_verified = False\<rparr>)"
  unfolding held_lease_test_def by (simp add: lease_test cong: bind_weak let_weak_cong)

lemma verified_recovery_run: "verified_recovery system_snapshot = Some (Some
    \<lparr>lease_state = CONTROL_LEASE_STABLE, lease_owner = 0, expires_at_ns = 0,
     observation_started_ns = 2000000000, last_sample_ns = 62000000000, lease_samples = 61,
     write_pending = False, recovery_verified = True\<rparr>)"
  unfolding verified_recovery_def by (simp add: lease_test cong: bind_weak let_weak_cong)

lemma remaining_run:
  "remaining_samples (Some \<lparr>lease_state = CONTROL_LEASE_VERIFYING_RECOVERY, lease_owner = 0,
      expires_at_ns = 0, observation_started_ns = 2000000000, last_sample_ns = 3000000000, lease_samples = 2,
      write_pending = True, recovery_verified = False\<rparr>) 2000000000 (Some system_snapshot) = Some
    \<lparr>lease_state = CONTROL_LEASE_STABLE, lease_owner = 0, expires_at_ns = 0,
     observation_started_ns = 2000000000, last_sample_ns = 62000000000, lease_samples = 61,
     write_pending = False, recovery_verified = True\<rparr>"
  (is "remaining_samples ?second _ _ = _")
proof -
  let ?first = "\<lparr>lease_state = CONTROL_LEASE_VERIFYING_RECOVERY, lease_owner = 0, expires_at_ns = 0,
    observation_started_ns = 2000000000, last_sample_ns = 2000000000, lease_samples = 1,
    write_pending = True, recovery_verified = False\<rparr>"
  have "?second = control_lease_sample (Some ?first) SMC_BASELINE_OK (Some system_snapshot) 3000000000"
    by (simp add: lease_test)
  moreover have "[1..<61] = 1 # [2..<61]" by (simp add: upt_conv_Cons)
  ultimately have "remaining_samples ?second 2000000000 (Some system_snapshot) =
      fst (finish_baseline_window (Some ?first) 2000000000 (Some system_snapshot))"
    by (simp add: remaining_samples_def finish_baseline_window_def sample_seconds_def lease_constants TEST_SECOND_def)
  then show ?thesis by (simp add: window_from snapshot_facts)
qed

lemma directory_steps:
  "chmod_marker m (directory_with mode k (Some f)) = directory_with mode k (Some (f\<lparr>file_mode := m\<rparr>))"
  "put_marker kind contents (directory_with mode k x) =
    directory_with mode (Suc k) (Some ((new_file k)\<lparr>file_kind_of := kind, file_bytes := bytes_of contents\<rparr>))"
  "unlink_marker (directory_with mode k x) = directory_with mode k None"
  "chmod_directory m (directory_with mode k x) = directory_with m k x"
  by (simp_all add: chmod_marker_def put_marker_def unlink_marker_def chmod_directory_def restarted_def directory_with_def)

lemma intents:
  "calm_intent (directory_with 0x1C0 k None) = CONTROL_INTENT_CLEAR"
  "calm_intent (directory_with 0x1FF k x) = CONTROL_INTENT_UNKNOWN"
  "calm_intent (directory_with 0x1C0 k (Some (marker_file_of j))) = CONTROL_INTENT_PENDING"
  "calm_intent (directory_with 0x1C0 k (Some ((marker_file_of j)\<lparr>file_mode := 0x1A4\<rparr>))) = CONTROL_INTENT_UNKNOWN"
  "(marker_file_of j)\<lparr>file_mode := m, file_mode := 0x180\<rparr> = marker_file_of j"
  "calm_intent (directory_with 0x1C0 k (Some ((new_file j)\<lparr>file_kind_of := RegularFile, file_bytes := bytes_of ''bad''\<rparr>))) = CONTROL_INTENT_UNKNOWN"
  "calm_intent (directory_with 0x1C0 k (Some ((new_file j)\<lparr>file_kind_of := OtherKind, file_bytes := bytes_of t\<rparr>))) = CONTROL_INTENT_UNKNOWN"
  by (simp_all add: calm_intent_def directory_with_def private_mode_def marker_file_of_def marker_written_def
      marker_file_valid_def status_of_def new_file_def bytes_of_def marker_contents_def)

lemma journal_test_run: "journal_test_main = Some (''control intent journal tests passed'', 0)"
  unfolding journal_test_main_def
  by (simp add: lease_test held_lease_run verified_recovery_run remaining_run directory_steps intents read_found
      mark_found clear_found cong: bind_weak let_weak_cong)

section \<open>Properties\<close>

text \<open>The repository's own tests of the lease, the watch and the journal pass on the model: no assertion
  fails, and each program prints its line and ends with 0.\<close>

theorem repository_tests_pass:
  "lease_test_main = Some (''control lease tests passed'', 0) \<and>
   baseline_watch_test_main = Some (''baseline watch tests passed'', 0) \<and>
   journal_test_main = Some (''control intent journal tests passed'', 0)"
  using lease_test_run watch_test_run journal_test_run by simp

text \<open>The marker is set on the empty directory, and removed with the proof of a recovery.\<close>

definition marking :: "marker_disk parent" where
  "marking = (process_on (directory_with 0x1C0 0 None))\<lparr>the_lease := the (held_lease_test system_snapshot)\<rparr>"

definition clearing :: "marker_disk parent" where
  "clearing = (process_on (directory_with 0x1C0 1 (Some (marker_file_of 0))))
     \<lparr>the_lease := the (verified_recovery system_snapshot)\<rparr>"

lemma journal_ok:
  "fst (journal m lease d) = r \<Longrightarrow> \<exists>p'. run_state m ((process_on d)\<lparr>the_lease := lease\<rparr>) = (r, p')"
  by (auto simp: journal_def split: prod.splits)

lemma marking_runs: "\<exists>p'. run_state (control_intent_mark_pending (disk_os 9) DIRECTORY_FD) marking = (True, p')"
  unfolding marking_def
  by (rule journal_ok) (simp add: journal_mark_def[symmetric] mark_found held_lease_run intents
      control_lease_prepare_persistent_intent_def)

lemma clearing_runs: "\<exists>p'. run_state (control_intent_clear_verified (disk_os 9) DIRECTORY_FD) clearing = (True, p')"
  unfolding clearing_def
  by (rule journal_ok) (simp add: journal_clear_def[symmetric] clear_found verified_recovery_run intents
      control_lease_take_recovery_proof_def lease_constants)

lemma marker_survives_crash_witness:
  "\<exists>p'. run_state (control_intent_mark_pending (disk_os 9) DIRECTORY_FD) marking = (True, p') \<and>
    intent_after_crash (Suc 0) (system p') (the_marker (system p')) = CONTROL_INTENT_PENDING"
proof -
  have "disk_sound (system marking)" by (simp add: marking_def process_on_def directory_with_def disk_sound_def)
  then show ?thesis using marking_runs marker_survives_crash[of marking 9 _ 0] by blast
qed

lemma removal_survives_crash_witness:
  "\<exists>p'. run_state (control_intent_clear_verified (disk_os 9) DIRECTORY_FD) clearing = (True, p') \<and>
    intent_after_crash (Suc 0) (system p') (the_marker (system p')) = CONTROL_INTENT_CLEAR"
proof -
  have "disk_sound (system clearing)"
    by (simp add: clearing_def process_on_def directory_with_def disk_sound_def marker_file_of_def new_file_def)
  then show ?thesis using clearing_runs removal_survives_crash[of clearing 9 True _ 0] by (metis (full_types))
qed

end
