(* ===== verification/Spec2Isabelle.thy ===== *)
theory Spec2Isabelle
  imports LiveMachine TrialExamples ProbeExamples InventoryProperties ReplyExamples SupervisorReports JournalTests
begin

text \<open>
  \<^bold>\<open>Ventilator: a model of the C code under \<open>src/prototype\<close>.\<close>

  The repository controls the fans of a Mac (Mac15,7, macOS 27.0) through AppleSMC. Four programs are
  written in C. \<open>smc-write-trial\<close> can release the fans back to the system and, in code paths that
  \<open>main\<close> suspends, try to drive them. The helper (\<open>helper-ipc\<close>) supervises workers that read the
  controller, and guards write access by a lease and a persistent marker; its daemon answers a client,
  which validates each reply with inline functions of C headers. \<open>supervisor-probe\<close> runs
  that supervision with read-only workers. \<open>smc-read\<close> only reads.
  Everything is shallowly embedded: pure functions as HOL functions, stateful code in the state monad
  of \<open>HOL-Library.State_Monad\<close>, C structs as records, enums as datatypes, machine integers as words,
  \<open>double\<close> as IEEE 754 binary64 with rounding after every operation, NULL as \<open>None\<close>, and C strings as
  char lists. What is not in the repository (IOKit, sysctl, the clock, the file system, processes) is
  a record of state transformers of an arbitrary type, so a theorem holds for every system.

  \<^bold>\<open>Theories and sources.\<close>

  \<^item> \<open>Prelude\<close>: word types, C string comparison, short-circuit connectives, weakest preconditions
    (\<open>wp\<close>), ghost traces (\<open>emits\<close>) and kept parts of a state (\<open>keeps\<close>).
  \<^item> \<open>Ieee754\<close>: the finite and special values of \<open>float\<close> and \<open>double\<close>, rounding, decoding of bits.
  \<^item> \<open>TrialLogic\<close>: \<open>trial_logic.h/.c\<close>, the preflight gate, the plan, the RPM encoder, the write gate.
  \<^item> \<open>SmcCodec\<close>: key names, byte orders and number decoders of \<open>smc-write-trial.c\<close> and \<open>smc-read.c\<close>.
  \<^item> \<open>TrialBackend\<close>, \<open>BaselineWindow\<close>, \<open>TrialActions\<close>: \<open>trial_actions.h/.c\<close>; \<open>SamplingWindow\<close> is the
    locale of the observation windows, interpreted on each of them.
  \<^item> \<open>TrialFootprint\<close>, \<open>FtstGate\<close>, \<open>TrialRecovery\<close>, \<open>TrialLiveness\<close>, \<open>TrialExamples\<close>: what the
    procedures of \<open>trial_actions.c\<close> write, when they clear Ftst, what their success means, when they
    succeed, and closed examples.
  \<^item> \<open>SmcBaseline\<close>: \<open>helper-ipc/SmcBaselineRead.h/.c\<close>, the helper's reader. The snapshot is filled in
    place and zeroed by the two \<open>memset\<close>s; a ghost event \<open>Answered\<close> notes what the controller answered.
  \<^item> \<open>SmcTransport\<close>, \<open>LiveBackend\<close>, \<open>TrialProgram\<close>: \<open>smc-write-trial.c\<close>, from the transport to
    \<open>main\<close>; \<open>ProgramFootprint\<close>, \<open>ProgramVerdict\<close>, \<open>LiveProperties\<close>, \<open>LiveMachine\<close> prove what the
    program sends, what its exit codes mean, and run it on a concrete machine.
  \<^item> \<open>BaselineWatch\<close>, \<open>ControlLease\<close>: the reducers \<open>BaselineWatch.h/.c\<close> and \<open>ControlLease.h/.c\<close>;
    \<open>HelperExamples\<close> their closed examples; this theory relates the two.
  \<^item> \<open>HelperSystem\<close>, \<open>IntentJournal\<close>, \<open>WorkerOwnership\<close>, \<open>WorkerSupervisor\<close>, \<open>SupervisorPhases\<close>: the
    system calls of the helper, \<open>ControlIntentJournal.c\<close>, \<open>SupervisorOwnership.c\<close> and
    \<open>WorkerSupervisor.h/.c\<close>, in the order the code has them.
  \<^item> \<open>SupervisorViews\<close>, \<open>SupervisorLease\<close>, \<open>SupervisorRelease\<close>, \<open>SupervisorChildren\<close>,
    \<open>SupervisorSweep\<close>, \<open>IntentDurable\<close>, \<open>WorkerRecord\<close>: the parts of the supervisor's state each
    operation leaves alone, the lease through the phases, the children, the marker on disk, the
    worker record; \<open>WorkerExits\<close>: the exit codes of the children and what they tell;
    \<open>SupervisorProperties\<close> states the guarantees, \<open>SupervisorExamples\<close> runs a whole recovery and an
    operation that forks its worker on concrete machines.

  \<^item> \<open>TextFormat\<close>: numbers as text, \<open>printf\<close>'s \<open>%u\<close>, \<open>%x\<close> and \<open>%.nf\<close>. \<open>SmcInventory\<close>: \<open>smc-read.c\<close>, with
    its whole output. \<open>JsonText\<close>: the grammar of JSON and a datatype of documents; \<open>InventoryReports\<close>
    and \<open>InventoryProperties\<close>: the shape of its reports, its requests, its exit status.
  \<^item> \<open>SupervisorProbe\<close>: \<open>supervisor-probe.c\<close> with \<open>SupervisorRunnerLifetime.c\<close>,
    \<open>SupervisorProbeDirectory.h\<close>, \<open>SupervisorProbeStorage.c\<close> and \<open>SupervisorProbeCrash.c\<close>;
    \<open>SupervisorSteady\<close>, a locale for relations that every system call preserves and what they give of the
    whole supervisor; \<open>ProbeProperties\<close> the guarantees of the probe, \<open>ProbeExamples\<close> closed runs of it. The output
    of the probe is what it prints and what the crash diagnostic writes (\<open>probe_write\<close>).
  \<^item> \<open>SupervisorTermination\<close>: the supervisor's loops on an orderly system (a clock that its sleeps
    advance, finitely many signals and bytes).
  \<^item> \<open>Foundation\<close>: the objects of a property list, as the validation reads them. \<open>HelperValidation\<close>:
    \<open>HelperStatus.h\<close>, \<open>HelperTemperatureValue.h\<close>, \<open>HelperBaselineValidation.h\<close>,
    \<open>HelperWatchValidation.h\<close>, \<open>HelperStartupAuditValidation.h\<close>, \<open>HelperSupervisorValidation.h\<close>.
  \<^item> \<open>DaemonReplies\<close>: the replies that \<open>daemon-status.m\<close>, \<open>StartupAuditController.m\<close> and
    \<open>BaselineWatchController.m\<close> build, and the watch controller with its timers as a step relation;
    \<open>ReplyExamples\<close> runs it. \<open>SupervisorReports\<close>: the probe's report under the client's validation.
  \<^item> \<open>MarkerDisk\<close>: a disk whose calls may fail, be interrupted or fall short and which keeps over a crash
    only what was synced, with the journal running on it. \<open>LeaseTests\<close>, \<open>WatchTests\<close>, \<open>JournalTests\<close>: the
    repository's \<open>ControlLeaseTest.c\<close>, \<open>BaselineWatchTest.c\<close> and \<open>ControlIntentJournalTest.c\<close>, run as
    examples. The mode argument of \<open>openat\<close> is carried by the flag \<open>O_CREAT\<close>, and a file that the disk
    creates has that mode.

  \<^bold>\<open>How the parts interact.\<close> \<open>main\<close> of the trial program builds a backend of callbacks over the
  transport and passes it to the procedures of \<open>trial_actions.c\<close>; a ghost trace of the calls connects
  what a procedure guarantees of its trace with the requests the program sends (\<open>live_log\<close>). The
  worker supervisor calls the lease and the journal in one state \<open>parent\<close>, whose ghost log has the
  system calls with an effect and the calls on the lease; \<open>lease_history\<close> reads the latter off, so
  what \<open>ControlLease\<close> proves of every history holds under the supervisor. The probe runs the supervisor
  on a \<open>probe_world\<close>, which records the end of its process; from then on no call changes it. The
  daemon reads the controller with the helper's reader, feeds the watch reducer and replies; a reply
  is a Foundation object, which the validation takes apart, and so is the line of the probe once parsed.

  \<^bold>\<open>What the lemmas show.\<close> Safety of the writes: the program only releases fans; Ftst is cleared only
  after the fans are released; write access needs a full minute of observed baseline, and an operation
  is forked only after the marker is durable. Honesty of results: success, exit codes and reports are
  backed by the observations they claim. Housekeeping: connections are closed, children reaped, only
  own children killed, the marker removed only with a proof; what the journal reports of the marker survives a crash;
  the probe says verified only of such a run, and an exit code tells whether a worker was admitted
  and what its action returned. The inventory tool sends only reads and
  prints one JSON document per JSON mode, of a fixed shape. Examples: the repository's own tests of the
  lease, the watch and the journal pass on the model. Replies: the client accepts what the daemon
  sends, with the exceptions the theorems name (speeds below 0, process ids below 0). Numbers: rounding, encoders and decoders
  round-trip; targets keep their bounds and pass the write gate; times do not wrap. Termination and liveness: the window, the
  sleeps, the supervisor on an orderly system and, on a calm controller, recovery.

  \<^bold>\<open>Bounds and fuel.\<close> Loops with a counter are recursions with a proved measure. A sleep resumed after
  interruptions has \<open>sleep_fuel\<close> rounds; running out sets \<open>hung\<close>. The supervisor's polling and retry
  loops have \<open>retry_fuel\<close> rounds each; running out is logged (\<open>Ran_out\<close>) and is reported as a worker
  that was not stopped, an unwritten marker or an unreadable file, never as success. Fuels are fields
  of the arbitrary system, so every theorem covers all of them. One round for every 10 ms of 90 seconds,
  every signal and every byte is enough (\<open>supervisor_ends\<close>).

  \<^bold>\<open>Not modelled.\<close> The rest of the Objective-C code (XPC connections, the launch of
  the probe with NSTask and its timers, code signatures, registration, the test clients), which calls
  Apple's frameworks; the C tests of the trial program, the supervisor (which drive real processes) and
  the probe's storage; the layout and wording of printed lines of \<open>smc-write-trial\<close> (their
  data is); signals without a handler; the watching thread of a worker runs beside it and is modelled by
  its own function; the memory layout of an observation in the pipe is a parameter
  (\<open>observation_abi\<close>).
\<close>

section \<open>The watch and the lease agree\<close>

text \<open>The lease fed the readings of a watch, after a start with a clear intent marker.\<close>

primrec lease_feed :: "control_lease option \<Rightarrow> reading list \<Rightarrow> control_lease option" where
  "lease_feed lease [] = lease"
| "lease_feed lease (x # xs) =
     lease_feed (control_lease_sample lease (fst x) (fst (snd x)) (snd (snd x))) xs"

definition follows :: "baseline_watch \<Rightarrow> control_lease \<Rightarrow> bool" where
  "follows watch lease \<longleftrightarrow>
     watch_samples watch = watch_last_second watch + 1 \<and>
     lease_samples lease = watch_samples watch \<and>
     observation_started_ns lease = started_continuous_ns watch \<and>
     last_sample_ns lease = last_continuous_ns watch \<and>
     (watch_status watch = BASELINE_WATCH_RUNNING \<and> lease_state lease = CONTROL_LEASE_OBSERVING \<or>
      watch_status watch = BASELINE_WATCH_STABLE \<and> lease_state lease = CONTROL_LEASE_STABLE)"

lemma feed_idle:
  "watch_status watch \<noteq> BASELINE_WATCH_RUNNING \<Longrightarrow> watch_feed (Some watch) inputs = Some watch' \<Longrightarrow>
   watch' = watch"
  by (induction inputs) (auto simp: next_idle)

lemma follows_begin:
  assumes "baseline_watch_begin (Some w0) r s t = Some watch"
    and "watch_status watch = BASELINE_WATCH_RUNNING \<or> watch_status watch = BASELINE_WATCH_STABLE"
  shows "\<exists>lease. control_lease_start (Some l0) CONTROL_INTENT_CLEAR r s t = Some lease \<and>
           follows watch lease"
  using assms
  by (auto simp: baseline_watch_begin_def control_lease_start_def follows_def zero_watch_def
      zero_lease_def valid_read_def Let_def split: option.splits if_splits)

lemma next_ends:
  assumes "baseline_watch_next (Some watch) second r s t = Some watch'"
    and "watch_status watch = BASELINE_WATCH_RUNNING"
    and "watch_status watch' = BASELINE_WATCH_RUNNING \<or> watch_status watch' = BASELINE_WATCH_STABLE"
  shows "second \<le> 60 \<and> watch_status watch' =
    (if second = 60 then BASELINE_WATCH_STABLE else BASELINE_WATCH_RUNNING)"
  using assms by (auto simp: baseline_watch_next_def BASELINE_WATCH_LAST_SECOND_def Let_def not_less
      split: if_splits)

lemma last_sample_iff: "second \<le> 60 \<Longrightarrow> (61 :: u32) \<le> second + 1 \<longleftrightarrow> second = 60"
  by (simp add: word_le_nat_alt unat_word_ariths word_unat_eq_iff)

lemma follows_next:
  assumes "follows watch lease" "baseline_watch_next (Some watch) second r s t = Some watch'"
    and "watch_status watch' = BASELINE_WATCH_RUNNING \<or> watch_status watch' = BASELINE_WATCH_STABLE"
  shows "\<exists>lease'. control_lease_sample (Some lease) r s t = Some lease' \<and> follows watch' lease'"
proof (cases "watch_status watch = BASELINE_WATCH_RUNNING")
  case True
  note acc = next_accepts[OF assms(2) True assms(3)]
  have ok: "r = SMC_BASELINE_OK" "smc_baseline_is_system s" "s \<noteq> None"
    "\<not> t \<le> last_sample_ns lease" "\<not> t - last_sample_ns lease < CONTROL_LEASE_SAMPLE_MIN_NS"
    "\<not> CONTROL_LEASE_SAMPLE_MAX_NS < t - last_sample_ns lease"
    using acc assms(1) is_system_Some by (auto simp: follows_def lease_constants not_le not_less)
  have obs: "lease_state lease = CONTROL_LEASE_OBSERVING" using True assms(1) by (simp add: follows_def)
  note ends = next_ends[OF assms(2) True assms(3)]
  have samples: "CONTROL_LEASE_REQUIRED_SAMPLES \<le> lease_samples lease + 1 \<longleftrightarrow> second = 60"
    using ends acc assms(1) last_sample_iff[of second]
    by (simp add: follows_def CONTROL_LEASE_REQUIRED_SAMPLES_def)
  show ?thesis
    using ok obs samples acc ends assms(1)
    by (cases "second = 60")
       (simp_all add: control_lease_sample_def valid_read_def Let_def follows_def
         CONTROL_LEASE_BASELINE_NS_def WINDOW_NS_def)
next
  case False
  then show ?thesis
    using assms by (auto simp: follows_def next_idle control_lease_sample_def)
qed

lemma follows_feed:
  "follows watch lease \<Longrightarrow> watch_feed (Some watch) inputs = Some watch' \<Longrightarrow>
   watch_status watch' = BASELINE_WATCH_STABLE \<Longrightarrow>
   \<exists>lease'. lease_feed (Some lease) (map snd inputs) = Some lease' \<and> follows watch' lease'"
proof (induction inputs arbitrary: watch lease)
  case (Cons i inputs)
  obtain second r s t where i: "i = (second, r, s, t)" by (metis prod_cases4)
  obtain w where w: "baseline_watch_next (Some watch) second r s t = Some w" using next_some by blast
  have rest: "watch_feed (Some w) inputs = Some watch'" using Cons.prems(2) w by (simp add: i)
  have "watch_status w = BASELINE_WATCH_RUNNING \<or> watch_status w = BASELINE_WATCH_STABLE"
    using feed_idle[OF _ rest] Cons.prems(3) by metis
  then obtain l where "control_lease_sample (Some lease) r s t = Some l" "follows w l"
    using follows_next[OF Cons.prems(1) w] by blast
  then show ?case using Cons.IH[OF _ rest Cons.prems(3)] by (simp add: i)
qed simp

text \<open>C40: The watch and the lease draw the same conclusion: on readings that end a watch \<open>STABLE\<close>, a
  lease started with a clear intent marker and fed the same readings ends \<open>STABLE\<close> too, with the
  same sample count and the same first and last sample times.\<close>

theorem watch_stable_lease_stable:
  assumes "watch_run (r, s, t) inputs = Some watch" and "watch_status watch = BASELINE_WATCH_STABLE"
  shows "\<exists>lease.
    lease_feed (control_lease_start (Some zero_lease) CONTROL_INTENT_CLEAR r s t) (map snd inputs) = Some lease \<and>
    lease_state lease = CONTROL_LEASE_STABLE \<and> lease_samples lease = watch_samples watch \<and>
    observation_started_ns lease = started_continuous_ns watch \<and>
    last_sample_ns lease = last_continuous_ns watch"
proof -
  obtain w0 where w0: "baseline_watch_begin (Some zero_watch) r s t = Some w0"
    using begin_some by blast
  have run: "watch_feed (Some w0) inputs = Some watch" using assms(1) w0 by (simp add: watch_run_def)
  have "watch_status w0 = BASELINE_WATCH_RUNNING \<or> watch_status w0 = BASELINE_WATCH_STABLE"
    using feed_idle[OF _ run] assms(2) by metis
  then obtain l0 where l0: "control_lease_start (Some zero_lease) CONTROL_INTENT_CLEAR r s t = Some l0"
    "follows w0 l0"
    using follows_begin[OF w0] by blast
  obtain lease where "lease_feed (Some l0) (map snd inputs) = Some lease" "follows watch lease"
    using follows_feed[OF l0(2) run assms(2)] by blast
  then show ?thesis using l0(1) assms(2) by (auto simp: follows_def)
qed

lemma watch_stable_lease_stable_witness:
  "\<exists>lease. lease_feed (control_lease_start (Some zero_lease) CONTROL_INTENT_CLEAR SMC_BASELINE_OK
       (Some steady_snapshot) (second_ns 0)) (map snd (steady_inputs 0 60)) = Some lease \<and>
     lease_state lease = CONTROL_LEASE_STABLE \<and> lease_samples lease = 61"
  using watch_stable_lease_stable[OF steady_watch_run[unfolded steady_reading_def]]
  by (auto simp: steady_watch_def)

end
